(* ===== verification/Prelude.thy ===== *)
theory Prelude
  imports Complex_Main
begin

text \<open>
  Shared vocabulary of the development: the JavaScript values and strings the
  desktop application computes with, the error values its functions throw, and
  the collections of rewrite rules the component theories extend.

  A JavaScript string is a \<^typ>\<open>string\<close>: a list of code units. The type
  \<^typ>\<open>char\<close> has the code units 0 to 255, so the model ranges over Latin-1
  text; every character class the sources test is either inside that range or
  the complement of a class inside it.  A JavaScript number is a rational or one
  of the three special values; rounding to doubles and the sign of zero are not
  modelled.
\<close>

named_theorems js_simps "evaluation rules for JavaScript primitives"
named_theorems nav_defs "definitions of the navigation policy"

section \<open>Errors as values\<close>

text \<open>A thrown \<open>new Error(message)\<close>, or a system error carrying a \<open>code\<close>.\<close>

datatype jserror = Thrown string | Sys string

type_synonym 'a result = "jserror + 'a"

definition bind_result :: "'a result \<Rightarrow> ('a \<Rightarrow> 'b result) \<Rightarrow> 'b result" where
  "bind_result r f = (case r of Inl e \<Rightarrow> Inl e | Inr x \<Rightarrow> f x)"

lemma bind_result_simps [simp]:
  "bind_result (Inl e) f = Inl e"
  "bind_result (Inr x) f = f x"
  by (simp_all add: bind_result_def)

lemma bind_result_Inr_iff:
  "bind_result r f = Inr y \<longleftrightarrow> (\<exists>x. r = Inr x \<and> f x = Inr y)"
  by (cases r) auto

section \<open>JavaScript values\<close>

datatype jsnum = NaN | PosInfinity | NegInfinity | Fin rat

datatype jsval =
    Undefined
  | Null
  | Bool bool
  | Num jsnum
  | Str string
  | Arr "jsval list"
  | Obj "(string \<times> jsval) list"

text \<open>\<open>v[k]\<close> on an object with the own properties of the list; \<open>Undefined\<close> when absent.\<close>

fun field :: "jsval \<Rightarrow> string \<Rightarrow> jsval" where
  "field (Obj kvs) k = (case map_of kvs k of None \<Rightarrow> Undefined | Some v \<Rightarrow> v)"
| "field _ k = Undefined"

fun truthy :: "jsval \<Rightarrow> bool" where
  "truthy Undefined = False"
| "truthy Null = False"
| "truthy (Bool b) = b"
| "truthy (Num n) = (n \<noteq> NaN \<and> n \<noteq> Fin 0)"
| "truthy (Str s) = (s \<noteq> [])"
| "truthy (Arr _) = True"
| "truthy (Obj _) = True"

text \<open>\<open>typeof v === 'object'\<close> for a value already known to be truthy.\<close>

fun is_object :: "jsval \<Rightarrow> bool" where
  "is_object (Arr _) = True"
| "is_object (Obj _) = True"
| "is_object _ = False"

fun as_string :: "jsval \<Rightarrow> string option" where
  "as_string (Str s) = Some s"
| "as_string _ = None"

fun as_number :: "jsval \<Rightarrow> jsnum option" where
  "as_number (Num n) = Some n"
| "as_number _ = None"

lemma as_string_Some [simp]: "as_string v = Some s \<longleftrightarrow> v = Str s"
  by (cases v) auto

lemma as_number_Some [simp]: "as_number v = Some n \<longleftrightarrow> v = Num n"
  by (cases v) auto

lemma is_object_truthy: "is_object v \<Longrightarrow> truthy v"
  by (cases v) auto

text \<open>
  Strict equality \<open>===\<close>.  Objects are compared by identity; two values that were parsed
  separately are never the same object.
\<close>

fun strict_eq :: "jsval \<Rightarrow> jsval \<Rightarrow> bool" where
  "strict_eq (Num NaN) w = False"
| "strict_eq (Obj xs) w = False"
| "strict_eq (Arr xs) w = False"
| "strict_eq v w = (v = w)"

fun jsnum_less :: "jsnum \<Rightarrow> jsnum \<Rightarrow> bool" where
  "jsnum_less NaN _ = False"
| "jsnum_less _ NaN = False"
| "jsnum_less NegInfinity y = (y \<noteq> NegInfinity)"
| "jsnum_less _ NegInfinity = False"
| "jsnum_less PosInfinity _ = False"
| "jsnum_less (Fin _) PosInfinity = True"
| "jsnum_less (Fin a) (Fin b) = (a < b)"

definition jsnum_ge0 :: "jsnum \<Rightarrow> bool" where
  "jsnum_ge0 n = (n = Fin 0 \<or> jsnum_less (Fin 0) n)"

definition is_finite_num :: "jsnum \<Rightarrow> bool" where
  "is_finite_num n = (case n of Fin _ \<Rightarrow> True | _ \<Rightarrow> False)"

text \<open>\<open>Number.isInteger\<close> and \<open>Number.isSafeInteger\<close>.\<close>

fun as_integer :: "jsnum \<Rightarrow> int option" where
  "as_integer (Fin q) = (if of_int \<lfloor>q\<rfloor> = q then Some \<lfloor>q\<rfloor> else None)"
| "as_integer _ = None"

definition is_safe_integer :: "jsnum \<Rightarrow> bool" where
  "is_safe_integer n = (case as_integer n of None \<Rightarrow> False | Some i \<Rightarrow> \<bar>i\<bar> \<le> 9007199254740991)"

section \<open>Strings\<close>

abbreviation code :: "char \<Rightarrow> nat" where
  "code c \<equiv> of_char c"

definition is_ws :: "char \<Rightarrow> bool" where
  "is_ws c = (code c \<in> {9, 10, 11, 12, 13, 32, 160})"

definition is_control :: "char \<Rightarrow> bool" where
  "is_control c = (code c < 32 \<or> code c = 127)"

definition is_digit :: "char \<Rightarrow> bool" where
  "is_digit c = (48 \<le> code c \<and> code c \<le> 57)"

definition is_lower :: "char \<Rightarrow> bool" where
  "is_lower c = (97 \<le> code c \<and> code c \<le> 122)"

definition is_upper :: "char \<Rightarrow> bool" where
  "is_upper c = (65 \<le> code c \<and> code c \<le> 90)"

definition is_alpha :: "char \<Rightarrow> bool" where
  "is_alpha c = (is_lower c \<or> is_upper c)"

definition is_alnum :: "char \<Rightarrow> bool" where
  "is_alnum c = (is_alpha c \<or> is_digit c)"

definition is_hex_lower :: "char \<Rightarrow> bool" where
  "is_hex_lower c = (is_digit c \<or> 97 \<le> code c \<and> code c \<le> 102)"

definition is_hex :: "char \<Rightarrow> bool" where
  "is_hex c = (is_hex_lower c \<or> 65 \<le> code c \<and> code c \<le> 70)"

lemmas char_class_defs [js_simps] =
  is_ws_def is_control_def is_digit_def is_lower_def is_upper_def is_alpha_def
  is_alnum_def is_hex_lower_def is_hex_def

definition trim :: "string \<Rightarrow> string" where
  "trim s = rev (dropWhile is_ws (rev (dropWhile is_ws s)))"

text \<open>\<open>toLowerCase\<close> on Latin-1: A--Z and the accented capitals, the multiplication sign excepted.\<close>

definition lower_char :: "char \<Rightarrow> char" where
  "lower_char c = (if is_upper c \<or> (192 \<le> code c \<and> code c \<le> 222 \<and> code c \<noteq> 215)
                   then char_of (code c + 32) else c)"

definition to_lower :: "string \<Rightarrow> string" where
  "to_lower s = map lower_char s"

fun starts_with :: "string \<Rightarrow> string \<Rightarrow> bool" where
  "starts_with s [] = True"
| "starts_with [] (p # ps) = False"
| "starts_with (c # s) (p # ps) = (c = p \<and> starts_with s ps)"

definition ends_with :: "string \<Rightarrow> string \<Rightarrow> bool" where
  "ends_with s p = starts_with (rev s) (rev p)"

fun str_includes :: "string \<Rightarrow> string \<Rightarrow> bool" where
  "str_includes [] p = (p = [])"
| "str_includes (c # s) p = (starts_with (c # s) p \<or> str_includes s p)"

text \<open>\<open>s.indexOf(p)\<close> counted from an offset; \<open>-1\<close> when there is no occurrence.\<close>

fun index_from :: "nat \<Rightarrow> string \<Rightarrow> string \<Rightarrow> int" where
  "index_from n [] p = (if p = [] then int n else -1)"
| "index_from n (c # s) p = (if starts_with (c # s) p then int n else index_from (Suc n) s p)"

definition index_of :: "string \<Rightarrow> string \<Rightarrow> int \<Rightarrow> int" where
  "index_of s p from = (let k = min (nat from) (length s) in index_from k (drop k s) p)"

text \<open>\<open>s.slice(a, b)\<close>: negative indices count from the end.\<close>

definition slice_index :: "nat \<Rightarrow> int \<Rightarrow> nat" where
  "slice_index n i = (if i < 0 then nat (int n + i) else min (nat i) n)"

definition slice :: "'a list \<Rightarrow> int \<Rightarrow> int \<Rightarrow> 'a list" where
  "slice s a b = (let i = slice_index (length s) a; j = slice_index (length s) b
                  in take (j - i) (drop i s))"

definition slice_from :: "'a list \<Rightarrow> int \<Rightarrow> 'a list" where
  "slice_from s a = drop (slice_index (length s) a) s"

text \<open>\<open>s.split(c)\<close> for a separator of one code unit; the result is never empty.\<close>

fun split_char :: "char \<Rightarrow> string \<Rightarrow> string list" where
  "split_char d [] = [[]]"
| "split_char d (c # s) =
     (if c = d then [] # split_char d s
      else case split_char d s of [] \<Rightarrow> [[c]] | w # ws \<Rightarrow> (c # w) # ws)"

subsection \<open>Facts about strings\<close>

lemma starts_with_iff: "starts_with s p \<longleftrightarrow> (\<exists>t. s = p @ t)"
  by (induction s p rule: starts_with.induct) auto

lemma starts_with_append [simp]: "starts_with (p @ t) p"
  by (simp add: starts_with_iff)

lemma str_includes_iff: "str_includes s p \<longleftrightarrow> (\<exists>u v. s = u @ p @ v)"
proof (induction s)
  case Nil
  then show ?case by auto
next
  case (Cons c s)
  have "(\<exists>u v. c # s = u @ p @ v) \<longleftrightarrow> starts_with (c # s) p \<or> (\<exists>u v. s = u @ p @ v)"
    by (metis (no_types, opaque_lifting) Cons_eq_append_conv append_Cons append_Nil starts_with_iff)
  with Cons.IH show ?case by simp
qed

lemma str_includes_single [simp]: "str_includes s [c] \<longleftrightarrow> c \<in> set s"
  by (induction s) (auto simp: starts_with_iff)

lemma split_char_ne [simp]: "split_char d s \<noteq> []"
  by (cases s) (auto split: list.splits)

lemma split_char_pieces: "w \<in> set (split_char d s) \<Longrightarrow> d \<notin> set w"
proof (induction s arbitrary: w)
  case (Cons c s)
  obtain v vs where vs: "split_char d s = v # vs"
    using split_char_ne by (metis list.exhaust)
  with Cons show ?case by (auto split: if_splits)
qed simp

text \<open>Splitting loses nothing: joining the pieces with the separator gives the string back.\<close>

fun join_char :: "char \<Rightarrow> string list \<Rightarrow> string" where
  "join_char d [] = []"
| "join_char d [w] = w"
| "join_char d (w # v # ws) = w @ d # join_char d (v # ws)"

lemma join_char_Cons_first: "join_char d ((c # w) # ws) = c # join_char d (w # ws)"
  by (cases ws) auto

lemma join_split [simp]: "join_char d (split_char d s) = s"
proof (induction s)
  case (Cons c s)
  obtain v vs where vs: "split_char d s = v # vs"
    using split_char_ne by (metis list.exhaust)
  with Cons show ?case by (simp add: join_char_Cons_first)
qed simp

lemma split_char_append:
  "split_char d (s @ d # t) = split_char d s @ split_char d t"
proof (induction s)
  case (Cons c s)
  obtain v vs where vs: "split_char d s = v # vs"
    using split_char_ne by (metis list.exhaust)
  with Cons show ?case by simp
qed simp

lemma split_char_no_sep [simp]: "d \<notin> set s \<Longrightarrow> split_char d s = [s]"
  by (induction s) auto

lemma split_char_append_last:
  "split_char d (s @ t) = butlast (split_char d s) @ split_char d (last (split_char d s) @ t)"
proof (induction s)
  case (Cons c s)
  obtain v vs where vs: "split_char d s = v # vs"
    using split_char_ne by (metis list.exhaust)
  show ?case
  proof (cases "c = d")
    case False
    with Cons vs show ?thesis by (cases vs) auto
  qed (use Cons vs in auto)
qed simp

lemma last_split_no_sep: "d \<notin> set (last (split_char d s))"
  by (rule split_char_pieces) (rule last_in_set, simp)

lemma length_last_split: "length (last (split_char d s)) \<le> length s"
proof (induction s)
  case (Cons c s)
  obtain v vs where vs: "split_char d s = v # vs"
    using split_char_ne by (metis list.exhaust)
  with Cons show ?case by (cases vs) auto
qed simp

lemma trim_subset: "set (trim s) \<subseteq> set s"
  by (auto simp: trim_def dest!: set_dropWhileD)

lemma length_to_lower [simp]: "length (to_lower s) = length s"
  by (simp add: to_lower_def)

lemma length_slice_le: "length (slice s a b) \<le> length s"
  by (simp add: slice_def Let_def)

section \<open>The JavaScript runtime\<close>

text \<open>
  The WHATWG URL parser and \<open>decodeURIComponent\<close> are code of the runtime, not of
  the application.  Definitions that call them take this record as an argument.
\<close>

text \<open>The properties of a parsed \<open>URL\<close> object the sources read.\<close>

record url =
  url_href :: string
  url_protocol :: string
  url_username :: string
  url_password :: string
  url_hostname :: string
  url_port :: string
  url_pathname :: string
  url_search :: string
  url_hash :: string
  url_origin :: string

record runtime =
  new_URL :: "string \<Rightarrow> url option"
  clear_hash :: "url \<Rightarrow> url"
  decodeURIComponent :: "string \<Rightarrow> string option"

section \<open>POSIX paths\<close>

text \<open>\<open>node:path\<close> on POSIX: a path is its list of segments under the root.\<close>

definition path_segments :: "string \<Rightarrow> string list" where
  "path_segments p = filter (\<lambda>w. w \<noteq> []) (split_char (CHR ''/'') p)"

fun normalize_segments :: "string list \<Rightarrow> string list \<Rightarrow> string list" where
  "normalize_segments acc [] = rev acc"
| "normalize_segments acc (w # ws) =
     (if w = ''.'' then normalize_segments acc ws
      else if w = ''..'' then normalize_segments (tl acc) ws
      else normalize_segments (w # acc) ws)"

definition is_absolute :: "string \<Rightarrow> bool" where
  "is_absolute p = starts_with p ''/''"

definition path_string :: "string list \<Rightarrow> string" where
  "path_string ws = (if ws = [] then ''/'' else concat (map (\<lambda>w. CHR ''/'' # w) ws))"

text \<open>The segments of an absolute path; \<open>path.resolve\<close> of it is their printed form.\<close>

definition resolve_segments :: "string \<Rightarrow> string list" where
  "resolve_segments p = normalize_segments [] (path_segments p)"

definition resolve :: "string \<Rightarrow> string" where
  "resolve p = path_string (resolve_segments p)"

definition basename :: "string \<Rightarrow> string" where
  "basename p = (case rev (path_segments p) of [] \<Rightarrow> [] | w # _ \<Rightarrow> w)"

fun drop_common :: "'a list \<Rightarrow> 'a list \<Rightarrow> 'a list \<times> 'a list" where
  "drop_common (x # xs) (y # ys) = (if x = y then drop_common xs ys else (x # xs, y # ys))"
| "drop_common xs ys = (xs, ys)"

text \<open>\<open>path.relative(from, to)\<close> as a list of segments.\<close>

definition relative_segments :: "string list \<Rightarrow> string list \<Rightarrow> string list" where
  "relative_segments from to =
     (case drop_common from to of (up, down) \<Rightarrow> map (\<lambda>_. ''..'') up @ down)"

text \<open>A segment that \<open>path.join\<close> appends unchanged.\<close>

definition plain_segment :: "string \<Rightarrow> bool" where
  "plain_segment w = (w \<noteq> [] \<and> w \<noteq> ''.'' \<and> w \<noteq> ''..'' \<and> CHR ''/'' \<notin> set w)"

lemma normalize_plain:
  "list_all (\<lambda>w. w \<noteq> ''.'' \<and> w \<noteq> ''..'') ws \<Longrightarrow> normalize_segments acc ws = rev acc @ ws"
  by (induction ws arbitrary: acc) auto

lemma drop_common_append [simp]: "drop_common xs (xs @ ys) = ([], ys)"
proof (induction xs)
  case Nil
  show ?case by (cases ys) auto
qed simp

lemma relative_below: "relative_segments d (d @ ws) = ws"
  by (simp add: relative_segments_def)

lemma drop_common_prefix: "fst (drop_common xs ys) = [] \<Longrightarrow> \<exists>zs. ys = xs @ zs \<and> snd (drop_common xs ys) = zs"
  by (induction xs ys rule: drop_common.induct) (auto split: if_splits)

section \<open>Sorting\<close>

text \<open>\<open>Array.prototype.sort\<close> with a comparator: stable.\<close>

fun insort_cmp :: "('a \<Rightarrow> 'a \<Rightarrow> int) \<Rightarrow> 'a \<Rightarrow> 'a list \<Rightarrow> 'a list" where
  "insort_cmp cmp x [] = [x]"
| "insort_cmp cmp x (y # ys) = (if cmp x y \<le> 0 then x # y # ys else y # insort_cmp cmp x ys)"

definition sort_cmp :: "('a \<Rightarrow> 'a \<Rightarrow> int) \<Rightarrow> 'a list \<Rightarrow> 'a list" where
  "sort_cmp cmp xs = foldr (insort_cmp cmp) xs []"

lemma set_insort_cmp: "set (insort_cmp cmp x xs) = insert x (set xs)"
  by (induction xs) auto

lemma set_sort_cmp: "set (sort_cmp cmp xs) = set xs"
  by (induction xs) (simp_all add: sort_cmp_def set_insort_cmp)

section \<open>Objects with string values\<close>

text \<open>\<open>object[k] = v\<close>: an existing key keeps its place, a new one goes to the end.\<close>

fun set_entry :: "string \<Rightarrow> string \<Rightarrow> (string \<times> string) list \<Rightarrow> (string \<times> string) list" where
  "set_entry k v [] = [(k, v)]"
| "set_entry k v ((k', v') # es) = (if k' = k then (k, v) # es else (k', v') # set_entry k v es)"

lemma set_entry_fresh: "k \<notin> fst ` set es \<Longrightarrow> set_entry k v es = es @ [(k, v)]"
  by (induction es) auto

lemma map_of_set_entry: "map_of (set_entry k v es) = (map_of es)(k \<mapsto> v)"
  by (induction es) (auto simp: fun_eq_iff)

lemma keys_set_entry: "fst ` set (set_entry k v es) = insert k (fst ` set es)"
  by (induction k v es rule: set_entry.induct) auto

lemma set_entry_subset: "set (set_entry k v es) \<subseteq> insert (k, v) (set es)"
  by (induction k v es rule: set_entry.induct) auto

lemma distinct_set_entry: "distinct (map fst es) \<Longrightarrow> distinct (map fst (set_entry k v es))"
  by (induction k v es rule: set_entry.induct) (auto simp: keys_set_entry [unfolded image_def] image_def keys_set_entry)

lemma length_set_entry: "length (set_entry k v es) \<le> Suc (length es)"
  by (induction k v es rule: set_entry.induct) auto

section \<open>Step systems\<close>

text \<open>
  The interface of every stateful component: an initial state, a step relation and
  an invariant that holds initially and is kept by every step.  What follows for all
  reachable states is proved once here.
\<close>

locale step_invariant =
  fixes init :: "'s"
    and step :: "'s \<Rightarrow> 's \<Rightarrow> bool"
    and inv :: "'s \<Rightarrow> bool"
  assumes inv_init: "inv init"
    and inv_step: "inv s \<Longrightarrow> step s s' \<Longrightarrow> inv s'"
begin

lemma inv_steps: "rtranclp step s s' \<Longrightarrow> inv s \<Longrightarrow> inv s'"
  by (induction rule: rtranclp_induct) (auto intro: inv_step)

lemma inv_reachable: "rtranclp step init s \<Longrightarrow> inv s"
  by (rule inv_steps [OF _ inv_init])

end

text \<open>
  A promise about every later state: a preorder on states that each step respects,
  such as ``this field never changes once it is set''.
\<close>

locale step_preorder =
  fixes step :: "'s \<Rightarrow> 's \<Rightarrow> bool"
    and below :: "'s \<Rightarrow> 's \<Rightarrow> bool"
  assumes below_refl: "below s s"
    and below_trans: "below s t \<Longrightarrow> below t u \<Longrightarrow> below s u"
    and below_step: "step s s' \<Longrightarrow> below s s'"
begin

lemma below_steps: "rtranclp step s s' \<Longrightarrow> below s s'"
  by (induction rule: rtranclp_induct) (auto intro: below_refl below_trans below_step)

end

end
