(* ===== verification/NavigationPolicy.thy ===== *)
theory NavigationPolicy
  imports Prelude
begin

text \<open>
  The navigation policy of the privileged window
  (\<open>apps/desktop/electron/security/navigation-policy.ts\<close>): the strict URL
  filter, the classification of targets, the decisions for top-level navigation
  and for \<open>window.open\<close>, and the guards that enforce them.

  The WHATWG URL parser, the setter \<open>url.hash = ''\<close> and
  \<open>decodeURIComponent\<close> belong to the JavaScript runtime: they are the fields
  of a record the definitions take as an argument, and no theorem below assumes
  more of them than it states.
\<close>

section \<open>Data\<close>

datatype NavigationDenyReason =
  malformed_url | dangerous_scheme | invalid_artifact | untrusted_file

datatype NavigationDecision =
    allow_current_document
  | deny NavigationDenyReason
  | open_external string
  | open_artifact string

record TopLevelNavigationInput =
  targetUrl :: string
  currentDocumentUrl :: string
  trustedDocumentUrl :: string

text \<open>The observable actions of the guards, in the order they are performed.\<close>

datatype nav_effect = PreventDefault | OpenExternal string | OpenArtifact string

datatype document_mode = development | production

definition MAX_URL_LENGTH :: nat where
  "MAX_URL_LENGTH = 8192"

section \<open>The strict URL filter\<close>

text \<open>\<open>/%(?![0-9a-fA-F]{2})/\<close>: a percent sign that does not start an escape.\<close>

fun INVALID_PERCENT_ESCAPE :: "string \<Rightarrow> bool" where
  "INVALID_PERCENT_ESCAPE [] = False"
| "INVALID_PERCENT_ESCAPE (c # s) =
     (c = CHR ''%'' \<and> \<not> (case s of a # b # _ \<Rightarrow> is_hex a \<and> is_hex b | _ \<Rightarrow> False)
      \<or> INVALID_PERCENT_ESCAPE s)"

definition INVALID_ARTIFACT_CHAR :: "char \<Rightarrow> bool" where
  "INVALID_ARTIFACT_CHAR c = (c \<in> set ''<>:/|?*'' \<or> c = CHR 0x22 \<or> c = CHR 0x5C \<or> is_control c)"

definition nonneg :: "int list \<Rightarrow> int list" where
  "nonneg = filter (\<lambda>i. 0 \<le> i)"

fun min_list_from :: "int \<Rightarrow> int list \<Rightarrow> int" where
  "min_list_from m [] = m"
| "min_list_from m (x # xs) = min_list_from (min m x) xs"

definition math_min :: "int list \<Rightarrow> int \<Rightarrow> int" where
  "math_min xs dflt = (case xs of [] \<Rightarrow> dflt | x # r \<Rightarrow> min_list_from x r)"

definition getRawAuthority :: "string \<Rightarrow> string option" where
  "getRawAuthority raw =
     (let scheme = index_of raw ''://'' 0
      in if scheme < 0 then None
         else
           let authorityStart = scheme + 3;
               authorityEndCandidates =
                 nonneg [index_of raw ''/'' authorityStart, index_of raw ''?'' authorityStart,
                         index_of raw ''#'' authorityStart];
               authorityEnd = math_min authorityEndCandidates (int (length raw))
           in Some (slice raw authorityStart authorityEnd))"

definition hasRawUserInfo :: "string \<Rightarrow> bool" where
  "hasRawUserInfo raw =
     (case getRawAuthority raw of None \<Rightarrow> False | Some a \<Rightarrow> str_includes a ''@'')"

definition parseStrictAbsoluteUrl :: "runtime \<Rightarrow> string \<Rightarrow> url option" where
  "parseStrictAbsoluteUrl rt raw =
     (if raw = [] \<or> MAX_URL_LENGTH < length raw \<or> raw \<noteq> trim raw \<or> list_ex is_control raw
         \<or> str_includes raw [CHR 0x5C] \<or> INVALID_PERCENT_ESCAPE raw
      then None
      else case new_URL rt raw of
             None \<Rightarrow> None
           | Some parsed \<Rightarrow>
               if url_username parsed \<noteq> [] \<or> url_password parsed \<noteq> [] \<or> hasRawUserInfo raw
               then None else Some parsed)"

definition isSafeWebUrl :: "url \<Rightarrow> bool" where
  "isSafeWebUrl parsed =
     ((url_protocol parsed = ''http:'' \<or> url_protocol parsed = ''https:'')
      \<and> 0 < length (url_hostname parsed))"

text \<open>\<open>(?::\d{1,5})?$\<close>: what may follow the host of an authority.\<close>

definition optional_port :: "string \<Rightarrow> bool" where
  "optional_port s =
     (case s of [] \<Rightarrow> True
      | c # ds \<Rightarrow> c = CHR '':'' \<and> 1 \<le> length ds \<and> length ds \<le> 5 \<and> list_all is_digit ds)"

definition ascii_lower :: "string \<Rightarrow> string" where
  "ascii_lower = map (\<lambda>c. if is_upper c then char_of (code c + 32) else c)"

definition host_then_port :: "string \<Rightarrow> string \<Rightarrow> bool" where
  "host_then_port host authority =
     (starts_with authority host \<and> optional_port (drop (length host) authority))"

text \<open>\<open>/^\[[0-9a-f:]+\](?::\d{1,5})?$/i\<close>: a bracketed literal of hex digits and colons.\<close>

definition bracketed_ipv6 :: "string \<Rightarrow> bool" where
  "bracketed_ipv6 authority =
     (case authority of [] \<Rightarrow> False
      | c # s \<Rightarrow>
          let body = takeWhile (\<lambda>d. is_hex d \<or> d = CHR '':'') s;
              rest = dropWhile (\<lambda>d. is_hex d \<or> d = CHR '':'') s
          in c = CHR ''['' \<and> body \<noteq> [] \<and>
             (case rest of [] \<Rightarrow> False | d # p \<Rightarrow> d = CHR '']'' \<and> optional_port p))"

definition isLoopbackDevelopmentUrl :: "string \<Rightarrow> url \<Rightarrow> bool" where
  "isLoopbackDevelopmentUrl raw parsed =
     (if \<not> isSafeWebUrl parsed then False
      else case getRawAuthority raw of
             None \<Rightarrow> False
           | Some authority \<Rightarrow>
               if authority = [] \<or> str_includes authority ''@'' then False
               else if host_then_port ''localhost'' (ascii_lower authority)
                 then url_hostname parsed = ''localhost''
               else if host_then_port ''127.0.0.1'' authority
                 then url_hostname parsed = ''127.0.0.1''
               else if bracketed_ipv6 authority
                 then url_hostname parsed = ''[::1]''
               else False)"

text \<open>\<open>new URL(parsed.href)\<close> may throw; the copy's hash is cleared before its \<open>href\<close> is read.\<close>

definition withoutHash :: "runtime \<Rightarrow> url \<Rightarrow> string result" where
  "withoutHash rt parsed =
     (case new_URL rt (url_href parsed) of
        None \<Rightarrow> Inl (Thrown ''Invalid URL'')
      | Some copy \<Rightarrow> Inr (url_href (clear_hash rt copy)))"

definition isBootstrapDocument :: "string \<Rightarrow> url option \<Rightarrow> bool" where
  "isBootstrapDocument raw parsed =
     (length raw = 0 \<or> (case parsed of None \<Rightarrow> False | Some u \<Rightarrow> url_href u = ''about:blank''))"

section \<open>Classification of targets\<close>

definition parseArtifactId :: "runtime \<Rightarrow> string \<Rightarrow> url \<Rightarrow> string option" where
  "parseArtifactId rt raw parsed =
     (if url_protocol parsed \<noteq> ''awp:'' \<or> url_hostname parsed \<noteq> ''artifact''
         \<or> url_port parsed \<noteq> [] \<or> url_search parsed \<noteq> [] \<or> url_hash parsed \<noteq> []
         \<or> \<not> starts_with (url_pathname parsed) ''/''
      then None
      else
        let authorityStart = index_of raw ''://'' 0 + 3;
            rawPathStart = index_of raw ''/'' authorityStart;
            rawPathEndCandidates =
              nonneg [index_of raw ''?'' rawPathStart, index_of raw ''#'' rawPathStart];
            rawPathEnd = math_min rawPathEndCandidates (int (length raw));
            rawSegments =
              (if authorityStart \<le> rawPathStart
               then split_char (CHR ''/'') (slice raw (rawPathStart + 1) rawPathEnd) else [])
        in if length rawSegments \<noteq> 1 then None
           else case decodeURIComponent rt (slice_from (url_pathname parsed) 1) of
                  None \<Rightarrow> None
                | Some artifactId \<Rightarrow>
                    if length artifactId = 0 \<or> 255 < length artifactId \<or> artifactId = ''.''
                       \<or> artifactId = ''..'' \<or> list_ex INVALID_ARTIFACT_CHAR artifactId
                    then None else Some artifactId)"

definition classifySpecialTarget :: "runtime \<Rightarrow> string \<Rightarrow> url \<Rightarrow> NavigationDecision option" where
  "classifySpecialTarget rt raw parsed =
     (if url_protocol parsed = ''awp:''
      then (case parseArtifactId rt raw parsed of
              Some artifactId \<Rightarrow>
                if artifactId \<noteq> [] then Some (open_artifact artifactId)
                else Some (deny invalid_artifact)
            | None \<Rightarrow> Some (deny invalid_artifact))
      else if isSafeWebUrl parsed then None
      else if url_protocol parsed = ''file:'' then None
      else Some (deny dangerous_scheme))"

definition normalizeTrustedDocumentUrl ::
  "runtime \<Rightarrow> string \<Rightarrow> document_mode \<Rightarrow> string option" where
  "normalizeTrustedDocumentUrl rt raw mode =
     (case parseStrictAbsoluteUrl rt raw of
        None \<Rightarrow> None
      | Some parsed \<Rightarrow>
          if mode = development
          then (if isLoopbackDevelopmentUrl raw parsed then Some (url_href parsed) else None)
          else if url_protocol parsed = ''file:''
                  \<and> (url_hostname parsed = [] \<or> url_hostname parsed = ''localhost'')
               then Some (url_href parsed) else None)"

section \<open>Decisions\<close>

text \<open>
  The comparison of the \<open>file:\<close> branch.  JavaScript evaluates \<open>a || (b && c)\<close>
  lazily, so \<open>withoutHash\<close> runs (and may throw) only when it is reached.
\<close>

definition same_document :: "runtime \<Rightarrow> url \<Rightarrow> url \<Rightarrow> bool result" where
  "same_document rt a b =
     bind_result (withoutHash rt a) (\<lambda>x. bind_result (withoutHash rt b) (\<lambda>y. Inr (x = y)))"

definition file_current_is_trusted ::
  "runtime \<Rightarrow> string \<Rightarrow> url option \<Rightarrow> url \<Rightarrow> bool result" where
  "file_current_is_trusted rt rawCurrent current trusted =
     (if isBootstrapDocument rawCurrent current then Inr True
      else case current of
             None \<Rightarrow> Inr False
           | Some c \<Rightarrow>
               if url_protocol c = ''file:'' then same_document rt c trusted else Inr False)"

definition decideTopLevelNavigation ::
  "runtime \<Rightarrow> TopLevelNavigationInput \<Rightarrow> NavigationDecision result" where
  "decideTopLevelNavigation rt inp =
     (case parseStrictAbsoluteUrl rt (targetUrl inp) of
        None \<Rightarrow> Inr (deny malformed_url)
      | Some target \<Rightarrow>
         (case classifySpecialTarget rt (targetUrl inp) target of
            Some special \<Rightarrow> Inr special
          | None \<Rightarrow>
             (let trusted0 = parseStrictAbsoluteUrl rt (trustedDocumentUrl inp);
                  current = parseStrictAbsoluteUrl rt (currentDocumentUrl inp)
              in case trusted0 of
                   None \<Rightarrow> Inr (deny malformed_url)
                 | Some trusted \<Rightarrow>
                    if isSafeWebUrl target
                    then
                      (let trustedIsWeb = isSafeWebUrl trusted;
                           currentIsTrusted =
                             (isBootstrapDocument (currentDocumentUrl inp) current
                              \<or> (case current of None \<Rightarrow> False
                                 | Some c \<Rightarrow> isSafeWebUrl c \<and> url_origin c = url_origin trusted))
                       in if trustedIsWeb \<and> currentIsTrusted
                             \<and> url_origin target = url_origin trusted
                          then Inr allow_current_document
                          else Inr (open_external (url_href target)))
                    else if url_protocol target = ''file:''
                    then
                      bind_result
                        (file_current_is_trusted rt (currentDocumentUrl inp) current trusted)
                        (\<lambda>currentIsTrusted.
                           if url_protocol trusted = ''file:'' \<and> currentIsTrusted
                           then bind_result (same_document rt target trusted)
                                  (\<lambda>same. if same then Inr allow_current_document
                                          else Inr (deny untrusted_file))
                           else Inr (deny untrusted_file))
                    else Inr (deny dangerous_scheme))))"

definition decideWindowOpen :: "runtime \<Rightarrow> string \<Rightarrow> NavigationDecision" where
  "decideWindowOpen rt target0 =
     (case parseStrictAbsoluteUrl rt target0 of
        None \<Rightarrow> deny malformed_url
      | Some target \<Rightarrow>
         (case classifySpecialTarget rt target0 target of
            Some special \<Rightarrow> special
          | None \<Rightarrow>
              if isSafeWebUrl target then open_external (url_href target)
              else if url_protocol target = ''file:'' then deny untrusted_file
              else deny dangerous_scheme))"

section \<open>Enforcement\<close>

fun applyNavigationSideEffect :: "NavigationDecision \<Rightarrow> nav_effect list" where
  "applyNavigationSideEffect (open_external u) = [OpenExternal u]"
| "applyNavigationSideEffect (open_artifact a) = [OpenArtifact a]"
| "applyNavigationSideEffect _ = []"

definition enforceTopLevelNavigation ::
  "runtime \<Rightarrow> TopLevelNavigationInput \<Rightarrow> (NavigationDecision \<times> nav_effect list) result" where
  "enforceTopLevelNavigation rt inp =
     bind_result (decideTopLevelNavigation rt inp)
       (\<lambda>decision.
          if decision \<noteq> allow_current_document
          then Inr (decision, PreventDefault # applyNavigationSideEffect decision)
          else Inr (decision, []))"

text \<open>The result of \<open>window.open\<close> is always the denied action.\<close>

datatype window_open_action = DenyWindow

definition enforceWindowOpenPolicy ::
  "runtime \<Rightarrow> string \<Rightarrow> window_open_action \<times> nav_effect list" where
  "enforceWindowOpenPolicy rt target0 =
     (DenyWindow, applyNavigationSideEffect (decideWindowOpen rt target0))"

text \<open>The listeners a window ends up with; \<open>getURL\<close> is read when the event fires.\<close>

datatype guard_event = will_navigate string | will_redirect string | window_open string

fun installNavigationGuards ::
  "runtime \<Rightarrow> string \<Rightarrow> string \<Rightarrow> guard_event \<Rightarrow> nav_effect list result" where
  "installNavigationGuards rt trusted current (will_navigate u) =
     bind_result (enforceTopLevelNavigation rt
         \<lparr>targetUrl = u, currentDocumentUrl = current, trustedDocumentUrl = trusted\<rparr>)
       (\<lambda>r. Inr (snd r))"
| "installNavigationGuards rt trusted current (will_redirect u) =
     bind_result (enforceTopLevelNavigation rt
         \<lparr>targetUrl = u, currentDocumentUrl = current, trustedDocumentUrl = trusted\<rparr>)
       (\<lambda>r. Inr (snd r))"
| "installNavigationGuards rt trusted current (window_open u) =
     Inr (snd (enforceWindowOpenPolicy rt u))"

section \<open>Helper lemmas\<close>

lemmas [nav_defs] =
  parseStrictAbsoluteUrl_def classifySpecialTarget_def parseArtifactId_def

lemma parseStrict_SomeD:
  assumes "parseStrictAbsoluteUrl rt raw = Some u"
  shows "new_URL rt raw = Some u" "raw \<noteq> []" "length raw \<le> MAX_URL_LENGTH"
    "trim raw = raw" "list_all (\<lambda>c. \<not> is_control c) raw" "CHR 0x5C \<notin> set raw"
    "\<not> INVALID_PERCENT_ESCAPE raw" "\<not> hasRawUserInfo raw"
    "url_username u = []" "url_password u = []"
  using assms
  by (auto simp: parseStrictAbsoluteUrl_def list_ex_iff list_all_iff split: if_splits option.splits)

text \<open>An artifact id the policy hands out names one entry of a directory and nothing else.\<close>

definition safe_artifact_name :: "string \<Rightarrow> bool" where
  "safe_artifact_name a =
     (a \<noteq> [] \<and> length a \<le> 255 \<and> a \<noteq> ''.'' \<and> a \<noteq> ''..''
      \<and> list_all (\<lambda>c. \<not> INVALID_ARTIFACT_CHAR c) a)"

lemma parseArtifactId_safe:
  "parseArtifactId rt raw u = Some a \<Longrightarrow> safe_artifact_name a"
  by (auto simp: parseArtifactId_def safe_artifact_name_def Let_def list_ex_iff list_all_iff
      split: if_splits option.splits)

lemma classifySpecial_cases:
  assumes "classifySpecialTarget rt raw u = Some d"
  shows "(\<exists>r. d = deny r) \<or> (\<exists>a. d = open_artifact a \<and> safe_artifact_name a)"
  using assms parseArtifactId_safe
  by (auto simp: classifySpecialTarget_def split: if_splits option.splits)

lemma classifySpecial_None_iff:
  "classifySpecialTarget rt raw u = None \<longleftrightarrow>
     url_protocol u \<noteq> ''awp:'' \<and> (isSafeWebUrl u \<or> url_protocol u = ''file:'')"
  by (auto simp: classifySpecialTarget_def split: option.splits)

text \<open>A URL that may be handed to the operating system's browser.\<close>

definition safe_external :: "runtime \<Rightarrow> string \<Rightarrow> bool" where
  "safe_external rt h =
     (\<exists>raw u. parseStrictAbsoluteUrl rt raw = Some u \<and> isSafeWebUrl u \<and> h = url_href u)"

lemma isSafeWeb_not_file: "isSafeWebUrl u \<Longrightarrow> url_protocol u \<noteq> ''file:'' \<and> url_protocol u \<noteq> ''awp:''"
  by (auto simp: isSafeWebUrl_def)

fun decision_ok :: "runtime \<Rightarrow> NavigationDecision \<Rightarrow> bool" where
  "decision_ok rt (open_external h) = safe_external rt h"
| "decision_ok rt (open_artifact a) = safe_artifact_name a"
| "decision_ok rt _ = True"

lemma special_decision_ok:
  "classifySpecialTarget rt raw u = Some d \<Longrightarrow> decision_ok rt d"
  by (drule classifySpecial_cases) auto

lemma decideTopLevel_ok: "decideTopLevelNavigation rt inp = Inr d \<Longrightarrow> decision_ok rt d"
  by (fastforce simp: decideTopLevelNavigation_def Let_def bind_result_Inr_iff safe_external_def
      dest: special_decision_ok split: option.splits if_splits)

lemma decideWindowOpen_ok: "decision_ok rt (decideWindowOpen rt raw)"
  by (auto simp: decideWindowOpen_def safe_external_def
      dest: special_decision_ok split: option.splits)

lemma effects_of_ok_decision:
  assumes "decision_ok rt d"
  shows "OpenExternal h \<in> set (applyNavigationSideEffect d) \<Longrightarrow> safe_external rt h"
    and "OpenArtifact a \<in> set (applyNavigationSideEffect d) \<Longrightarrow> safe_artifact_name a"
  using assms by (cases d; auto)+

text \<open>The three events share one shape: the effects of a decision, preceded by the veto.\<close>

lemma guard_effects_cases:
  assumes "installNavigationGuards rt trusted current ev = Inr es"
  obtains (allowed) "es = []" "\<And>u. ev \<noteq> window_open u"
  | (vetoed) d where "decision_ok rt d" "d \<noteq> allow_current_document"
      "es = PreventDefault # applyNavigationSideEffect d"
  | (window) u where "ev = window_open u"
      "es = applyNavigationSideEffect (decideWindowOpen rt u)"
proof (cases ev)
  case (window_open u)
  with assms show ?thesis
    by (auto simp: enforceWindowOpenPolicy_def intro: window)
qed (use assms that in \<open>fastforce simp: enforceTopLevelNavigation_def bind_result_Inr_iff
        dest: decideTopLevel_ok split: if_splits\<close>)+

section \<open>Properties\<close>

text \<open>The specification: when the privileged document may stay in the window.\<close>

definition stays_in_trusted_document :: "runtime \<Rightarrow> TopLevelNavigationInput \<Rightarrow> bool" where
  "stays_in_trusted_document rt inp \<longleftrightarrow>
     (\<exists>t tr. parseStrictAbsoluteUrl rt (targetUrl inp) = Some t
        \<and> parseStrictAbsoluteUrl rt (trustedDocumentUrl inp) = Some tr
        \<and> (let cur = parseStrictAbsoluteUrl rt (currentDocumentUrl inp);
               boot = isBootstrapDocument (currentDocumentUrl inp) cur
           in (isSafeWebUrl t \<and> isSafeWebUrl tr \<and> url_origin t = url_origin tr
               \<and> (boot \<or> (\<exists>c. cur = Some c \<and> isSafeWebUrl c \<and> url_origin c = url_origin tr)))
            \<or> (url_protocol t = ''file:'' \<and> url_protocol tr = ''file:''
               \<and> same_document rt t tr = Inr True
               \<and> (boot \<or> (\<exists>c. cur = Some c \<and> url_protocol c = ''file:''
                             \<and> same_document rt c tr = Inr True)))))"

lemma web_current_trusted_iff:
  "(case cur of None \<Rightarrow> False | Some c \<Rightarrow> isSafeWebUrl c \<and> url_origin c = url_origin tr) \<longleftrightarrow>
   (\<exists>c. cur = Some c \<and> isSafeWebUrl c \<and> url_origin c = url_origin tr)"
  by (auto split: option.splits)

lemma file_current_trusted_iff:
  "file_current_is_trusted rt raw cur tr = Inr True \<longleftrightarrow>
     isBootstrapDocument raw cur
     \<or> (\<exists>c. cur = Some c \<and> url_protocol c = ''file:'' \<and> same_document rt c tr = Inr True)"
  by (auto simp: file_current_is_trusted_def split: option.splits if_splits)

lemma decide_web_target:
  assumes "parseStrictAbsoluteUrl rt (targetUrl inp) = Some t"
    and "parseStrictAbsoluteUrl rt (trustedDocumentUrl inp) = Some tr" and "isSafeWebUrl t"
  shows "decideTopLevelNavigation rt inp = Inr allow_current_document \<longleftrightarrow>
         stays_in_trusted_document rt inp"
  using assms isSafeWeb_not_file [OF assms(3)]
  by (auto simp: decideTopLevelNavigation_def classifySpecialTarget_def Let_def
      stays_in_trusted_document_def web_current_trusted_iff)

lemma decide_file_target:
  assumes "parseStrictAbsoluteUrl rt (targetUrl inp) = Some t"
    and "parseStrictAbsoluteUrl rt (trustedDocumentUrl inp) = Some tr"
    and "url_protocol t = ''file:''"
  shows "decideTopLevelNavigation rt inp = Inr allow_current_document \<longleftrightarrow>
         stays_in_trusted_document rt inp"
proof -
  have nweb: "\<not> isSafeWebUrl t" using assms(3) by (auto simp: isSafeWebUrl_def)
  have "decideTopLevelNavigation rt inp = Inr allow_current_document \<longleftrightarrow>
        url_protocol tr = ''file:'' \<and> same_document rt t tr = Inr True
        \<and> file_current_is_trusted rt (currentDocumentUrl inp)
             (parseStrictAbsoluteUrl rt (currentDocumentUrl inp)) tr = Inr True"
    using assms nweb
    by (auto simp: decideTopLevelNavigation_def classifySpecialTarget_def Let_def
        bind_result_Inr_iff split: if_splits)
  with assms nweb show ?thesis
    by (auto simp: stays_in_trusted_document_def file_current_trusted_iff Let_def)
qed

lemma top_level_allowed_iff_aux:
  "decideTopLevelNavigation rt inp = Inr allow_current_document \<longleftrightarrow>
   stays_in_trusted_document rt inp"
proof (cases "parseStrictAbsoluteUrl rt (targetUrl inp)")
  case None
  then show ?thesis by (simp add: decideTopLevelNavigation_def stays_in_trusted_document_def)
next
  case (Some t)
  note t = this
  show ?thesis
  proof (cases "parseStrictAbsoluteUrl rt (trustedDocumentUrl inp)")
    case None
    with t show ?thesis
      by (auto simp: decideTopLevelNavigation_def stays_in_trusted_document_def
          dest: classifySpecial_cases split: option.splits)
  next
    case (Some tr)
    consider "isSafeWebUrl t" | "url_protocol t = ''file:''"
      | "\<not> isSafeWebUrl t" "url_protocol t \<noteq> ''file:''" by blast
    then show ?thesis
    proof cases
      case 3
      with t Some show ?thesis
        by (auto simp: decideTopLevelNavigation_def stays_in_trusted_document_def
            dest: classifySpecial_cases split: option.splits)
    qed (use t Some decide_web_target decide_file_target in blast)+
  qed
qed

text \<open>
  C1. A top-level navigation is allowed to replace the document in the privileged
  window exactly when it stays inside the trusted document: target and trusted URL
  pass the strict filter, and either both are web URLs of one origin and the window
  shows that origin (or is still bootstrapping), or both are the same \<open>file:\<close>
  document up to the fragment and the window shows that document.
\<close>

theorem top_level_navigation_allowed_iff:
  "decideTopLevelNavigation rt inp = Inr allow_current_document \<longleftrightarrow>
   stays_in_trusted_document rt inp"
  by (rule top_level_allowed_iff_aux)

lemma guard_navigation_silent_iff:
  "installNavigationGuards rt trusted current ev = Inr es \<Longrightarrow>
   ev = will_navigate u \<or> ev = will_redirect u \<Longrightarrow>
   es = [] \<longleftrightarrow> stays_in_trusted_document rt
     \<lparr>targetUrl = u, currentDocumentUrl = current, trustedDocumentUrl = trusted\<rparr>"
  by (auto simp: enforceTopLevelNavigation_def bind_result_Inr_iff
      top_level_allowed_iff_aux [symmetric] split: if_splits)

text \<open>
  C2. Whatever the renderer asks for, the guards never hand anything but a strictly
  parsed http(s) URL with a host to the system browser, never open an artifact whose
  id is not a plain file name, and veto every navigation or redirect that would leave
  the trusted document before they perform any side effect of it.
\<close>

theorem guard_effects_safe:
  assumes "installNavigationGuards rt trusted current ev = Inr es"
  shows "(\<forall>h. OpenExternal h \<in> set es \<longrightarrow> safe_external rt h)
    \<and> (\<forall>a. OpenArtifact a \<in> set es \<longrightarrow> safe_artifact_name a)
    \<and> (\<forall>u. ev = will_navigate u \<or> ev = will_redirect u \<longrightarrow>
         (if stays_in_trusted_document rt
              \<lparr>targetUrl = u, currentDocumentUrl = current, trustedDocumentUrl = trusted\<rparr>
          then es = [] else \<exists>es'. es = PreventDefault # es'))"
  using assms
proof (cases rule: guard_effects_cases)
  case allowed
  then show ?thesis using guard_navigation_silent_iff [OF assms] by auto
next
  case (vetoed d)
  then show ?thesis
    using guard_navigation_silent_iff [OF assms] effects_of_ok_decision [of rt d] by auto
next
  case (window u)
  then show ?thesis
    using effects_of_ok_decision [OF decideWindowOpen_ok, of _ rt u] by auto
qed

text \<open>A runtime that knows one document, used to evaluate the policy on concrete input.\<close>

definition sample_url :: url where
  "sample_url = \<lparr>url_href = ''https://example.org/a'', url_protocol = ''https:'',
     url_username = [], url_password = [], url_hostname = ''example.org'', url_port = [],
     url_pathname = ''/a'', url_search = [], url_hash = [], url_origin = ''https://example.org''\<rparr>"

definition sample_runtime :: runtime where
  "sample_runtime = \<lparr>new_URL = (\<lambda>s. if s = ''https://example.org/a'' then Some sample_url else None),
     clear_hash = (\<lambda>u. u\<lparr>url_hash := []\<rparr>), decodeURIComponent = Some\<rparr>"

theorem guard_effects_safe_witness:
  "installNavigationGuards sample_runtime ''file:///app/index.html'' ''file:///app/index.html''
     (window_open ''https://example.org/a'') = Inr [OpenExternal ''https://example.org/a'']
   \<and> safe_external sample_runtime ''https://example.org/a''"
proof -
  have run: "installNavigationGuards sample_runtime ''file:///app/index.html'' ''file:///app/index.html''
     (window_open ''https://example.org/a'') = Inr [OpenExternal ''https://example.org/a'']"
    by code_simp
  with guard_effects_safe [OF run] show ?thesis by simp
qed

text \<open>
  In development mode the document that carries the privileged preload is served
  from the loopback interface: the accepted URL is a web URL whose host is one of the
  three loopback names, written without user information.
\<close>

theorem development_document_is_loopback:
  assumes "normalizeTrustedDocumentUrl rt raw development = Some h"
  shows "\<exists>u. parseStrictAbsoluteUrl rt raw = Some u \<and> h = url_href u \<and> isSafeWebUrl u
     \<and> url_hostname u \<in> {''localhost'', ''127.0.0.1'', ''[::1]''}
     \<and> (\<exists>a. getRawAuthority raw = Some a \<and> CHR ''@'' \<notin> set a
          \<and> (host_then_port ''localhost'' (ascii_lower a) \<or> host_then_port ''127.0.0.1'' a
             \<or> bracketed_ipv6 a))"
  using assms
  by (auto simp: normalizeTrustedDocumentUrl_def isLoopbackDevelopmentUrl_def
      split: option.splits if_splits)

definition loopback_url :: url where
  "loopback_url = sample_url\<lparr>url_href := ''http://localhost:5173/'', url_protocol := ''http:'',
     url_hostname := ''localhost'', url_port := ''5173'', url_pathname := ''/''\<rparr>"

definition loopback_runtime :: runtime where
  "loopback_runtime = sample_runtime\<lparr>new_URL := (\<lambda>s. if s = ''http://localhost:5173/'' then Some loopback_url else None)\<rparr>"

theorem development_document_is_loopback_witness:
  "normalizeTrustedDocumentUrl loopback_runtime ''http://localhost:5173/'' development
     = Some ''http://localhost:5173/''
   \<and> (\<exists>u. parseStrictAbsoluteUrl loopback_runtime ''http://localhost:5173/'' = Some u
        \<and> url_hostname u \<in> {''localhost'', ''127.0.0.1'', ''[::1]''})"
proof -
  have run: "normalizeTrustedDocumentUrl loopback_runtime ''http://localhost:5173/'' development
     = Some ''http://localhost:5173/''"
    by code_simp
  from development_document_is_loopback [OF run] run show ?thesis by blast
qed

end
