(* ===== verification/Json.thy ===== *)
theory Json
  imports Prelude
begin

text \<open>
  The JSON text format as the sources use it through \<open>JSON.parse\<close>,
  \<open>JSON.stringify\<close> and \<open>Buffer.from(s, 'utf8')\<close>: an executable parser for
  the whole grammar, the compact printer, and the theorem that parsing undoes
  printing.  A code unit above 255 written as an escape is outside the string
  model and makes the parser fail.  The printer prints integers exactly; the
  documents the application writes contain no other number.
\<close>

section \<open>Scanning\<close>

definition is_json_ws :: "char \<Rightarrow> bool" where
  "is_json_ws c = (code c \<in> {9, 10, 13, 32})"

definition skip_ws :: "string \<Rightarrow> string" where
  "skip_ws s = dropWhile is_json_ws s"

lemma length_skip_ws: "length (skip_ws s) \<le> length s"
  by (simp add: skip_ws_def length_dropWhile_le)

definition hex_value :: "char \<Rightarrow> nat option" where
  "hex_value c =
     (if is_digit c then Some (code c - 48)
      else if 97 \<le> code c \<and> code c \<le> 102 then Some (code c - 87)
      else if 65 \<le> code c \<and> code c \<le> 70 then Some (code c - 55)
      else None)"

definition hex4 :: "char \<Rightarrow> char \<Rightarrow> char \<Rightarrow> char \<Rightarrow> nat option" where
  "hex4 a b c d =
     (case (hex_value a, hex_value b, hex_value c, hex_value d) of
        (Some w, Some x, Some y, Some z) \<Rightarrow> Some (4096 * w + 256 * x + 16 * y + z)
      | _ \<Rightarrow> None)"

definition unescape :: "char \<Rightarrow> char option" where
  "unescape e =
     (if e = CHR 0x22 then Some (CHR 0x22)
      else if e = CHR 0x5C then Some (CHR 0x5C)
      else if e = CHR ''/'' then Some (CHR ''/'')
      else if e = CHR ''b'' then Some (CHR 0x08)
      else if e = CHR ''f'' then Some (CHR 0x0C)
      else if e = CHR ''n'' then Some (CHR 0x0A)
      else if e = CHR ''r'' then Some (CHR 0x0D)
      else if e = CHR ''t'' then Some (CHR 0x09)
      else None)"

definition push_char :: "char \<Rightarrow> (string \<times> string) option \<Rightarrow> (string \<times> string) option" where
  "push_char c r = map_option (\<lambda>(x, t). (c # x, t)) r"

text \<open>The rest of a string literal, after its opening quote.\<close>

fun parse_string :: "string \<Rightarrow> (string \<times> string) option" where
  "parse_string [] = None"
| "parse_string (c # s) =
     (if c = CHR 0x22 then Some ([], s)
      else if c = CHR 0x5C then
        (case s of
           [] \<Rightarrow> None
         | e # r \<Rightarrow>
             if e = CHR ''u'' then
               (case r of
                  h1 # h2 # h3 # h4 # r' \<Rightarrow>
                    (case hex4 h1 h2 h3 h4 of
                       None \<Rightarrow> None
                     | Some k \<Rightarrow> if k < 256 then push_char (char_of k) (parse_string r') else None)
                | _ \<Rightarrow> None)
             else (case unescape e of
                     None \<Rightarrow> None
                   | Some x \<Rightarrow> push_char x (parse_string r)))
      else if code c < 32 then None
      else push_char c (parse_string s))"

definition digit_val :: "char \<Rightarrow> nat" where
  "digit_val c = code c - 48"

fun digits_val :: "nat \<Rightarrow> string \<Rightarrow> nat" where
  "digits_val n [] = n"
| "digits_val n (c # s) = digits_val (10 * n + digit_val c) s"

definition parse_frac :: "string \<Rightarrow> (rat \<times> string) option" where
  "parse_frac s =
     (case s of
        c # r \<Rightarrow>
          if c = CHR ''.'' then
            (let ds = takeWhile is_digit r in
             if ds = [] then None
             else Some (of_nat (digits_val 0 ds) / 10 ^ length ds, dropWhile is_digit r))
          else Some (0, s)
      | [] \<Rightarrow> Some (0, s))"

definition parse_exp_digits :: "bool \<Rightarrow> string \<Rightarrow> (rat \<times> string) option" where
  "parse_exp_digits neg r =
     (let ds = takeWhile is_digit r in
      if ds = [] then None
      else Some ((if neg then 1 / 10 ^ digits_val 0 ds else 10 ^ digits_val 0 ds),
                 dropWhile is_digit r))"

definition parse_exp :: "string \<Rightarrow> (rat \<times> string) option" where
  "parse_exp s =
     (case s of
        c # r \<Rightarrow>
          if c = CHR ''e'' \<or> c = CHR ''E'' then
            (case r of
               d # r' \<Rightarrow>
                 if d = CHR ''-'' then parse_exp_digits True r'
                 else if d = CHR ''+'' then parse_exp_digits False r'
                 else parse_exp_digits False r
             | [] \<Rightarrow> None)
          else Some (1, s)
      | [] \<Rightarrow> Some (1, s))"

definition parse_unsigned :: "string \<Rightarrow> (rat \<times> string) option" where
  "parse_unsigned s =
     (let ds = takeWhile is_digit s in
      if ds = [] \<or> (hd ds = CHR ''0'' \<and> 1 < length ds) then None
      else (case parse_frac (dropWhile is_digit s) of
              None \<Rightarrow> None
            | Some (f, t) \<Rightarrow>
                (case parse_exp t of
                   None \<Rightarrow> None
                 | Some (e, u) \<Rightarrow> Some ((of_nat (digits_val 0 ds) + f) * e, u))))"

definition parse_number :: "string \<Rightarrow> (jsval \<times> string) option" where
  "parse_number s =
     (case s of
        [] \<Rightarrow> None
      | c # r \<Rightarrow>
          if c = CHR ''-''
          then map_option (\<lambda>(q, t). (Num (Fin (- q)), t)) (parse_unsigned r)
          else map_option (\<lambda>(q, t). (Num (Fin q), t)) (parse_unsigned s))"

section \<open>The parser\<close>

text \<open>
  \<open>JSON.parse\<close> keeps the last of several members with one key, at the position
  of the first.
\<close>

fun set_member :: "string \<Rightarrow> jsval \<Rightarrow> (string \<times> jsval) list \<Rightarrow> (string \<times> jsval) list" where
  "set_member k v [] = [(k, v)]"
| "set_member k v ((k', v') # kvs) =
     (if k' = k then (k, v) # kvs else (k', v') # set_member k v kvs)"

definition object_of_members :: "(string \<times> jsval) list \<Rightarrow> (string \<times> jsval) list" where
  "object_of_members kvs = fold (\<lambda>(k, v) acc. set_member k v acc) kvs []"

definition parse_literal :: "string \<Rightarrow> (jsval \<times> string) option" where
  "parse_literal s =
     (if starts_with s ''null'' then Some (Null, drop 4 s)
      else if starts_with s ''true'' then Some (Bool True, drop 4 s)
      else if starts_with s ''false'' then Some (Bool False, drop 5 s)
      else parse_number s)"

text \<open>
  The three nonterminals.  Every recursive call is on a shorter text; the two
  comparisons of lengths say so to the termination prover and never fail.
\<close>

function (sequential)
  parse_value :: "string \<Rightarrow> (jsval \<times> string) option" and
  parse_elements :: "string \<Rightarrow> (jsval list \<times> string) option" and
  parse_members :: "string \<Rightarrow> ((string \<times> jsval) list \<times> string) option" where
  "parse_value s =
     (case skip_ws s of
        [] \<Rightarrow> None
      | c # r \<Rightarrow>
          if c = CHR 0x22 then map_option (\<lambda>(x, t). (Str x, t)) (parse_string r)
          else if c = CHR ''['' then
            (case skip_ws r of
               [] \<Rightarrow> None
             | d # t \<Rightarrow> if d = CHR '']'' then Some (Arr [], t)
                        else map_option (\<lambda>(xs, u). (Arr xs, u)) (parse_elements r))
          else if c = CHR ''{'' then
            (case skip_ws r of
               [] \<Rightarrow> None
             | d # t \<Rightarrow> if d = CHR ''}'' then Some (Obj [], t)
                        else map_option (\<lambda>(kvs, u). (Obj (object_of_members kvs), u)) (parse_members r))
          else parse_literal (c # r))"
| "parse_elements s =
     (case parse_value s of
        None \<Rightarrow> None
      | Some (v, t) \<Rightarrow>
          (case skip_ws t of
             [] \<Rightarrow> None
           | d # u \<Rightarrow>
               if d = CHR '']'' then Some ([v], u)
               else if d = CHR '','' \<and> length u < length s
               then map_option (\<lambda>(vs, w). (v # vs, w)) (parse_elements u)
               else None))"
| "parse_members s =
     (case skip_ws s of
        [] \<Rightarrow> None
      | c # r \<Rightarrow>
          if c \<noteq> CHR 0x22 then None
          else (case parse_string r of
                  None \<Rightarrow> None
                | Some (k, t) \<Rightarrow>
                    (case skip_ws t of
                       [] \<Rightarrow> None
                     | d # u \<Rightarrow>
                         if d = CHR '':'' \<and> length u < length s then
                           (case parse_value u of
                              None \<Rightarrow> None
                            | Some (v, w) \<Rightarrow>
                                (case skip_ws w of
                                   [] \<Rightarrow> None
                                 | e # x \<Rightarrow>
                                     if e = CHR ''}'' then Some ([(k, v)], x)
                                     else if e = CHR '','' \<and> length x < length s
                                     then map_option (\<lambda>(kvs, y). ((k, v) # kvs, y)) (parse_members x)
                                     else None))
                         else None)))"
  by pat_completeness auto

lemma skip_ws_ConsD: "skip_ws s = c # r \<Longrightarrow> length r < length s"
  using length_skip_ws [of s] by simp

termination parse_value
  by (relation "measure (\<lambda>x. case x of Inl s \<Rightarrow> 2 * length s
                    | Inr (Inl s) \<Rightarrow> 2 * length s + 1 | Inr (Inr s) \<Rightarrow> 2 * length s + 1)")
     (auto dest: skip_ws_ConsD)

declare parse_value.simps [simp del] parse_elements.simps [simp del] parse_members.simps [simp del]

definition JSON_parse :: "string \<Rightarrow> jsval option" where
  "JSON_parse s =
     (case parse_value s of
        None \<Rightarrow> None
      | Some (v, t) \<Rightarrow> if skip_ws t = [] then Some v else None)"

section \<open>The printer\<close>

definition hex_digit :: "nat \<Rightarrow> char" where
  "hex_digit n = (if n < 10 then char_of (48 + n) else char_of (87 + n))"

definition escape_char :: "char \<Rightarrow> string" where
  "escape_char c =
     (if c = CHR 0x22 then [CHR 0x5C, CHR 0x22]
      else if c = CHR 0x5C then [CHR 0x5C, CHR 0x5C]
      else if c = CHR 0x08 then [CHR 0x5C, CHR ''b'']
      else if c = CHR 0x0C then [CHR 0x5C, CHR ''f'']
      else if c = CHR 0x0A then [CHR 0x5C, CHR ''n'']
      else if c = CHR 0x0D then [CHR 0x5C, CHR ''r'']
      else if c = CHR 0x09 then [CHR 0x5C, CHR ''t'']
      else if code c < 32
        then [CHR 0x5C, CHR ''u'', CHR ''0'', CHR ''0'', hex_digit (code c div 16), hex_digit (code c mod 16)]
      else [c])"

definition quote_string :: "string \<Rightarrow> string" where
  "quote_string s = CHR 0x22 # concat (map escape_char s) @ [CHR 0x22]"

fun print_nat :: "nat \<Rightarrow> string" where
  "print_nat n = (if n < 10 then [char_of (48 + n)] else print_nat (n div 10) @ [char_of (48 + n mod 10)])"

declare print_nat.simps [simp del]

definition print_int :: "int \<Rightarrow> string" where
  "print_int i = (if i < 0 then CHR ''-'' # print_nat (nat (- i)) else print_nat (nat i))"

fun print_num :: "jsnum \<Rightarrow> string" where
  "print_num (Fin q) = print_int \<lfloor>q\<rfloor>"
| "print_num _ = ''null''"

text \<open>Members with an undefined value are left out; an undefined array element prints as null.\<close>

fun JSON_stringify :: "jsval \<Rightarrow> string"
  and print_elements :: "bool \<Rightarrow> jsval list \<Rightarrow> string"
  and print_members :: "bool \<Rightarrow> (string \<times> jsval) list \<Rightarrow> string" where
  "JSON_stringify Undefined = ''null''"
| "JSON_stringify Null = ''null''"
| "JSON_stringify (Bool b) = (if b then ''true'' else ''false'')"
| "JSON_stringify (Num n) = print_num n"
| "JSON_stringify (Str s) = quote_string s"
| "JSON_stringify (Arr vs) = CHR ''['' # print_elements True vs"
| "JSON_stringify (Obj kvs) = CHR ''{'' # print_members True kvs"
| "print_elements first [] = '']''"
| "print_elements first (v # vs) =
     (if first then [] else '','') @ JSON_stringify v @ print_elements False vs"
| "print_members first [] = ''}''"
| "print_members first ((k, v) # kvs) =
     (if v = Undefined then print_members first kvs
      else (if first then [] else '','') @ quote_string k @ CHR '':'' # JSON_stringify v
           @ print_members False kvs)"

section \<open>Parsing undoes printing\<close>

text \<open>The values a program can write and read back: no undefined, integers only, distinct keys.\<close>

fun wf_json :: "jsval \<Rightarrow> bool" where
  "wf_json Undefined = False"
| "wf_json Null = True"
| "wf_json (Bool _) = True"
| "wf_json (Num n) = (as_integer n \<noteq> None)"
| "wf_json (Str _) = True"
| "wf_json (Arr vs) = list_all wf_json vs"
| "wf_json (Obj kvs) = (distinct (map fst kvs) \<and> list_all (\<lambda>kv. wf_json (snd kv)) kvs)"

subsection \<open>Strings\<close>

lemma hex_value_hex_digit: "n < 16 \<Longrightarrow> hex_value (hex_digit n) = Some n"
  by (auto simp: hex_value_def hex_digit_def is_digit_def)

lemma parse_string_unicode_escape:
  assumes "code c < 32"
  shows "parse_string (CHR 0x5C # CHR ''u'' # CHR ''0'' # CHR ''0''
           # hex_digit (code c div 16) # hex_digit (code c mod 16) # r) = push_char c (parse_string r)"
proof -
  have h0: "hex_value (CHR ''0'') = Some 0" by (simp add: hex_value_def is_digit_def)
  have "hex4 (CHR ''0'') (CHR ''0'') (hex_digit (code c div 16)) (hex_digit (code c mod 16))
          = Some (code c)"
    using assms by (simp add: hex4_def h0 hex_value_hex_digit)
  with assms show ?thesis by simp
qed

lemma parse_string_plain:
  "c \<noteq> CHR 0x22 \<Longrightarrow> c \<noteq> CHR 0x5C \<Longrightarrow> \<not> code c < 32 \<Longrightarrow>
   parse_string (c # r) = push_char c (parse_string r)"
  by simp

lemma parse_string_short_escape:
  "unescape e = Some c \<Longrightarrow> e \<noteq> CHR ''u'' \<Longrightarrow>
   parse_string (CHR 0x5C # e # r) = push_char c (parse_string r)"
  by simp

lemma unescape_escapes:
  "unescape (CHR 0x22) = Some (CHR 0x22)" "unescape (CHR 0x5C) = Some (CHR 0x5C)"
  "unescape (CHR ''b'') = Some (CHR 0x08)" "unescape (CHR ''f'') = Some (CHR 0x0C)"
  "unescape (CHR ''n'') = Some (CHR 0x0A)" "unescape (CHR ''r'') = Some (CHR 0x0D)"
  "unescape (CHR ''t'') = Some (CHR 0x09)"
  by (simp_all add: unescape_def)

lemma parse_string_escape:
  "parse_string (escape_char c @ r) = push_char c (parse_string r)"
  unfolding escape_char_def
  by (simp del: parse_string.simps
      add: parse_string_unicode_escape parse_string_plain parse_string_short_escape unescape_escapes)

lemma parse_string_quoted:
  "parse_string (concat (map escape_char s) @ CHR 0x22 # r) = Some (s, r)"
  by (induction s) (simp_all add: parse_string_escape push_char_def)

subsection \<open>Numbers\<close>

lemma is_digit_char_of: "(n::nat) < 10 \<Longrightarrow> is_digit (char_of (48 + n))"
  by (simp add: is_digit_def)

lemma print_nat_digits: "list_all is_digit (print_nat n)"
  by (induction n rule: print_nat.induct)
     (subst print_nat.simps, simp add: is_digit_char_of)

lemma digits_val_append: "digits_val k (s @ t) = digits_val (digits_val k s) t"
  by (induction s arbitrary: k) auto

lemma digits_val_print_nat: "digits_val 0 (print_nat n) = n"
proof (induction n rule: print_nat.induct)
  case (1 n)
  then show ?case
    by (subst print_nat.simps) (auto simp: digits_val_append digit_val_def)
qed

lemma print_nat_ne [simp]: "print_nat n \<noteq> []"
  by (subst print_nat.simps) simp

lemma hd_print_nat: "hd (print_nat n) = CHR ''0'' \<Longrightarrow> n = 0"
proof (induction n rule: print_nat.induct)
  case (1 n)
  show ?case
  proof (cases "n < 10")
    case True
    with "1.prems" have "char_of (48 + n) = CHR ''0''"
      by (subst (asm) print_nat.simps) simp
    then have "(of_char (char_of (48 + n) :: char) :: nat) = of_char (CHR ''0'')" by (rule arg_cong)
    with True show ?thesis by simp
  next
    case False
    with "1.prems" have "hd (print_nat (n div 10)) = CHR ''0''"
      by (subst (asm) print_nat.simps) simp
    with "1.IH" False have "n div 10 = 0" by simp
    with False show ?thesis by simp
  qed
qed

lemma length_print_nat_0: "length (print_nat 0) = 1"
  by (subst print_nat.simps) simp

text \<open>What may follow a number: nothing that continues it.\<close>

definition ends_number :: "string \<Rightarrow> bool" where
  "ends_number r =
     (case r of [] \<Rightarrow> True
      | c # _ \<Rightarrow> \<not> is_digit c \<and> c \<noteq> CHR ''.'' \<and> c \<noteq> CHR ''e'' \<and> c \<noteq> CHR ''E'')"

lemma takeWhile_digits:
  "list_all is_digit ds \<Longrightarrow> ends_number r \<Longrightarrow>
   takeWhile is_digit (ds @ r) = ds \<and> dropWhile is_digit (ds @ r) = r"
  by (induction ds) (auto simp: ends_number_def split: list.splits)

lemma parse_unsigned_print_nat:
  assumes "ends_number r"
  shows "parse_unsigned (print_nat n @ r) = Some (of_nat n, r)"
proof -
  have tw: "takeWhile is_digit (print_nat n @ r) = print_nat n"
    "dropWhile is_digit (print_nat n @ r) = r"
    using takeWhile_digits [OF print_nat_digits assms] by auto
  have "\<not> (hd (print_nat n) = CHR ''0'' \<and> 1 < length (print_nat n))"
    using hd_print_nat [of n] length_print_nat_0 by auto
  moreover have "parse_frac r = Some (0, r)" "parse_exp r = Some (1, r)"
    using assms by (auto simp: parse_frac_def parse_exp_def ends_number_def split: list.splits)
  ultimately show ?thesis
    by (simp add: parse_unsigned_def Let_def tw digits_val_print_nat)
qed

lemma hd_print_nat_digit: "\<exists>c r. print_nat n = c # r \<and> is_digit c"
  using print_nat_digits [of n] print_nat_ne [of n] by (cases "print_nat n") auto

lemma parse_number_print_int:
  assumes "ends_number r"
  shows "parse_number (print_int i @ r) = Some (Num (Fin (of_int i)), r)"
proof (cases "i < 0")
  case True
  then show ?thesis
    using parse_unsigned_print_nat [OF assms, of "nat (- i)"]
    by (simp add: parse_number_def print_int_def of_nat_nat)
next
  case False
  obtain c t where ct: "print_nat (nat i) = c # t" "is_digit c" using hd_print_nat_digit by blast
  then have "c \<noteq> CHR ''-''" by (auto simp: is_digit_def)
  with ct False show ?thesis
    using parse_unsigned_print_nat [OF assms, of "nat i"]
    by (simp add: parse_number_def print_int_def of_nat_nat)
qed

subsection \<open>Documents\<close>

lemma quote_string_head: "quote_string s = CHR 0x22 # concat (map escape_char s) @ [CHR 0x22]"
  by (rule quote_string_def)

lemma digit_not_special:
  "is_digit c \<Longrightarrow> \<not> is_json_ws c \<and> c \<notin> {CHR '']'', CHR 0x22, CHR ''['', CHR ''{'', CHR ''}''}"
  by (auto simp: is_digit_def is_json_ws_def)

lemma print_int_head:
  "\<exists>c t. print_int i = c # t \<and> (is_digit c \<or> c = CHR ''-'')"
  using hd_print_nat_digit [of "nat i"] by (auto simp: print_int_def)

lemma stringify_head:
  assumes "wf_json v"
  shows "\<exists>c t. JSON_stringify v = c # t \<and> \<not> is_json_ws c \<and> c \<noteq> CHR '']''"
proof (cases v)
  case (Num n)
  with assms obtain q where "n = Fin q" by (cases n) auto
  with Num print_int_head [of "\<lfloor>q\<rfloor>"] digit_not_special show ?thesis
    by (fastforce simp: is_json_ws_def)
qed (use assms in \<open>auto simp: quote_string_def is_json_ws_def\<close>)

lemma skip_ws_nonws: "\<not> is_json_ws c \<Longrightarrow> skip_ws (c # t) = c # t"
  by (simp add: skip_ws_def)

lemma parse_literal_number:
  assumes "as_integer n = Some i" "ends_number r"
  shows "parse_value (print_num n @ r) = Some (Num n, r)"
proof -
  from assms(1) obtain q where q: "n = Fin q" "of_int \<lfloor>q\<rfloor> = q"
    by (cases n) (auto split: if_splits)
  obtain c t where ct: "print_int \<lfloor>q\<rfloor> = c # t" "is_digit c \<or> c = CHR ''-''"
    using print_int_head by blast
  then have c: "\<not> is_json_ws c" "c \<notin> {CHR 0x22, CHR ''['', CHR ''{'', CHR ''n'', CHR ''t'', CHR ''f''}"
    by (auto simp: is_digit_def is_json_ws_def)
  from parse_number_print_int [OF assms(2), of "\<lfloor>q\<rfloor>"] q ct
  have "parse_number (c # t @ r) = Some (Num n, r)" by simp
  with c ct q show ?thesis
    by (simp add: parse_value.simps skip_ws_nonws parse_literal_def)
qed

lemma ends_number_punct [simp]:
  "ends_number (print_elements False vs @ r)"
  "ends_number (print_members False kvs @ r)"
  "ends_number []" "ends_number (CHR 0x0A # r)"
proof -
  show "ends_number (print_elements False vs @ r)"
    by (cases vs) (auto simp: ends_number_def is_digit_def)
  show "ends_number (print_members False kvs @ r)"
  proof (induction kvs)
    case (Cons kv kvs)
    then show ?case by (cases kv) (auto simp: ends_number_def is_digit_def)
  qed (simp add: ends_number_def is_digit_def)
qed (simp_all add: ends_number_def is_digit_def)

definition reads_back :: "jsval \<Rightarrow> bool" where
  "reads_back v \<longleftrightarrow> (\<forall>r. ends_number r \<longrightarrow> parse_value (JSON_stringify v @ r) = Some (v, r))"

lemma parse_elements_print:
  assumes "\<forall>x \<in> set (v # vs). reads_back x"
  shows "parse_elements (JSON_stringify v @ print_elements False vs @ r) = Some (v # vs, r)"
  using assms
proof (induction vs arbitrary: v)
  case Nil
  then have "parse_value (JSON_stringify v @ print_elements False [] @ r)
      = Some (v, print_elements False [] @ r)"
    unfolding reads_back_def using ends_number_punct(1) by (metis list.set_intros(1))
  then show ?case
    by (subst parse_elements.simps) (simp add: skip_ws_nonws is_json_ws_def)
next
  case (Cons w ws)
  then have "parse_value (JSON_stringify v @ print_elements False (w # ws) @ r)
      = Some (v, print_elements False (w # ws) @ r)"
    unfolding reads_back_def using ends_number_punct(1) by (metis list.set_intros(1))
  moreover have "parse_elements (JSON_stringify w @ print_elements False ws @ r) = Some (w # ws, r)"
    using Cons by simp
  ultimately show ?case
    by (subst parse_elements.simps) (simp add: skip_ws_nonws is_json_ws_def)
qed

lemma parse_members_print:
  assumes "\<forall>x \<in> set ((k, v) # kvs). reads_back (snd x) \<and> snd x \<noteq> Undefined"
  shows "parse_members (quote_string k @ CHR '':'' # JSON_stringify v @ print_members False kvs @ r)
       = Some ((k, v) # kvs, r)"
  using assms
proof (induction kvs arbitrary: k v)
  case Nil
  then have "parse_value (JSON_stringify v @ print_members False [] @ r)
      = Some (v, print_members False [] @ r)"
    unfolding reads_back_def using ends_number_punct(2) by (metis list.set_intros(1) snd_conv)
  then show ?case
    by (subst parse_members.simps)
       (simp add: skip_ws_nonws is_json_ws_def quote_string_def parse_string_quoted)
next
  case (Cons kw kws)
  obtain k' w where kw: "kw = (k', w)" by (cases kw)
  have "parse_value (JSON_stringify v @ print_members False (kw # kws) @ r)
      = Some (v, print_members False (kw # kws) @ r)"
    using Cons.prems ends_number_punct(2) unfolding reads_back_def by (metis list.set_intros(1) snd_conv)
  moreover have "w \<noteq> Undefined" using Cons.prems kw by simp
  moreover have "parse_members (quote_string k' @ CHR '':'' # JSON_stringify w
      @ print_members False kws @ r) = Some ((k', w) # kws, r)"
    using Cons kw by simp
  ultimately show ?case
    by (subst parse_members.simps)
       (simp add: kw skip_ws_nonws is_json_ws_def quote_string_def parse_string_quoted)
qed

lemma set_member_fresh: "k \<notin> fst ` set acc \<Longrightarrow> set_member k v acc = acc @ [(k, v)]"
  by (induction acc) auto

lemma object_of_distinct_members: "distinct (map fst kvs) \<Longrightarrow> object_of_members kvs = kvs"
proof -
  have "distinct (map fst (acc @ kvs)) \<Longrightarrow> fold (\<lambda>(k, v) a. set_member k v a) kvs acc = acc @ kvs" for acc
    by (induction kvs arbitrary: acc) (auto simp: set_member_fresh)
  from this [of "[]"] show "distinct (map fst kvs) \<Longrightarrow> object_of_members kvs = kvs"
    by (simp add: object_of_members_def)
qed

lemma wf_json_defined: "wf_json v \<Longrightarrow> v \<noteq> Undefined"
  by auto

lemma reads_back_Arr:
  assumes "\<forall>x \<in> set vs. reads_back x \<and> wf_json x"
  shows "reads_back (Arr vs)"
proof (cases vs)
  case Nil
  then show ?thesis by (simp add: reads_back_def parse_value.simps skip_ws_nonws is_json_ws_def)
next
  case (Cons v ws)
  with assms obtain c t where ct: "JSON_stringify v = c # t" "\<not> is_json_ws c" "c \<noteq> CHR '']''"
    using stringify_head [of v] by auto
  have "parse_elements (JSON_stringify v @ print_elements False ws @ r) = Some (v # ws, r)" for r
    using assms Cons by (intro parse_elements_print) auto
  with ct Cons show ?thesis
    by (simp add: reads_back_def parse_value.simps skip_ws_nonws is_json_ws_def)
qed

lemma reads_back_Obj:
  assumes "\<forall>x \<in> set kvs. reads_back (snd x) \<and> snd x \<noteq> Undefined" "distinct (map fst kvs)"
  shows "reads_back (Obj kvs)"
proof (cases kvs)
  case Nil
  then show ?thesis by (simp add: reads_back_def parse_value.simps skip_ws_nonws is_json_ws_def)
next
  case (Cons kv ws)
  obtain k v where kv: "kv = (k, v)" by (cases kv)
  have "parse_members (quote_string k @ CHR '':'' # JSON_stringify v @ print_members False ws @ r)
       = Some ((k, v) # ws, r)" for r
    using assms(1) Cons kv by (intro parse_members_print) auto
  moreover have "v \<noteq> Undefined" using assms(1) Cons kv by simp
  ultimately show ?thesis
    using Cons kv object_of_distinct_members [OF assms(2)]
    by (simp add: reads_back_def parse_value.simps skip_ws_nonws is_json_ws_def quote_string_head)
qed

lemma wf_json_reads_back: "wf_json v \<Longrightarrow> reads_back v"
proof (induction v)
  case (Num n)
  then show ?case using parse_literal_number by (auto simp: reads_back_def)
next
  case (Str s)
  then show ?case
    by (simp add: reads_back_def parse_value.simps skip_ws_nonws is_json_ws_def
        quote_string_def parse_string_quoted)
next
  case (Arr vs)
  then show ?case by (intro reads_back_Arr) (auto simp: list_all_iff)
next
  case (Obj kvs)
  then show ?case by (intro reads_back_Obj) (auto simp: list_all_iff wf_json_defined)
qed (simp_all add: reads_back_def parse_value.simps skip_ws_nonws is_json_ws_def parse_literal_def)

text \<open>The codec law the storage components rely on.\<close>

lemma JSON_parse_stringify:
  assumes "wf_json v" "skip_ws r = []" "ends_number r"
  shows "JSON_parse (JSON_stringify v @ r) = Some v"
  using wf_json_reads_back [OF assms(1)] assms(2,3)
  by (simp add: JSON_parse_def reads_back_def)

section \<open>Plain texts\<close>

abbreviation ascii :: "string \<Rightarrow> bool" where
  "ascii s \<equiv> list_all (\<lambda>c. code c < 128) s"

lemma ascii_escape: "code c < 128 \<Longrightarrow> ascii (escape_char c)"
  by (auto simp: escape_char_def hex_digit_def)

lemma ascii_quote: "ascii s \<Longrightarrow> ascii (quote_string s)"
  by (induction s) (auto simp: quote_string_def ascii_escape)

lemma ascii_print_nat: "ascii (print_nat n)"
  using print_nat_digits [of n] by (auto simp: list_all_iff is_digit_def)

lemma ascii_print_int: "ascii (print_int i)"
  by (simp add: print_int_def ascii_print_nat)

text \<open>Printed values have no line end.\<close>

lemma escape_no_line_end: "CHR 0x0A \<notin> set (escape_char c)"
proof -
  have "hex_value (CHR 0x0A) = None" by code_simp
  then have "n < 16 \<Longrightarrow> hex_digit n \<noteq> CHR 0x0A" for n using hex_value_hex_digit [of n] by auto
  from this [of "code c div 16"] this [of "code c mod 16"] less_mult_imp_div_less [of "code c" 2 16]
  show ?thesis by (auto simp: escape_char_def)
qed

lemma quote_no_line_end: "CHR 0x0A \<notin> set (quote_string s)"
  using escape_no_line_end by (auto simp: quote_string_def)

lemma print_nat_no_line_end: "CHR 0x0A \<notin> set (print_nat n)"
  using print_nat_digits [of n] by (auto simp: list_all_iff is_digit_def)

lemma JSON_no_line_end:
  "CHR 0x0A \<notin> set (JSON_stringify v)" "CHR 0x0A \<notin> set (print_elements b vs)" "CHR 0x0A \<notin> set (print_members b kvs)"
proof (induction v and b vs and b kvs rule: JSON_stringify_print_elements_print_members.induct)
  case (4 n)
  show ?case using print_nat_no_line_end by (cases n) (auto simp: print_int_def)
qed (use quote_no_line_end in auto)

section \<open>Numbers from texts\<close>

text \<open>
  \<open>Number(text)\<close>: white space is trimmed, the empty text is zero, then a sign and
  \<open>Infinity\<close> or decimal digits with a fraction and an exponent; or a radix prefix.
\<close>

fun radix_val :: "nat \<Rightarrow> nat \<Rightarrow> string \<Rightarrow> nat option" where
  "radix_val b n [] = Some n"
| "radix_val b n (c # cs) =
     (case hex_value c of None \<Rightarrow> None | Some k \<Rightarrow> if k < b then radix_val b (b * n + k) cs else None)"

definition radix_number :: "nat \<Rightarrow> string \<Rightarrow> jsnum" where
  "radix_number b ds = (if ds = [] then NaN else case radix_val b 0 ds of None \<Rightarrow> NaN | Some n \<Rightarrow> Fin (of_nat n))"

definition decimal_number :: "string \<Rightarrow> jsnum" where
  "decimal_number s =
     (let ds = takeWhile is_digit s; r = dropWhile is_digit s;
          fs = (case r of c # r' \<Rightarrow> if c = CHR ''.'' then takeWhile is_digit r' else [] | [] \<Rightarrow> []);
          t = (case r of c # r' \<Rightarrow> if c = CHR ''.'' then dropWhile is_digit r' else r | [] \<Rightarrow> [])
      in if ds = [] \<and> fs = [] then NaN
         else case parse_exp t of
                Some (e, []) \<Rightarrow> Fin ((of_nat (digits_val 0 ds) + of_nat (digits_val 0 fs) / 10 ^ length fs) * e)
              | _ \<Rightarrow> NaN)"

definition js_Number :: "string \<Rightarrow> jsnum" where
  "js_Number v =
     (let w = trim v; pre = to_lower (take 2 w)
      in if w = [] then Fin 0
         else if pre = ''0x'' then radix_number 16 (drop 2 w)
         else if pre = ''0o'' then radix_number 8 (drop 2 w)
         else if pre = ''0b'' then radix_number 2 (drop 2 w)
         else if w = ''Infinity'' \<or> w = ''+Infinity'' then PosInfinity
         else if w = ''-Infinity'' then NegInfinity
         else if hd w = CHR ''-'' then (case decimal_number (tl w) of Fin q \<Rightarrow> Fin (- q) | n \<Rightarrow> n)
         else if hd w = CHR ''+'' then decimal_number (tl w)
         else decimal_number w)"

end
