(* ===== verification/CcConfig.thy ===== *)
theory CcConfig
  imports Json
begin

text \<open>
  How the Agent CLI subprocess is configured
  (\<open>apps/desktop/electron/cc/cc-wrapper.ts\<close>, CLI resolution and environment, and
  \<open>apps/desktop/electron/cc/mcp-config-renderer.ts\<close>): the executable and its
  prefix arguments, the environment the child receives, and the MCP endpoints it
  is told about.  \<open>process.env\<close> is a map; a thrown \<open>CcWrapperError\<close> is the
  error value with its code.
\<close>

type_synonym process_env = "string \<Rightarrow> string option"

definition env_trim :: "process_env \<Rightarrow> string \<Rightarrow> string" where
  "env_trim env k = trim (case env k of None \<Rightarrow> [] | Some v \<Rightarrow> v)"

definition remote_opt_in :: "process_env \<Rightarrow> bool" where
  "remote_opt_in env = (env ''AWP_AGENT_REMOTE_API_OPT_IN'' = Some ''1'')"

section \<open>Remote URLs inside configuration values\<close>

definition ascii_lower_case :: "string \<Rightarrow> string" where
  "ascii_lower_case = map (\<lambda>c. if is_upper c then char_of (code c + 32) else c)"

text \<open>\<open>[^\s"'<>]\<close>, the characters of a URL candidate.\<close>

definition url_body_char :: "char \<Rightarrow> bool" where
  "url_body_char c = (\<not> is_ws c \<and> c \<noteq> CHR 0x22 \<and> c \<noteq> CHR 0x27 \<and> c \<noteq> CHR ''<'' \<and> c \<noteq> CHR ''>'')"

definition url_scheme_length :: "string \<Rightarrow> nat" where
  "url_scheme_length s =
     (if starts_with (ascii_lower_case (take 8 s)) ''https://'' then 8
      else if starts_with (ascii_lower_case (take 7 s)) ''http://'' then 7 else 0)"

text \<open>\<open>value.match(/https?:\/\/[^\s"'<>]+/gi)\<close>: the leftmost matches, none overlapping.\<close>

function url_matches :: "string \<Rightarrow> string list" where
  "url_matches s =
     (case s of
        [] \<Rightarrow> []
      | c # r \<Rightarrow>
          let k = url_scheme_length s;
              body = takeWhile url_body_char (drop k s)
          in if 0 < k \<and> body \<noteq> []
             then (take k s @ body) # url_matches (drop (k + length body) s)
             else url_matches r)"
  by pat_completeness auto
termination
  by (relation "measure length") auto

declare url_matches.simps [simp del]

definition is_loopback_host :: "string \<Rightarrow> bool" where
  "is_loopback_host host = (host = ''localhost'' \<or> host = ''127.0.0.1'' \<or> host = ''[::1]'')"

definition isRemoteHttpUrl :: "runtime \<Rightarrow> string \<Rightarrow> bool" where
  "isRemoteHttpUrl rt value =
     list_ex (\<lambda>candidate.
        case new_URL rt candidate of
          None \<Rightarrow> True
        | Some u \<Rightarrow> \<not> is_loopback_host (to_lower (url_hostname u)))
       (url_matches value)"

section \<open>Executable and arguments\<close>

definition arg_strings :: "jsval list \<Rightarrow> string list option" where
  "arg_strings vs =
     (if list_all (\<lambda>v. case v of Str s \<Rightarrow> length s \<le> 8192 | _ \<Rightarrow> False) vs
      then Some (map (\<lambda>v. case v of Str s \<Rightarrow> s | _ \<Rightarrow> []) vs) else None)"

definition parseConfiguredArgs :: "runtime \<Rightarrow> process_env \<Rightarrow> string list result" where
  "parseConfiguredArgs rt env =
     (let raw = env_trim env ''AWP_AGENT_CLI_ARGS_JSON'' in
      if raw = [] then Inr []
      else case JSON_parse raw of
             None \<Rightarrow> Inl (Thrown ''invalid_cli_args_json'')
           | Some value \<Rightarrow>
               (case value of
                  Arr vs \<Rightarrow>
                    if 128 < length vs then Inl (Thrown ''invalid_cli_args_json'')
                    else (case arg_strings vs of
                            None \<Rightarrow> Inl (Thrown ''invalid_cli_args_json'')
                          | Some args \<Rightarrow>
                              if list_ex (isRemoteHttpUrl rt) args \<and> \<not> remote_opt_in env
                              then Inl (Thrown ''remote_api_requires_explicit_opt_in'')
                              else Inr args)
                | _ \<Rightarrow> Inl (Thrown ''invalid_cli_args_json'')))"

record cli_invocation =
  inv_exe :: string
  inv_prefixArgs :: "string list"
  inv_managedRuntime :: bool

text \<open>\<open>/^[A-Za-z0-9._-]+$/\<close>\<close>

definition command_name :: "string \<Rightarrow> bool" where
  "command_name s = (s \<noteq> [] \<and> list_all (\<lambda>c. is_alnum c \<or> c \<in> set ''._-'') s)"

text \<open>
  \<open>managed\<close> is what the runtime updater's \<open>getCliPath()\<close> returns or throws.  The
  managed branch runs inside a \<open>try\<close>, so an error of its argument parsing is
  replaced by \<open>runtime_unavailable\<close> as well.
\<close>

definition resolveCliInvocation ::
  "runtime \<Rightarrow> process_env \<Rightarrow> string option result \<Rightarrow> cli_invocation result" where
  "resolveCliInvocation rt env managed =
     (let explicitPath = env_trim env ''AWP_AGENT_CLI_EXECUTABLE'' in
      if explicitPath \<noteq> [] then
        (if \<not> is_absolute explicitPath then Inl (Thrown ''cli_executable_must_be_absolute'')
         else bind_result (parseConfiguredArgs rt env)
                (\<lambda>args. Inr \<lparr>inv_exe = resolve explicitPath, inv_prefixArgs = args,
                             inv_managedRuntime = False\<rparr>))
      else
        let explicitCommand = env_trim env ''AWP_AGENT_CLI_COMMAND'' in
        if explicitCommand \<noteq> [] then
          (if \<not> command_name explicitCommand then Inl (Thrown ''invalid_cli_command'')
           else bind_result (parseConfiguredArgs rt env)
                  (\<lambda>args. Inr \<lparr>inv_exe = explicitCommand, inv_prefixArgs = args,
                               inv_managedRuntime = False\<rparr>))
        else
          (case managed of
             Inr (Some path) \<Rightarrow>
               if path \<noteq> [] then
                 (case parseConfiguredArgs rt env of
                    Inr args \<Rightarrow> Inr \<lparr>inv_exe = path, inv_prefixArgs = args, inv_managedRuntime = True\<rparr>
                  | Inl _ \<Rightarrow> Inl (Thrown ''runtime_unavailable''))
               else Inl (Thrown ''runtime_unavailable'')
           | _ \<Rightarrow> Inl (Thrown ''runtime_unavailable'')))"

section \<open>The environment of the child\<close>

definition SAFE_PARENT_ENV_KEYS :: "string list" where
  "SAFE_PARENT_ENV_KEYS =
     [''PATH'', ''Path'', ''PATHEXT'', ''SystemRoot'', ''WINDIR'', ''COMSPEC'',
      ''TEMP'', ''TMP'', ''HOME'', ''USERPROFILE'', ''LOCALAPPDATA'', ''APPDATA'',
      ''LANG'', ''LC_ALL'', ''TERM'', ''COLORTERM'']"

definition buildSafeParentEnv :: "process_env \<Rightarrow> process_env" where
  "buildSafeParentEnv env =
     fold (\<lambda>key acc. case env key of None \<Rightarrow> acc | Some v \<Rightarrow> acc(key \<mapsto> v))
       SAFE_PARENT_ENV_KEYS (\<lambda>_. None)"

text \<open>\<open>/^[A-Za-z_][A-Za-z0-9_]*$/\<close>\<close>

definition env_key :: "string \<Rightarrow> bool" where
  "env_key k = (case k of [] \<Rightarrow> False
     | c # r \<Rightarrow> (is_alpha c \<or> c = CHR ''_'') \<and> list_all (\<lambda>d. is_alnum d \<or> d = CHR ''_'') r)"

text \<open>The loop over the entries: the map built so far and whether a remote URL was seen.\<close>

fun cli_env_entries ::
  "runtime \<Rightarrow> (string \<times> jsval) list \<Rightarrow> process_env \<Rightarrow> bool \<Rightarrow> (process_env \<times> bool) result" where
  "cli_env_entries rt [] configured containsRemote = Inr (configured, containsRemote)"
| "cli_env_entries rt ((key, item) # rest) configured containsRemote =
     (case item of
        Str v \<Rightarrow>
          if \<not> env_key key then Inl (Thrown ''invalid_cli_env_entry'')
          else if 32768 < length v then Inl (Thrown ''cli_env_value_too_large'')
          else cli_env_entries rt rest (configured(key \<mapsto> v)) (containsRemote \<or> isRemoteHttpUrl rt v)
      | _ \<Rightarrow> Inl (Thrown ''invalid_cli_env_entry''))"

definition parseExplicitCliEnv :: "runtime \<Rightarrow> process_env \<Rightarrow> process_env result" where
  "parseExplicitCliEnv rt env =
     (let raw = env_trim env ''AWP_AGENT_CLI_ENV_JSON'' in
      if raw = [] then Inr (\<lambda>_. None)
      else case JSON_parse raw of
             Some (Obj entries) \<Rightarrow>
               if 128 < length entries then Inl (Thrown ''cli_env_too_large'')
               else bind_result (cli_env_entries rt entries (\<lambda>_. None) False)
                      (\<lambda>(configured, containsRemote).
                         if containsRemote \<and> \<not> remote_opt_in env
                         then Inl (Thrown ''remote_api_requires_explicit_opt_in'')
                         else Inr configured)
           | _ \<Rightarrow> Inl (Thrown ''invalid_cli_env_json''))"

definition buildCcEnv :: "runtime \<Rightarrow> process_env \<Rightarrow> process_env result" where
  "buildCcEnv rt env =
     bind_result (parseExplicitCliEnv rt env) (\<lambda>explicit. Inr (buildSafeParentEnv env ++ explicit))"

section \<open>The MCP configuration\<close>

record McpHttpEndpoint =
  ep_url :: string
  ep_token :: "string option"
  ep_conversationId :: "string option"
  ep_headers :: "(string \<times> string) list"

record RemoteMcpEndpoint = McpHttpEndpoint +
  ep_name :: string

record McpHttpServerEntry =
  mcp_url :: string
  mcp_headers :: "string \<Rightarrow> string option"

type_synonym McpConfigDoc = "string \<Rightarrow> McpHttpServerEntry option"

definition parseHttpUrl :: "runtime \<Rightarrow> string \<Rightarrow> url result" where
  "parseHttpUrl rt raw =
     (case new_URL rt raw of
        None \<Rightarrow> Inl (Thrown ''invalid_mcp_url'')
      | Some parsed \<Rightarrow>
          if url_protocol parsed \<noteq> ''http:'' \<and> url_protocol parsed \<noteq> ''https:''
          then Inl (Thrown ''unsupported_mcp_url_scheme'')
          else if url_username parsed \<noteq> [] \<or> url_password parsed \<noteq> []
          then Inl (Thrown ''mcp_url_credentials_forbidden'')
          else Inr parsed)"

definition isLoopbackHost :: "string \<Rightarrow> bool" where
  "isLoopbackHost hostname = is_loopback_host (to_lower hostname)"

definition endpointHeaders :: "('a McpHttpEndpoint_scheme) \<Rightarrow> (string \<Rightarrow> string option)" where
  "endpointHeaders endpoint =
     (let h0 = map_of (rev (ep_headers endpoint));
          h1 = (case ep_token endpoint of
                  Some t \<Rightarrow> if t \<noteq> [] then h0(''authorization'' \<mapsto> ''Bearer '' @ t) else h0
                | None \<Rightarrow> h0)
      in case ep_conversationId endpoint of
           Some c \<Rightarrow> if c \<noteq> [] then h1(''x-awp-conv'' \<mapsto> c) else h1
         | None \<Rightarrow> h1)"

text \<open>\<open>/^[a-z0-9][a-z0-9._-]{0,63}$/i\<close>, and not the name of the local entry.\<close>

definition validRemoteName :: "string \<Rightarrow> bool" where
  "validRemoteName name =
     ((case name of [] \<Rightarrow> False
       | c # r \<Rightarrow> is_alnum c \<and> length r \<le> 63 \<and> list_all (\<lambda>d. is_alnum d \<or> d \<in> set ''._-'') r)
      \<and> name \<noteq> ''awp-ide'')"

definition mcp_local_entry :: "runtime \<Rightarrow> McpHttpEndpoint option \<Rightarrow> McpConfigDoc result" where
  "mcp_local_entry rt awpIde =
     (case awpIde of
        None \<Rightarrow> Inr (\<lambda>_. None)
      | Some ide \<Rightarrow>
          bind_result (parseHttpUrl rt (ep_url ide))
            (\<lambda>parsed.
               if \<not> isLoopbackHost (url_hostname parsed)
               then Inl (Thrown ''awp_ide_must_be_loopback'')
               else Inr [''awp-ide'' \<mapsto>
                      \<lparr>mcp_url = url_href parsed, mcp_headers = endpointHeaders ide\<rparr>]))"

definition mcp_remote_entry ::
  "runtime \<Rightarrow> process_env \<Rightarrow> RemoteMcpEndpoint option \<Rightarrow> bool \<Rightarrow> McpConfigDoc \<Rightarrow> McpConfigDoc result" where
  "mcp_remote_entry rt env remoteMcp allowRemoteMcp servers =
     (case remoteMcp of
        None \<Rightarrow> Inr servers
      | Some remote \<Rightarrow>
          if \<not> allowRemoteMcp \<or> env ''AWP_AGENT_REMOTE_MCP_OPT_IN'' \<noteq> Some ''1''
          then Inl (Thrown ''remote_mcp_requires_explicit_opt_in'')
          else if \<not> validRemoteName (ep_name remote)
          then Inl (Thrown ''invalid_remote_mcp_name'')
          else bind_result (parseHttpUrl rt (ep_url remote))
                 (\<lambda>parsed.
                    if url_protocol parsed \<noteq> ''https:'' \<and> \<not> isLoopbackHost (url_hostname parsed)
                    then Inl (Thrown ''remote_mcp_requires_https'')
                    else Inr (servers(ep_name remote \<mapsto>
                           \<lparr>mcp_url = url_href parsed, mcp_headers = endpointHeaders remote\<rparr>))))"

definition buildMcpConfig ::
  "runtime \<Rightarrow> process_env \<Rightarrow> McpHttpEndpoint option \<Rightarrow> RemoteMcpEndpoint option \<Rightarrow> bool
     \<Rightarrow> McpConfigDoc result" where
  "buildMcpConfig rt env awpIde remoteMcp allowRemoteMcp =
     bind_result (mcp_local_entry rt awpIde) (mcp_remote_entry rt env remoteMcp allowRemoteMcp)"

section \<open>Properties\<close>

lemma arg_strings_Some:
  "arg_strings vs = Some args \<Longrightarrow>
     length args = length vs \<and> (\<forall>a \<in> set args. length a \<le> 8192)"
  by (fastforce simp: arg_strings_def list_all_iff split: if_splits jsval.splits)

lemma parseConfiguredArgs_Inr:
  assumes "parseConfiguredArgs rt env = Inr args"
  shows "length args \<le> 128" and "\<forall>a \<in> set args. length a \<le> 8192"
    and "(\<exists>a \<in> set args. isRemoteHttpUrl rt a) \<longrightarrow> remote_opt_in env"
  using assms arg_strings_Some
  by (force simp: parseConfiguredArgs_def Let_def list_ex_iff
      split: if_splits option.splits jsval.splits)+

lemma resolveCli_args:
  "resolveCliInvocation rt env managed = Inr ci \<Longrightarrow>
   parseConfiguredArgs rt env = Inr (inv_prefixArgs ci)"
  by (auto simp: resolveCliInvocation_def Let_def bind_result_Inr_iff
      split: if_splits sum.splits option.splits)

lemma cli_env_entries_ConsE:
  assumes "cli_env_entries rt ((key, item) # rest) m b = Inr r"
  obtains v where "item = Str v" "env_key key" "length v \<le> 32768"
    "cli_env_entries rt rest (m(key \<mapsto> v)) (b \<or> isRemoteHttpUrl rt v) = Inr r"
  using assms by (auto split: jsval.splits if_splits)

lemma cli_env_entries_keys:
  "cli_env_entries rt es m b = Inr (m', b') \<Longrightarrow> dom m' = dom m \<union> fst ` set es \<and> (\<forall>e \<in> set es. env_key (fst e))"
proof (induction es arbitrary: m b)
  case (Cons e es)
  obtain k x where e: "e = (k, x)" by (cases e)
  show ?case
    using Cons.prems unfolding e by (elim cli_env_entries_ConsE) (drule Cons.IH, auto)
qed auto

lemma cli_env_entries_flag_mono:
  "cli_env_entries rt es m b = Inr (m', b') \<Longrightarrow> b \<Longrightarrow> b'"
proof (induction es arbitrary: m b)
  case (Cons e es)
  obtain k x where e: "e = (k, x)" by (cases e)
  show ?case
    using Cons.prems unfolding e by (elim cli_env_entries_ConsE) (erule Cons.IH, simp)
qed auto

lemma cli_env_entries_local:
  "cli_env_entries rt es m b = Inr (m', b') \<Longrightarrow> \<not> b' \<Longrightarrow> m' k = Some v \<Longrightarrow>
   m k = Some v \<or> \<not> isRemoteHttpUrl rt v"
proof (induction es arbitrary: m b)
  case (Cons e es)
  obtain key x where e: "e = (key, x)" by (cases e)
  from Cons.prems(1) obtain w where w:
    "cli_env_entries rt es (m(key \<mapsto> w)) (b \<or> isRemoteHttpUrl rt w) = Inr (m', b')"
    unfolding e by (elim cli_env_entries_ConsE)
  from cli_env_entries_flag_mono [OF w] Cons.prems(2) have "\<not> isRemoteHttpUrl rt w" by blast
  with Cons.IH [OF w Cons.prems(2,3)] show ?case by (auto split: if_splits)
qed auto

lemma parseExplicitCliEnv_cases:
  assumes "parseExplicitCliEnv rt env = Inr m"
  obtains "m = (\<lambda>_. None)"
  | es b where "cli_env_entries rt es (\<lambda>_. None) False = Inr (m, b)" "b \<longrightarrow> remote_opt_in env"
  using assms
  by (auto simp: parseExplicitCliEnv_def Let_def bind_result_Inr_iff
      split: if_splits option.splits jsval.splits)

lemma parseExplicitCliEnv_local:
  assumes "parseExplicitCliEnv rt env = Inr m" "\<not> remote_opt_in env" "m k = Some v"
  shows "\<not> isRemoteHttpUrl rt v"
  using assms(1)
proof (cases rule: parseExplicitCliEnv_cases)
  case 1
  with assms(3) show ?thesis by simp
next
  case (2 es b)
  with assms(2) have "\<not> b" by blast
  from cli_env_entries_local [OF 2(1) this assms(3)] show ?thesis by simp
qed

lemma safe_parent_fold:
  "fold (\<lambda>key acc. case env key of None \<Rightarrow> acc | Some v \<Rightarrow> acc(key \<mapsto> v)) ks m k
   = (if k \<in> set ks \<and> env k \<noteq> None then env k else m k)"
  by (induction ks arbitrary: m) (auto split: option.splits)

lemma buildSafeParentEnv_apply:
  "buildSafeParentEnv env k = (if k \<in> set SAFE_PARENT_ENV_KEYS then env k else None)"
  by (auto simp: buildSafeParentEnv_def safe_parent_fold)

text \<open>
  C3. The child process sees an allow-listed parent variable with its parent value, or
  a variable of \<open>AWP_AGENT_CLI_ENV_JSON\<close> with its configured value, and nothing
  else; without the remote opt-in no configured value contains a remote URL.
\<close>

theorem child_environment_exact:
  assumes "buildCcEnv rt env = Inr cenv"
  shows "\<exists>explicit. parseExplicitCliEnv rt env = Inr explicit
    \<and> (\<forall>k. cenv k = (case explicit k of Some v \<Rightarrow> Some v
                     | None \<Rightarrow> if k \<in> set SAFE_PARENT_ENV_KEYS then env k else None))
    \<and> (\<not> remote_opt_in env \<longrightarrow> (\<forall>k v. explicit k = Some v \<longrightarrow> \<not> isRemoteHttpUrl rt v))"
proof -
  from assms obtain explicit where e: "parseExplicitCliEnv rt env = Inr explicit"
    and c: "cenv = buildSafeParentEnv env ++ explicit"
    by (auto simp: buildCcEnv_def bind_result_Inr_iff)
  have "cenv k = (case explicit k of Some v \<Rightarrow> Some v
                  | None \<Rightarrow> if k \<in> set SAFE_PARENT_ENV_KEYS then env k else None)" for k
    by (cases "explicit k") (simp_all add: c map_add_def buildSafeParentEnv_apply)
  with e parseExplicitCliEnv_local [OF e] show ?thesis by blast
qed

text \<open>A runtime whose URL parser rejects everything, so that every candidate counts as remote.\<close>

definition no_url_runtime :: runtime where
  "no_url_runtime = \<lparr>new_URL = (\<lambda>_. None), clear_hash = id, decodeURIComponent = Some\<rparr>"

definition sample_env :: process_env where
  "sample_env = [''PATH'' \<mapsto> ''/bin'', ''AWP_TOKEN'' \<mapsto> ''t'', ''AWP_AGENT_CLI_ENV_JSON'' \<mapsto> ''{}'']"

theorem child_environment_exact_witness:
  "\<exists>cenv. buildCcEnv no_url_runtime sample_env = Inr cenv
     \<and> cenv ''PATH'' = Some ''/bin'' \<and> cenv ''AWP_TOKEN'' = None"
proof -
  have parse: "parseExplicitCliEnv no_url_runtime sample_env = Inr (\<lambda>_. None)"
    by (simp add: parseExplicitCliEnv_def env_trim_def sample_env_def trim_def is_ws_def
        JSON_parse_def parse_value.simps skip_ws_def is_json_ws_def)
  then obtain cenv where c: "buildCcEnv no_url_runtime sample_env = Inr cenv"
    by (simp add: buildCcEnv_def)
  from child_environment_exact [OF c] parse
  have "\<forall>k. cenv k = (if k \<in> set SAFE_PARENT_ENV_KEYS then sample_env k else None)" by simp
  then have "cenv ''PATH'' = Some ''/bin''" "cenv ''AWP_TOKEN'' = None"
    by (simp_all add: SAFE_PARENT_ENV_KEYS_def sample_env_def)
  with c show ?thesis by blast
qed

lemma parseHttpUrl_no_credentials:
  "parseHttpUrl rt raw = Inr u \<Longrightarrow> url_username u = [] \<and> url_password u = []"
  by (auto simp: parseHttpUrl_def split: option.splits if_splits)

lemma mcp_local_entry_cases:
  assumes "mcp_local_entry rt awpIde = Inr servers"
  shows "servers = (\<lambda>_. None) \<or> (\<exists>ide u. awpIde = Some ide \<and> parseHttpUrl rt (ep_url ide) = Inr u
      \<and> isLoopbackHost (url_hostname u)
      \<and> servers = [''awp-ide'' \<mapsto> \<lparr>mcp_url = url_href u, mcp_headers = endpointHeaders ide\<rparr>])"
  using assms
  by (auto simp: mcp_local_entry_def bind_result_Inr_iff split: option.splits if_splits)

lemma mcp_remote_entry_cases:
  assumes "mcp_remote_entry rt env remoteMcp allowRemoteMcp servers = Inr doc"
  shows "(\<exists>r u. remoteMcp = Some r \<and> allowRemoteMcp \<and> env ''AWP_AGENT_REMOTE_MCP_OPT_IN'' = Some ''1''
      \<and> ep_name r \<noteq> ''awp-ide'' \<and> parseHttpUrl rt (ep_url r) = Inr u
      \<and> (url_protocol u = ''https:'' \<or> isLoopbackHost (url_hostname u))
      \<and> doc = servers(ep_name r \<mapsto> \<lparr>mcp_url = url_href u, mcp_headers = endpointHeaders r\<rparr>))
      \<or> doc = servers"
proof (cases remoteMcp)
  case (Some r)
  with assms have "allowRemoteMcp" "env ''AWP_AGENT_REMOTE_MCP_OPT_IN'' = Some ''1''"
    "ep_name r \<noteq> ''awp-ide''"
    by (auto simp: mcp_remote_entry_def validRemoteName_def split: if_splits)
  moreover from Some assms obtain u where "parseHttpUrl rt (ep_url r) = Inr u"
    "url_protocol u = ''https:'' \<or> isLoopbackHost (url_hostname u)"
    "doc = servers(ep_name r \<mapsto> \<lparr>mcp_url = url_href u, mcp_headers = endpointHeaders r\<rparr>)"
    by (simp add: mcp_remote_entry_def bind_result_Inr_iff split: if_splits) blast
  ultimately show ?thesis using Some by blast
qed (use assms in \<open>simp add: mcp_remote_entry_def\<close>)

text \<open>
  C4. An MCP configuration is rendered with at most two entries: the local one always
  points at the loopback interface and cannot be shadowed by the remote one, and a
  remote entry exists only when the caller and the operator both opted in, over https
  or on the loopback interface, and never with credentials in its URL.
\<close>

theorem mcp_config_guarded:
  assumes "buildMcpConfig rt env awpIde remoteMcp allowRemoteMcp = Inr doc"
  shows "(\<forall>e. doc ''awp-ide'' = Some e \<longrightarrow>
            (\<exists>ide u. awpIde = Some ide \<and> parseHttpUrl rt (ep_url ide) = Inr u
                     \<and> isLoopbackHost (url_hostname u) \<and> mcp_url e = url_href u))
       \<and> (\<forall>name e. name \<noteq> ''awp-ide'' \<longrightarrow> doc name = Some e \<longrightarrow>
            allowRemoteMcp \<and> env ''AWP_AGENT_REMOTE_MCP_OPT_IN'' = Some ''1'' \<and>
            (\<exists>remote u. remoteMcp = Some remote \<and> ep_name remote = name
               \<and> parseHttpUrl rt (ep_url remote) = Inr u \<and> mcp_url e = url_href u
               \<and> url_username u = [] \<and> url_password u = []
               \<and> (url_protocol u = ''https:'' \<or> isLoopbackHost (url_hostname u))))"
proof -
  from assms obtain servers where servers: "mcp_local_entry rt awpIde = Inr servers"
    and remote: "mcp_remote_entry rt env remoteMcp allowRemoteMcp servers = Inr doc"
    by (auto simp: buildMcpConfig_def bind_result_Inr_iff)
  from remote have "(\<exists>r u. remoteMcp = Some r \<and> allowRemoteMcp \<and> env ''AWP_AGENT_REMOTE_MCP_OPT_IN'' = Some ''1''
      \<and> ep_name r \<noteq> ''awp-ide'' \<and> parseHttpUrl rt (ep_url r) = Inr u
      \<and> (url_protocol u = ''https:'' \<or> isLoopbackHost (url_hostname u))
      \<and> doc = servers(ep_name r \<mapsto> \<lparr>mcp_url = url_href u, mcp_headers = endpointHeaders r\<rparr>))
      \<or> doc = servers"
    by (rule mcp_remote_entry_cases)
  with mcp_local_entry_cases [OF servers] show ?thesis
    by (elim disjE exE conjE) (auto dest: parseHttpUrl_no_credentials)
qed

definition sample_ide :: McpHttpEndpoint where
  "sample_ide = \<lparr>ep_url = ''http://127.0.0.1:9/mcp'', ep_token = Some ''t'',
     ep_conversationId = None, ep_headers = []\<rparr>"

definition ide_url :: url where
  "ide_url = \<lparr>url_href = ''http://127.0.0.1:9/mcp'', url_protocol = ''http:'', url_username = [],
     url_password = [], url_hostname = ''127.0.0.1'', url_port = ''9'', url_pathname = ''/mcp'',
     url_search = [], url_hash = [], url_origin = ''http://127.0.0.1:9''\<rparr>"

definition ide_runtime :: runtime where
  "ide_runtime = no_url_runtime\<lparr>new_URL := (\<lambda>s. if s = ''http://127.0.0.1:9/mcp'' then Some ide_url else None)\<rparr>"

theorem mcp_config_guarded_witness:
  "\<exists>doc e (u :: url). buildMcpConfig ide_runtime sample_env (Some sample_ide) None False = Inr doc
     \<and> doc ''awp-ide'' = Some e \<and> isLoopbackHost (url_hostname u) \<and> mcp_url e = url_href u"
proof -
  have lb: "isLoopbackHost (url_hostname ide_url)"
    by (simp add: isLoopbackHost_def is_loopback_host_def ide_url_def to_lower_def lower_char_def is_upper_def)
  have parsed: "parseHttpUrl ide_runtime (ep_url sample_ide) = Inr ide_url"
    by (simp add: parseHttpUrl_def ide_runtime_def sample_ide_def ide_url_def)
  from lb parsed have "buildMcpConfig ide_runtime sample_env (Some sample_ide) None False
      = Inr [''awp-ide'' \<mapsto> \<lparr>mcp_url = url_href ide_url, mcp_headers = endpointHeaders sample_ide\<rparr>]"
    by (simp add: buildMcpConfig_def mcp_local_entry_def mcp_remote_entry_def)
  then obtain doc e where d: "buildMcpConfig ide_runtime sample_env (Some sample_ide) None False = Inr doc"
    "doc ''awp-ide'' = Some e" by force
  from mcp_config_guarded [OF d(1), THEN conjunct1, rule_format, OF d(2)] obtain u :: url where
    "isLoopbackHost (url_hostname u)" "mcp_url e = url_href u" by auto
  with d show ?thesis by blast
qed

end
