(* ===== verification/CcStream.thy ===== *)
theory CcStream
  imports Json
begin

text \<open>
  The stream parser of the Agent CLI adapter
  (\<open>apps/desktop/electron/cc/cc-wrapper.ts\<close>): the session object, the
  translation of one CLI event into renderer chunks, the tool status labels and
  the buffering of partial stdout lines.  The stateful \<open>TextDecoder\<close> belongs to
  the runtime: a chunk enters the model as the text it decoded to.
\<close>

section \<open>Data\<close>

datatype SessionPhase = spawning | idle | streaming | exited

record token_usage =
  input_tokens :: "jsnum option"
  output_tokens :: "jsnum option"
  cache_read_input_tokens :: "jsnum option"
  cache_creation_input_tokens :: "jsnum option"

record FlatChunk =
  fc_type :: "string option"
  fc_delta :: "string option"
  fc_conversation_id :: "string option"
  fc_model :: "string option"
  fc_usage :: "token_usage option"
  fc_label :: "string option"
  fc_tool :: "string option"
  fc_done :: bool
  fc_error :: "string option"
  fc_cc_session_id :: "string option"

definition chunk0 :: FlatChunk where
  "chunk0 = \<lparr>fc_type = None, fc_delta = None, fc_conversation_id = None, fc_model = None,
     fc_usage = None, fc_label = None, fc_tool = None, fc_done = False, fc_error = None,
     fc_cc_session_id = None\<rparr>"

text \<open>
  How far the cancellation behind \<open>stopPromise\<close> has come: not started, waiting for
  the soft shutdown, waiting after SIGTERM, resolved.
\<close>

datatype stop_stage = NotStopping | SoftWait | TermWait | Stopped

text \<open>
  The session object.  The child process is represented by what the wrapper reads
  of it: its exit code and signal, and whether its stdin is still writable.
  An optional boolean that is never set is \<open>False\<close>, an optional counter 0.
\<close>

record CcSession =
  s_sessionId :: string
  s_conversationId :: string
  s_cwd :: string
  s_model :: "string option"
  s_phase :: SessionPhase
  s_stdoutBuffer :: string
  s_stderrBuffer :: string
  s_pendingToolInput :: "jsnum \<Rightarrow> string option"
  s_startedAt :: nat
  s_lastActivityAt :: nat
  s_ccSessionId :: "string option"
  s_lastEventType :: "string option"
  s_sawApiError :: bool
  s_malformedStdoutLines :: nat
  s_turnInFlight :: bool
  s_stopRequested :: bool
  s_stop :: stop_stage
  s_exitCode :: "int option"
  s_signalCode :: "string option"
  s_stdinOpen :: bool
  s_managedRuntime :: bool

definition STDOUT_OVERSIZE_LIMIT :: nat where
  "STDOUT_OVERSIZE_LIMIT = 4 * 1024 * 1024"

section \<open>Tool status labels\<close>

text \<open>\<open>replace(/^mcp__[^_]+__(?:[^_]+__)?/, '')\<close>\<close>

definition drop_name_part :: "string \<Rightarrow> string option" where
  "drop_name_part s =
     (let a = takeWhile (\<lambda>c. c \<noteq> CHR ''_'') s; r = dropWhile (\<lambda>c. c \<noteq> CHR ''_'') s
      in if a \<noteq> [] \<and> starts_with r ''__'' then Some (drop 2 r) else None)"

definition strip_mcp_prefix :: "string \<Rightarrow> string" where
  "strip_mcp_prefix name =
     (if starts_with name ''mcp__'' then
        (case drop_name_part (drop 5 name) of
           None \<Rightarrow> name
         | Some r \<Rightarrow> (case drop_name_part r of None \<Rightarrow> r | Some r' \<Rightarrow> r'))
      else name)"

definition text_field :: "jsval \<Rightarrow> string \<Rightarrow> string" where
  "text_field input key =
     (if truthy input \<and> is_object input
      then (case field input key of Str s \<Rightarrow> s | _ \<Rightarrow> []) else [])"

definition label_head :: "string \<Rightarrow> string" where
  "label_head value =
     (let first = trim (hd (split_char (CHR 0x0A) value))
      in if 40 < length first then slice first 0 40 @ ''...'' else first)"

definition is_slash :: "char \<Rightarrow> bool" where
  "is_slash c = (c = CHR ''/'' \<or> c = CHR 0x5C)"

text \<open>\<open>value.replace(/[\\/]+$/, '').split(/[\\/]/).pop() || value\<close>\<close>

definition label_base :: "string \<Rightarrow> string" where
  "label_base value =
     (if value = [] then []
      else let stripped = rev (dropWhile is_slash (rev value));
               piece = rev (takeWhile (\<lambda>c. \<not> is_slash c) (rev stripped))
           in if piece = [] then value else piece)"

definition or_else :: "string \<Rightarrow> string \<Rightarrow> string" where
  "or_else a b = (if a = [] then b else a)"

definition toolStatusLabel :: "string \<Rightarrow> jsval \<Rightarrow> string" where
  "toolStatusLabel rawName input =
     (let name = strip_mcp_prefix rawName; t = text_field input in
      if name \<in> {''vm_exec'', ''vm_exec_stream'', ''Bash''} then
        (let command = or_else (t ''command'') (t ''cmd'')
         in if command \<noteq> [] then ''Running: '' @ label_head command else ''Running command'')
      else if name \<in> {''vm_write_file'', ''Write''} then
        (let file = or_else (t ''path'') (t ''file_path'')
         in if file \<noteq> [] then ''Writing '' @ label_base file else ''Writing file'')
      else if name \<in> {''vm_read_file'', ''Read''} then
        (let file = or_else (t ''path'') (t ''file_path'')
         in if file \<noteq> [] then ''Reading '' @ label_base file else ''Reading file'')
      else if name \<in> {''Edit'', ''MultiEdit''} then
        (let file = t ''file_path''
         in if file \<noteq> [] then ''Editing '' @ label_base file else ''Editing file'')
      else if name = ''awp_save_artifact'' then ''Saving artifact''
      else if name = ''awp_open_file_in_tab'' then ''Opening file''
      else if name = ''awp_notify_user'' then ''''
      else if name = ''Grep'' then ''Searching code''
      else if name = ''Glob'' then ''Finding files''
      else if name \<in> {''WebSearch'', ''WebFetch''} then ''Retrieving information''
      else if name = ''TodoWrite'' then ''Updating task list''
      else if name = ''Task'' then ''Running subtask''
      else ''Working'')"

section \<open>Event translation\<close>

text \<open>\<open>v ?? {}\<close>\<close>

definition or_empty :: "jsval \<Rightarrow> jsval" where
  "or_empty v = (if v = Undefined \<or> v = Null then Obj [] else v)"

definition string_or_empty :: "jsval \<Rightarrow> string" where
  "string_or_empty v = (case v of Str s \<Rightarrow> s | _ \<Rightarrow> [])"

definition string_or :: "jsval \<Rightarrow> string option \<Rightarrow> string option" where
  "string_or v d = (case v of Str s \<Rightarrow> Some s | _ \<Rightarrow> d)"

definition usage_of :: "jsval \<Rightarrow> token_usage" where
  "usage_of u =
     \<lparr>input_tokens = as_number (field u ''input_tokens''),
      output_tokens = as_number (field u ''output_tokens''),
      cache_read_input_tokens = as_number (field u ''cache_read_input_tokens''),
      cache_creation_input_tokens = as_number (field u ''cache_creation_input_tokens'')\<rparr>"

text \<open>\<open>typeof ev['index'] === 'number' ? ev['index'] : -1\<close>\<close>

definition block_index :: "jsval \<Rightarrow> jsnum" where
  "block_index ev = (case field ev ''index'' of Num n \<Rightarrow> n | _ \<Rightarrow> Fin (- 1))"

definition tool_chunk :: "string \<Rightarrow> jsval \<Rightarrow> FlatChunk" where
  "tool_chunk name input =
     chunk0\<lparr>fc_type := Some ''cc_status'', fc_label := Some (toolStatusLabel name input),
            fc_tool := Some name\<rparr>"

definition tool_name :: "jsval \<Rightarrow> string" where
  "tool_name b = (case field b ''name'' of Str s \<Rightarrow> s | _ \<Rightarrow> ''tool'')"

definition assistant_block :: "jsval \<Rightarrow> FlatChunk list" where
  "assistant_block b =
     (if \<not> truthy b \<or> \<not> is_object b then []
      else let text = as_string (field b ''text'') in
           if field b ''type'' = Str ''text'' \<and> text \<noteq> None
           then (if 0 < length (the text) then [chunk0\<lparr>fc_delta := text\<rparr>] else [])
           else if field b ''type'' = Str ''tool_use''
           then [tool_chunk (tool_name b) (field b ''input'')]
           else [])"

definition array_or_empty :: "jsval \<Rightarrow> jsval list" where
  "array_or_empty v = (case v of Arr vs \<Rightarrow> vs | _ \<Rightarrow> [])"

definition translate_system :: "jsval \<Rightarrow> CcSession \<Rightarrow> CcSession \<times> FlatChunk list" where
  "translate_system ev session =
     (if string_or_empty (field ev ''subtype'') = ''init'' then
        (let model = string_or (field ev ''model'') (s_model session);
             ccSessionId = as_string (field ev ''session_id'');
             session' = (case ccSessionId of
                           Some i \<Rightarrow> if i \<noteq> [] then session\<lparr>s_ccSessionId := Some i\<rparr> else session
                         | None \<Rightarrow> session)
         in (session',
             [chunk0\<lparr>fc_type := Some ''cc_status'', fc_label := Some ''ready''\<rparr>,
              chunk0\<lparr>fc_type := Some ''message_start'',
                     fc_conversation_id := Some (s_conversationId session),
                     fc_model := model, fc_cc_session_id := ccSessionId\<rparr>]))
      else (session, []))"

definition translate_result :: "jsval \<Rightarrow> FlatChunk" where
  "translate_result ev =
     (let isError = (field ev ''is_error'' = Bool True);
          subtype = string_or_empty (field ev ''subtype'');
          done0 = chunk0\<lparr>fc_done := True\<rparr>;
          usage = field ev ''usage'';
          done1 = (if truthy usage then done0\<lparr>fc_usage := Some (usage_of usage)\<rparr> else done0)
      in if isError
         then done1\<lparr>fc_error := Some
                (case field ev ''result'' of
                   Str r \<Rightarrow> r
                 | _ \<Rightarrow> if subtype \<noteq> [] then ''cc_'' @ subtype else ''cc_error'')\<rparr>
         else done1)"

definition translate_block_start :: "jsval \<Rightarrow> CcSession \<Rightarrow> CcSession \<times> FlatChunk list" where
  "translate_block_start ev session =
     (let idx = block_index ev; block = or_empty (field ev ''content_block'')
      in if field block ''type'' = Str ''tool_use''
         then ((if jsnum_ge0 idx
                then session\<lparr>s_pendingToolInput := (s_pendingToolInput session)(idx \<mapsto> [])\<rparr>
                else session),
               [tool_chunk (tool_name block) Undefined])
         else (session, []))"

definition translate_block_delta :: "jsval \<Rightarrow> CcSession \<Rightarrow> CcSession \<times> FlatChunk list" where
  "translate_block_delta ev session =
     (let idx = block_index ev; delta = or_empty (field ev ''delta'');
          text = as_string (field delta ''text'');
          partial_json = as_string (field delta ''partial_json'')
      in if field delta ''type'' = Str ''text_delta'' \<and> text \<noteq> None
         then (session, [chunk0\<lparr>fc_delta := text\<rparr>])
         else if field delta ''type'' = Str ''input_json_delta'' \<and> partial_json \<noteq> None
         then ((if jsnum_ge0 idx
                then session\<lparr>s_pendingToolInput := (s_pendingToolInput session)(idx \<mapsto>
                       (case s_pendingToolInput session idx of None \<Rightarrow> [] | Some prev \<Rightarrow> prev)
                       @ the partial_json)\<rparr>
                else session), [])
         else (session, []))"

text \<open>The empty list stands for the result \<open>null\<close>.\<close>

definition translateEvent :: "jsval \<Rightarrow> CcSession \<Rightarrow> CcSession \<times> FlatChunk list" where
  "translateEvent event session =
     (if \<not> truthy event \<or> \<not> is_object event then (session, [])
      else case field event ''type'' of
        Str t \<Rightarrow>
          if t = ''system'' then translate_system event session
          else if t = ''assistant'' then
            (session, concat (map assistant_block
                        (array_or_empty (field (or_empty (field event ''message'')) ''content''))))
          else if t = ''user'' then (session, [])
          else if t = ''rate_limit_event'' then
            (let status = string_or_empty (field (or_empty (field event ''rate_limit_info'')) ''status'')
             in if status \<noteq> [] \<and> status \<noteq> ''allowed''
                then (session, [chunk0\<lparr>fc_type := Some ''cc_status'', fc_label := Some ''rate_limited''\<rparr>])
                else (session, []))
          else if t = ''result'' then (session, [translate_result event])
          else if t = ''message_start'' then
            (session, [chunk0\<lparr>fc_type := Some ''message_start'',
                        fc_conversation_id := Some (s_conversationId session),
                        fc_model := string_or (field (or_empty (field event ''message'')) ''model'')
                                      (s_model session)\<rparr>])
          else if t = ''content_block_start'' then translate_block_start event session
          else if t = ''content_block_delta'' then translate_block_delta event session
          else if t = ''content_block_stop'' then
            ((if jsnum_ge0 (block_index event)
              then session\<lparr>s_pendingToolInput := (s_pendingToolInput session)(block_index event := None)\<rparr>
              else session), [])
          else if t = ''message_delta'' then
            (let usage = field event ''usage''
             in if truthy usage then (session, [chunk0\<lparr>fc_usage := Some (usage_of usage)\<rparr>])
                else (session, []))
          else if t = ''message_stop'' then (session, [chunk0\<lparr>fc_done := True\<rparr>])
          else (session, [])
      | _ \<Rightarrow> (session, []))"

section \<open>Line buffering\<close>

text \<open>\<open>if (c.done === true) session.turnInFlight = false\<close> for every chunk sent.\<close>

definition note_done :: "FlatChunk list \<Rightarrow> CcSession \<Rightarrow> CcSession" where
  "note_done cs session =
     (if list_ex fc_done cs then session\<lparr>s_turnInFlight := False\<rparr> else session)"

text \<open>One complete stdout line: the chunks to broadcast and the updated session.\<close>

definition process_line :: "string \<Rightarrow> CcSession \<Rightarrow> CcSession \<times> FlatChunk list" where
  "process_line raw session =
     (let line = trim raw in
      if line = [] then (session, [])
      else case JSON_parse line of
             None \<Rightarrow>
               (session\<lparr>s_stderrBuffer := s_stderrBuffer session
                           @ ''[cc-wrapper] malformed stdout line: '' @ slice line 0 200 @ [CHR 0x0A],
                        s_malformedStdoutLines := s_malformedStdoutLines session + 1\<rparr>, [])
           | Some parsed \<Rightarrow>
               (let session1 = (case field parsed ''type'' of
                                  Str ty \<Rightarrow> session\<lparr>s_lastEventType := Some ty\<rparr>
                                | _ \<Rightarrow> session);
                    (session2, cs) = translateEvent parsed session1
                in (note_done cs session2, cs)))"

fun process_lines :: "string list \<Rightarrow> CcSession \<Rightarrow> CcSession \<times> FlatChunk list" where
  "process_lines [] session = (session, [])"
| "process_lines (l # ls) session =
     (let (session1, cs1) = process_line l session;
          (session2, cs2) = process_lines ls session1
      in (session2, cs1 @ cs2))"

text \<open>
  The outcome of one chunk: the session, the chunks broadcast, and whether the
  runaway guard asked for the session to be stopped.
\<close>

definition oversize_chunk :: FlatChunk where
  "oversize_chunk = chunk0\<lparr>fc_error := Some ''runtime_output_oversize'', fc_done := True\<rparr>"

definition handleStdoutChunk ::
  "nat \<Rightarrow> string \<Rightarrow> CcSession \<Rightarrow> CcSession \<times> FlatChunk list \<times> bool" where
  "handleStdoutChunk now piece session0 =
     (let session = session0\<lparr>s_stdoutBuffer := s_stdoutBuffer session0 @ piece, s_lastActivityAt := now\<rparr>
      in if STDOUT_OVERSIZE_LIMIT < length (s_stdoutBuffer session)
         then (session, [oversize_chunk], True)
         else
           let lines = split_char (CHR 0x0A) (s_stdoutBuffer session);
               (session', cs) = process_lines (butlast lines) (session\<lparr>s_stdoutBuffer := last lines\<rparr>)
           in (session', cs, False))"

section \<open>Framing\<close>

text \<open>
  The parser reads and writes neither the buffer nor the activity time of the
  session, so processing commutes with changing them.
\<close>

definition reframe :: "string \<Rightarrow> nat \<Rightarrow> CcSession \<Rightarrow> CcSession" where
  "reframe b n s = s\<lparr>s_stdoutBuffer := b, s_lastActivityAt := n\<rparr>"

lemma translate_system_reframe:
  "translate_system ev (reframe b n s) = map_prod (reframe b n) id (translate_system ev s)"
  by (simp add: translate_system_def reframe_def Let_def split: option.split)

lemma translate_block_reframe:
  "translate_block_start ev (reframe b n s) = map_prod (reframe b n) id (translate_block_start ev s)"
  "translate_block_delta ev (reframe b n s) = map_prod (reframe b n) id (translate_block_delta ev s)"
  by (auto simp: translate_block_start_def translate_block_delta_def reframe_def Let_def)

lemma reframe_fields [simp]:
  "s_conversationId (reframe b n s) = s_conversationId s" "s_model (reframe b n s) = s_model s"
  "s_pendingToolInput (reframe b n s) = s_pendingToolInput s"
  "s_stdoutBuffer (reframe b n s) = b" "s_turnInFlight (reframe b n s) = s_turnInFlight s"
  "reframe b n (reframe b' n' s) = reframe b n s"
  by (simp_all add: reframe_def)

lemma reframe_pending:
  "(reframe b n s)\<lparr>s_pendingToolInput := m\<rparr> = reframe b n (s\<lparr>s_pendingToolInput := m\<rparr>)"
  by (simp add: reframe_def)

lemma translateEvent_reframe:
  "translateEvent ev (reframe b n s) = map_prod (reframe b n) id (translateEvent ev s)"
  unfolding translateEvent_def
  by (simp add: translate_system_reframe translate_block_reframe Let_def reframe_pending
      split: jsval.split)

lemma process_line_reframe:
  "process_line l (reframe b n s) = map_prod (reframe b n) id (process_line l s)"
proof -
  have upd: "(reframe b n s)\<lparr>s_lastEventType := x\<rparr> = reframe b n (s\<lparr>s_lastEventType := x\<rparr>)" for x
    by (simp add: reframe_def)
  have nd: "note_done cs (reframe b n t) = reframe b n (note_done cs t)" for cs t
    by (simp add: note_done_def reframe_def)
  show ?thesis
    by (auto simp: process_line_def Let_def upd translateEvent_reframe nd case_prod_unfold
        split: option.split jsval.split) (simp_all add: reframe_def)
qed

lemma process_lines_reframe:
  "process_lines ls (reframe b n s) = map_prod (reframe b n) id (process_lines ls s)"
  by (induction ls arbitrary: s) (simp_all add: process_line_reframe case_prod_unfold Let_def)

lemma process_lines_append:
  "process_lines (ls @ ms) s =
     (let (s1, c1) = process_lines ls s; (s2, c2) = process_lines ms s1 in (s2, c1 @ c2))"
  by (induction ls arbitrary: s) (simp_all add: case_prod_unfold Let_def)

lemma handleStdoutChunk_normal:
  assumes "length (s_stdoutBuffer s @ piece) \<le> STDOUT_OVERSIZE_LIMIT"
  shows "handleStdoutChunk n piece s =
     (let lines = split_char (CHR 0x0A) (s_stdoutBuffer s @ piece);
          (s', cs) = process_lines (butlast lines) s
      in (reframe (last lines) n s', cs, False))"
proof -
  let ?ls = "split_char (CHR 0x0A) (s_stdoutBuffer s @ piece)"
  have "s\<lparr>s_stdoutBuffer := s_stdoutBuffer s @ piece, s_lastActivityAt := n\<rparr>\<lparr>s_stdoutBuffer := last ?ls\<rparr>
        = reframe (last ?ls) n s" by (simp add: reframe_def)
  with assms show ?thesis
    by (simp add: handleStdoutChunk_def Let_def process_lines_reframe case_prod_unfold)
qed

section \<open>Properties\<close>


definition sample_session :: CcSession where
  "sample_session = \<lparr>s_sessionId = ''s1'', s_conversationId = ''c1'', s_cwd = ''/'', s_model = None,
     s_phase = streaming, s_stdoutBuffer = [], s_stderrBuffer = [], s_pendingToolInput = (\<lambda>_. None),
     s_startedAt = 0, s_lastActivityAt = 0, s_ccSessionId = None, s_lastEventType = None,
     s_sawApiError = False, s_malformedStdoutLines = 0, s_turnInFlight = True, s_stopRequested = False,
     s_stop = NotStopping, s_exitCode = None, s_signalCode = None, s_stdinOpen = True,
     s_managedRuntime = False\<rparr>"

definition piece_a :: string where
  "piece_a = [CHR ''{'', CHR 0x22] @ ''type'' @ [CHR 0x22, CHR '':'', CHR 0x22] @ ''message_''"

definition piece_b :: string where
  "piece_b = ''stop'' @ [CHR 0x22, CHR ''}'', CHR 0x0A]"

lemma sample_small:
  "length (s_stdoutBuffer sample_session @ piece_a @ piece_b) \<le> STDOUT_OVERSIZE_LIMIT"
  by (simp add: sample_session_def piece_a_def piece_b_def STDOUT_OVERSIZE_LIMIT_def)

lemma sample_run:
  "snd (handleStdoutChunk 2 (piece_a @ piece_b) sample_session) = ([chunk0\<lparr>fc_done := True\<rparr>], False)"
proof -
  have "snd (process_lines (butlast (split_char (CHR 0x0A)
          (s_stdoutBuffer sample_session @ piece_a @ piece_b))) sample_session)
        = [chunk0\<lparr>fc_done := True\<rparr>]"
    by code_simp
  then show ?thesis
    using sample_small by (simp add: handleStdoutChunk_normal Let_def case_prod_unfold)
qed


lemma process_lines_buffer: "s_stdoutBuffer (fst (process_lines ls s)) = s_stdoutBuffer s"
proof -
  have "process_lines ls (reframe (s_stdoutBuffer s) (s_lastActivityAt s) s)
      = map_prod (reframe (s_stdoutBuffer s) (s_lastActivityAt s)) id (process_lines ls s)"
    by (rule process_lines_reframe)
  moreover have "reframe (s_stdoutBuffer s) (s_lastActivityAt s) s = s" by (simp add: reframe_def)
  ultimately show ?thesis by (metis fst_map_prod reframe_fields(4))
qed

text \<open>
  After every chunk the session buffer is bounded: either the runaway guard fired,
  reporting exactly one terminal error chunk, or at most one partial line (no newline,
  never longer than the limit) is left waiting.
\<close>

theorem stdout_buffer_bounded:
  assumes "handleStdoutChunk n piece s = (s', cs, stop)"
  shows "(stop \<longleftrightarrow> STDOUT_OVERSIZE_LIMIT < length (s_stdoutBuffer s) + length piece)
    \<and> (stop \<longrightarrow> cs = [oversize_chunk])
    \<and> (\<not> stop \<longrightarrow> length (s_stdoutBuffer s') \<le> STDOUT_OVERSIZE_LIMIT \<and> CHR 0x0A \<notin> set (s_stdoutBuffer s'))"
proof (cases "STDOUT_OVERSIZE_LIMIT < length (s_stdoutBuffer s) + length piece")
  case True
  with assms show ?thesis by (simp add: handleStdoutChunk_def Let_def)
next
  case False
  let ?ls = "split_char (CHR 0x0A) (s_stdoutBuffer s @ piece)"
  from False assms have "s_stdoutBuffer s' = last ?ls" "\<not> stop"
    by (auto simp: handleStdoutChunk_normal Let_def case_prod_unfold)
  with False show ?thesis
    using length_last_split [of "CHR 0x0A" "s_stdoutBuffer s @ piece"]
      last_split_no_sep [of "CHR 0x0A" "s_stdoutBuffer s @ piece"] by simp
qed

theorem stdout_buffer_bounded_witness:
  "\<exists>s' cs. handleStdoutChunk 1 piece_a sample_session = (s', cs, False)
     \<and> CHR 0x0A \<notin> set (s_stdoutBuffer s')"
proof -
  obtain s' cs f where run: "handleStdoutChunk 1 piece_a sample_session = (s', cs, f)"
    by (metis prod_cases3)
  have "\<not> STDOUT_OVERSIZE_LIMIT < length (s_stdoutBuffer sample_session) + length piece_a"
    by (simp add: sample_session_def piece_a_def STDOUT_OVERSIZE_LIMIT_def)
  with stdout_buffer_bounded [OF run] run show ?thesis by auto
qed

lemma translate_parts_turn:
  "s_turnInFlight (fst (translate_system ev s)) = s_turnInFlight s"
  "s_turnInFlight (fst (translate_block_start ev s)) = s_turnInFlight s"
  "s_turnInFlight (fst (translate_block_delta ev s)) = s_turnInFlight s"
  by (simp_all add: translate_system_def translate_block_start_def translate_block_delta_def
      Let_def split: option.split)

lemma translateEvent_turn: "s_turnInFlight (fst (translateEvent ev s)) = s_turnInFlight s"
  unfolding translateEvent_def
  by (simp add: translate_parts_turn Let_def split: jsval.split)

lemma process_line_turn:
  "s_turnInFlight (fst (process_line l s)) \<longleftrightarrow>
   s_turnInFlight s \<and> \<not> list_ex fc_done (snd (process_line l s))"
proof -
  have "s_turnInFlight (note_done cs t) \<longleftrightarrow> s_turnInFlight t \<and> \<not> list_ex fc_done cs" for cs t
    by (simp add: note_done_def)
  then show ?thesis
    by (auto simp: process_line_def Let_def case_prod_unfold translateEvent_turn
        split: option.split jsval.split)
qed

lemma process_lines_turn:
  "s_turnInFlight (fst (process_lines ls s)) \<longleftrightarrow>
   s_turnInFlight s \<and> \<not> list_ex fc_done (snd (process_lines ls s))"
  by (induction ls arbitrary: s) (auto simp: Let_def case_prod_unfold process_line_turn)

text \<open>
  A turn is closed exactly by a terminal chunk: after a chunk of output is processed
  the turn is in flight if and only if it was before and no broadcast chunk was terminal.
\<close>

theorem turn_closed_by_terminal_chunk:
  assumes "handleStdoutChunk n piece s = (s', cs, False)"
  shows "s_turnInFlight s' \<longleftrightarrow> s_turnInFlight s \<and> \<not> list_ex fc_done cs"
proof -
  have small: "length (s_stdoutBuffer s @ piece) \<le> STDOUT_OVERSIZE_LIMIT"
    using assms by (auto simp: handleStdoutChunk_def Let_def split: if_splits)
  let ?ls = "butlast (split_char (CHR 0x0A) (s_stdoutBuffer s @ piece))"
  from assms small have "s_turnInFlight s' = s_turnInFlight (fst (process_lines ?ls s))"
    "cs = snd (process_lines ?ls s)"
    by (auto simp: handleStdoutChunk_normal Let_def case_prod_unfold)
  then show ?thesis by (simp add: process_lines_turn)
qed

theorem turn_closed_by_terminal_chunk_witness:
  "\<exists>s' cs. handleStdoutChunk 2 (piece_a @ piece_b) sample_session = (s', cs, False)
     \<and> s_turnInFlight sample_session \<and> \<not> s_turnInFlight s'"
proof -
  obtain s' cs f where run: "handleStdoutChunk 2 (piece_a @ piece_b) sample_session = (s', cs, f)"
    by (metis prod_cases3)
  with sample_run have r: "handleStdoutChunk 2 (piece_a @ piece_b) sample_session
      = (s', [chunk0\<lparr>fc_done := True\<rparr>], False)" by simp
  from turn_closed_by_terminal_chunk [OF r] have "\<not> s_turnInFlight s'" by simp
  with r show ?thesis by (auto simp: sample_session_def)
qed

fun translate_all :: "jsval list \<Rightarrow> CcSession \<Rightarrow> CcSession \<times> FlatChunk list" where
  "translate_all [] session = (session, [])"
| "translate_all (e # es) session =
     (let (session1, c1) = translateEvent e session; (session2, c2) = translate_all es session1
      in (session2, c1 @ c2))"

definition tool_start_event :: "jsnum \<Rightarrow> string \<Rightarrow> jsval" where
  "tool_start_event idx name = Obj [(''type'', Str ''content_block_start''), (''index'', Num idx),
     (''content_block'', Obj [(''type'', Str ''tool_use''), (''name'', Str name)])]"

definition json_delta_event :: "jsnum \<Rightarrow> string \<Rightarrow> jsval" where
  "json_delta_event idx p = Obj [(''type'', Str ''content_block_delta''), (''index'', Num idx),
     (''delta'', Obj [(''type'', Str ''input_json_delta''), (''partial_json'', Str p)])]"

definition block_stop_event :: "jsnum \<Rightarrow> jsval" where
  "block_stop_event idx = Obj [(''type'', Str ''content_block_stop''), (''index'', Num idx)]"

lemma translate_json_delta:
  "jsnum_ge0 idx \<Longrightarrow> translateEvent (json_delta_event idx p) s =
     (s\<lparr>s_pendingToolInput := (s_pendingToolInput s)(idx \<mapsto>
        (case s_pendingToolInput s idx of None \<Rightarrow> [] | Some q \<Rightarrow> q) @ p)\<rparr>, [])"
  by (simp add: json_delta_event_def translateEvent_def translate_block_delta_def block_index_def
      or_empty_def)

lemma translate_tool_start:
  "jsnum_ge0 idx \<Longrightarrow> translateEvent (tool_start_event idx name) s =
     (s\<lparr>s_pendingToolInput := (s_pendingToolInput s)(idx \<mapsto> [])\<rparr>, [tool_chunk name Undefined])"
  by (simp add: tool_start_event_def translateEvent_def translate_block_start_def block_index_def
      or_empty_def tool_name_def)

lemma translate_block_stop:
  "jsnum_ge0 idx \<Longrightarrow> translateEvent (block_stop_event idx) s =
     (s\<lparr>s_pendingToolInput := (s_pendingToolInput s)(idx := None)\<rparr>, [])"
  by (simp add: block_stop_event_def translateEvent_def block_index_def)

lemma translate_deltas:
  assumes "jsnum_ge0 idx"
  shows "s_pendingToolInput s idx = Some q \<Longrightarrow>
     translate_all (map (json_delta_event idx) ps) s =
     (s\<lparr>s_pendingToolInput := (s_pendingToolInput s)(idx \<mapsto> q @ concat ps)\<rparr>, [])"
proof (induction ps arbitrary: s q)
  case (Cons p ps)
  let ?s' = "s\<lparr>s_pendingToolInput := (s_pendingToolInput s)(idx \<mapsto> q @ p)\<rparr>"
  have "translateEvent (json_delta_event idx p) s = (?s', [])"
    using Cons.prems assms by (simp add: translate_json_delta)
  moreover have "translate_all (map (json_delta_event idx) ps) ?s'
      = (?s'\<lparr>s_pendingToolInput := (s_pendingToolInput ?s')(idx \<mapsto> (q @ p) @ concat ps)\<rparr>, [])"
    by (rule Cons.IH) simp
  ultimately show ?case by (simp del: fun_upd_apply)
next
  case Nil
  then show ?case by (simp add: fun_upd_idem)
qed

text \<open>
  Fragments of one tool input are reassembled in order: opening a tool block and
  feeding any list of JSON fragments leaves exactly their concatenation pending under
  that block's index and touches no other block; the block's stop event discards it.
\<close>

theorem tool_input_reassembled:
  assumes "jsnum_ge0 idx"
  shows "translate_all (tool_start_event idx name # map (json_delta_event idx) ps) s =
      (s\<lparr>s_pendingToolInput := (s_pendingToolInput s)(idx \<mapsto> concat ps)\<rparr>, [tool_chunk name Undefined])
    \<and> translateEvent (block_stop_event idx)
        (s\<lparr>s_pendingToolInput := (s_pendingToolInput s)(idx \<mapsto> concat ps)\<rparr>) =
      (s\<lparr>s_pendingToolInput := (s_pendingToolInput s)(idx := None)\<rparr>, [])"
  using assms
  by (simp add: translate_tool_start translate_block_stop
      translate_deltas [where q = "[]"])

theorem tool_input_reassembled_witness:
  "jsnum_ge0 (Fin 0) \<and>
   s_pendingToolInput (fst (translate_all
     (tool_start_event (Fin 0) ''Bash'' # map (json_delta_event (Fin 0)) [''ab'', ''c'']) sample_session)) (Fin 0)
   = Some ''abc''"
proof -
  have ge: "jsnum_ge0 (Fin 0)" by (simp add: jsnum_ge0_def)
  then show ?thesis
    using tool_input_reassembled [OF ge, of "''Bash''" "[''ab'', ''c'']" sample_session] by simp
qed

end
