(* ===== verification/CcSession.thy ===== *)
theory CcSession
  imports CcConfig CcStream
begin

text \<open>
  The session lifecycle of the Agent CLI adapter
  (\<open>apps/desktop/electron/cc/cc-wrapper.ts\<close>): starting, messaging, stopping and
  the process callbacks, as operations on the module's state, and the step
  relation of their interleavings.

  An \<open>async\<close> function is cut at its \<open>await\<close>: the part up to it runs at once, the
  continuation is a later step, so other steps may come between.  The state keeps
  the session objects apart from the \<open>sessions\<close> map, because the callbacks of a
  process hold on to their object after it left the map.  Opt-in traces and log
  files are not modelled; the telemetry record is.
\<close>

section \<open>State\<close>

datatype cc_effect =
    StreamEvent string FlatChunk
  | SessionExit string "int option" "string option" "string option"
  | CcErrorEvent string string string
  | Spawned string "string list" string
  | StdinWrite string string
  | Kill string string
  | RecoverRuntime
  | Telemetry string string nat

record pending_start =
  ps_conversationId :: string
  ps_exe :: string
  ps_argv :: "string list"
  ps_cwd :: string
  ps_model :: "string option"
  ps_managed :: bool
  ps_env :: "process_env result"

record cc_world =
  objs :: "string \<Rightarrow> CcSession option"
  sessions :: "string list"
  byConv :: "string \<Rightarrow> string option"
  spawnFailures :: nat
  out :: "cc_effect list"
  starts :: "pending_start list"
  sends :: "string list"

definition init_world :: cc_world where
  "init_world = \<lparr>objs = (\<lambda>_. None), sessions = [], byConv = (\<lambda>_. None), spawnFailures = 0,
     out = [], starts = [], sends = []\<rparr>"

definition sessions_get :: "cc_world \<Rightarrow> string \<Rightarrow> CcSession option" where
  "sessions_get w sid = (if sid \<in> set (sessions w) then objs w sid else None)"

definition put_session :: "string \<Rightarrow> CcSession \<Rightarrow> cc_world \<Rightarrow> cc_world" where
  "put_session sid s w = w\<lparr>objs := (objs w)(sid \<mapsto> s)\<rparr>"

definition emit :: "cc_effect list \<Rightarrow> cc_world \<Rightarrow> cc_world" where
  "emit es w = w\<lparr>out := out w @ es\<rparr>"

definition forget_session :: "string \<Rightarrow> string \<Rightarrow> cc_world \<Rightarrow> cc_world" where
  "forget_session sid conv w =
     w\<lparr>sessions := removeAll sid (sessions w),
       byConv := (if byConv w conv = Some sid then (byConv w)(conv := None) else byConv w)\<rparr>"

definition telemetry :: "process_env \<Rightarrow> string \<Rightarrow> string \<Rightarrow> nat \<Rightarrow> cc_effect list" where
  "telemetry env kind detail n =
     (if env ''AWP_AGENT_TELEMETRY_OPT_IN'' = Some ''1'' then [Telemetry kind detail n] else [])"

definition err_message :: "jserror \<Rightarrow> string" where
  "err_message e = (case e of Thrown m \<Rightarrow> m | Sys c \<Rightarrow> c)"

section \<open>Starting a session\<close>

definition bad_text :: "string \<Rightarrow> bool" where
  "bad_text s = list_ex is_control s"

text \<open>The \<open>conversationId\<close> filter at the head of \<open>startSession\<close>.\<close>

definition valid_conversation_id :: "jsval \<Rightarrow> string option" where
  "valid_conversation_id v =
     (case v of
        Str c \<Rightarrow> if c = [] \<or> trim c = [] \<or> 512 < length c \<or> bad_text c then None else Some c
      | _ \<Rightarrow> None)"

text \<open>\<open>/^[A-Za-z0-9._:-]{1,256}$/\<close>\<close>

definition resume_id :: "string \<Rightarrow> bool" where
  "resume_id s = (1 \<le> length s \<and> length s \<le> 256 \<and> list_all (\<lambda>c. is_alnum c \<or> c \<in> set ''._:-'') s)"

definition valid_cwd :: "jsval \<Rightarrow> string \<Rightarrow> string option" where
  "valid_cwd v cwd0 =
     (case (if v = Undefined \<or> v = Null then Str cwd0 else v) of
        Str d \<Rightarrow> if d = [] \<or> CHR 0x00 \<in> set d then None else Some d
      | _ \<Rightarrow> None)"

definition trimmed_model :: "jsval \<Rightarrow> string option" where
  "trimmed_model v = (case v of Str m \<Rightarrow> if trim m \<noteq> [] then Some (trim m) else None | _ \<Rightarrow> None)"

definition stream_json_flags :: "string list" where
  "stream_json_flags = [''--output-format'', ''stream-json'', ''--input-format'', ''stream-json'',
     ''--print'', ''--verbose'']"

definition protocol_of :: "process_env \<Rightarrow> string" where
  "protocol_of env =
     trim (case env ''AWP_AGENT_CLI_PROTOCOL'' of None \<Rightarrow> ''stream-json'' | Some p \<Rightarrow> p)"

definition resume_args :: "jsval \<Rightarrow> string list result" where
  "resume_args v =
     (case v of
        Undefined \<Rightarrow> Inr []
      | Str s \<Rightarrow> if resume_id s then Inr [''--resume'', s] else Inl (Thrown ''invalid_resume_session_id'')
      | _ \<Rightarrow> Inl (Thrown ''invalid_resume_session_id''))"

text \<open>
  The environment of one call: the runtime, \<open>process.env\<close> and \<open>process.cwd()\<close>,
  what the runtime updater and the local MCP server answer, and the outcome of
  writing the MCP configuration file.
\<close>

record start_env =
  se_runtime :: runtime
  se_env :: process_env
  se_cwd :: string
  se_managed :: "string option result"
  se_ide :: "(string \<times> string option) option"
  se_mcpFile :: "string result"

definition ide_endpoint :: "start_env \<Rightarrow> string \<Rightarrow> McpHttpEndpoint option" where
  "ide_endpoint se conv =
     (case se_ide se of
        Some (u, t) \<Rightarrow>
          if u \<noteq> [] then Some \<lparr>ep_url = u, ep_token = t, ep_conversationId = Some conv, ep_headers = []\<rparr>
          else None
      | None \<Rightarrow> None)"

definition remote_endpoint :: "process_env \<Rightarrow> string \<Rightarrow> RemoteMcpEndpoint option" where
  "remote_endpoint env conv =
     (let remoteUrl = env_trim env ''AWP_AGENT_REMOTE_MCP_URL'';
          remoteToken = env_trim env ''AWP_AGENT_REMOTE_MCP_TOKEN''
      in if remoteUrl \<noteq> []
         then Some \<lparr>ep_url = remoteUrl,
                    ep_token = (if remoteToken \<noteq> [] then Some remoteToken else None),
                    ep_conversationId = Some conv, ep_headers = [],
                    ep_name = env_trim env ''AWP_AGENT_REMOTE_MCP_NAME''\<rparr>
         else None)"

definition mcp_args :: "start_env \<Rightarrow> string \<Rightarrow> string list result" where
  "mcp_args se conv =
     (let env = se_env se; awpIde = ide_endpoint se conv; remoteMcp = remote_endpoint env conv
      in if awpIde \<noteq> None \<or> remoteMcp \<noteq> None
         then bind_result
                (buildMcpConfig (se_runtime se) env awpIde remoteMcp
                   (remoteMcp \<noteq> None \<and> env ''AWP_AGENT_REMOTE_MCP_OPT_IN'' = Some ''1''))
                (\<lambda>_. bind_result (se_mcpFile se) (\<lambda>path. Inr [''--mcp-config'', path]))
         else Inr [])"

datatype start_outcome = Returned "string + string" | Awaiting pending_start

text \<open>The error results name the ecode; a started session returns its id.\<close>

definition start_argv :: "start_env \<Rightarrow> jsval \<Rightarrow> string \<Rightarrow> (cli_invocation \<times> string list \<times> string option) result" where
  "start_argv se opts conv =
     (case resolveCliInvocation (se_runtime se) (se_env se) (se_managed se) of
        Inl e \<Rightarrow> Inl e
      | Inr ci \<Rightarrow>
          (let model = trimmed_model (field opts ''model'');
               protocol = protocol_of (se_env se)
           in if (case model of Some m \<Rightarrow> 256 < length m \<or> bad_text m | None \<Rightarrow> False)
              then Inl (Thrown ''invalid_model'')
              else if protocol \<noteq> ''stream-json'' \<and> protocol \<noteq> ''awp-jsonl'' \<and> protocol \<noteq> ''passthrough''
              then Inl (Thrown ''invalid_cli_protocol'')
              else bind_result (resume_args (field opts ''ccSessionId''))
                     (\<lambda>resume.
                        Inr (ci,
                             inv_prefixArgs ci
                             @ (if protocol = ''stream-json'' then stream_json_flags else [])
                             @ (case model of Some m \<Rightarrow> [''--model'', m] | None \<Rightarrow> [])
                             @ resume,
                             model))))"

definition startSession :: "start_env \<Rightarrow> jsval \<Rightarrow> cc_world \<Rightarrow> start_outcome \<times> cc_world" where
  "startSession se opts w0 =
     (if \<not> truthy opts \<or> \<not> is_object opts then (Returned (Inl ''invalid_start_options''), w0)
      else case valid_conversation_id (field opts ''conversationId'') of
        None \<Rightarrow> (Returned (Inl ''invalid_conversation_id''), w0)
      | Some conv \<Rightarrow>
          (let existing = (case byConv w0 conv of None \<Rightarrow> None
                           | Some i \<Rightarrow> (case sessions_get w0 i of None \<Rightarrow> None
                                       | Some s \<Rightarrow> if s_phase s \<noteq> exited then Some i else None));
               w = w0\<lparr>byConv := (byConv w0)(conv := None)\<rparr>
           in case existing of
                Some i \<Rightarrow> (Returned (Inr i), w0)
              | None \<Rightarrow>
                 (case valid_cwd (field opts ''cwd'') (se_cwd se) of
                    None \<Rightarrow> (Returned (Inl ''invalid_working_directory''), w)
                  | Some cwd \<Rightarrow>
                     (case start_argv se opts conv of
                        Inl e \<Rightarrow> (Returned (Inl (err_message e)), w)
                      | Inr (ci, argv, model) \<Rightarrow>
                         (case mcp_args se conv of
                            Inl e \<Rightarrow>
                              (Returned (Inl ''mcp_config_render_failed''),
                               emit [StreamEvent [] (chunk0\<lparr>fc_error :=
                                       Some (''mcp_config_render_failed:'' @ err_message e), fc_done := True\<rparr>)] w)
                          | Inr mcp \<Rightarrow>
                              (let ps = \<lparr>ps_conversationId = conv, ps_exe = inv_exe ci,
                                         ps_argv = argv @ mcp, ps_cwd = cwd, ps_model = model,
                                         ps_managed = inv_managedRuntime ci,
                                         ps_env = buildCcEnv (se_runtime se) (se_env se)\<rparr>
                               in (Awaiting ps, w\<lparr>starts := starts w @ [ps]\<rparr>)))))))"

text \<open>The session object a successful spawn creates; it is \<open>idle\<close> when the call returns.\<close>

definition new_session :: "nat \<Rightarrow> string \<Rightarrow> pending_start \<Rightarrow> CcSession" where
  "new_session now sid ps =
     \<lparr>s_sessionId = sid, s_conversationId = ps_conversationId ps, s_cwd = ps_cwd ps,
      s_model = ps_model ps, s_phase = idle, s_stdoutBuffer = [], s_stderrBuffer = [],
      s_pendingToolInput = (\<lambda>_. None), s_startedAt = now, s_lastActivityAt = now,
      s_ccSessionId = None, s_lastEventType = None, s_sawApiError = False,
      s_malformedStdoutLines = 0, s_turnInFlight = False, s_stopRequested = False,
      s_stop = NotStopping, s_exitCode = None, s_signalCode = None, s_stdinOpen = True,
      s_managedRuntime = ps_managed ps\<rparr>"

text \<open>
  The continuation after \<open>await buildCcEnv()\<close>; \<open>spawned\<close> is what \<open>spawn\<close> threw, or
  the fresh id \<open>randomUUID()\<close> gave the new session.
\<close>

definition startSession_resume ::
  "process_env \<Rightarrow> nat \<Rightarrow> (string + string) \<Rightarrow> pending_start \<Rightarrow> cc_world \<Rightarrow> (string + string) \<times> cc_world" where
  "startSession_resume env now spawned ps w0 =
     (let w = w0\<lparr>starts := remove1 ps (starts w0)\<rparr> in
      case ps_env ps of
        Inl e \<Rightarrow>
          (Inl (err_message e),
           emit [CcErrorEvent [] (err_message e) (err_message e),
                 StreamEvent [] (chunk0\<lparr>fc_error := Some (err_message e), fc_done := True\<rparr>)] w)
      | Inr cenv \<Rightarrow>
          (case spawned of
             Inl m \<Rightarrow>
               (Inl m, emit (telemetry env ''cc_spawn_failed'' ''spawn_throw'' (spawnFailures w + 1))
                         (w\<lparr>spawnFailures := spawnFailures w + 1\<rparr>))
           | Inr sid \<Rightarrow>
               (Inr sid,
                emit [Spawned (ps_exe ps) (ps_argv ps) sid]
                  (put_session sid (new_session now sid ps)
                     (w\<lparr>sessions := sessions w @ [sid],
                        byConv := (byConv w)(ps_conversationId ps \<mapsto> sid)\<rparr>)))))"

section \<open>Stopping\<close>

definition hasProcessExited :: "CcSession \<Rightarrow> bool" where
  "hasProcessExited s = (s_phase s = exited \<or> s_exitCode s \<noteq> None \<or> s_signalCode s \<noteq> None)"

definition shutdown_line :: string where
  "shutdown_line = JSON_stringify (Obj [(''type'', Str ''shutdown'')]) @ [CHR 0x0A]"

text \<open>\<open>kill('SIGTERM')\<close> and the wait for the grace period.\<close>

definition terminate :: "string \<Rightarrow> CcSession \<Rightarrow> cc_world \<Rightarrow> cc_world" where
  "terminate sid s w =
     emit [Kill sid ''SIGTERM'']
       (put_session sid (s\<lparr>s_stop := (if hasProcessExited s then Stopped else TermWait)\<rparr>) w)"

definition stopProcess :: "bool \<Rightarrow> string \<Rightarrow> CcSession \<Rightarrow> cc_world \<Rightarrow> cc_world" where
  "stopProcess win32 sid s0 w =
     (let s = s0\<lparr>s_stopRequested := True\<rparr> in
      if win32 \<and> s_stdinOpen s
      then emit [StdinWrite sid shutdown_line]
             (put_session sid (s\<lparr>s_stop := (if hasProcessExited s then Stopped else SoftWait)\<rparr>) w)
      else terminate sid s w)"

definition stopSession :: "bool \<Rightarrow> string \<Rightarrow> cc_world \<Rightarrow> cc_world" where
  "stopSession win32 sid w =
     (case sessions_get w sid of
        None \<Rightarrow> w
      | Some s \<Rightarrow>
          if s_phase s = exited then w
          else if s_stop s = NotStopping then stopProcess win32 sid s w else w)"

text \<open>A wait of \<open>waitForProcessExit\<close> runs into its timeout.\<close>

definition stop_timeout :: "string \<Rightarrow> cc_world \<Rightarrow> cc_world" where
  "stop_timeout sid w =
     (case objs w sid of
        None \<Rightarrow> w
      | Some s \<Rightarrow>
          (case s_stop s of
             SoftWait \<Rightarrow> terminate sid s w
           | TermWait \<Rightarrow> emit [Kill sid ''SIGKILL''] (put_session sid (s\<lparr>s_stop := Stopped\<rparr>) w)
           | _ \<Rightarrow> w))"

definition stopAllSessions :: "bool \<Rightarrow> cc_world \<Rightarrow> cc_world" where
  "stopAllSessions win32 w = fold (stopSession win32) (sessions w) w"

section \<open>Process callbacks\<close>

definition stream_effects :: "string \<Rightarrow> FlatChunk list \<Rightarrow> cc_effect list" where
  "stream_effects sid cs = map (StreamEvent sid) cs"

definition on_stdout :: "bool \<Rightarrow> nat \<Rightarrow> string \<Rightarrow> string \<Rightarrow> cc_world \<Rightarrow> cc_world" where
  "on_stdout win32 now sid piece w =
     (case objs w sid of
        None \<Rightarrow> w
      | Some s \<Rightarrow>
          (case handleStdoutChunk now piece s of
             (s', cs, stop) \<Rightarrow>
               (let w' = emit (stream_effects sid cs) (put_session sid s' w)
                in if stop then stopSession win32 sid w' else w')))"

definition on_stderr :: "string \<Rightarrow> string \<Rightarrow> cc_world \<Rightarrow> cc_world" where
  "on_stderr sid text w =
     (case objs w sid of
        None \<Rightarrow> w
      | Some s \<Rightarrow>
          (let s1 = (if \<not> s_sawApiError s \<and> str_includes text ''API Error''
                     then s\<lparr>s_sawApiError := True\<rparr> else s);
               buf = s_stderrBuffer s1 @ text;
               buf' = (if 256 * 1024 < length buf then slice_from buf (- (128 * 1024)) else buf)
           in put_session sid (s1\<lparr>s_stderrBuffer := buf'\<rparr>) w))"

definition bad_binary :: "string \<Rightarrow> bool" where
  "bad_binary ecode = (ecode \<in> {''ENOENT'', ''UNKNOWN'', ''ENOEXEC'', ''EFTYPE''})"

definition on_error :: "process_env \<Rightarrow> string \<Rightarrow> string \<Rightarrow> string \<Rightarrow> cc_world \<Rightarrow> cc_world" where
  "on_error env sid ecode message w =
     (case objs w sid of
        None \<Rightarrow> w
      | Some s0 \<Rightarrow>
          (let s = s0\<lparr>s_phase := exited\<rparr>;
               isBadBinary = bad_binary ecode;
               n = spawnFailures w + 1;
               userMessage = (if isBadBinary then ''runtime_recovery_started'' else ''spawn_error:'' @ message);
               effects = telemetry env ''cc_spawn_failed'' ''proc_error'' n
                 @ (if isBadBinary \<and> s_managedRuntime s then [RecoverRuntime] else [])
                 @ [StreamEvent sid (chunk0\<lparr>fc_error := Some userMessage, fc_done := True\<rparr>),
                    SessionExit sid None None (Some message)]
           in forget_session sid (s_conversationId s)
                (emit effects (put_session sid s (w\<lparr>spawnFailures := n\<rparr>)))))"

definition abnormal_reasons :: "CcSession \<Rightarrow> bool \<Rightarrow> string list" where
  "abnormal_reasons s exitedNonZero =
     (if s_sawApiError s then [''stderr_api_error''] else [])
     @ (if 0 < s_malformedStdoutLines s then [''stdout_json_parse_error''] else [])
     @ (if s_turnInFlight s \<and> \<not> s_stopRequested s then [''exit_mid_turn''] else [])
     @ (if exitedNonZero \<and> \<not> s_stopRequested s then [''nonzero_exit''] else [])"

fun join_commas :: "string list \<Rightarrow> string" where
  "join_commas [] = []"
| "join_commas [x] = x"
| "join_commas (x # y # r) = x @ '','' @ join_commas (y # r)"

text \<open>The flush of buffered output when the process exits: an implicit final newline.\<close>

definition flush_output :: "bool \<Rightarrow> nat \<Rightarrow> string \<Rightarrow> string \<Rightarrow> cc_world \<Rightarrow> cc_world" where
  "flush_output win32 now sid tail w =
     (case objs w sid of
        None \<Rightarrow> w
      | Some s0 \<Rightarrow>
          (let s = s0\<lparr>s_stdoutBuffer := s_stdoutBuffer s0 @ tail\<rparr>
           in if trim (s_stdoutBuffer s) \<noteq> []
              then on_stdout win32 now sid []
                     (put_session sid (s\<lparr>s_stdoutBuffer := s_stdoutBuffer s @ [CHR 0x0A]\<rparr>) w)
              else put_session sid s w))"

definition exit_session :: "int option \<Rightarrow> string option \<Rightarrow> CcSession \<Rightarrow> CcSession" where
  "exit_session ecode signal s = s\<lparr>s_exitCode := ecode, s_signalCode := signal, s_stdinOpen := False\<rparr>"

definition settle_stop :: "CcSession \<Rightarrow> CcSession" where
  "settle_stop s =
     (if s_stop s = SoftWait \<or> s_stop s = TermWait then s\<lparr>s_stop := Stopped\<rparr> else s)"

definition on_exit ::
  "process_env \<Rightarrow> bool \<Rightarrow> nat \<Rightarrow> string \<Rightarrow> int option \<Rightarrow> string option \<Rightarrow> string \<Rightarrow> cc_world \<Rightarrow> cc_world" where
  "on_exit env win32 now sid ecode signal tail w0 =
     (case objs w0 sid of
        None \<Rightarrow> w0
      | Some s0 \<Rightarrow>
          (let w1 = flush_output win32 now sid tail (put_session sid (exit_session ecode signal s0) w0)
           in case objs w1 sid of
                None \<Rightarrow> w1
              | Some s1 \<Rightarrow>
                  (let s = settle_stop (s1\<lparr>s_phase := exited\<rparr>);
                       exitedNonZero = (case ecode of Some c \<Rightarrow> c \<noteq> 0 | None \<Rightarrow> False);
                       early = (exitedNonZero \<and> (s_lastEventType s = None \<or> s_lastEventType s = Some []));
                       n = (if early then spawnFailures w1 + 1 else spawnFailures w1);
                       reasons = abnormal_reasons s exitedNonZero;
                       tele = (if early then telemetry env ''cc_spawn_failed'' ''early_exit'' n
                               else if reasons \<noteq> []
                               then telemetry env ''cc_stream_abnormal_end'' (join_commas reasons) n
                               else [])
                   in forget_session sid (s_conversationId s)
                        (emit (tele @ [SessionExit sid ecode signal None])
                           (put_session sid s (w1\<lparr>spawnFailures := n\<rparr>))))))"

section \<open>Messages\<close>

definition user_line :: "jsval list \<Rightarrow> string \<Rightarrow> string" where
  "user_line blocks content =
     JSON_stringify (Obj [(''type'', Str ''user''),
       (''message'', Obj [(''role'', Str ''user''),
          (''content'', Arr (blocks @ [Obj [(''type'', Str ''text''), (''text'', Str content)]]))])])
     @ [CHR 0x0A]"

text \<open>Up to \<open>await _buildAttachmentBlocks\<close>; \<open>None\<close> when the call goes on waiting.\<close>

definition sendMessage :: "string \<Rightarrow> cc_world \<Rightarrow> string option \<times> cc_world" where
  "sendMessage sid w =
     (case sessions_get w sid of
        None \<Rightarrow> (Some ''unknown_session'', w)
      | Some s \<Rightarrow>
          if s_phase s = exited then (Some ''session_exited'', w)
          else if \<not> s_stdinOpen s then (Some ''stdin_unavailable'', w)
          else (None, w\<lparr>sends := sends w @ [sid]\<rparr>))"

datatype write_outcome = Flushed | Backpressure | WriteThrew string

text \<open>The continuation: it does not look at the session's phase again.\<close>

definition sendMessage_resume ::
  "nat \<Rightarrow> jsval list \<Rightarrow> string \<Rightarrow> write_outcome \<Rightarrow> string \<Rightarrow> cc_world \<Rightarrow> string option \<times> cc_world" where
  "sendMessage_resume now blocks content wr sid w0 =
     (let w = w0\<lparr>sends := remove1 sid (sends w0)\<rparr> in
      case objs w sid of
        None \<Rightarrow> (None, w)
      | Some s \<Rightarrow>
          (case wr of
             WriteThrew m \<Rightarrow> (Some m, w)
           | _ \<Rightarrow>
               (None,
                emit [StdinWrite sid (user_line blocks content)]
                  (put_session sid
                     (s\<lparr>s_stderrBuffer := s_stderrBuffer s
                           @ (if wr = Backpressure then ''[cc-wrapper] stdin backpressure'' @ [CHR 0x0A] else []),
                        s_phase := streaming, s_lastActivityAt := now, s_turnInFlight := True\<rparr>) w))))"

record SessionStatus =
  st_phase :: SessionPhase
  st_model :: "string option"
  st_conversationId :: "string option"

definition getSessionStatus :: "string \<Rightarrow> cc_world \<Rightarrow> SessionStatus" where
  "getSessionStatus sid w =
     (case sessions_get w sid of
        None \<Rightarrow> \<lparr>st_phase = exited, st_model = None, st_conversationId = None\<rparr>
      | Some s \<Rightarrow> \<lparr>st_phase = s_phase s, st_model = s_model s, st_conversationId = Some (s_conversationId s)\<rparr>)"

section \<open>Interleavings\<close>

inductive cc_step :: "cc_world \<Rightarrow> cc_world \<Rightarrow> bool" where
  start: "startSession se opts w = (r, w') \<Longrightarrow> cc_step w w'"
| start_resume: "ps \<in> set (starts w) \<Longrightarrow> (\<forall>sid. spawned = Inr sid \<longrightarrow> objs w sid = None) \<Longrightarrow>
     startSession_resume env now spawned ps w = (r, w') \<Longrightarrow> cc_step w w'"
| stdout: "cc_step w (on_stdout win32 now sid piece w)"
| stderr: "cc_step w (on_stderr sid text w)"
| proc_error: "cc_step w (on_error env sid ecode message w)"
| proc_exit: "cc_step w (on_exit env win32 now sid xcode signal tail w)"
| send: "sendMessage sid w = (r, w') \<Longrightarrow> cc_step w w'"
| send_resume: "sid \<in> set (sends w) \<Longrightarrow>
     sendMessage_resume now blocks content wr sid w = (r, w') \<Longrightarrow> cc_step w w'"
| stop: "cc_step w (stopSession win32 sid w)"
| stop_wait: "cc_step w (stop_timeout sid w)"
| stop_all: "cc_step w (stopAllSessions win32 w)"

abbreviation cc_reachable :: "cc_world \<Rightarrow> bool" where
  "cc_reachable w \<equiv> rtranclp cc_step init_world w"

section \<open>The registry invariant\<close>

definition cc_inv :: "cc_world \<Rightarrow> bool" where
  "cc_inv w \<longleftrightarrow>
     distinct (sessions w)
     \<and> (\<forall>sid s. objs w sid = Some s \<longrightarrow> s_sessionId s = sid)
     \<and> (\<forall>sid \<in> set (sessions w). \<exists>s. objs w sid = Some s \<and> s_phase s \<noteq> exited)
     \<and> (\<forall>c sid. byConv w c = Some sid \<longrightarrow>
          sid \<in> set (sessions w) \<and> (\<exists>s. objs w sid = Some s \<and> s_conversationId s = c))"

lemma world_projections [simp]:
  "objs (emit es w) = objs w" "sessions (emit es w) = sessions w" "byConv (emit es w) = byConv w"
  "starts (emit es w) = starts w" "sends (emit es w) = sends w" "out (emit es w) = out w @ es"
  "spawnFailures (emit es w) = spawnFailures w"
  "objs (put_session sid s w) = (objs w)(sid \<mapsto> s)" "sessions (put_session sid s w) = sessions w"
  "byConv (put_session sid s w) = byConv w" "out (put_session sid s w) = out w"
  "starts (put_session sid s w) = starts w" "sends (put_session sid s w) = sends w"
  "spawnFailures (put_session sid s w) = spawnFailures w"
  "objs (forget_session sid c w) = objs w" "out (forget_session sid c w) = out w"
  "sessions (forget_session sid c w) = removeAll sid (sessions w)"
  by (simp_all add: emit_def put_session_def forget_session_def)

lemma cc_invI:
  assumes "distinct (sessions w)" "\<And>sid s. objs w sid = Some s \<Longrightarrow> s_sessionId s = sid"
    "\<And>sid. sid \<in> set (sessions w) \<Longrightarrow> \<exists>s. objs w sid = Some s \<and> s_phase s \<noteq> exited"
    "\<And>c sid. byConv w c = Some sid \<Longrightarrow>
       sid \<in> set (sessions w) \<and> (\<exists>s. objs w sid = Some s \<and> s_conversationId s = c)"
  shows "cc_inv w"
  using assms by (simp add: cc_inv_def)

lemma cc_inv_cong:
  "objs w' = objs w \<Longrightarrow> sessions w' = sessions w \<Longrightarrow> byConv w' = byConv w \<Longrightarrow> cc_inv w' = cc_inv w"
  by (simp only: cc_inv_def)

lemma cc_invD:
  assumes "cc_inv w"
  shows "distinct (sessions w)" "objs w sid = Some s \<Longrightarrow> s_sessionId s = sid"
    "sid \<in> set (sessions w) \<Longrightarrow> \<exists>s. objs w sid = Some s \<and> s_phase s \<noteq> exited"
    "byConv w c = Some sid \<Longrightarrow> sid \<in> set (sessions w)"
    "byConv w c = Some sid \<Longrightarrow> \<exists>s. objs w sid = Some s \<and> s_conversationId s = c"
  using assms by (simp_all add: cc_inv_def)

lemma cc_inv_irrelevant [simp]:
  "cc_inv (emit es w) = cc_inv w" "cc_inv (w\<lparr>spawnFailures := n\<rparr>) = cc_inv w"
  "cc_inv (w\<lparr>starts := x\<rparr>) = cc_inv w" "cc_inv (w\<lparr>sends := y\<rparr>) = cc_inv w"
  by (simp_all add: cc_inv_def)

lemma cc_inv_put:
  assumes "cc_inv w" "objs w sid = Some s" "s_sessionId s' = s_sessionId s"
    "s_conversationId s' = s_conversationId s"
    "sid \<in> set (sessions w) \<Longrightarrow> s_phase s' \<noteq> exited"
  shows "cc_inv (put_session sid s' w)"
  using assms by (fastforce simp: cc_inv_def)

lemma cc_inv_forget:
  assumes "cc_inv w" "objs w sid = Some s" "s_sessionId s' = s_sessionId s"
    "s_conversationId s' = s_conversationId s"
  shows "cc_inv (forget_session sid (s_conversationId s) (emit es (put_session sid s' (w\<lparr>spawnFailures := n\<rparr>))))"
proof (rule cc_invI, goal_cases)
  case 1
  then show ?case using cc_invD(1) [OF assms(1)] by (simp add: distinct_removeAll)
next
  case (2 i x)
  then show ?case using cc_invD(2) [OF assms(1)] assms(2,3) by (simp split: if_splits)
next
  case (3 i)
  then show ?case using cc_invD(3) [OF assms(1)] by simp
next
  case (4 c i)
  then have old: "byConv w c = Some i"
    by (simp add: forget_session_def split: if_splits)
  moreover have "i \<noteq> sid"
    using 4 cc_invD(5) [OF assms(1) old] assms(2) by (auto simp: forget_session_def split: if_splits)
  ultimately show ?case using cc_invD(4,5) [OF assms(1) old] by simp
qed

text \<open>What stream processing leaves alone.\<close>

definition session_core :: "CcSession \<Rightarrow> string \<times> string \<times> SessionPhase \<times> stop_stage" where
  "session_core s = (s_sessionId s, s_conversationId s, s_phase s, s_stop s)"

lemma session_core_upd [simp]:
  "session_core (s\<lparr>s_stdoutBuffer := b\<rparr>) = session_core s"
  "session_core (s\<lparr>s_lastActivityAt := n\<rparr>) = session_core s"
  "session_core (s\<lparr>s_pendingToolInput := m\<rparr>) = session_core s"
  "session_core (s\<lparr>s_lastEventType := x\<rparr>) = session_core s"
  "session_core (s\<lparr>s_ccSessionId := y\<rparr>) = session_core s"
  "session_core (s\<lparr>s_turnInFlight := t\<rparr>) = session_core s"
  "session_core (s\<lparr>s_stderrBuffer := e\<rparr>) = session_core s"
  "session_core (s\<lparr>s_malformedStdoutLines := k\<rparr>) = session_core s"
  by (simp_all add: session_core_def)

lemma translate_parts_core:
  "session_core (fst (translate_system ev s)) = session_core s"
  "session_core (fst (translate_block_start ev s)) = session_core s"
  "session_core (fst (translate_block_delta ev s)) = session_core s"
  by (simp_all add: translate_system_def translate_block_start_def translate_block_delta_def
      Let_def split: option.split)

lemma translateEvent_core: "session_core (fst (translateEvent ev s)) = session_core s"
  unfolding translateEvent_def by (simp add: translate_parts_core Let_def split: jsval.split)

lemma process_line_core: "session_core (fst (process_line l s)) = session_core s"
  by (auto simp: process_line_def Let_def case_prod_unfold translateEvent_core note_done_def
      split: option.split jsval.split)

lemma process_lines_core: "session_core (fst (process_lines ls s)) = session_core s"
  by (induction ls arbitrary: s) (auto simp: Let_def case_prod_unfold process_line_core)

lemma handleStdoutChunk_core: "handleStdoutChunk n p s = (s', cs, f) \<Longrightarrow> session_core s' = session_core s"
  by (auto simp: handleStdoutChunk_def Let_def case_prod_unfold process_lines_core split: if_splits)

lemma session_coreD:
  "session_core s' = session_core s \<Longrightarrow>
   s_sessionId s' = s_sessionId s \<and> s_conversationId s' = s_conversationId s
   \<and> s_phase s' = s_phase s \<and> s_stop s' = s_stop s"
  by (simp add: session_core_def)

subsection \<open>Every operation keeps it\<close>

lemma live_not_exited:
  "cc_inv w \<Longrightarrow> sid \<in> set (sessions w) \<Longrightarrow> objs w sid = Some s \<Longrightarrow> s_phase s \<noteq> exited"
  by (fastforce simp: cc_inv_def)

lemma terminate_inv:
  "cc_inv w \<Longrightarrow> objs w sid = Some s0 \<Longrightarrow> s_sessionId s = s_sessionId s0 \<Longrightarrow>
   s_conversationId s = s_conversationId s0 \<Longrightarrow> s_phase s = s_phase s0 \<Longrightarrow>
   cc_inv (terminate sid s w)"
  by (auto simp: terminate_def intro!: cc_inv_put dest: live_not_exited)

lemma sessions_get_Some: "sessions_get w sid = Some s \<longleftrightarrow> sid \<in> set (sessions w) \<and> objs w sid = Some s"
  by (simp add: sessions_get_def)

lemma stopSession_inv: "cc_inv w \<Longrightarrow> cc_inv (stopSession win32 sid w)"
  by (auto simp: stopSession_def stopProcess_def Let_def sessions_get_Some
      intro!: cc_inv_put terminate_inv dest: live_not_exited split: option.split)

lemma stop_timeout_inv: "cc_inv w \<Longrightarrow> cc_inv (stop_timeout sid w)"
  by (auto simp: stop_timeout_def intro!: cc_inv_put terminate_inv dest: live_not_exited
      split: option.split stop_stage.split)

lemma stopAll_inv: "cc_inv w \<Longrightarrow> cc_inv (stopAllSessions win32 w)"
proof -
  have "cc_inv w \<Longrightarrow> cc_inv (fold (stopSession win32) ids w)" for ids
    by (induction ids arbitrary: w) (auto simp: stopSession_inv)
  then show "cc_inv w \<Longrightarrow> cc_inv (stopAllSessions win32 w)" by (simp add: stopAllSessions_def)
qed

lemma put_stdout_inv:
  assumes "cc_inv w" "objs w sid = Some s" "handleStdoutChunk n p s = (s', cs, f)"
  shows "cc_inv (put_session sid s' w)"
  using assms session_coreD [OF handleStdoutChunk_core [OF assms(3)]]
  by (auto intro!: cc_inv_put dest: live_not_exited)

lemma on_stdout_inv: "cc_inv w \<Longrightarrow> cc_inv (on_stdout win32 now sid piece w)"
  by (auto simp: on_stdout_def Let_def intro!: stopSession_inv put_stdout_inv split: option.split prod.split)

lemma on_stderr_inv: "cc_inv w \<Longrightarrow> cc_inv (on_stderr sid text w)"
  by (auto simp: on_stderr_def Let_def intro!: cc_inv_put dest: live_not_exited split: option.split)

lemma on_error_inv: "cc_inv w \<Longrightarrow> cc_inv (on_error env sid ec m w)"
proof (cases "objs w sid")
  case (Some s)
  then show "cc_inv w \<Longrightarrow> ?thesis"
    using cc_inv_forget [of w sid s "s\<lparr>s_phase := exited\<rparr>"]
    by (simp add: on_error_def Let_def)
qed (simp add: on_error_def)

lemma flush_output_inv: "cc_inv w \<Longrightarrow> cc_inv (flush_output win32 now sid tail w)"
  by (auto simp: flush_output_def Let_def intro!: on_stdout_inv cc_inv_put dest: live_not_exited
      split: option.split)

lemma on_exit_inv: "cc_inv w \<Longrightarrow> cc_inv (on_exit env win32 now sid ec sg tail w)"
proof (cases "objs w sid")
  case (Some s0)
  assume inv: "cc_inv w"
  let ?w1 = "flush_output win32 now sid tail (put_session sid (exit_session ec sg s0) w)"
  have inv1: "cc_inv ?w1"
    using inv Some by (intro flush_output_inv cc_inv_put) (auto simp: exit_session_def dest: live_not_exited)
  show ?thesis
  proof (cases "objs ?w1 sid")
    case None
    with Some inv1 show ?thesis by (simp add: on_exit_def Let_def)
  next
    case s1: (Some s1)
    let ?s = "settle_stop (s1\<lparr>s_phase := exited\<rparr>)"
    have "s_sessionId ?s = s_sessionId s1" "s_conversationId ?s = s_conversationId s1"
      by (simp_all add: settle_stop_def)
    with cc_inv_forget [OF inv1 s1, of ?s] show ?thesis
      by (simp add: on_exit_def Let_def Some s1)
  qed
qed (simp add: on_exit_def)

lemma startSession_inv: "cc_inv w \<Longrightarrow> startSession se opts w = (r, w') \<Longrightarrow> cc_inv w'"
proof -
  assume inv: "cc_inv w" and st: "startSession se opts w = (r, w')"
  have cleared: "cc_inv (w\<lparr>byConv := (byConv w)(c := None)\<rparr>)" for c
    using inv by (simp add: cc_inv_def)
  show ?thesis
    using st inv cleared
    by (auto simp: startSession_def Let_def split: if_splits option.splits sum.splits prod.splits)
qed

lemma startSession_resume_inv:
  assumes inv: "cc_inv w" and fresh: "\<forall>sid. spawned = Inr sid \<longrightarrow> objs w sid = None"
    and st: "startSession_resume env now spawned ps w = (r, w')"
  shows "cc_inv w'"
proof (cases "ps_env ps")
  case (Inl e)
  with st inv show ?thesis by (auto simp: startSession_resume_def Let_def)
next
  case (Inr cenv)
  show ?thesis
  proof (cases spawned)
    case (Inl m)
    with Inr st inv show ?thesis by (auto simp: startSession_resume_def Let_def)
  next
    case new: (Inr sid)
    have fresh': "objs w sid = None" using fresh new by simp
    note old = cc_invD [OF inv]
    have "cc_inv (put_session sid (new_session now sid ps)
        (w\<lparr>sessions := sessions w @ [sid], byConv := (byConv w)(ps_conversationId ps \<mapsto> sid)\<rparr>))"
      (is "cc_inv ?w1")
    proof (rule cc_invI, goal_cases)
      case 1
      then show ?case using old(1) old(3) [of sid] fresh' by auto
    next
      case (2 i s)
      then show ?case using old(2) [of i s] by (auto simp: new_session_def split: if_splits)
    next
      case (3 i)
      then show ?case using old(3) [of i] by (auto simp: new_session_def)
    next
      case (4 c i)
      then show ?case using old(4,5) [of c i] fresh' by (auto simp: new_session_def split: if_splits)
    qed
    moreover have "objs w' = objs ?w1" "sessions w' = sessions ?w1" "byConv w' = byConv ?w1"
      using Inr new st by (auto simp: startSession_resume_def Let_def)
    ultimately show ?thesis using cc_inv_cong [of w' ?w1] by blast
  qed
qed

lemma sendMessage_inv: "cc_inv w \<Longrightarrow> sendMessage sid w = (r, w') \<Longrightarrow> cc_inv w'"
  by (auto simp: sendMessage_def split: option.splits if_splits)

lemma sendMessage_resume_inv:
  "cc_inv w \<Longrightarrow> sendMessage_resume now blocks content wr sid w = (r, w') \<Longrightarrow> cc_inv w'"
  by (auto simp: sendMessage_resume_def Let_def intro!: cc_inv_put
      split: option.splits write_outcome.splits)

lemmas cc_op_invs =
  startSession_inv startSession_resume_inv on_stdout_inv on_stderr_inv on_error_inv on_exit_inv
  sendMessage_inv sendMessage_resume_inv stopSession_inv stop_timeout_inv stopAll_inv

lemma cc_step_inv: "cc_inv w \<Longrightarrow> cc_step w w' \<Longrightarrow> cc_inv w'"
  by (erule cc_step.cases) (auto intro: cc_op_invs)

lemma cc_inv_init: "cc_inv init_world"
  by (simp add: cc_inv_def init_world_def)

interpretation cc: step_invariant init_world cc_step cc_inv
  by unfold_locales (rule cc_inv_init, rule cc_step_inv)

section \<open>Signals are never repeated\<close>

definition kills :: "cc_world \<Rightarrow> string \<Rightarrow> string \<Rightarrow> nat" where
  "kills w sid sig = count_list (out w) (Kill sid sig)"

text \<open>How many signals a session may have received at each stage of its cancellation.\<close>

fun term_quota :: "stop_stage \<Rightarrow> nat" where
  "term_quota TermWait = 1" | "term_quota Stopped = 1" | "term_quota _ = 0"

fun kill_quota :: "stop_stage \<Rightarrow> nat" where
  "kill_quota Stopped = 1" | "kill_quota _ = 0"

definition stage_of :: "cc_world \<Rightarrow> string \<Rightarrow> stop_stage" where
  "stage_of w sid = (case objs w sid of None \<Rightarrow> NotStopping | Some s \<Rightarrow> s_stop s)"

definition kill_inv :: "cc_world \<Rightarrow> bool" where
  "kill_inv w \<longleftrightarrow> (\<forall>sid. kills w sid ''SIGTERM'' \<le> term_quota (stage_of w sid)
                        \<and> kills w sid ''SIGKILL'' \<le> kill_quota (stage_of w sid))"

fun is_kill :: "cc_effect \<Rightarrow> bool" where
  "is_kill (Kill _ _) = True"
| "is_kill _ = False"

definition quiet :: "cc_effect list \<Rightarrow> bool" where
  "quiet es = list_all (Not \<circ> is_kill) es"

lemma quiet_simps [simp]:
  "quiet []" "quiet (e # es) \<longleftrightarrow> \<not> is_kill e \<and> quiet es" "quiet (es @ fs) \<longleftrightarrow> quiet es \<and> quiet fs"
  "quiet (stream_effects sid cs)" "quiet (telemetry env k d n)"
  by (auto simp: quiet_def stream_effects_def telemetry_def list_all_iff)

lemma quiet_count [simp]: "quiet es \<Longrightarrow> count_list es (Kill sid sig) = 0"
  by (induction es) auto

lemma kill_inv_silent:
  assumes "kill_inv w" "quiet es" "\<forall>i. term_quota (stage_of w i) \<le> term_quota (stage_of w' i)
      \<and> kill_quota (stage_of w i) \<le> kill_quota (stage_of w' i)" "out w' = out w @ es"
  shows "kill_inv w'"
proof -
  have "kills w' i sig = kills w i sig" if "sig = ''SIGTERM'' \<or> sig = ''SIGKILL''" for i sig
    using assms by (simp add: kills_def)
  then show ?thesis
    using assms(1,3) unfolding kill_inv_def by (simp, blast intro: le_trans)
qed

lemma kill_inv_same:
  "kill_inv w \<Longrightarrow> objs w' = objs w \<Longrightarrow> out w' = out w @ es \<Longrightarrow> quiet es \<Longrightarrow> kill_inv w'"
  by (rule kill_inv_silent) (auto simp: stage_of_def)

lemma kill_inv_put:
  assumes "kill_inv w" "objs w' = (objs w)(sid \<mapsto> s')" "out w' = out w @ es" "quiet es"
    "term_quota (stage_of w sid) \<le> term_quota (s_stop s')"
    "kill_quota (stage_of w sid) \<le> kill_quota (s_stop s')"
  shows "kill_inv w'"
  using assms(1,4) _ assms(3)
proof (rule kill_inv_silent)
  show "\<forall>i. term_quota (stage_of w i) \<le> term_quota (stage_of w' i)
      \<and> kill_quota (stage_of w i) \<le> kill_quota (stage_of w' i)"
    using assms by (simp add: stage_of_def)
qed

lemma terminate_kill:
  assumes "kill_inv w" "stage_of w sid = NotStopping \<or> stage_of w sid = SoftWait"
  shows "kill_inv (terminate sid s w)"
proof -
  have "kills w sid ''SIGTERM'' = 0" "kills w sid ''SIGKILL'' = 0"
    using assms unfolding kill_inv_def by (metis kill_quota.simps le_zero_eq term_quota.simps)+
  moreover have "kills (terminate sid s w) i sig = kills w i sig + (if i = sid \<and> sig = ''SIGTERM'' then 1 else 0)" for i sig
    by (simp add: kills_def terminate_def)
  moreover have "stage_of (terminate sid s w) i =
      (if i = sid then (if hasProcessExited s then Stopped else TermWait) else stage_of w i)" for i
    by (simp add: stage_of_def terminate_def)
  ultimately show ?thesis using assms(1) by (simp add: kill_inv_def)
qed

lemma stopSession_kill: "kill_inv w \<Longrightarrow> kill_inv (stopSession win32 sid w)"
  by (auto simp: stopSession_def stopProcess_def Let_def sessions_get_Some stage_of_def
      intro!: terminate_kill kill_inv_put [where sid = sid and w = w] split: option.split)

lemma stop_timeout_kill: "kill_inv w \<Longrightarrow> kill_inv (stop_timeout sid w)"
proof (cases "objs w sid")
  case (Some s)
  assume inv: "kill_inv w"
  show ?thesis
  proof (cases "s_stop s")
    case TermWait
    have "kills w sid ''SIGTERM'' \<le> 1" "kills w sid ''SIGKILL'' = 0"
      using inv [unfolded kill_inv_def, rule_format, of sid] by (simp_all add: stage_of_def Some TermWait)
    moreover let ?w' = "emit [Kill sid ''SIGKILL''] (put_session sid (s\<lparr>s_stop := Stopped\<rparr>) w)"
    have "kills ?w' i sig = kills w i sig + (if i = sid \<and> sig = ''SIGKILL'' then 1 else 0)" for i sig
      by (simp add: kills_def)
    moreover have "stage_of ?w' i = (if i = sid then Stopped else stage_of w i)" for i
      by (simp add: stage_of_def)
    ultimately have "kill_inv ?w'" using inv by (simp add: kill_inv_def)
    with Some TermWait show ?thesis by (simp add: stop_timeout_def)
  qed (use inv Some in \<open>auto simp: stop_timeout_def stage_of_def intro!: terminate_kill\<close>)
qed (simp add: stop_timeout_def)

lemma stopAll_kill: "kill_inv w \<Longrightarrow> kill_inv (stopAllSessions win32 w)"
proof -
  have "kill_inv w \<Longrightarrow> kill_inv (fold (stopSession win32) ids w)" for ids
    by (induction ids arbitrary: w) (auto simp: stopSession_kill)
  then show "kill_inv w \<Longrightarrow> kill_inv (stopAllSessions win32 w)" by (simp add: stopAllSessions_def)
qed

lemma on_stdout_kill: "kill_inv w \<Longrightarrow> kill_inv (on_stdout win32 now sid piece w)"
proof (cases "objs w sid")
  case (Some s)
  assume inv: "kill_inv w"
  obtain s' cs f where h: "handleStdoutChunk now piece s = (s', cs, f)" by (metis prod_cases3)
  have "kill_inv (emit (stream_effects sid cs) (put_session sid s' w))"
    using inv Some session_coreD [OF handleStdoutChunk_core [OF h]]
    by (intro kill_inv_put [OF inv, where sid = sid and es = "stream_effects sid cs"]) (auto simp: stage_of_def)
  then show ?thesis using Some h by (simp add: on_stdout_def Let_def stopSession_kill)
qed (simp add: on_stdout_def)

lemma on_stderr_kill: "kill_inv w \<Longrightarrow> kill_inv (on_stderr sid text w)"
  by (auto simp: on_stderr_def Let_def stage_of_def
      intro!: kill_inv_put [where sid = sid and w = w and es = "[]"] split: option.split)

lemma on_error_kill: "kill_inv w \<Longrightarrow> kill_inv (on_error env sid ec m w)"
proof (cases "objs w sid")
  case (Some s)
  assume inv: "kill_inv w"
  show ?thesis
    by (rule kill_inv_put [OF inv, where sid = sid and s' = "s\<lparr>s_phase := exited\<rparr>"
          and es = "drop (length (out w)) (out (on_error env sid ec m w))"])
       (simp_all add: on_error_def Let_def stage_of_def Some)
qed (simp add: on_error_def)

lemma flush_output_kill: "kill_inv w \<Longrightarrow> kill_inv (flush_output win32 now sid tail w)"
  by (auto simp: flush_output_def Let_def stage_of_def
      intro!: on_stdout_kill kill_inv_put [where sid = sid and w = w and es = "[]"] split: option.split)

lemma on_exit_kill: "kill_inv w \<Longrightarrow> kill_inv (on_exit env win32 now sid ec sg tail w)"
proof (cases "objs w sid")
  case (Some s0)
  assume inv: "kill_inv w"
  let ?w1 = "flush_output win32 now sid tail (put_session sid (exit_session ec sg s0) w)"
  have inv1: "kill_inv ?w1"
    using Some
    by (intro flush_output_kill kill_inv_put [OF inv, where sid = sid and es = "[]"])
       (auto simp: stage_of_def exit_session_def)
  show ?thesis
  proof (cases "objs ?w1 sid")
    case None
    with Some inv1 show ?thesis by (simp add: on_exit_def Let_def)
  next
    case s1: (Some s1)
    let ?es = "drop (length (out ?w1)) (out (on_exit env win32 now sid ec sg tail w))"
    show ?thesis
      by (rule kill_inv_put [OF inv1, where sid = sid and es = ?es and s' = "settle_stop (s1\<lparr>s_phase := exited\<rparr>)"])
         (auto simp: on_exit_def Let_def stage_of_def settle_stop_def Some s1)
  qed
qed (simp add: on_exit_def)

lemma startSession_kill: "kill_inv w \<Longrightarrow> startSession se opts w = (r, w') \<Longrightarrow> kill_inv w'"
  by (rule kill_inv_same [of w w' "drop (length (out w)) (out w')"])
     (auto simp: startSession_def Let_def split: if_splits option.splits sum.splits prod.splits)

lemma startSession_resume_kill:
  assumes inv: "kill_inv w" and fresh: "\<forall>sid. spawned = Inr sid \<longrightarrow> objs w sid = None"
    and st: "startSession_resume env now spawned ps w = (r, w')"
  shows "kill_inv w'"
proof (cases "\<exists>sid cenv. spawned = Inr sid \<and> ps_env ps = Inr cenv")
  case True
  then obtain sid cenv where "spawned = Inr sid" "ps_env ps = Inr cenv" by blast
  with inv fresh st show ?thesis
    by (auto simp: startSession_resume_def Let_def stage_of_def new_session_def
        intro!: kill_inv_put [where sid = sid and w = w])
next
  case False
  with inv st show ?thesis
    by (auto simp: startSession_resume_def Let_def split: sum.splits intro!: kill_inv_same [where w = w])
qed

lemma sendMessage_kill: "kill_inv w \<Longrightarrow> sendMessage sid w = (r, w') \<Longrightarrow> kill_inv w'"
  by (auto simp: sendMessage_def intro!: kill_inv_same [where w = w and es = "[]"]
      split: option.splits if_splits)

lemma sendMessage_resume_kill:
  "kill_inv w \<Longrightarrow> sendMessage_resume now blocks content wr sid w = (r, w') \<Longrightarrow> kill_inv w'"
proof (cases "objs w sid")
  case (Some s)
  assume inv: "kill_inv w" and st: "sendMessage_resume now blocks content wr sid w = (r, w')"
  show ?thesis
  proof (cases "\<exists>m. wr = WriteThrew m")
    case True
    with st Some inv show ?thesis
      by (auto simp: sendMessage_resume_def intro!: kill_inv_same [OF inv, where es = "[]"])
  next
    case False
    with st Some show ?thesis
      by (intro kill_inv_put [OF inv, where sid = sid and s' = "the (objs w' sid)"
            and es = "[StdinWrite sid (user_line blocks content)]"])
         (auto simp: sendMessage_resume_def Let_def stage_of_def split: write_outcome.splits)
  qed
qed (auto simp: sendMessage_resume_def intro: kill_inv_same [where w = w and es = "[]"])

lemmas cc_op_kills =
  startSession_kill startSession_resume_kill on_stdout_kill on_stderr_kill on_error_kill on_exit_kill
  sendMessage_kill sendMessage_resume_kill stopSession_kill stop_timeout_kill stopAll_kill

lemma cc_step_kill: "kill_inv w \<Longrightarrow> cc_step w w' \<Longrightarrow> kill_inv w'"
  by (erule cc_step.cases) (auto intro: cc_op_kills)

lemma kill_inv_init: "kill_inv init_world"
  by (simp add: kill_inv_def kills_def init_world_def)

interpretation cc_signals: step_invariant init_world cc_step kill_inv
  by unfold_locales (rule kill_inv_init, rule cc_step_kill)

section \<open>What the callbacks leave alone\<close>

lemma stopSession_frame [simp]:
  "sessions (stopSession win32 sid w) = sessions w" "byConv (stopSession win32 sid w) = byConv w"
  "i \<noteq> sid \<Longrightarrow> objs (stopSession win32 sid w) i = objs w i"
  "objs (stopSession win32 sid w) i = None \<longleftrightarrow> objs w i = None"
  by (auto simp: stopSession_def stopProcess_def terminate_def sessions_get_def Let_def split: option.split)

lemma on_stdout_frame [simp]:
  "sessions (on_stdout win32 now sid piece w) = sessions w"
  "byConv (on_stdout win32 now sid piece w) = byConv w"
  "i \<noteq> sid \<Longrightarrow> objs (on_stdout win32 now sid piece w) i = objs w i"
  "objs (on_stdout win32 now sid piece w) i = None \<longleftrightarrow> objs w i = None"
  by (auto simp: on_stdout_def Let_def split: option.split prod.split)

lemma flush_output_frame [simp]:
  "sessions (flush_output win32 now sid tail w) = sessions w"
  "byConv (flush_output win32 now sid tail w) = byConv w"
  "i \<noteq> sid \<Longrightarrow> objs (flush_output win32 now sid tail w) i = objs w i"
  "objs (flush_output win32 now sid tail w) i = None \<longleftrightarrow> objs w i = None"
  by (auto simp: flush_output_def Let_def split: option.split)

lemma stopSession_conv:
  "map_option s_conversationId (objs (stopSession win32 sid w) i) = map_option s_conversationId (objs w i)"
  by (auto simp: stopSession_def stopProcess_def terminate_def sessions_get_def Let_def split: option.split)

lemma on_stdout_conv:
  "map_option s_conversationId (objs (on_stdout win32 now sid piece w) i) = map_option s_conversationId (objs w i)"
  by (auto simp: on_stdout_def Let_def stopSession_conv split: option.split prod.split
      dest!: handleStdoutChunk_core session_coreD)

lemma flush_output_conv:
  "map_option s_conversationId (objs (flush_output win32 now sid tail w) i) = map_option s_conversationId (objs w i)"
  by (auto simp: flush_output_def Let_def on_stdout_conv split: option.split)

lemma on_exit_facts:
  assumes "objs w sid = Some s0" and w': "w' = on_exit env win32 now sid ec sg tail w"
  shows "sessions w' = removeAll sid (sessions w)"
    "byConv w' = (if byConv w (s_conversationId s0) = Some sid
                  then (byConv w)(s_conversationId s0 := None) else byConv w)"
    "\<exists>es. out w' = es @ [SessionExit sid ec sg None]"
    "\<exists>s. objs w' sid = Some s \<and> s_phase s = exited \<and> s_stop s \<in> {NotStopping, Stopped}"
    "i \<noteq> sid \<Longrightarrow> objs w' i = objs w i"
proof -
  let ?w1 = "flush_output win32 now sid tail (put_session sid (exit_session ec sg s0) w)"
  obtain s1 where s1: "objs ?w1 sid = Some s1"
    by (metis flush_output_frame(4) fun_upd_same not_Some_eq world_projections(8))
  have conv: "s_conversationId s1 = s_conversationId s0"
    using flush_output_conv [of win32 now sid tail "put_session sid (exit_session ec sg s0) w" sid] s1
    by (simp add: exit_session_def)
  have settle: "s_conversationId (settle_stop s) = s_conversationId s"
    "s_phase (settle_stop s) = s_phase s" "s_stop (settle_stop s) \<in> {NotStopping, Stopped}" for s
    by (cases "s_stop s"; simp add: settle_stop_def)+
  note unfold = w' on_exit_def Let_def assms(1) s1 conv settle
  show "sessions w' = removeAll sid (sessions w)"
    "byConv w' = (if byConv w (s_conversationId s0) = Some sid
                  then (byConv w)(s_conversationId s0 := None) else byConv w)"
    "\<exists>es. out w' = es @ [SessionExit sid ec sg None]"
    "\<exists>s. objs w' sid = Some s \<and> s_phase s = exited \<and> s_stop s \<in> {NotStopping, Stopped}"
    "i \<noteq> sid \<Longrightarrow> objs w' i = objs w i"
    by (simp_all add: unfold forget_session_def del: insert_iff)
qed

section \<open>A sample run\<close>

text \<open>An operator-configured CLI, no MCP endpoint, one conversation.\<close>

definition demo_se :: start_env where
  "demo_se = \<lparr>se_runtime = no_url_runtime, se_env = [''AWP_AGENT_CLI_COMMAND'' \<mapsto> ''agent''],
     se_cwd = ''/w'', se_managed = Inr None, se_ide = None, se_mcpFile = Inr []\<rparr>"

definition demo_opts :: jsval where
  "demo_opts = Obj [(''conversationId'', Str ''c1'')]"

definition demo_ps :: pending_start where
  "demo_ps = \<lparr>ps_conversationId = ''c1'', ps_exe = ''agent'', ps_argv = stream_json_flags,
     ps_cwd = ''/w'', ps_model = None, ps_managed = False,
     ps_env = buildCcEnv no_url_runtime (se_env demo_se)\<rparr>"

lemma demo_env: "\<exists>cenv. ps_env demo_ps = Inr cenv"
  by (simp add: demo_ps_def demo_se_def buildCcEnv_def parseExplicitCliEnv_def env_trim_def trim_def)

lemma demo_valid: "valid_conversation_id (field demo_opts ''conversationId'') = Some ''c1''"
  by (simp add: valid_conversation_id_def demo_opts_def bad_text_def is_control_def trim_def is_ws_def)

lemma demo_argv: "start_argv demo_se demo_opts ''c1'' =
    Inr (\<lparr>inv_exe = ''agent'', inv_prefixArgs = [], inv_managedRuntime = False\<rparr>, stream_json_flags, None)"
  by (simp add: start_argv_def demo_se_def demo_opts_def resolveCliInvocation_def env_trim_def trim_def
      is_ws_def command_name_def is_alnum_def is_alpha_def is_lower_def is_upper_def is_digit_def
      parseConfiguredArgs_def protocol_of_def trimmed_model_def resume_args_def Let_def)

lemma demo_start:
  assumes "byConv w ''c1'' = None"
  shows "startSession demo_se demo_opts w = (Awaiting demo_ps, w\<lparr>starts := starts w @ [demo_ps]\<rparr>)"
proof -
  have "w\<lparr>byConv := (byConv w)(''c1'' := None)\<rparr> = w" using assms by (simp add: fun_upd_idem)
  moreover have "mcp_args demo_se ''c1'' = Inr []"
    by (simp add: mcp_args_def demo_se_def ide_endpoint_def remote_endpoint_def env_trim_def trim_def)
  moreover have "valid_cwd (field demo_opts ''cwd'') (se_cwd demo_se) = Some ''/w''"
    by (simp add: valid_cwd_def demo_opts_def demo_se_def)
  moreover have "truthy demo_opts" "is_object demo_opts"
    by (simp_all add: demo_opts_def)
  ultimately show ?thesis
    using assms by (simp add: startSession_def demo_valid demo_argv Let_def demo_ps_def) (simp add: demo_se_def)
qed

definition demo_spawn :: "string \<Rightarrow> cc_world \<Rightarrow> cc_world" where
  "demo_spawn sid w = snd (startSession_resume (se_env demo_se) 0 (Inr sid) demo_ps w)"

lemma demo_spawn_facts:
  "objs (demo_spawn sid w) = (objs w)(sid \<mapsto> new_session 0 sid demo_ps)"
  "sessions (demo_spawn sid w) = sessions w @ [sid]"
  "byConv (demo_spawn sid w) = (byConv w)(''c1'' \<mapsto> sid)"
  "starts (demo_spawn sid w) = remove1 demo_ps (starts w)"
  "sends (demo_spawn sid w) = sends w"
  "out (demo_spawn sid w) = out w @ [Spawned ''agent'' stream_json_flags sid]"
  using demo_env by (auto simp: demo_spawn_def startSession_resume_def Let_def demo_ps_def)

lemma demo_new_session [simp]:
  "s_conversationId (new_session 0 sid demo_ps) = ''c1''" "s_phase (new_session 0 sid demo_ps) = idle"
  "s_stop (new_session 0 sid demo_ps) = NotStopping" "s_stdinOpen (new_session 0 sid demo_ps)"
  by (simp_all add: new_session_def demo_ps_def)

lemma cc_step_startI: "byConv w ''c1'' = None \<Longrightarrow> cc_step w (w\<lparr>starts := starts w @ [demo_ps]\<rparr>)"
  by (rule cc_step.start [OF demo_start])

lemma cc_step_spawnI: "demo_ps \<in> set (starts w) \<Longrightarrow> objs w sid = None \<Longrightarrow> cc_step w (demo_spawn sid w)"
  by (rule cc_step.start_resume [where ps = demo_ps and spawned = "Inr sid" and env = "se_env demo_se" and now = 0
        and r = "fst (startSession_resume (se_env demo_se) 0 (Inr sid) demo_ps w)"])
     (auto simp: demo_spawn_def)

text \<open>One pending start, one session, and two pending starts of the same conversation.\<close>

definition demo_w1 :: cc_world where
  "demo_w1 = init_world\<lparr>starts := [demo_ps]\<rparr>"

definition demo_w2 :: cc_world where
  "demo_w2 = demo_spawn ''s1'' demo_w1"

definition demo_two :: cc_world where
  "demo_two = demo_spawn ''s2'' (demo_spawn ''s1'' (init_world\<lparr>starts := [demo_ps, demo_ps]\<rparr>))"

lemma demo_w1_reachable: "cc_reachable demo_w1"
  using cc_step_startI [of init_world] by (auto simp: demo_w1_def init_world_def)

lemma demo_w2_reachable: "cc_reachable demo_w2"
  using demo_w1_reachable
  by (rule rtranclp.rtrancl_into_rtrancl) (auto simp: demo_w2_def demo_w1_def init_world_def intro: cc_step_spawnI)

lemma demo_two_reachable: "cc_reachable demo_two"
proof -
  have "cc_step demo_w1 (init_world\<lparr>starts := [demo_ps, demo_ps]\<rparr>)"
    using cc_step_startI [of demo_w1] by (simp add: demo_w1_def init_world_def)
  moreover have "cc_step (init_world\<lparr>starts := [demo_ps, demo_ps]\<rparr>)
      (demo_spawn ''s1'' (init_world\<lparr>starts := [demo_ps, demo_ps]\<rparr>))" (is "cc_step ?a ?b")
    by (rule cc_step_spawnI) (simp_all add: init_world_def)
  moreover have "cc_step ?b demo_two"
    unfolding demo_two_def by (rule cc_step_spawnI) (simp_all add: demo_spawn_facts init_world_def)
  ultimately show ?thesis
    using demo_w1_reachable by (meson rtranclp.rtrancl_into_rtrancl)
qed

lemma demo_w2_facts:
  "sessions demo_w2 = [''s1'']" "objs demo_w2 ''s1'' = Some (new_session 0 ''s1'' demo_ps)"
  "byConv demo_w2 ''c1'' = Some ''s1''" "out demo_w2 = [Spawned ''agent'' stream_json_flags ''s1'']"
  "sends demo_w2 = []"
  by (simp_all add: demo_w2_def demo_w1_def demo_spawn_facts init_world_def)

section \<open>Properties\<close>

text \<open>
  C6. In every state the module can reach, by any interleaving of calls,
  continuations, timeouts and process callbacks, an entry of \<open>byConv\<close> names a session
  of \<open>sessions\<close> that belongs to that conversation and has not exited, and no session is
  registered twice.
\<close>
theorem session_registry_consistent:
  assumes "cc_reachable w" and "byConv w c = Some sid"
  shows "sid \<in> set (sessions w) \<and> distinct (sessions w)
    \<and> (\<exists>s. objs w sid = Some s \<and> s_sessionId s = sid \<and> s_conversationId s = c \<and> s_phase s \<noteq> exited)"
proof -
  note inv = cc_invD [OF cc.inv_reachable [OF assms(1)]]
  from inv(4,5) [OF assms(2)] inv(3) [of sid] inv(1,2) show ?thesis by force
qed

theorem session_registry_consistent_witness:
  "''s1'' \<in> set (sessions demo_w2) \<and> distinct (sessions demo_w2)
    \<and> (\<exists>s. objs demo_w2 ''s1'' = Some s \<and> s_sessionId s = ''s1'' \<and> s_conversationId s = ''c1'' \<and> s_phase s \<noteq> exited)"
  by (rule session_registry_consistent [OF demo_w2_reachable demo_w2_facts(3)])

text \<open>
  C7. Cancellation signals a process at most once per signal: however often and in
  whatever order stop requests, timeouts, output limits and exits come, a session gets
  at most one SIGTERM and one SIGKILL, and a SIGKILL only once its cancellation is over.
\<close>
theorem signals_at_most_once:
  assumes "cc_reachable w"
  shows "kills w sid ''SIGTERM'' \<le> 1 \<and> kills w sid ''SIGKILL'' \<le> 1
    \<and> (0 < kills w sid ''SIGKILL'' \<longrightarrow> stage_of w sid = Stopped)
    \<and> (stage_of w sid \<in> {NotStopping, SoftWait} \<longrightarrow> kills w sid ''SIGTERM'' = 0)"
  using cc_signals.inv_reachable [OF assms, unfolded kill_inv_def, rule_format, of sid]
  by (cases "stage_of w sid") auto

theorem signals_at_most_once_witness:
  "kills demo_w2 ''s1'' ''SIGTERM'' \<le> 1 \<and> kills demo_w2 ''s1'' ''SIGKILL'' \<le> 1"
  using signals_at_most_once [OF demo_w2_reachable, of "''s1''"] by simp

text \<open>
  \<open>startSession\<close> is idempotent while the conversation has a session: it returns
  the id of that session and changes nothing, whatever the other options say.
\<close>
theorem start_returns_existing_session:
  assumes "cc_reachable w" and "byConv w conv = Some sid"
    and "truthy opts" and "is_object opts"
    and "valid_conversation_id (field opts ''conversationId'') = Some conv"
  shows "startSession se opts w = (Returned (Inr sid), w)"
proof -
  note inv = cc_invD [OF cc.inv_reachable [OF assms(1)]]
  from inv(3) [OF inv(4) [OF assms(2)]] obtain s where "objs w sid = Some s" "s_phase s \<noteq> exited" by blast
  with assms inv(4) [OF assms(2)] show ?thesis
    by (simp add: startSession_def sessions_get_def)
qed

theorem start_returns_existing_session_witness:
  "startSession demo_se demo_opts demo_w2 = (Returned (Inr ''s1''), demo_w2)"
  by (rule start_returns_existing_session [OF demo_w2_reachable demo_w2_facts(3) _ _ demo_valid])
     (simp_all add: demo_opts_def)

text \<open>
  When a process exits, its session leaves the registry, no conversation points
  to it any more, no cancellation is left waiting for it, the exit is the last event
  broadcast, and every other session is untouched.
\<close>
theorem exit_retires_session:
  assumes "cc_reachable w" and "sid \<in> set (sessions w)"
    and w': "w' = on_exit env win32 now sid ecode signal tail w"
  shows "sid \<notin> set (sessions w') \<and> (\<forall>c. byConv w' c \<noteq> Some sid)
    \<and> st_phase (getSessionStatus sid w') = exited \<and> stage_of w' sid \<in> {NotStopping, Stopped}
    \<and> last (out w') = SessionExit sid ecode signal None
    \<and> (\<forall>i. i \<noteq> sid \<longrightarrow> objs w' i = objs w i \<and> (i \<in> set (sessions w') \<longleftrightarrow> i \<in> set (sessions w)))"
proof -
  note inv = cc_invD [OF cc.inv_reachable [OF assms(1)]]
  from inv(3) [OF assms(2)] obtain s0 where s0: "objs w sid = Some s0" by blast
  note facts = on_exit_facts [OF s0 w']
  have "byConv w' c \<noteq> Some sid" for c
    using facts(2) inv(5) [of c sid] s0 by (auto split: if_splits)
  moreover have "st_phase (getSessionStatus sid w') = exited"
    by (simp add: getSessionStatus_def sessions_get_def facts(1))
  moreover have "stage_of w' sid \<in> {NotStopping, Stopped}"
    using facts(4) by (auto simp: stage_of_def)
  ultimately show ?thesis using facts(1,3,5) by auto
qed

theorem exit_retires_session_witness:
  "last (out (on_exit (\<lambda>_. None) False 7 ''s1'' (Some 0) None [] demo_w2)) = SessionExit ''s1'' (Some 0) None None"
  using exit_retires_session [OF demo_w2_reachable _ refl] by (simp add: demo_w2_facts)

text \<open>
  C8. A stop request escalates to the end: on a live session that is not being
  stopped, the request and the timeouts of its waits send, in this order and nothing
  else, the shutdown line (on Windows, while stdin is open), SIGTERM and SIGKILL;
  further stop requests and timeouts send nothing.
\<close>
theorem stop_escalates:
  assumes "sessions_get w sid = Some s" and "s_phase s \<noteq> exited" and "s_stop s = NotStopping"
    and "s_exitCode s = None" and "s_signalCode s = None"
    and soft: "soft = (win32 \<and> s_stdinOpen s)"
    and w': "w' = (stop_timeout sid ^^ (if soft then 2 else 1)) (stopSession win32 sid w)"
  shows "out w' = out w @ (if soft then [StdinWrite sid shutdown_line] else [])
                        @ [Kill sid ''SIGTERM'', Kill sid ''SIGKILL'']
    \<and> stage_of w' sid = Stopped \<and> stop_timeout sid w' = w' \<and> stopSession win32' sid w' = w'"
  using assms
  by (simp add: stopSession_def stopProcess_def terminate_def stop_timeout_def sessions_get_Some Let_def
      hasProcessExited_def stage_of_def eval_nat_numeral sessions_get_def)

theorem stop_escalates_witness:
  "out (stop_timeout ''s1'' (stopSession False ''s1'' demo_w2)) =
     [Spawned ''agent'' stream_json_flags ''s1'', Kill ''s1'' ''SIGTERM'', Kill ''s1'' ''SIGKILL'']"
  using stop_escalates [of demo_w2 "''s1''" "new_session 0 ''s1'' demo_ps" False False _ False]
  by (simp add: sessions_get_def demo_w2_facts) (simp add: new_session_def)

text \<open>
  The registry does not enforce one process per conversation: \<open>startSession\<close>
  checks \<open>byConv\<close> before \<open>await buildCcEnv()\<close> and writes it after, so two calls for one
  conversation can both spawn.  Both sessions are live and \<open>byConv\<close> knows only the
  second.
\<close>
theorem two_processes_for_one_conversation:
  "\<exists>w a b sa sb. cc_reachable w \<and> a \<noteq> b \<and> {a, b} \<subseteq> set (sessions w)
     \<and> objs w a = Some sa \<and> objs w b = Some sb \<and> s_conversationId sa = s_conversationId sb
     \<and> s_phase sa \<noteq> exited \<and> s_phase sb \<noteq> exited \<and> byConv w (s_conversationId sa) = Some b"
proof -
  have "''s1'' \<noteq> ''s2''" "{''s1'', ''s2''} \<subseteq> set (sessions demo_two)"
    "objs demo_two ''s1'' = Some (new_session 0 ''s1'' demo_ps)"
    "objs demo_two ''s2'' = Some (new_session 0 ''s2'' demo_ps)" "byConv demo_two ''c1'' = Some ''s2''"
    by (simp_all add: demo_two_def demo_spawn_facts init_world_def)
  moreover have "s_phase (new_session 0 x demo_ps) \<noteq> exited" for x by simp
  ultimately show ?thesis
    using demo_two_reachable demo_new_session(1) by metis
qed

lemma sendMessage_resume_streams:
  "objs w sid = Some s \<Longrightarrow> \<exists>w' s'. sendMessage_resume now blocks content Backpressure sid w = (None, w')
     \<and> objs w' sid = Some s' \<and> s_phase s' = streaming"
  by (simp add: sendMessage_resume_def Let_def)

text \<open>
  \<open>sendMessage\<close> does not look at the session again after waiting for the
  attachments: when the process exits meanwhile, the call still reports success, writes
  to the closed pipe and turns the exited session to \<open>streaming\<close>.
\<close>
theorem send_after_exit_reports_success:
  "\<exists>w w' s. cc_reachable w \<and> ''s1'' \<in> set (sends w) \<and> ''s1'' \<notin> set (sessions w)
     \<and> st_phase (getSessionStatus ''s1'' w) = exited
     \<and> sendMessage_resume 9 [] ''hi'' Backpressure ''s1'' w = (None, w')
     \<and> objs w' ''s1'' = Some s \<and> s_phase s = streaming"
proof -
  let ?w3 = "demo_w2\<lparr>sends := [''s1'']\<rparr>"
  let ?w4 = "on_exit (\<lambda>_. None) False 7 ''s1'' (Some 0) None [] ?w3"
  have "sendMessage ''s1'' demo_w2 = (None, ?w3)"
    by (simp add: sendMessage_def sessions_get_def demo_w2_facts)
  then have "cc_reachable ?w4"
    using demo_w2_reachable cc_step.send cc_step.proc_exit by (meson rtranclp.rtrancl_into_rtrancl)
  moreover have "objs ?w3 ''s1'' = Some (new_session 0 ''s1'' demo_ps)" by (simp add: demo_w2_facts)
  from on_exit_facts(1,4) [OF this refl] have "''s1'' \<notin> set (sessions ?w4)"
    "\<exists>s. objs ?w4 ''s1'' = Some s" by (simp, blast)
  moreover have "sends ?w4 = [''s1'']"
    by (simp add: on_exit_def flush_output_def Let_def demo_w2_facts trim_def exit_session_def new_session_def
        forget_session_def)
  ultimately show ?thesis
    using sendMessage_resume_streams [of ?w4 "''s1''" _ 9 "[]" "''hi''"]
    by - (rule exI [of _ ?w4], auto simp: getSessionStatus_def sessions_get_def)
qed

end
