(* ===== verification/ChatState.thy ===== *)
theory ChatState
  imports CcStream
begin

text \<open>
  The state of the renderer's chat store (\<open>apps/desktop/src/stores/chat.ts\<close>), its
  task panel, context meter, attachments, persistence, and the operations that create,
  leave and restore conversations.

  Thread objects live in a heap and the sidebar list holds references, because the
  store's asynchronous functions keep a thread object across an \<open>await\<close> while others
  may remove it from the list or write to it.  The active view (the store's singleton
  refs) is a record of its own.  \<open>localStorage\<close> holds the saved threads per key;
  their JSON text is not spelled out.
\<close>

section \<open>Data\<close>

record ChatMessage =
  cm_role :: string
  cm_content :: string
  cm_usage :: "(jsnum option \<times> jsnum option \<times> jsnum) option"

record todo_item =
  ti_label :: string
  ti_done :: bool
  ti_tool :: "string option"

record err_chunk =
  ec_code :: "string option"
  ec_message :: string

text \<open>\<open>undefined\<close> and \<open>null\<close> fields of a thread are \<open>None\<close>, its absent flags and texts False and empty.\<close>

record Thread =
  th_id :: string
  th_conversationId :: "string option"
  th_title :: string
  th_messages :: "ChatMessage list"
  th_model :: string
  th_created_at :: string
  th_updated_at :: string
  th_ccSessionId :: "string option"
  th_isStreaming :: bool
  th_bgStreamingReply :: string
  th_bgSessionId :: "string option"
  th_bgConvId :: "string option"
  th_ccTodoList :: "todo_item list"
  th_ccStatus :: string
  th_streamStartedAt :: "nat option"
  th_streamErrorChunk :: "err_chunk option"

type_synonym attachment = string

record Conversation =
  cn_id :: "string option"
  cn_conversation_id :: string
  cn_title :: string
  cn_created_at :: string
  cn_updated_at :: "string option"

text \<open>What \<open>getConversation\<close> answers.\<close>

record cloud_conversation =
  cv_messages :: "ChatMessage list"
  cv_model :: string
  cv_updated_at :: "string option"
  cv_cc_session_id :: "string option"

datatype chat_effect =
    CcStart string string "string option"
  | CcSendMessage string string "attachment list option"
  | CcStop string
  | AppendMessage string string string
  | PatchConversation string string
  | StreamMessage string "ChatMessage option list" "string option" "attachment list option"
  | SseClose
  | ToastWarning

record view =
  currentConversationId :: "string option"
  currentMessages :: "ChatMessage list"
  streamingReply :: string
  isStreaming :: bool
  v_error :: "string option"
  ccStatus :: string
  ccTodoList :: "todo_item list"
  streamStartedAt :: "nat option"
  streamErrorChunk :: "err_chunk option"
  ccSession :: "string option"

record chat =
  view :: view
  heap :: "nat \<Rightarrow> Thread"
  next_ref :: nat
  threads :: "nat list"
  activeThreadId :: string
  threadCounter :: nat
  models :: "string list"
  selectedModel :: string
  conversations :: "Conversation list"
  loading :: bool
  messageCount :: nat
  estimatedTokens :: nat
  pendingAttachments :: "attachment list"
  sseHandle :: bool
  gotCcDone :: bool
  lastSentUserContent :: string
  lastSentAttachments :: "attachment list option"
  ccFallbackUsed :: bool
  lastSentContentSig :: "string option"
  storage :: "string \<Rightarrow> Thread list option"
  c_out :: "chat_effect list"

text \<open>
  What a call reads from outside: translated texts, the clock, \<open>randomUUID\<close> (the ids
  it gives during the call), the logged-in customer, whether \<open>setItem\<close> succeeds, and
  which parts of the Electron bridge and of the runtime are there, and the collation.
\<close>

record chat_env =
  welcomeMessage :: string
  defaultThreadTitle :: string
  conversationTitle :: string
  now_iso :: string
  now_ms :: nat
  uuid :: "nat \<Rightarrow> string"
  customer :: "string option"
  storage_ok :: bool
  has_cc_start :: bool
  has_cc_stop :: bool
  lab_mode :: bool
  runtime_available :: bool
  serverUrl :: string
  localeCompare :: "string \<Rightarrow> string \<Rightarrow> int"

definition present :: "string option \<Rightarrow> bool" where
  "present v = (v \<noteq> None \<and> v \<noteq> Some [])"

definition on_view :: "(view \<Rightarrow> view) \<Rightarrow> chat \<Rightarrow> chat" where
  "on_view f s = s\<lparr>view := f (view s)\<rparr>"

definition emit_chat :: "chat_effect list \<Rightarrow> chat \<Rightarrow> chat" where
  "emit_chat es s = s\<lparr>c_out := c_out s @ es\<rparr>"

definition upd_thread :: "nat \<Rightarrow> (Thread \<Rightarrow> Thread) \<Rightarrow> chat \<Rightarrow> chat" where
  "upd_thread r f s = s\<lparr>heap := (heap s)(r := f (heap s r))\<rparr>"

definition find_ref :: "(Thread \<Rightarrow> bool) \<Rightarrow> chat \<Rightarrow> nat option" where
  "find_ref P s = find (\<lambda>r. P (heap s r)) (threads s)"

definition active_ref :: "chat \<Rightarrow> nat option" where
  "active_ref s = find_ref (\<lambda>t. th_id t = activeThreadId s) s"

definition message :: "string \<Rightarrow> string \<Rightarrow> ChatMessage" where
  "message role content = \<lparr>cm_role = role, cm_content = content, cm_usage = None\<rparr>"

section \<open>The task panel\<close>

definition mark_last_done :: "todo_item list \<Rightarrow> todo_item list" where
  "mark_last_done xs =
     (if xs \<noteq> [] \<and> \<not> ti_done (last xs) then butlast xs @ [(last xs)\<lparr>ti_done := True\<rparr>] else xs)"

definition addTodoItem :: "string \<Rightarrow> string option \<Rightarrow> todo_item list \<Rightarrow> todo_item list" where
  "addTodoItem label tool xs =
     (let l = mark_last_done xs
      in if list_ex (\<lambda>t. ti_label t = label \<and> ti_tool t = tool) l then l
         else l @ [\<lparr>ti_label = label, ti_done = False, ti_tool = tool\<rparr>])"

definition resetTodo :: "view \<Rightarrow> view" where
  "resetTodo v = v\<lparr>ccStatus := [], ccTodoList := []\<rparr>"

definition parkConversationState :: "nat option \<Rightarrow> chat \<Rightarrow> chat" where
  "parkConversationState thread s =
     (case thread of
        None \<Rightarrow> s
      | Some r \<Rightarrow>
          upd_thread r (\<lambda>t. t\<lparr>th_ccTodoList := ccTodoList (view s), th_ccStatus := ccStatus (view s),
            th_streamStartedAt := streamStartedAt (view s),
            th_streamErrorChunk := streamErrorChunk (view s)\<rparr>) s)"

section \<open>Error chunks\<close>

text \<open>\<open>ChatStreamChunk\<close>: the wrapper's flat chunk and what the remote adapter may add.\<close>

record ChatStreamChunk = FlatChunk +
  ck_choice_content :: "string option"
  ck_finish_reason :: "string option"
  ck_target :: "string option"
  ck_code :: "string option"
  ck_message :: "string option"

definition is_word :: "char \<Rightarrow> bool" where
  "is_word c = (is_alnum c \<or> c = CHR ''_'')"

definition is_line_end :: "char \<Rightarrow> bool" where
  "is_line_end c = (c = CHR 0x0A \<or> c = CHR 0x0D)"

text \<open>\<open>/^\s*(E-[A-Z0-9]{4,12})\b\s*:?\s*(.*)/i\<close>: the groups of a match.\<close>

definition match_error_code :: "string \<Rightarrow> (string \<times> string) option" where
  "match_error_code delta =
     (case dropWhile is_ws delta of
        e # d # r \<Rightarrow>
          if (e = CHR ''E'' \<or> e = CHR ''e'') \<and> d = CHR ''-'' then
            (let ds = takeWhile is_alnum r; rest = dropWhile is_alnum r
             in if 4 \<le> length ds \<and> length ds \<le> 12 \<and> (rest = [] \<or> \<not> is_word (hd rest)) then
                  (let r1 = dropWhile is_ws rest;
                       r2 = (if r1 \<noteq> [] \<and> hd r1 = CHR '':'' then tl r1 else r1)
                   in Some (e # d # ds, takeWhile (Not \<circ> is_line_end) (dropWhile is_ws r2)))
                else None)
          else None
      | _ \<Rightarrow> None)"

definition extractErrorChunk :: "ChatStreamChunk \<Rightarrow> err_chunk option" where
  "extractErrorChunk chunk =
     (if fc_type chunk = Some ''error'' then
        Some \<lparr>ec_code = ck_code chunk,
              ec_message = (case ck_message chunk of Some m \<Rightarrow> m
                            | None \<Rightarrow> (case fc_error chunk of Some e \<Rightarrow> e | None \<Rightarrow> ''Unknown error''))\<rparr>
      else if present (fc_error chunk) then Some \<lparr>ec_code = None, ec_message = the (fc_error chunk)\<rparr>
      else
        (let delta = (case fc_delta chunk of Some d \<Rightarrow> d | None \<Rightarrow> [])
         in case match_error_code delta of
              None \<Rightarrow> None
            | Some (c, m) \<Rightarrow> Some \<lparr>ec_code = Some c, ec_message = (if m \<noteq> [] then m else delta)\<rparr>))"

section \<open>Attachments and the context meter\<close>

definition attachUpload :: "attachment \<Rightarrow> chat \<Rightarrow> chat" where
  "attachUpload f s = s\<lparr>pendingAttachments := pendingAttachments s @ [f]\<rparr>"

definition removeAttachment :: "int \<Rightarrow> chat \<Rightarrow> chat" where
  "removeAttachment idx s =
     (if 0 \<le> idx \<and> nat idx < length (pendingAttachments s)
      then s\<lparr>pendingAttachments := take (nat idx) (pendingAttachments s)
               @ drop (Suc (nat idx)) (pendingAttachments s)\<rparr>
      else s)"

definition clearAttachments :: "chat \<Rightarrow> chat" where
  "clearAttachments s = s\<lparr>pendingAttachments := []\<rparr>"

text \<open>\<open>Math.round(totalChars / 3)\<close> is the floor of \<open>totalChars / 3 + 1 / 2\<close>.\<close>

definition updateContextUsage :: "chat \<Rightarrow> chat" where
  "updateContextUsage s =
     (let totalChars = sum_list (map (length \<circ> cm_content) (currentMessages (view s)))
                       + length (streamingReply (view s))
      in s\<lparr>messageCount := length (currentMessages (view s)),
           estimatedTokens := (2 * totalChars + 3) div 6\<rparr>)"

definition contextPercent :: "nat \<Rightarrow> chat \<Rightarrow> nat" where
  "contextPercent maxTokens s =
     (if maxTokens = 0 then 0
      else min 100 ((200 * estimatedTokens s + maxTokens) div (2 * maxTokens)))"

definition contextWarning :: "nat \<Rightarrow> chat \<Rightarrow> bool" where
  "contextWarning maxTokens s = (80 < contextPercent maxTokens s)"

section \<open>Persistence\<close>

definition makeWelcome :: "chat_env \<Rightarrow> ChatMessage" where
  "makeWelcome env = message ''assistant'' (welcomeMessage env)"

definition isWelcomeMessage :: "chat_env \<Rightarrow> ChatMessage \<Rightarrow> bool" where
  "isWelcomeMessage env m = (cm_role m = ''assistant'' \<and> cm_content m = welcomeMessage env)"

definition injectWelcome :: "chat_env \<Rightarrow> ChatMessage list" where
  "injectWelcome env = [makeWelcome env]"

definition THREADS_KEY_PREFIX :: string where
  "THREADS_KEY_PREFIX = ''awp_threads''"

definition MAX_PERSISTED_THREADS :: nat where
  "MAX_PERSISTED_THREADS = 50"

definition threadsKey :: "chat_env \<Rightarrow> string" where
  "threadsKey env =
     (case customer env of
        Some cid \<Rightarrow> if cid \<noteq> [] then THREADS_KEY_PREFIX @ ''_'' @ cid else THREADS_KEY_PREFIX
      | None \<Rightarrow> THREADS_KEY_PREFIX)"

text \<open>The number of \<open>t.id.match(/thread-(\d+)/)\<close>, at the leftmost match.\<close>

fun thread_number :: "string \<Rightarrow> nat option" where
  "thread_number [] = None"
| "thread_number (c # r) =
     (if starts_with (c # r) ''thread-'' \<and> takeWhile is_digit (drop 7 (c # r)) \<noteq> []
      then Some (digits_val 0 (takeWhile is_digit (drop 7 (c # r))))
      else thread_number r)"

definition new_thread :: "chat_env \<Rightarrow> string \<Rightarrow> string option \<Rightarrow> string \<Rightarrow> ChatMessage list \<Rightarrow> string \<Rightarrow> Thread" where
  "new_thread env tid conv title msgs model =
     \<lparr>th_id = tid, th_conversationId = conv, th_title = title, th_messages = msgs, th_model = model,
      th_created_at = now_iso env, th_updated_at = now_iso env, th_ccSessionId = None,
      th_isStreaming = False, th_bgStreamingReply = [], th_bgSessionId = None, th_bgConvId = None,
      th_ccTodoList = [], th_ccStatus = [], th_streamStartedAt = None, th_streamErrorChunk = None\<rparr>"

fun migrate_threads :: "chat_env \<Rightarrow> nat \<Rightarrow> Thread list \<Rightarrow> Thread list" where
  "migrate_threads env n [] = []"
| "migrate_threads env n (t # ts) =
     (if present (th_conversationId t) then t else t\<lparr>th_conversationId := Some (uuid env n)\<rparr>)
     # migrate_threads env (Suc n) ts"

definition loadPersistedThreads :: "chat_env \<Rightarrow> (string \<Rightarrow> Thread list option) \<Rightarrow> Thread list \<times> nat" where
  "loadPersistedThreads env store =
     (let key = threadsKey env;
          raw = (case store key of
                   Some ts \<Rightarrow> Some ts
                 | None \<Rightarrow> if key \<noteq> THREADS_KEY_PREFIX then store THREADS_KEY_PREFIX else None);
          fresh = ([new_thread env ''thread-1'' (Some (uuid env 0)) (defaultThreadTitle env)
                      (injectWelcome env) []], 2)
      in case raw of
           None \<Rightarrow> fresh
         | Some saved \<Rightarrow>
             if saved \<noteq> [] then
               (migrate_threads env 0 saved,
                fold (\<lambda>t m. case thread_number (th_id t) of Some n \<Rightarrow> max m n | None \<Rightarrow> m) saved 1 + 1)
             else fresh)"

definition saved_threads :: "chat \<Rightarrow> Thread list" where
  "saved_threads s =
     map (\<lambda>r. (heap s r)\<lparr>th_messages := slice_from (th_messages (heap s r)) (- 100)\<rparr>)
       (take MAX_PERSISTED_THREADS (threads s))"

definition persistThreads :: "chat_env \<Rightarrow> chat \<Rightarrow> chat" where
  "persistThreads env s =
     (if storage_ok env then s\<lparr>storage := (storage s)(threadsKey env \<mapsto> saved_threads s)\<rparr> else s)"

definition syncThreadMessages :: "chat_env \<Rightarrow> chat \<Rightarrow> chat" where
  "syncThreadMessages env s =
     persistThreads env
       (case active_ref s of
          None \<Rightarrow> s
        | Some r \<Rightarrow> upd_thread r (\<lambda>t. t\<lparr>th_messages := currentMessages (view s), th_updated_at := now_iso env\<rparr>) s)"

definition persistAssistantBubble :: "string option \<Rightarrow> string \<Rightarrow> chat \<Rightarrow> chat" where
  "persistAssistantBubble convId content s =
     (if \<not> present convId \<or> content = [] \<or> trim content = [] then s
      else emit_chat [AppendMessage (the convId) ''assistant'' content] s)"

section \<open>Conversations\<close>

definition ensureConvId :: "chat_env \<Rightarrow> nat \<Rightarrow> chat \<Rightarrow> string \<times> chat" where
  "ensureConvId env r s =
     (if present (th_conversationId (heap s r)) then (the (th_conversationId (heap s r)), s)
      else (uuid env 0, persistThreads env (upd_thread r (\<lambda>t. t\<lparr>th_conversationId := Some (uuid env 0)\<rparr>) s)))"

definition detachActiveStreamToThread :: "chat \<Rightarrow> chat" where
  "detachActiveStreamToThread s =
     (if \<not> isStreaming (view s) then s
      else case active_ref s of
        None \<Rightarrow> s
      | Some r \<Rightarrow>
          upd_thread r (\<lambda>t. t\<lparr>th_isStreaming := True, th_bgStreamingReply := streamingReply (view s),
            th_bgSessionId := (if present (ccSession (view s)) then ccSession (view s) else th_bgSessionId t),
            th_bgConvId := currentConversationId (view s)\<rparr>) s)"

definition createThread :: "chat_env \<Rightarrow> chat \<Rightarrow> chat" where
  "createThread env s0 =
     (let s1 = detachActiveStreamToThread s0;
          s2 = parkConversationState (active_ref s1) s1;
          s3 = syncThreadMessages env s2;
          tid = ''thread-'' @ print_nat (threadCounter s3);
          conv = uuid env 0;
          r = next_ref s3;
          thread = new_thread env tid (Some conv) (defaultThreadTitle env) (injectWelcome env) (selectedModel s3)
      in persistThreads env
           (s3\<lparr>heap := (heap s3)(r := thread), next_ref := Suc r, threads := r # threads s3,
               threadCounter := Suc (threadCounter s3), activeThreadId := tid,
               view := \<lparr>currentConversationId = Some conv, currentMessages = injectWelcome env,
                        streamingReply = [], isStreaming = False, v_error = None, ccStatus = [],
                        ccTodoList = [], streamStartedAt = None, streamErrorChunk = None,
                        ccSession = None\<rparr>\<rparr>))"

text \<open>\<open>stopStreaming\<close>: the partial reply is kept, the local session is stopped.\<close>

definition stop_cc_session :: "chat_env \<Rightarrow> chat \<Rightarrow> chat" where
  "stop_cc_session env s =
     (if present (ccSession (view s))
      then on_view (\<lambda>v. v\<lparr>ccSession := None\<rparr>)
             (if has_cc_stop env then emit_chat [CcStop (the (ccSession (view s)))] s else s)
      else s)"

definition keep_partial_reply :: "view \<Rightarrow> view" where
  "keep_partial_reply v =
     (if streamingReply v \<noteq> []
      then v\<lparr>currentMessages := currentMessages v @ [message ''assistant'' (streamingReply v)],
             streamingReply := []\<rparr>
      else v)"

definition close_sse :: "chat \<Rightarrow> chat" where
  "close_sse s = (if sseHandle s then emit_chat [SseClose] s else s)"

definition stopStreaming :: "chat_env \<Rightarrow> chat \<Rightarrow> chat" where
  "stopStreaming env s0 =
     (let s1 = (close_sse s0)\<lparr>sseHandle := False\<rparr>;
          s2 = (stop_cc_session env s1)\<lparr>gotCcDone := False\<rparr>
      in on_view (\<lambda>v. keep_partial_reply (v\<lparr>isStreaming := False, streamStartedAt := None\<rparr>)) s2)"

definition load_refs :: "Thread list \<Rightarrow> chat \<Rightarrow> chat" where
  "load_refs ts s =
     s\<lparr>heap := (\<lambda>r. if next_ref s \<le> r \<and> r < next_ref s + length ts then ts ! (r - next_ref s) else heap s r),
       next_ref := next_ref s + length ts, threads := [next_ref s ..< next_ref s + length ts]\<rparr>"

definition onUserChanged :: "chat_env \<Rightarrow> chat \<Rightarrow> chat" where
  "onUserChanged env s0 =
     (let s1 = (stop_cc_session env (stopStreaming env s0))\<lparr>gotCcDone := False\<rparr>;
          fresh = loadPersistedThreads env (storage s1);
          s2 = load_refs (fst fresh) s1
      in on_view (\<lambda>v. v\<lparr>currentConversationId := None,
             currentMessages := (case fst fresh of [] \<Rightarrow> [] | t # _ \<Rightarrow> th_messages t),
             streamingReply := [], v_error := None\<rparr>)
           (s2\<lparr>threadCounter := snd fresh,
               activeThreadId := (case fst fresh of
                    [] \<Rightarrow> ''thread-1'' | t # _ \<Rightarrow> if th_id t \<noteq> [] then th_id t else ''thread-1'')\<rparr>))"

definition newConversation :: "chat_env \<Rightarrow> chat \<Rightarrow> chat" where
  "newConversation env s =
     on_view (\<lambda>v. v\<lparr>currentConversationId := None, currentMessages := injectWelcome env,
         streamingReply := [], v_error := None\<rparr>) (stopStreaming env s)"

definition dismissStreamError :: "chat \<Rightarrow> chat" where
  "dismissStreamError s = on_view (\<lambda>v. v\<lparr>streamErrorChunk := None\<rparr>) s"

definition selectModel :: "string \<Rightarrow> chat \<Rightarrow> chat" where
  "selectModel modelId s = s\<lparr>selectedModel := modelId\<rparr>"

text \<open>The store as \<open>defineStore\<close> sets it up.\<close>

definition init_chat :: "chat_env \<Rightarrow> (string \<Rightarrow> Thread list option) \<Rightarrow> chat" where
  "init_chat env store =
     (let init = loadPersistedThreads env store; ts = fst init
      in load_refs ts
           \<lparr>view = \<lparr>currentConversationId = None,
                    currentMessages = (case ts of [] \<Rightarrow> [] | t # _ \<Rightarrow> th_messages t),
                    streamingReply = [], isStreaming = False, v_error = None, ccStatus = [],
                    ccTodoList = [], streamStartedAt = None, streamErrorChunk = None, ccSession = None\<rparr>,
            heap = (\<lambda>_. new_thread env [] None [] [] []), next_ref = 0, threads = [],
            activeThreadId = (case ts of [] \<Rightarrow> ''thread-1'' | t # _ \<Rightarrow> if th_id t \<noteq> [] then th_id t else ''thread-1''),
            threadCounter = snd init, models = [], selectedModel = [], conversations = [], loading = False,
            messageCount = 0, estimatedTokens = 0, pendingAttachments = [], sseHandle = False,
            gotCcDone = False, lastSentUserContent = [], lastSentAttachments = None,
            ccFallbackUsed = False, lastSentContentSig = None, storage = store, c_out = []\<rparr>)"

end
