(* ===== verification/ChatStream.thy ===== *)
theory ChatStream
  imports ChatState
begin

text \<open>
  How the chat store takes in stream events (\<open>apps/desktop/src/stores/chat.ts\<close>): routing
  a chunk to the conversation that produced it, the active and the background ingester,
  the exit of a session, and the HTTP transport with its fallback.
\<close>

section \<open>Routing\<close>

record chunk_target =
  tg_thread :: "nat option"
  tg_isActive :: bool
  tg_orphan :: bool

record ChunkSource =
  src_sessionId :: "string option"
  src_convId :: "string option"

definition no_source :: ChunkSource where
  "no_source = \<lparr>src_sessionId = None, src_convId = None\<rparr>"

definition to_active :: "chat \<Rightarrow> chunk_target" where
  "to_active s = \<lparr>tg_thread = active_ref s, tg_isActive = True, tg_orphan = False\<rparr>"

definition to_background :: "nat \<Rightarrow> chunk_target" where
  "to_background r = \<lparr>tg_thread = Some r, tg_isActive = False, tg_orphan = False\<rparr>"

definition to_orphan :: chunk_target where
  "to_orphan = \<lparr>tg_thread = None, tg_isActive = False, tg_orphan = True\<rparr>"

definition unlinked :: chunk_target where
  "unlinked = \<lparr>tg_thread = None, tg_isActive = True, tg_orphan = False\<rparr>"

definition bg_of_session :: "string option \<Rightarrow> chat \<Rightarrow> nat option" where
  "bg_of_session sid s = find_ref (\<lambda>t. th_bgSessionId t = sid \<and> th_isStreaming t) s"

text \<open>Step 2 of the routing: by conversation id.\<close>

definition resolve_by_conv :: "string option \<Rightarrow> string option \<Rightarrow> chat \<Rightarrow> chunk_target" where
  "resolve_by_conv srcSession srcConv s =
     (if present srcConv then
        if srcConv = currentConversationId (view s) then to_active s
        else case find_ref (\<lambda>t. (th_bgConvId t = srcConv \<or> Some (th_id t) = srcConv) \<and> th_id t \<noteq> activeThreadId s) s of
          Some r \<Rightarrow> to_background r
        | None \<Rightarrow> if present srcSession then to_orphan else unlinked
      else unlinked)"

definition resolveChunkTarget :: "ChatStreamChunk \<Rightarrow> ChunkSource \<Rightarrow> chat \<Rightarrow> chunk_target" where
  "resolveChunkTarget chunk source s =
     (let srcSession = src_sessionId source;
          srcConv = (case src_convId source of Some c \<Rightarrow> Some c | None \<Rightarrow> fc_conversation_id chunk)
      in if present srcSession then
           if srcSession = ccSession (view s) then to_active s
           else case bg_of_session srcSession s of
             Some r \<Rightarrow> to_background r
           | None \<Rightarrow> if \<not> present srcConv then to_orphan else resolve_by_conv srcSession srcConv s
         else resolve_by_conv srcSession srcConv s)"

section \<open>Background conversations\<close>

text \<open>The end of a background turn: its text becomes a message, its flags are cleared.\<close>

definition commit_background :: "chat_env \<Rightarrow> nat \<Rightarrow> chat \<Rightarrow> chat" where
  "commit_background env r s =
     (let t = heap s r; txt = trim (th_bgStreamingReply t);
          s1 = (if txt \<noteq> []
                then persistAssistantBubble (th_bgConvId t) txt
                       (upd_thread r (\<lambda>t. t\<lparr>th_messages := th_messages t @ [message ''assistant'' txt]\<rparr>) s)
                else s)
      in persistThreads env
           (upd_thread r (\<lambda>t. t\<lparr>th_bgStreamingReply := [], th_isStreaming := False, th_bgSessionId := None,
              th_bgConvId := None, th_updated_at := now_iso env\<rparr>) s1))"

definition is_finished :: "ChatStreamChunk \<Rightarrow> bool" where
  "is_finished chunk = (fc_done chunk \<or> ck_finish_reason chunk = Some ''stop'')"

definition bg_text :: "ChatStreamChunk \<Rightarrow> string" where
  "bg_text chunk =
     (case fc_delta chunk of
        Some d \<Rightarrow> d
      | None \<Rightarrow> (case ck_choice_content chunk of Some d \<Rightarrow> d | None \<Rightarrow> []))"

definition pin_background :: "chat_env \<Rightarrow> string \<Rightarrow> nat \<Rightarrow> chat \<Rightarrow> chat" where
  "pin_background env newId r s =
     (if th_ccSessionId (heap s r) \<noteq> Some newId then
        (let s1 = persistThreads env (upd_thread r (\<lambda>t. t\<lparr>th_ccSessionId := Some newId\<rparr>) s)
         in if present (th_bgConvId (heap s r))
            then emit_chat [PatchConversation (the (th_bgConvId (heap s r))) newId] s1 else s1)
      else s)"

definition ingestBackgroundChunk :: "chat_env \<Rightarrow> ChatStreamChunk \<Rightarrow> nat \<Rightarrow> chat \<Rightarrow> chat" where
  "ingestBackgroundChunk env chunk r s =
     (if fc_type chunk = Some ''cc_status'' then
        (if present (fc_label chunk) then
           upd_thread r (\<lambda>t. t\<lparr>th_ccStatus := the (fc_label chunk),
             th_ccTodoList := addTodoItem (the (fc_label chunk)) (fc_tool chunk) (th_ccTodoList t)\<rparr>) s
         else s)
      else if fc_type chunk = Some ''message_start'' \<and> fc_cc_session_id chunk \<noteq> None then
        pin_background env (the (fc_cc_session_id chunk)) r s
      else if extractErrorChunk chunk \<noteq> None then commit_background env r s
      else
        (let s1 = upd_thread r (\<lambda>t. t\<lparr>th_bgStreamingReply := th_bgStreamingReply t @ bg_text chunk\<rparr>) s
         in if is_finished chunk then commit_background env r s1 else s1))"

section \<open>The active view\<close>

definition error_text :: "err_chunk \<Rightarrow> string" where
  "error_text e =
     (if present (ec_code e) then ''['' @ the (ec_code e) @ ''] '' @ ec_message e else ec_message e)"

definition push_reply :: "chat \<Rightarrow> chat" where
  "push_reply s =
     persistAssistantBubble (currentConversationId (view s)) (streamingReply (view s))
       (on_view (\<lambda>v. v\<lparr>currentMessages := currentMessages v @ [message ''assistant'' (streamingReply v)],
                      streamingReply := []\<rparr>) s)"

definition ingest_error :: "err_chunk \<Rightarrow> chat \<Rightarrow> chat" where
  "ingest_error e s =
     (let s1 = on_view (\<lambda>v. v\<lparr>streamErrorChunk := Some e, v_error := Some (error_text e),
                    isStreaming := False, streamStartedAt := None\<rparr>) s;
          s2 = (if streamingReply (view s1) \<noteq> [] then push_reply s1 else s1)
      in s2\<lparr>sseHandle := False\<rparr>)"

definition ingest_status :: "string \<Rightarrow> string option \<Rightarrow> chat \<Rightarrow> chat" where
  "ingest_status label tool s =
     (let s1 = (if trim (streamingReply (view s)) \<noteq> [] then push_reply s else s)
      in on_view (\<lambda>v. v\<lparr>ccStatus := label, ccTodoList := addTodoItem label tool (ccTodoList v)\<rparr>) s1)"

definition or_string :: "string option \<Rightarrow> string" where
  "or_string v = (case v of Some x \<Rightarrow> x | None \<Rightarrow> [])"

definition ingest_text :: "ChatStreamChunk \<Rightarrow> view \<Rightarrow> view" where
  "ingest_text chunk v =
     v\<lparr>streamingReply := streamingReply v @ or_string (fc_delta chunk) @ or_string (ck_choice_content chunk),
       currentConversationId :=
         (if present (fc_conversation_id chunk) \<and> \<not> present (currentConversationId v)
          then fc_conversation_id chunk else currentConversationId v)\<rparr>"

definition option_or :: "'a option \<Rightarrow> 'a option \<Rightarrow> 'a option" where
  "option_or a b = (if a \<noteq> None then a else b)"

definition owner_thread :: "ChatStreamChunk \<Rightarrow> nat option \<Rightarrow> chat \<Rightarrow> nat option" where
  "owner_thread chunk thread s =
     option_or (if present (fc_conversation_id chunk)
                then find_ref (\<lambda>t. th_conversationId t = fc_conversation_id chunk) s else None)
       (option_or thread (active_ref s))"

definition pin_resume_id :: "chat_env \<Rightarrow> ChatStreamChunk \<Rightarrow> nat option \<Rightarrow> chat \<Rightarrow> chat" where
  "pin_resume_id env chunk thread s =
     (if fc_type chunk = Some ''message_start'' \<and> fc_cc_session_id chunk \<noteq> None then
        (let newId = the (fc_cc_session_id chunk)
         in case owner_thread chunk thread s of
              None \<Rightarrow> s
            | Some r \<Rightarrow>
                if th_ccSessionId (heap s r) \<noteq> Some newId then
                  (let s1 = persistThreads env (upd_thread r (\<lambda>t. t\<lparr>th_ccSessionId := Some newId\<rparr>) s);
                       convId = option_or (th_conversationId (heap s r))
                                  (option_or (fc_conversation_id chunk) (currentConversationId (view s)))
                   in if present convId then emit_chat [PatchConversation (the convId) newId] s1 else s1)
                else s)
      else s)"

definition usage_total :: "token_usage \<Rightarrow> jsnum option \<times> jsnum option \<times> jsnum" where
  "usage_total u =
     (input_tokens u, output_tokens u,
      (case (input_tokens u, output_tokens u) of
         (Some (Fin a), Some (Fin b)) \<Rightarrow> Fin (a + b) | _ \<Rightarrow> NaN))"

definition finish_turn :: "chat_env \<Rightarrow> ChatStreamChunk \<Rightarrow> chat \<Rightarrow> chat" where
  "finish_turn env chunk s =
     (let reply = streamingReply (view s) in
      if trim reply \<noteq> [] then
        (let msg = (message ''assistant'' reply)\<lparr>cm_usage := map_option usage_total (fc_usage chunk)\<rparr>;
             s1 = updateContextUsage
                    ((on_view (\<lambda>v. v\<lparr>currentMessages := currentMessages v @ [msg], streamingReply := [],
                                    isStreaming := False, streamStartedAt := None\<rparr>) s)\<lparr>sseHandle := False\<rparr>);
             s2 = on_view (\<lambda>v. v\<lparr>ccTodoList := map (\<lambda>t. t\<lparr>ti_done := True\<rparr>) (ccTodoList v), ccStatus := []\<rparr>) s1
         in persistAssistantBubble (currentConversationId (view s2)) reply (syncThreadMessages env s2))
      else
        (on_view (\<lambda>v. v\<lparr>isStreaming := False, streamingReply := [], streamStartedAt := None\<rparr>) s)
          \<lparr>sseHandle := False\<rparr>)"

definition ingest_active :: "chat_env \<Rightarrow> ChatStreamChunk \<Rightarrow> nat option \<Rightarrow> chat \<Rightarrow> chat" where
  "ingest_active env chunk thread s =
     (case extractErrorChunk chunk of
        Some e \<Rightarrow> ingest_error e s
      | None \<Rightarrow>
          if fc_type chunk = Some ''cc_status'' \<and> present (fc_label chunk)
          then ingest_status (the (fc_label chunk)) (fc_tool chunk) s
          else
            (let s1 = pin_resume_id env chunk thread (on_view (ingest_text chunk) s)
             in if is_finished chunk then finish_turn env chunk (s1\<lparr>gotCcDone := True\<rparr>) else s1))"

definition ingestChunk :: "chat_env \<Rightarrow> ChatStreamChunk \<Rightarrow> ChunkSource \<Rightarrow> chat \<Rightarrow> chat" where
  "ingestChunk env chunk source s =
     (let target = resolveChunkTarget chunk source s
      in case (tg_isActive target, tg_thread target) of
           (False, Some r) \<Rightarrow> ingestBackgroundChunk env chunk r s
         | _ \<Rightarrow> if tg_orphan target then s else ingest_active env chunk (tg_thread target) s)"

section \<open>The HTTP transport\<close>

definition sendViaHttp :: "chat_env \<Rightarrow> string \<Rightarrow> attachment list option \<Rightarrow> chat \<Rightarrow> chat" where
  "sendViaHttp env content attachmentsToSend s =
     (let withoutWelcome = filter (\<lambda>m. \<not> isWelcomeMessage env m) (currentMessages (view s));
          conv = currentConversationId (view s);
          messagesToSend = (if present conv
                            then [if withoutWelcome = [] then None else Some (last withoutWelcome)]
                            else map Some withoutWelcome)
      in (emit_chat [StreamMessage (selectedModel s) messagesToSend
                       (if present conv then conv else None) attachmentsToSend] s)\<lparr>sseHandle := True\<rparr>)"

definition http_error :: "string \<Rightarrow> chat \<Rightarrow> chat" where
  "http_error msg s =
     (on_view (\<lambda>v. keep_partial_reply (v\<lparr>v_error := Some msg,
         streamErrorChunk := Some \<lparr>ec_code = None, ec_message = msg\<rparr>,
         isStreaming := False, streamStartedAt := None\<rparr>)) s)\<lparr>sseHandle := False\<rparr>"

definition http_headers :: "string option \<Rightarrow> chat \<Rightarrow> chat" where
  "http_headers convId s =
     on_view (\<lambda>v. if present convId \<and> \<not> present (currentConversationId v)
                  then v\<lparr>currentConversationId := convId\<rparr> else v) s"

definition shouldRouteLocalCc :: "chat_env \<Rightarrow> bool" where
  "shouldRouteLocalCc env =
     (has_cc_start env \<and> (lab_mode env \<or> serverUrl env \<noteq> [] \<and> runtime_available env))"

definition retryViaHttpAfterCcCrash :: "chat_env \<Rightarrow> chat \<Rightarrow> chat" where
  "retryViaHttpAfterCcCrash env s =
     (if ccFallbackUsed s then s
      else if \<not> present (lastSentContentSig s) then s
      else
        sendViaHttp env (the (lastSentContentSig s)) (lastSentAttachments s)
          (on_view (\<lambda>v. v\<lparr>streamErrorChunk := None, v_error := None, isStreaming := True,
                          streamingReply := [], streamStartedAt := Some (now_ms env)\<rparr>)
             (emit_chat [ToastWarning] (s\<lparr>ccFallbackUsed := True\<rparr>))))"

section \<open>The exit of a session\<close>

definition exit_message :: "int option \<Rightarrow> string option \<Rightarrow> string" where
  "exit_message ecode err =
     ''cc_session_exit_before_done: code='' @ (case ecode of Some c \<Rightarrow> print_int c | None \<Rightarrow> ''null'')
     @ (if present err then '' error='' @ the err else [])"

definition on_session_exit ::
  "chat_env \<Rightarrow> string \<Rightarrow> int option \<Rightarrow> string option \<Rightarrow> chat \<Rightarrow> chat" where
  "on_session_exit env sid ecode err s =
     (if Some sid \<noteq> ccSession (view s) then
        (case bg_of_session (Some sid) s of Some r \<Rightarrow> commit_background env r s | None \<Rightarrow> s)
      else
        (let exitedBeforeDone = (\<not> gotCcDone s);
             s1 = (if exitedBeforeDone then
                     on_view (\<lambda>v. v\<lparr>streamErrorChunk := Some \<lparr>ec_code = None, ec_message = exit_message ecode err\<rparr>,
                                   v_error := Some (exit_message ecode err)\<rparr>) s
                   else s);
             s2 = (on_view (\<lambda>v. v\<lparr>ccSession := None, isStreaming := False, streamStartedAt := None\<rparr>) s1)
                    \<lparr>gotCcDone := False\<rparr>
         in if exitedBeforeDone \<and> shouldRouteLocalCc env \<and> present (lastSentContentSig s2)
            then retryViaHttpAfterCcCrash env s2 else s2))"

end
