(* ===== verification/ChatTurns.thy ===== *)
theory ChatTurns
  imports ChatStream
begin

text \<open>
  The turns and the asynchronous actions of the chat store
  (\<open>apps/desktop/src/stores/chat.ts\<close>).  An \<open>async\<close> function is cut at its \<open>await\<close>; what
  it holds on to is a \<open>pending\<close> value and its continuation is an operation of its own.
\<close>

section \<open>Pending work\<close>

datatype pending =
    P_select "nat option" string
  | P_delete string nat
  | P_delete_select "nat option" string
  | P_models
  | P_history
  | P_load string
  | P_refresh
  | P_turn_start string "attachment list option"
  | P_turn_send
  | P_local_start string "attachment list option"
  | P_local_send string "attachment list option"

datatype start_result = Start_threw string | Start_result bool "string option" "string option"

section \<open>Sending\<close>

definition view_failed :: "string \<Rightarrow> view \<Rightarrow> view" where
  "view_failed msg v =
     v\<lparr>streamErrorChunk := Some \<lparr>ec_code = None, ec_message = msg\<rparr>, v_error := Some msg,
       isStreaming := False, streamStartedAt := None\<rparr>"

text \<open>The hand-over of a turn from the remote adapter to the local process.\<close>

definition startLocalCcTurn ::
  "chat_env \<Rightarrow> string \<Rightarrow> string \<Rightarrow> attachment list option \<Rightarrow> chat \<Rightarrow> chat \<times> pending option" where
  "startLocalCcTurn env conv content atts s =
     (if \<not> has_cc_start env
      then (on_view (view_failed ''cc_local_not_available: Desktop CC runtime unavailable'') s, None)
      else
        (let ownerThread = option_or (find_ref (\<lambda>t. th_conversationId t = Some conv) s) (active_ref s);
             resume = (case ownerThread of
                         Some r \<Rightarrow> if present (th_ccSessionId (heap s r)) then th_ccSessionId (heap s r) else None
                       | None \<Rightarrow> None)
         in (emit_chat [CcStart conv (selectedModel s) resume] (s\<lparr>gotCcDone := False\<rparr>),
             Some (P_turn_start content atts))))"

definition turn_start_resume ::
  "start_result \<Rightarrow> string \<Rightarrow> attachment list option \<Rightarrow> chat \<Rightarrow> chat \<times> pending option" where
  "turn_start_resume res content atts s =
     (case res of
        Start_threw m \<Rightarrow> (on_view (view_failed (''cc_start_failed: '' @ m)) s, None)
      | Start_result ok sid err \<Rightarrow>
          if \<not> ok \<or> \<not> present sid
          then (on_view (view_failed (''cc_start_failed: '' @ (case err of Some e \<Rightarrow> e | None \<Rightarrow> ''unknown''))) s, None)
          else (emit_chat [CcSendMessage (the sid) content atts] (on_view (\<lambda>v. v\<lparr>ccSession := sid\<rparr>) s),
                Some P_turn_send))"

definition turn_send_resume :: "string option \<Rightarrow> chat \<Rightarrow> chat" where
  "turn_send_resume threw s =
     (case threw of None \<Rightarrow> s | Some m \<Rightarrow> on_view (view_failed (''cc_start_failed: '' @ m)) s)"

text \<open>A message of the HTTP stream: the hand-over, or an ordinary chunk of the active turn.\<close>

definition http_message :: "chat_env \<Rightarrow> ChatStreamChunk \<Rightarrow> chat \<Rightarrow> chat \<times> pending option" where
  "http_message env chunk s =
     (if fc_type chunk = Some ''mode_switch'' \<and> ck_target chunk = Some ''local_cc'' then
        (let s1 = (close_sse s)\<lparr>sseHandle := False\<rparr>;
             s2 = on_view (\<lambda>v. if present (fc_conversation_id chunk) \<and> \<not> present (currentConversationId v)
                               then v\<lparr>currentConversationId := fc_conversation_id chunk\<rparr> else v) s1
         in startLocalCcTurn env (or_string (currentConversationId (view s2))) (lastSentUserContent s2)
              (lastSentAttachments s2) s2)
      else (ingestChunk env chunk no_source s, None))"

text \<open>The local transport; in lab mode its failures are shown, otherwise the turn falls back to HTTP.\<close>

definition local_failed ::
  "chat_env \<Rightarrow> string \<Rightarrow> string \<Rightarrow> attachment list option \<Rightarrow> chat \<Rightarrow> chat \<times> pending option" where
  "local_failed env labMessage content atts s =
     (if lab_mode env then (on_view (view_failed labMessage) s, None)
      else (sendViaHttp env content atts (s\<lparr>ccFallbackUsed := True\<rparr>), None))"

definition sendViaLocalCc ::
  "chat_env \<Rightarrow> string \<Rightarrow> attachment list option \<Rightarrow> chat \<Rightarrow> chat \<times> pending option" where
  "sendViaLocalCc env content atts s0 =
     (if \<not> has_cc_start env then
        if lab_mode env
        then (on_view (view_failed ''lab mode: electronAPI.cc_start unavailable'') s0, None)
        else (sendViaHttp env content atts s0, None)
      else
        (let s = s0\<lparr>gotCcDone := False\<rparr>
         in case active_ref s of
              None \<Rightarrow> local_failed env ''lab mode: no active thread for cc_start'' content atts s
            | Some r \<Rightarrow>
                (case ensureConvId env r s of
                   (convId, s1) \<Rightarrow>
                     (let resumeId = (if present (th_ccSessionId (heap s1 r)) then th_ccSessionId (heap s1 r) else None)
                      in (emit_chat [CcStart convId (selectedModel s1) resumeId]
                            (on_view (\<lambda>v. v\<lparr>currentConversationId := Some convId\<rparr>) s1),
                          Some (P_local_start content atts))))))"

definition local_start_resume ::
  "chat_env \<Rightarrow> start_result \<Rightarrow> string \<Rightarrow> attachment list option \<Rightarrow> chat \<Rightarrow> chat \<times> pending option" where
  "local_start_resume env res content atts s =
     (case res of
        Start_threw m \<Rightarrow> local_failed env (''lab cc dispatch threw: '' @ m) content atts s
      | Start_result ok sid err \<Rightarrow>
          if \<not> ok \<or> \<not> present sid
          then local_failed env (''lab cc_start failed: '' @ (case err of Some e \<Rightarrow> e | None \<Rightarrow> ''unknown'')) content atts s
          else
            (let s1 = on_view (\<lambda>v. v\<lparr>ccSession := sid\<rparr>) s;
                 conv = currentConversationId (view s1);
                 s2 = (if present conv then emit_chat [AppendMessage (the conv) ''user'' content] s1 else s1)
             in (emit_chat [CcSendMessage (the sid) content atts] s2, Some (P_local_send content atts))))"

definition local_send_resume ::
  "chat_env \<Rightarrow> string option \<Rightarrow> string \<Rightarrow> attachment list option \<Rightarrow> chat \<Rightarrow> chat \<times> pending option" where
  "local_send_resume env threw content atts s =
     (case threw of
        None \<Rightarrow> (s, None)
      | Some m \<Rightarrow> local_failed env (''lab cc dispatch threw: '' @ m) content atts s)"

definition title_of :: "string \<Rightarrow> string" where
  "title_of content = take 30 content @ (if 30 < length content then ''...'' else [])"

definition begin_turn :: "chat_env \<Rightarrow> string \<Rightarrow> chat \<Rightarrow> chat" where
  "begin_turn env content s =
     (let s1 = updateContextUsage
                 (on_view (\<lambda>v. resetTodo (v\<lparr>currentMessages := currentMessages v @ [message ''user'' content],
                     streamingReply := [], isStreaming := True, v_error := None, streamErrorChunk := None,
                     streamStartedAt := Some (now_ms env)\<rparr>))
                   (s\<lparr>lastSentUserContent := content, ccFallbackUsed := False,
                      lastSentContentSig := Some content\<rparr>))
      in case active_ref s1 of
           None \<Rightarrow> s1
         | Some r \<Rightarrow>
             upd_thread r (\<lambda>t. t\<lparr>th_title := (if th_title t = defaultThreadTitle env \<and> content \<noteq> []
                                            then title_of content else th_title t),
                                th_updated_at := now_iso env\<rparr>) s1)"

definition sendMessage_store :: "chat_env \<Rightarrow> string \<Rightarrow> chat \<Rightarrow> chat \<times> pending option" where
  "sendMessage_store env content s0 =
     (if isStreaming (view s0) then (s0, None)
      else
        (let s1 = close_sse (begin_turn env content s0);
             attachmentsToSend = (if pendingAttachments s1 \<noteq> [] then Some (pendingAttachments s1) else None);
             s2 = (if attachmentsToSend \<noteq> None then clearAttachments s1 else s1)\<lparr>lastSentAttachments := attachmentsToSend\<rparr>
         in if shouldRouteLocalCc env then sendViaLocalCc env content attachmentsToSend s2
            else (sendViaHttp env content attachmentsToSend s2, None)))"

text \<open>The last user message, taken out; \<open>sendMessage\<close> adds it again.\<close>

fun remove_last_user :: "ChatMessage list \<Rightarrow> (ChatMessage \<times> ChatMessage list) option" where
  "remove_last_user [] = None"
| "remove_last_user (m # ms) =
     (case remove_last_user ms of
        Some (u, ms') \<Rightarrow> Some (u, m # ms')
      | None \<Rightarrow> if cm_role m = ''user'' then Some (m, ms) else None)"

definition regenerateLastResponse :: "chat_env \<Rightarrow> chat \<Rightarrow> chat \<times> pending option" where
  "regenerateLastResponse env s =
     (if isStreaming (view s) then (s, None)
      else
        (let msgs = currentMessages (view s);
             msgs1 = (if msgs \<noteq> [] \<and> cm_role (last msgs) = ''assistant'' then butlast msgs else msgs)
         in case remove_last_user msgs1 of
              None \<Rightarrow> (on_view (\<lambda>v. v\<lparr>currentMessages := msgs1\<rparr>) s, None)
            | Some (u, msgs2) \<Rightarrow>
                sendMessage_store env (cm_content u) (on_view (\<lambda>v. v\<lparr>currentMessages := msgs2\<rparr>) s)))"

section \<open>Switching conversations\<close>

text \<open>The order of strings by code units.\<close>

fun str_less :: "string \<Rightarrow> string \<Rightarrow> bool" where
  "str_less _ [] = False"
| "str_less [] (_ # _) = True"
| "str_less (a # s) (b # t) = (code a < code b \<or> a = b \<and> str_less s t)"

text \<open>What \<open>selectThread\<close> saves of the outgoing conversation.\<close>

definition leave_active :: "chat \<Rightarrow> chat" where
  "leave_active s =
     (let s1 = detachActiveStreamToThread s
      in case active_ref s1 of
           None \<Rightarrow> s1
         | Some r \<Rightarrow>
             parkConversationState (Some r) (upd_thread r (\<lambda>t. t\<lparr>th_messages := currentMessages (view s1)\<rparr>) s1))"

definition show_panel :: "nat option \<Rightarrow> chat \<Rightarrow> chat" where
  "show_panel target s =
     on_view (\<lambda>v. case target of
         None \<Rightarrow> v\<lparr>ccTodoList := [], ccStatus := [], streamStartedAt := None, streamErrorChunk := None\<rparr>
       | Some r \<Rightarrow> v\<lparr>ccTodoList := th_ccTodoList (heap s r), ccStatus := th_ccStatus (heap s r),
                     streamStartedAt := th_streamStartedAt (heap s r),
                     streamErrorChunk := th_streamErrorChunk (heap s r)\<rparr>) s"

definition selectThread :: "chat_env \<Rightarrow> string \<Rightarrow> chat \<Rightarrow> chat \<times> (nat option \<times> string) option" where
  "selectThread env tid s0 =
     (if activeThreadId s0 = tid then (s0, None)
      else
        (let s1 = (leave_active s0)\<lparr>activeThreadId := tid\<rparr>;
             target = active_ref s1;
             s2 = (case target of
                     None \<Rightarrow> s1
                   | Some r \<Rightarrow> (case ensureConvId env r s1 of
                                 (conv, s') \<Rightarrow> on_view (\<lambda>v. v\<lparr>currentConversationId := Some conv\<rparr>) s'))
         in (show_panel target s2, Some (target, tid))))"

text \<open>What \<open>selectThread\<close> read from the answer of \<open>getConversation\<close>.\<close>

definition cloud_messages :: "cloud_conversation option \<Rightarrow> ChatMessage list option" where
  "cloud_messages fetched =
     (case fetched of Some c \<Rightarrow> if cv_messages c \<noteq> [] then Some (cv_messages c) else None | None \<Rightarrow> None)"

definition cloud_updated_at :: "cloud_conversation option \<Rightarrow> string option" where
  "cloud_updated_at fetched =
     (case fetched of
        Some c \<Rightarrow> if cv_messages c \<noteq> [] \<and> present (cv_updated_at c) then cv_updated_at c else None
      | None \<Rightarrow> None)"

definition cloud_session :: "cloud_conversation option \<Rightarrow> string option" where
  "cloud_session fetched =
     (case fetched of Some c \<Rightarrow> if present (cv_cc_session_id c) then cv_cc_session_id c else None | None \<Rightarrow> None)"

text \<open>Last write wins: whether the cloud copy replaces a local one with messages.\<close>

definition use_cloud :: "string option \<Rightarrow> string \<Rightarrow> bool" where
  "use_cloud cloudAt localAt =
     (case cloudAt of
        None \<Rightarrow> False
      | Some ca \<Rightarrow> if localAt \<noteq> [] then str_less localAt ca else True)"

definition take_cloud :: "ChatMessage list \<Rightarrow> string option \<Rightarrow> nat option \<Rightarrow> chat \<Rightarrow> chat" where
  "take_cloud msgs cloudAt target s =
     (let s1 = on_view (\<lambda>v. v\<lparr>currentMessages := msgs\<rparr>) s
      in case target of
           None \<Rightarrow> s1
         | Some r \<Rightarrow> upd_thread r (\<lambda>t. t\<lparr>th_messages := msgs,
                        th_updated_at := (case cloudAt of Some ca \<Rightarrow> ca | None \<Rightarrow> th_updated_at t)\<rparr>) s1)"

definition merge_messages :: "cloud_conversation option \<Rightarrow> nat option \<Rightarrow> chat \<Rightarrow> chat" where
  "merge_messages fetched target s =
     (let local = (case target of None \<Rightarrow> [] | Some r \<Rightarrow> th_messages (heap s r));
          localAt = (case target of None \<Rightarrow> [] | Some r \<Rightarrow> th_updated_at (heap s r))
      in case cloud_messages fetched of
           Some msgs \<Rightarrow>
             if local = [] \<or> use_cloud (cloud_updated_at fetched) localAt
             then take_cloud msgs (cloud_updated_at fetched) target s
             else on_view (\<lambda>v. v\<lparr>currentMessages := local\<rparr>) s
         | None \<Rightarrow> on_view (\<lambda>v. v\<lparr>currentMessages := local\<rparr>) s)"

definition merge_session :: "chat_env \<Rightarrow> cloud_conversation option \<Rightarrow> nat \<Rightarrow> chat \<Rightarrow> chat" where
  "merge_session env fetched r s0 =
     (let s = (if th_model (heap s0 r) \<noteq> [] then s0\<lparr>selectedModel := th_model (heap s0 r)\<rparr> else s0);
          t = heap s r;
          localId = (if present (th_ccSessionId t) then th_ccSessionId t else None)
      in case cloud_session fetched of
           None \<Rightarrow> s
         | Some cid \<Rightarrow>
             (let cloudWins = (localId = None
                    \<or> (case cloud_updated_at fetched of
                         None \<Rightarrow> False
                       | Some ca \<Rightarrow> th_updated_at t = [] \<or> str_less (th_updated_at t) ca))
              in if cloudWins \<and> localId \<noteq> Some cid
                 then persistThreads env (upd_thread r (\<lambda>t. t\<lparr>th_ccSessionId := Some cid\<rparr>) s)
                 else s))"

definition restore_stream :: "nat option \<Rightarrow> chat \<Rightarrow> chat" where
  "restore_stream target s =
     (case target of
        Some r \<Rightarrow>
          if th_isStreaming (heap s r) then
            upd_thread r (\<lambda>t. t\<lparr>th_bgStreamingReply := [], th_bgSessionId := None, th_bgConvId := None\<rparr>)
              (on_view (\<lambda>v. v\<lparr>streamingReply := th_bgStreamingReply (heap s r), isStreaming := True,
                 ccSession := th_bgSessionId (heap s r),
                 currentConversationId := (if present (th_bgConvId (heap s r)) then th_bgConvId (heap s r)
                                           else currentConversationId v)\<rparr>) s)
          else on_view (\<lambda>v. v\<lparr>streamingReply := [], isStreaming := False, ccSession := None\<rparr>) s
      | None \<Rightarrow> on_view (\<lambda>v. v\<lparr>streamingReply := [], isStreaming := False, ccSession := None\<rparr>) s)"

definition selectThread_resume ::
  "chat_env \<Rightarrow> nat option \<Rightarrow> cloud_conversation option \<Rightarrow> chat \<Rightarrow> chat" where
  "selectThread_resume env target fetched s =
     (let s1 = merge_messages fetched target s;
          s2 = (case target of None \<Rightarrow> s1 | Some r \<Rightarrow> merge_session env fetched r s1)
      in on_view (\<lambda>v. v\<lparr>v_error := None\<rparr>) (restore_stream target s2))"

section \<open>Deleting\<close>

definition index_of_thread :: "string \<Rightarrow> chat \<Rightarrow> nat option" where
  "index_of_thread tid s =
     (let i = length (takeWhile (\<lambda>r. th_id (heap s r) \<noteq> tid) (threads s))
      in if i < length (threads s) then Some i else None)"

definition deleteThread :: "string \<Rightarrow> chat \<Rightarrow> pending option" where
  "deleteThread tid s = map_option (P_delete tid) (index_of_thread tid s)"

text \<open>\<open>/404|not\s*found/i\<close>\<close>

fun not_found_message :: "string \<Rightarrow> bool" where
  "not_found_message [] = False"
| "not_found_message (c # r) =
     (starts_with (c # r) ''404''
      \<or> starts_with (to_lower (c # r)) ''not'' \<and> starts_with (dropWhile is_ws (drop 3 (to_lower (c # r)))) ''found''
      \<or> not_found_message r)"

text \<open>After \<open>await deleteConversation\<close>: \<open>failure\<close> is the message of what it threw.\<close>

definition deleteThread_resume ::
  "chat_env \<Rightarrow> string option \<Rightarrow> string \<Rightarrow> nat \<Rightarrow> chat \<Rightarrow> chat \<times> pending option" where
  "deleteThread_resume env failure tid idx s0 =
     (if (case failure of Some m \<Rightarrow> \<not> not_found_message m | None \<Rightarrow> False) then (s0, None)
      else
        (let s = s0\<lparr>threads := take idx (threads s0) @ drop (Suc idx) (threads s0)\<rparr>
         in if activeThreadId s = tid then
              (case threads s of
                 [] \<Rightarrow> (persistThreads env (createThread env s), None)
               | r # _ \<Rightarrow>
                   (case selectThread env (th_id (heap s r)) s of
                      (s', None) \<Rightarrow> (persistThreads env s', None)
                    | (s', Some (target, i)) \<Rightarrow> (s', Some (P_delete_select target i))))
            else (persistThreads env s, None)))"

section \<open>Remote history\<close>

definition fetchModels_resume :: "(string + string list) \<Rightarrow> chat \<Rightarrow> chat" where
  "fetchModels_resume res s =
     (case res of
        Inl m \<Rightarrow> on_view (\<lambda>v. v\<lparr>v_error := Some m\<rparr>) s
      | Inr ms \<Rightarrow> s\<lparr>models := ms, selectedModel := (if selectedModel s = [] \<and> ms \<noteq> [] then hd ms else selectedModel s)\<rparr>)"

definition history_conv_id :: "Conversation \<Rightarrow> string" where
  "history_conv_id c = (if present (cn_id c) then the (cn_id c) else cn_conversation_id c)"

definition history_updated_at :: "chat_env \<Rightarrow> Conversation \<Rightarrow> string" where
  "history_updated_at env c =
     (if present (cn_updated_at c) then the (cn_updated_at c)
      else if cn_created_at c \<noteq> [] then cn_created_at c else now_iso env)"

definition sync_conversation :: "chat_env \<Rightarrow> Conversation \<Rightarrow> chat \<Rightarrow> chat" where
  "sync_conversation env c s =
     (let convId = history_conv_id c; cloudAt = history_updated_at env c
      in case find_ref (\<lambda>t. th_id t = convId) s of
           None \<Rightarrow>
             (let t = (new_thread env convId None (if cn_title c \<noteq> [] then cn_title c else conversationTitle env) [] [])
                        \<lparr>th_created_at := (if cn_created_at c \<noteq> [] then cn_created_at c else now_iso env),
                         th_updated_at := cloudAt\<rparr>
              in s\<lparr>heap := (heap s)(next_ref s := t), next_ref := Suc (next_ref s),
                   threads := threads s @ [next_ref s]\<rparr>)
         | Some r \<Rightarrow>
             if str_less (th_updated_at (heap s r)) cloudAt
             then upd_thread r (\<lambda>t. t\<lparr>th_title := (if cn_title c \<noteq> [] then cn_title c else th_title t),
                                     th_updated_at := cloudAt\<rparr>) s
             else s)"

definition fetchHistory_resume :: "chat_env \<Rightarrow> Conversation list option \<Rightarrow> chat \<Rightarrow> chat" where
  "fetchHistory_resume env fetched s0 =
     (case fetched of
        None \<Rightarrow> s0\<lparr>loading := False\<rparr>
      | Some convs \<Rightarrow>
          (let s = s0\<lparr>conversations := convs\<rparr>
           in if convs = [] then s\<lparr>loading := False\<rparr>
              else
                (let s1 = fold (sync_conversation env) convs s;
                     s2 = s1\<lparr>threads := sort_cmp (\<lambda>a b. localeCompare env (th_updated_at (heap s1 b))
                                                          (th_updated_at (heap s1 a))) (threads s1)\<rparr>
                 in (persistThreads env s2)\<lparr>loading := False\<rparr>)))"

definition loadConversation :: "chat \<Rightarrow> chat" where
  "loadConversation s = on_view (\<lambda>v. v\<lparr>v_error := None\<rparr>) (s\<lparr>loading := True\<rparr>)"

definition loadConversation_resume :: "(string + cloud_conversation) \<Rightarrow> string \<Rightarrow> chat \<Rightarrow> chat" where
  "loadConversation_resume res tid s =
     (case res of
        Inl m \<Rightarrow> on_view (\<lambda>v. v\<lparr>v_error := Some m\<rparr>) (s\<lparr>loading := False\<rparr>)
      | Inr c \<Rightarrow> on_view (\<lambda>v. v\<lparr>currentConversationId := Some tid, currentMessages := cv_messages c\<rparr>)
                   (s\<lparr>loading := False, selectedModel := cv_model c\<rparr>))"

definition refreshCurrentConversation :: "chat \<Rightarrow> pending option" where
  "refreshCurrentConversation s =
     (if \<not> present (currentConversationId (view s)) \<or> isStreaming (view s) then None else Some P_refresh)"

definition refresh_resume :: "chat_env \<Rightarrow> cloud_conversation option \<Rightarrow> chat \<Rightarrow> chat" where
  "refresh_resume env fetched s =
     (case cloud_messages fetched of
        None \<Rightarrow> s
      | Some msgs \<Rightarrow> updateContextUsage (syncThreadMessages env (on_view (\<lambda>v. v\<lparr>currentMessages := msgs\<rparr>) s)))"

section \<open>Interleavings\<close>

record chat_world =
  store :: chat
  pends :: "pending list"

definition settle :: "pending option \<Rightarrow> pending list \<Rightarrow> pending list" where
  "settle p ps = ps @ (case p of None \<Rightarrow> [] | Some x \<Rightarrow> [x])"

text \<open>One step: an action of the user, an event of a stream, or an answer that was waited for.\<close>

inductive chat_step :: "chat_world \<Rightarrow> chat_world \<Rightarrow> bool" where
  create: "chat_step \<lparr>store = s, pends = ps\<rparr> \<lparr>store = createThread env s, pends = ps\<rparr>"
| select: "selectThread env tid s = (s', q) \<Longrightarrow>
     chat_step \<lparr>store = s, pends = ps\<rparr>
       \<lparr>store = s', pends = settle (map_option (\<lambda>(t, i). P_select t i) q) ps\<rparr>"
| selected: "P_select target tid \<in> set ps \<Longrightarrow>
     chat_step \<lparr>store = s, pends = ps\<rparr>
       \<lparr>store = selectThread_resume env target fetched s, pends = remove1 (P_select target tid) ps\<rparr>"
| delete: "chat_step \<lparr>store = s, pends = ps\<rparr> \<lparr>store = s, pends = settle (deleteThread tid s) ps\<rparr>"
| deleted: "P_delete tid idx \<in> set ps \<Longrightarrow> deleteThread_resume env failure tid idx s = (s', q) \<Longrightarrow>
     chat_step \<lparr>store = s, pends = ps\<rparr> \<lparr>store = s', pends = settle q (remove1 (P_delete tid idx) ps)\<rparr>"
| delete_selected: "P_delete_select target tid \<in> set ps \<Longrightarrow>
     chat_step \<lparr>store = s, pends = ps\<rparr>
       \<lparr>store = persistThreads env (selectThread_resume env target fetched s),
        pends = remove1 (P_delete_select target tid) ps\<rparr>"
| send: "sendMessage_store env content s = (s', q) \<Longrightarrow>
     chat_step \<lparr>store = s, pends = ps\<rparr> \<lparr>store = s', pends = settle q ps\<rparr>"
| regenerate: "regenerateLastResponse env s = (s', q) \<Longrightarrow>
     chat_step \<lparr>store = s, pends = ps\<rparr> \<lparr>store = s', pends = settle q ps\<rparr>"
| local_started: "P_local_start content atts \<in> set ps \<Longrightarrow>
     local_start_resume env res content atts s = (s', q) \<Longrightarrow>
     chat_step \<lparr>store = s, pends = ps\<rparr>
       \<lparr>store = s', pends = settle q (remove1 (P_local_start content atts) ps)\<rparr>"
| local_sent: "P_local_send content atts \<in> set ps \<Longrightarrow>
     local_send_resume env threw content atts s = (s', q) \<Longrightarrow>
     chat_step \<lparr>store = s, pends = ps\<rparr>
       \<lparr>store = s', pends = settle q (remove1 (P_local_send content atts) ps)\<rparr>"
| turn_started: "P_turn_start content atts \<in> set ps \<Longrightarrow>
     turn_start_resume res content atts s = (s', q) \<Longrightarrow>
     chat_step \<lparr>store = s, pends = ps\<rparr>
       \<lparr>store = s', pends = settle q (remove1 (P_turn_start content atts) ps)\<rparr>"
| turn_sent: "P_turn_send \<in> set ps \<Longrightarrow>
     chat_step \<lparr>store = s, pends = ps\<rparr> \<lparr>store = turn_send_resume threw s, pends = remove1 P_turn_send ps\<rparr>"
| stream_event: "chat_step \<lparr>store = s, pends = ps\<rparr>
     \<lparr>store = ingestChunk env chunk \<lparr>src_sessionId = Some sid, src_convId = None\<rparr> s, pends = ps\<rparr>"
| session_exit: "chat_step \<lparr>store = s, pends = ps\<rparr> \<lparr>store = on_session_exit env sid ecode err s, pends = ps\<rparr>"
| http_event: "sseHandle s \<Longrightarrow> http_message env chunk s = (s', q) \<Longrightarrow>
     chat_step \<lparr>store = s, pends = ps\<rparr> \<lparr>store = s', pends = settle q ps\<rparr>"
| http_failed: "sseHandle s \<Longrightarrow> chat_step \<lparr>store = s, pends = ps\<rparr> \<lparr>store = http_error msg s, pends = ps\<rparr>"
| http_header: "sseHandle s \<Longrightarrow> chat_step \<lparr>store = s, pends = ps\<rparr> \<lparr>store = http_headers conv s, pends = ps\<rparr>"
| stop: "chat_step \<lparr>store = s, pends = ps\<rparr> \<lparr>store = stopStreaming env s, pends = ps\<rparr>"
| new_conversation: "chat_step \<lparr>store = s, pends = ps\<rparr> \<lparr>store = newConversation env s, pends = ps\<rparr>"
| user_changed: "chat_step \<lparr>store = s, pends = ps\<rparr> \<lparr>store = onUserChanged env s, pends = ps\<rparr>"
| history: "chat_step \<lparr>store = s, pends = ps\<rparr> \<lparr>store = s\<lparr>loading := True\<rparr>, pends = ps @ [P_history]\<rparr>"
| history_fetched: "P_history \<in> set ps \<Longrightarrow>
     chat_step \<lparr>store = s, pends = ps\<rparr> \<lparr>store = fetchHistory_resume env convs s, pends = remove1 P_history ps\<rparr>"
| load: "chat_step \<lparr>store = s, pends = ps\<rparr> \<lparr>store = loadConversation s, pends = ps @ [P_load tid]\<rparr>"
| loaded: "P_load tid \<in> set ps \<Longrightarrow>
     chat_step \<lparr>store = s, pends = ps\<rparr> \<lparr>store = loadConversation_resume lres tid s, pends = remove1 (P_load tid) ps\<rparr>"
| refresh: "chat_step \<lparr>store = s, pends = ps\<rparr> \<lparr>store = s, pends = settle (refreshCurrentConversation s) ps\<rparr>"
| refreshed: "P_refresh \<in> set ps \<Longrightarrow>
     chat_step \<lparr>store = s, pends = ps\<rparr> \<lparr>store = refresh_resume env fetched s, pends = remove1 P_refresh ps\<rparr>"
| model_list: "chat_step \<lparr>store = s, pends = ps\<rparr> \<lparr>store = s, pends = ps @ [P_models]\<rparr>"
| model_list_fetched: "P_models \<in> set ps \<Longrightarrow>
     chat_step \<lparr>store = s, pends = ps\<rparr> \<lparr>store = fetchModels_resume mres s, pends = remove1 P_models ps\<rparr>"
| panel: "s' \<in> {dismissStreamError s, selectModel m s, attachUpload f s, removeAttachment i s, clearAttachments s} \<Longrightarrow>
     chat_step \<lparr>store = s, pends = ps\<rparr> \<lparr>store = s', pends = ps\<rparr>"

end
