(* ===== verification/ChatProps.thy ===== *)
theory ChatProps
  imports ChatTurns
begin

text \<open>
  Correctness of the chat store: a background stream never touches the view, a turn's
  text is kept whole, the identity of a conversation never changes, what is saved is
  bounded, and the places where an action that continues after an \<open>await\<close> works on
  another conversation than the one it started on.
\<close>

section \<open>Projections\<close>

lemma chat_frame [simp]:
  "view (on_view f s) = f (view s)" "heap (on_view f s) = heap s" "threads (on_view f s) = threads s"
  "activeThreadId (on_view f s) = activeThreadId s" "next_ref (on_view f s) = next_ref s"
  "view (emit_chat es s) = view s" "heap (emit_chat es s) = heap s" "threads (emit_chat es s) = threads s"
  "activeThreadId (emit_chat es s) = activeThreadId s" "next_ref (emit_chat es s) = next_ref s"
  "view (upd_thread r g s) = view s" "heap (upd_thread r g s) = (heap s)(r := g (heap s r))"
  "threads (upd_thread r g s) = threads s" "activeThreadId (upd_thread r g s) = activeThreadId s"
  "next_ref (upd_thread r g s) = next_ref s"
  "view (persistThreads env s) = view s" "heap (persistThreads env s) = heap s"
  "threads (persistThreads env s) = threads s" "activeThreadId (persistThreads env s) = activeThreadId s"
  "next_ref (persistThreads env s) = next_ref s"
  "view (persistAssistantBubble c txt s) = view s" "heap (persistAssistantBubble c txt s) = heap s"
  "threads (persistAssistantBubble c txt s) = threads s"
  "activeThreadId (persistAssistantBubble c txt s) = activeThreadId s"
  "next_ref (persistAssistantBubble c txt s) = next_ref s"
  "view (updateContextUsage s) = view s" "heap (updateContextUsage s) = heap s"
  "threads (updateContextUsage s) = threads s" "activeThreadId (updateContextUsage s) = activeThreadId s"
  "next_ref (updateContextUsage s) = next_ref s"
  by (simp_all add: on_view_def emit_chat_def upd_thread_def persistThreads_def persistAssistantBubble_def
      updateContextUsage_def Let_def)

lemma chat_frame_more [simp]:
  "gotCcDone (on_view f s) = gotCcDone s" "gotCcDone (emit_chat es s) = gotCcDone s"
  "ccFallbackUsed (on_view f s) = ccFallbackUsed s" "ccFallbackUsed (emit_chat es s) = ccFallbackUsed s"
  "lastSentContentSig (on_view f s) = lastSentContentSig s"
  "c_out (on_view f s) = c_out s" "c_out (emit_chat es s) = c_out s @ es"
  "selectedModel (on_view f s) = selectedModel s" "selectedModel (emit_chat es s) = selectedModel s"
  by (simp_all add: on_view_def emit_chat_def)

lemma active_ref_frame [simp]:
  "active_ref (on_view f s) = active_ref s" "active_ref (emit_chat es s) = active_ref s"
  "active_ref (persistThreads env s) = active_ref s" "active_ref (persistAssistantBubble c txt s) = active_ref s"
  "active_ref (updateContextUsage s) = active_ref s" "active_ref (s\<lparr>sseHandle := b\<rparr>) = active_ref s"
  "active_ref (s\<lparr>gotCcDone := b\<rparr>) = active_ref s"
  by (simp_all add: active_ref_def find_ref_def)

lemma find_ref_Some: "find_ref P s = Some r \<Longrightarrow> r \<in> set (threads s) \<and> P (heap s r)"
  by (auto simp: find_ref_def find_Some_iff)

section \<open>Isolation of background conversations\<close>

text \<open>What a background operation on thread \<open>r\<close> may change: that thread, the saved copy, the effects.\<close>

definition only_thread :: "nat \<Rightarrow> chat \<Rightarrow> chat \<Rightarrow> bool" where
  "only_thread r s s' \<longleftrightarrow>
     view s' = view s \<and> threads s' = threads s \<and> activeThreadId s' = activeThreadId s
     \<and> next_ref s' = next_ref s \<and> (\<forall>q. q \<noteq> r \<longrightarrow> heap s' q = heap s q)
     \<and> th_id (heap s' r) = th_id (heap s r) \<and> th_conversationId (heap s' r) = th_conversationId (heap s r)"

lemma commit_background_only: "only_thread r s (commit_background env r s)"
  by (simp add: only_thread_def commit_background_def Let_def)

lemma only_thread_simps [simp]:
  "only_thread r s s" "only_thread r s (pin_background env i r s)"
  "(\<And>t. th_id (f t) = th_id t) \<Longrightarrow> (\<And>t. th_conversationId (f t) = th_conversationId t) \<Longrightarrow>
   only_thread r s (upd_thread r f s)"
  by (simp_all add: only_thread_def pin_background_def Let_def)

lemma only_thread_trans: "only_thread r a b \<Longrightarrow> only_thread r b c \<Longrightarrow> only_thread r a c"
  by (simp add: only_thread_def)

lemma ingestBackground_only: "only_thread r s (ingestBackgroundChunk env chunk r s)"
  by (auto simp: ingestBackgroundChunk_def Let_def commit_background_only
      intro: only_thread_trans [OF _ commit_background_only])

lemma ingest_background_route:
  assumes "sid \<noteq> []" "Some sid \<noteq> ccSession (view s)" "bg_of_session (Some sid) s = Some r"
  shows "ingestChunk env chunk \<lparr>src_sessionId = Some sid, src_convId = None\<rparr> s = ingestBackgroundChunk env chunk r s"
  using assms by (simp add: ingestChunk_def resolveChunkTarget_def present_def to_background_def Let_def)


section \<open>A background turn\<close>

definition empty_chunk :: ChatStreamChunk where
  "empty_chunk = \<lparr>fc_type = None, fc_delta = None, fc_conversation_id = None, fc_model = None,
     fc_usage = None, fc_label = None, fc_tool = None, fc_done = False, fc_error = None,
     fc_cc_session_id = None, ck_choice_content = None, ck_finish_reason = None, ck_target = None,
     ck_code = None, ck_message = None\<rparr>"

definition delta_chunk :: "string \<Rightarrow> ChatStreamChunk" where
  "delta_chunk d = empty_chunk\<lparr>fc_delta := Some d\<rparr>"

definition done_chunk :: ChatStreamChunk where
  "done_chunk = empty_chunk\<lparr>fc_done := True\<rparr>"

definition from_session :: "string \<Rightarrow> ChunkSource" where
  "from_session sid = \<lparr>src_sessionId = Some sid, src_convId = None\<rparr>"

lemma plain_chunk_no_error:
  "match_error_code d = None \<Longrightarrow> extractErrorChunk (delta_chunk d) = None" "extractErrorChunk done_chunk = None"
  by (simp_all add: extractErrorChunk_def delta_chunk_def done_chunk_def empty_chunk_def present_def match_error_code_def)

lemma background_delta:
  assumes "match_error_code d = None"
  shows "ingestBackgroundChunk env (delta_chunk d) r s =
    upd_thread r (\<lambda>t. t\<lparr>th_bgStreamingReply := th_bgStreamingReply t @ d\<rparr>) s"
  using plain_chunk_no_error(1) [OF assms]
  by (simp add: ingestBackgroundChunk_def is_finished_def bg_text_def) (simp add: delta_chunk_def empty_chunk_def)

lemma background_done: "ingestBackgroundChunk env done_chunk r s = commit_background env r s"
proof -
  have "upd_thread r (\<lambda>t. t\<lparr>th_bgStreamingReply := th_bgStreamingReply t @ []\<rparr>) s = s"
    by (simp add: upd_thread_def)
  then show ?thesis
    using plain_chunk_no_error(2)
    by (simp add: ingestBackgroundChunk_def is_finished_def bg_text_def done_chunk_def empty_chunk_def)
qed

lemma find_cong_heap:
  "\<forall>q. P (heap s' q) = P (heap s q) \<Longrightarrow> threads s' = threads s \<Longrightarrow> find_ref P s' = find_ref P s"
  by (simp add: find_ref_def)

lemma background_deltas:
  assumes "sid \<noteq> []" "Some sid \<noteq> ccSession (view s)" "bg_of_session (Some sid) s = Some r"
    "\<forall>d \<in> set ds. match_error_code d = None"
  shows "fold (\<lambda>d. ingestChunk env (delta_chunk d) (from_session sid)) ds s =
    upd_thread r (\<lambda>t. t\<lparr>th_bgStreamingReply := th_bgStreamingReply t @ concat ds\<rparr>) s"
  using assms
proof (induction ds arbitrary: s)
  case Nil
  then show ?case by (simp add: upd_thread_def)
next
  case (Cons d ds)
  let ?s1 = "upd_thread r (\<lambda>t. t\<lparr>th_bgStreamingReply := th_bgStreamingReply t @ d\<rparr>) s"
  have "ingestChunk env (delta_chunk d) (from_session sid) s = ?s1"
    using Cons.prems by (simp add: from_session_def ingest_background_route background_delta)
  moreover have "bg_of_session (Some sid) ?s1 = Some r"
    using Cons.prems(3) find_cong_heap [of _ ?s1 s] by (simp add: bg_of_session_def)
  ultimately show ?case
    using Cons by (simp add: upd_thread_def)
qed

text \<open>
  A turn that runs while another conversation is on screen ends up whole in its
  own thread: after any text fragments and the final chunk of its session, the thread
  has the trimmed concatenation as one more assistant message (none when there is no
  text), it is no longer streaming and no session is parked on it, and the view and
  all other threads are as before.
\<close>
theorem background_turn_committed:
  assumes "sid \<noteq> []" and "Some sid \<noteq> ccSession (view s)" and "bg_of_session (Some sid) s = Some r"
    and "\<forall>d \<in> set ds. match_error_code d = None"
    and s': "s' = ingestChunk env done_chunk (from_session sid)
      (fold (\<lambda>d. ingestChunk env (delta_chunk d) (from_session sid)) ds s)"
    and reply: "reply = trim (th_bgStreamingReply (heap s r) @ concat ds)"
  shows "th_messages (heap s' r) =
      th_messages (heap s r) @ (if reply = [] then [] else [message ''assistant'' reply])
    \<and> \<not> th_isStreaming (heap s' r) \<and> th_bgSessionId (heap s' r) = None
    \<and> th_bgStreamingReply (heap s' r) = [] \<and> only_thread r s s'"
proof -
  let ?s1 = "upd_thread r (\<lambda>t. t\<lparr>th_bgStreamingReply := th_bgStreamingReply t @ concat ds\<rparr>) s"
  have "bg_of_session (Some sid) ?s1 = Some r"
    using assms(3) find_cong_heap [of _ ?s1 s] by (simp add: bg_of_session_def)
  then have "s' = commit_background env r ?s1"
    using assms(1,2) unfolding s' background_deltas [OF assms(1-4)]
    by (simp add: from_session_def ingest_background_route background_done)
  then show ?thesis
    using only_thread_trans [OF _ commit_background_only, of r s ?s1 env]
    by (simp add: commit_background_def Let_def reply)
qed

section \<open>The identity of a conversation\<close>

definition keeps_conv :: "chat \<Rightarrow> chat \<Rightarrow> bool" where
  "keeps_conv s s' \<longleftrightarrow> next_ref s \<le> next_ref s'
     \<and> (\<forall>r < next_ref s. present (th_conversationId (heap s r)) \<longrightarrow>
          th_conversationId (heap s' r) = th_conversationId (heap s r))"

lemma keeps_conv_refl [simp]: "keeps_conv s s"
  by (simp add: keeps_conv_def)

lemma keeps_conv_trans: "keeps_conv s t \<Longrightarrow> keeps_conv t u \<Longrightarrow> keeps_conv s u"
  by (simp add: keeps_conv_def)

lemma keeps_conv_same: "heap s' = heap s \<Longrightarrow> next_ref s' = next_ref s \<Longrightarrow> keeps_conv s s'"
  by (simp add: keeps_conv_def)

text \<open>Steps on the right that do not matter.\<close>

lemma keeps_conv_frame [simp]:
  "keeps_conv s (on_view f s') = keeps_conv s s'" "keeps_conv s (emit_chat es s') = keeps_conv s s'"
  "keeps_conv s (persistThreads env s') = keeps_conv s s'"
  "keeps_conv s (persistAssistantBubble c txt s') = keeps_conv s s'"
  "keeps_conv s (updateContextUsage s') = keeps_conv s s'"
  "keeps_conv s (s'\<lparr>sseHandle := b\<rparr>) = keeps_conv s s'" "keeps_conv s (s'\<lparr>gotCcDone := b\<rparr>) = keeps_conv s s'"
  "keeps_conv s (s'\<lparr>loading := b\<rparr>) = keeps_conv s s'" "keeps_conv s (s'\<lparr>selectedModel := m\<rparr>) = keeps_conv s s'"
  "keeps_conv s (s'\<lparr>activeThreadId := i\<rparr>) = keeps_conv s s'" "keeps_conv s (s'\<lparr>threads := ts\<rparr>) = keeps_conv s s'"
  "keeps_conv s (s'\<lparr>ccFallbackUsed := b\<rparr>) = keeps_conv s s'"
  "keeps_conv s (s'\<lparr>lastSentAttachments := a\<rparr>) = keeps_conv s s'"
  "keeps_conv s (s'\<lparr>pendingAttachments := p\<rparr>) = keeps_conv s s'"
  "keeps_conv s (s'\<lparr>conversations := cs\<rparr>) = keeps_conv s s'"
  "keeps_conv s (s'\<lparr>threadCounter := n\<rparr>) = keeps_conv s s'"
  "keeps_conv s (s'\<lparr>models := ms\<rparr>) = keeps_conv s s'"
  by (simp_all add: keeps_conv_def)

lemma keeps_conv_upd [simp]:
  "(\<And>t. th_conversationId (f t) = th_conversationId t) \<Longrightarrow> keeps_conv s (upd_thread r f s') = keeps_conv s s'"
  by (auto simp: keeps_conv_def)

lemma keeps_conv_alloc:
  "keeps_conv s s' \<Longrightarrow> heap s'' = (heap s')(next_ref s' := t) \<Longrightarrow> next_ref s'' = Suc (next_ref s') \<Longrightarrow>
   keeps_conv s s''"
  by (auto simp: keeps_conv_def)

lemma keeps_conv_ensure: "ensureConvId env r s' = (c, s'') \<Longrightarrow> \<forall>s. keeps_conv s s' \<longrightarrow> keeps_conv s s''"
  by (auto simp: ensureConvId_def keeps_conv_def split: if_splits)

lemma keeps_conv_ops [simp]:
  "keeps_conv s (close_sse s') = keeps_conv s s'"
  "keeps_conv s (stop_cc_session env s') = keeps_conv s s'"
  "keeps_conv s (clearAttachments s') = keeps_conv s s'"
  "keeps_conv s (syncThreadMessages env s') = keeps_conv s s'"
  "keeps_conv s (parkConversationState o1 s') = keeps_conv s s'"
  "keeps_conv s (detachActiveStreamToThread s') = keeps_conv s s'"
  "keeps_conv s (sendViaHttp env content atts s') = keeps_conv s s'"
  "keeps_conv s (push_reply s') = keeps_conv s s'"
  "keeps_conv s (commit_background env r s') = keeps_conv s s'"
  "keeps_conv s (pin_background env i r s') = keeps_conv s s'"
  "keeps_conv s (pin_resume_id env chunk th s') = keeps_conv s s'"
  "keeps_conv s (take_cloud msgs ca target s') = keeps_conv s s'"
  by (simp_all add: close_sse_def stop_cc_session_def clearAttachments_def syncThreadMessages_def
      parkConversationState_def detachActiveStreamToThread_def sendViaHttp_def push_reply_def
      commit_background_def pin_background_def pin_resume_id_def take_cloud_def Let_def split: option.split)

lemma keeps_conv_more [simp]:
  "keeps_conv s (stopStreaming env s') = keeps_conv s s'"
  "keeps_conv s (finish_turn env chunk s') = keeps_conv s s'"
  "keeps_conv s (ingest_error e s') = keeps_conv s s'"
  "keeps_conv s (ingest_status l tool s') = keeps_conv s s'"
  "keeps_conv s (retryViaHttpAfterCcCrash env s') = keeps_conv s s'"
  "keeps_conv s (merge_messages fetched target s') = keeps_conv s s'"
  "keeps_conv s (merge_session env fetched r s') = keeps_conv s s'"
  "keeps_conv s (restore_stream target s') = keeps_conv s s'"
  by (simp_all add: stopStreaming_def finish_turn_def ingest_error_def ingest_status_def
      retryViaHttpAfterCcCrash_def merge_messages_def merge_session_def restore_stream_def Let_def
      split: option.split)

lemma keeps_conv_create [simp]: "keeps_conv s (createThread env s)"
proof -
  let ?s1 = "detachActiveStreamToThread s"
  let ?s3 = "syncThreadMessages env (parkConversationState (active_ref ?s1) ?s1)"
  have "keeps_conv s ?s3" by simp
  then show ?thesis
    unfolding createThread_def Let_def keeps_conv_frame by (rule keeps_conv_alloc) simp_all
qed

lemma keeps_conv_load: "keeps_conv s s' \<Longrightarrow> keeps_conv s (load_refs ts s')"
  by (auto simp: keeps_conv_def load_refs_def)

lemma keeps_conv_sync: "keeps_conv s s' \<Longrightarrow> keeps_conv s (sync_conversation env c s')"
  by (auto simp: sync_conversation_def Let_def intro: keeps_conv_alloc split: option.split)

lemma keeps_conv_fold_sync: "keeps_conv s s' \<Longrightarrow> keeps_conv s (fold (sync_conversation env) cs s')"
  by (induction cs arbitrary: s') (simp_all add: keeps_conv_sync)

lemma keeps_conv_leave [simp]:
  "keeps_conv s (leave_active s') = keeps_conv s s'" "keeps_conv s (show_panel target s') = keeps_conv s s'"
  by (simp_all add: leave_active_def show_panel_def Let_def split: option.split)

lemma keeps_conv_select: "selectThread env tid s' = (s'', q) \<Longrightarrow> keeps_conv s s' \<Longrightarrow> keeps_conv s s''"
  by (auto simp: selectThread_def Let_def dest!: keeps_conv_ensure split: if_splits option.splits prod.splits)

lemma keeps_conv_ingest: "keeps_conv s s' \<Longrightarrow> keeps_conv s (ingestChunk env chunk src s')"
  by (auto simp: ingestChunk_def ingestBackgroundChunk_def ingest_active_def Let_def split: option.split bool.split)

lemma keeps_conv_local:
  "local_failed env m content atts s' = (s'', q) \<Longrightarrow> keeps_conv s s' \<Longrightarrow> keeps_conv s s''"
  "sendViaLocalCc env content atts s' = (s'', q) \<Longrightarrow> keeps_conv s s' \<Longrightarrow> keeps_conv s s''"
  by (auto simp: local_failed_def sendViaLocalCc_def Let_def dest!: keeps_conv_ensure
      split: if_splits option.splits prod.splits)

lemma keeps_conv_begin [simp]: "keeps_conv s (begin_turn env content s') = keeps_conv s s'"
  by (simp add: begin_turn_def Let_def split: option.split) (simp add: keeps_conv_def)

lemma keeps_conv_send: "sendMessage_store env content s' = (s'', q) \<Longrightarrow> keeps_conv s s' \<Longrightarrow> keeps_conv s s''"
  by (auto simp: sendMessage_store_def Let_def split: if_splits elim!: keeps_conv_local(2))

lemma keeps_conv_turn:
  "turn_start_resume res content atts s' = (s'', q) \<Longrightarrow> keeps_conv s s' \<Longrightarrow> keeps_conv s s''"
  "startLocalCcTurn env conv content atts s' = (s'', q) \<Longrightarrow> keeps_conv s s' \<Longrightarrow> keeps_conv s s''"
  "local_start_resume env res content atts s' = (s'', q) \<Longrightarrow> keeps_conv s s' \<Longrightarrow> keeps_conv s s''"
  "local_send_resume env threw content atts s' = (s'', q) \<Longrightarrow> keeps_conv s s' \<Longrightarrow> keeps_conv s s''"
  by (auto simp: turn_start_resume_def startLocalCcTurn_def local_start_resume_def local_send_resume_def Let_def
      split: if_splits option.splits start_result.splits elim!: keeps_conv_local(1))

lemma keeps_conv_http: "http_message env chunk s' = (s'', q) \<Longrightarrow> keeps_conv s s' \<Longrightarrow> keeps_conv s s''"
  by (auto simp: http_message_def Let_def keeps_conv_ingest split: if_splits elim!: keeps_conv_turn(2))

lemma keeps_conv_regenerate:
  "regenerateLastResponse env s' = (s'', q) \<Longrightarrow> keeps_conv s s' \<Longrightarrow> keeps_conv s s''"
  by (auto simp: regenerateLastResponse_def Let_def split: if_splits option.splits elim!: keeps_conv_send)

lemma keeps_conv_delete:
  "deleteThread_resume env failure tid idx s' = (s'', q) \<Longrightarrow> keeps_conv s s' \<Longrightarrow> keeps_conv s s''"
  using keeps_conv_trans [OF _ keeps_conv_create]
  by (auto simp: deleteThread_resume_def Let_def split: if_splits option.splits list.splits prod.splits
      dest!: keeps_conv_select [of _ _ _ _ _ s])

lemma keeps_conv_misc [simp]:
  "keeps_conv s (turn_send_resume threw s)" "keeps_conv s (on_session_exit env sid ec err s)"
  "keeps_conv s (http_error msg s)" "keeps_conv s (http_headers conv s)" "keeps_conv s (newConversation env s)"
  "keeps_conv s (fetchHistory_resume env convs s)" "keeps_conv s (loadConversation s)"
  "keeps_conv s (loadConversation_resume lres tid s)" "keeps_conv s (refresh_resume env fetched s)"
  "keeps_conv s (fetchModels_resume mres s)" "keeps_conv s (selectThread_resume env target fetched s)"
  "keeps_conv s (onUserChanged env s)"
  by (auto simp: turn_send_resume_def on_session_exit_def http_error_def http_headers_def newConversation_def
      fetchHistory_resume_def loadConversation_def loadConversation_resume_def refresh_resume_def
      fetchModels_resume_def selectThread_resume_def onUserChanged_def Let_def
      intro!: keeps_conv_fold_sync keeps_conv_load split: option.split sum.split)

lemma keeps_conv_step: "chat_step w w' \<Longrightarrow> keeps_conv (store w) (store w')"
  by (erule chat_step.cases)
     (auto intro: keeps_conv_select keeps_conv_ingest keeps_conv_send keeps_conv_turn keeps_conv_http
        keeps_conv_regenerate keeps_conv_delete
      simp: dismissStreamError_def selectModel_def attachUpload_def removeAttachment_def)

interpretation conv_identity: step_preorder chat_step "\<lambda>w w'. keeps_conv (store w) (store w')"
  by unfold_locales (auto intro: keeps_conv_trans keeps_conv_step)


end
