(* ===== verification/ChatSwitch.thy ===== *)
theory ChatSwitch
  imports ChatProps
begin

text \<open>
  Switching between conversations: what \<open>selectThread\<close> saves and restores, that a stream
  survives the way to another conversation and back, and what happens to a turn that
  ends between the switch and its continuation.
\<close>

section \<open>Finding threads\<close>

lemma find_ref_upd: "(\<And>t. P (f t) = P t) \<Longrightarrow> find_ref P (upd_thread r f s) = find_ref P s"
  by (rule find_cong_heap) auto

lemma find_ref_frame [simp]:
  "find_ref P (on_view f s) = find_ref P s" "find_ref P (persistThreads env s) = find_ref P s"
  "find_ref P (s\<lparr>activeThreadId := i\<rparr>) = find_ref P s" "find_ref P (s\<lparr>selectedModel := m\<rparr>) = find_ref P s"
  by (rule find_cong_heap; simp)+

abbreviation thread_named :: "string \<Rightarrow> chat \<Rightarrow> nat option" where
  "thread_named tid s \<equiv> find_ref (\<lambda>t. th_id t = tid) s"

lemma active_ref_select [simp]: "active_ref (s\<lparr>activeThreadId := i\<rparr>) = thread_named i s"
  by (simp add: active_ref_def)

lemma active_ref_id: "active_ref s = Some r \<Longrightarrow> th_id (heap s r) = activeThreadId s"
  by (auto simp: active_ref_def dest: find_ref_Some)

lemma active_ref_upd: "(\<And>t. th_id (f t) = th_id t) \<Longrightarrow> active_ref (upd_thread r f s) = active_ref s"
  by (simp add: active_ref_def find_ref_upd)

section \<open>Leaving a conversation\<close>

text \<open>The thread object of a conversation the user turns away from.\<close>

definition left_thread :: "view \<Rightarrow> Thread \<Rightarrow> Thread" where
  "left_thread v t =
     (if isStreaming v
      then t\<lparr>th_isStreaming := True, th_bgStreamingReply := streamingReply v,
             th_bgSessionId := (if present (ccSession v) then ccSession v else th_bgSessionId t),
             th_bgConvId := currentConversationId v\<rparr>
      else t)
     \<lparr>th_messages := currentMessages v, th_ccTodoList := ccTodoList v, th_ccStatus := ccStatus v,
      th_streamStartedAt := streamStartedAt v, th_streamErrorChunk := streamErrorChunk v\<rparr>"

lemma left_thread_id [simp]:
  "th_id (left_thread v t) = th_id t" "th_conversationId (left_thread v t) = th_conversationId t"
  by (simp_all add: left_thread_def)

lemma leave_active_upd:
  assumes "active_ref s = Some r"
  shows "leave_active s = upd_thread r (left_thread (view s)) s"
proof -
  have "active_ref (detachActiveStreamToThread s) = Some r"
    using assms by (simp add: detachActiveStreamToThread_def active_ref_upd)
  then show ?thesis
    using assms by (simp add: leave_active_def parkConversationState_def detachActiveStreamToThread_def
        left_thread_def upd_thread_def Let_def)
qed

text \<open>The first half of the switch, up to the request to the remote adapter.\<close>

lemma selectThread_result:
  assumes "active_ref s = Some a" and "thread_named tid s = Some r" and "tid \<noteq> activeThreadId s"
    and "th_conversationId (heap s r) = Some c" and "c \<noteq> []"
  shows "selectThread env tid s =
    (show_panel (Some r) (on_view (\<lambda>v. v\<lparr>currentConversationId := Some c\<rparr>)
       ((upd_thread a (left_thread (view s)) s)\<lparr>activeThreadId := tid\<rparr>)), Some (Some r, tid))"
proof -
  have "r \<noteq> a" using find_ref_Some [OF assms(2)] active_ref_id [OF assms(1)] assms(3) by auto
  with assms show ?thesis
    by (simp add: selectThread_def leave_active_upd Let_def find_ref_upd ensureConvId_def present_def)
qed

section \<open>There and back\<close>

text \<open>A whole switch, with nothing newer in the cloud: the request and its empty answer.\<close>

definition switch_to :: "chat_env \<Rightarrow> string \<Rightarrow> nat \<Rightarrow> chat \<Rightarrow> chat" where
  "switch_to env tid r s = selectThread_resume env (Some r) None (fst (selectThread env tid s))"

lemma resume_nothing:
  "selectThread_resume env (Some r) None s =
   on_view (\<lambda>v. v\<lparr>v_error := None\<rparr>) (restore_stream (Some r)
     ((on_view (\<lambda>v. v\<lparr>currentMessages := th_messages (heap s r)\<rparr>) s)
       \<lparr>selectedModel := (if th_model (heap s r) \<noteq> [] then th_model (heap s r) else selectedModel s)\<rparr>))"
proof -
  have idem: "(on_view f s)\<lparr>selectedModel := selectedModel s\<rparr> = on_view f s" for f
    by (cases s) (simp add: on_view_def)
  show ?thesis
    by (simp add: idem selectThread_resume_def merge_messages_def merge_session_def cloud_messages_def cloud_session_def Let_def)
qed

lemma switch_view:
  assumes "active_ref s = Some a" "thread_named tid s = Some r" "tid \<noteq> activeThreadId s"
    "th_conversationId (heap s r) = Some c" "c \<noteq> []"
  defines "t \<equiv> heap s r"
  shows "view (switch_to env tid r s) =
      \<lparr>currentConversationId = (if th_isStreaming t \<and> present (th_bgConvId t) then th_bgConvId t else Some c),
       currentMessages = th_messages t, streamingReply = (if th_isStreaming t then th_bgStreamingReply t else []),
       isStreaming = th_isStreaming t, v_error = None, ccStatus = th_ccStatus t, ccTodoList = th_ccTodoList t,
       streamStartedAt = th_streamStartedAt t, streamErrorChunk = th_streamErrorChunk t,
       ccSession = (if th_isStreaming t then th_bgSessionId t else None)\<rparr>"
    "heap (switch_to env tid r s) a = left_thread (view s) (heap s a)"
    "active_ref (switch_to env tid r s) = Some r" "activeThreadId (switch_to env tid r s) = tid"
    "thread_named i (switch_to env tid r s) = thread_named i s"
proof -
  have ne: "r \<noteq> a" using find_ref_Some [OF assms(2)] active_ref_id [OF assms(1)] assms(3) by auto
  note unfold = switch_to_def selectThread_result [OF assms(1-5)] resume_nothing show_panel_def restore_stream_def t_def
  show v: "view (switch_to env tid r s) =
      \<lparr>currentConversationId = (if th_isStreaming t \<and> present (th_bgConvId t) then th_bgConvId t else Some c),
       currentMessages = th_messages t, streamingReply = (if th_isStreaming t then th_bgStreamingReply t else []),
       isStreaming = th_isStreaming t, v_error = None, ccStatus = th_ccStatus t, ccTodoList = th_ccTodoList t,
       streamStartedAt = th_streamStartedAt t, streamErrorChunk = th_streamErrorChunk t,
       ccSession = (if th_isStreaming t then th_bgSessionId t else None)\<rparr>"
    using ne by (simp add: unfold)
  show "heap (switch_to env tid r s) a = left_thread (view s) (heap s a)"
    using ne by (simp add: unfold)
  show id: "activeThreadId (switch_to env tid r s) = tid" by (simp add: unfold)
  show named: "thread_named i (switch_to env tid r s) = thread_named i s" for i
    by (simp add: unfold find_ref_upd)
  show "active_ref (switch_to env tid r s) = Some r"
    using assms(2) by (simp add: active_ref_def id named)
qed


section \<open>A turn that ends during the switch\<close>

text \<open>
  A turn that ends between the switch and the answer of the remote adapter is
  written into the wrong conversation: until the continuation runs, the view still holds
  the session, the messages and the partial reply of the old conversation while
  \<open>activeThreadId\<close> names the new one, so the final chunk replaces the messages of the new
  thread by those of the old one and its reply.
\<close>
theorem reply_written_to_other_conversation:
  assumes "active_ref s = Some a" and "thread_named tid s = Some b" and "tid \<noteq> activeThreadId s"
    and "present (th_conversationId (heap s b))"
    and "ccSession (view s) = Some sid" and "sid \<noteq> []" and "trim (streamingReply (view s)) \<noteq> []"
    and s': "s' = ingestChunk env done_chunk (from_session sid) (fst (selectThread env tid s))"
  shows "th_messages (heap s' b) = currentMessages (view s) @ [message ''assistant'' (streamingReply (view s))]"
proof -
  obtain cb where cb: "th_conversationId (heap s b) = Some cb" "cb \<noteq> []"
    using assms(4) by (auto simp: present_def)
  let ?s1 = "fst (selectThread env tid s)"
  note sel = selectThread_result [OF assms(1-3) cb, of env]
  have act: "active_ref ?s1 = Some b"
    using assms(2) by (simp add: sel show_panel_def active_ref_def find_ref_upd)
  have view: "ccSession (view ?s1) = Some sid" "streamingReply (view ?s1) = streamingReply (view s)"
    "currentMessages (view ?s1) = currentMessages (view s)"
    using assms(5) by (simp_all add: sel show_panel_def)
  have route: "s' = ingest_active env done_chunk (Some b) ?s1"
    using assms(6) act view(1)
    by (simp add: s' ingestChunk_def resolveChunkTarget_def from_session_def to_active_def present_def Let_def)
  have plain: "ingest_text done_chunk v = v" "pin_resume_id env done_chunk x y = y" "is_finished done_chunk"
    "fc_type done_chunk = None" "fc_usage done_chunk = None" for v x y
    by (simp_all add: ingest_text_def pin_resume_id_def is_finished_def done_chunk_def empty_chunk_def or_string_def present_def)
  show ?thesis
    using assms(7) act
    by (simp add: route ingest_active_def plain_chunk_no_error(2) plain finish_turn_def syncThreadMessages_def
        Let_def view message_def)
qed

end
