(* ===== verification/ChatStorage.thy ===== *)
theory ChatStorage
  imports ChatProps
begin

text \<open>
  What the chat store saves and reads back, and how it merges the remote history: saved
  data is bounded, a reload gives the saved threads and an unused number for the next
  one, and a conversation of the history that is already open under a local thread id
  becomes a second thread.
\<close>

section \<open>Thread numbers\<close>

lemma thread_number_new: "thread_number (''thread-'' @ print_nat n) = Some n"
proof -
  have "takeWhile is_digit (print_nat n) = print_nat n"
    using print_nat_digits [of n] by (simp add: takeWhile_eq_all_conv list_all_iff)
  moreover have "starts_with (''thread-'' @ print_nat n) ''thread-''" by (rule starts_with_append)
  ultimately show ?thesis using print_nat_ne [of n] by (simp add: digits_val_print_nat del: takeWhile_eq_all_conv)
qed

definition max_number :: "Thread list \<Rightarrow> nat \<Rightarrow> nat" where
  "max_number ts m = fold (\<lambda>t m. case thread_number (th_id t) of Some n \<Rightarrow> max m n | None \<Rightarrow> m) ts m"

lemma max_number_Cons:
  "max_number (u # ts) m = max_number ts (case thread_number (th_id u) of Some n \<Rightarrow> max m n | None \<Rightarrow> m)"
  by (simp add: max_number_def)

lemma max_number_start: "m \<le> max_number ts m"
proof (induction ts arbitrary: m)
  case (Cons u ts)
  have "m \<le> (case thread_number (th_id u) of Some n \<Rightarrow> max m n | None \<Rightarrow> m)" by (simp split: option.split)
  then show ?case unfolding max_number_Cons using Cons by (rule le_trans)
qed (simp add: max_number_def)

lemma max_number_ge: "t \<in> set ts \<Longrightarrow> thread_number (th_id t) = Some n \<Longrightarrow> n \<le> max_number ts m"
proof (induction ts arbitrary: m)
  case (Cons u ts)
  then show ?case
    using max_number_start [of "max m n" ts] by (auto simp: max_number_Cons)
qed simp

lemma migrate_present:
  "\<forall>t \<in> set ts. present (th_conversationId t) \<Longrightarrow> migrate_threads env k ts = ts"
  by (induction env k ts rule: migrate_threads.induct) auto

lemma length_slice_last: "length (slice_from xs (- 100)) \<le> 100"
  by (simp add: slice_from_def slice_index_def)


section \<open>The remote history\<close>

text \<open>
  The history lists a conversation of this device twice: \<open>fetchHistory\<close> matches
  conversations by thread id only, so one whose id is the \<open>conversationId\<close> of an open
  local thread is added as another thread, without that identity, and opening it gives
  it a fresh one.
\<close>
theorem history_adds_duplicate_thread:
  assumes "thread \<in> set (threads s)" and "th_conversationId (heap s thread) = Some c" and "c \<noteq> []"
    and "thread < next_ref s" and "find_ref (\<lambda>t. th_id t = c) s = None"
    and "cn_conversation_id conv = c" and "cn_id conv = None"
    and s': "s' = fetchHistory_resume env (Some [conv]) s"
  shows "set (threads s') = insert (next_ref s) (set (threads s)) \<and> thread \<noteq> next_ref s
    \<and> th_id (heap s' (next_ref s)) = c \<and> th_conversationId (heap s' (next_ref s)) = None
    \<and> th_conversationId (heap s' thread) = Some c"
proof -
  have "find_ref (\<lambda>t. th_id t = c) (s\<lparr>conversations := [conv]\<rparr>) = None"
    using assms(5) by (simp add: find_ref_def)
  then show ?thesis
  using assms
  by (simp add: fetchHistory_resume_def sync_conversation_def history_conv_id_def present_def set_sort_cmp
      new_thread_def Let_def)
qed

end
