(* ===== verification/ChatRuns.thy ===== *)
theory ChatRuns
  imports ChatSwitch ChatStorage
begin

text \<open>
  Runs of the chat store from a fresh start: the concrete states behind the witnesses of
  its properties, and behind the claims about actions that continue after an \<open>await\<close>.
\<close>

section \<open>A sample environment\<close>

text \<open>A desktop build with a usable local runtime; \<open>k\<close> tells the ids of different calls apart.\<close>

definition chat_env0 :: "nat \<Rightarrow> chat_env" where
  "chat_env0 k = \<lparr>welcomeMessage = ''welcome'', defaultThreadTitle = ''New'', conversationTitle = ''Conversation'',
     now_iso = ''2026'', now_ms = 1, uuid = (\<lambda>n. ''conv-'' @ print_nat k @ ''-'' @ print_nat n),
     customer = None, storage_ok = True, has_cc_start = True, has_cc_stop = True, lab_mode = False,
     runtime_available = True, serverUrl = ''http://127.0.0.1:1'', localeCompare = (\<lambda>_ _. 0)\<rparr>"

definition st0 :: chat where "st0 = init_chat (chat_env0 0) (\<lambda>_. None)"

lemma pairI: "snd p = q \<Longrightarrow> p = (fst p, q)"
  by (cases p) simp

definition started :: start_result where "started = Start_result True (Some ''s1'') None"

text \<open>A message is sent on thread 1 and its local session is running.\<close>

definition st1 :: chat where "st1 = fst (sendMessage_store (chat_env0 1) ''hi'' st0)"
definition st2 :: chat where "st2 = fst (local_start_resume (chat_env0 2) started ''hi'' None st1)"

lemma run_st2: "rtranclp chat_step \<lparr>store = st0, pends = []\<rparr> \<lparr>store = st2, pends = [P_local_send ''hi'' None]\<rparr>"
proof -
  have "snd (sendMessage_store (chat_env0 1) ''hi'' st0) = Some (P_local_start ''hi'' None)" by code_simp
  from chat_step.send [OF pairI [OF this], of "[]"]
  have "chat_step \<lparr>store = st0, pends = []\<rparr> \<lparr>store = st1, pends = [P_local_start ''hi'' None]\<rparr>"
    by (simp add: settle_def st1_def)
  moreover have "snd (local_start_resume (chat_env0 2) started ''hi'' None st1) = Some (P_local_send ''hi'' None)"
    by code_simp
  from chat_step.local_started [OF _ pairI [OF this], of "[P_local_start ''hi'' None]"]
  have "chat_step \<lparr>store = st1, pends = [P_local_start ''hi'' None]\<rparr> \<lparr>store = st2, pends = [P_local_send ''hi'' None]\<rparr>"
    by (simp add: settle_def st2_def)
  ultimately show ?thesis by (meson rtranclp.rtrancl_into_rtrancl rtranclp.rtrancl_refl)
qed

text \<open>A second conversation is opened while the first streams on.\<close>

definition st3 :: chat where "st3 = createThread (chat_env0 3) st2"
definition st4 :: chat where "st4 = ingestChunk (chat_env0 4) (delta_chunk ''answer'') (from_session ''s1'') st3"

lemma run_st3: "rtranclp chat_step \<lparr>store = st0, pends = []\<rparr> \<lparr>store = st3, pends = [P_local_send ''hi'' None]\<rparr>"
  unfolding st3_def by (rule rtranclp.rtrancl_into_rtrancl [OF run_st2 chat_step.create])

lemma run_st4: "rtranclp chat_step \<lparr>store = st0, pends = []\<rparr> \<lparr>store = st4, pends = [P_local_send ''hi'' None]\<rparr>"
  unfolding st4_def from_session_def by (rule rtranclp.rtrancl_into_rtrancl [OF run_st3 chat_step.stream_event])

text \<open>Opening a thread, with the answer of the remote adapter missing, as one run.\<close>

definition open_thread :: "nat \<Rightarrow> string \<Rightarrow> nat \<Rightarrow> chat \<Rightarrow> chat" where
  "open_thread k tid r s = selectThread_resume (chat_env0 k) (Some r) None (fst (selectThread (chat_env0 k) tid s))"

lemma run_open:
  assumes "rtranclp chat_step w \<lparr>store = s, pends = ps\<rparr>"
    and "snd (selectThread (chat_env0 k) tid s) = Some (Some r, tid)" and "P_select (Some r) tid \<notin> set ps"
  shows "rtranclp chat_step w \<lparr>store = open_thread k tid r s, pends = ps\<rparr>"
proof -
  have "chat_step \<lparr>store = s, pends = ps\<rparr>
      \<lparr>store = fst (selectThread (chat_env0 k) tid s), pends = ps @ [P_select (Some r) tid]\<rparr>"
    using chat_step.select [OF pairI [OF assms(2)], of ps] by (simp add: settle_def)
  moreover have "chat_step \<lparr>store = fst (selectThread (chat_env0 k) tid s), pends = ps @ [P_select (Some r) tid]\<rparr>
      \<lparr>store = open_thread k tid r s, pends = ps\<rparr>"
    using chat_step.selected [of "Some r" tid "ps @ [P_select (Some r) tid]"] assms(3)
    by (simp add: open_thread_def remove1_append)
  ultimately show ?thesis using assms(1) by (meson rtranclp.rtrancl_into_rtrancl)
qed

text \<open>Back to thread 1, whose turn then finishes on screen; away to thread 2; back again.\<close>

definition st5 :: chat where "st5 = open_thread 5 ''thread-1'' 0 st4"
definition st6 :: chat where "st6 = ingestChunk (chat_env0 6) done_chunk (from_session ''s1'') st5"
definition st7 :: chat where "st7 = open_thread 7 ''thread-2'' 1 st6"
definition st8 :: chat where "st8 = open_thread 8 ''thread-1'' 0 st7"

lemma run_then: "rtranclp chat_step w x \<Longrightarrow> chat_step x y \<Longrightarrow> rtranclp chat_step w y"
  by (rule rtranclp.rtrancl_into_rtrancl)

lemma run_st6: "rtranclp chat_step \<lparr>store = st0, pends = []\<rparr> \<lparr>store = st6, pends = [P_local_send ''hi'' None]\<rparr>"
proof -
  have "snd (selectThread (chat_env0 5) ''thread-1'' st4) = Some (Some 0, ''thread-1'')" by code_simp
  from run_open [OF run_st4 this]
  have "rtranclp chat_step \<lparr>store = st0, pends = []\<rparr> \<lparr>store = st5, pends = [P_local_send ''hi'' None]\<rparr>"
    by (simp add: st5_def)
  then show ?thesis
    unfolding st6_def from_session_def by (rule run_then) (rule chat_step.stream_event)
qed

lemma run_st8: "rtranclp chat_step \<lparr>store = st6, pends = ps\<rparr> \<lparr>store = st8, pends = ps\<rparr>"
  if "P_select (Some 0) ''thread-1'' \<notin> set ps" "P_select (Some 1) ''thread-2'' \<notin> set ps"
proof -
  have "snd (selectThread (chat_env0 7) ''thread-2'' st6) = Some (Some 1, ''thread-2'')" by code_simp
  from run_open [OF rtranclp.rtrancl_refl this]
  have st7: "rtranclp chat_step \<lparr>store = st6, pends = ps\<rparr> \<lparr>store = st7, pends = ps\<rparr>"
    using that by (simp add: st7_def)
  have "snd (selectThread (chat_env0 8) ''thread-1'' st7) = Some (Some 0, ''thread-1'')" by code_simp
  from run_open [OF st7 this] that show ?thesis by (simp add: st8_def)
qed

text \<open>
  A finished conversation can come back as streaming for ever: \<open>selectThread\<close>
  restores a background stream into the view but leaves \<open>isStreaming\<close> set on the thread,
  and the end of the turn in the view does not clear it.  Reopening the thread later
  shows a stream that no session feeds, and \<open>sendMessage\<close> refuses every message.
\<close>
theorem finished_turn_reopens_as_streaming:
  "\<exists>s s' ps ps'. rtranclp chat_step \<lparr>store = st0, pends = []\<rparr> \<lparr>store = s, pends = ps\<rparr>
     \<and> activeThreadId s = ''thread-1'' \<and> \<not> isStreaming (view s)
     \<and> last (currentMessages (view s)) = message ''assistant'' ''answer''
     \<and> rtranclp chat_step \<lparr>store = s, pends = ps\<rparr> \<lparr>store = s', pends = ps'\<rparr>
     \<and> activeThreadId s' = ''thread-1'' \<and> isStreaming (view s') \<and> ccSession (view s') = None
     \<and> (\<forall>env content. sendMessage_store env content s' = (s', None))"
proof -
  have "activeThreadId st6 = ''thread-1'' \<and> \<not> isStreaming (view st6)
     \<and> last (currentMessages (view st6)) = message ''assistant'' ''answer''" by code_simp
  moreover have "activeThreadId st8 = ''thread-1'' \<and> isStreaming (view st8) \<and> ccSession (view st8) = None"
    by code_simp
  moreover have "sendMessage_store env content st8 = (st8, None)" for env content
    using calculation(2) by (simp add: sendMessage_store_def)
  ultimately show ?thesis using run_st6 run_st8 [of "[P_local_send ''hi'' None]"] by auto
qed

section \<open>Deleting while the list changes\<close>

definition dl1 :: chat where "dl1 = createThread (chat_env0 1) st0"
definition dl2 :: chat where "dl2 = createThread (chat_env0 2) dl1"
definition dl3 :: chat where "dl3 = fst (deleteThread_resume (chat_env0 3) None ''thread-1'' 1 dl2)"

text \<open>
  \<open>deleteThread\<close> keeps the position of the thread across \<open>await deleteConversation\<close>
  and removes whatever is at that position afterwards: when a conversation is created
  meanwhile, the conversation the user deleted stays in the list and another one goes.
\<close>
theorem delete_removes_another_thread:
  "\<exists>s ps s' env. rtranclp chat_step \<lparr>store = st0, pends = []\<rparr> \<lparr>store = s, pends = ps\<rparr>
     \<and> P_delete ''thread-1'' 1 \<in> set ps \<and> map (\<lambda>r. th_id (heap s r)) (threads s) = [''thread-3'', ''thread-2'', ''thread-1'']
     \<and> deleteThread_resume env None ''thread-1'' 1 s = (s', None)
     \<and> map (\<lambda>r. th_id (heap s' r)) (threads s') = [''thread-3'', ''thread-1'']"
proof -
  have "rtranclp chat_step \<lparr>store = st0, pends = []\<rparr> \<lparr>store = dl1, pends = []\<rparr>"
    unfolding dl1_def by (rule r_into_rtranclp) (rule chat_step.create)
  moreover have "deleteThread ''thread-1'' dl1 = Some (P_delete ''thread-1'' 1)" by code_simp
  then have "chat_step \<lparr>store = dl1, pends = []\<rparr> \<lparr>store = dl1, pends = [P_delete ''thread-1'' 1]\<rparr>"
    using chat_step.delete [of dl1 "[]" "''thread-1''"] by (simp add: settle_def)
  moreover have "chat_step \<lparr>store = dl1, pends = [P_delete ''thread-1'' 1]\<rparr> \<lparr>store = dl2, pends = [P_delete ''thread-1'' 1]\<rparr>"
    unfolding dl2_def by (rule chat_step.create)
  ultimately have "rtranclp chat_step \<lparr>store = st0, pends = []\<rparr> \<lparr>store = dl2, pends = [P_delete ''thread-1'' 1]\<rparr>"
    by (meson run_then)
  moreover have "map (\<lambda>r. th_id (heap dl2 r)) (threads dl2) = [''thread-3'', ''thread-2'', ''thread-1'']" by code_simp
  moreover have "snd (deleteThread_resume (chat_env0 3) None ''thread-1'' 1 dl2) = None" by code_simp
  moreover have "map (\<lambda>r. th_id (heap dl3 r)) (threads dl3) = [''thread-3'', ''thread-1'']" by code_simp
  ultimately show ?thesis
    using dl3_def by (intro exI [of _ dl2] exI [of _ "[P_delete ''thread-1'' 1]"] exI [of _ dl3] exI [of _ "chat_env0 3"])
      (simp add: prod_eq_iff)
qed

section \<open>Witnesses\<close>

lemma st3_background: "Some ''s1'' \<noteq> ccSession (view st3) \<and> bg_of_session (Some ''s1'') st3 = Some 0"
  by code_simp


theorem background_turn_committed_witness:
  "th_messages (heap (ingestChunk (chat_env0 4) done_chunk (from_session ''s1'')
      (fold (\<lambda>d. ingestChunk (chat_env0 4) (delta_chunk d) (from_session ''s1'')) ['' an'', ''swer''] st3)) 0) =
   th_messages (heap st3 0) @ [message ''assistant'' ''answer'']"
proof -
  have "\<forall>d \<in> set ['' an'', ''swer'']. match_error_code d = None" by code_simp
  from background_turn_committed [OF _ conjunct1 [OF st3_background] conjunct2 [OF st3_background] this refl refl,
      of "chat_env0 4"]
  have "th_messages (heap (ingestChunk (chat_env0 4) done_chunk (from_session ''s1'')
      (fold (\<lambda>d. ingestChunk (chat_env0 4) (delta_chunk d) (from_session ''s1'')) ['' an'', ''swer''] st3)) 0) =
    th_messages (heap st3 0) @ (if trim (th_bgStreamingReply (heap st3 0) @ concat ['' an'', ''swer'']) = [] then []
      else [message ''assistant'' (trim (th_bgStreamingReply (heap st3 0) @ concat ['' an'', ''swer'']))])"
    by blast
  moreover have "trim (th_bgStreamingReply (heap st3 0) @ concat ['' an'', ''swer'']) = ''answer''" by code_simp
  ultimately show ?thesis by simp
qed


section \<open>The crash fallback\<close>

definition fb1 :: chat where "fb1 = on_session_exit (chat_env0 3) ''s1'' (Some 1) None st2"
definition fb2 :: chat where "fb2 = fst (local_send_resume (chat_env0 4) (Some ''closed'') ''hi'' None fb1)"

definition http_turns :: "chat \<Rightarrow> nat" where
  "http_turns s = length (filter (\<lambda>e. case e of StreamMessage _ _ _ _ \<Rightarrow> True | _ \<Rightarrow> False) (c_out s))"

text \<open>
  The fallback of one turn can run twice: the crash handler checks \<open>ccFallbackUsed\<close>,
  but the handler of a failed \<open>cc_send_message\<close> does not, so when the process dies while
  the message is being handed over, the same user message goes out over HTTP two times.
\<close>
theorem one_message_sent_twice_over_http:
  "\<exists>s ps. rtranclp chat_step \<lparr>store = st0, pends = []\<rparr> \<lparr>store = s, pends = ps\<rparr> \<and> http_turns s = 2
     \<and> length (filter (\<lambda>m. cm_role m = ''user'') (currentMessages (view s))) = 1"
proof -
  have "rtranclp chat_step \<lparr>store = st0, pends = []\<rparr> \<lparr>store = fb1, pends = [P_local_send ''hi'' None]\<rparr>"
    unfolding fb1_def by (rule run_then [OF run_st2]) (rule chat_step.session_exit)
  moreover have "snd (local_send_resume (chat_env0 4) (Some ''closed'') ''hi'' None fb1) = None" by code_simp
  from chat_step.local_sent [OF _ pairI [OF this], of "[P_local_send ''hi'' None]"]
  have "chat_step \<lparr>store = fb1, pends = [P_local_send ''hi'' None]\<rparr> \<lparr>store = fb2, pends = []\<rparr>"
    by (simp add: settle_def fb2_def)
  moreover have "http_turns fb2 = 2 \<and> length (filter (\<lambda>m. cm_role m = ''user'') (currentMessages (view fb2))) = 1"
    by code_simp
  ultimately show ?thesis by (meson run_then)
qed

section \<open>Witnesses of switching and saving\<close>

lemma st5_facts:
  "active_ref st5 = Some 0 \<and> find_ref (\<lambda>t. th_id t = ''thread-2'') st5 = Some 1 \<and> ''thread-2'' \<noteq> activeThreadId st5"
  "present (th_conversationId (heap st5 0)) \<and> present (th_conversationId (heap st5 1))"
  "isStreaming (view st5) \<and> ccSession (view st5) = Some ''s1'' \<and> present (currentConversationId (view st5))"
  "currentMessages (view st5) = [message ''assistant'' ''welcome'', message ''user'' ''hi''] \<and> streamingReply (view st5) = ''answer''"
  by code_simp+


theorem reply_written_to_other_conversation_witness:
  "th_messages (heap (ingestChunk (chat_env0 7) done_chunk (from_session ''s1'')
      (fst (selectThread (chat_env0 7) ''thread-2'' st5))) 1) =
   [message ''assistant'' ''welcome'', message ''user'' ''hi'', message ''assistant'' ''answer'']"
proof -
  have "trim (streamingReply (view st5)) \<noteq> []" by code_simp
  with reply_written_to_other_conversation [of st5 0 "''thread-2''" 1 "''s1''", OF _ _ _ _ _ _ _ refl] st5_facts
  show ?thesis by simp
qed


definition remote_copy :: Conversation where
  "remote_copy = \<lparr>cn_id = None, cn_conversation_id = ''conv-0-0'', cn_title = ''hi'', cn_created_at = ''2026'',
     cn_updated_at = None\<rparr>"

theorem history_adds_duplicate_thread_witness:
  "set (threads (fetchHistory_resume (chat_env0 1) (Some [remote_copy]) st0)) = {0, 1}"
proof -
  have "threads st0 = [0]" "next_ref st0 = 1" "th_conversationId (heap st0 0) = Some ''conv-0-0''"
    "find_ref (\<lambda>t. th_id t = ''conv-0-0'') st0 = None" by code_simp+
  with history_adds_duplicate_thread [of 0 st0 "''conv-0-0''" remote_copy, OF _ _ _ _ _ _ _ refl] show ?thesis
    by (auto simp: remote_copy_def)
qed

end
