(* ===== verification/JsonPretty.thy ===== *)
theory JsonPretty
  imports Json
begin

text \<open>
  \<open>JSON.stringify(value, null, 2)\<close>: the indented form the application writes its files
  in, and that \<open>JSON.parse\<close> reads it back; and \<open>String(value)\<close>.
\<close>

section \<open>Printing\<close>

definition nl :: "nat \<Rightarrow> string" where
  "nl n = CHR 0x0A # replicate n (CHR '' '')"

fun pretty :: "nat \<Rightarrow> jsval \<Rightarrow> string"
  and pretty_elements :: "bool \<Rightarrow> nat \<Rightarrow> jsval list \<Rightarrow> string"
  and pretty_members :: "bool \<Rightarrow> nat \<Rightarrow> (string \<times> jsval) list \<Rightarrow> string" where
  "pretty n (Arr vs) = CHR ''['' # pretty_elements True n vs"
| "pretty n (Obj kvs) = CHR ''{'' # pretty_members True n kvs"
| "pretty n v = JSON_stringify v"
| "pretty_elements first n [] = (if first then [] else nl n) @ '']''"
| "pretty_elements first n (v # vs) =
     (if first then [] else '','') @ nl (n + 2) @ pretty (n + 2) v @ pretty_elements False n vs"
| "pretty_members first n [] = (if first then [] else nl n) @ ''}''"
| "pretty_members first n ((k, v) # kvs) =
     (if v = Undefined then pretty_members first n kvs
      else (if first then [] else '','') @ nl (n + 2) @ quote_string k @ '': '' @ pretty (n + 2) v
           @ pretty_members False n kvs)"

definition JSON_stringify_2 :: "jsval \<Rightarrow> string" where
  "JSON_stringify_2 v = pretty 0 v"

text \<open>\<open>String(v)\<close>; a number with a fraction or of more than 21 digits only as some text with a period.\<close>

fun js_String :: "jsval \<Rightarrow> string" and join_values :: "bool \<Rightarrow> jsval list \<Rightarrow> string" where
  "js_String Undefined = ''undefined''"
| "js_String Null = ''null''"
| "js_String (Bool b) = (if b then ''true'' else ''false'')"
| "js_String (Num n) =
     (case n of
        NaN \<Rightarrow> ''NaN'' | PosInfinity \<Rightarrow> ''Infinity'' | NegInfinity \<Rightarrow> ''-Infinity''
      | Fin q \<Rightarrow> (case as_integer n of Some i \<Rightarrow> if \<bar>i\<bar> < 10 ^ 21 then print_int i else ''.'' | None \<Rightarrow> ''.''))"
| "js_String (Str s) = s"
| "js_String (Arr vs) = join_values True vs"
| "js_String (Obj _) = ''[object Object]''"
| "join_values first [] = []"
| "join_values first (v # vs) =
     (if first then [] else '','') @ (if v = Undefined \<or> v = Null then [] else js_String v) @ join_values False vs"

fun join_with :: "string \<Rightarrow> string list \<Rightarrow> string" where
  "join_with sep [] = []"
| "join_with sep [s] = s"
| "join_with sep (s # t # ts) = s @ sep @ join_with sep (t # ts)"

text \<open>\<open>String(v)\<close>; how the runtime prints a finite number is an argument.\<close>

fun js_text :: "(rat \<Rightarrow> string) \<Rightarrow> jsval \<Rightarrow> string" where
  "js_text fmt Undefined = ''undefined''"
| "js_text fmt Null = ''null''"
| "js_text fmt (Bool b) = (if b then ''true'' else ''false'')"
| "js_text fmt (Num NaN) = ''NaN''"
| "js_text fmt (Num PosInfinity) = ''Infinity''"
| "js_text fmt (Num NegInfinity) = ''-Infinity''"
| "js_text fmt (Num (Fin q)) = fmt q"
| "js_text fmt (Str s) = s"
| "js_text fmt (Arr vs) = join_with '','' (map (\<lambda>v. if v = Undefined \<or> v = Null then [] else js_text fmt v) vs)"
| "js_text fmt (Obj kvs) = ''[object Object]''"

text \<open>\<open>Number(v)\<close>\<close>

fun js_number :: "(rat \<Rightarrow> string) \<Rightarrow> jsval \<Rightarrow> jsnum" where
  "js_number fmt (Num n) = n"
| "js_number fmt (Str s) = js_Number s"
| "js_number fmt (Bool b) = Fin (if b then 1 else 0)"
| "js_number fmt Null = Fin 0"
| "js_number fmt (Arr vs) = js_Number (js_text fmt (Arr vs))"
| "js_number fmt _ = NaN"

text \<open>\<open>Buffer.byteLength(s, 'utf8')\<close> of a Latin-1 text.\<close>

definition byteLength :: "string \<Rightarrow> nat" where
  "byteLength s = sum_list (map (\<lambda>c. if code c < 128 then 1 else 2) s)"

lemma byteLength_append [simp]: "byteLength (s @ t) = byteLength s + byteLength t"
  by (simp add: byteLength_def)

section \<open>Reading back\<close>

lemma skip_ws_nl [simp]: "skip_ws (nl n @ s) = skip_ws s"
  by (induction n) (simp_all add: nl_def skip_ws_def is_json_ws_def)

lemma parse_value_ws: "skip_ws s' = skip_ws s \<Longrightarrow> parse_value s' = parse_value s"
  by (simp add: parse_value.simps)

lemma parse_value_space [simp]: "parse_value (CHR '' '' # s) = parse_value s"
  by (rule parse_value_ws) (simp add: skip_ws_def is_json_ws_def)

lemma parse_value_nl [simp]: "parse_value (nl n @ s) = parse_value s"
  by (rule parse_value_ws) simp

lemma skip_ws_nl_punct [simp]:
  "skip_ws (nl n @ CHR '']'' # s) = CHR '']'' # s" "skip_ws (nl n @ CHR ''}'' # s) = CHR ''}'' # s"
  by (simp_all add: skip_ws_nonws is_json_ws_def)

lemma ends_number_pretty [simp]:
  "ends_number (pretty_elements False n vs @ r)" "ends_number (pretty_members False n kvs @ r)"
proof -
  show "ends_number (pretty_elements False n vs @ r)"
    by (cases vs) (auto simp: ends_number_def is_digit_def nl_def)
  show "ends_number (pretty_members False n kvs @ r)"
  proof (induction kvs)
    case (Cons kv kvs)
    then show ?case by (cases kv) (auto simp: ends_number_def is_digit_def nl_def)
  qed (simp add: ends_number_def is_digit_def nl_def)
qed

definition reads_pretty :: "jsval \<Rightarrow> bool" where
  "reads_pretty v \<longleftrightarrow> (\<forall>n r. ends_number r \<longrightarrow> parse_value (pretty n v @ r) = Some (v, r))"

lemma parse_elements_pretty:
  assumes "\<forall>x \<in> set (v # vs). reads_pretty x"
  shows "parse_elements (nl (n + 2) @ pretty (n + 2) v @ pretty_elements False n vs @ r) = Some (v # vs, r)"
  using assms
proof (induction vs arbitrary: v)
  case Nil
  have "parse_value (pretty (n + 2) v @ pretty_elements False n [] @ r) = Some (v, pretty_elements False n [] @ r)"
    using Nil.prems ends_number_pretty(1) [of n "[]" r] unfolding reads_pretty_def by auto
  then show ?case by (subst parse_elements.simps) (simp add: skip_ws_nonws is_json_ws_def)
next
  case (Cons w ws)
  have "parse_value (pretty (n + 2) v @ pretty_elements False n (w # ws) @ r) =
      Some (v, pretty_elements False n (w # ws) @ r)"
    using Cons.prems ends_number_pretty(1) [of n "w # ws" r] unfolding reads_pretty_def by auto
  moreover have "parse_elements (nl (n + 2) @ pretty (n + 2) w @ pretty_elements False n ws @ r) = Some (w # ws, r)"
    using Cons by simp
  ultimately show ?case
    by (subst parse_elements.simps) (simp add: skip_ws_nonws is_json_ws_def)
qed

lemma skip_ws_quote: "skip_ws (nl n @ quote_string k @ s) = quote_string k @ s"
  by (simp add: quote_string_def skip_ws_nonws is_json_ws_def)

lemma parse_members_pretty:
  assumes "\<forall>x \<in> set ((k, v) # kvs). reads_pretty (snd x) \<and> snd x \<noteq> Undefined"
  shows "parse_members (nl (n + 2) @ quote_string k @ '': '' @ pretty (n + 2) v @ pretty_members False n kvs @ r)
       = Some ((k, v) # kvs, r)"
  using assms
proof (induction kvs arbitrary: k v)
  case Nil
  have "parse_value (pretty (n + 2) v @ pretty_members False n [] @ r) = Some (v, pretty_members False n [] @ r)"
    using Nil.prems ends_number_pretty(2) [of n "[]" r] unfolding reads_pretty_def by auto
  then show ?case
    by (subst parse_members.simps)
       (simp add: skip_ws_quote skip_ws_nonws is_json_ws_def quote_string_def parse_string_quoted)
next
  case (Cons kw kws)
  obtain k' w where kw: "kw = (k', w)" by (cases kw)
  have "parse_value (pretty (n + 2) v @ pretty_members False n (kw # kws) @ r) =
      Some (v, pretty_members False n (kw # kws) @ r)"
    using Cons.prems ends_number_pretty(2) [of n "kw # kws" r] unfolding reads_pretty_def by auto
  moreover have "w \<noteq> Undefined" using Cons.prems kw by simp
  moreover have "parse_members (nl (n + 2) @ quote_string k' @ '': '' @ pretty (n + 2) w
      @ pretty_members False n kws @ r) = Some ((k', w) # kws, r)"
    using Cons kw by simp
  ultimately show ?case
    by (subst parse_members.simps)
       (simp add: kw skip_ws_nonws is_json_ws_def quote_string_def parse_string_quoted)
qed

lemma pretty_head:
  assumes "wf_json v"
  shows "\<exists>c t. pretty n v = c # t \<and> \<not> is_json_ws c \<and> c \<noteq> CHR '']''"
  using assms stringify_head [of v] by (cases v) (auto simp: is_json_ws_def)

lemma reads_pretty_atom:
  "(\<And>n. pretty n v = JSON_stringify v) \<Longrightarrow> wf_json v \<Longrightarrow> reads_pretty v"
  using wf_json_reads_back [of v] by (simp add: reads_pretty_def reads_back_def)

lemma wf_json_reads_pretty: "wf_json v \<Longrightarrow> reads_pretty v"
proof (induction v)
  case (Arr vs)
  show ?case
  proof (cases vs)
    case Nil
    then show ?thesis by (simp add: reads_pretty_def parse_value.simps skip_ws_nonws is_json_ws_def)
  next
    case (Cons v ws)
    then have "wf_json v" using Arr.prems by simp
    have "parse_value (pretty n (Arr (v # ws)) @ r) = Some (Arr (v # ws), r)" for n r
    proof -
      let ?s = "nl (n + 2) @ pretty (n + 2) v @ pretty_elements False n ws @ r"
      obtain c t where ct: "pretty (n + 2) v = c # t" "\<not> is_json_ws c" "c \<noteq> CHR '']''"
        using pretty_head [OF \<open>wf_json v\<close>] by blast
      have "parse_elements ?s = Some (v # ws, r)"
        using Arr Cons by (intro parse_elements_pretty) (auto simp: list_all_iff)
      moreover have "skip_ws ?s = c # t @ pretty_elements False n ws @ r"
        by (simp only: skip_ws_nl ct(1) append_Cons skip_ws_nonws [OF ct(2)])
      ultimately have "parse_value (CHR ''['' # ?s) = Some (Arr (v # ws), r)"
        using ct(3) by (subst parse_value.simps) (simp add: skip_ws_nonws is_json_ws_def)
      then show ?thesis by simp
    qed
    then show ?thesis using Cons by (simp add: reads_pretty_def)
  qed
next
  case (Obj kvs)
  show ?case
  proof (cases kvs)
    case Nil
    then show ?thesis by (simp add: reads_pretty_def parse_value.simps skip_ws_nonws is_json_ws_def)
  next
    case (Cons kv ws)
    obtain k v where kv: "kv = (k, v)" by (cases kv)
    have "reads_pretty (snd x) \<and> snd x \<noteq> Undefined" if "x \<in> set ((k, v) # ws)" for x
      using Obj.IH [of x "snd x"] Obj.prems that Cons kv by (cases x) (auto simp: list_all_iff)
    then have "parse_members (nl (n + 2) @ quote_string k @ '': '' @ pretty (n + 2) v @ pretty_members False n ws @ r)
       = Some ((k, v) # ws, r)" for n r
      by (intro parse_members_pretty) blast
    moreover have "v \<noteq> Undefined" "object_of_members kvs = kvs"
      using Obj.prems Cons kv by (auto simp: object_of_distinct_members)
    ultimately show ?thesis
      using Cons kv skip_ws_quote
      by (simp add: reads_pretty_def parse_value.simps skip_ws_nonws is_json_ws_def) (simp add: quote_string_def)
  qed
qed (rule reads_pretty_atom; simp)+

text \<open>The codec law of the indented form.\<close>

lemma JSON_parse_stringify_2: "wf_json v \<Longrightarrow> skip_ws r = [] \<Longrightarrow> ends_number r \<Longrightarrow> JSON_parse (JSON_stringify_2 v @ r) = Some v"
  using wf_json_reads_pretty [of v] by (simp add: JSON_parse_def JSON_stringify_2_def reads_pretty_def)

end
