(* ===== verification/RuntimeManifest.thy ===== *)
theory RuntimeManifest
  imports CcConfig JsonPretty
begin

text \<open>
  The pure part of the runtime updater (\<open>apps/desktop/electron/cc/cc-runtime-updater.ts\<close>):
  validation of versions, hashes, the signed manifest and its envelope, the configured
  key, the URLs it may contact, and the order of versions.

  Cryptography, the URL parser and the network are parameters: the record
  \<open>updater_env\<close> holds the answers the code gets from them.
\<close>

section \<open>The environment\<close>

record public_key =
  asymmetricKeyType :: string
  key_material :: string

record http_response =
  rs_ok :: bool
  rs_status :: nat
  rs_content_length :: "string option"
  rs_body :: "string list option"
  rs_failure :: "jserror option"

record updater_env =
  ue_runtime :: runtime
  ue_env :: process_env
  ue_awpDir :: string
  ue_platform :: string
  ue_arch :: string
  ue_app_version :: "jsval"
  ue_package_version :: "jsval option"
  ue_now :: nat
  ue_uuid :: string
  ue_sha256 :: "string \<Rightarrow> string"
  ue_verify :: "string \<Rightarrow> public_key \<Rightarrow> string \<Rightarrow> bool"
  ue_pem_key :: "string \<Rightarrow> public_key option"
  ue_der_key :: "string \<Rightarrow> public_key option"
  ue_utf8 :: "string \<Rightarrow> string"
  ue_fetch :: "string \<Rightarrow> http_response result"
  ue_rename_fault :: "nat \<Rightarrow> string option"

section \<open>Versions and hashes\<close>

definition MAX_MANIFEST_BYTES :: nat where "MAX_MANIFEST_BYTES = 256 * 1024"
definition MAX_ARTIFACT_BYTES :: nat where "MAX_ARTIFACT_BYTES = 512 * 1024 * 1024"

text \<open>\<open>(?:0|[1-9]\d*)\<close>\<close>

definition numeric_id :: "string \<Rightarrow> bool" where
  "numeric_id w = (w \<noteq> [] \<and> list_all is_digit w \<and> (hd w = CHR ''0'' \<longrightarrow> w = ''0''))"

definition dir_char :: "char \<Rightarrow> bool" where
  "dir_char c = (is_alnum c \<or> c = CHR ''.'' \<or> c = CHR ''-'')"

text \<open>\<open>[0-9A-Za-z](?:[0-9A-Za-z.-]{0,62}[0-9A-Za-z])?\<close>\<close>

definition prerelease_id :: "string \<Rightarrow> bool" where
  "prerelease_id w =
     (w \<noteq> [] \<and> length w \<le> 64 \<and> is_alnum (hd w) \<and> is_alnum (last w) \<and> list_all dir_char w)"

definition version_core :: "string \<Rightarrow> string" where
  "version_core v = takeWhile (\<lambda>c. c \<noteq> CHR ''-'') v"

definition VERSION_RE :: "string \<Rightarrow> bool" where
  "VERSION_RE v =
     (let core = version_core v; rest = drop (length core) v; parts = split_char (CHR ''.'') core
      in length parts = 3 \<and> list_all numeric_id parts \<and> (rest = [] \<or> prerelease_id (tl rest)))"

definition HASH_RE :: "string \<Rightarrow> bool" where
  "HASH_RE h = (length h = 64 \<and> list_all is_hex h)"

text \<open>\<open>/^[0-9A-Za-z.-]{1,80}--[a-f0-9]{12}$/\<close>: the last fourteen characters are fixed.\<close>

definition ARTIFACT_DIR_RE :: "string \<Rightarrow> bool" where
  "ARTIFACT_DIR_RE d =
     (15 \<le> length d \<and> length d \<le> 94
      \<and> list_all dir_char (take (length d - 14) d)
      \<and> take 2 (drop (length d - 14) d) = ''--''
      \<and> list_all is_hex_lower (drop (length d - 12) d))"

text \<open>\<open>/^\.[0-9A-Za-z.-]{1,80}--[a-f0-9]{12}\.partial-[a-f0-9-]{36}$/i\<close>\<close>

definition PARTIAL_DIR_RE :: "string \<Rightarrow> bool" where
  "PARTIAL_DIR_RE d =
     (61 \<le> length d \<and> length d \<le> 140 \<and> hd d = CHR ''.''
      \<and> (let body = tl d; k = length body - 45; name = take k body; suffix = drop k body
         in 15 \<le> length name \<and> list_all dir_char (take (length name - 14) name)
            \<and> take 2 (drop (length name - 14) name) = ''--''
            \<and> list_all is_hex (drop (length name - 12) name)
            \<and> to_lower (take 9 suffix) = ''.partial-''
            \<and> list_all (\<lambda>c. is_hex c \<or> c = CHR ''-'') (drop 9 suffix)))"

definition validateVersion :: "jsval \<Rightarrow> string result" where
  "validateVersion v =
     (case v of
        Str s \<Rightarrow> if length s \<le> 80 \<and> VERSION_RE s then Inr s else Inl (Thrown ''invalid_runtime_version'')
      | _ \<Rightarrow> Inl (Thrown ''invalid_runtime_version''))"

definition validateHash :: "jsval \<Rightarrow> string result" where
  "validateHash v =
     (case v of
        Str s \<Rightarrow> if HASH_RE s then Inr (to_lower s) else Inl (Thrown ''invalid_runtime_sha256'')
      | _ \<Rightarrow> Inl (Thrown ''invalid_runtime_sha256''))"

definition semverCore :: "string \<Rightarrow> nat list" where
  "semverCore v = map (digits_val 0) (split_char (CHR ''.'') (version_core v))"

definition core_at :: "nat list \<Rightarrow> nat \<Rightarrow> nat" where
  "core_at xs i = (if i < length xs then xs ! i else 0)"

definition versionLessThan :: "string \<Rightarrow> string \<Rightarrow> bool" where
  "versionLessThan a b =
     (let l = semverCore a; r = semverCore b
      in if core_at l 0 \<noteq> core_at r 0 then core_at l 0 < core_at r 0
         else if core_at l 1 \<noteq> core_at r 1 then core_at l 1 < core_at r 1
         else core_at l 2 < core_at r 2)"

definition getDesktopVersion :: "updater_env \<Rightarrow> string" where
  "getDesktopVersion ue =
     (case ue_app_version ue of
        Str v \<Rightarrow> if VERSION_RE v then v
                 else (case ue_package_version ue of Some (Str p) \<Rightarrow> if VERSION_RE p then p else ''0.0.0'' | _ \<Rightarrow> ''0.0.0'')
      | _ \<Rightarrow> (case ue_package_version ue of Some (Str p) \<Rightarrow> if VERSION_RE p then p else ''0.0.0'' | _ \<Rightarrow> ''0.0.0''))"

section \<open>Records with exact fields\<close>

definition exactKeys :: "(string \<times> jsval) list \<Rightarrow> string list \<Rightarrow> string list \<Rightarrow> string \<Rightarrow> unit result" where
  "exactKeys value allowed required label =
     (if \<not> list_all (\<lambda>kv. fst kv \<in> set allowed) value then Inl (Thrown (''unexpected_'' @ label @ ''_field''))
      else if \<not> list_all (\<lambda>k. k \<in> fst ` set value) required then Inl (Thrown (''missing_'' @ label @ ''_field''))
      else Inr ())"

definition asRecord :: "jsval \<Rightarrow> string \<Rightarrow> (string \<times> jsval) list result" where
  "asRecord v label = (case v of Obj kvs \<Rightarrow> Inr kvs | _ \<Rightarrow> Inl (Thrown (''invalid_'' @ label)))"

section \<open>Base64\<close>

definition base64_value :: "char \<Rightarrow> nat" where
  "base64_value c =
     (if is_upper c then code c - 65 else if is_lower c then code c - 71
      else if is_digit c then code c + 4 else if c = CHR ''+'' then 62 else 63)"

definition base64_char :: "char \<Rightarrow> bool" where
  "base64_char c = (is_alnum c \<or> c = CHR ''+'' \<or> c = CHR ''/'')"

text \<open>\<open>/^[A-Za-z0-9+/]+={0,2}$/\<close>\<close>

definition base64_text :: "string \<Rightarrow> bool" where
  "base64_text s =
     (let body = takeWhile base64_char s; pad = dropWhile base64_char s
      in body \<noteq> [] \<and> length pad \<le> 2 \<and> list_all (\<lambda>c. c = CHR ''='') pad)"

text \<open>The bytes of the sextets; an incomplete last group gives one byte fewer than characters.\<close>

fun base64_bytes :: "nat list \<Rightarrow> string" where
  "base64_bytes (a # b # c # d # r) =
     char_of (4 * a + b div 16) # char_of ((b mod 16) * 16 + c div 4) # char_of ((c mod 4) * 64 + d) # base64_bytes r"
| "base64_bytes [a, b, c] = [char_of (4 * a + b div 16), char_of ((b mod 16) * 16 + c div 4)]"
| "base64_bytes [a, b] = [char_of (4 * a + b div 16)]"
| "base64_bytes _ = []"

definition base64_decode :: "string \<Rightarrow> string" where
  "base64_decode s = base64_bytes (map base64_value (takeWhile base64_char s))"

definition decodeBase64 :: "string \<Rightarrow> string \<Rightarrow> nat \<Rightarrow> string result" where
  "decodeBase64 value label maxBytes =
     (if value = [] \<or> length value mod 4 \<noteq> 0 \<or> \<not> base64_text value
      then Inl (Thrown (''invalid_'' @ label @ ''_base64''))
      else let decoded = base64_decode value
           in if decoded = [] \<or> maxBytes < length decoded then Inl (Thrown (''invalid_'' @ label @ ''_size''))
              else Inr decoded)"

section \<open>The configuration\<close>

definition parsePinnedPublicKey :: "updater_env \<Rightarrow> public_key result" where
  "parsePinnedPublicKey ue =
     (let raw = env_trim (ue_env ue) ''AWP_AGENT_RUNTIME_PUBLIC_KEY'' in
      if raw = [] then Inl (Thrown ''runtime_public_key_unconfigured'')
      else
        bind_result
          (if str_includes raw ''BEGIN PUBLIC KEY''
           then (case ue_pem_key ue raw of Some k \<Rightarrow> Inr k | None \<Rightarrow> Inl (Thrown ''invalid_runtime_public_key''))
           else bind_result (decodeBase64 raw ''public_key'' (16 * 1024))
                  (\<lambda>der. case ue_der_key ue der of
                     Some k \<Rightarrow> Inr k | None \<Rightarrow> Inl (Thrown ''invalid_runtime_public_key'')))
          (\<lambda>key. if asymmetricKeyType key \<noteq> ''ed25519'' then Inl (Thrown ''runtime_public_key_must_be_ed25519'')
                 else Inr key))"

datatype Channel = Stable | Insiders | Dev

definition resolveChannel :: "process_env \<Rightarrow> Channel" where
  "resolveChannel env =
     (let raw = to_lower (trim (case env ''AWP_AGENT_RUNTIME_CHANNEL'' of Some c \<Rightarrow> c | None \<Rightarrow> ''stable''))
      in if raw = ''insiders'' then Insiders else if raw = ''dev'' then Dev else Stable)"

fun channel_name :: "Channel \<Rightarrow> string" where
  "channel_name Stable = ''stable''"
| "channel_name Insiders = ''insiders''"
| "channel_name Dev = ''dev''"

definition runtimeManifestUrl :: "updater_env \<Rightarrow> url result" where
  "runtimeManifestUrl ue =
     (let raw = env_trim (ue_env ue) ''AWP_AGENT_RUNTIME_MANIFEST_URL'' in
      if raw = [] then Inl (Thrown ''runtime_manifest_unconfigured'')
      else case new_URL (ue_runtime ue) raw of
        None \<Rightarrow> Inl (Thrown ''invalid_runtime_manifest_url'')
      | Some parsed \<Rightarrow>
          if url_protocol parsed \<noteq> ''https:'' then Inl (Thrown ''runtime_manifest_requires_https'')
          else if url_username parsed \<noteq> [] \<or> url_password parsed \<noteq> [] \<or> url_hash parsed \<noteq> []
          then Inl (Thrown ''invalid_runtime_manifest_url'')
          else Inr parsed)"

definition validateManagedRuntimeConfiguration :: "updater_env \<Rightarrow> string result" where
  "validateManagedRuntimeConfiguration ue =
     bind_result (runtimeManifestUrl ue) (\<lambda>manifest.
     bind_result (parsePinnedPublicKey ue) (\<lambda>_.
       Inr (ue_sha256 ue (url_href manifest @ [CHR 0x00] @ channel_name (resolveChannel (ue_env ue)) @ [CHR 0x00]
              @ env_trim (ue_env ue) ''AWP_AGENT_RUNTIME_PUBLIC_KEY''))))"

definition isManagedRuntimeExplicitlyConfigured :: "updater_env \<Rightarrow> bool" where
  "isManagedRuntimeExplicitlyConfigured ue =
     (case validateManagedRuntimeConfiguration ue of Inr _ \<Rightarrow> True | Inl _ \<Rightarrow> False)"

definition configured_origins :: "process_env \<Rightarrow> string list" where
  "configured_origins env =
     filter (\<lambda>o1. o1 \<noteq> [])
       (map trim (split_char (CHR '','')
          (case env ''AWP_AGENT_RUNTIME_ARTIFACT_ORIGINS'' of Some v \<Rightarrow> v | None \<Rightarrow> [])))"

definition validateArtifactUrl :: "updater_env \<Rightarrow> string \<Rightarrow> url \<Rightarrow> url result" where
  "validateArtifactUrl ue raw manifestUrl =
     (case new_URL (ue_runtime ue) raw of
        None \<Rightarrow> Inl (Thrown ''invalid_artifact_url'')
      | Some parsed \<Rightarrow>
          if url_protocol parsed \<noteq> ''https:'' then Inl (Thrown ''runtime_artifact_requires_https'')
          else if url_username parsed \<noteq> [] \<or> url_password parsed \<noteq> [] \<or> url_hash parsed \<noteq> []
          then Inl (Thrown ''invalid_artifact_url'')
          else if url_origin parsed \<noteq> url_origin manifestUrl then
            (let optIn = (ue_env ue ''AWP_AGENT_RUNTIME_CROSS_ORIGIN_OPT_IN'' = Some ''1'');
                 allowed = list_ex (\<lambda>o1. case new_URL (ue_runtime ue) o1 of
                               Some u \<Rightarrow> url_origin u = url_origin parsed | None \<Rightarrow> False)
                             (configured_origins (ue_env ue))
             in if \<not> optIn \<or> \<not> allowed then Inl (Thrown ''runtime_artifact_origin_not_allowed'') else Inr parsed)
          else Inr parsed)"

section \<open>The manifest\<close>

record RuntimeArtifact =
  ra_url :: string
  ra_sha256 :: string
  ra_bytes :: "nat option"

record LatestVersionResponse =
  lv_version :: string
  lv_channel :: Channel
  lv_min_desktop :: "string option"
  lv_artifacts :: "(string \<times> RuntimeArtifact) list"

definition artifact_size :: "jsval \<Rightarrow> nat option result" where
  "artifact_size v =
     (case v of
        Undefined \<Rightarrow> Inr None
      | Num n \<Rightarrow>
          (case as_integer n of
             Some i \<Rightarrow> if is_safe_integer n \<and> 0 < i \<and> i \<le> int MAX_ARTIFACT_BYTES then Inr (Some (nat i))
                       else Inl (Thrown ''invalid_artifact_size'')
           | None \<Rightarrow> Inl (Thrown ''invalid_artifact_size''))
      | _ \<Rightarrow> Inl (Thrown ''invalid_artifact_size''))"

definition parseArtifact :: "jsval \<Rightarrow> RuntimeArtifact result" where
  "parseArtifact value =
     bind_result (asRecord value ''artifact'') (\<lambda>record1.
     bind_result (exactKeys record1 [''kind'', ''url'', ''sha256'', ''bytes''] [''kind'', ''url'', ''sha256''] ''artifact'') (\<lambda>_.
       if field (Obj record1) ''kind'' \<noteq> Str ''executable'' then Inl (Thrown ''unsupported_artifact_kind'')
       else case field (Obj record1) ''url'' of
              Str u \<Rightarrow>
                bind_result (validateHash (field (Obj record1) ''sha256'')) (\<lambda>sha256.
                bind_result (artifact_size (field (Obj record1) ''bytes'')) (\<lambda>bytes.
                  Inr \<lparr>ra_url = u, ra_sha256 = sha256, ra_bytes = bytes\<rparr>))
            | _ \<Rightarrow> Inl (Thrown ''invalid_artifact_url'')))"

definition platform_keys :: "string list" where
  "platform_keys = [''win32-x64'', ''win32-arm64'', ''darwin-x64'', ''darwin-arm64'', ''linux-x64'', ''linux-arm64'']"

fun parse_artifacts :: "(string \<times> jsval) list \<Rightarrow> (string \<times> RuntimeArtifact) list result" where
  "parse_artifacts [] = Inr []"
| "parse_artifacts ((key, value) # r) =
     (if key \<notin> set platform_keys then Inl (Thrown ''invalid_artifact_platform'')
      else bind_result (parseArtifact value) (\<lambda>a.
           bind_result (parse_artifacts r) (\<lambda>as1. Inr ((key, a) # as1))))"

definition min_desktop_of :: "jsval \<Rightarrow> string option result" where
  "min_desktop_of v = (if v = Undefined then Inr None else bind_result (validateVersion v) (\<lambda>s. Inr (Some s)))"

definition parseSignedManifest :: "updater_env \<Rightarrow> string \<Rightarrow> Channel \<Rightarrow> LatestVersionResponse result" where
  "parseSignedManifest ue bytes channel =
     (case JSON_parse (ue_utf8 ue bytes) of
        None \<Rightarrow> Inl (Thrown ''invalid_signed_manifest_json'')
      | Some parsed \<Rightarrow>
          bind_result (asRecord parsed ''signed_manifest'') (\<lambda>record1.
          bind_result (exactKeys record1 [''version'', ''channel'', ''min_desktop_version'', ''artifacts'']
                         [''version'', ''channel'', ''artifacts''] ''signed_manifest'') (\<lambda>_.
          bind_result (validateVersion (field (Obj record1) ''version'')) (\<lambda>version.
            if field (Obj record1) ''channel'' \<noteq> Str (channel_name channel) then Inl (Thrown ''runtime_channel_mismatch'')
            else
              bind_result (min_desktop_of (field (Obj record1) ''min_desktop_version'')) (\<lambda>minDesktop.
              bind_result (asRecord (field (Obj record1) ''artifacts'') ''artifacts'') (\<lambda>recs.
              bind_result (parse_artifacts recs) (\<lambda>artifacts.
                if artifacts = [] then Inl (Thrown ''missing_runtime_artifacts'')
                else Inr \<lparr>lv_version = version, lv_channel = channel, lv_min_desktop = minDesktop,
                          lv_artifacts = artifacts\<rparr>)))))))"

definition platformKey :: "updater_env \<Rightarrow> string" where
  "platformKey ue = ue_platform ue @ ''-'' @ ue_arch ue"

definition artifact_for :: "updater_env \<Rightarrow> LatestVersionResponse \<Rightarrow> RuntimeArtifact option" where
  "artifact_for ue m = map_of (lv_artifacts m) (platformKey ue)"

section \<open>Fetching\<close>

text \<open>
  \<open>Number(header)\<close> for the decimal texts the HTTP parser lets through; other texts count
  as invalid.  A body is the list of its chunks; \<open>rs_failure\<close> is the error with which
  reading it breaks off after them.
\<close>

definition header_number :: "string \<Rightarrow> nat option" where
  "header_number h = (let w = trim h in if w \<noteq> [] \<and> list_all is_digit w then Some (digits_val 0 w) else None)"

fun read_limited :: "nat \<Rightarrow> string \<Rightarrow> jserror option \<Rightarrow> string \<Rightarrow> string list \<Rightarrow> string result" where
  "read_limited maxBytes tooLarge failure acc [] = (case failure of Some e \<Rightarrow> Inl e | None \<Rightarrow> Inr acc)"
| "read_limited maxBytes tooLarge failure acc (c # cs) =
     (if maxBytes < length acc + length c then Inl (Thrown tooLarge)
      else read_limited maxBytes tooLarge failure (acc @ c) cs)"

definition readResponseBytesLimited :: "http_response \<Rightarrow> nat \<Rightarrow> string \<Rightarrow> string \<Rightarrow> string result" where
  "readResponseBytesLimited response maxBytes tooLarge emptyError =
     (if (case rs_content_length response of
            None \<Rightarrow> False
          | Some h \<Rightarrow> h \<noteq> [] \<and> (case header_number h of None \<Rightarrow> True | Some n \<Rightarrow> maxBytes < n \<or> 9007199254740991 < n))
      then Inl (Thrown tooLarge)
      else case rs_body response of
        None \<Rightarrow> Inl (Thrown emptyError)
      | Some chunks \<Rightarrow>
          bind_result (read_limited maxBytes tooLarge (rs_failure response) [] chunks)
            (\<lambda>bytes. if bytes = [] then Inl (Thrown emptyError) else Inr bytes))"

definition status_message :: "string \<Rightarrow> nat \<Rightarrow> string" where
  "status_message what n = what @ print_nat n"

definition fetchLatestVersion :: "updater_env \<Rightarrow> Channel \<Rightarrow> LatestVersionResponse result" where
  "fetchLatestVersion ue channel =
     bind_result (runtimeManifestUrl ue) (\<lambda>manifestUrl.
     bind_result (parsePinnedPublicKey ue) (\<lambda>key.
     bind_result (ue_fetch ue (url_href manifestUrl)) (\<lambda>response.
       if \<not> rs_ok response then Inl (Thrown (status_message ''runtime_manifest_http_'' (rs_status response)))
       else
         bind_result (readResponseBytesLimited response MAX_MANIFEST_BYTES ''runtime_manifest_too_large''
                        ''runtime_manifest_empty'') (\<lambda>bytes.
         case JSON_parse (ue_utf8 ue bytes) of
           None \<Rightarrow> Inl (Thrown ''invalid_runtime_manifest_envelope'')
         | Some envelopeValue \<Rightarrow>
             bind_result (asRecord envelopeValue ''runtime_manifest_envelope'') (\<lambda>envelope.
             bind_result (exactKeys envelope [''signed'', ''signature''] [''signed'', ''signature''] ''envelope'') (\<lambda>_.
             bind_result (decodeBase64 (js_String (field (Obj envelope) ''signed'')) ''signed_manifest'' MAX_MANIFEST_BYTES) (\<lambda>signedBytes.
             bind_result (decodeBase64 (js_String (field (Obj envelope) ''signature'')) ''signature'' 1024) (\<lambda>signature.
               if \<not> ue_verify ue signedBytes key signature then Inl (Thrown ''runtime_manifest_signature_invalid'')
               else
                 bind_result (parseSignedManifest ue signedBytes channel) (\<lambda>manifest.
                 case artifact_for ue manifest of
                   None \<Rightarrow> Inl (Thrown ''runtime_artifact_platform_unavailable'')
                 | Some artifact \<Rightarrow>
                     bind_result (validateArtifactUrl ue (ra_url artifact) manifestUrl) (\<lambda>_. Inr manifest)))))))))) "

end
