(* ===== verification/Fs.thy ===== *)
theory Fs
  imports Prelude
begin

text \<open>
  The part of \<open>node:fs\<close> the sources use, on a tree of files, directories and symbolic
  links.  A path is its list of segments under the root; the tree is an association
  list, so that a directory can be listed.  Links are followed once, and nothing is
  looked up below a link.  Each operation gives the new tree or the system error that
  the tree itself explains; failures from outside (permissions, full disks) are
  arguments of the operations that model them.
\<close>

datatype node = NDir nat | NFile string nat | NLink "string list" nat

type_synonym path = "string list"
type_synonym fs = "(path \<times> node) list"

definition lookup :: "fs \<Rightarrow> path \<Rightarrow> node option" where
  "lookup t p = (if p = [] then Some (NDir 0) else map_of t p)"

fun is_dir :: "node \<Rightarrow> bool" where
  "is_dir (NDir _) = True" | "is_dir _ = False"

fun is_file :: "node \<Rightarrow> bool" where
  "is_file (NFile _ _) = True" | "is_file _ = False"

fun is_link :: "node \<Rightarrow> bool" where
  "is_link (NLink _ _) = True" | "is_link _ = False"

fun mtime :: "node \<Rightarrow> nat" where
  "mtime (NDir m) = m" | "mtime (NFile _ m) = m" | "mtime (NLink _ m) = m"

text \<open>\<open>lstatSync\<close> and \<open>statSync\<close>.\<close>

definition fs_lstat :: "fs \<Rightarrow> path \<Rightarrow> node result" where
  "fs_lstat t p = (case lookup t p of Some n \<Rightarrow> Inr n | None \<Rightarrow> Inl (Sys ''ENOENT''))"

definition fs_stat :: "fs \<Rightarrow> path \<Rightarrow> node result" where
  "fs_stat t p =
     (case lookup t p of
        Some (NLink q _) \<Rightarrow>
          (case lookup t q of
             Some n \<Rightarrow> if is_link n then Inl (Sys ''ELOOP'') else Inr n
           | None \<Rightarrow> Inl (Sys ''ENOENT''))
      | Some n \<Rightarrow> Inr n
      | None \<Rightarrow> Inl (Sys ''ENOENT''))"

definition fs_exists :: "fs \<Rightarrow> path \<Rightarrow> bool" where
  "fs_exists t p = (case fs_stat t p of Inr _ \<Rightarrow> True | Inl _ \<Rightarrow> False)"

definition fs_put :: "path \<Rightarrow> node \<Rightarrow> fs \<Rightarrow> fs" where
  "fs_put p n t = (p, n) # filter (\<lambda>kv. fst kv \<noteq> p) t"

definition below :: "path \<Rightarrow> path \<Rightarrow> bool" where
  "below p q = (take (length p) q = p)"

definition fs_prune :: "path \<Rightarrow> fs \<Rightarrow> fs" where
  "fs_prune p t = filter (\<lambda>kv. \<not> below p (fst kv)) t"

text \<open>\<open>mkdirSync\<close>, plain and with \<open>recursive\<close>.\<close>

definition fs_mkdir :: "nat \<Rightarrow> path \<Rightarrow> fs \<Rightarrow> fs result" where
  "fs_mkdir now p t =
     (if lookup t p \<noteq> None then Inl (Sys ''EEXIST'')
      else case fs_stat t (butlast p) of
        Inr n \<Rightarrow> if is_dir n then Inr (fs_put p (NDir now) t) else Inl (Sys ''ENOTDIR'')
      | Inl e \<Rightarrow> Inl e)"

fun fs_mkdirs_from :: "nat \<Rightarrow> path \<Rightarrow> path \<Rightarrow> fs \<Rightarrow> fs result" where
  "fs_mkdirs_from now done [] t = Inr t"
| "fs_mkdirs_from now done (w # ws) t =
     (let p = done @ [w]
      in case lookup t p of
           None \<Rightarrow> fs_mkdirs_from now p ws (fs_put p (NDir now) t)
         | Some _ \<Rightarrow>
             (case fs_stat t p of
                Inr n \<Rightarrow> if is_dir n then fs_mkdirs_from now p ws t else Inl (Sys ''EEXIST'')
              | Inl e \<Rightarrow> Inl e))"

definition fs_mkdirs :: "nat \<Rightarrow> path \<Rightarrow> fs \<Rightarrow> fs result" where
  "fs_mkdirs now p t = fs_mkdirs_from now [] p t"

text \<open>\<open>readFileSync\<close>, and \<open>writeFileSync\<close> with flag \<open>wx\<close>.\<close>

definition fs_read :: "fs \<Rightarrow> path \<Rightarrow> string result" where
  "fs_read t p =
     (case fs_stat t p of
        Inr (NFile c _) \<Rightarrow> Inr c
      | Inr _ \<Rightarrow> Inl (Sys ''EISDIR'')
      | Inl e \<Rightarrow> Inl e)"

definition fs_create :: "nat \<Rightarrow> path \<Rightarrow> string \<Rightarrow> fs \<Rightarrow> fs result" where
  "fs_create now p content t =
     (if lookup t p \<noteq> None then Inl (Sys ''EEXIST'')
      else case fs_stat t (butlast p) of
        Inr n \<Rightarrow> if is_dir n then Inr (fs_put p (NFile content now) t) else Inl (Sys ''ENOTDIR'')
      | Inl e \<Rightarrow> Inl e)"

text \<open>\<open>readdirSync\<close>: the names of the entries.\<close>

definition fs_readdir :: "fs \<Rightarrow> path \<Rightarrow> string list result" where
  "fs_readdir t p =
     (case fs_stat t p of
        Inr n \<Rightarrow>
          if is_dir n
          then Inr (remdups (map (last \<circ> fst) (filter (\<lambda>kv. fst kv \<noteq> [] \<and> butlast (fst kv) = p) t)))
          else Inl (Sys ''ENOTDIR'')
      | Inl e \<Rightarrow> Inl e)"

text \<open>\<open>rmSync\<close> with \<open>force\<close>.\<close>

definition fs_rm :: "bool \<Rightarrow> path \<Rightarrow> fs \<Rightarrow> fs result" where
  "fs_rm recursive p t =
     (case lookup t p of
        None \<Rightarrow> Inr t
      | Some n \<Rightarrow> if is_dir n \<and> \<not> recursive then Inl (Sys ''ERR_FS_EISDIR'') else Inr (fs_prune p t))"

text \<open>\<open>renameSync\<close>: a file replaces a file or link, a directory only an empty directory.\<close>

definition fs_move :: "path \<Rightarrow> path \<Rightarrow> fs \<Rightarrow> fs" where
  "fs_move p q t =
     map (\<lambda>(k, n). if below p k then (q @ drop (length p) k, n) else (k, n)) (fs_prune q t)"

definition fs_rename :: "path \<Rightarrow> path \<Rightarrow> fs \<Rightarrow> fs result" where
  "fs_rename p q t =
     (case lookup t p of
        None \<Rightarrow> Inl (Sys ''ENOENT'')
      | Some n \<Rightarrow>
          if p = q then Inr t
          else if below p q then Inl (Sys ''EINVAL'')
          else if (case fs_stat t (butlast q) of Inr d \<Rightarrow> \<not> is_dir d | Inl _ \<Rightarrow> True) then Inl (Sys ''ENOENT'')
          else
            (case lookup t q of
               None \<Rightarrow> Inr (fs_move p q t)
             | Some m \<Rightarrow>
                 if is_dir n then
                   (if \<not> is_dir m then Inl (Sys ''ENOTDIR'')
                    else if list_ex (\<lambda>kv. below q (fst kv) \<and> fst kv \<noteq> q) t then Inl (Sys ''ENOTEMPTY'')
                    else Inr (fs_move p q t))
                 else if is_dir m then Inl (Sys ''EISDIR'')
                 else Inr (fs_move p q t)))"

section \<open>Laws\<close>

lemma below_iff: "below p q \<longleftrightarrow> (\<exists>r. q = p @ r)"
  by (metis append_eq_conv_conj append_take_drop_id below_def)

lemma below_refl [simp]: "below p p"
  by (simp add: below_def)

lemma below_append [simp]: "below p (p @ q)"
  by (simp add: below_def)

lemma map_of_filter_key: "map_of (filter (\<lambda>kv. P (fst kv)) t) p = (if P p then map_of t p else None)"
  by (induction t) auto

lemma map_of_prune: "map_of (fs_prune p t) k = (if below p k then None else map_of t k)"
  using map_of_filter_key [of "\<lambda>k. \<not> below p k" t k] by (simp add: fs_prune_def)

lemma prune_keys: "(k, n) \<in> set (fs_prune p t) \<Longrightarrow> \<not> below p k"
  by (simp add: fs_prune_def)

lemma lookup_put: "p \<noteq> [] \<Longrightarrow> lookup (fs_put p n t) q = (if q = p then Some n else lookup t q)"
  using map_of_filter_key [of "\<lambda>k. k \<noteq> p" t q] by (simp add: lookup_def fs_put_def)

lemma lookup_prune: "p \<noteq> [] \<Longrightarrow> lookup (fs_prune p t) q = (if below p q then None else lookup t q)"
  by (auto simp: lookup_def map_of_prune below_def)

text \<open>Everything below the source appears below the target, what is below neither stays.\<close>

lemma map_of_move_other:
  "\<not> below p k \<Longrightarrow> \<not> below q k \<Longrightarrow>
   map_of (map (\<lambda>(k, n). if below p k then (q @ drop (length p) k, n) else (k, n)) t) k = map_of t k"
  by (induction t) auto

lemma map_of_move_target:
  "(\<And>k n. (k, n) \<in> set t \<Longrightarrow> \<not> below q k) \<Longrightarrow>
   map_of (map (\<lambda>(k, n). if below p k then (q @ drop (length p) k, n) else (k, n)) t) (q @ r) = map_of t (p @ r)"
proof (induction t)
  case (Cons kv t)
  obtain k n where kv: "kv = (k, n)" by fastforce
  have nb: "\<not> below q k" using Cons.prems kv by auto
  have IH: "map_of (map (\<lambda>(k, n). if below p k then (q @ drop (length p) k, n) else (k, n)) t) (q @ r) = map_of t (p @ r)"
    using Cons by auto
  show ?case
  proof (cases "below p k")
    case True
    then obtain u where "k = p @ u" by (auto simp: below_iff)
    with IH show ?thesis by (simp add: kv)
  next
    case False
    then have "k \<noteq> p @ r" by (auto simp: below_iff)
    moreover have "k \<noteq> q @ r" using nb by (auto simp: below_iff)
    ultimately show ?thesis using IH False by (simp add: kv)
  qed
qed simp

lemma lookup_move_target:
  "p \<noteq> [] \<Longrightarrow> q \<noteq> [] \<Longrightarrow> \<not> below q (p @ r) \<Longrightarrow> lookup (fs_move p q t) (q @ r) = lookup t (p @ r)"
  unfolding fs_move_def lookup_def
  by (subst map_of_move_target) (auto simp: map_of_prune dest: prune_keys)

lemma lookup_move_other:
  "p \<noteq> [] \<Longrightarrow> q \<noteq> [] \<Longrightarrow> \<not> below p k \<Longrightarrow> \<not> below q k \<Longrightarrow> lookup (fs_move p q t) k = lookup t k"
  unfolding fs_move_def lookup_def by (simp add: map_of_move_other map_of_prune)

lemma fs_create_Inr:
  "fs_create now p c t = Inr t' \<longleftrightarrow>
   lookup t p = None \<and> (\<exists>n. fs_stat t (butlast p) = Inr n \<and> is_dir n) \<and> t' = fs_put p (NFile c now) t"
  by (auto simp: fs_create_def split: sum.splits if_splits)

lemma lookup_file_stat: "lookup t p = Some (NFile c m) \<Longrightarrow> fs_stat t p = Inr (NFile c m)"
  by (simp add: fs_stat_def)

lemma lookup_file_read: "lookup t p = Some (NFile c m) \<Longrightarrow> fs_read t p = Inr c"
  by (simp add: fs_read_def lookup_file_stat)

end
