(* ===== verification/Io.thy ===== *)
theory Io
  imports Fs
begin

text \<open>
  Computations that read and change a state and may throw: the shape of the sequential
  code that works on files.  A total-correctness triple says what holds after a normal
  return and what holds after a throw.
\<close>

type_synonym ('s, 'a) io = "'s \<Rightarrow> 'a result \<times> 's"

definition io_return :: "'a \<Rightarrow> ('s, 'a) io" where
  "io_return x s = (Inr x, s)"

definition io_throw :: "jserror \<Rightarrow> ('s, 'a) io" where
  "io_throw e s = (Inl e, s)"

definition io_lift :: "'a result \<Rightarrow> ('s, 'a) io" where
  "io_lift r s = (r, s)"

definition io_get :: "('s \<Rightarrow> 'a) \<Rightarrow> ('s, 'a) io" where
  "io_get f s = (Inr (f s), s)"

definition io_update :: "('s \<Rightarrow> 's) \<Rightarrow> ('s, unit) io" where
  "io_update f s = (Inr (), f s)"

definition io_bind :: "('s, 'a) io \<Rightarrow> ('a \<Rightarrow> ('s, 'b) io) \<Rightarrow> ('s, 'b) io" where
  "io_bind m f s = (case m s of (Inl e, s') \<Rightarrow> (Inl e, s') | (Inr x, s') \<Rightarrow> f x s')"

definition io_then :: "('s, 'a) io \<Rightarrow> ('s, 'b) io \<Rightarrow> ('s, 'b) io" where
  "io_then m n = io_bind m (\<lambda>_. n)"

definition io_guard :: "bool \<Rightarrow> string \<Rightarrow> ('s, unit) io" where
  "io_guard b msg = (if b then io_return () else io_throw (Thrown msg))"

text \<open>\<open>try { m } finally { f }\<close>: a throw of the clean-up wins.\<close>

definition io_finally :: "('s, 'a) io \<Rightarrow> ('s, 'b) io \<Rightarrow> ('s, 'a) io" where
  "io_finally m f s =
     (case m s of (r, s') \<Rightarrow> (case f s' of (Inl e, s'') \<Rightarrow> (Inl e, s'') | (Inr _, s'') \<Rightarrow> (r, s'')))"

text \<open>\<open>try { m } catch (e) { h(e) }\<close>\<close>

definition io_catch :: "('s, 'a) io \<Rightarrow> (jserror \<Rightarrow> ('s, 'a) io) \<Rightarrow> ('s, 'a) io" where
  "io_catch m h s = (case m s of (Inl e, s') \<Rightarrow> h e s' | (Inr x, s') \<Rightarrow> (Inr x, s'))"

lemmas io_defs = io_return_def io_throw_def io_lift_def io_get_def io_update_def io_bind_def io_then_def
  io_guard_def io_finally_def io_catch_def

lemma io_bind_lift_Inr [simp]: "io_bind (io_lift (Inr x)) f = f x"
  by (rule ext) (simp add: io_bind_def io_lift_def)

lemma io_bind_assoc: "io_bind (io_bind m f) g = io_bind m (\<lambda>x. io_bind (f x) g)"
  by (rule ext) (simp add: io_bind_def split: prod.split sum.split)

section \<open>Triples\<close>

definition triple :: "('s \<Rightarrow> bool) \<Rightarrow> ('s, 'a) io \<Rightarrow> ('a \<Rightarrow> 's \<Rightarrow> bool) \<Rightarrow> (jserror \<Rightarrow> 's \<Rightarrow> bool) \<Rightarrow> bool" where
  "triple P m Q E \<longleftrightarrow> (\<forall>s. P s \<longrightarrow> (case m s of (Inr x, s') \<Rightarrow> Q x s' | (Inl e, s') \<Rightarrow> E e s'))"

lemma tripleD_return: "triple P m Q E \<Longrightarrow> P s \<Longrightarrow> m s = (Inr x, s') \<Longrightarrow> Q x s'"
  by (auto simp: triple_def)

lemma tripleD_throw: "triple P m Q E \<Longrightarrow> P s \<Longrightarrow> m s = (Inl e, s') \<Longrightarrow> E e s'"
  by (auto simp: triple_def)

lemma triple_weaken:
  "triple P m Q E \<Longrightarrow> (\<And>s. P' s \<Longrightarrow> P s) \<Longrightarrow> (\<And>x s. Q x s \<Longrightarrow> Q' x s) \<Longrightarrow> (\<And>e s. E e s \<Longrightarrow> E' e s) \<Longrightarrow> triple P' m Q' E'"
  by (fastforce simp: triple_def split: prod.splits sum.splits)

lemma triple_bind:
  "triple P m R E \<Longrightarrow> (\<And>x. triple (R x) (f x) Q E) \<Longrightarrow> triple P (io_bind m f) Q E"
  by (fastforce simp: triple_def io_bind_def split: prod.splits sum.splits)

lemma triple_then: "triple P m (\<lambda>_. R) E \<Longrightarrow> triple R n Q E \<Longrightarrow> triple P (io_then m n) Q E"
  unfolding io_then_def by (rule triple_bind)

lemma triple_finally:
  "triple P m Q' E' \<Longrightarrow> (\<And>x. triple (Q' x) f (\<lambda>_. Q x) E) \<Longrightarrow> (\<And>e. triple (E' e) f (\<lambda>_. E e) E) \<Longrightarrow>
   triple P (io_finally m f) Q E"
  by (fastforce simp: triple_def io_finally_def split: prod.splits sum.splits)

lemma triple_catch:
  "triple P m Q E' \<Longrightarrow> (\<And>e. triple (E' e) (h e) Q E) \<Longrightarrow> triple P (io_catch m h) Q E"
  by (fastforce simp: triple_def io_catch_def split: prod.splits sum.splits)

lemma triple_return [simp]: "triple P (io_return x) Q E \<longleftrightarrow> (\<forall>s. P s \<longrightarrow> Q x s)"
  by (simp add: triple_def io_return_def)

lemma triple_throw [simp]: "triple P (io_throw e) Q E \<longleftrightarrow> (\<forall>s. P s \<longrightarrow> E e s)"
  by (simp add: triple_def io_throw_def)

lemma triple_lift [simp]:
  "triple P (io_lift r) Q E \<longleftrightarrow> (\<forall>s. P s \<longrightarrow> (case r of Inr x \<Rightarrow> Q x s | Inl e \<Rightarrow> E e s))"
  by (cases r) (simp_all add: triple_def io_lift_def)

lemma triple_get [simp]: "triple P (io_get f) Q E \<longleftrightarrow> (\<forall>s. P s \<longrightarrow> Q (f s) s)"
  by (simp add: triple_def io_get_def)

lemma triple_update [simp]: "triple P (io_update f) Q E \<longleftrightarrow> (\<forall>s. P s \<longrightarrow> Q () (f s))"
  by (simp add: triple_def io_update_def)

lemma triple_guard [simp]:
  "triple P (io_guard b msg) Q E \<longleftrightarrow> (\<forall>s. P s \<longrightarrow> (if b then Q () s else E (Thrown msg) s))"
  by (simp add: io_guard_def)

lemma triple_if: "(b \<Longrightarrow> triple P m Q E) \<Longrightarrow> (\<not> b \<Longrightarrow> triple P n Q E) \<Longrightarrow> triple P (if b then m else n) Q E"
  by simp

lemma triple_option:
  "(x = None \<Longrightarrow> triple P m Q E) \<Longrightarrow> (\<And>y. x = Some y \<Longrightarrow> triple P (f y) Q E) \<Longrightarrow>
   triple P (case x of None \<Rightarrow> m | Some y \<Rightarrow> f y) Q E"
  by (cases x) simp_all

lemma triple_conj:
  "triple P m Q E \<Longrightarrow> triple P' m Q' E' \<Longrightarrow>
   triple (\<lambda>s. P s \<and> P' s) m (\<lambda>x s. Q x s \<and> Q' x s) (\<lambda>e s. E e s \<and> E' e s)"
  by (fastforce simp: triple_def split: prod.splits sum.splits)

text \<open>A predicate every outcome of a computation keeps.\<close>

abbreviation keeps :: "('s \<Rightarrow> bool) \<Rightarrow> ('s, 'a) io \<Rightarrow> bool" where
  "keeps P m \<equiv> triple P m (\<lambda>_. P) (\<lambda>_. P)"

lemma keepsD: "keeps P m \<Longrightarrow> P s \<Longrightarrow> m s = (r, s') \<Longrightarrow> P s'"
  by (cases r) (auto simp: triple_def)

end
