(* ===== verification/RuntimeUpdater.thy ===== *)
theory RuntimeUpdater
  imports RuntimeManifest Io
begin

text \<open>
  The stateful part of the runtime updater
  (\<open>apps/desktop/electron/cc/cc-runtime-updater.ts\<close>): the managed directory, its
  metadata, downloading and activating a signed executable, pruning, and what counts
  as a usable runtime.  Each exported function is one sequential computation on the
  module's state and the file tree; writing to a stream fails only at its creation.
\<close>

section \<open>State\<close>

record RuntimeProgress =
  pg_stage :: string
  pg_bytesDownloaded :: nat
  pg_bytesTotal :: nat
  pg_version :: "string option"
  pg_error :: "string option"

record VerifiedManagedRuntime =
  vr_configId :: string
  vr_path :: path
  vr_version :: string

record VersionMeta =
  vm_version :: "string option"
  vm_dir :: "string option"
  vm_last_check :: rat
  vm_last_update :: rat

record updater =
  u_fs :: fs
  u_updating :: bool
  u_progress :: RuntimeProgress
  u_verified :: "VerifiedManagedRuntime option"
  u_broadcast :: "RuntimeProgress list"

definition idle_progress :: RuntimeProgress where
  "idle_progress = \<lparr>pg_stage = ''idle'', pg_bytesDownloaded = 0, pg_bytesTotal = 0, pg_version = None, pg_error = None\<rparr>"

definition setProgress :: "(RuntimeProgress \<Rightarrow> RuntimeProgress) \<Rightarrow> (updater, unit) io" where
  "setProgress patch =
     io_update (\<lambda>s. s\<lparr>u_progress := patch (u_progress s), u_broadcast := u_broadcast s @ [patch (u_progress s)]\<rparr>)"

definition on_fs :: "(fs \<Rightarrow> fs result) \<Rightarrow> (updater, unit) io" where
  "on_fs f s = (case f (u_fs s) of Inl e \<Rightarrow> (Inl e, s) | Inr t \<Rightarrow> (Inr (), s\<lparr>u_fs := t\<rparr>))"

definition read_fs :: "(fs \<Rightarrow> 'a result) \<Rightarrow> (updater, 'a) io" where
  "read_fs f s = (f (u_fs s), s)"

section \<open>Paths\<close>

definition getRuntimeDir :: "updater_env \<Rightarrow> path" where
  "getRuntimeDir ue = resolve_segments (ue_awpDir ue) @ [''agent-runtime'']"

definition resolve_from :: "path \<Rightarrow> string \<Rightarrow> path" where
  "resolve_from rootDir seg =
     (if is_absolute seg then resolve_segments seg else normalize_segments (rev rootDir) (path_segments seg))"

text \<open>
  The test shared by \<open>resolveWithin\<close> and \<open>assertContained\<close>: the relative path is not
  empty and does not start with \<open>../\<close>.
\<close>

definition contained :: "path \<Rightarrow> path \<Rightarrow> bool" where
  "contained rootDir target =
     (let rel = relative_segments rootDir target in rel \<noteq> [] \<and> \<not> (hd rel = ''..'' \<and> tl rel \<noteq> []))"

definition resolveWithin :: "path \<Rightarrow> string list \<Rightarrow> path result" where
  "resolveWithin rootDir segments =
     (let target = foldl resolve_from rootDir segments
      in if contained rootDir target then Inr target else Inl (Thrown ''runtime_path_outside_root''))"

definition assertContained :: "path \<Rightarrow> path \<Rightarrow> (updater, unit) io" where
  "assertContained rootDir target = io_guard (contained rootDir target) ''runtime_path_outside_root''"

definition getVersionsDir :: "updater_env \<Rightarrow> path result" where
  "getVersionsDir ue = resolveWithin (getRuntimeDir ue) [''versions'']"

definition getMetaPath :: "updater_env \<Rightarrow> path result" where
  "getMetaPath ue = resolveWithin (getRuntimeDir ue) [''version.json'']"

definition executableBasename :: "updater_env \<Rightarrow> string" where
  "executableBasename ue = (if ue_platform ue = ''win32'' then ''runtime.exe'' else ''runtime'')"

section \<open>Directories\<close>

definition assertManagedDirectory :: "updater_env \<Rightarrow> path \<Rightarrow> (updater, unit) io" where
  "assertManagedDirectory ue dir =
     io_bind (io_get (\<lambda>s. fs_exists (u_fs s) dir)) (\<lambda>there.
     io_then (if there then io_return () else on_fs (fs_mkdirs (ue_now ue) dir))
     (io_bind (read_fs (\<lambda>t. fs_lstat t dir)) (\<lambda>info.
        io_guard (is_dir info \<and> \<not> is_link info) ''runtime_directory_is_link_or_not_directory'')))"

definition safeRemoveContained :: "path \<Rightarrow> path \<Rightarrow> (updater, unit) io" where
  "safeRemoveContained rootDir target =
     io_then (assertContained rootDir target)
     (io_bind (io_get (\<lambda>s. fs_exists (u_fs s) target)) (\<lambda>there.
        if \<not> there then io_return ()
        else io_bind (read_fs (\<lambda>t. fs_lstat t target)) (\<lambda>info.
               on_fs (fs_rm (\<not> is_link info \<and> is_dir info) target))))"

definition isTransientSharingViolation :: "jserror \<Rightarrow> bool" where
  "isTransientSharingViolation e = (e \<in> {Sys ''EPERM'', Sys ''EACCES'', Sys ''EBUSY''})"

definition STAGED_RENAME_RETRIES :: nat where
  "STAGED_RENAME_RETRIES = 7"

definition stagedRename :: "updater_env \<Rightarrow> nat \<Rightarrow> path \<Rightarrow> path \<Rightarrow> (updater, unit) io" where
  "stagedRename ue attempt source target =
     (case ue_rename_fault ue attempt of
        Some ecode \<Rightarrow> io_throw (Sys ecode)
      | None \<Rightarrow> on_fs (fs_rename source target))"

text \<open>The loop of \<open>promoteStagedDirectory\<close>: \<open>n\<close> retries are left.\<close>

primrec promote_loop :: "updater_env \<Rightarrow> path \<Rightarrow> path \<Rightarrow> path \<Rightarrow> nat \<Rightarrow> (updater, unit) io" where
  "promote_loop ue rootDir source target 0 =
     io_then (assertManagedDirectory ue rootDir)
     (io_bind (read_fs (\<lambda>t. fs_lstat t source)) (\<lambda>info.
      io_then (io_guard (is_dir info \<and> \<not> is_link info) ''runtime_staging_link_detected'')
     (io_bind (io_get (\<lambda>s. fs_exists (u_fs s) target)) (\<lambda>there.
      io_then (io_guard (\<not> there) ''runtime_immutable_version_conflict'')
              (stagedRename ue STAGED_RENAME_RETRIES source target)))))"
| "promote_loop ue rootDir source target (Suc n) =
     io_then (assertManagedDirectory ue rootDir)
     (io_bind (read_fs (\<lambda>t. fs_lstat t source)) (\<lambda>info.
      io_then (io_guard (is_dir info \<and> \<not> is_link info) ''runtime_staging_link_detected'')
     (io_bind (io_get (\<lambda>s. fs_exists (u_fs s) target)) (\<lambda>there.
      io_then (io_guard (\<not> there) ''runtime_immutable_version_conflict'')
              (io_catch (stagedRename ue (STAGED_RENAME_RETRIES - Suc n) source target)
                 (\<lambda>e. if isTransientSharingViolation e then promote_loop ue rootDir source target n
                      else io_throw e))))))"

definition promoteStagedDirectory :: "updater_env \<Rightarrow> path \<Rightarrow> path \<Rightarrow> path \<Rightarrow> (updater, unit) io" where
  "promoteStagedDirectory ue rootDir source target =
     io_then (assertContained rootDir source)
     (io_then (assertContained rootDir target) (promote_loop ue rootDir source target STAGED_RENAME_RETRIES))"

section \<open>Metadata\<close>

definition emptyMeta :: VersionMeta where
  "emptyMeta = \<lparr>vm_version = None, vm_dir = None, vm_last_check = 0, vm_last_update = 0\<rparr>"

definition finite_or_zero :: "jsval \<Rightarrow> rat" where
  "finite_or_zero v = (case v of Num (Fin q) \<Rightarrow> q | _ \<Rightarrow> 0)"

definition meta_of_json :: "jsval \<Rightarrow> VersionMeta result" where
  "meta_of_json v =
     bind_result (asRecord v ''runtime_meta'') (\<lambda>parsed.
     bind_result (case field (Obj parsed) ''current_version'' of
                    Null \<Rightarrow> Inr None
                  | x \<Rightarrow> bind_result (validateVersion x) (\<lambda>s. Inr (Some s))) (\<lambda>version.
     bind_result (case field (Obj parsed) ''current_dir'' of
                    Null \<Rightarrow> Inr None
                  | Str d \<Rightarrow> if ARTIFACT_DIR_RE d then Inr (Some d) else Inl (Thrown ''invalid_runtime_meta_dir'')
                  | _ \<Rightarrow> Inl (Thrown ''invalid_runtime_meta_dir'')) (\<lambda>dir.
       if (version = None) \<noteq> (dir = None) then Inl (Thrown ''invalid_runtime_meta_pair'')
       else Inr \<lparr>vm_version = version, vm_dir = dir,
                 vm_last_check = finite_or_zero (field (Obj parsed) ''last_check_ms''),
                 vm_last_update = finite_or_zero (field (Obj parsed) ''last_update_ms'')\<rparr>)))"

definition readMeta :: "updater_env \<Rightarrow> fs \<Rightarrow> VersionMeta option" where
  "readMeta ue t =
     (case getMetaPath ue of
        Inl _ \<Rightarrow> None
      | Inr file \<Rightarrow>
          if \<not> fs_exists t file then None
          else (case fs_read t file of
                  Inl _ \<Rightarrow> None
                | Inr c \<Rightarrow>
                    (case JSON_parse (ue_utf8 ue c) of
                       None \<Rightarrow> None
                     | Some v \<Rightarrow> (case meta_of_json v of Inr m \<Rightarrow> Some m | Inl _ \<Rightarrow> None))))"

definition meta_or_empty :: "updater_env \<Rightarrow> fs \<Rightarrow> VersionMeta" where
  "meta_or_empty ue t = (case readMeta ue t of Some m \<Rightarrow> m | None \<Rightarrow> emptyMeta)"

definition nullable :: "string option \<Rightarrow> jsval" where
  "nullable x = (case x of Some s \<Rightarrow> Str s | None \<Rightarrow> Null)"

definition meta_json :: "VersionMeta \<Rightarrow> jsval" where
  "meta_json m = Obj [(''current_version'', nullable (vm_version m)), (''current_dir'', nullable (vm_dir m)),
     (''last_check_ms'', Num (Fin (vm_last_check m))), (''last_update_ms'', Num (Fin (vm_last_update m)))]"

definition writeMeta :: "updater_env \<Rightarrow> VersionMeta \<Rightarrow> (updater, unit) io" where
  "writeMeta ue m =
     io_then (assertManagedDirectory ue (getRuntimeDir ue))
     (io_bind (io_lift (getMetaPath ue)) (\<lambda>target.
      io_bind (io_lift (resolveWithin (getRuntimeDir ue) [''.version.'' @ ue_uuid ue @ ''.tmp''])) (\<lambda>temp.
        io_finally
          (io_then (on_fs (fs_create (ue_now ue) temp (JSON_stringify_2 (meta_json m))))
                   (on_fs (fs_rename temp target)))
          (io_catch
             (io_bind (io_get (\<lambda>s. fs_exists (u_fs s) temp)) (\<lambda>there.
                if there then safeRemoveContained (getRuntimeDir ue) temp else io_return ()))
             (\<lambda>_. io_return ())))))"

section \<open>Which executable may be used\<close>

definition regular :: "fs \<Rightarrow> path \<Rightarrow> bool" where
  "regular t p = (case fs_lstat t p of Inr n \<Rightarrow> is_file n \<and> \<not> is_link n | Inl _ \<Rightarrow> False)"

definition configuredExternalExecutable :: "updater_env \<Rightarrow> fs \<Rightarrow> path option" where
  "configuredExternalExecutable ue t =
     (let raw = env_trim (ue_env ue) ''AWP_AGENT_CLI_EXECUTABLE''
      in if raw = [] \<or> \<not> is_absolute raw then None
         else let resolved = resolve_segments raw in if regular t resolved then Some resolved else None)"

definition managedExecutablePath :: "updater_env \<Rightarrow> VersionMeta \<Rightarrow> (updater, path option) io" where
  "managedExecutablePath ue meta =
     (case (vm_dir meta, vm_version meta) of
        (Some dir, Some ver) \<Rightarrow>
          if dir = [] \<or> ver = [] \<or> \<not> ARTIFACT_DIR_RE dir then io_return None
          else
            io_catch
              (io_bind (io_lift (getVersionsDir ue)) (\<lambda>versionsDir.
               io_then (assertManagedDirectory ue versionsDir)
               (io_bind (io_lift (resolveWithin versionsDir [dir])) (\<lambda>versionDir.
                io_bind (read_fs (\<lambda>t. fs_lstat t versionDir)) (\<lambda>dirInfo.
                  if \<not> is_dir dirInfo \<or> is_link dirInfo then io_return None
                  else
                    io_bind (io_lift (resolveWithin versionDir [executableBasename ue])) (\<lambda>executable.
                    io_bind (read_fs (\<lambda>t. fs_lstat t executable)) (\<lambda>fileInfo.
                      io_return (if is_file fileInfo \<and> \<not> is_link fileInfo then Some executable else None))))))))
              (\<lambda>_. io_return None)
      | _ \<Rightarrow> io_return None)"

definition currentVerifiedManagedRuntime :: "updater_env \<Rightarrow> updater \<Rightarrow> VerifiedManagedRuntime option" where
  "currentVerifiedManagedRuntime ue s =
     (case validateManagedRuntimeConfiguration ue of
        Inl _ \<Rightarrow> None
      | Inr configId \<Rightarrow>
          (case u_verified s of
             None \<Rightarrow> None
           | Some v \<Rightarrow>
               if vr_configId v \<noteq> configId then None
               else if regular (u_fs s) (vr_path v) then Some v else None))"

definition expected_dir :: "LatestVersionResponse \<Rightarrow> RuntimeArtifact \<Rightarrow> string" where
  "expected_dir manifest artifact = lv_version manifest @ ''--'' @ take 12 (ra_sha256 artifact)"

definition sha256OfFile :: "updater_env \<Rightarrow> path \<Rightarrow> (updater, string) io" where
  "sha256OfFile ue file = io_bind (read_fs (\<lambda>t. fs_read t file)) (\<lambda>c. io_return (ue_sha256 ue c))"

definition verifyManagedRuntime ::
  "updater_env \<Rightarrow> VersionMeta \<Rightarrow> LatestVersionResponse \<Rightarrow> RuntimeArtifact \<Rightarrow> string \<Rightarrow> (updater, bool) io" where
  "verifyManagedRuntime ue meta manifest artifact configId =
     (if vm_version meta \<noteq> Some (lv_version manifest) \<or> vm_dir meta \<noteq> Some (expected_dir manifest artifact)
      then io_return False
      else
        io_bind (managedExecutablePath ue meta) (\<lambda>found.
        case found of
          None \<Rightarrow> io_return False
        | Some executable \<Rightarrow>
            io_bind (sha256OfFile ue executable) (\<lambda>h.
            if h \<noteq> to_lower (ra_sha256 artifact) then io_return False
            else
              io_then (io_update (\<lambda>s. s\<lparr>u_verified := Some \<lparr>vr_configId = configId, vr_path = executable,
                                                         vr_version = lv_version manifest\<rparr>\<rparr>))
                      (io_return True))))"

definition getCliPath :: "updater_env \<Rightarrow> updater \<Rightarrow> path option" where
  "getCliPath ue s =
     (case configuredExternalExecutable ue (u_fs s) of
        Some p \<Rightarrow> Some p
      | None \<Rightarrow> map_option vr_path (currentVerifiedManagedRuntime ue s))"

definition getCurrentVersion :: "updater_env \<Rightarrow> updater \<Rightarrow> string option" where
  "getCurrentVersion ue s = map_option vr_version (currentVerifiedManagedRuntime ue s)"

section \<open>Downloading\<close>

text \<open>The chunk loop: \<open>acc\<close> is what the file holds so far.\<close>

fun download_chunks :: "RuntimeArtifact \<Rightarrow> jserror option \<Rightarrow> nat \<Rightarrow> path \<Rightarrow> string \<Rightarrow> string list \<Rightarrow> (updater, string) io" where
  "download_chunks artifact failure now destination acc [] =
     (case failure of Some e \<Rightarrow> io_throw e | None \<Rightarrow> io_return acc)"
| "download_chunks artifact failure now destination acc (c # cs) =
     (let total = length acc + length c
      in if MAX_ARTIFACT_BYTES < total \<or> (case ra_bytes artifact of Some b \<Rightarrow> b < total | None \<Rightarrow> False)
         then io_throw (Thrown ''runtime_artifact_too_large'')
         else
           io_then (on_fs (\<lambda>t. Inr (fs_put destination (NFile (acc @ c) now) t)))
           (io_then (setProgress (\<lambda>p. p\<lparr>pg_bytesDownloaded := total\<rparr>))
                    (download_chunks artifact failure now destination (acc @ c) cs)))"

definition content_length :: "http_response \<Rightarrow> nat result" where
  "content_length response =
     (case rs_content_length response of
        None \<Rightarrow> Inr 0
      | Some h \<Rightarrow>
          if h = [] then Inr 0
          else (case header_number h of
                  Some n \<Rightarrow> if 0 < n \<and> n \<le> MAX_ARTIFACT_BYTES then Inr n
                            else Inl (Thrown ''invalid_runtime_content_length'')
                | None \<Rightarrow> Inl (Thrown ''invalid_runtime_content_length'')))"

definition downloadExecutable ::
  "updater_env \<Rightarrow> RuntimeArtifact \<Rightarrow> url \<Rightarrow> path \<Rightarrow> string \<Rightarrow> (updater, unit) io" where
  "downloadExecutable ue artifact manifestUrl destination version =
     io_bind (io_lift (validateArtifactUrl ue (ra_url artifact) manifestUrl)) (\<lambda>u.
     io_bind (io_lift (ue_fetch ue (url_href u))) (\<lambda>response.
     io_then (io_guard (rs_ok response) (status_message ''runtime_artifact_http_'' (rs_status response)))
     (case rs_body response of
        None \<Rightarrow> io_throw (Thrown ''runtime_artifact_empty_body'')
      | Some chunks \<Rightarrow>
          io_bind (io_lift (content_length response)) (\<lambda>contentLength.
          io_then (io_guard (\<not> (contentLength \<noteq> 0 \<and> (case ra_bytes artifact of Some b \<Rightarrow> b \<noteq> contentLength | None \<Rightarrow> False)))
                     ''runtime_content_length_mismatch'')
          (io_then (setProgress (\<lambda>p. p\<lparr>pg_stage := ''downloading'', pg_bytesDownloaded := 0,
                      pg_bytesTotal := (case ra_bytes artifact of Some b \<Rightarrow> b | None \<Rightarrow> contentLength),
                      pg_version := Some version, pg_error := None\<rparr>))
          (io_then (on_fs (fs_create (ue_now ue) destination []))
          (io_bind (download_chunks artifact (rs_failure response) (ue_now ue) destination [] chunks) (\<lambda>bytes.
           io_then (io_guard (case ra_bytes artifact of Some b \<Rightarrow> length bytes = b | None \<Rightarrow> True) ''runtime_artifact_size_mismatch'')
          (io_then (io_guard (bytes \<noteq> []) ''runtime_artifact_empty'')
          (io_then (setProgress (\<lambda>p. p\<lparr>pg_stage := ''verifying'', pg_bytesDownloaded := length bytes\<rparr>))
                   (io_guard (ue_sha256 ue bytes = ra_sha256 artifact) ''runtime_artifact_sha256_mismatch'')))))))))))"

section \<open>Installing\<close>

definition check_installed :: "updater_env \<Rightarrow> path \<Rightarrow> path \<Rightarrow> string \<Rightarrow> (updater, unit) io" where
  "check_installed ue finalDir finalExe sha =
     io_bind (read_fs (\<lambda>t. fs_lstat t finalDir)) (\<lambda>dirInfo.
     io_bind (io_get (\<lambda>s. fs_exists (u_fs s) finalExe)) (\<lambda>there.
     io_bind (if there then read_fs (\<lambda>t. fs_lstat t finalExe) else io_return (NDir 0)) (\<lambda>fileInfo.
       if \<not> is_dir dirInfo \<or> is_link dirInfo \<or> \<not> is_file fileInfo \<or> is_link fileInfo
       then io_throw (Thrown ''runtime_immutable_version_conflict'')
       else io_bind (sha256OfFile ue finalExe) (\<lambda>h. io_guard (h = sha) ''runtime_immutable_version_conflict''))))"

definition remove_staging :: "path \<Rightarrow> path \<Rightarrow> (updater, unit) io" where
  "remove_staging versionsDir partialDir =
     io_catch
       (io_bind (io_get (\<lambda>s. fs_exists (u_fs s) partialDir)) (\<lambda>there.
          if there then safeRemoveContained versionsDir partialDir else io_return ()))
       (\<lambda>_. io_return ())"

definition stage_and_promote ::
  "updater_env \<Rightarrow> RuntimeArtifact \<Rightarrow> url \<Rightarrow> string \<Rightarrow> path \<Rightarrow> path \<Rightarrow> path \<Rightarrow> path \<Rightarrow> (updater, unit) io" where
  "stage_and_promote ue artifact manifestUrl version versionsDir partialDir partialExe finalDir =
     io_then (on_fs (fs_mkdir (ue_now ue) partialDir))
     (io_finally
        (io_then (downloadExecutable ue artifact manifestUrl partialExe version)
        (io_bind (read_fs (\<lambda>t. fs_lstat t partialDir)) (\<lambda>partialInfo.
         io_bind (read_fs (\<lambda>t. fs_lstat t partialExe)) (\<lambda>executableInfo.
         io_then (io_guard (is_dir partialInfo \<and> \<not> is_link partialInfo \<and> is_file executableInfo \<and> \<not> is_link executableInfo)
                    ''runtime_staging_link_detected'')
        (io_then (setProgress (\<lambda>p. p\<lparr>pg_stage := ''staging''\<rparr>))
                 (promoteStagedDirectory ue versionsDir partialDir finalDir))))))
        (remove_staging versionsDir partialDir))"

definition installVersion :: "updater_env \<Rightarrow> LatestVersionResponse \<Rightarrow> url \<Rightarrow> (updater, unit) io" where
  "installVersion ue manifest manifestUrl =
     io_bind (io_lift (validateVersion (Str (lv_version manifest)))) (\<lambda>version.
     case artifact_for ue manifest of
       None \<Rightarrow> io_throw (Thrown ''runtime_artifact_platform_unavailable'')
     | Some artifact \<Rightarrow>
         io_bind (io_lift (validateHash (Str (ra_sha256 artifact)))) (\<lambda>sha.
         io_bind (io_lift (getVersionsDir ue)) (\<lambda>versionsDir.
         io_then (assertManagedDirectory ue (getRuntimeDir ue))
         (io_then (assertManagedDirectory ue versionsDir)
         (let artifactDirName = version @ ''--'' @ take 12 sha
          in io_then (io_guard (ARTIFACT_DIR_RE artifactDirName) ''invalid_runtime_artifact_dir'')
             (io_bind (io_lift (resolveWithin versionsDir [artifactDirName])) (\<lambda>finalDir.
              io_bind (io_lift (resolveWithin finalDir [executableBasename ue])) (\<lambda>finalExe.
              io_bind (io_get (\<lambda>s. fs_exists (u_fs s) finalDir)) (\<lambda>there.
              io_then
                (if there then check_installed ue finalDir finalExe sha
                 else
                   io_bind (io_lift (resolveWithin versionsDir [''.'' @ artifactDirName @ ''.partial-'' @ ue_uuid ue])) (\<lambda>partialDir.
                   io_bind (io_lift (resolveWithin partialDir [executableBasename ue])) (\<lambda>partialExe.
                     stage_and_promote ue artifact manifestUrl version versionsDir partialDir partialExe finalDir)))
                (writeMeta ue \<lparr>vm_version = Some version, vm_dir = Some artifactDirName,
                   vm_last_check = of_nat (ue_now ue), vm_last_update = of_nat (ue_now ue)\<rparr>))))))))))"

section \<open>Pruning\<close>

definition try_remove :: "path \<Rightarrow> path \<Rightarrow> (updater, unit) io" where
  "try_remove versionsDir target = io_catch (safeRemoveContained versionsDir target) (\<lambda>_. io_return ())"

fun remove_all :: "path \<Rightarrow> path list \<Rightarrow> (updater, unit) io" where
  "remove_all versionsDir [] = io_return ()"
| "remove_all versionsDir (p # ps) = io_then (try_remove versionsDir p) (remove_all versionsDir ps)"

definition mtime_of :: "fs \<Rightarrow> path \<Rightarrow> nat" where
  "mtime_of t p = (case fs_stat t p of Inr n \<Rightarrow> mtime n | Inl _ \<Rightarrow> 0)"

text \<open>
  Retained directories: the newest inactive ones, after the active one.  The names that
  pass either pattern are plain segments, so resolving one inside the directory appends
  it (lemma \<open>entry_resolves\<close> of the theory \<open>RuntimeSafety\<close>).
\<close>

definition prune_candidates :: "path \<Rightarrow> string option \<Rightarrow> string list \<Rightarrow> fs \<Rightarrow> path list" where
  "prune_candidates versionsDir active entries t =
     sort_cmp (\<lambda>a b. int (mtime_of t b) - int (mtime_of t a))
       (map (\<lambda>e. versionsDir @ [e]) (filter (\<lambda>e. Some e \<noteq> active \<and> ARTIFACT_DIR_RE e) entries))"

definition pruneOldVersions :: "updater_env \<Rightarrow> nat \<Rightarrow> (updater, unit) io" where
  "pruneOldVersions ue keep =
     io_bind (io_lift (getVersionsDir ue)) (\<lambda>versionsDir.
     io_bind (io_get (\<lambda>s. fs_exists (u_fs s) versionsDir)) (\<lambda>there.
     if \<not> there then io_return ()
     else
       io_then (assertManagedDirectory ue versionsDir)
       (io_bind (io_get (\<lambda>s. vm_dir (meta_or_empty ue (u_fs s)))) (\<lambda>active.
        io_bind (read_fs (\<lambda>t. fs_readdir t versionsDir)) (\<lambda>entries.
        io_then (remove_all versionsDir (map (\<lambda>e. versionsDir @ [e]) (filter PARTIAL_DIR_RE entries)))
        (io_bind (io_get (\<lambda>s. prune_candidates versionsDir active entries (u_fs s))) (\<lambda>candidates.
           remove_all versionsDir (drop (keep - (if active \<noteq> None then 1 else 0)) candidates))))))))"

section \<open>Updating\<close>

record UpdateResult =
  ur_updated :: bool
  ur_from :: "string option"
  ur_to :: "string option"
  ur_error :: "string option"

definition no_update :: "string option \<Rightarrow> UpdateResult" where
  "no_update err = \<lparr>ur_updated = False, ur_from = None, ur_to = None, ur_error = err\<rparr>"

definition error_message :: "jserror \<Rightarrow> string" where
  "error_message e = (case e of Thrown m \<Rightarrow> m | Sys c \<Rightarrow> c)"

definition CHECK_INTERVAL_MS :: nat where
  "CHECK_INTERVAL_MS = 6 * 60 * 60 * 1000"

text \<open>The body of the \<open>try\<close> of \<open>checkAndUpdate\<close>.\<close>

definition update_body :: "updater_env \<Rightarrow> bool \<Rightarrow> url \<Rightarrow> string \<Rightarrow> VersionMeta \<Rightarrow> (updater, UpdateResult) io" where
  "update_body ue force manifestUrl configId previous =
     io_bind (io_lift (fetchLatestVersion ue (resolveChannel (ue_env ue)))) (\<lambda>manifest.
     io_then (io_update (\<lambda>s. s\<lparr>u_verified := None\<rparr>))
     (if (case lv_min_desktop manifest of Some m \<Rightarrow> m \<noteq> [] \<and> versionLessThan (getDesktopVersion ue) m | None \<Rightarrow> False)
      then io_then (writeMeta ue (previous\<lparr>vm_last_check := of_nat (ue_now ue)\<rparr>))
                   (io_return (no_update (Some ''desktop_too_old'')))
      else
        case artifact_for ue manifest of
          None \<Rightarrow> io_return (no_update (Some ''runtime_artifact_platform_unavailable''))
        | Some artifact \<Rightarrow>
            io_bind
              (if \<not> force \<and> vm_version previous = Some (lv_version manifest)
                  \<and> vm_dir previous = Some (expected_dir manifest artifact)
               then verifyManagedRuntime ue previous manifest artifact configId else io_return False) (\<lambda>current.
            if current
            then io_then (writeMeta ue (previous\<lparr>vm_last_check := of_nat (ue_now ue)\<rparr>)) (io_return (no_update None))
            else
              io_then (installVersion ue manifest manifestUrl)
              (io_bind (io_get (\<lambda>s. readMeta ue (u_fs s))) (\<lambda>installed.
               io_bind (case installed of
                          Some m \<Rightarrow> verifyManagedRuntime ue m manifest artifact configId
                        | None \<Rightarrow> io_return False) (\<lambda>verified.
               io_then (io_guard verified ''runtime_post_install_verification_failed'')
              (io_then (pruneOldVersions ue 2)
              (io_then (setProgress (\<lambda>p. p\<lparr>pg_stage := ''done'',
                          pg_bytesDownloaded := (case ra_bytes artifact of Some b \<Rightarrow> b | None \<Rightarrow> pg_bytesDownloaded p),
                          pg_bytesTotal := (case ra_bytes artifact of Some b \<Rightarrow> b | None \<Rightarrow> pg_bytesTotal p),
                          pg_version := Some (lv_version manifest), pg_error := None\<rparr>))
                       (io_return \<lparr>ur_updated = True, ur_from = vm_version previous,
                                   ur_to = Some (lv_version manifest), ur_error = None\<rparr>)))))))))"

definition checkAndUpdate :: "updater_env \<Rightarrow> bool \<Rightarrow> (updater, UpdateResult) io" where
  "checkAndUpdate ue force s0 =
     (if configuredExternalExecutable ue (u_fs s0) \<noteq> None then io_return (no_update None) s0
      else if u_updating s0 then io_return (no_update (Some ''runtime_update_in_progress'')) s0
      else case runtimeManifestUrl ue of
        Inl e \<Rightarrow> io_return (no_update (Some (error_message e))) s0
      | Inr manifestUrl \<Rightarrow>
          (case validateManagedRuntimeConfiguration ue of
             Inl e \<Rightarrow> io_return (no_update (Some (error_message e))) s0
           | Inr configId \<Rightarrow>
               (let previous = meta_or_empty ue (u_fs s0)
                in if \<not> force \<and> currentVerifiedManagedRuntime ue s0 \<noteq> None
                      \<and> of_nat (ue_now ue) - vm_last_check previous < of_nat CHECK_INTERVAL_MS
                   then io_return (no_update None) s0
                   else
                     io_finally
                       (io_catch (update_body ue force manifestUrl configId previous)
                          (\<lambda>e. io_then (setProgress (\<lambda>p. p\<lparr>pg_stage := ''error'', pg_error := Some (error_message e)\<rparr>))
                                       (io_return (no_update (Some (error_message e))))))
                       (io_update (\<lambda>s. s\<lparr>u_updating := False\<rparr>))
                       (s0\<lparr>u_updating := True\<rparr>))))"

record EnsureResult =
  er_installed :: bool
  er_version :: "string option"
  er_error :: "string option"

definition ensureInstalled :: "updater_env \<Rightarrow> (updater, EnsureResult) io" where
  "ensureInstalled ue s =
     (if configuredExternalExecutable ue (u_fs s) \<noteq> None
      then io_return \<lparr>er_installed = True, er_version = None, er_error = None\<rparr> s
      else case validateManagedRuntimeConfiguration ue of
        Inl e \<Rightarrow> io_return \<lparr>er_installed = False, er_version = None, er_error = Some (error_message e)\<rparr> s
      | Inr _ \<Rightarrow>
          io_bind (checkAndUpdate ue False) (\<lambda>result.
          io_bind (io_get (currentVerifiedManagedRuntime ue)) (\<lambda>verified.
            io_return (case verified of
              Some v \<Rightarrow> \<lparr>er_installed = True, er_version = Some (vr_version v), er_error = None\<rparr>
            | None \<Rightarrow> \<lparr>er_installed = False, er_version = None,
                er_error = Some (case ur_error result of Some e \<Rightarrow> e | None \<Rightarrow> ''runtime_install_failed'')\<rparr>))) s)"

definition recoverFromMissingBinary :: "updater_env \<Rightarrow> (updater, UpdateResult) io" where
  "recoverFromMissingBinary ue s =
     (if configuredExternalExecutable ue (u_fs s) \<noteq> None
      then io_return (no_update (Some ''external_runtime_unavailable'')) s
      else case validateManagedRuntimeConfiguration ue of
        Inl e \<Rightarrow> io_return (no_update (Some (error_message e))) s
      | Inr _ \<Rightarrow>
          (let previous = meta_or_empty ue (u_fs s)
           in io_then (io_update (\<lambda>s. s\<lparr>u_verified := None\<rparr>))
              (io_then (writeMeta ue (previous\<lparr>vm_version := None, vm_dir := None\<rparr>)) (checkAndUpdate ue True)) s))"

record StatusSnapshot =
  ss_currentVersion :: "string option"
  ss_lastCheckMs :: rat
  ss_lastUpdateMs :: rat
  ss_updating :: bool
  ss_available :: bool
  ss_source :: string

definition getStatusSnapshot :: "updater_env \<Rightarrow> updater \<Rightarrow> StatusSnapshot" where
  "getStatusSnapshot ue s =
     (let externalRequested = (env_trim (ue_env ue) ''AWP_AGENT_CLI_EXECUTABLE'' \<noteq> []);
          externalAvailable = (configuredExternalExecutable ue (u_fs s) \<noteq> None);
          managedConfigured = isManagedRuntimeExplicitlyConfigured ue;
          meta = (if managedConfigured then meta_or_empty ue (u_fs s) else emptyMeta);
          verified = (if managedConfigured then currentVerifiedManagedRuntime ue s else None)
      in \<lparr>ss_currentVersion = map_option vr_version verified,
          ss_lastCheckMs = (if managedConfigured then vm_last_check meta else 0),
          ss_lastUpdateMs = (if managedConfigured then vm_last_update meta else 0),
          ss_updating = u_updating s,
          ss_available = (if externalRequested then externalAvailable else verified \<noteq> None),
          ss_source = (if externalRequested then ''external'' else if managedConfigured then ''managed'' else ''disabled'')\<rparr>)"

end
