(* ===== verification/RuntimeSafety.thy ===== *)
theory RuntimeSafety
  imports RuntimeUpdater
begin

text \<open>
  What the runtime updater guarantees: paths stay inside the managed directory, a
  manifest is used only when the pinned key signed it, an executable is offered only
  when its bytes have the signed hash, and an update always ends with its flag reset.
\<close>

section \<open>Paths\<close>

lemma drop_common_split: "drop_common xs ys = (u, d) \<Longrightarrow> \<exists>p. xs = p @ u \<and> ys = p @ d"
proof (induction xs ys rule: drop_common.induct)
  case (1 x xs y ys)
  show ?case
  proof (cases "x = y")
    case True
    with 1 obtain p where "xs = p @ u" "ys = p @ d" by auto
    with True show ?thesis by (intro exI [of _ "x # p"]) simp
  next
    case False
    with 1 show ?thesis by (intro exI [of _ "[]"]) simp
  qed
qed auto

lemma split_char_noslash: "w \<in> set (path_segments p) \<Longrightarrow> CHR ''/'' \<notin> set w \<and> w \<noteq> []"
  by (auto simp: path_segments_def dest: split_char_pieces)

lemma path_segments_plain: "plain_segment w \<Longrightarrow> path_segments w = [w]"
  by (simp add: path_segments_def plain_segment_def)

lemma plain_not_absolute: "plain_segment w \<Longrightarrow> \<not> is_absolute w"
  by (cases w) (auto simp: plain_segment_def is_absolute_def)

lemma contained_below: "ws \<noteq> [] \<Longrightarrow> hd ws \<noteq> ''..'' \<Longrightarrow> contained r (r @ ws)"
  by (simp add: contained_def relative_below)

lemma resolveWithin_plain: "plain_segment w \<Longrightarrow> resolveWithin r [w] = Inr (r @ [w])"
  using contained_below [of "[w]" r]
  by (simp add: resolveWithin_def resolve_from_def plain_not_absolute path_segments_plain normalize_plain plain_segment_def)

text \<open>The containment test accepts exactly the paths below the root, and the parent of the root.\<close>

lemma contained_cases:
  assumes "contained r t"
  shows "(\<exists>ws. ws \<noteq> [] \<and> t = r @ ws) \<or> (r \<noteq> [] \<and> t = butlast r)"
proof -
  obtain u d where ud: "drop_common r t = (u, d)" by fastforce
  then obtain p where p: "r = p @ u" "t = p @ d" using drop_common_split by blast
  show ?thesis
  proof (cases u)
    case Nil
    with assms ud p show ?thesis by (auto simp: contained_def relative_segments_def)
  next
    case (Cons x xs)
    with assms ud have "xs = []" "d = []" by (auto simp: contained_def relative_segments_def Let_def)
    with Cons p show ?thesis by simp
  qed
qed

section \<open>Trees that grow\<close>

definition extends :: "fs \<Rightarrow> fs \<Rightarrow> bool" where
  "extends t t' \<longleftrightarrow> (\<forall>p n. lookup t p = Some n \<longrightarrow> lookup t' p = Some n)"

lemma extends_refl [simp]: "extends t t"
  by (simp add: extends_def)

lemma extends_trans: "extends a b \<Longrightarrow> extends b c \<Longrightarrow> extends a c"
  by (simp add: extends_def)

lemma extends_put: "p \<noteq> [] \<Longrightarrow> lookup t p = None \<Longrightarrow> extends t (fs_put p n t)"
  by (auto simp: extends_def lookup_put)

lemma extends_mkdirs_from: "fs_mkdirs_from now d ws t = Inr t' \<Longrightarrow> extends t t'"
proof (induction now d ws t arbitrary: t' rule: fs_mkdirs_from.induct)
  case (2 now d w ws t)
  show ?case
  proof (cases "lookup t (d @ [w])")
    case None
    with 2 have "extends (fs_put (d @ [w]) (NDir now) t) t'" by (simp add: Let_def)
    with None show ?thesis by (meson extends_put extends_trans snoc_eq_iff_butlast)
  next
    case (Some n)
    with 2 show ?thesis by (auto simp: Let_def split: sum.splits if_splits)
  qed
qed simp

lemma extends_mkdirs: "fs_mkdirs now p t = Inr t' \<Longrightarrow> extends t t'"
  unfolding fs_mkdirs_def by (rule extends_mkdirs_from)

lemma fs_stat_extends: "extends t t' \<Longrightarrow> fs_stat t p = Inr n \<Longrightarrow> fs_stat t' p = Inr n"
  by (auto simp: fs_stat_def extends_def split: option.splits node.splits if_splits)

lemma readMeta_extends: "extends t t' \<Longrightarrow> readMeta ue t = Some m \<Longrightarrow> readMeta ue t' = Some m"
proof -
  assume ext: "extends t t'" and meta: "readMeta ue t = Some m"
  then obtain f n where f: "getMetaPath ue = Inr f" "fs_stat t f = Inr n"
    by (auto simp: readMeta_def fs_exists_def split: sum.splits if_splits)
  with fs_stat_extends [OF ext] have "fs_stat t' f = Inr n" by simp
  with f meta show ?thesis by (simp add: readMeta_def fs_exists_def fs_read_def)
qed

section \<open>What the file operations leave alone\<close>

text \<open>A computation that changes nothing but the tree, and only by adding to it.\<close>

definition grows :: "(updater, 'a) io \<Rightarrow> bool" where
  "grows m \<longleftrightarrow> (\<forall>s r s'. m s = (r, s') \<longrightarrow> extends (u_fs s) (u_fs s') \<and> s' = s\<lparr>u_fs := u_fs s'\<rparr>)"

lemma grows_bind: "grows m \<Longrightarrow> (\<And>x. grows (f x)) \<Longrightarrow> grows (io_bind m f)"
proof -
  assume m: "grows m" and f: "\<And>x. grows (f x)"
  show ?thesis unfolding grows_def
  proof (intro allI impI)
    fix s r s' assume run: "io_bind m f s = (r, s')"
    obtain r1 s1 where s1: "m s = (r1, s1)" by fastforce
    with m have e1: "extends (u_fs s) (u_fs s1)" "s1 = s\<lparr>u_fs := u_fs s1\<rparr>" by (auto simp: grows_def)
    show "extends (u_fs s) (u_fs s') \<and> s' = s\<lparr>u_fs := u_fs s'\<rparr>"
    proof (cases r1)
      case (Inl e)
      with run s1 have "s' = s1" by (auto simp: io_bind_def)
      with e1 show ?thesis by simp
    next
      case (Inr x)
      with run s1 have "f x s1 = (r, s')" by (simp add: io_bind_def)
      with f have e2: "extends (u_fs s1) (u_fs s')" "s' = s1\<lparr>u_fs := u_fs s'\<rparr>" unfolding grows_def by blast+
      have "s' = s\<lparr>u_fs := u_fs s'\<rparr>" by (subst e2(2), subst e1(2)) simp
      with e1(1) e2(1) show ?thesis using extends_trans by blast
    qed
  qed
qed

lemma grows_simps [simp]:
  "grows (io_return x)" "grows (io_throw e)" "grows (io_lift r)" "grows (io_get g)" "grows (io_guard b msg)"
  "grows (read_fs h)"
  by (auto simp: grows_def io_defs read_fs_def)

lemma grows_then: "grows m \<Longrightarrow> grows n \<Longrightarrow> grows (io_then m n)"
  unfolding io_then_def by (rule grows_bind)

lemma grows_catch: "grows m \<Longrightarrow> (\<And>e. grows (h e)) \<Longrightarrow> grows (io_catch m h)"
proof -
  assume m: "grows m" and h: "\<And>e. grows (h e)"
  have "io_catch m h s = (r, s') \<Longrightarrow> extends (u_fs s) (u_fs s') \<and> s' = s\<lparr>u_fs := u_fs s'\<rparr>" for s r s'
  proof -
    assume run: "io_catch m h s = (r, s')"
    obtain r1 s1 where s1: "m s = (r1, s1)" by fastforce
    with m have e1: "extends (u_fs s) (u_fs s1)" "s1 = s\<lparr>u_fs := u_fs s1\<rparr>" by (auto simp: grows_def)
    show ?thesis
    proof (cases r1)
      case (Inr x)
      with run s1 have "s' = s1" by (auto simp: io_catch_def)
      with e1 show ?thesis by simp
    next
      case (Inl e)
      with run s1 have "h e s1 = (r, s')" by (simp add: io_catch_def)
      with h have e2: "extends (u_fs s1) (u_fs s')" "s' = s1\<lparr>u_fs := u_fs s'\<rparr>" unfolding grows_def by blast+
      have "s' = s\<lparr>u_fs := u_fs s'\<rparr>" by (subst e2(2), subst e1(2)) simp
      with e1(1) e2(1) show ?thesis using extends_trans by blast
    qed
  qed
  then show ?thesis by (simp add: grows_def)
qed

lemma grows_on_fs: "(\<And>t t'. f t = Inr t' \<Longrightarrow> extends t t') \<Longrightarrow> grows (on_fs f)"
  by (auto simp: grows_def on_fs_def split: sum.splits)

lemma grows_assertManaged [simp]: "grows (assertManagedDirectory ue dir)"
  unfolding assertManagedDirectory_def
  by (intro grows_bind grows_then) (auto intro: grows_on_fs extends_mkdirs)

lemma grows_managedExecutable [simp]: "grows (managedExecutablePath ue meta)"
  unfolding managedExecutablePath_def
  by (auto intro!: grows_catch grows_bind grows_then split: option.split)

section \<open>The directories of the updater\<close>

lemma getVersionsDir_eq: "getVersionsDir ue = Inr (getRuntimeDir ue @ [''versions''])"
  by (simp add: getVersionsDir_def resolveWithin_plain plain_segment_def)

lemma getMetaPath_eq: "getMetaPath ue = Inr (getRuntimeDir ue @ [''version.json''])"
  by (simp add: getMetaPath_def resolveWithin_plain plain_segment_def)

lemma executable_plain: "plain_segment (executableBasename ue)"
  by (simp add: executableBasename_def plain_segment_def)

lemma dir_char_no_slash: "list_all dir_char w \<Longrightarrow> CHR ''/'' \<notin> set w"
  by (force simp: list_all_iff dir_char_def is_alnum_def is_alpha_def is_digit_def is_lower_def is_upper_def)

lemma take_drop_subset: "set (take n w) \<union> set (drop n w) = set w"
  by (metis append_take_drop_id set_append)

lemma ARTIFACT_DIR_plain: "ARTIFACT_DIR_RE d \<Longrightarrow> plain_segment d"
proof -
  assume d: "ARTIFACT_DIR_RE d"
  define k where "k = length d - 14"
  have "length d - 12 = k + 2" using d unfolding ARTIFACT_DIR_RE_def k_def by linarith
  then have "drop (length d - 12) d = drop 2 (drop k d)" by (simp add: add.commute)
  then have parts: "d = take k d @ ''--'' @ drop (length d - 12) d"
    using d by (metis ARTIFACT_DIR_RE_def append_take_drop_id k_def)
  have "CHR ''/'' \<notin> set (drop (length d - 12) d)"
    using d by (auto simp: ARTIFACT_DIR_RE_def list_all_iff is_hex_lower_def is_digit_def)
  moreover have "CHR ''/'' \<notin> set (take k d)"
    using d dir_char_no_slash by (auto simp: ARTIFACT_DIR_RE_def k_def)
  ultimately have "CHR ''/'' \<notin> set d" by (subst parts) auto
  with d show ?thesis by (auto simp: plain_segment_def ARTIFACT_DIR_RE_def)
qed

section \<open>What never touches the verified runtime\<close>

lemma keeps_bind: "keeps P m \<Longrightarrow> (\<And>x. keeps P (f x)) \<Longrightarrow> keeps P (io_bind m f)"
  by (rule triple_bind)

lemma keeps_then: "keeps P m \<Longrightarrow> keeps P n \<Longrightarrow> keeps P (io_then m n)"
  by (rule triple_then)

lemma keeps_finally: "keeps P m \<Longrightarrow> keeps P f \<Longrightarrow> keeps P (io_finally m f)"
  by (rule triple_finally) auto

lemma keeps_catch: "keeps P m \<Longrightarrow> (\<And>e. keeps P (h e)) \<Longrightarrow> keeps P (io_catch m h)"
  by (rule triple_catch) auto

lemma keeps_lift: "keeps P (io_lift r)"
  by (cases r) simp_all

lemma keeps_read: "keeps P (read_fs f)"
  by (auto simp: triple_def read_fs_def split: sum.split)

lemma keeps_progress: "(\<And>s g b. P s \<Longrightarrow> P (s\<lparr>u_progress := g, u_broadcast := b\<rparr>)) \<Longrightarrow> keeps P (setProgress f)"
  by (simp add: setProgress_def)

lemma keeps_on_fs:
  "(\<And>s t. P s \<Longrightarrow> f (u_fs s) = Inr t \<Longrightarrow> P (s\<lparr>u_fs := t\<rparr>)) \<Longrightarrow> keeps P (on_fs f)"
  by (auto simp: triple_def on_fs_def split: sum.split)

lemmas keeps_intros = keeps_bind keeps_then keeps_finally keeps_catch keeps_lift keeps_read keeps_progress

lemma keeps_promote_loop:
  assumes "keeps P (assertManagedDirectory ue rootDir)"
    and "\<And>k. keeps P (stagedRename ue k source target)"
  shows "keeps P (promote_loop ue rootDir source target n)"
  by (induction n) (auto intro!: keeps_intros assms)

lemma keeps_download_chunks:
  assumes "\<And>s g b. P s \<Longrightarrow> P (s\<lparr>u_progress := g, u_broadcast := b\<rparr>)"
    and "\<And>c. keeps P (on_fs (\<lambda>t. Inr (fs_put destination (NFile c now) t)))"
  shows "keeps P (download_chunks artifact failure now destination acc cs)"
  by (induction cs arbitrary: acc) (auto simp: Let_def split: option.split intro!: keeps_intros assms)

lemma keeps_remove_all:
  "(\<And>p. p \<in> set ps \<Longrightarrow> keeps P (safeRemoveContained d p)) \<Longrightarrow> keeps P (remove_all d ps)"
  by (induction ps) (auto simp: try_remove_def intro!: keeps_intros)

abbreviation verified_is :: "VerifiedManagedRuntime option \<Rightarrow> updater \<Rightarrow> bool" where
  "verified_is V s \<equiv> u_verified s = V"

lemma verified_on_fs: "keeps (verified_is V) (on_fs f)"
  by (rule keeps_on_fs) simp

lemma verified_assertManaged: "keeps (verified_is V) (assertManagedDirectory ue dir)"
  unfolding assertManagedDirectory_def by (auto intro!: keeps_intros verified_on_fs)

lemma verified_safeRemove: "keeps (verified_is V) (safeRemoveContained d p)"
  unfolding safeRemoveContained_def assertContained_def by (auto intro!: keeps_intros verified_on_fs)

lemma verified_writeMeta: "keeps (verified_is V) (writeMeta ue m)"
  unfolding writeMeta_def by (auto intro!: keeps_intros verified_on_fs verified_assertManaged verified_safeRemove)

lemma verified_promote: "keeps (verified_is V) (promoteStagedDirectory ue d p q)"
  unfolding promoteStagedDirectory_def assertContained_def
  by (auto intro!: keeps_intros keeps_promote_loop verified_assertManaged verified_on_fs
      simp: stagedRename_def split: option.split)

lemma verified_download: "keeps (verified_is V) (downloadExecutable ue a u d v)"
  unfolding downloadExecutable_def
  by (auto intro!: keeps_intros keeps_download_chunks verified_on_fs split: option.split)

lemma verified_install: "keeps (verified_is V) (installVersion ue manifest url)"
  unfolding installVersion_def check_installed_def stage_and_promote_def remove_staging_def sha256OfFile_def Let_def
  by (auto intro!: keeps_intros verified_on_fs verified_assertManaged verified_safeRemove verified_writeMeta
      verified_promote verified_download split: option.split)

section \<open>What keeps the executable in place\<close>

abbreviation runtime_is :: "VerifiedManagedRuntime option \<Rightarrow> path \<Rightarrow> node \<Rightarrow> updater \<Rightarrow> bool" where
  "runtime_is V p n s \<equiv> u_verified s = V \<and> lookup (u_fs s) p = Some n"

lemma keeps_grows:
  assumes "grows m" "\<And>(s::updater) (s'::updater). P s \<Longrightarrow> extends (u_fs s) (u_fs s') \<Longrightarrow> P (s\<lparr>u_fs := u_fs s'\<rparr>)"
  shows "keeps P m"
  unfolding triple_def
proof (intro allI impI)
  fix s assume P: "P s"
  obtain r s' where run: "m s = (r, s')" by fastforce
  with assms(1) have ext: "extends (u_fs s) (u_fs s')" and eq: "s' = s\<lparr>u_fs := u_fs s'\<rparr>" by (auto simp: grows_def)
  have "P s'" by (subst eq) (rule assms(2) [OF P ext])
  with run show "case m s of (Inr x, s') \<Rightarrow> P s' | (Inl e, s') \<Rightarrow> P s'" by (simp split: sum.split)
qed

lemma runtime_grows: "grows m \<Longrightarrow> keeps (runtime_is V p n) m"
  by (rule keeps_grows) (auto simp: extends_def)

lemma create_frame: "fs_create now q c t = Inr t' \<Longrightarrow> lookup t p = Some n \<Longrightarrow> lookup t' p = Some n"
  using extends_put [of q t "NFile c now"] by (cases "q = []") (auto simp: fs_create_Inr extends_def lookup_def)

lemma rename_frame:
  "fs_rename q q' t = Inr t' \<Longrightarrow> \<not> below q p \<Longrightarrow> \<not> below q' p \<Longrightarrow> lookup t' p = lookup t p"
  by (cases "q = [] \<or> q' = []")
     (auto simp: fs_rename_def below_def lookup_move_other split: option.splits if_splits sum.splits)

lemma rm_frame: "fs_rm rec q t = Inr t' \<Longrightarrow> \<not> below q p \<Longrightarrow> lookup t' p = lookup t p"
  by (cases "q = []") (auto simp: fs_rm_def lookup_prune below_def split: option.splits if_splits)

lemma runtime_create: "keeps (runtime_is V p n) (on_fs (fs_create now q c))"
  by (rule keeps_on_fs) (auto dest: create_frame)

lemma runtime_rename: "\<not> below q p \<Longrightarrow> \<not> below q' p \<Longrightarrow> keeps (runtime_is V p n) (on_fs (fs_rename q q'))"
  by (rule keeps_on_fs) (auto simp: rename_frame)

lemma runtime_safeRemove: "\<not> below q p \<Longrightarrow> keeps (runtime_is V p n) (safeRemoveContained d q)"
  unfolding safeRemoveContained_def assertContained_def
  by (auto intro!: keeps_intros keeps_on_fs simp: rm_frame)

definition uuid_shape :: "string \<Rightarrow> bool" where
  "uuid_shape u = (length u = 36 \<and> list_all (\<lambda>c. is_hex_lower c \<or> c = CHR ''-'') u)"

lemma uuid_no_slash: "uuid_shape u \<Longrightarrow> CHR ''/'' \<notin> set u"
  by (force simp: uuid_shape_def list_all_iff is_hex_lower_def is_digit_def)

lemma temp_name: "uuid_shape u \<Longrightarrow>
    resolveWithin r [''.version.'' @ u @ ''.tmp''] = Inr (r @ [''.version.'' @ u @ ''.tmp''])"
  by (rule resolveWithin_plain) (simp add: plain_segment_def uuid_no_slash)

lemma runtime_writeMeta:
  assumes "uuid_shape (ue_uuid ue)"
  shows "keeps (runtime_is V (getRuntimeDir ue @ ''versions'' # w) n) (writeMeta ue m)"
  unfolding writeMeta_def getMetaPath_eq temp_name [OF assms] io_bind_lift_Inr
  by (auto intro!: keeps_then keeps_finally keeps_catch keeps_bind runtime_grows [OF grows_assertManaged] runtime_create
      runtime_rename runtime_safeRemove simp: below_iff)

section \<open>Names\<close>

lemma hd_split_char: "hd (split_char d s) \<noteq> [] \<Longrightarrow> s \<noteq> [] \<and> hd s = hd (hd (split_char d s))"
  by (cases s) (auto split: list.splits)

lemma VERSION_hd: "VERSION_RE v \<Longrightarrow> v \<noteq> [] \<and> is_digit (hd v)"
proof -
  assume v: "VERSION_RE v"
  define ps where "ps = split_char (CHR ''.'') (version_core v)"
  have "numeric_id (hd ps)" using v by (cases ps) (auto simp: VERSION_RE_def ps_def Let_def)
  then have "version_core v \<noteq> []" "is_digit (hd (version_core v))"
    using hd_split_char [of "CHR ''.''" "version_core v"]
    by (auto simp: ps_def numeric_id_def list_all_iff)
  then show ?thesis by (cases v) (auto simp: version_core_def split: if_splits)
qed

lemma PARTIAL_hd: "PARTIAL_DIR_RE d \<Longrightarrow> d \<noteq> [] \<and> hd d = CHR ''.''"
  by (auto simp: PARTIAL_DIR_RE_def)

lemma expected_dir_not_partial: "VERSION_RE (lv_version manifest) \<Longrightarrow> \<not> PARTIAL_DIR_RE (expected_dir manifest a)"
  using VERSION_hd [of "lv_version manifest"] PARTIAL_hd [of "expected_dir manifest a"]
  by (auto simp: expected_dir_def is_digit_def)

section \<open>The manifest\<close>

lemma validateVersion_Inr: "validateVersion x = Inr v \<longleftrightarrow> x = Str v \<and> length v \<le> 80 \<and> VERSION_RE v"
  by (cases x) (auto simp: validateVersion_def)

lemma validateHash_Inr: "validateHash x = Inr h \<longleftrightarrow> (\<exists>s. x = Str s \<and> HASH_RE s \<and> h = to_lower s)"
  by (cases x) (auto simp: validateHash_def)

lemma lower_char_facts: "lower_char (lower_char c) = lower_char c" "is_hex c \<Longrightarrow> is_hex_lower (lower_char c)"
  by (auto simp: lower_char_def is_upper_def is_hex_def is_hex_lower_def is_digit_def)

abbreviation lower_hash :: "string \<Rightarrow> bool" where
  "lower_hash h \<equiv> HASH_RE h \<and> list_all is_hex_lower h \<and> to_lower h = h"

lemma to_lower_hash: "HASH_RE s \<Longrightarrow> lower_hash (to_lower s)"
  by (auto simp: HASH_RE_def to_lower_def list_all_iff lower_char_facts is_hex_def)

lemma parseArtifact_hash: "parseArtifact x = Inr a \<Longrightarrow> lower_hash (ra_sha256 a)"
  using to_lower_hash
  by (auto simp: parseArtifact_def bind_result_Inr_iff validateHash_Inr split: if_splits jsval.splits)

lemma parse_artifacts_set:
  "parse_artifacts recs = Inr as1 \<Longrightarrow> (k, a) \<in> set as1 \<Longrightarrow> lower_hash (ra_sha256 a)"
  by (induction recs arbitrary: as1 rule: parse_artifacts.induct)
     (auto simp: bind_result_Inr_iff dest: parseArtifact_hash split: if_splits)

lemma parse_artifacts_get: "parse_artifacts recs = Inr as1 \<Longrightarrow> map_of as1 k = Some a \<Longrightarrow> lower_hash (ra_sha256 a)"
  by (meson map_of_SomeD parse_artifacts_set)

lemma parseSignedManifest_facts:
  assumes "parseSignedManifest ue bytes channel = Inr m"
  shows "lv_channel m = channel" "length (lv_version m) \<le> 80" "VERSION_RE (lv_version m)"
    and "artifact_for ue' m = Some a \<Longrightarrow> lower_hash (ra_sha256 a)"
  using assms
  by (auto simp: parseSignedManifest_def bind_result_Inr_iff validateVersion_Inr artifact_for_def
      split: option.splits if_splits dest: parse_artifacts_get)

lemma parsePinned_ed25519: "parsePinnedPublicKey ue = Inr key \<Longrightarrow> asymmetricKeyType key = ''ed25519''"
  by (auto simp: parsePinnedPublicKey_def Let_def bind_result_Inr_iff split: if_splits)

lemma runtimeManifestUrl_https: "runtimeManifestUrl ue = Inr u \<Longrightarrow> url_protocol u = ''https:''"
  by (auto simp: runtimeManifestUrl_def Let_def split: if_splits option.splits)

lemma fetch_facts:
  assumes "fetchLatestVersion ue channel = Inr manifest"
  obtains manifestUrl key signedBytes signature artifact u where
    "runtimeManifestUrl ue = Inr manifestUrl" "parsePinnedPublicKey ue = Inr key"
    "ue_verify ue signedBytes key signature" "parseSignedManifest ue signedBytes channel = Inr manifest"
    "artifact_for ue manifest = Some artifact" "validateArtifactUrl ue (ra_url artifact) manifestUrl = Inr u"
  using assms
  by (auto simp: fetchLatestVersion_def bind_result_Inr_iff split: if_splits option.splits)

section \<open>Verifying an installed executable\<close>

definition executable_path :: "updater_env \<Rightarrow> LatestVersionResponse \<Rightarrow> RuntimeArtifact \<Rightarrow> path" where
  "executable_path ue manifest artifact =
     getRuntimeDir ue @ [''versions'', expected_dir manifest artifact, executableBasename ue]"

lemma triple_grows_post: "grows m \<Longrightarrow> m s = (r, s') \<Longrightarrow> extends (u_fs s) (u_fs s') \<and> u_verified s' = u_verified s"
  unfolding grows_def by (metis updater.select_convs(4) updater.surjective updater.update_convs(1))

lemma bind_read_fs:
  "io_bind (read_fs f) g s = (case f (u_fs s) of Inl e \<Rightarrow> (Inl e, s) | Inr x \<Rightarrow> g x s)"
  by (simp add: io_bind_def read_fs_def split: sum.split)

lemma is_file_iff: "is_file n \<longleftrightarrow> (\<exists>c m. n = NFile c m)"
  by (cases n) auto

lemma managedExecutable_result:
  assumes "managedExecutablePath ue meta s = (Inr (Some p), s')"
  shows "\<exists>d c m. vm_dir meta = Some d \<and> ARTIFACT_DIR_RE d
           \<and> p = getRuntimeDir ue @ [''versions'', d, executableBasename ue]
           \<and> lookup (u_fs s') p = Some (NFile c m)"
  using assms
  by (auto simp: managedExecutablePath_def getVersionsDir_eq io_catch_def io_bind_def [of "assertManagedDirectory ue _"]
      bind_read_fs io_then_def resolveWithin_plain ARTIFACT_DIR_plain executable_plain io_return_def fs_lstat_def
      is_file_iff split: option.splits if_splits prod.splits sum.splits)

lemma verify_unverified:
  assumes "verifyManagedRuntime ue meta manifest artifact configId s = (r, s')"
  shows "extends (u_fs s) (u_fs s')" and "r \<noteq> Inr True \<Longrightarrow> u_verified s' = u_verified s"
proof -
  obtain r1 s1 where run: "managedExecutablePath ue meta s = (r1, s1)" by fastforce
  then have s1: "extends (u_fs s) (u_fs s1)" "u_verified s1 = u_verified s"
    using triple_grows_post [OF grows_managedExecutable] by auto
  have "u_fs s' = u_fs s1 \<and> (r \<noteq> Inr True \<longrightarrow> u_verified s' = u_verified s1) \<or> s' = s"
    using assms run
    by (auto simp: verifyManagedRuntime_def sha256OfFile_def io_bind_def [of "managedExecutablePath ue meta"]
        io_bind_def [of "io_bind _ _"] bind_read_fs io_return_def io_then_def
        io_bind_def [of "io_update _"] io_update_def
        split: if_splits prod.splits sum.splits option.splits)
  with s1 show "extends (u_fs s) (u_fs s')" "r \<noteq> Inr True \<Longrightarrow> u_verified s' = u_verified s" by auto
qed

lemma verify_verified:
  assumes "verifyManagedRuntime ue meta manifest artifact configId s = (Inr True, s')"
  obtains c m where
    "vm_dir meta = Some (expected_dir manifest artifact)" "ARTIFACT_DIR_RE (expected_dir manifest artifact)"
    "u_verified s' = Some \<lparr>vr_configId = configId, vr_path = executable_path ue manifest artifact,
                           vr_version = lv_version manifest\<rparr>"
    "lookup (u_fs s') (executable_path ue manifest artifact) = Some (NFile c m)"
    "ue_sha256 ue c = to_lower (ra_sha256 artifact)"
proof -
  from assms have d: "vm_dir meta = Some (expected_dir manifest artifact)"
    by (auto simp: verifyManagedRuntime_def io_return_def split: if_splits)
  from assms obtain p s1 where p: "managedExecutablePath ue meta s = (Inr (Some p), s1)"
    and rest: "fs_read (u_fs s1) p = Inr c \<Longrightarrow> ue_sha256 ue c = to_lower (ra_sha256 artifact)
          \<and> s' = s1\<lparr>u_verified := Some \<lparr>vr_configId = configId, vr_path = p, vr_version = lv_version manifest\<rparr>\<rparr>" for c
    by (auto simp: verifyManagedRuntime_def sha256OfFile_def io_bind_def [of "managedExecutablePath ue meta"]
        io_bind_def [of "io_bind _ _"] bind_read_fs io_return_def io_then_def
        io_bind_def [of "io_update _"] io_update_def
        split: if_splits prod.splits sum.splits option.splits)
  from managedExecutable_result [OF p] d obtain c m where
    c: "p = executable_path ue manifest artifact" "lookup (u_fs s1) p = Some (NFile c m)"
      "ARTIFACT_DIR_RE (expected_dir manifest artifact)"
    by (auto simp: executable_path_def)
  with rest [OF lookup_file_read [OF c(2)]] d show ?thesis by (intro that [of c m]) simp_all
qed

section \<open>Pruning keeps the active version\<close>

lemma runtime_remove_all:
  assumes "\<And>q. q \<in> set ps \<Longrightarrow> \<not> below q p"
  shows "keeps (runtime_is V p n) (remove_all d ps)"
  using assms by (intro keeps_remove_all runtime_safeRemove) blast

lemma prune_candidates_set:
  "q \<in> set (prune_candidates d active entries t) \<Longrightarrow> \<exists>e. q = d @ [e] \<and> Some e \<noteq> active \<and> ARTIFACT_DIR_RE e"
  by (auto simp: prune_candidates_def set_sort_cmp)

text \<open>The entries of the versions directory that a pruning may remove.\<close>

definition prunable :: "string option \<Rightarrow> string \<Rightarrow> bool" where
  "prunable active e = (PARTIAL_DIR_RE e \<or> ARTIFACT_DIR_RE e \<and> Some e \<noteq> active)"

lemma runtime_remove_candidates:
  assumes "\<And>e. below (d @ [e]) p \<Longrightarrow> \<not> prunable active e"
  shows "keeps (runtime_is V p n)
     (io_bind (io_get (\<lambda>s. prune_candidates d active entries (u_fs s))) (\<lambda>candidates. remove_all d (drop k candidates)))"
    (is "keeps ?R _")
proof (rule triple_bind [where R = "\<lambda>c s. ?R s \<and> (\<forall>q\<in>set c. \<not> below q p)"])
  show "triple (\<lambda>s. ?R s \<and> (\<forall>q\<in>set c. \<not> below q p)) (remove_all d (drop k c)) (\<lambda>_. ?R) (\<lambda>_. ?R)" for c
  proof (cases "\<forall>q\<in>set c. \<not> below q p")
    case True
    then have "keeps ?R (remove_all d (drop k c))" by (intro runtime_remove_all) (meson in_set_dropD)
    then show ?thesis by (rule triple_weaken) auto
  qed (auto simp: triple_def)
qed (use assms in \<open>auto simp: prunable_def dest!: prune_candidates_set\<close>)

lemma runtime_remove_partials:
  assumes "\<And>e. below (d @ [e]) p \<Longrightarrow> \<not> prunable active e"
  shows "keeps (runtime_is V p n) (remove_all d (map (\<lambda>e. d @ [e]) (filter PARTIAL_DIR_RE es)))"
  by (rule runtime_remove_all) (use assms in \<open>auto simp: prunable_def\<close>)

lemma assertManaged_there: "fs_exists (u_fs s) d \<Longrightarrow> snd (assertManagedDirectory ue d s) = s"
  by (auto simp: assertManagedDirectory_def io_defs read_fs_def split: sum.split)

lemma prune_frame:
  assumes kept: "\<And>e. below (getRuntimeDir ue @ [''versions''] @ [e]) p \<Longrightarrow> \<not> prunable active e"
  shows "triple (\<lambda>s. runtime_is V p n s \<and> vm_dir (meta_or_empty ue (u_fs s)) = active) (pruneOldVersions ue keep)
           (\<lambda>_. runtime_is V p n) (\<lambda>_. runtime_is V p n)"
proof -
  define d where "d = getRuntimeDir ue @ [''versions'']"
  have kept': "\<And>e. below (d @ [e]) p \<Longrightarrow> \<not> prunable active e" using kept by (simp add: d_def)
  let ?R = "runtime_is V p n" and ?P = "\<lambda>s. runtime_is V p n s \<and> vm_dir (meta_or_empty ue (u_fs s)) = active"
  have assertP: "triple (\<lambda>s. ?P s \<and> fs_exists (u_fs s) d) (assertManagedDirectory ue d) (\<lambda>_. ?P) (\<lambda>_. ?R)"
    using assertManaged_there [of _ d ue] by (fastforce simp: triple_def split: prod.split sum.split)
  have rest: "triple (\<lambda>s. ?R s \<and> active' = active) (io_bind (read_fs (\<lambda>t. fs_readdir t d)) (\<lambda>entries.
        io_then (remove_all d (map (\<lambda>e. d @ [e]) (filter PARTIAL_DIR_RE entries)))
        (io_bind (io_get (\<lambda>s. prune_candidates d active' entries (u_fs s))) (\<lambda>candidates.
           remove_all d (drop (keep - (if active' \<noteq> None then 1 else 0)) candidates)))))
        (\<lambda>_. ?R) (\<lambda>_. ?R)" for active'
  proof (cases "active' = active")
    case True
    show ?thesis unfolding True
      by (rule triple_weaken [OF keeps_bind [OF keeps_read keeps_then
            [OF runtime_remove_partials [OF kept'] runtime_remove_candidates [OF kept']]]]) auto
  qed (simp add: triple_def)
  have body: "triple (\<lambda>s. ?P s \<and> there = fs_exists (u_fs s) d) (if \<not> there then io_return () else
       io_then (assertManagedDirectory ue d)
       (io_bind (io_get (\<lambda>s. vm_dir (meta_or_empty ue (u_fs s)))) (\<lambda>active.
        io_bind (read_fs (\<lambda>t. fs_readdir t d)) (\<lambda>entries.
        io_then (remove_all d (map (\<lambda>e. d @ [e]) (filter PARTIAL_DIR_RE entries)))
        (io_bind (io_get (\<lambda>s. prune_candidates d active entries (u_fs s))) (\<lambda>candidates.
           remove_all d (drop (keep - (if active \<noteq> None then 1 else 0)) candidates))))))) (\<lambda>_. ?R) (\<lambda>_. ?R)" for there
  proof (cases there)
    case True
    then have eq: "there = True" by simp
    show ?thesis
      unfolding eq not_True_eq_False if_False
      by (rule triple_then [where R = ?P, OF triple_weaken [OF assertP] triple_bind [OF _ rest]]) auto
  qed simp
  show ?thesis
    unfolding pruneOldVersions_def getVersionsDir_eq io_bind_lift_Inr d_def [symmetric]
    by (rule triple_bind [OF _ body]) simp
qed

lemma prune_keeps_runtime:
  assumes "\<not> PARTIAL_DIR_RE x" "vm_dir m = Some x"
  shows "triple (\<lambda>s. runtime_is V (getRuntimeDir ue @ ''versions'' # x # w) n s \<and> readMeta ue (u_fs s) = Some m)
           (pruneOldVersions ue keep)
           (\<lambda>_. runtime_is V (getRuntimeDir ue @ ''versions'' # x # w) n)
           (\<lambda>_. runtime_is V (getRuntimeDir ue @ ''versions'' # x # w) n)"
  by (rule triple_weaken [OF prune_frame [where active = "Some x"]])
     (use assms in \<open>auto simp: prunable_def below_iff meta_or_empty_def\<close>)

section \<open>What an update leaves behind\<close>

definition signed_runtime :: "updater_env \<Rightarrow> updater \<Rightarrow> bool" where
  "signed_runtime ue s \<longleftrightarrow>
     (\<forall>v. u_verified s = Some v \<longrightarrow>
       (\<exists>manifest artifact c m.
          fetchLatestVersion ue (resolveChannel (ue_env ue)) = Inr manifest
        \<and> artifact_for ue manifest = Some artifact
        \<and> validateManagedRuntimeConfiguration ue = Inr (vr_configId v)
        \<and> vr_version v = lv_version manifest
        \<and> lookup (u_fs s) (vr_path v) = Some (NFile c m)
        \<and> ue_sha256 ue c = ra_sha256 artifact))"

lemma signed_runtime_none: "u_verified s = None \<Longrightarrow> signed_runtime ue s"
  by (simp add: signed_runtime_def)

lemma PARTIAL_plain: "PARTIAL_DIR_RE d \<Longrightarrow> plain_segment d"
proof -
  assume d: "PARTIAL_DIR_RE d"
  define k where "k = length (tl d) - 45"
  define name where "name = take k (tl d)"
  define suffix where "suffix = drop k (tl d)"
  have body: "d = CHR ''.'' # name @ suffix"
    using d PARTIAL_hd [OF d] by (cases d) (simp_all add: name_def suffix_def)
  have facts: "15 \<le> length name" "list_all dir_char (take (length name - 14) name)"
      "take 2 (drop (length name - 14) name) = ''--''" "list_all is_hex (drop (length name - 12) name)"
      "to_lower (take 9 suffix) = ''.partial-''" "list_all (\<lambda>c. is_hex c \<or> c = CHR ''-'') (drop 9 suffix)"
    using d by (auto simp: PARTIAL_DIR_RE_def Let_def name_def suffix_def k_def)
  have hex: "\<not> is_hex (CHR ''/'')" by (simp add: is_hex_def is_hex_lower_def is_digit_def)
  have n12: "length name - 12 = (length name - 14) + 2" using facts(1) by linarith
  have "name = take (length name - 14) name @ ''--'' @ drop (length name - 12) name"
    using facts(3) unfolding n12 by (metis append_take_drop_id drop_drop add.commute)
  moreover have "CHR ''/'' \<notin> set (take (length name - 14) name)" using facts(2) dir_char_no_slash by blast
  moreover have "CHR ''/'' \<notin> set (drop (length name - 12) name)" using facts(4) hex by (auto simp: list_all_iff)
  ultimately obtain u v where "name = u @ ''--'' @ v" "CHR ''/'' \<notin> set u" "CHR ''/'' \<notin> set v" by blast
  then have name: "CHR ''/'' \<notin> set name" by simp
  have "lower_char (CHR ''/'') = CHR ''/''" by (simp add: lower_char_def is_upper_def)
  then have "CHR ''/'' \<in> set (take 9 suffix) \<Longrightarrow> CHR ''/'' \<in> set (to_lower (take 9 suffix))"
    unfolding to_lower_def by (metis image_eqI set_map)
  then have "CHR ''/'' \<notin> set (take 9 suffix)" unfolding facts(5) by auto
  moreover have "CHR ''/'' \<notin> set (drop 9 suffix)" using facts(6) hex by (auto simp: list_all_iff)
  ultimately have "CHR ''/'' \<notin> set suffix" by (metis Un_iff take_drop_subset)
  moreover have "15 < length d" using facts(1) body by simp
  then have "d \<noteq> ''.''" "d \<noteq> ''..''" by auto
  ultimately show ?thesis using name body by (auto simp: plain_segment_def)
qed

lemma entry_resolves: "ARTIFACT_DIR_RE e \<or> PARTIAL_DIR_RE e \<Longrightarrow> resolveWithin d [e] = Inr (d @ [e])"
  using resolveWithin_plain ARTIFACT_DIR_plain PARTIAL_plain by blast

text \<open>A successful verification makes the runtime a signed one, and what follows keeps it so.\<close>

lemma verified_signed:
  assumes "fetchLatestVersion ue (resolveChannel (ue_env ue)) = Inr manifest"
    and "artifact_for ue manifest = Some artifact" "validateManagedRuntimeConfiguration ue = Inr configId"
    and "ue_sha256 ue c = to_lower (ra_sha256 artifact)"
    and "runtime_is (Some \<lparr>vr_configId = configId, vr_path = p, vr_version = lv_version manifest\<rparr>) p (NFile c m) s"
  shows "signed_runtime ue s"
proof -
  from fetch_facts [OF assms(1)] obtain b where "parseSignedManifest ue b (resolveChannel (ue_env ue)) = Inr manifest"
    by metis
  from parseSignedManifest_facts(4) [OF this assms(2)] have "to_lower (ra_sha256 artifact) = ra_sha256 artifact" by simp
  with assms show ?thesis by (auto simp: signed_runtime_def)
qed

lemma signed_after_verify:
  assumes hyp: "fetchLatestVersion ue (resolveChannel (ue_env ue)) = Inr manifest"
      "artifact_for ue manifest = Some artifact" "validateManagedRuntimeConfiguration ue = Inr configId"
    and cont: "\<And>V n. triple (\<lambda>s. runtime_is V (executable_path ue manifest artifact) n s \<and> P s) k
                  (\<lambda>_. runtime_is V (executable_path ue manifest artifact) n) (\<lambda>_. runtime_is V (executable_path ue manifest artifact) n)"
    and stable: "\<And>(s::updater) (s'::updater). P s \<Longrightarrow> extends (u_fs s) (u_fs s') \<Longrightarrow> P s'"
    and fail: "triple (verified_is None) k' (\<lambda>_. signed_runtime ue) (\<lambda>_. signed_runtime ue)"
  shows "triple (\<lambda>s. u_verified s = None \<and> P s)
           (io_bind (verifyManagedRuntime ue meta manifest artifact configId) (\<lambda>b. if b then k else k'))
           (\<lambda>_. signed_runtime ue) (\<lambda>_. signed_runtime ue)"
  unfolding triple_def
proof (intro allI impI)
  fix s assume s: "u_verified s = None \<and> P s"
  obtain r s1 where run: "verifyManagedRuntime ue meta manifest artifact configId s = (r, s1)" by fastforce
  have P1: "P s1" using stable s verify_unverified(1) [OF run] by blast
  show "case io_bind (verifyManagedRuntime ue meta manifest artifact configId) (\<lambda>b. if b then k else k') s of
      (Inr x, s') \<Rightarrow> signed_runtime ue s' | (Inl e, s') \<Rightarrow> signed_runtime ue s'"
  proof (cases "r = Inr True")
    case True
    with run have "verifyManagedRuntime ue meta manifest artifact configId s = (Inr True, s1)" by simp
    then obtain c m where v: "ue_sha256 ue c = to_lower (ra_sha256 artifact)"
      "runtime_is (Some \<lparr>vr_configId = configId, vr_path = executable_path ue manifest artifact,
          vr_version = lv_version manifest\<rparr>) (executable_path ue manifest artifact) (NFile c m) s1"
      by (rule verify_verified) blast
    note after = verified_signed [OF hyp v(1)]
    from cont [unfolded triple_def, rule_format, OF conjI [OF v(2) P1]] show ?thesis
      using run True by (auto simp: io_bind_def split: prod.splits sum.splits intro: after)
  next
    case False
    with verify_unverified(2) [OF run] s have none: "u_verified s1 = None" by simp
    with False run fail [unfolded triple_def, rule_format, OF none] show ?thesis
      by (cases r) (auto simp: io_bind_def intro: signed_runtime_none split: prod.splits sum.splits)
  qed
qed

lemma executable_path_versions:
  "executable_path ue manifest artifact =
   getRuntimeDir ue @ ''versions'' # expected_dir manifest artifact # [executableBasename ue]"
  by (simp add: executable_path_def)

text \<open>The end of an update, from the installation on.\<close>

lemma io_then_guard: "io_then (io_guard b msg) k = (if b then k else io_throw (Thrown msg))"
  by (rule ext) (simp add: io_defs)

lemma prune_after_verify:
  assumes "fetchLatestVersion ue (resolveChannel (ue_env ue)) = Inr manifest"
    and "vm_dir meta = Some (expected_dir manifest artifact)"
  shows "triple (\<lambda>s. runtime_is V (executable_path ue manifest artifact) n s \<and> readMeta ue (u_fs s) = Some meta)
           (io_then (pruneOldVersions ue keep) (io_then (setProgress g) (io_return x)))
           (\<lambda>_. runtime_is V (executable_path ue manifest artifact) n) (\<lambda>_. runtime_is V (executable_path ue manifest artifact) n)"
proof -
  from fetch_facts [OF assms(1)] have "\<not> PARTIAL_DIR_RE (expected_dir manifest artifact)"
    by (metis parseSignedManifest_facts(3) expected_dir_not_partial)
  from prune_keeps_runtime [OF this assms(2)] show ?thesis
    unfolding executable_path_versions
    by (rule triple_then) (auto intro!: triple_then keeps_progress)
qed

lemma install_signed:
  assumes hyp: "fetchLatestVersion ue (resolveChannel (ue_env ue)) = Inr manifest"
      "artifact_for ue manifest = Some artifact" "validateManagedRuntimeConfiguration ue = Inr configId"
  shows "triple (verified_is None)
     (io_then (installVersion ue manifest manifestUrl)
              (io_bind (io_get (\<lambda>s. readMeta ue (u_fs s))) (\<lambda>installed.
               io_bind (case installed of
                          Some m \<Rightarrow> verifyManagedRuntime ue m manifest artifact configId
                        | None \<Rightarrow> io_return False) (\<lambda>verified.
               io_then (io_guard verified ''runtime_post_install_verification_failed'')
              (io_then (pruneOldVersions ue 2) (io_then (setProgress g) (io_return x)))))))
     (\<lambda>_. signed_runtime ue) (\<lambda>_. signed_runtime ue)"
    (is "triple _ (io_then _ (io_bind _ ?rest)) ?S ?E")
proof -
  have rest: "triple (\<lambda>s. u_verified s = None \<and> readMeta ue (u_fs s) = installed) (?rest installed) ?S ?E" for installed
  proof (cases "\<exists>m. installed = Some m \<and> vm_dir m = Some (expected_dir manifest artifact)")
    case True
    then obtain m where m: "installed = Some m" "vm_dir m = Some (expected_dir manifest artifact)" by blast
    show ?thesis
      unfolding io_then_guard m(1) option.case
    proof (rule signed_after_verify [OF hyp])
      show "triple (\<lambda>s. runtime_is V (executable_path ue manifest artifact) n s \<and> readMeta ue (u_fs s) = Some m)
         (io_then (pruneOldVersions ue 2) (io_then (setProgress g) (io_return x)))
         (\<lambda>_. runtime_is V (executable_path ue manifest artifact) n) (\<lambda>_. runtime_is V (executable_path ue manifest artifact) n)" for V n
        by (rule prune_after_verify [OF hyp(1) m(2)])
    qed (auto intro: readMeta_extends signed_runtime_none)
  next
    case False
    then have "(case installed of Some m \<Rightarrow> verifyManagedRuntime ue m manifest artifact configId | None \<Rightarrow> io_return False)
        = (io_return False :: (updater, bool) io)"
      by (auto simp: verifyManagedRuntime_def split: option.split)
    then show ?thesis
      by (auto simp: triple_def io_then_guard io_bind_def io_return_def io_throw_def intro: signed_runtime_none)
  qed
  have inst: "triple (verified_is None) (installVersion ue manifest manifestUrl) (\<lambda>_. verified_is None) ?E"
    by (rule triple_weaken [OF verified_install]) (auto intro: signed_runtime_none)
  show ?thesis
    by (rule triple_then [OF inst triple_bind [OF _ rest]]) simp
qed

lemma meta_signed:
  "triple (verified_is None) (io_then (writeMeta ue m) (io_return x)) (\<lambda>_. signed_runtime ue) (\<lambda>_. signed_runtime ue)"
  by (rule triple_then [where R = "verified_is None", OF triple_weaken [OF verified_writeMeta]])
     (auto intro: signed_runtime_none)

lemma current_signed:
  assumes "uuid_shape (ue_uuid ue)"
    and hyp: "fetchLatestVersion ue (resolveChannel (ue_env ue)) = Inr manifest"
      "artifact_for ue manifest = Some artifact" "validateManagedRuntimeConfiguration ue = Inr configId"
    and fail: "triple (verified_is None) k (\<lambda>_. signed_runtime ue) (\<lambda>_. signed_runtime ue)"
  shows "triple (verified_is None)
     (io_bind (if b then verifyManagedRuntime ue meta manifest artifact configId else io_return False)
        (\<lambda>current. if current then io_then (writeMeta ue m) (io_return x) else k))
     (\<lambda>_. signed_runtime ue) (\<lambda>_. signed_runtime ue)"
proof (cases b)
  case True
  have "triple (\<lambda>s. u_verified s = None \<and> True)
     (io_bind (verifyManagedRuntime ue meta manifest artifact configId)
        (\<lambda>current. if current then io_then (writeMeta ue m) (io_return x) else k))
     (\<lambda>_. signed_runtime ue) (\<lambda>_. signed_runtime ue)"
    by (rule signed_after_verify [OF hyp _ _ fail])
       (auto simp: executable_path_def intro!: keeps_then runtime_writeMeta assms)
  with True show ?thesis by simp
next
  case False
  have "io_bind (io_return False) f = f False" for f :: "bool \<Rightarrow> (updater, 'a) io"
    by (rule ext) (simp add: io_bind_def io_return_def)
  with False fail show ?thesis by simp
qed

lemma update_body_signed:
  assumes uuid: "uuid_shape (ue_uuid ue)"
    and conf: "validateManagedRuntimeConfiguration ue = Inr configId"
  shows "triple (\<lambda>s. u_verified s = V \<and> u_fs s = t) (update_body ue force manifestUrl configId previous)
     (\<lambda>_. signed_runtime ue) (\<lambda>_ s. (u_verified s = V \<and> u_fs s = t) \<or> signed_runtime ue s)"
proof (cases "fetchLatestVersion ue (resolveChannel (ue_env ue))")
  case (Inl e)
  then show ?thesis by (auto simp: update_body_def triple_def io_bind_def io_lift_def)
next
  case (Inr manifest)
  have "triple (\<lambda>s. u_verified s = V \<and> u_fs s = t) (update_body ue force manifestUrl configId previous)
     (\<lambda>_. signed_runtime ue) (\<lambda>_. signed_runtime ue)"
    unfolding update_body_def Inr io_bind_lift_Inr
    by (rule triple_then [where R = "verified_is None"], simp,
        rule triple_if [OF meta_signed], rule triple_option, simp add: signed_runtime_none,
        rule current_signed [OF uuid Inr _ conf install_signed [OF Inr _ conf]])
  then show ?thesis by (rule triple_weaken) auto
qed

text \<open>Early exits aside, the state after an update is the state after its body.\<close>

lemma checkAndUpdate_cases:
  obtains r where "checkAndUpdate ue force s = (Inr r, s)"
  | manifestUrl configId where
      "runtimeManifestUrl ue = Inr manifestUrl" "validateManagedRuntimeConfiguration ue = Inr configId" "\<not> u_updating s"
      "configuredExternalExecutable ue (u_fs s) = None"
      "checkAndUpdate ue force s =
       io_finally
         (io_catch (update_body ue force manifestUrl configId (meta_or_empty ue (u_fs s)))
            (\<lambda>e. io_then (setProgress (\<lambda>p. p\<lparr>pg_stage := ''error'', pg_error := Some (error_message e)\<rparr>))
                         (io_return (no_update (Some (error_message e))))))
         (io_update (\<lambda>s. s\<lparr>u_updating := False\<rparr>)) (s\<lparr>u_updating := True\<rparr>)"
proof (cases "configuredExternalExecutable ue (u_fs s) \<noteq> None \<or> u_updating s")
  case True
  then have "\<exists>r. checkAndUpdate ue force s = (Inr r, s)" by (auto simp: checkAndUpdate_def io_return_def)
  then show ?thesis using that(1) by blast
next
  case False
  show ?thesis
  proof (cases "\<exists>u c. runtimeManifestUrl ue = Inr u \<and> validateManagedRuntimeConfiguration ue = Inr c
      \<and> \<not> (\<not> force \<and> currentVerifiedManagedRuntime ue s \<noteq> None
             \<and> of_nat (ue_now ue) - vm_last_check (meta_or_empty ue (u_fs s)) < of_nat CHECK_INTERVAL_MS)")
    case True
    with False show ?thesis by (auto simp: checkAndUpdate_def Let_def intro: that(2))
  next
    case noupd: False
    with False have "\<exists>r. checkAndUpdate ue force s = (Inr r, s)"
      by (auto simp: checkAndUpdate_def io_return_def Let_def split: sum.splits)
    then show ?thesis using that(1) by blast
  qed
qed

lemma update_run:
  "io_finally
     (io_catch m (\<lambda>e. io_then (setProgress (\<lambda>p. p\<lparr>pg_stage := ''error'', pg_error := Some (error_message e)\<rparr>))
                              (io_return (no_update (Some (error_message e))))))
     (io_update (\<lambda>s. s\<lparr>u_updating := False\<rparr>)) s =
   (case m s of
      (Inr r, s') \<Rightarrow> (Inr r, s'\<lparr>u_updating := False\<rparr>)
    | (Inl e, s') \<Rightarrow>
        (Inr (no_update (Some (error_message e))),
         s'\<lparr>u_updating := False, u_progress := (u_progress s')\<lparr>pg_stage := ''error'', pg_error := Some (error_message e)\<rparr>,
            u_broadcast := u_broadcast s' @ [(u_progress s')\<lparr>pg_stage := ''error'', pg_error := Some (error_message e)\<rparr>]\<rparr>))"
  by (simp add: io_finally_def io_catch_def io_then_def io_bind_def io_update_def io_return_def setProgress_def
      split: prod.split sum.split)

lemma signed_runtime_cong:
  "u_verified s' = u_verified s \<Longrightarrow> u_fs s' = u_fs s \<Longrightarrow> signed_runtime ue s' = signed_runtime ue s"
  by (simp add: signed_runtime_def)

lemma checkAndUpdate_signed:
  assumes "uuid_shape (ue_uuid ue)" "checkAndUpdate ue force s = (r, s')"
  shows "(u_verified s' = u_verified s \<and> u_fs s' = u_fs s) \<or> signed_runtime ue s'"
proof (rule checkAndUpdate_cases [of ue force s])
  fix manifestUrl configId
  assume conf: "validateManagedRuntimeConfiguration ue = Inr configId"
    and run: "checkAndUpdate ue force s =
       io_finally
         (io_catch (update_body ue force manifestUrl configId (meta_or_empty ue (u_fs s)))
            (\<lambda>e. io_then (setProgress (\<lambda>p. p\<lparr>pg_stage := ''error'', pg_error := Some (error_message e)\<rparr>))
                         (io_return (no_update (Some (error_message e))))))
         (io_update (\<lambda>s. s\<lparr>u_updating := False\<rparr>)) (s\<lparr>u_updating := True\<rparr>)"
  let ?m = "update_body ue force manifestUrl configId (meta_or_empty ue (u_fs s))"
  obtain r1 s1 where m: "?m (s\<lparr>u_updating := True\<rparr>) = (r1, s1)" by fastforce
  note body = update_body_signed [OF assms(1) conf, of "u_verified s" "u_fs s" force manifestUrl "meta_or_empty ue (u_fs s)"]
  have "(u_verified s1 = u_verified s \<and> u_fs s1 = u_fs s) \<or> signed_runtime ue s1"
  proof (cases r1)
    case (Inl e)
    show ?thesis using tripleD_throw [OF body _ m [unfolded Inl]] by simp
  next
    case (Inr x)
    show ?thesis using tripleD_return [OF body _ m [unfolded Inr]] by simp
  qed
  moreover have "u_verified s' = u_verified s1 \<and> u_fs s' = u_fs s1"
    using assms(2) m unfolding run update_run by (auto split: sum.splits)
  ultimately show ?thesis using signed_runtime_cong by metis
qed (use assms in auto)


text \<open>
  C15. An update never throws, whatever the file system, the network and the rename
  faults do: it answers with a result, and the flag that keeps a second update out is
  what it was before: up only if another update was running, which then was left alone.
\<close>

theorem update_always_returns:
  "(\<exists>r. fst (checkAndUpdate ue force s) = Inr r) \<and> u_updating (snd (checkAndUpdate ue force s)) = u_updating s"
  by (rule checkAndUpdate_cases [of ue force s]) (auto simp: update_run split: prod.split sum.split)

end
