(* ===== verification/RuntimeProps.thy ===== *)
theory RuntimeProps
  imports RuntimeSafety
begin

text \<open>
  Properties of the single operations of the runtime updater: the containment test, the
  authenticated manifest, versions and directory names, the metadata file, the promotion
  of a staged directory and the pruning of old ones; and a concrete run.
\<close>

section \<open>Manifests\<close>

text \<open>
  C16. \<open>fetchLatestVersion\<close> returns only what the operator pinned: the manifest URL is
  https, the pinned key is an Ed25519 key, some bytes verify under that key and the
  manifest is the parse of exactly these bytes for the requested channel; its version
  and the hash of this platform's artifact are well formed, and the artifact's URL is
  https without credentials on the origin of the manifest or on an opted-in origin.
\<close>

theorem manifest_is_authenticated:
  assumes "fetchLatestVersion ue channel = Inr manifest"
  shows "\<exists>manifestUrl key signedBytes signature artifact u.
     runtimeManifestUrl ue = Inr manifestUrl \<and> url_protocol manifestUrl = ''https:''
   \<and> parsePinnedPublicKey ue = Inr key \<and> asymmetricKeyType key = ''ed25519''
   \<and> ue_verify ue signedBytes key signature
   \<and> parseSignedManifest ue signedBytes channel = Inr manifest
   \<and> lv_channel manifest = channel \<and> VERSION_RE (lv_version manifest)
   \<and> artifact_for ue manifest = Some artifact \<and> lower_hash (ra_sha256 artifact)
   \<and> new_URL (ue_runtime ue) (ra_url artifact) = Some u \<and> url_protocol u = ''https:''
   \<and> url_username u = [] \<and> url_password u = []
   \<and> (url_origin u = url_origin manifestUrl
      \<or> ue_env ue ''AWP_AGENT_RUNTIME_CROSS_ORIGIN_OPT_IN'' = Some ''1'')"
proof -
  from assms obtain manifestUrl key signedBytes signature artifact u where
    f: "runtimeManifestUrl ue = Inr manifestUrl" "parsePinnedPublicKey ue = Inr key"
      "ue_verify ue signedBytes key signature" "parseSignedManifest ue signedBytes channel = Inr manifest"
      "artifact_for ue manifest = Some artifact" "validateArtifactUrl ue (ra_url artifact) manifestUrl = Inr u"
    by (rule fetch_facts)
  have u: "new_URL (ue_runtime ue) (ra_url artifact) = Some u" "url_protocol u = ''https:''"
      "url_username u = []" "url_password u = []"
      "url_origin u = url_origin manifestUrl \<or> ue_env ue ''AWP_AGENT_RUNTIME_CROSS_ORIGIN_OPT_IN'' = Some ''1''"
    using f(6) by (auto simp: validateArtifactUrl_def Let_def split: option.splits if_splits)
  from f u parsePinned_ed25519 runtimeManifestUrl_https parseSignedManifest_facts [OF f(4)]
  show ?thesis by blast
qed

section \<open>Containment\<close>

text \<open>
  What \<open>resolveWithin\<close> lets through: whatever the segments, the result lies strictly
  below the root, or it is the directory above the root.
\<close>

lemma resolve_within_cases:
  assumes "resolveWithin r segments = Inr p"
  shows "(\<exists>w ws. p = r @ w # ws) \<or> (r \<noteq> [] \<and> p = butlast r)"
proof -
  from assms have "contained r p" by (auto simp: resolveWithin_def Let_def split: if_splits)
  from contained_cases [OF this] show ?thesis by (metis neq_Nil_conv)
qed

text \<open>
  The directory above the root does pass: the test rejects relative paths that start
  with \<open>../\<close> but not \<open>..\<close> itself, so \<open>safeRemoveContained(root, parent)\<close>
  deletes the parent, the root and everything below it.
\<close>

theorem parent_passes_containment:
  assumes "r \<noteq> []" "list_all plain_segment r" "butlast r \<noteq> []"
    and "lookup (u_fs s) (butlast r) = Some (NDir m)"
  shows "resolveWithin r [''..''] = Inr (butlast r)
       \<and> fst (safeRemoveContained r (butlast r) s) = Inr ()
       \<and> lookup (u_fs (snd (safeRemoveContained r (butlast r) s))) r = None"
proof -
  obtain q w where r: "r = q @ [w]" using assms(1) by (metis append_butlast_last_id)
  have "drop_common (q @ [w]) q = ([w], [])" by (induction q) auto
  then have c: "contained r q" by (simp add: contained_def relative_segments_def r)
  have "path_segments ''..'' = [''..'']" "\<not> is_absolute ''..''" by code_simp+
  with assms(2) c have "resolveWithin r [''..''] = Inr q"
    by (simp add: resolveWithin_def resolve_from_def r list_all_iff)
  moreover have "safeRemoveContained r q s = (Inr (), s\<lparr>u_fs := fs_prune q (u_fs s)\<rparr>)"
    using assms(4) c
    by (simp add: r safeRemoveContained_def assertContained_def io_defs fs_exists_def fs_stat_def read_fs_def
        fs_lstat_def on_fs_def fs_rm_def)
  ultimately show ?thesis using assms(3) by (simp add: r lookup_prune)
qed

definition nested_state :: updater where
  "nested_state = \<lparr>u_fs = [([''a''], NDir 1), ([''a'', ''b''], NDir 2)], u_updating = False,
     u_progress = idle_progress, u_verified = None, u_broadcast = []\<rparr>"

theorem parent_passes_containment_witness:
  "resolveWithin [''a'', ''b''] [''..''] = Inr [''a'']
   \<and> lookup (u_fs nested_state) [''a'', ''b''] = Some (NDir 2)
   \<and> lookup (u_fs (snd (safeRemoveContained [''a'', ''b''] [''a''] nested_state))) [''a'', ''b''] = None"
  using parent_passes_containment [of "[''a'', ''b'']" nested_state 1]
  by (simp add: plain_segment_def nested_state_def lookup_def)

section \<open>Versions and names\<close>

definition core3 :: "string \<Rightarrow> nat \<times> nat \<times> nat" where
  "core3 v = (core_at (semverCore v) 0, core_at (semverCore v) 1, core_at (semverCore v) 2)"

text \<open>
  \<open>versionLessThan\<close> is the lexicographic order of major, minor and patch: a
  well-founded strict order in which two versions are incomparable exactly when these
  three numbers agree, whatever their pre-release parts.
\<close>

theorem version_order_lexicographic:
  "(versionLessThan a b \<longleftrightarrow> (core3 a, core3 b) \<in> less_than <*lex*> less_than <*lex*> less_than)
   \<and> (\<not> versionLessThan a b \<and> \<not> versionLessThan b a \<longleftrightarrow> core3 a = core3 b)
   \<and> wfP versionLessThan"
proof -
  have lex: "versionLessThan a b \<longleftrightarrow> (core3 a, core3 b) \<in> less_than <*lex*> less_than <*lex*> less_than" for a b
    by (auto simp: versionLessThan_def Let_def core3_def)
  have "wf (inv_image (less_than <*lex*> less_than <*lex*> less_than) core3)"
    by (intro wf_inv_image wf_lex_prod wf_less_than)
  moreover have "{(a, b). versionLessThan a b} = inv_image (less_than <*lex*> less_than <*lex*> less_than) core3"
    by (auto simp: lex inv_image_def)
  ultimately have "wfP versionLessThan" by (simp add: wfp_def)
  then show ?thesis by (auto simp: versionLessThan_def Let_def core3_def)
qed

lemma numeric_id_dir_char: "numeric_id w \<Longrightarrow> list_all dir_char w"
  by (auto simp: numeric_id_def list_all_iff dir_char_def is_alnum_def)

lemma join_dir_char: "list_all (list_all dir_char) ps \<Longrightarrow> list_all dir_char (join_char (CHR ''.'') ps)"
  by (induction "CHR ''.''" ps rule: join_char.induct) (auto simp: dir_char_def)

lemma VERSION_dir_char: "VERSION_RE v \<Longrightarrow> list_all dir_char v"
proof -
  assume v: "VERSION_RE v"
  let ?core = "version_core v" and ?rest = "drop (length (version_core v)) v"
  have "list_all dir_char (join_char (CHR ''.'') (split_char (CHR ''.'') ?core))"
    using v numeric_id_dir_char
    by (intro join_dir_char) (simp add: VERSION_RE_def Let_def list_all_iff [of numeric_id] list_all_iff [of "list_all dir_char"])
  then have core: "list_all dir_char ?core" by simp
  have split: "v = ?core @ ?rest" by (metis dropWhile_eq_drop takeWhile_dropWhile_id version_core_def)
  have rest: "?rest = dropWhile (\<lambda>c. c \<noteq> CHR ''-'') v"
    unfolding version_core_def by (rule dropWhile_eq_drop [symmetric])
  have "?rest = [] \<or> (\<exists>t. ?rest = CHR ''-'' # t)"
    unfolding rest using hd_dropWhile [of "\<lambda>c. c \<noteq> CHR ''-''" v] by (cases "dropWhile (\<lambda>c. c \<noteq> CHR ''-'') v") auto
  then have "list_all dir_char ?rest"
    using v by (auto simp: VERSION_RE_def Let_def prerelease_id_def dir_char_def)
  with core show ?thesis by (subst split) simp
qed

text \<open>
  The directory of a version always has an admissible name: for every manifest that
  \<open>fetchLatestVersion\<close> returns, the name \<open>installVersion\<close> and
  \<open>verifyManagedRuntime\<close> build from the version and the hash matches
  \<open>ARTIFACT_DIR_RE\<close>, is one plain path segment and never looks like a staging
  directory, so pruning cannot take it for a left-over.
\<close>

lemma artifact_directory_name:
  assumes "fetchLatestVersion ue channel = Inr manifest" "artifact_for ue manifest = Some artifact"
  shows "ARTIFACT_DIR_RE (expected_dir manifest artifact) \<and> plain_segment (expected_dir manifest artifact)
       \<and> \<not> PARTIAL_DIR_RE (expected_dir manifest artifact)"
proof -
  from assms(1) obtain b where m: "parseSignedManifest ue b channel = Inr manifest" by (rule fetch_facts)
  note facts = parseSignedManifest_facts [OF m]
  let ?v = "lv_version manifest" and ?h = "take 12 (ra_sha256 artifact)"
  have h: "length ?h = 12" "list_all is_hex_lower ?h"
    using facts(4) [OF assms(2)] by (auto simp: HASH_RE_def list_all_iff dest: in_set_takeD)
  have "?v \<noteq> []" using VERSION_hd [OF facts(3)] by simp
  then have v: "1 \<le> length ?v" "length ?v \<le> 80" using facts(2) by (cases ?v; simp)+
  have "length ?v + 14 - 14 = length ?v" "length ?v + 14 - 12 = length ?v + 2" by linarith+
  with h v VERSION_dir_char [OF facts(3)] have "ARTIFACT_DIR_RE (expected_dir manifest artifact)"
    by (simp add: ARTIFACT_DIR_RE_def expected_dir_def)
  with expected_dir_not_partial [OF facts(3)] ARTIFACT_DIR_plain show ?thesis by blast
qed

section \<open>The metadata file\<close>

text \<open>What the code relies on of \<open>toString('utf-8')\<close>: ASCII bytes are their own text.\<close>

definition decodes_ascii :: "updater_env \<Rightarrow> bool" where
  "decodes_ascii ue \<longleftrightarrow> (\<forall>s. ascii s \<longrightarrow> ue_utf8 ue s = s)"

lemma ascii_dir_char: "list_all dir_char s \<Longrightarrow> ascii s"
  by (force simp: list_all_iff dir_char_def is_alnum_def is_alpha_def is_digit_def is_lower_def is_upper_def)

definition meta_ok :: "VersionMeta \<Rightarrow> bool" where
  "meta_ok m =
     ((case (vm_version m, vm_dir m) of
         (None, None) \<Rightarrow> True
       | (Some v, Some d) \<Rightarrow> length v \<le> 80 \<and> VERSION_RE v \<and> ARTIFACT_DIR_RE d
       | _ \<Rightarrow> False)
      \<and> as_integer (Fin (vm_last_check m)) \<noteq> None \<and> as_integer (Fin (vm_last_update m)) \<noteq> None)"

lemma ascii_nullable: "(\<And>s. x = Some s \<Longrightarrow> ascii s) \<Longrightarrow> ascii (pretty n (nullable x))"
  by (auto simp: nullable_def ascii_quote split: option.split)

lemma ARTIFACT_DIR_ascii: "ARTIFACT_DIR_RE d \<Longrightarrow> ascii d"
proof -
  assume d: "ARTIFACT_DIR_RE d"
  define k where "k = length d - 14"
  have "length d - 12 = k + 2" using d unfolding ARTIFACT_DIR_RE_def k_def by linarith
  then have "d = take k d @ take 2 (drop k d) @ drop (length d - 12) d"
    by (metis append_take_drop_id drop_drop add.commute)
  moreover have "ascii (take k d)" "ascii (take 2 (drop k d))" "ascii (drop (length d - 12) d)"
    using d by (auto simp: ARTIFACT_DIR_RE_def k_def list_all_iff is_hex_lower_def is_digit_def intro: ascii_dir_char [unfolded list_all_iff, rule_format])
  ultimately show ?thesis by (metis list_all_append)
qed

lemma meta_json_ascii: "meta_ok m \<Longrightarrow> ascii (JSON_stringify_2 (meta_json m))"
proof -
  assume m: "meta_ok m"
  have v: "vm_version m = Some v \<Longrightarrow> VERSION_RE v" and d: "vm_dir m = Some d \<Longrightarrow> ARTIFACT_DIR_RE d" for v d
    using m by (auto simp: meta_ok_def split: option.splits)
  have "ascii (pretty n (nullable (vm_version m)))" for n
    by (rule ascii_nullable) (rule ascii_dir_char [OF VERSION_dir_char [OF v]])
  moreover have "ascii (pretty n (nullable (vm_dir m)))" for n
    by (rule ascii_nullable) (rule ARTIFACT_DIR_ascii [OF d])
  moreover have "nullable x \<noteq> Undefined" for x by (simp add: nullable_def split: option.split)
  moreover have "ascii (quote_string ''current_version'')" "ascii (quote_string ''current_dir'')"
    "ascii (quote_string ''last_check_ms'')" "ascii (quote_string ''last_update_ms'')" by code_simp+
  ultimately show ?thesis
    using ascii_print_int [of "\<lfloor>vm_last_check m\<rfloor>"] ascii_print_int [of "\<lfloor>vm_last_update m\<rfloor>"]
    by (simp add: JSON_stringify_2_def meta_json_def nl_def list_all_iff ball_Un numeral_2_eq_2)
qed

lemma meta_json_roundtrip: "meta_ok m \<Longrightarrow> JSON_parse (JSON_stringify_2 (meta_json m)) = Some (meta_json m)"
  using JSON_parse_stringify_2 [of "meta_json m" "[]"]
  by (simp add: meta_json_def nullable_def meta_ok_def skip_ws_def ends_number_def split: option.splits)

lemma meta_of_json_roundtrip: "meta_ok m \<Longrightarrow> meta_of_json (meta_json m) = Inr m"
  by (cases "vm_version m"; cases "vm_dir m")
     (auto simp: meta_of_json_def meta_json_def asRecord_def nullable_def meta_ok_def validateVersion_def finite_or_zero_def)

lemma rename_moves:
  "fs_rename p q t = Inr t' \<Longrightarrow> p \<noteq> [] \<Longrightarrow> q \<noteq> [] \<Longrightarrow> \<not> below q p \<Longrightarrow> lookup t' q = lookup t p"
  using lookup_move_target [of p q "[]" t]
  by (auto simp: fs_rename_def below_def split: option.splits if_splits sum.splits)

lemma lookup_safeRemove: "\<not> below q p \<Longrightarrow> keeps (\<lambda>s. lookup (u_fs s) p = n) (safeRemoveContained d q)"
  unfolding safeRemoveContained_def assertContained_def
  by (auto intro!: keeps_intros keeps_on_fs simp: rm_frame)

lemma writeMeta_stores:
  assumes "uuid_shape (ue_uuid ue)"
  shows "triple (\<lambda>_. True) (writeMeta ue m)
     (\<lambda>_ s. \<exists>now. lookup (u_fs s) (getRuntimeDir ue @ [''version.json'']) = Some (NFile (JSON_stringify_2 (meta_json m)) now))
     (\<lambda>_ _. True)"
proof -
  let ?temp = "getRuntimeDir ue @ [''.version.'' @ ue_uuid ue @ ''.tmp'']"
    and ?target = "getRuntimeDir ue @ [''version.json'']" and ?c = "JSON_stringify_2 (meta_json m)"
  let ?P = "\<lambda>s. lookup (u_fs s) ?target = Some (NFile ?c (ue_now ue))"
  have apart: "\<not> below ?temp ?target" "\<not> below ?target ?temp" by (auto simp: below_iff)
  have clean: "keeps ?P (io_catch (io_bind (io_get (\<lambda>s. fs_exists (u_fs s) ?temp))
      (\<lambda>there. if there then safeRemoveContained (getRuntimeDir ue) ?temp else io_return ())) (\<lambda>_. io_return ()))"
    using apart(1) by (auto intro!: keeps_intros lookup_safeRemove)
  have create: "triple (\<lambda>_. True) (on_fs (fs_create (ue_now ue) ?temp ?c))
      (\<lambda>_ s. lookup (u_fs s) ?temp = Some (NFile ?c (ue_now ue))) (\<lambda>_ _. True)"
    by (auto simp: triple_def on_fs_def fs_create_Inr lookup_put split: sum.split)
  have rename: "triple (\<lambda>s. lookup (u_fs s) ?temp = Some (NFile ?c (ue_now ue))) (on_fs (fs_rename ?temp ?target))
      (\<lambda>_. ?P) (\<lambda>_ _. True)"
    using rename_moves [OF _ _ _ apart(2)] by (auto simp: triple_def on_fs_def split: sum.split)
  have "triple (\<lambda>_. True) (writeMeta ue m) (\<lambda>_. ?P) (\<lambda>_ _. True)"
    unfolding writeMeta_def getMetaPath_eq temp_name [OF assms] io_bind_lift_Inr
  proof (rule triple_then [where R = "\<lambda>_. True"])
    show "triple (\<lambda>_. True) (io_finally
          (io_then (on_fs (fs_create (ue_now ue) ?temp ?c)) (on_fs (fs_rename ?temp ?target)))
          (io_catch (io_bind (io_get (\<lambda>s. fs_exists (u_fs s) ?temp))
             (\<lambda>there. if there then safeRemoveContained (getRuntimeDir ue) ?temp else io_return ())) (\<lambda>_. io_return ())))
        (\<lambda>_. ?P) (\<lambda>_ _. True)"
      by (rule triple_finally [OF triple_then [OF create rename]], rule triple_weaken [OF clean])
         (auto simp: triple_def split: prod.split sum.split)
  qed (auto simp: triple_def split: prod.split sum.split)
  then show ?thesis by (rule triple_weaken) auto
qed

text \<open>
  The metadata survive a write: when \<open>writeMeta\<close> returns, \<open>readMeta\<close> gives
  back the very record that was written, whatever the tree held before; the temporary
  file and its clean-up never get in the way.
\<close>

theorem meta_written_is_read:
  assumes "uuid_shape (ue_uuid ue)" "decodes_ascii ue" "meta_ok m" "writeMeta ue m s = (Inr (), s')"
  shows "readMeta ue (u_fs s') = Some m"
proof -
  from tripleD_return [OF writeMeta_stores [OF assms(1)] TrueI assms(4)] obtain now where
    f: "lookup (u_fs s') (getRuntimeDir ue @ [''version.json'']) = Some (NFile (JSON_stringify_2 (meta_json m)) now)" ..
  have "ue_utf8 ue (JSON_stringify_2 (meta_json m)) = JSON_stringify_2 (meta_json m)"
    using assms(2) meta_json_ascii [OF assms(3)] by (simp add: decodes_ascii_def)
  with f assms(3) show ?thesis
    by (simp add: readMeta_def getMetaPath_eq fs_exists_def lookup_file_stat lookup_file_read
        meta_json_roundtrip meta_of_json_roundtrip)
qed

section \<open>Promotion of a staged directory\<close>

lemma rename_not_transient: "fs_rename p q t = Inl e \<Longrightarrow> \<not> isTransientSharingViolation e"
  by (auto simp: fs_rename_def isTransientSharingViolation_def split: option.splits if_splits)

definition transient_fault :: "updater_env \<Rightarrow> nat \<Rightarrow> bool" where
  "transient_fault ue k = (case ue_rename_fault ue k of Some c \<Rightarrow> c \<in> {''EPERM'', ''EACCES'', ''EBUSY''} | None \<Rightarrow> False)"

lemma stagedRename_outcome:
  assumes "stagedRename ue k p q s = (r, s')"
  shows "(\<exists>e. r = Inl e \<and> isTransientSharingViolation e) \<longleftrightarrow> transient_fault ue k" and "r = Inl e \<Longrightarrow> s' = s"
  using assms
  by (auto simp: stagedRename_def transient_fault_def io_throw_def on_fs_def isTransientSharingViolation_def
      dest: rename_not_transient split: option.splits sum.splits)

definition deciding_attempt :: "updater_env \<Rightarrow> nat \<Rightarrow> nat" where
  "deciding_attempt ue k =
     (case find (\<lambda>i. \<not> transient_fault ue i) [k..<STAGED_RENAME_RETRIES] of Some i \<Rightarrow> i | None \<Rightarrow> STAGED_RENAME_RETRIES)"

lemma assertManaged_dir: "lookup (u_fs s) d = Some (NDir m) \<Longrightarrow> assertManagedDirectory ue d s = (Inr (), s)"
  by (simp add: assertManagedDirectory_def io_defs read_fs_def fs_exists_def fs_stat_def fs_lstat_def)

lemma promote_loop_conflict:
  assumes "lookup (u_fs s) rootDir = Some (NDir m)" "lookup (u_fs s) source = Some (NDir m')" "fs_exists (u_fs s) target"
  shows "promote_loop ue rootDir source target n s = (Inl (Thrown ''runtime_immutable_version_conflict''), s)"
  using assms by (cases n) (simp_all add: io_defs assertManaged_dir read_fs_def fs_lstat_def)

lemma promote_loop_outcome:
  assumes "lookup (u_fs s) rootDir = Some (NDir m)" "lookup (u_fs s) source = Some (NDir m')"
    and "n \<le> STAGED_RENAME_RETRIES" "\<not> fs_exists (u_fs s) target"
  shows "promote_loop ue rootDir source target n s =
           stagedRename ue (deciding_attempt ue (STAGED_RENAME_RETRIES - n)) source target s"
  using assms(3)
proof (induction n)
  case 0
  then show ?case using assms by (simp add: io_defs assertManaged_dir read_fs_def fs_lstat_def deciding_attempt_def)
next
  case (Suc n)
  define k where "k = STAGED_RENAME_RETRIES - Suc n"
  have k: "k < STAGED_RENAME_RETRIES" "STAGED_RENAME_RETRIES - n = Suc k" using Suc.prems by (auto simp: k_def)
  obtain r s' where run: "stagedRename ue k source target s = (r, s')" by fastforce
  have step: "promote_loop ue rootDir source target (Suc n) s =
      (case r of Inr u \<Rightarrow> (Inr u, s')
       | Inl e \<Rightarrow> if isTransientSharingViolation e then promote_loop ue rootDir source target n s' else (Inl e, s'))"
    using assms run
    by (simp add: io_defs assertManaged_dir read_fs_def fs_lstat_def k_def [symmetric] split: sum.split)
  note out = stagedRename_outcome [OF run]
  show ?case
  proof (cases "transient_fault ue k")
    case True
    with out(1) obtain e where e: "r = Inl e" "isTransientSharingViolation e" by blast
    have "deciding_attempt ue k = deciding_attempt ue (Suc k)" using True k by (simp add: deciding_attempt_def upt_conv_Cons)
    with e out(2) step k Suc show ?thesis by (simp add: k_def [symmetric])
  next
    case False
    with k have "deciding_attempt ue k = k" by (simp add: deciding_attempt_def upt_conv_Cons)
    with False out step run show ?thesis by (auto simp: k_def [symmetric] split: sum.splits)
  qed
qed

text \<open>
  C17. Promotion, for any pattern of rename faults: an existing target is never replaced;
  otherwise the outcome is that of the first of at most eight attempts that does not
  fail with a sharing violation, or of the eighth, and a failure leaves the tree as it was.
\<close>

theorem promotion_outcome:
  assumes "contained rootDir source" "contained rootDir target"
    and "lookup (u_fs s) rootDir = Some (NDir m)" "lookup (u_fs s) source = Some (NDir m')"
  shows "promoteStagedDirectory ue rootDir source target s =
           (if fs_exists (u_fs s) target then (Inl (Thrown ''runtime_immutable_version_conflict''), s)
            else stagedRename ue (deciding_attempt ue 0) source target s)
       \<and> deciding_attempt ue 0 \<le> 7 \<and> (\<forall>k < deciding_attempt ue 0. transient_fault ue k)
       \<and> (\<forall>e. fst (promoteStagedDirectory ue rootDir source target s) = Inl e
             \<longrightarrow> snd (promoteStagedDirectory ue rootDir source target s) = s)"
proof -
  have run: "promoteStagedDirectory ue rootDir source target s =
           (if fs_exists (u_fs s) target then (Inl (Thrown ''runtime_immutable_version_conflict''), s)
            else stagedRename ue (deciding_attempt ue 0) source target s)"
    using assms(1,2) promote_loop_conflict [OF assms(3,4)] promote_loop_outcome [OF assms(3,4)]
    by (simp add: promoteStagedDirectory_def assertContained_def io_guard_def io_then_def io_bind_def io_return_def)
  have "deciding_attempt ue 0 \<le> 7" "\<forall>k < deciding_attempt ue 0. transient_fault ue k"
    by (auto simp: deciding_attempt_def STAGED_RENAME_RETRIES_def find_None_iff find_Some_iff split: option.splits)
  moreover have "fst (promoteStagedDirectory ue rootDir source target s) = Inl e \<Longrightarrow>
      snd (promoteStagedDirectory ue rootDir source target s) = s" for e
    using stagedRename_outcome(2) [OF surjective_pairing, of ue "deciding_attempt ue 0" source target s e]
    unfolding run by (simp split: if_splits)
  ultimately show ?thesis using run by blast
qed

section \<open>Pruning\<close>

text \<open>
  Pruning touches nothing but old versions and left-over staging directories: any
  entry of the tree that does not lie in such a directory of the versions directory,
  the active version and everything outside included, is there afterwards unchanged,
  whether or not pruning throws.
\<close>

theorem prune_only_old_versions:
  assumes "pruneOldVersions ue keep s = (r, s')" "lookup (u_fs s) p = Some n"
    and "\<forall>e. below (getRuntimeDir ue @ [''versions'', e]) p \<longrightarrow> \<not> prunable (vm_dir (meta_or_empty ue (u_fs s))) e"
  shows "lookup (u_fs s') p = Some n \<and> u_verified s' = u_verified s"
proof -
  have kept: "\<And>e. below (getRuntimeDir ue @ [''versions''] @ [e]) p \<Longrightarrow> \<not> prunable (vm_dir (meta_or_empty ue (u_fs s))) e"
    using assms(3) by simp
  note frame = prune_frame [where ue = ue and p = p and V = "u_verified s" and n = n and keep = keep, OF kept]
  show ?thesis using frame [unfolded triple_def, rule_format, of s] assms(1,2) by (cases r) auto
qed

text \<open>
  A dangling link is never pruned: removal asks \<open>existsSync\<close> first, which follows
  the link, so the call returns without removing it (and the entry comes back as the
  oldest candidate at every later pruning).
\<close>

lemma dangling_link_is_kept:
  assumes "contained rootDir target" "lookup (u_fs s) target = Some (NLink q m)" "lookup (u_fs s) q = None"
  shows "safeRemoveContained rootDir target s = (Inr (), s)"
  using assms by (simp add: safeRemoveContained_def assertContained_def io_defs fs_exists_def fs_stat_def)

section \<open>The executable that is launched\<close>

text \<open>
  C13. From a fresh process (nothing verified yet) to a session: after one
  \<open>checkAndUpdate\<close>, the path that \<open>getCliPath\<close> gives the session launcher is a
  regular file, and it is either the absolute path the operator configured or a file
  whose SHA-256 is the one signed for this platform in the manifest just fetched.
\<close>

theorem launched_executable_is_signed:
  assumes "uuid_shape (ue_uuid ue)" "u_verified s = None"
    and "checkAndUpdate ue force s = (r, s')" "getCliPath ue s' = Some p"
  shows "regular (u_fs s') p
       \<and> (p = resolve_segments (env_trim (ue_env ue) ''AWP_AGENT_CLI_EXECUTABLE'')
          \<and> is_absolute (env_trim (ue_env ue) ''AWP_AGENT_CLI_EXECUTABLE'')
        \<or> (\<exists>manifest artifact c m.
             fetchLatestVersion ue (resolveChannel (ue_env ue)) = Inr manifest
           \<and> artifact_for ue manifest = Some artifact
           \<and> lookup (u_fs s') p = Some (NFile c m) \<and> ue_sha256 ue c = ra_sha256 artifact))"
proof (cases "configuredExternalExecutable ue (u_fs s')")
  case (Some q)
  with assms(4) show ?thesis
    by (auto simp: getCliPath_def configuredExternalExecutable_def Let_def split: if_splits)
next
  case None
  with assms(4) obtain v where v: "u_verified s' = Some v" "p = vr_path v" "regular (u_fs s') p"
    by (auto simp: getCliPath_def currentVerifiedManagedRuntime_def split: sum.splits option.splits if_splits)
  have "u_verified s' = u_verified s \<and> u_fs s' = u_fs s \<or> signed_runtime ue s'"
    by (rule checkAndUpdate_signed [OF assms(1,3)])
  with v assms(2) have "signed_runtime ue s'" by auto
  with v show ?thesis unfolding signed_runtime_def by blast
qed

section \<open>A concrete run\<close>

definition demo_url :: "string \<Rightarrow> url" where
  "demo_url h = \<lparr>url_href = h, url_protocol = ''https:'', url_username = [],
     url_password = [], url_hostname = ''h'', url_port = [], url_pathname = ''/'',
     url_search = [], url_hash = [], url_origin = ''https://h''\<rparr>"

definition unquote :: "string \<Rightarrow> string" where
  "unquote = map (\<lambda>c. if c = CHR ''~'' then CHR 0x22 else c)"

definition demo_signed :: string where
  "demo_signed =
     ''eyJ2ZXJzaW9uIjoiMS4yLjAiLCJjaGFubmVsIjoic3RhYmxlIiwiYXJ0aWZhY3RzIjp7ImxpbnV4LXg2'' @
     ''NCI6eyJraW5kIjoiZXhlY3V0YWJsZSIsInVybCI6Imh0dHBzOi8vaC94Iiwic2hhMjU2IjoiYWFhYWFh'' @
     ''YWFhYWFhYWFhYWFhYWFhYWFhYWFhYWFhYWFhYWFhYWFhYWFhYWFhYWFhYWFhYWFhYWFhYWFhYWFhYSJ9'' @
     ''fX0=''"

definition demo_response :: "string \<Rightarrow> http_response" where
  "demo_response b = \<lparr>rs_ok = True, rs_status = 200, rs_content_length = None, rs_body = Some [b], rs_failure = None\<rparr>"

definition demo_env :: updater_env where
  "demo_env = \<lparr>ue_runtime = \<lparr>new_URL = (\<lambda>s. Some (demo_url s)), clear_hash = (\<lambda>u. u), decodeURIComponent = Some\<rparr>,
     ue_env = [''AWP_AGENT_RUNTIME_MANIFEST_URL'' \<mapsto> ''https://h/m'', ''AWP_AGENT_RUNTIME_PUBLIC_KEY'' \<mapsto> ''AAAA''],
     ue_awpDir = ''/a'', ue_platform = ''linux'', ue_arch = ''x64'', ue_app_version = Undefined, ue_package_version = None,
     ue_now = 5, ue_uuid = replicate 36 (CHR ''0''), ue_sha256 = (\<lambda>b. replicate 64 (CHR ''a'')),
     ue_verify = (\<lambda>b k s. True), ue_pem_key = (\<lambda>_. None),
     ue_der_key = (\<lambda>d. Some \<lparr>asymmetricKeyType = ''ed25519'', key_material = d\<rparr>),
     ue_utf8 = (\<lambda>b. b),
     ue_fetch = (\<lambda>u. Inr (demo_response (unquote (''{~signed~:~'' @ demo_signed @ ''~,~signature~:~AAAA~}'')))),
     ue_rename_fault = (\<lambda>_. None)\<rparr>"

definition demo_state :: updater where
  "demo_state = \<lparr>u_fs = [([''a''], NDir 1), ([''a'', ''agent-runtime''], NDir 1),
      ([''a'', ''agent-runtime'', ''version.json''],
         NFile (unquote ''{~current_version~:~1.2.0~,~current_dir~:~1.2.0--aaaaaaaaaaaa~}'') 1),
      ([''a'', ''agent-runtime'', ''versions''], NDir 1),
      ([''a'', ''agent-runtime'', ''versions'', ''1.2.0--aaaaaaaaaaaa''], NDir 1),
      ([''a'', ''agent-runtime'', ''versions'', ''1.2.0--aaaaaaaaaaaa'', ''runtime''], NFile ''elf'' 1)],
     u_updating = False, u_progress = idle_progress, u_verified = None, u_broadcast = []\<rparr>"

definition demo_artifact :: RuntimeArtifact where
  "demo_artifact = \<lparr>ra_url = ''https://h/x'', ra_sha256 = replicate 64 (CHR ''a''), ra_bytes = None\<rparr>"

definition demo_latest :: LatestVersionResponse where
  "demo_latest = \<lparr>lv_version = ''1.2.0'', lv_channel = Stable, lv_min_desktop = None,
     lv_artifacts = [(''linux-x64'', demo_artifact)]\<rparr>"

lemma demo_manifest_bytes: "base64_decode demo_signed = unquote
  (''{~version~:~1.2.0~,~channel~:~stable~,~artifacts~:{~linux-x64~:{~kind~:~executable~,~url~:~https://h/x~,~sha256~:~''
   @ replicate 64 (CHR ''a'') @ ''~}}}'')"
  by code_simp

lemma demo_manifest_parsed: "parseSignedManifest demo_env (base64_decode demo_signed) Stable = Inr demo_latest"
  unfolding demo_manifest_bytes by code_simp

lemma demo_envelope: "JSON_parse (unquote (''{~signed~:~'' @ demo_signed @ ''~,~signature~:~AAAA~}''))
   = Some (Obj [(''signed'', Str demo_signed), (''signature'', Str ''AAAA'')])"
  by code_simp

lemma demo_base64:
  "decodeBase64 demo_signed ''signed_manifest'' MAX_MANIFEST_BYTES = Inr (base64_decode demo_signed)"
  "decodeBase64 ''AAAA'' ''signature'' 1024 = Inr (base64_decode ''AAAA'')"
  "decodeBase64 ''AAAA'' ''public_key'' (16 * 1024) = Inr (base64_decode ''AAAA'')"
proof -
  have "length (base64_decode demo_signed) = 182" unfolding demo_manifest_bytes by code_simp
  moreover have "length demo_signed = 244" "base64_text demo_signed" by code_simp+
  ultimately show "decodeBase64 demo_signed ''signed_manifest'' MAX_MANIFEST_BYTES = Inr (base64_decode demo_signed)"
    by (auto simp: decodeBase64_def MAX_MANIFEST_BYTES_def Let_def)
  have "length (base64_decode ''AAAA'') = 3" "base64_text ''AAAA''" by code_simp+
  then show "decodeBase64 ''AAAA'' ''signature'' 1024 = Inr (base64_decode ''AAAA'')"
    "decodeBase64 ''AAAA'' ''public_key'' (16 * 1024) = Inr (base64_decode ''AAAA'')"
    by (auto simp: decodeBase64_def Let_def)
qed

lemma demo_url_simps [simp]:
  "url_href (demo_url h) = h" "url_protocol (demo_url h) = ''https:''" "url_username (demo_url h) = []"
  "url_password (demo_url h) = []" "url_hash (demo_url h) = []" "url_origin (demo_url h) = ''https://h''"
  by (simp_all add: demo_url_def)

lemma demo_config:
  "env_trim (ue_env demo_env) ''AWP_AGENT_CLI_EXECUTABLE'' = []"
  "env_trim (ue_env demo_env) ''AWP_AGENT_RUNTIME_MANIFEST_URL'' = ''https://h/m''"
  "env_trim (ue_env demo_env) ''AWP_AGENT_RUNTIME_PUBLIC_KEY'' = ''AAAA''"
  "resolveChannel (ue_env demo_env) = Stable" "platformKey demo_env = ''linux-x64''"
  "getRuntimeDir demo_env = [''a'', ''agent-runtime'']" "executableBasename demo_env = ''runtime''"
  "uuid_shape (ue_uuid demo_env)"
  by code_simp+

lemma demo_manifest_url: "runtimeManifestUrl demo_env = Inr (demo_url ''https://h/m'')"
  unfolding runtimeManifestUrl_def Let_def demo_config by (simp add: demo_env_def)

lemma demo_key: "parsePinnedPublicKey demo_env
   = Inr \<lparr>asymmetricKeyType = ''ed25519'', key_material = base64_decode ''AAAA''\<rparr>"
proof -
  have "\<not> str_includes ''AAAA'' ''BEGIN PUBLIC KEY''" by code_simp
  then show ?thesis unfolding parsePinnedPublicKey_def Let_def demo_config demo_base64(3) by (simp add: demo_env_def)
qed

lemma demo_validated: "validateManagedRuntimeConfiguration demo_env = Inr (replicate 64 (CHR ''a''))"
  unfolding validateManagedRuntimeConfiguration_def demo_manifest_url demo_key by (simp add: demo_env_def)

lemma demo_read_body:
  "readResponseBytesLimited (demo_response b) MAX_MANIFEST_BYTES x y =
     (if MAX_MANIFEST_BYTES < length b then Inl (Thrown x) else if b = [] then Inl (Thrown y) else Inr b)"
  by (simp add: readResponseBytesLimited_def demo_response_def)

lemma demo_fetch: "fetchLatestVersion demo_env Stable = Inr demo_latest"
proof -
  let ?b = "unquote (''{~signed~:~'' @ demo_signed @ ''~,~signature~:~AAAA~}'')"
  have len: "length demo_signed = 244" by code_simp
  have "length ?b = length (''{~signed~:~'' @ demo_signed @ ''~,~signature~:~AAAA~}'')"
    unfolding unquote_def by (rule length_map)
  then have "length ?b = 276" using len by simp
  then have body: "\<not> MAX_MANIFEST_BYTES < length ?b" "?b \<noteq> []" by (auto simp: MAX_MANIFEST_BYTES_def)
  have fetch: "ue_fetch demo_env u = Inr (demo_response ?b)" "ue_utf8 demo_env = (\<lambda>b. b)"
    "ue_verify demo_env = (\<lambda>b k s. True)" for u by (simp_all add: demo_env_def)
  have art: "artifact_for demo_env demo_latest = Some demo_artifact"
    unfolding artifact_for_def demo_config by (simp add: demo_latest_def)
  have "validateArtifactUrl demo_env (ra_url demo_artifact) (demo_url ''https://h/m'') = Inr (demo_url ''https://h/x'')"
    by (simp add: validateArtifactUrl_def demo_artifact_def) (simp add: demo_env_def)
  then show ?thesis
    unfolding fetchLatestVersion_def demo_manifest_url demo_key fetch
    using body demo_envelope demo_manifest_parsed art
    by (simp add: demo_read_body asRecord_def exactKeys_def demo_base64) (simp add: demo_response_def)
qed

theorem manifest_is_authenticated_witness:
  "fetchLatestVersion demo_env Stable = Inr demo_latest
   \<and> (\<exists>manifestUrl key. runtimeManifestUrl demo_env = Inr manifestUrl \<and> url_protocol manifestUrl = ''https:''
        \<and> parsePinnedPublicKey demo_env = Inr key \<and> asymmetricKeyType key = ''ed25519'')"
  using demo_fetch manifest_is_authenticated [OF demo_fetch] by blast

lemma demo_artifact_for: "artifact_for demo_env demo_latest = Some demo_artifact"
  unfolding artifact_for_def demo_config by (simp add: demo_latest_def)

lemma demo_expected: "expected_dir demo_latest demo_artifact = ''1.2.0--aaaaaaaaaaaa''"
  by code_simp

lemma demo_meta: "readMeta demo_env (u_fs demo_state)
   = Some \<lparr>vm_version = Some ''1.2.0'', vm_dir = Some ''1.2.0--aaaaaaaaaaaa'', vm_last_check = 0, vm_last_update = 0\<rparr>"
  by code_simp

lemma demo_verify:
  "\<exists>s'. verifyManagedRuntime demo_env
      \<lparr>vm_version = Some ''1.2.0'', vm_dir = Some ''1.2.0--aaaaaaaaaaaa'', vm_last_check = 0, vm_last_update = 0\<rparr>
      demo_latest demo_artifact c (demo_state\<lparr>u_updating := True, u_verified := None\<rparr>) = (Inr True, s')"
proof -
  have "managedExecutablePath demo_env
      \<lparr>vm_version = Some ''1.2.0'', vm_dir = Some ''1.2.0--aaaaaaaaaaaa'', vm_last_check = 0, vm_last_update = 0\<rparr>
      (demo_state\<lparr>u_updating := True, u_verified := None\<rparr>)
    = (Inr (Some [''a'', ''agent-runtime'', ''versions'', ''1.2.0--aaaaaaaaaaaa'', ''runtime'']),
       demo_state\<lparr>u_updating := True, u_verified := None\<rparr>)" by code_simp
  moreover have "fs_read (u_fs demo_state) [''a'', ''agent-runtime'', ''versions'', ''1.2.0--aaaaaaaaaaaa'', ''runtime''] = Inr ''elf''"
    by code_simp
  moreover have "to_lower (ra_sha256 demo_artifact) = replicate 64 (CHR ''a'')" by code_simp
  moreover have "ue_sha256 demo_env x = replicate 64 (CHR ''a'')" for x by (simp add: demo_env_def)
  ultimately show ?thesis
    unfolding verifyManagedRuntime_def demo_expected
    by (simp add: io_bind_def io_then_def io_return_def io_update_def sha256OfFile_def read_fs_def demo_latest_def)
qed

lemma demo_verified: "u_verified (snd (checkAndUpdate demo_env False demo_state)) \<noteq> None"
proof -
  let ?m = "\<lparr>vm_version = Some ''1.2.0'', vm_dir = Some ''1.2.0--aaaaaaaaaaaa'', vm_last_check = 0, vm_last_update = 0\<rparr>"
  let ?s = "demo_state\<lparr>u_updating := True, u_verified := None\<rparr>"
  let ?id = "replicate 64 (CHR ''a'')"
  obtain s1 where v: "verifyManagedRuntime demo_env ?m demo_latest demo_artifact ?id ?s = (Inr True, s1)"
    using demo_verify by blast
  from v have s1: "u_verified s1 \<noteq> None" by (rule verify_verified) simp
  obtain r s2 where w: "writeMeta demo_env (?m\<lparr>vm_last_check := of_nat (ue_now demo_env)\<rparr>) s1 = (r, s2)" by fastforce
  have s2: "u_verified s2 = u_verified s1" by (rule keepsD [OF verified_writeMeta refl w])
  have body: "\<exists>r3 s3. update_body demo_env False (demo_url ''https://h/m'') ?id ?m (demo_state\<lparr>u_updating := True\<rparr>) = (r3, s3)
      \<and> u_verified s3 = u_verified s1"
    unfolding update_body_def demo_config demo_fetch io_bind_lift_Inr
    using v w s2 demo_artifact_for demo_expected
    by (cases r) (simp_all add: io_then_def io_bind_def io_update_def io_return_def demo_latest_def)
  have ext: "configuredExternalExecutable demo_env (u_fs demo_state) = None"
    unfolding configuredExternalExecutable_def demo_config by simp
  have "currentVerifiedManagedRuntime demo_env demo_state = None"
    by (simp add: currentVerifiedManagedRuntime_def demo_validated demo_state_def)
  with ext have "checkAndUpdate demo_env False demo_state =
       io_finally
         (io_catch (update_body demo_env False (demo_url ''https://h/m'') ?id ?m)
            (\<lambda>e. io_then (setProgress (\<lambda>p. p\<lparr>pg_stage := ''error'', pg_error := Some (error_message e)\<rparr>))
                         (io_return (no_update (Some (error_message e))))))
         (io_update (\<lambda>s. s\<lparr>u_updating := False\<rparr>)) (demo_state\<lparr>u_updating := True\<rparr>)"
    unfolding checkAndUpdate_def demo_manifest_url demo_validated meta_or_empty_def demo_meta Let_def
    by (simp add: demo_state_def)
  with body s1 show ?thesis unfolding update_run by (auto split: sum.split)
qed


theorem launched_executable_is_signed_witness:
  "\<exists>p. getCliPath demo_env (snd (checkAndUpdate demo_env False demo_state)) = Some p
     \<and> regular (u_fs (snd (checkAndUpdate demo_env False demo_state))) p
     \<and> (\<exists>manifest. fetchLatestVersion demo_env (resolveChannel (ue_env demo_env)) = Inr manifest)"
proof -
  let ?s = "snd (checkAndUpdate demo_env False demo_state)"
  have none: "u_verified demo_state = None" by (simp add: demo_state_def)
  obtain v where v: "u_verified ?s = Some v" using demo_verified by blast
  have "signed_runtime demo_env ?s"
    using checkAndUpdate_signed [OF demo_config(8) surjective_pairing, of False demo_state] v none by auto
  with v obtain c m where "validateManagedRuntimeConfiguration demo_env = Inr (vr_configId v)"
    "lookup (u_fs ?s) (vr_path v) = Some (NFile c m)" unfolding signed_runtime_def by blast
  with v have path: "getCliPath demo_env ?s = Some (vr_path v)"
    unfolding getCliPath_def configuredExternalExecutable_def demo_config
    by (simp add: currentVerifiedManagedRuntime_def regular_def fs_lstat_def)
  note launched_executable_is_signed [OF demo_config(8) none surjective_pairing path]
  moreover have "\<not> is_absolute (env_trim (ue_env demo_env) ''AWP_AGENT_CLI_EXECUTABLE'')"
    unfolding demo_config by (simp add: is_absolute_def)
  ultimately show ?thesis using path by blast
qed

definition demo_meta_value :: VersionMeta where
  "demo_meta_value = \<lparr>vm_version = Some ''1.3.0'', vm_dir = Some ''1.3.0--bbbbbbbbbbbb'', vm_last_check = 7, vm_last_update = 7\<rparr>"

theorem meta_written_is_read_witness:
  "readMeta demo_env (u_fs (snd (writeMeta demo_env demo_meta_value demo_state))) = Some demo_meta_value"
proof -
  have "fst (writeMeta demo_env demo_meta_value demo_state) = Inr ()" by code_simp
  then have run: "writeMeta demo_env demo_meta_value demo_state = (Inr (), snd (writeMeta demo_env demo_meta_value demo_state))"
    by (metis prod.collapse)
  have "decodes_ascii demo_env" by (simp add: decodes_ascii_def demo_env_def)
  moreover have "meta_ok demo_meta_value" by code_simp
  ultimately show ?thesis using meta_written_is_read [OF demo_config(8) _ _ run] by blast
qed

definition busy_env :: updater_env where
  "busy_env = demo_env\<lparr>ue_rename_fault := (\<lambda>k. if k < 2 then Some ''EBUSY'' else None)\<rparr>"

theorem promotion_outcome_witness:
  "deciding_attempt busy_env 0 = 2
   \<and> promoteStagedDirectory busy_env [''a''] [''a'', ''b''] [''a'', ''c''] nested_state
      = stagedRename busy_env 2 [''a'', ''b''] [''a'', ''c''] nested_state
   \<and> lookup (u_fs (snd (stagedRename busy_env 2 [''a'', ''b''] [''a'', ''c''] nested_state))) [''a'', ''c''] = Some (NDir 2)"
proof -
  have "contained [''a''] [''a'', ''b'']" "contained [''a''] [''a'', ''c'']" by code_simp+
  moreover have "lookup (u_fs nested_state) [''a''] = Some (NDir 1)" "lookup (u_fs nested_state) [''a'', ''b''] = Some (NDir 2)"
    "\<not> fs_exists (u_fs nested_state) [''a'', ''c'']" "deciding_attempt busy_env 0 = 2"
    "lookup (u_fs (snd (stagedRename busy_env 2 [''a'', ''b''] [''a'', ''c''] nested_state))) [''a'', ''c''] = Some (NDir 2)"
    by code_simp+
  ultimately show ?thesis
    using promotion_outcome [of "[''a'']" "[''a'', ''b'']" "[''a'', ''c'']" nested_state 1 2 busy_env] by simp
qed

theorem prune_only_old_versions_witness:
  "lookup (u_fs (snd (pruneOldVersions demo_env 2 demo_state)))
     [''a'', ''agent-runtime'', ''versions'', ''1.2.0--aaaaaaaaaaaa'', ''runtime''] = Some (NFile ''elf'' 1)"
proof -
  have l: "lookup (u_fs demo_state) [''a'', ''agent-runtime'', ''versions'', ''1.2.0--aaaaaaaaaaaa'', ''runtime''] = Some (NFile ''elf'' 1)"
    by code_simp
  have "\<not> PARTIAL_DIR_RE ''1.2.0--aaaaaaaaaaaa''" by code_simp
  then have "\<forall>e. below (getRuntimeDir demo_env @ [''versions'', e])
        [''a'', ''agent-runtime'', ''versions'', ''1.2.0--aaaaaaaaaaaa'', ''runtime'']
      \<longrightarrow> \<not> prunable (vm_dir (meta_or_empty demo_env (u_fs demo_state))) e"
    unfolding demo_config by (auto simp: below_def prunable_def meta_or_empty_def demo_meta)
  from prune_only_old_versions [OF surjective_pairing l this] show ?thesis by blast
qed

end
