(* ===== verification/PrivateStorage.thy ===== *)
theory PrivateStorage
  imports JsonPretty Io
begin

text \<open>
  The hardened private storage (\<open>apps/desktop/electron/utils/private-storage.ts\<close> and
  \<open>canonical-path.ts\<close>) on a disk with inodes, owners, modes and symbolic links.

  Other processes may change the disk between any two system calls of this code: the
  state carries a script of such changes, and every system call lets the next one
  happen first.  A file descriptor is the number of its inode, so replacing a path does
  not redirect an open file.  \<open>fsync\<close> and \<open>close\<close> change nothing that is modelled.
\<close>

section \<open>Disks\<close>

datatype ikind = KDir | KFile string | KLink path

record inode =
  i_kind :: ikind
  i_mode :: nat
  i_uid :: nat
  i_mtime :: nat

record disk =
  d_entries :: "(path \<times> nat) list"
  d_inodes :: "nat \<Rightarrow> inode option"
  d_next :: nat

record pstore =
  p_disk :: disk
  p_others :: "(disk \<Rightarrow> disk) list"

datatype ftype = TDir | TFile | TLink

record stats =
  st_type :: ftype
  st_dev :: nat
  st_ino :: nat
  st_size :: nat
  st_mode :: nat
  st_uid :: nat
  st_birthtime :: nat
  st_mtime :: nat

text \<open>
  What the code gets from its surroundings: the platform, its user, the umask, the
  numbers the system reports for inodes, how many bytes a single read or write moves,
  the faults of renaming, random names and the UTF-8 decoder.
\<close>

record storage_env =
  pe_win32 :: bool
  pe_getuid :: "nat option"
  pe_umask :: "nat \<Rightarrow> nat"
  pe_ino :: "nat \<Rightarrow> nat"
  pe_count :: "nat \<Rightarrow> nat"
  pe_rename_fault :: "nat \<Rightarrow> string option"
  pe_random :: string
  pe_utf8 :: "string \<Rightarrow> string"
  pe_now :: nat

definition root_inode :: inode where
  "root_inode = \<lparr>i_kind = KDir, i_mode = 493, i_uid = 0, i_mtime = 0\<rparr>"

definition d_ino :: "disk \<Rightarrow> path \<Rightarrow> nat option" where
  "d_ino d p = map_of (d_entries d) p"

definition d_node :: "disk \<Rightarrow> path \<Rightarrow> inode option" where
  "d_node d p = (if p = [] then Some root_inode else case d_ino d p of None \<Rightarrow> None | Some i \<Rightarrow> d_inodes d i)"

section \<open>System calls\<close>

text \<open>
  Where a path leads: links in the middle are followed, the last one when \<open>follow\<close> is
  set; the number bounds the links followed, as the system does.
\<close>

function walk :: "nat \<Rightarrow> bool \<Rightarrow> disk \<Rightarrow> path \<Rightarrow> path \<Rightarrow> path result" where
  "walk n follow d cur [] = Inr cur"
| "walk n follow d cur (w # ws) =
     (if ws = [] \<and> \<not> follow then Inr (cur @ [w])
      else case d_node d (cur @ [w]) of
        None \<Rightarrow> Inl (Sys ''ENOENT'')
      | Some i \<Rightarrow>
          (case i_kind i of
             KDir \<Rightarrow> walk n follow d (cur @ [w]) ws
           | KFile _ \<Rightarrow> if ws = [] then Inr (cur @ [w]) else Inl (Sys ''ENOTDIR'')
           | KLink t \<Rightarrow> (case n of 0 \<Rightarrow> Inl (Sys ''ELOOP'') | Suc m \<Rightarrow> walk m follow d [] (t @ ws))))"
  by pat_completeness auto
termination
  by (relation "measures [\<lambda>(n, _, _, _, _). n, \<lambda>(_, _, _, _, ws). length ws]") auto

definition SYMLOOP_MAX :: nat where
  "SYMLOOP_MAX = 40"

definition sys :: "(disk \<Rightarrow> 'a result \<times> disk) \<Rightarrow> (pstore, 'a) io" where
  "sys f s =
     (let d = (case p_others s of [] \<Rightarrow> p_disk s | a # _ \<Rightarrow> a (p_disk s)); (r, d') = f d
      in (r, s\<lparr>p_disk := d', p_others := tl (p_others s)\<rparr>))"

fun type_of :: "ikind \<Rightarrow> ftype" where
  "type_of KDir = TDir" | "type_of (KFile _) = TFile" | "type_of (KLink _) = TLink"

fun size_of :: "ikind \<Rightarrow> nat" where
  "size_of (KFile c) = length c" | "size_of _ = 0"

definition stats_of :: "storage_env \<Rightarrow> nat \<Rightarrow> inode \<Rightarrow> stats" where
  "stats_of pe ino i = \<lparr>st_type = type_of (i_kind i), st_dev = 0, st_ino = pe_ino pe ino, st_size = size_of (i_kind i),
     st_mode = i_mode i, st_uid = i_uid i, st_birthtime = i_mtime i, st_mtime = i_mtime i\<rparr>"

definition d_lstat :: "storage_env \<Rightarrow> path \<Rightarrow> disk \<Rightarrow> stats result \<times> disk" where
  "d_lstat pe p d =
     (case walk SYMLOOP_MAX False d [] p of
        Inl e \<Rightarrow> Inl e
      | Inr q \<Rightarrow> (case d_node d q of
          None \<Rightarrow> Inl (Sys ''ENOENT'')
        | Some i \<Rightarrow> Inr (stats_of pe (case d_ino d q of Some k \<Rightarrow> k | None \<Rightarrow> 0) i)), d)"

definition d_realpath :: "path \<Rightarrow> disk \<Rightarrow> path result \<times> disk" where
  "d_realpath p d = (walk SYMLOOP_MAX True d [] p, d)"

definition d_exists :: "path \<Rightarrow> disk \<Rightarrow> bool result \<times> disk" where
  "d_exists p d = (Inr (case walk SYMLOOP_MAX True d [] p of Inr _ \<Rightarrow> True | Inl _ \<Rightarrow> False), d)"

definition d_add :: "path \<Rightarrow> inode \<Rightarrow> disk \<Rightarrow> disk" where
  "d_add p i d = d\<lparr>d_entries := (p, d_next d) # d_entries d, d_inodes := (d_inodes d)(d_next d \<mapsto> i), d_next := Suc (d_next d)\<rparr>"

definition my_uid :: "storage_env \<Rightarrow> nat" where
  "my_uid pe = (case pe_getuid pe of Some u \<Rightarrow> u | None \<Rightarrow> 0)"

definition d_mkdir :: "storage_env \<Rightarrow> nat \<Rightarrow> path \<Rightarrow> disk \<Rightarrow> unit result \<times> disk" where
  "d_mkdir pe mode p d =
     (case walk SYMLOOP_MAX False d [] p of
        Inl e \<Rightarrow> (Inl e, d)
      | Inr q \<Rightarrow>
          if d_node d q \<noteq> None then (Inl (Sys ''EEXIST''), d)
          else (Inr (), d_add q \<lparr>i_kind = KDir, i_mode = pe_umask pe mode, i_uid = my_uid pe, i_mtime = pe_now pe\<rparr> d))"

fun d_mkdirs_from :: "storage_env \<Rightarrow> nat \<Rightarrow> path \<Rightarrow> path \<Rightarrow> disk \<Rightarrow> unit result \<times> disk" where
  "d_mkdirs_from pe mode here [] d = (Inr (), d)"
| "d_mkdirs_from pe mode here (w # ws) d =
     (case walk SYMLOOP_MAX True d [] (here @ [w]) of
        Inr q \<Rightarrow>
          (if (case d_node d q of Some i \<Rightarrow> i_kind i = KDir | None \<Rightarrow> False)
           then d_mkdirs_from pe mode (here @ [w]) ws d else (Inl (Sys ''EEXIST''), d))
      | Inl _ \<Rightarrow>
          (case d_mkdir pe mode (here @ [w]) d of
             (Inl e, d') \<Rightarrow> (Inl e, d')
           | (Inr _, d') \<Rightarrow> d_mkdirs_from pe mode (here @ [w]) ws d'))"

definition d_set_mode :: "nat \<Rightarrow> nat \<Rightarrow> disk \<Rightarrow> unit result \<times> disk" where
  "d_set_mode mode k d =
     (case d_inodes d k of
        None \<Rightarrow> (Inl (Sys ''EBADF''), d)
      | Some i \<Rightarrow> (Inr (), d\<lparr>d_inodes := (d_inodes d)(k \<mapsto> i\<lparr>i_mode := mode\<rparr>)\<rparr>))"

definition d_chmod :: "nat \<Rightarrow> path \<Rightarrow> disk \<Rightarrow> unit result \<times> disk" where
  "d_chmod mode p d =
     (case walk SYMLOOP_MAX True d [] p of
        Inl e \<Rightarrow> (Inl e, d)
      | Inr q \<Rightarrow> (case d_ino d q of Some k \<Rightarrow> d_set_mode mode k d | None \<Rightarrow> (Inl (Sys ''EPERM''), d)))"

text \<open>\<open>open\<close> with \<open>O_CREAT | O_EXCL | O_NOFOLLOW\<close>, and for reading with \<open>O_NOFOLLOW\<close>.\<close>

definition d_create :: "storage_env \<Rightarrow> nat \<Rightarrow> path \<Rightarrow> disk \<Rightarrow> nat result \<times> disk" where
  "d_create pe mode p d =
     (case walk SYMLOOP_MAX False d [] p of
        Inl e \<Rightarrow> (Inl e, d)
      | Inr q \<Rightarrow>
          if d_node d q \<noteq> None then (Inl (Sys ''EEXIST''), d)
          else (Inr (d_next d),
                d_add q \<lparr>i_kind = KFile [], i_mode = pe_umask pe mode, i_uid = my_uid pe, i_mtime = pe_now pe\<rparr> d))"

definition d_open :: "path \<Rightarrow> disk \<Rightarrow> nat result \<times> disk" where
  "d_open p d =
     (case walk SYMLOOP_MAX False d [] p of
        Inl e \<Rightarrow> Inl e
      | Inr q \<Rightarrow>
          (case (d_ino d q, d_node d q) of
             (Some k, Some i) \<Rightarrow> if type_of (i_kind i) = TLink then Inl (Sys ''ELOOP'') else Inr k
           | _ \<Rightarrow> Inl (Sys ''ENOENT'')), d)"

definition d_fstat :: "storage_env \<Rightarrow> nat \<Rightarrow> disk \<Rightarrow> stats result \<times> disk" where
  "d_fstat pe k d = (case d_inodes d k of None \<Rightarrow> Inl (Sys ''EBADF'') | Some i \<Rightarrow> Inr (stats_of pe k i), d)"

definition d_write :: "nat \<Rightarrow> string \<Rightarrow> disk \<Rightarrow> unit result \<times> disk" where
  "d_write k bytes d =
     (case d_inodes d k of
        Some i \<Rightarrow>
          (case i_kind i of
             KFile c \<Rightarrow> (Inr (), d\<lparr>d_inodes := (d_inodes d)(k \<mapsto> i\<lparr>i_kind := KFile (c @ bytes)\<rparr>)\<rparr>)
           | _ \<Rightarrow> (Inl (Sys ''EBADF''), d))
      | None \<Rightarrow> (Inl (Sys ''EBADF''), d))"

definition d_read :: "nat \<Rightarrow> nat \<Rightarrow> nat \<Rightarrow> disk \<Rightarrow> string result \<times> disk" where
  "d_read k offset n d =
     (case d_inodes d k of
        Some i \<Rightarrow> (case i_kind i of KFile c \<Rightarrow> Inr (take n (drop offset c)) | _ \<Rightarrow> Inl (Sys ''EISDIR''))
      | None \<Rightarrow> Inl (Sys ''EBADF''), d)"

definition d_unlink :: "path \<Rightarrow> disk \<Rightarrow> unit result \<times> disk" where
  "d_unlink p d =
     (case walk SYMLOOP_MAX False d [] p of
        Inl e \<Rightarrow> (Inl e, d)
      | Inr q \<Rightarrow>
          (case d_node d q of
             None \<Rightarrow> (Inl (Sys ''ENOENT''), d)
           | Some i \<Rightarrow>
               if i_kind i = KDir then (Inl (Sys ''EPERM''), d)
               else (Inr (), d\<lparr>d_entries := filter (\<lambda>e. fst e \<noteq> q) (d_entries d)\<rparr>)))"

definition d_rename :: "path \<Rightarrow> path \<Rightarrow> disk \<Rightarrow> unit result \<times> disk" where
  "d_rename p q d =
     (case (walk SYMLOOP_MAX False d [] p, walk SYMLOOP_MAX False d [] q) of
        (Inr p', Inr q') \<Rightarrow>
          (case (d_ino d p', d_node d p') of
             (Some k, Some i) \<Rightarrow>
               if i_kind i = KDir then (Inl (Sys ''EXDEV''), d)
               else if (case d_node d q' of Some j \<Rightarrow> i_kind j = KDir | None \<Rightarrow> False) then (Inl (Sys ''EISDIR''), d)
               else if p' = q' then (Inr (), d)
               else (Inr (), d\<lparr>d_entries := (q', k) # filter (\<lambda>e. fst e \<noteq> p' \<and> fst e \<noteq> q') (d_entries d)\<rparr>)
           | _ \<Rightarrow> (Inl (Sys ''ENOENT''), d))
      | (Inl e, _) \<Rightarrow> (Inl e, d)
      | (_, Inl e) \<Rightarrow> (Inl e, d))"

section \<open>Checks on names and stats\<close>

definition throw_if :: "bool \<Rightarrow> string \<Rightarrow> (pstore, unit) io" where
  "throw_if b msg = io_guard (\<not> b) msg"

text \<open>\<open>/^[A-Za-z0-9][A-Za-z0-9._-]{0,127}$/u\<close> and \<open>/^[a-z][a-z0-9-]{0,31}$/u\<close>\<close>

definition PRIVATE_BASENAME_RE :: "string \<Rightarrow> bool" where
  "PRIVATE_BASENAME_RE v =
     (v \<noteq> [] \<and> length v \<le> 128 \<and> is_alnum (hd v)
      \<and> list_all (\<lambda>c. is_alnum c \<or> c = CHR ''.'' \<or> c = CHR ''_'' \<or> c = CHR ''-'') v)"

definition PRIVATE_SUBDIR_RE :: "string \<Rightarrow> bool" where
  "PRIVATE_SUBDIR_RE v =
     (v \<noteq> [] \<and> length v \<le> 32 \<and> is_lower (hd v) \<and> list_all (\<lambda>c. is_lower c \<or> is_digit c \<or> c = CHR ''-'') v)"

definition validateSubdir :: "string \<Rightarrow> (pstore, unit) io" where
  "validateSubdir v = throw_if (\<not> PRIVATE_SUBDIR_RE v) ''private_storage_subdir_invalid''"

definition validateFilename :: "string \<Rightarrow> (pstore, unit) io" where
  "validateFilename v =
     throw_if (\<not> PRIVATE_BASENAME_RE v \<or> basename v \<noteq> v \<or> str_includes v ''..'') ''private_storage_filename_invalid''"

definition validateSizeCap :: "nat \<Rightarrow> (pstore, unit) io" where
  "validateSizeCap n = throw_if (n = 0 \<or> 16 * 1024 * 1024 < n) ''private_storage_size_cap_invalid''"

definition assertContained_ps :: "path \<Rightarrow> path \<Rightarrow> (pstore, unit) io" where
  "assertContained_ps rootDir target =
     (let rel = relative_segments rootDir target
      in throw_if (rel = [] \<or> starts_with (hd rel) ''..'') ''private_storage_path_escape'')"

definition assertCurrentOwner :: "storage_env \<Rightarrow> stats \<Rightarrow> string \<Rightarrow> (pstore, unit) io" where
  "assertCurrentOwner pe st label =
     (case pe_getuid pe of
        None \<Rightarrow> io_return ()
      | Some u \<Rightarrow> throw_if (st_uid st \<noteq> u) (label @ ''_wrong_owner''))"

definition assertPrivateDirectory :: "storage_env \<Rightarrow> stats \<Rightarrow> string \<Rightarrow> (pstore, unit) io" where
  "assertPrivateDirectory pe st label =
     io_then (throw_if (st_type st \<noteq> TDir) (label @ ''_unsafe_type''))
     (io_then (assertCurrentOwner pe st label)
              (throw_if (\<not> pe_win32 pe \<and> st_mode st mod 512 \<noteq> 448) (label @ ''_unsafe_permissions'')))"

definition assertPrivateFile :: "storage_env \<Rightarrow> stats \<Rightarrow> string \<Rightarrow> nat \<Rightarrow> (pstore, unit) io" where
  "assertPrivateFile pe st label mode =
     io_then (throw_if (st_type st \<noteq> TFile) (label @ ''_unsafe_type''))
     (io_then (assertCurrentOwner pe st label)
              (throw_if (\<not> pe_win32 pe \<and> st_mode st mod 512 \<noteq> mode) (label @ ''_unsafe_permissions'')))"

definition sameFileIdentity :: "stats \<Rightarrow> stats \<Rightarrow> bool" where
  "sameFileIdentity l r =
     (if st_dev l \<noteq> st_dev r \<or> st_ino l \<noteq> st_ino r then False
      else if st_ino l \<noteq> 0 \<or> st_ino r \<noteq> 0 then True
      else st_size l = st_size r \<and> st_birthtime l = st_birthtime r \<and> st_mtime l = st_mtime r)"

definition isMissing :: "jserror \<Rightarrow> bool" where
  "isMissing e = (e = Sys ''ENOENT'')"

section \<open>Canonical paths\<close>

text \<open>The component loop of \<open>assertPathHasNoRedirectComponents\<close>.\<close>

fun check_components :: "storage_env \<Rightarrow> path \<Rightarrow> path \<Rightarrow> string \<Rightarrow> (pstore, unit) io" where
  "check_components pe cursor [] errorCode = io_return ()"
| "check_components pe cursor (part # parts) errorCode =
     io_bind (sys (d_lstat pe (cursor @ [part]))) (\<lambda>st.
     io_then (throw_if (st_type st = TLink) errorCode) (check_components pe (cursor @ [part]) parts errorCode))"

definition assertPathHasNoRedirectComponents :: "storage_env \<Rightarrow> path \<Rightarrow> string \<Rightarrow> (pstore, unit) io" where
  "assertPathHasNoRedirectComponents pe target errorCode =
     io_bind (sys (d_realpath target)) (\<lambda>_. check_components pe [] target errorCode)"

definition assertCanonicalPath :: "storage_env \<Rightarrow> path \<Rightarrow> string \<Rightarrow> (pstore, unit) io" where
  "assertCanonicalPath pe target label = assertPathHasNoRedirectComponents pe target (label @ ''_redirected'')"

section \<open>Files\<close>

text \<open>\<open>writeAll\<close>: a call may move fewer bytes than asked, at least one or it is an error.\<close>

function writeAll :: "storage_env \<Rightarrow> nat \<Rightarrow> string \<Rightarrow> nat \<Rightarrow> (pstore, unit) io" where
  "writeAll pe fd bytes offset =
     (if length bytes \<le> offset then io_return ()
      else
        let count = min (pe_count pe offset) (length bytes - offset)
        in if count = 0 then io_throw (Thrown ''private_file_short_write'')
           else io_then (sys (d_write fd (take count (drop offset bytes)))) (writeAll pe fd bytes (offset + count)))"
  by pat_completeness auto
termination
  by (relation "measure (\<lambda>(pe, fd, bytes, offset). length bytes - offset)") (auto simp: Let_def)

declare writeAll.simps [simp del]

text \<open>The read loop: \<open>got\<close> is what the buffer holds so far; it stops early at the end of the file.\<close>

function readAll :: "storage_env \<Rightarrow> nat \<Rightarrow> nat \<Rightarrow> string \<Rightarrow> (pstore, string) io" where
  "readAll pe fd nbytes got =
     (if nbytes \<le> length got then io_return got
      else
        io_bind (sys (d_read fd (length got) (min (pe_count pe (length got)) (nbytes - length got)))) (\<lambda>bytes.
          if bytes = [] then io_return got else readAll pe fd nbytes (got @ bytes)))"
  by pat_completeness auto
termination
  by (relation "measure (\<lambda>(pe, fd, nbytes, got). nbytes - length got)") (auto simp: neq_Nil_conv)

declare readAll.simps [simp del]

definition createExclusiveFileAtPath :: "storage_env \<Rightarrow> path \<Rightarrow> string \<Rightarrow> nat \<Rightarrow> nat \<Rightarrow> (pstore, unit) io" where
  "createExclusiveFileAtPath pe target bytes mode maxBytes =
     io_then (throw_if (maxBytes < length bytes) ''private_file_too_large'')
     (io_bind (sys (d_create pe mode target)) (\<lambda>fd.
      io_then (if pe_win32 pe then io_return () else sys (d_set_mode mode fd))
     (io_bind (sys (d_fstat pe fd)) (\<lambda>st.
      io_then (assertPrivateFile pe st ''private_file'' mode)
     (io_then (writeAll pe fd bytes 0)
     (io_bind (sys (d_fstat pe fd)) (\<lambda>st'. assertPrivateFile pe st' ''private_file'' mode)))))))"

record PrivateFileRead =
  fr_buffer :: string
  fr_path :: path
  fr_stat :: stats

definition readVerifiedFileAtPath :: "storage_env \<Rightarrow> path \<Rightarrow> nat \<Rightarrow> nat \<Rightarrow> (pstore, PrivateFileRead) io" where
  "readVerifiedFileAtPath pe target maxBytes mode =
     io_bind (sys (d_lstat pe target)) (\<lambda>beforePath.
     io_then (assertPrivateFile pe beforePath ''private_file'' mode)
     (io_then (assertCanonicalPath pe target ''private_file'')
     (io_bind (sys (d_open target)) (\<lambda>fd.
      io_bind (sys (d_fstat pe fd)) (\<lambda>before.
      io_then (assertPrivateFile pe before ''private_file'' mode)
     (io_then (throw_if (\<not> sameFileIdentity beforePath before) ''private_file_changed_before_read'')
     (io_then (throw_if (maxBytes < st_size before) ''private_file_too_large'')
     (io_bind (readAll pe fd (st_size before) []) (\<lambda>bytes.
      io_then (throw_if (length bytes \<noteq> st_size before) ''private_file_short_read'')
     (io_bind (sys (d_fstat pe fd)) (\<lambda>after.
      io_then (assertPrivateFile pe after ''private_file'' mode)
     (io_then (throw_if (\<not> sameFileIdentity before after) ''private_file_changed_during_read'')
     (io_bind (sys (d_lstat pe target)) (\<lambda>finalPath.
      io_then (assertPrivateFile pe finalPath ''private_file'' mode)
     (io_then (throw_if (\<not> sameFileIdentity after finalPath) ''private_file_replaced_after_read'')
              (io_return \<lparr>fr_buffer = bytes, fr_path = target, fr_stat = finalPath\<rparr>))))))))))))))))"

definition missing_to_none :: "(pstore, 'a) io \<Rightarrow> (pstore, 'a option) io" where
  "missing_to_none m =
     io_catch (io_bind m (\<lambda>x. io_return (Some x))) (\<lambda>e. if isMissing e then io_return None else io_throw e)"

definition readExistingIdentity :: "storage_env \<Rightarrow> path \<Rightarrow> nat \<Rightarrow> nat \<Rightarrow> (pstore, stats option) io" where
  "readExistingIdentity pe target maxBytes mode =
     missing_to_none (io_bind (readVerifiedFileAtPath pe target maxBytes mode) (\<lambda>r. io_return (fr_stat r)))"

text \<open>\<open>renameWithBoundedRetry\<close>: the remaining attempts; the last error is thrown.\<close>

definition rename_once :: "storage_env \<Rightarrow> nat \<Rightarrow> path \<Rightarrow> path \<Rightarrow> (pstore, unit) io" where
  "rename_once pe attempt source target =
     (case pe_rename_fault pe attempt of
        Some c \<Rightarrow> io_throw (Sys c)
      | None \<Rightarrow> sys (d_rename source target))"

fun rename_attempts :: "storage_env \<Rightarrow> nat list \<Rightarrow> path \<Rightarrow> path \<Rightarrow> jserror \<Rightarrow> (pstore, unit) io" where
  "rename_attempts pe [] source target lastError = io_throw lastError"
| "rename_attempts pe (k # ks) source target lastError =
     io_catch (rename_once pe k source target)
       (\<lambda>e. if e \<in> {Sys ''EPERM'', Sys ''EACCES'', Sys ''EBUSY''} then rename_attempts pe ks source target e else io_throw e)"

definition renameWithBoundedRetry :: "storage_env \<Rightarrow> path \<Rightarrow> path \<Rightarrow> (pstore, unit) io" where
  "renameWithBoundedRetry pe source target = rename_attempts pe [0, 1, 2, 3] source target (Thrown ''undefined'')"

definition removeOwnedTemp :: "storage_env \<Rightarrow> path \<Rightarrow> stats \<Rightarrow> (pstore, unit) io" where
  "removeOwnedTemp pe target identity =
     io_catch
       (io_bind (sys (d_lstat pe target)) (\<lambda>current.
          if \<not> sameFileIdentity identity current \<or> st_type current \<noteq> TFile then io_return ()
          else sys (d_unlink target)))
       (\<lambda>_. io_return ())"

section \<open>The marked directory\<close>

definition PRIVATE_ROOT_NAME :: string where "PRIVATE_ROOT_NAME = ''private''"
definition ROOT_MARKER_NAME :: string where "ROOT_MARKER_NAME = ''.awp-private-root.json''"
definition ROOT_MARKER_MAX_BYTES :: nat where "ROOT_MARKER_MAX_BYTES = 1024"

definition ROOT_MARKER :: jsval where
  "ROOT_MARKER = Obj [(''schema'', Str ''awp-private-storage-root''), (''version'', Num (Fin 1))]"

definition marker_bytes :: string where
  "marker_bytes = JSON_stringify ROOT_MARKER @ [CHR 0x0A]"

text \<open>The sorted keys are \<open>schema\<close> and \<open>version\<close>.\<close>

definition valid_marker :: "jsval \<Rightarrow> bool" where
  "valid_marker v =
     (case v of
        Obj kvs \<Rightarrow> length kvs = 2 \<and> set (map fst kvs) = {''schema'', ''version''}
          \<and> field v ''schema'' = Str ''awp-private-storage-root'' \<and> field v ''version'' = Num (Fin 1)
      | _ \<Rightarrow> False)"

definition validateRootMarker :: "storage_env \<Rightarrow> path \<Rightarrow> (pstore, unit) io" where
  "validateRootMarker pe rootDir =
     io_then (assertContained_ps rootDir (rootDir @ [ROOT_MARKER_NAME]))
     (io_bind (readVerifiedFileAtPath pe (rootDir @ [ROOT_MARKER_NAME]) ROOT_MARKER_MAX_BYTES 384) (\<lambda>r.
        throw_if (case JSON_parse (pe_utf8 pe (fr_buffer r)) of Some v \<Rightarrow> \<not> valid_marker v | None \<Rightarrow> True)
          ''private_storage_marker_invalid''))"

definition validateAppDataRoot :: "storage_env \<Rightarrow> string \<Rightarrow> bool \<Rightarrow> (pstore, path) io" where
  "validateAppDataRoot pe appDataRoot create =
     io_then (throw_if (trim appDataRoot = [] \<or> \<not> is_absolute appDataRoot) ''private_app_data_root_must_be_absolute'')
     (let root1 = resolve_segments appDataRoot
      in io_then (throw_if (root1 = []) ''private_app_data_root_too_broad'')
         (io_then
            (if \<not> create then io_return ()
             else io_bind (sys (d_exists root1)) (\<lambda>there.
               if there then io_return ()
               else io_then (sys (d_mkdirs_from pe 448 [] root1))
                      (if pe_win32 pe then io_return () else sys (d_chmod 448 root1))))
            (io_bind (sys (d_exists root1)) (\<lambda>there.
               if \<not> there then io_return root1
               else
                 io_bind (sys (d_lstat pe root1)) (\<lambda>st.
                 io_then (throw_if (st_type st \<noteq> TDir) ''private_app_data_root_unsafe_type'')
                 (io_then (assertCurrentOwner pe st ''private_app_data_root'')
                 (io_then (assertCanonicalPath pe root1 ''private_app_data_root'')
                          (io_return root1))))))))"

definition getPrivateStorageRoot :: "storage_env \<Rightarrow> string \<Rightarrow> (pstore, path) io" where
  "getPrivateStorageRoot pe appDataRoot =
     io_bind (validateAppDataRoot pe appDataRoot False) (\<lambda>r. io_return (r @ [PRIVATE_ROOT_NAME]))"

definition getPrivateStoragePath :: "storage_env \<Rightarrow> string \<Rightarrow> string \<Rightarrow> string \<Rightarrow> (pstore, path) io" where
  "getPrivateStoragePath pe appDataRoot subdir filename =
     io_then (validateSubdir subdir)
     (io_then (validateFilename filename)
     (io_bind (validateAppDataRoot pe appDataRoot False) (\<lambda>appRoot.
      let root1 = appRoot @ [PRIVATE_ROOT_NAME]; dir = root1 @ [subdir]; target = dir @ [filename]
      in io_then (assertContained_ps appRoot root1)
         (io_then (assertContained_ps root1 dir)
         (io_then (assertContained_ps dir target) (io_return target))))))"

text \<open>A private directory that is created when it is missing; the answer says whether it was.\<close>

definition ensureDirectory :: "storage_env \<Rightarrow> path \<Rightarrow> string \<Rightarrow> (pstore, bool) io" where
  "ensureDirectory pe dir label =
     io_catch
       (io_bind (sys (d_lstat pe dir)) (\<lambda>st. io_then (assertPrivateDirectory pe st label) (io_return False)))
       (\<lambda>e. if \<not> isMissing e then io_throw e
            else io_then (sys (d_mkdir pe 448 dir))
                 (io_then (if pe_win32 pe then io_return () else sys (d_chmod 448 dir))
                 (io_bind (sys (d_lstat pe dir)) (\<lambda>st.
                  io_then (assertPrivateDirectory pe st label) (io_return True)))))"

definition ensurePrivateStorageSubdir :: "storage_env \<Rightarrow> string \<Rightarrow> string \<Rightarrow> (pstore, path) io" where
  "ensurePrivateStorageSubdir pe appDataRoot subdir =
     io_then (validateSubdir subdir)
     (io_bind (validateAppDataRoot pe appDataRoot True) (\<lambda>appRoot.
      let root1 = appRoot @ [PRIVATE_ROOT_NAME]; dir = root1 @ [subdir]
      in io_then (assertContained_ps appRoot root1)
         (io_bind (ensureDirectory pe root1 ''private_storage_root'') (\<lambda>rootCreated.
          io_then (assertCanonicalPath pe root1 ''private_storage_root'')
         (io_then (if rootCreated
                   then createExclusiveFileAtPath pe (root1 @ [ROOT_MARKER_NAME]) marker_bytes 384 ROOT_MARKER_MAX_BYTES
                   else io_return ())
         (io_then (validateRootMarker pe root1)
         (io_then (assertContained_ps root1 dir)
         (io_bind (ensureDirectory pe dir ''private_storage_subdir'') (\<lambda>_.
          io_then (assertCanonicalPath pe dir ''private_storage_subdir'')
                  (io_return dir))))))))))"

definition locateDirectory :: "storage_env \<Rightarrow> path \<Rightarrow> string \<Rightarrow> (pstore, bool) io" where
  "locateDirectory pe dir label =
     io_catch
       (io_bind (sys (d_lstat pe dir)) (\<lambda>st. io_then (assertPrivateDirectory pe st label) (io_return True)))
       (\<lambda>e. if isMissing e then io_return False else io_throw e)"

definition locateExistingPrivateSubdir :: "storage_env \<Rightarrow> string \<Rightarrow> string \<Rightarrow> (pstore, path option) io" where
  "locateExistingPrivateSubdir pe appDataRoot subdir =
     io_then (validateSubdir subdir)
     (io_bind (validateAppDataRoot pe appDataRoot False) (\<lambda>appRoot.
      let root1 = appRoot @ [PRIVATE_ROOT_NAME]; dir = root1 @ [subdir]
      in io_then (assertContained_ps appRoot root1)
         (io_bind (locateDirectory pe root1 ''private_storage_root'') (\<lambda>found.
          if \<not> found then io_return None
          else
            io_then (assertCanonicalPath pe root1 ''private_storage_root'')
            (io_then (validateRootMarker pe root1)
            (io_then (assertContained_ps root1 dir)
            (io_bind (locateDirectory pe dir ''private_storage_subdir'') (\<lambda>found.
             if \<not> found then io_return None
             else io_then (assertCanonicalPath pe dir ''private_storage_subdir'') (io_return (Some dir))))))))))"

section \<open>The operations\<close>

definition readPrivateFileIfExists ::
  "storage_env \<Rightarrow> string \<Rightarrow> string \<Rightarrow> string \<Rightarrow> nat \<Rightarrow> nat \<Rightarrow> (pstore, PrivateFileRead option) io" where
  "readPrivateFileIfExists pe appDataRoot subdir filename maxBytes mode =
     io_then (validateSizeCap maxBytes)
     (io_bind (locateExistingPrivateSubdir pe appDataRoot subdir) (\<lambda>found.
      case found of
        None \<Rightarrow> io_return None
      | Some dir \<Rightarrow>
          io_then (validateFilename filename)
          (io_then (assertContained_ps dir (dir @ [filename]))
                   (missing_to_none (readVerifiedFileAtPath pe (dir @ [filename]) maxBytes mode)))))"

definition createExclusivePrivateFile ::
  "storage_env \<Rightarrow> string \<Rightarrow> string \<Rightarrow> string \<Rightarrow> string \<Rightarrow> nat \<Rightarrow> nat \<Rightarrow> (pstore, path) io" where
  "createExclusivePrivateFile pe appDataRoot subdir filename contents maxBytes mode =
     io_then (validateSizeCap maxBytes)
     (io_then (validateFilename filename)
     (io_bind (ensurePrivateStorageSubdir pe appDataRoot subdir) (\<lambda>dir.
      io_then (assertContained_ps dir (dir @ [filename]))
     (io_then (createExclusiveFileAtPath pe (dir @ [filename]) contents mode maxBytes)
              (io_return (dir @ [filename]))))))"

definition temp_name_of :: "storage_env \<Rightarrow> string \<Rightarrow> string" where
  "temp_name_of pe filename = ''.'' @ filename @ ''.'' @ pe_random pe @ ''.tmp''"

text \<open>
  The \<open>try\<close> block of \<open>atomicWritePrivateFile\<close> up to the rename; the clean-up of its
  \<open>finally\<close> runs only when a temporary file is left, so it is attached here.
\<close>

definition commit_temp ::
  "storage_env \<Rightarrow> path \<Rightarrow> path \<Rightarrow> stats option \<Rightarrow> nat \<Rightarrow> nat \<Rightarrow> (pstore, unit) io" where
  "commit_temp pe temp target previous maxBytes mode =
     io_bind (readExistingIdentity pe target maxBytes mode) (\<lambda>current.
     io_then (throw_if (previous = None \<and> current \<noteq> None) ''private_file_created_during_replace'')
     (io_then (throw_if (case previous of
                           None \<Rightarrow> False
                         | Some p \<Rightarrow> (case current of None \<Rightarrow> True | Some c \<Rightarrow> \<not> sameFileIdentity p c))
                 ''private_file_replaced_during_write'')
              (renameWithBoundedRetry pe temp target)))"

definition atomicWritePrivateFile ::
  "storage_env \<Rightarrow> string \<Rightarrow> string \<Rightarrow> string \<Rightarrow> string \<Rightarrow> nat \<Rightarrow> nat \<Rightarrow> (pstore, path) io" where
  "atomicWritePrivateFile pe appDataRoot subdir filename contents maxBytes mode =
     io_then (validateSizeCap maxBytes)
     (io_then (validateFilename filename)
     (io_then (throw_if (maxBytes < length contents) ''private_file_too_large'')
     (io_bind (ensurePrivateStorageSubdir pe appDataRoot subdir) (\<lambda>dir.
      let target = dir @ [filename]; temp = dir @ [temp_name_of pe filename]
      in io_then (assertContained_ps dir target)
         (io_bind (readExistingIdentity pe target maxBytes mode) (\<lambda>previous.
          io_then (assertContained_ps dir temp)
         (io_then (createExclusiveFileAtPath pe temp contents mode maxBytes)
         (io_bind (sys (d_lstat pe temp)) (\<lambda>tempIdentity.
          io_then (io_catch (commit_temp pe temp target previous maxBytes mode)
                     (\<lambda>e. io_then (removeOwnedTemp pe temp tempIdentity) (io_throw e)))
         (io_bind (readVerifiedFileAtPath pe target maxBytes mode) (\<lambda>committed.
          io_then (throw_if (fr_buffer committed \<noteq> contents) ''private_file_commit_mismatch'')
                  (io_return target))))))))))))"

definition removePrivateFile :: "storage_env \<Rightarrow> string \<Rightarrow> string \<Rightarrow> string \<Rightarrow> nat \<Rightarrow> nat \<Rightarrow> (pstore, bool) io" where
  "removePrivateFile pe appDataRoot subdir filename maxBytes mode =
     io_bind (readPrivateFileIfExists pe appDataRoot subdir filename maxBytes mode) (\<lambda>found.
     case found of
       None \<Rightarrow> io_return False
     | Some f \<Rightarrow>
         io_bind (sys (d_lstat pe (fr_path f))) (\<lambda>finalStat.
         io_then (assertPrivateFile pe finalStat ''private_file'' mode)
         (io_then (throw_if (\<not> sameFileIdentity (fr_stat f) finalStat) ''private_file_replaced_before_remove'')
         (io_then (sys (d_unlink (fr_path f))) (io_return True)))))"

end
