(* ===== verification/PrivateLaws.thy ===== *)
theory PrivateLaws
  imports PrivateStorage
begin

text \<open>
  Laws of the private storage while no other process interferes: what the checks
  establish, that a verified read sees exactly the file, and what creation and
  replacement leave behind.
\<close>

section \<open>Quiet states\<close>

abbreviation quiet :: "pstore \<Rightarrow> bool" where
  "quiet s \<equiv> p_others s = []"

lemma sys_quiet: "quiet s \<Longrightarrow> sys f s = (fst (f (p_disk s)), s\<lparr>p_disk := snd (f (p_disk s))\<rparr>)"
  by (cases s) (simp add: sys_def Let_def split: prod.split)

lemma sys_read: "quiet s \<Longrightarrow> snd (f (p_disk s)) = p_disk s \<Longrightarrow> sys f s = (fst (f (p_disk s)), s)"
  by (simp add: sys_quiet)

text \<open>What others do can only happen in the calls that are left.\<close>

lemma io_bind_run: "m s = (Inr x, s') \<Longrightarrow> io_bind m f s = f x s'"
  by (simp add: io_bind_def)

lemma io_bind_Inr: "io_bind m f s = (Inr y, s'') \<longleftrightarrow> (\<exists>x s'. m s = (Inr x, s') \<and> f x s' = (Inr y, s''))"
  by (auto simp: io_bind_def split: prod.splits sum.splits)

lemma io_then_Inr: "io_then m n s = (Inr y, s'') \<longleftrightarrow> (\<exists>x s'. m s = (Inr x, s') \<and> n s' = (Inr y, s''))"
  by (simp add: io_then_def io_bind_Inr)

lemma throw_if_Inr [simp]: "throw_if b msg s = (Inr u, s') \<longleftrightarrow> \<not> b \<and> s' = s"
  by (auto simp: throw_if_def io_guard_def io_return_def io_throw_def)

lemma io_return_Inr [simp]: "io_return x s = (Inr y, s') \<longleftrightarrow> y = x \<and> s' = s"
  by (auto simp: io_return_def)

lemma throw_if_run: "\<not> b \<Longrightarrow> throw_if b msg s = (Inr (), s)"
  by simp

section \<open>Plain paths\<close>

definition plain_dir :: "disk \<Rightarrow> path \<Rightarrow> bool" where
  "plain_dir d p \<longleftrightarrow> (\<forall>k. 0 < k \<longrightarrow> k \<le> length p \<longrightarrow> (\<exists>i. d_node d (take k p) = Some i \<and> i_kind i = KDir))"

lemma plain_dir_Nil [simp]: "plain_dir d []"
  by (simp add: plain_dir_def)

lemma plain_dir_snoc: "plain_dir d (p @ [w]) \<longleftrightarrow> plain_dir d p \<and> (\<exists>i. d_node d (p @ [w]) = Some i \<and> i_kind i = KDir)"
proof
  assume h: "plain_dir d (p @ [w])"
  then have "\<exists>i. d_node d (take (length (p @ [w])) (p @ [w])) = Some i \<and> i_kind i = KDir" unfolding plain_dir_def by blast
  moreover have "plain_dir d p"
    unfolding plain_dir_def
  proof (intro allI impI)
    fix k assume k: "0 < k" "k \<le> length p"
    then have "take k (p @ [w]) = take k p" by simp
    with h [unfolded plain_dir_def, rule_format, of k] k show "\<exists>i. d_node d (take k p) = Some i \<and> i_kind i = KDir" by simp
  qed
  ultimately show "plain_dir d p \<and> (\<exists>i. d_node d (p @ [w]) = Some i \<and> i_kind i = KDir)" by simp
next
  assume h: "plain_dir d p \<and> (\<exists>i. d_node d (p @ [w]) = Some i \<and> i_kind i = KDir)"
  show "plain_dir d (p @ [w])"
    unfolding plain_dir_def
  proof (intro allI impI)
    fix k assume k: "0 < k" "k \<le> length (p @ [w])"
    show "\<exists>i. d_node d (take k (p @ [w])) = Some i \<and> i_kind i = KDir"
    proof (cases "k \<le> length p")
      case True
      with h k show ?thesis unfolding plain_dir_def by simp
    next
      case False
      with k h show ?thesis by (simp add: le_Suc_eq)
    qed
  qed
qed

lemma plain_dir_step: "plain_dir d (cur @ w # ws) \<Longrightarrow> plain_dir d (cur @ [w]) \<and> (\<exists>i. d_node d (cur @ [w]) = Some i \<and> i_kind i = KDir)"
proof (induction ws rule: rev_induct)
  case Nil
  then show ?case using plain_dir_snoc [of d cur w] by simp
next
  case (snoc v ws)
  then show ?case using plain_dir_snoc [of d "cur @ w # ws" v] by simp
qed

lemma walk_plain: "plain_dir d (cur @ ws) \<Longrightarrow> walk n follow d cur ws = Inr (cur @ ws)"
proof (induction ws arbitrary: cur)
  case (Cons w ws)
  from plain_dir_step [OF Cons.prems] Cons.IH [of "cur @ [w]"] Cons.prems show ?case by auto
qed simp

lemma walk_location: "plain_dir d (cur @ ws) \<Longrightarrow> walk n False d cur (ws @ [w]) = Inr (cur @ ws @ [w])"
proof (induction ws arbitrary: cur)
  case (Cons v ws)
  from plain_dir_step [OF Cons.prems] Cons.IH [of "cur @ [v]"] Cons.prems show ?case by auto
qed simp

lemma walk_file:
  "plain_dir d (cur @ ws) \<Longrightarrow> d_node d (cur @ ws @ [w]) = Some i \<Longrightarrow> i_kind i = KFile c \<Longrightarrow>
   walk n True d cur (ws @ [w]) = Inr (cur @ ws @ [w])"
proof (induction ws arbitrary: cur)
  case (Cons v ws)
  from plain_dir_step [OF Cons.prems(1)] Cons.IH [of "cur @ [v]"] Cons.prems show ?case by auto
qed simp

lemma walk_blocked:
  "plain_dir d (cur @ ws) \<Longrightarrow> d_node d (cur @ ws @ [w]) = Some i \<Longrightarrow> i_kind i = KFile c \<Longrightarrow>
   walk n follow d cur (ws @ [w, v]) = Inl (Sys ''ENOTDIR'')"
proof (induction ws arbitrary: cur)
  case (Cons x ws)
  from plain_dir_step [OF Cons.prems(1)] Cons.IH [of "cur @ [x]"] Cons.prems show ?case by auto
qed simp

lemmas location = walk_location [where cur = "[]", simplified]

lemma lstat_at:
  "plain_dir d p \<Longrightarrow> d_lstat pe (p @ [w]) d =
     (case d_node d (p @ [w]) of
        None \<Rightarrow> Inl (Sys ''ENOENT'')
      | Some i \<Rightarrow> Inr (stats_of pe (case d_ino d (p @ [w]) of Some k \<Rightarrow> k | None \<Rightarrow> 0) i), d)"
  by (simp add: d_lstat_def location split: option.split)

lemma lstat_state [simp]: "snd (d_lstat pe p d) = d"
  by (simp add: d_lstat_def)

lemma read_state [simp]: "snd (d_read k m n d) = d" "snd (d_fstat pe k d) = d" "snd (d_open p d) = d"
    "snd (d_realpath p d) = d" "snd (d_exists p d) = d"
  by (simp_all add: d_read_def d_fstat_def d_open_def d_realpath_def d_exists_def)

lemma type_of_iff: "type_of k = TDir \<longleftrightarrow> k = KDir" "type_of k = TFile \<longleftrightarrow> (\<exists>c. k = KFile c)" "type_of k = TLink \<longleftrightarrow> (\<exists>t. k = KLink t)"
  by (cases k; simp)+

lemma stats_type [simp]: "st_type (stats_of pe k i) = type_of (i_kind i)" "st_uid (stats_of pe k i) = i_uid i"
    "st_mode (stats_of pe k i) = i_mode i" "st_size (stats_of pe k i) = size_of (i_kind i)"
  by (simp_all add: stats_of_def)

section \<open>What the checks mean\<close>

definition owner_ok :: "storage_env \<Rightarrow> nat \<Rightarrow> bool" where
  "owner_ok pe uid = (case pe_getuid pe of None \<Rightarrow> True | Some u \<Rightarrow> uid = u)"

definition mode_ok :: "storage_env \<Rightarrow> nat \<Rightarrow> nat \<Rightarrow> bool" where
  "mode_ok pe mode m = (pe_win32 pe \<or> m mod 512 = mode)"

lemma assertCurrentOwner_Inr [simp]: "assertCurrentOwner pe st label s = (Inr u, s') \<longleftrightarrow> owner_ok pe (st_uid st) \<and> s' = s"
  by (auto simp: assertCurrentOwner_def owner_ok_def split: option.split)

lemma assertPrivateFile_Inr [simp]:
  "assertPrivateFile pe st label mode s = (Inr u, s') \<longleftrightarrow>
   st_type st = TFile \<and> owner_ok pe (st_uid st) \<and> mode_ok pe mode (st_mode st) \<and> s' = s"
  by (auto simp: assertPrivateFile_def io_then_Inr mode_ok_def)

lemma assertPrivateDirectory_Inr [simp]:
  "assertPrivateDirectory pe st label s = (Inr u, s') \<longleftrightarrow>
   st_type st = TDir \<and> owner_ok pe (st_uid st) \<and> mode_ok pe 448 (st_mode st) \<and> s' = s"
  by (auto simp: assertPrivateDirectory_def io_then_Inr mode_ok_def)

lemma sameFileIdentity_refl [simp]: "sameFileIdentity st st"
  by (simp add: sameFileIdentity_def)

text \<open>The component loop goes through exactly when no component is a link.\<close>

lemma check_components_Inr:
  assumes "quiet s" "plain_dir (p_disk s) cur"
  shows "check_components pe cur parts err s = (Inr u, s') \<longleftrightarrow>
     s' = s \<and> (parts \<noteq> [] \<longrightarrow> plain_dir (p_disk s) (cur @ butlast parts)
                \<and> (\<exists>i. d_node (p_disk s) (cur @ parts) = Some i \<and> type_of (i_kind i) \<noteq> TLink))"
  using assms(2)
proof (induction parts arbitrary: cur)
  case (Cons w ws)
  let ?d = "p_disk s"
  have step: "check_components pe cur (w # ws) err s = (Inr u, s') \<longleftrightarrow>
      (\<exists>i. d_node ?d (cur @ [w]) = Some i \<and> type_of (i_kind i) \<noteq> TLink)
      \<and> check_components pe (cur @ [w]) ws err s = (Inr u, s')"
    using assms(1) Cons.prems by (auto simp: io_bind_Inr io_then_Inr sys_read lstat_at split: option.splits)
  show ?case
  proof (cases "ws = []")
    case True
    then show ?thesis using step Cons.prems by auto
  next
    case False
    show ?thesis
    proof (cases "\<exists>i. d_node ?d (cur @ [w]) = Some i \<and> i_kind i = KDir")
      case True
      then have pd: "plain_dir ?d (cur @ [w])" using Cons.prems plain_dir_snoc by blast
      show ?thesis using step Cons.IH [OF pd] True False by auto
    next
      case nodir: False
      have "\<not> plain_dir ?d (cur @ w # butlast ws)" using plain_dir_step nodir by blast
      moreover have "check_components pe (cur @ [w]) ws err s \<noteq> (Inr u, s')"
        if "d_node ?d (cur @ [w]) = Some i" "type_of (i_kind i) \<noteq> TLink" for i
      proof -
        obtain v vs where v: "ws = v # vs" using False by (cases ws) auto
        have "\<exists>c. i_kind i = KFile c" using that nodir by (cases "i_kind i") auto
        then have "walk SYMLOOP_MAX False ?d [] ((cur @ [w]) @ [v]) = Inl (Sys ''ENOTDIR'')"
          using that walk_blocked [of ?d "[]" cur w i] Cons.prems by auto
        then show ?thesis using assms(1) by (auto simp: v io_bind_Inr sys_read d_lstat_def)
      qed
      ultimately show ?thesis using step False by auto
    qed
  qed
qed simp

lemma canonical_Inr:
  assumes "quiet s"
  shows "assertCanonicalPath pe (q @ [w]) label s = (Inr u, s') \<longleftrightarrow>
     s' = s \<and> plain_dir (p_disk s) q \<and> (\<exists>i. d_node (p_disk s) (q @ [w]) = Some i \<and> type_of (i_kind i) \<noteq> TLink)"
proof -
  let ?d = "p_disk s"
  have "\<exists>r. walk SYMLOOP_MAX True ?d [] (q @ [w]) = Inr r"
    if "plain_dir ?d q" "d_node ?d (q @ [w]) = Some i" "type_of (i_kind i) \<noteq> TLink" for i
  proof (cases "i_kind i")
    case KDir
    with that have "plain_dir ?d (q @ [w])" by (simp add: plain_dir_snoc)
    then show ?thesis using walk_plain [of ?d "[]"] by simp
  next
    case (KFile c)
    with that walk_file [of ?d "[]" q w i c] show ?thesis by simp
  qed (use that in auto)
  then show ?thesis
    unfolding assertCanonicalPath_def assertPathHasNoRedirectComponents_def
    using assms check_components_Inr [of s "[]" pe "q @ [w]"]
    by (auto simp: io_bind_Inr sys_read) (auto simp: d_realpath_def)
qed

section \<open>Verified reads\<close>

definition file_at :: "disk \<Rightarrow> path \<Rightarrow> nat \<Rightarrow> inode \<Rightarrow> string \<Rightarrow> bool" where
  "file_at d p k i c \<longleftrightarrow> p \<noteq> [] \<and> d_ino d p = Some k \<and> d_inodes d k = Some i \<and> i_kind i = KFile c"

lemma file_at_node: "file_at d p k i c \<Longrightarrow> d_node d p = Some i"
  by (simp add: file_at_def d_node_def)

lemma node_file_at: "d_node d p = Some i \<Longrightarrow> i_kind i = KFile c \<Longrightarrow> \<exists>k. file_at d p k i c"
  by (auto simp: file_at_def d_node_def root_inode_def split: if_splits option.splits)

definition good_file :: "storage_env \<Rightarrow> disk \<Rightarrow> path \<Rightarrow> nat \<Rightarrow> nat \<Rightarrow> inode \<Rightarrow> string \<Rightarrow> bool" where
  "good_file pe d p mode k i c \<longleftrightarrow>
     file_at d p k i c \<and> plain_dir d (butlast p) \<and> owner_ok pe (i_uid i) \<and> mode_ok pe mode (i_mode i)"

text \<open>A read of a regular file that asks for something and is not at the end returns something.\<close>

definition progress :: "storage_env \<Rightarrow> bool" where
  "progress pe \<longleftrightarrow> (\<forall>n. 0 < pe_count pe n)"

lemma readAll_whole:
  assumes "quiet s" "progress pe" "d_inodes (p_disk s) k = Some i" "i_kind i = KFile c"
  shows "got = take (length got) c \<Longrightarrow> readAll pe k (length c) got s = (Inr c, s)"
proof (induction "length c - length got" arbitrary: got rule: less_induct)
  case less
  show ?case
  proof (cases "length c \<le> length got")
    case True
    with less.prems show ?thesis by (subst readAll.simps) simp
  next
    case False
    define n where "n = min (pe_count pe (length got)) (length c - length got)"
    have n: "0 < n" using False assms(2) by (simp add: n_def progress_def)
    let ?b = "take n (drop (length got) c)"
    have b: "?b \<noteq> []" using n False by simp
    have prefix: "got @ ?b = take (length (got @ ?b)) c"
      using less.prems by (metis (no_types, lifting) append_eq_conv_conj append_take_drop_id take_add length_append length_take min_def take_take)
    have "readAll pe k (length c) (got @ ?b) s = (Inr c, s)"
      using False n by (intro less.hyps prefix) simp
    moreover have "sys (d_read k (length got) n) s = (Inr ?b, s)"
      using assms by (simp add: sys_read d_read_def)
    ultimately show ?thesis
      using False b by (subst readAll.simps) (simp add: n_def [symmetric] io_bind_run)
  qed
qed

lemma good_read:
  assumes "quiet s" "progress pe" "good_file pe (p_disk s) p mode k i c" "length c \<le> maxBytes"
  shows "readVerifiedFileAtPath pe p maxBytes mode s
       = (Inr \<lparr>fr_buffer = c, fr_path = p, fr_stat = stats_of pe k i\<rparr>, s)"
proof -
  let ?d = "p_disk s"
  obtain q w where p: "p = q @ [w]" using assms(3) by (metis append_butlast_last_id file_at_def good_file_def)
  have f: "file_at ?d p k i c" and q: "plain_dir ?d q" and ok: "owner_ok pe (i_uid i)" "mode_ok pe mode (i_mode i)"
    using assms(3) by (auto simp: good_file_def p)
  have node: "d_node ?d p = Some i" by (rule file_at_node [OF f])
  have st: "st_type (stats_of pe k i) = TFile" using f by (simp add: file_at_def)
  have lstat: "sys (d_lstat pe p) s = (Inr (stats_of pe k i), s)"
    using assms(1) q node f unfolding p by (simp add: sys_read lstat_at file_at_def)
  have fstat: "sys (d_fstat pe k) s = (Inr (stats_of pe k i), s)"
    using assms(1) f by (simp add: sys_read d_fstat_def file_at_def)
  have op: "sys (d_open p) s = (Inr k, s)"
    using assms(1) q node f unfolding p by (simp add: sys_read d_open_def location file_at_def)
  have canon: "assertCanonicalPath pe p label s = (Inr (), s)" for label
    using canonical_Inr [OF assms(1), of pe q w label "()" s] q node f unfolding p by (auto simp: file_at_def)
  have isfile: "assertPrivateFile pe (stats_of pe k i) label mode s = (Inr (), s)" for label
    using st ok by simp
  have rd: "readAll pe k (length c) [] s = (Inr c, s)"
    using readAll_whole [OF assms(1,2)] f by (simp add: file_at_def)
  have size: "st_size (stats_of pe k i) = length c" using f by (simp add: file_at_def)
  show ?thesis
    unfolding readVerifiedFileAtPath_def io_then_def
    using assms(4) lstat fstat op canon isfile rd size by (simp add: io_bind_run throw_if_run io_return_def)
qed

lemma missing_read:
  assumes "quiet s" "plain_dir (p_disk s) q" "d_node (p_disk s) (q @ [w]) = None"
  shows "readVerifiedFileAtPath pe (q @ [w]) maxBytes mode s = (Inl (Sys ''ENOENT''), s)"
  using assms by (simp add: readVerifiedFileAtPath_def io_bind_def sys_read lstat_at)

text \<open>The converse: what a successful read says about the disk.\<close>

lemma read_good:
  assumes "quiet s" "progress pe" "readVerifiedFileAtPath pe p maxBytes mode s = (Inr r, s')" "p \<noteq> []"
  shows "\<exists>k i c. good_file pe (p_disk s) p mode k i c \<and> length c \<le> maxBytes \<and> s' = s
           \<and> r = \<lparr>fr_buffer = c, fr_path = p, fr_stat = stats_of pe k i\<rparr>"
proof -
  let ?d = "p_disk s"
  obtain q w where p: "p = q @ [w]" using assms(4) by (metis append_butlast_last_id)
  from assms(3) obtain st s1 s2 u where
    l: "sys (d_lstat pe p) s = (Inr st, s1)" "st_type st = TFile" "owner_ok pe (st_uid st)" "mode_ok pe mode (st_mode st)"
    and c: "assertCanonicalPath pe p ''private_file'' s1 = (Inr u, s2)"
    unfolding readVerifiedFileAtPath_def by (auto simp: io_bind_Inr io_then_Inr)
  have s1: "s1 = s" and st: "fst (d_lstat pe p ?d) = Inr st" using l(1) assms(1) by (auto simp: sys_read)
  have canon: "plain_dir ?d q" "s2 = s" using c canonical_Inr [OF assms(1)] unfolding s1 p by auto
  have "\<exists>i cc. d_node ?d p = Some i \<and> i_kind i = KFile cc \<and> st = stats_of pe (case d_ino ?d p of Some k \<Rightarrow> k | None \<Rightarrow> 0) i"
    using st l(2) canon(1) unfolding p by (auto simp: lstat_at type_of_iff split: option.splits)
  then obtain i cc where i: "d_node ?d p = Some i" "i_kind i = KFile cc"
    "st = stats_of pe (case d_ino ?d p of Some k \<Rightarrow> k | None \<Rightarrow> 0) i" by blast
  obtain k where k: "file_at ?d p k i cc" using node_file_at [OF i(1,2)] by blast
  have good: "good_file pe ?d p mode k i cc"
    using k canon(1) l(3,4) i(3) by (simp add: good_file_def p)
  show ?thesis
  proof (cases "length cc \<le> maxBytes")
    case True
    with good_read [OF assms(1,2) good] assms(3) good show ?thesis by auto
  next
    case False
    have "sys (d_open p) s = (Inr k, s)" "sys (d_fstat pe k) s = (Inr (stats_of pe k i), s)"
      using assms(1) canon(1) k i(1) unfolding p by (simp_all add: sys_read d_open_def location file_at_def d_fstat_def)
    then have False
      using assms(3) l(1) c canon False i(2) unfolding readVerifiedFileAtPath_def s1
      by (auto simp: io_bind_Inr io_then_Inr)
    then show ?thesis ..
  qed
qed

section \<open>Creation\<close>

definition wf_disk :: "disk \<Rightarrow> bool" where
  "wf_disk d \<longleftrightarrow> (\<forall>p k. d_ino d p = Some k \<longrightarrow> k < d_next d \<and> d_inodes d k \<noteq> None)"

lemma absent_ino: "wf_disk d \<Longrightarrow> d_node d p = None \<longleftrightarrow> p \<noteq> [] \<and> d_ino d p = None"
  by (auto simp: wf_disk_def d_node_def split: option.splits)

text \<open>Nothing that was there has changed, and nothing has appeared but at the given paths.\<close>

definition d_grows :: "path set \<Rightarrow> disk \<Rightarrow> disk \<Rightarrow> bool" where
  "d_grows new d d' \<longleftrightarrow>
     (\<forall>p k. d_ino d p = Some k \<longrightarrow> d_ino d' p = Some k \<and> d_inodes d' k = d_inodes d k)
     \<and> (\<forall>p. p \<notin> new \<longrightarrow> d_ino d' p = d_ino d p) \<and> d_next d \<le> d_next d'"

lemma d_grows_refl [simp]: "d_grows new d d"
  by (simp add: d_grows_def)

lemma d_grows_trans: "d_grows a d d' \<Longrightarrow> d_grows b d' d'' \<Longrightarrow> d_grows (a \<union> b) d d''"
  unfolding d_grows_def by (metis UnI1 UnI2 le_trans)

lemma d_grows_node: "d_grows new d d' \<Longrightarrow> d_node d p = Some i \<Longrightarrow> d_node d' p = Some i"
  by (auto simp: d_node_def d_grows_def split: if_splits option.splits)

lemma d_grows_plain: "d_grows new d d' \<Longrightarrow> plain_dir d p \<Longrightarrow> plain_dir d' p"
  unfolding plain_dir_def by (meson d_grows_node)

lemma d_grows_good: "d_grows new d d' \<Longrightarrow> good_file pe d p mode k i c \<Longrightarrow> good_file pe d' p mode k i c"
  unfolding good_file_def file_at_def using d_grows_plain by (metis d_grows_def)

lemma d_grows_absent: "d_grows new d d' \<Longrightarrow> wf_disk d \<Longrightarrow> p \<notin> new \<Longrightarrow> d_node d p = None \<Longrightarrow> d_node d' p = None"
  by (simp add: absent_ino) (simp add: d_grows_def d_node_def)

definition fresh_from :: "disk \<Rightarrow> path set \<Rightarrow> pstore \<Rightarrow> bool" where
  "fresh_from d new s \<longleftrightarrow> quiet s \<and> wf_disk (p_disk s) \<and> d_grows new d (p_disk s)"

lemma fresh_read: "snd (f (p_disk s)) = p_disk s \<Longrightarrow> fresh_from d new s \<Longrightarrow> fresh_from d new (snd (sys f s))"
  by (simp add: fresh_from_def sys_read)

lemma keeps_sys:
  assumes "\<And>s. P s \<Longrightarrow> quiet s" "\<And>s. P s \<Longrightarrow> P (s\<lparr>p_disk := snd (f (p_disk s))\<rparr>)"
  shows "keeps P (sys f)"
  using assms by (auto simp: triple_def sys_quiet split: sum.split)

lemma keeps_sys_read: "(\<And>s. P s \<Longrightarrow> quiet s) \<Longrightarrow> (\<And>d. snd (f d) = d) \<Longrightarrow> keeps P (sys f)"
  by (rule keeps_sys) auto

lemma fresh_quiet: "fresh_from d new s \<Longrightarrow> quiet s"
  by (simp add: fresh_from_def)

lemma fresh_inode_change:
  assumes "fresh_from d new s" "d_next d \<le> k" "wf_disk d"
  shows "fresh_from d new (s\<lparr>p_disk := (p_disk s)\<lparr>d_inodes := (d_inodes (p_disk s))(k \<mapsto> i)\<rparr>\<rparr>)"
  using assms unfolding fresh_from_def wf_disk_def d_grows_def d_ino_def
  by (fastforce)

lemma fresh_set_mode: "wf_disk d \<Longrightarrow> d_next d \<le> k \<Longrightarrow> keeps (fresh_from d new) (sys (d_set_mode m k))"
  by (rule keeps_sys) (auto simp: fresh_quiet d_set_mode_def intro: fresh_inode_change split: option.split)

lemma fresh_write: "wf_disk d \<Longrightarrow> d_next d \<le> k \<Longrightarrow> keeps (fresh_from d new) (sys (d_write k b))"
  by (rule keeps_sys) (auto simp: fresh_quiet d_write_def intro: fresh_inode_change split: option.split ikind.split)

lemma fresh_writeAll: "wf_disk d \<Longrightarrow> d_next d \<le> k \<Longrightarrow> keeps (fresh_from d new) (writeAll pe k bytes off)"
proof (induction pe k bytes off rule: writeAll.induct)
  case (1 pe k bytes off)
  then show ?case
    by (subst writeAll.simps) (auto simp: Let_def intro!: triple_then [where R = "fresh_from d new"] fresh_write)
qed

lemma fresh_add:
  assumes "fresh_from d new s" "wf_disk d" "q \<noteq> []" "d_ino (p_disk s) q = None"
  shows "fresh_from d (insert q new) (s\<lparr>p_disk := d_add q i (p_disk s)\<rparr>)"
  using assms unfolding fresh_from_def wf_disk_def d_grows_def d_ino_def d_add_def
  by (auto simp: less_Suc_eq) (metis less_le_trans less_irrefl option.distinct(1) option.inject)+

lemma fresh_create_call:
  assumes "fresh_from d new s" "wf_disk d" "plain_dir (p_disk s) q" "sys (d_create pe mode (q @ [w])) s = (r, s')"
  shows "(\<exists>e. r = Inl e \<and> s' = s) \<or> (r = Inr (d_next (p_disk s)) \<and> fresh_from d (insert (q @ [w]) new) s'
      \<and> d_node (p_disk s) (q @ [w]) = None \<and> d_ino (p_disk s') (q @ [w]) = Some (d_next (p_disk s))
      \<and> (\<exists>i. d_inodes (p_disk s') (d_next (p_disk s)) = Some i \<and> i_kind i = KFile []))"
proof -
  have wf: "wf_disk (p_disk s)" "quiet s" using assms(1) by (auto simp: fresh_from_def)
  let ?i = "\<lparr>i_kind = KFile [], i_mode = pe_umask pe mode, i_uid = my_uid pe, i_mtime = pe_now pe\<rparr>"
  show ?thesis
  proof (cases "d_node (p_disk s) (q @ [w]) = None")
    case True
    with wf have ino: "d_ino (p_disk s) (q @ [w]) = None" by (simp add: absent_ino)
    have run: "r = Inr (d_next (p_disk s))" "s' = s\<lparr>p_disk := d_add (q @ [w]) ?i (p_disk s)\<rparr>"
      using assms(3,4) True wf by (auto simp: sys_quiet d_create_def location)
    with fresh_add [OF assms(1,2) _ ino] True show ?thesis by (simp add: d_add_def d_ino_def)
  next
    case False
    with assms(3,4) wf show ?thesis by (auto simp: sys_quiet d_create_def location)
  qed
qed

lemma write_result:
  assumes "quiet s" "d_inodes (p_disk s) k = Some i" "i_kind i = KFile c" "sys (d_write k b) s = (r, s')"
  shows "r = Inr () \<and> quiet s' \<and> d_entries (p_disk s') = d_entries (p_disk s)
    \<and> (\<exists>i'. d_inodes (p_disk s') k = Some i' \<and> i_kind i' = KFile (c @ b))"
  using assms by (auto simp: sys_quiet d_write_def)

lemma writeAll_result:
  assumes "quiet s" "d_inodes (p_disk s) k = Some i" "i_kind i = KFile c" "writeAll pe k bytes off s = (Inr u, s')"
  shows "quiet s' \<and> d_entries (p_disk s') = d_entries (p_disk s)
    \<and> (\<exists>i'. d_inodes (p_disk s') k = Some i' \<and> i_kind i' = KFile (c @ drop off bytes))"
  using assms
proof (induction pe k bytes off arbitrary: s i c rule: writeAll.induct)
  case (1 pe k bytes off)
  define n where "n = min (pe_count pe off) (length bytes - off)"
  show ?case
  proof (cases "length bytes \<le> off")
    case True
    with 1(2-5) show ?thesis by (subst (asm) writeAll.simps) simp
  next
    case False
    with 1(5) obtain r s1 where n: "n \<noteq> 0" and w: "sys (d_write k (take n (drop off bytes))) s = (Inr r, s1)"
      and rest: "writeAll pe k bytes (off + n) s1 = (Inr u, s')"
      by (subst (asm) writeAll.simps)
         (auto simp: Let_def n_def [symmetric] io_then_Inr io_throw_def split: if_splits)
    from write_result [OF 1(2-4) w] obtain i' where
      i': "quiet s1" "d_entries (p_disk s1) = d_entries (p_disk s)" "d_inodes (p_disk s1) k = Some i'"
        "i_kind i' = KFile (c @ take n (drop off bytes))" by blast
    have "take n (drop off bytes) @ drop (off + n) bytes = drop off bytes"
      by (metis add.commute append_take_drop_id drop_drop)
    with 1(1) [OF False refl _ i'(1,3,4)] n rest i'(2) False show ?thesis by (simp add: n_def)
  qed
qed

lemma fresh_mono: "fresh_from d new s \<Longrightarrow> new \<subseteq> new' \<Longrightarrow> fresh_from d new' s"
  by (auto simp: fresh_from_def d_grows_def)

lemma keeps_throw_if: "keeps P (throw_if b msg)"
  by (simp add: throw_if_def)

lemma keeps_io_then: "keeps P m \<Longrightarrow> keeps P n \<Longrightarrow> keeps P (io_then m n)"
  by (rule triple_then)

lemma keeps_io_bind: "keeps P m \<Longrightarrow> (\<And>x. keeps P (f x)) \<Longrightarrow> keeps P (io_bind m f)"
  by (rule triple_bind)

lemma keeps_io_catch: "keeps P m \<Longrightarrow> (\<And>e. keeps P (h e)) \<Longrightarrow> keeps P (io_catch m h)"
  by (rule triple_catch) auto

lemmas keeps_io = keeps_io_then keeps_io_bind keeps_io_catch keeps_throw_if

lemma keeps_owner: "keeps P (assertCurrentOwner pe st l)"
  by (auto simp: assertCurrentOwner_def intro!: keeps_throw_if split: option.split)

lemma keeps_privateFile: "keeps P (assertPrivateFile pe st l m)"
  unfolding assertPrivateFile_def by (intro keeps_io keeps_owner)

lemma keeps_privateDirectory: "keeps P (assertPrivateDirectory pe st l)"
  unfolding assertPrivateDirectory_def by (intro keeps_io keeps_owner)

lemma file_create_frame:
  assumes "fresh_from d new s" "wf_disk d" "plain_dir (p_disk s) q"
    and "createExclusiveFileAtPath pe (q @ [w]) bytes mode maxBytes s = (r, s')"
  shows "fresh_from d (insert (q @ [w]) new) s'"
proof (cases "maxBytes < length bytes")
  case True
  with assms(4) have "s' = s" by (auto simp: createExclusiveFileAtPath_def io_then_def io_bind_def throw_if_def io_guard_def io_throw_def)
  with assms(1) show ?thesis by (auto intro: fresh_mono)
next
  case False
  obtain r1 s1 where c: "sys (d_create pe mode (q @ [w])) s = (r1, s1)" by fastforce
  from fresh_create_call [OF assms(1-3) c] show ?thesis
  proof
    assume "\<exists>e. r1 = Inl e \<and> s1 = s"
    with c False assms(4) have "s' = s"
      by (auto simp: createExclusiveFileAtPath_def io_then_def io_bind_def throw_if_run)
    with assms(1) show ?thesis by (auto intro: fresh_mono)
  next
    let ?fd = "d_next (p_disk s)"
    assume h: "r1 = Inr ?fd \<and> fresh_from d (insert (q @ [w]) new) s1
      \<and> d_node (p_disk s) (q @ [w]) = None \<and> d_ino (p_disk s1) (q @ [w]) = Some ?fd
      \<and> (\<exists>i. d_inodes (p_disk s1) ?fd = Some i \<and> i_kind i = KFile [])"
    have fd: "d_next d \<le> ?fd" using assms(1) by (simp add: fresh_from_def d_grows_def)
    let ?P = "fresh_from d (insert (q @ [w]) new)"
    have setm: "keeps ?P (if pe_win32 pe then io_return () else sys (d_set_mode mode ?fd))"
      using fresh_set_mode [OF assms(2) fd] by simp
    have fst: "keeps ?P (sys (d_fstat pe ?fd))" by (rule keeps_sys_read) (auto dest: fresh_quiet)
    have k: "keeps ?P (io_then (if pe_win32 pe then io_return () else sys (d_set_mode mode ?fd))
     (io_bind (sys (d_fstat pe ?fd)) (\<lambda>st.
      io_then (assertPrivateFile pe st ''private_file'' mode)
     (io_then (writeAll pe ?fd bytes 0)
     (io_bind (sys (d_fstat pe ?fd)) (\<lambda>st'. assertPrivateFile pe st' ''private_file'' mode))))))"
      by (rule keeps_io_then [OF setm keeps_io_bind [OF fst keeps_io_then [OF keeps_privateFile
             keeps_io_then [OF fresh_writeAll [OF assms(2) fd] keeps_io_bind [OF fst keeps_privateFile]]]]])
    have run: "(io_then (if pe_win32 pe then io_return () else sys (d_set_mode mode ?fd))
     (io_bind (sys (d_fstat pe ?fd)) (\<lambda>st.
      io_then (assertPrivateFile pe st ''private_file'' mode)
     (io_then (writeAll pe ?fd bytes 0)
     (io_bind (sys (d_fstat pe ?fd)) (\<lambda>st'. assertPrivateFile pe st' ''private_file'' mode)))))) s1 = (r, s')"
      using assms(4) c h False by (simp add: createExclusiveFileAtPath_def io_then_def io_bind_run throw_if_run)
    show ?thesis by (rule keepsD [OF k _ run]) (simp add: h)
  qed
qed

lemma create_good:
  assumes "fresh_from d new s" "wf_disk d" "plain_dir (p_disk s) q"
    and "createExclusiveFileAtPath pe (q @ [w]) bytes mode maxBytes s = (Inr u, s')"
  shows "length bytes \<le> maxBytes \<and> d_node (p_disk s) (q @ [w]) = None
       \<and> (\<exists>k i. good_file pe (p_disk s') (q @ [w]) mode k i bytes)"
proof -
  from assms(4) obtain fd s1 u1 s2 st s3 u2 s4 st' where
    size: "length bytes \<le> maxBytes" and
    c: "sys (d_create pe mode (q @ [w])) s = (Inr fd, s1)" and
    m: "(if pe_win32 pe then io_return () else sys (d_set_mode mode fd)) s1 = (Inr u1, s2)" and
    st: "sys (d_fstat pe fd) s2 = (Inr st, s3)" and
    w: "writeAll pe fd bytes 0 s3 = (Inr u2, s4)" and
    st': "sys (d_fstat pe fd) s4 = (Inr st', s')" "owner_ok pe (st_uid st')" "mode_ok pe mode (st_mode st')"
    unfolding createExclusiveFileAtPath_def by (auto simp: io_then_Inr io_bind_Inr)
  from fresh_create_call [OF assms(1-3) c] obtain i where
    h: "fresh_from d (insert (q @ [w]) new) s1" "d_node (p_disk s) (q @ [w]) = None"
      "d_ino (p_disk s1) (q @ [w]) = Some fd" "d_inodes (p_disk s1) fd = Some i" "i_kind i = KFile []" by auto
  have s2: "quiet s2 \<and> d_entries (p_disk s2) = d_entries (p_disk s1) \<and> (\<exists>i. d_inodes (p_disk s2) fd = Some i \<and> i_kind i = KFile [])"
    using m h fresh_quiet [OF h(1)] by (auto simp: sys_quiet d_set_mode_def split: if_splits)
  have s3: "s3 = s2" using st s2 by (auto simp: sys_read)
  from s2 obtain i2 where "quiet s2" "d_inodes (p_disk s2) fd = Some i2" "i_kind i2 = KFile []" by blast
  from writeAll_result [OF this w [unfolded s3]] obtain i4 where
    s4: "quiet s4" "d_entries (p_disk s4) = d_entries (p_disk s2)" "d_inodes (p_disk s4) fd = Some i4" "i_kind i4 = KFile bytes"
    by auto
  have fin: "s' = s4" "st' = stats_of pe fd i4" using st'(1) s4 by (auto simp: sys_read d_fstat_def)
  have "plain_dir (p_disk s') q"
  proof -
    have "fresh_from (p_disk s) (insert (q @ [w]) {}) s'"
      using file_create_frame [OF _ _ assms(3,4), of "p_disk s" "{}"] assms(1) by (simp add: fresh_from_def)
    then show ?thesis using d_grows_plain assms(3) by (auto simp: fresh_from_def)
  qed
  then have "good_file pe (p_disk s') (q @ [w]) mode fd i4 bytes"
    using fin s4 s2 h(3) st'(2,3) by (simp add: good_file_def file_at_def d_ino_def)
  with size h(2) show ?thesis by blast
qed

section \<open>Reads change nothing\<close>

lemma keeps_readAll:
  assumes "\<And>s. P s \<Longrightarrow> quiet s"
  shows "keeps P (readAll pe fd n got)"
proof (induction pe fd n got rule: readAll.induct)
  case (1 pe fd n got)
  have "keeps P (sys (d_read fd a b))" for a b by (rule keeps_sys_read) (use assms in auto)
  with 1 show ?case by (subst readAll.simps) (auto intro!: keeps_io_bind)
qed

lemma keeps_components:
  assumes "\<And>s. P s \<Longrightarrow> quiet s"
  shows "keeps P (check_components pe cur parts err)"
proof (induction parts arbitrary: cur)
  case (Cons w ws)
  have "keeps P (sys (d_lstat pe p))" for p by (rule keeps_sys_read) (use assms in auto)
  with Cons show ?case by (auto intro!: keeps_io)
qed simp

lemma keeps_canonical:
  assumes "\<And>s. P s \<Longrightarrow> quiet s"
  shows "keeps P (assertCanonicalPath pe p l)"
  unfolding assertCanonicalPath_def assertPathHasNoRedirectComponents_def
  using assms by (intro keeps_io_bind keeps_sys_read keeps_components) auto

lemma keeps_readVerified:
  assumes "\<And>s. P s \<Longrightarrow> quiet s"
  shows "keeps P (readVerifiedFileAtPath pe p m mode)"
proof -
  have l: "keeps P (sys (d_lstat pe p))" for p by (rule keeps_sys_read) (use assms in auto)
  have f: "keeps P (sys (d_fstat pe k))" for k by (rule keeps_sys_read) (use assms in auto)
  have o: "keeps P (sys (d_open p))" for p by (rule keeps_sys_read) (use assms in auto)
  show ?thesis
    unfolding readVerifiedFileAtPath_def
    by (intro keeps_io l f o keeps_privateFile keeps_canonical keeps_readAll assms) simp_all
qed

lemma keeps_marker:
  assumes "\<And>s. P s \<Longrightarrow> quiet s"
  shows "keeps P (validateRootMarker pe r)"
  unfolding validateRootMarker_def assertContained_ps_def Let_def
  by (intro keeps_io keeps_readVerified assms)

section \<open>The storage area\<close>

definition private_dir :: "storage_env \<Rightarrow> disk \<Rightarrow> path \<Rightarrow> bool" where
  "private_dir pe d p \<longleftrightarrow> (\<exists>i. d_node d p = Some i \<and> i_kind i = KDir \<and> owner_ok pe (i_uid i) \<and> mode_ok pe 448 (i_mode i))"

text \<open>What Electron provides: the application's data directory exists, is reached without links and is ours.\<close>

definition app_ready :: "storage_env \<Rightarrow> string \<Rightarrow> disk \<Rightarrow> bool" where
  "app_ready pe appDataRoot d \<longleftrightarrow>
     trim appDataRoot \<noteq> [] \<and> is_absolute appDataRoot \<and> resolve_segments appDataRoot \<noteq> []
     \<and> plain_dir d (resolve_segments appDataRoot)
     \<and> (\<exists>i. d_node d (resolve_segments appDataRoot) = Some i \<and> owner_ok pe (i_uid i))"

definition marked :: "storage_env \<Rightarrow> disk \<Rightarrow> path \<Rightarrow> bool" where
  "marked pe d r \<longleftrightarrow>
     (\<exists>k i c v. good_file pe d (r @ [ROOT_MARKER_NAME]) 384 k i c \<and> length c \<le> ROOT_MARKER_MAX_BYTES
        \<and> JSON_parse (pe_utf8 pe c) = Some v \<and> valid_marker v)"

definition area :: "storage_env \<Rightarrow> string \<Rightarrow> string \<Rightarrow> disk \<Rightarrow> bool" where
  "area pe appDataRoot subdir d \<longleftrightarrow>
     (let r = resolve_segments appDataRoot @ [PRIVATE_ROOT_NAME]
      in app_ready pe appDataRoot d \<and> private_dir pe d r \<and> marked pe d r \<and> private_dir pe d (r @ [subdir]))"

lemma contained_child: "\<not> starts_with w ''..'' \<Longrightarrow> assertContained_ps r (r @ [w]) s = (Inr (), s)"
  by (simp add: assertContained_ps_def relative_below throw_if_run)

lemma alnum_not_dots: "w \<noteq> [] \<Longrightarrow> hd w \<noteq> CHR ''.'' \<Longrightarrow> \<not> starts_with w ''..''"
  by (cases w) auto

lemma subdir_child: "PRIVATE_SUBDIR_RE w \<Longrightarrow> \<not> starts_with w ''..''"
  by (rule alnum_not_dots) (auto simp: PRIVATE_SUBDIR_RE_def is_lower_def)

lemma filename_child: "PRIVATE_BASENAME_RE w \<Longrightarrow> \<not> starts_with w ''..'' \<and> \<not> starts_with (''.'' @ w @ v) ''..'' \<and> w \<noteq> ''.'' @ w'"
  by (cases w) (auto simp: PRIVATE_BASENAME_RE_def is_alnum_def is_alpha_def is_lower_def is_upper_def is_digit_def)

lemma fixed_children: "\<not> starts_with PRIVATE_ROOT_NAME ''..''" "\<not> starts_with ROOT_MARKER_NAME ''..''"
  by (simp_all add: PRIVATE_ROOT_NAME_def ROOT_MARKER_NAME_def)

lemma app_root_valid:
  assumes "quiet s" "app_ready pe appDataRoot (p_disk s)"
  shows "validateAppDataRoot pe appDataRoot create s = (Inr (resolve_segments appDataRoot), s)"
proof -
  let ?r = "resolve_segments appDataRoot" and ?d = "p_disk s"
  obtain q w where r: "?r = q @ [w]" using assms(2) by (metis append_butlast_last_id app_ready_def)
  obtain i where i: "d_node ?d ?r = Some i" "i_kind i = KDir" "owner_ok pe (i_uid i)" and q: "plain_dir ?d q" and pr: "plain_dir ?d ?r"
    using assms(2) by (auto simp: app_ready_def r plain_dir_snoc)
  have ex: "sys (d_exists ?r) s = (Inr True, s)" using assms(1) walk_plain [of ?d "[]" ?r] pr by (simp add: sys_read d_exists_def)
  have ls: "sys (d_lstat pe ?r) s = (Inr (stats_of pe (case d_ino ?d ?r of Some k \<Rightarrow> k | None \<Rightarrow> 0) i), s)"
    using assms(1) q i unfolding r by (simp add: sys_read lstat_at)
  have ow: "assertCurrentOwner pe (stats_of pe k i) l s = (Inr (), s)" for k l using i by simp
  have ca: "assertCanonicalPath pe ?r l s = (Inr (), s)" for l
    using canonical_Inr [OF assms(1), of pe q w l "()" s] q i unfolding r by auto
  show ?thesis
    unfolding validateAppDataRoot_def io_then_def Let_def
    using assms(2) ex ls ow ca i by (simp add: app_ready_def io_bind_run throw_if_run io_return_def)
qed

end
