(* ===== verification/PrivateOps.thy ===== *)
theory PrivateOps
  imports PrivateLaws
begin

text \<open>
  The operations of the private storage on its area: what \<open>ensurePrivateStorageSubdir\<close>
  establishes, and that reading returns what was last created or replaced.
\<close>

section \<open>Directories\<close>

lemma private_dir_grows: "d_grows new d d' \<Longrightarrow> private_dir pe d p \<Longrightarrow> private_dir pe d' p"
  unfolding private_dir_def by (meson d_grows_node)

lemma marked_grows: "d_grows new d d' \<Longrightarrow> marked pe d r \<Longrightarrow> marked pe d' r"
  unfolding marked_def by (meson d_grows_good)

lemma app_ready_grows: "d_grows new d d' \<Longrightarrow> app_ready pe a d \<Longrightarrow> app_ready pe a d'"
  unfolding app_ready_def by (meson d_grows_node d_grows_plain)

lemma lstat_dir:
  assumes "quiet s" "plain_dir (p_disk s) q"
  shows "io_bind (sys (d_lstat pe (q @ [w]))) (\<lambda>st. io_then (assertPrivateDirectory pe st label) (io_return x)) s
       = (Inr y, s') \<longleftrightarrow> y = x \<and> s' = s \<and> private_dir pe (p_disk s) (q @ [w])"
  using assms
  by (auto simp: io_bind_Inr io_then_Inr sys_read lstat_at private_dir_def type_of_iff split: option.splits)

lemma lstat_dir_missing:
  assumes "quiet s" "plain_dir (p_disk s) q"
  shows "io_bind (sys (d_lstat pe (q @ [w]))) (\<lambda>st. io_then (assertPrivateDirectory pe st label) (io_return x)) s
       = (Inl (Sys ''ENOENT''), s') \<longleftrightarrow> s' = s \<and> d_node (p_disk s) (q @ [w]) = None"
  using assms
  by (auto simp: io_bind_def io_then_def sys_read lstat_at assertPrivateDirectory_def assertCurrentOwner_def throw_if_def
      io_guard_def io_throw_def io_return_def split: option.splits if_splits)

lemma lstat_dir_state:
  assumes "quiet s" "plain_dir (p_disk s) q"
  shows "snd (io_bind (sys (d_lstat pe (q @ [w]))) (\<lambda>st. io_then (assertPrivateDirectory pe st label) (io_return x)) s) = s"
  using assms
  by (auto simp: io_bind_def io_then_def sys_read lstat_at assertPrivateDirectory_def assertCurrentOwner_def throw_if_def
      io_guard_def io_throw_def io_return_def split: option.splits)

lemma fresh_mkdir:
  assumes "fresh_from d new s" "wf_disk d" "plain_dir (p_disk s) q" "d_node (p_disk s) (q @ [w]) = None"
    and "sys (d_mkdir pe 448 (q @ [w])) s = (r, s')"
  shows "r = Inr () \<and> fresh_from d (insert (q @ [w]) new) s' \<and> plain_dir (p_disk s') (q @ [w])
       \<and> d_ino (p_disk s') (q @ [w]) = Some (d_next (p_disk s))"
proof -
  have wf: "wf_disk (p_disk s)" "quiet s" using assms(1) by (auto simp: fresh_from_def)
  let ?i = "\<lparr>i_kind = KDir, i_mode = pe_umask pe 448, i_uid = my_uid pe, i_mtime = pe_now pe\<rparr>"
  have ino: "d_ino (p_disk s) (q @ [w]) = None" using assms(4) wf by (simp add: absent_ino)
  have run: "r = Inr ()" "s' = s\<lparr>p_disk := d_add (q @ [w]) ?i (p_disk s)\<rparr>"
    using assms(3-5) wf by (auto simp: sys_quiet d_mkdir_def location)
  have fr: "fresh_from d (insert (q @ [w]) new) s'" using fresh_add [OF assms(1,2) _ ino] run(2) by simp
  have "fresh_from (p_disk s) {q @ [w]} s'" using fresh_add [of "p_disk s" "{}" s "q @ [w]"] wf ino run(2) by (simp add: fresh_from_def)
  then have "plain_dir (p_disk s') q" using assms(3) d_grows_plain by (auto simp: fresh_from_def)
  moreover have "d_ino (p_disk s') (q @ [w]) = Some (d_next (p_disk s))" "d_node (p_disk s') (q @ [w]) = Some ?i"
    by (simp_all add: run(2) d_add_def d_ino_def d_node_def)
  ultimately show ?thesis using run fr by (simp add: plain_dir_snoc)
qed

lemma fresh_chmod:
  assumes "fresh_from d new s" "wf_disk d" "plain_dir (p_disk s) p" "d_ino (p_disk s) p = Some k" "d_next d \<le> k"
    and "sys (d_chmod m p) s = (r, s')"
  shows "fresh_from d new s' \<and> plain_dir (p_disk s') (butlast p)"
proof -
  have q: "quiet s" using assms(1) by (rule fresh_quiet)
  have run: "s' = s\<lparr>p_disk := snd (d_set_mode m k (p_disk s))\<rparr>"
    using assms(3,4,6) q walk_plain [of "p_disk s" "[]" p] by (auto simp: sys_quiet d_chmod_def)
  have "fresh_from d new s'"
    using fresh_inode_change [OF assms(1,5,2)] assms(1) run by (auto simp: d_set_mode_def split: option.split)
  moreover have "plain_dir (p_disk s') p"
    using assms(3) run unfolding plain_dir_def
    by (auto simp: d_set_mode_def d_node_def d_ino_def split: option.splits)
  ultimately show ?thesis
    by (metis append_butlast_last_id butlast.simps(1) plain_dir_Nil plain_dir_snoc)
qed

lemma io_catch_run: "io_catch m h s = (case m s of (Inl e, s1) \<Rightarrow> h e s1 | (Inr x, s1) \<Rightarrow> (Inr x, s1))"
  by (simp add: io_catch_def)

lemma io_then_run: "m s = (r, s1) \<Longrightarrow> io_then m n s = (case r of Inl e \<Rightarrow> (Inl e, s1) | Inr _ \<Rightarrow> n s1)"
  by (simp add: io_then_def io_bind_def)

lemma io_bind_run_case: "m s = (r, s1) \<Longrightarrow> io_bind m f s = (case r of Inl e \<Rightarrow> (Inl e, s1) | Inr x \<Rightarrow> f x s1)"
  by (simp add: io_bind_def)

lemma ensureDirectory_spec:
  assumes "fresh_from d new s" "wf_disk d" "plain_dir (p_disk s) q" "ensureDirectory pe (q @ [w]) label s = (r, s')"
  shows "fresh_from d (insert (q @ [w]) new) s' \<and> (\<forall>b. r = Inr b \<longrightarrow> private_dir pe (p_disk s') (q @ [w])
           \<and> plain_dir (p_disk s') q \<and> (b \<longrightarrow> d_node (p_disk s) (q @ [w]) = None) \<and> (\<not> b \<longrightarrow> s' = s))"
proof -
  let ?m = "\<lambda>x. io_bind (sys (d_lstat pe (q @ [w]))) (\<lambda>st. io_then (assertPrivateDirectory pe st label) (io_return x)) :: (pstore, bool) io"
  have quiet: "quiet s" using assms(1) by (rule fresh_quiet)
  obtain r1 where m: "?m False s = (r1, s)" using lstat_dir_state [OF quiet assms(3), of pe w label False] by (metis prod.collapse)
  show ?thesis
  proof (cases "d_node (p_disk s) (q @ [w]) = None")
    case False
    then have "r1 \<noteq> Inl (Sys ''ENOENT'')" using lstat_dir_missing [OF quiet assms(3)] m by metis
    then have "s' = s" "r = r1" using assms(4) m by (auto simp: ensureDirectory_def io_catch_run isMissing_def io_throw_def split: sum.splits)
    moreover have "fresh_from d (insert (q @ [w]) new) s" by (rule fresh_mono [OF assms(1)]) blast
    moreover have "r1 = Inr b \<Longrightarrow> \<not> b \<and> private_dir pe (p_disk s) (q @ [w])" for b
      using lstat_dir [OF quiet assms(3), of pe w label False b s] m by simp
    ultimately show ?thesis using assms(3) by auto
  next
    case True
    then have r1: "r1 = Inl (Sys ''ENOENT'')" using lstat_dir_missing [OF quiet assms(3)] m by (metis prod.inject)
    obtain r2 s2 where mk: "sys (d_mkdir pe 448 (q @ [w])) s = (r2, s2)" by fastforce
    from fresh_mkdir [OF assms(1-3) True mk] have s2: "r2 = Inr ()" "fresh_from d (insert (q @ [w]) new) s2"
      "plain_dir (p_disk s2) (q @ [w])" "d_ino (p_disk s2) (q @ [w]) = Some (d_next (p_disk s))" by auto
    have next_le: "d_next d \<le> d_next (p_disk s)" using assms(1) by (simp add: fresh_from_def d_grows_def)
    obtain r3 s3 where ch: "(if pe_win32 pe then io_return () else sys (d_chmod 448 (q @ [w]))) s2 = (r3, s3)" by fastforce
    have s3: "fresh_from d (insert (q @ [w]) new) s3" "plain_dir (p_disk s3) q"
      using fresh_chmod [OF s2(2) assms(2) s2(3,4) next_le, of 448 r3 s3] ch s2(2,3)
      by (auto simp: io_return_def plain_dir_snoc split: if_splits)
    have run: "ensureDirectory pe (q @ [w]) label s = (case r3 of Inl e \<Rightarrow> (Inl e, s3) | Inr _ \<Rightarrow> ?m True s3)"
    proof -
      have "ensureDirectory pe (q @ [w]) label s = io_then (sys (d_mkdir pe 448 (q @ [w])))
          (io_then (if pe_win32 pe then io_return () else sys (d_chmod 448 (q @ [w]))) (?m True)) s"
        using m r1 by (simp add: ensureDirectory_def io_catch_run isMissing_def)
      then show ?thesis by (simp add: io_then_def io_bind_def mk ch s2(1) split: sum.split)
    qed
    show ?thesis
    proof (cases r3)
      case (Inl e)
      then show ?thesis using run assms(4) s3 by auto
    next
      case (Inr u)
      with run assms(4) have r: "?m True s3 = (r, s')" by simp
      have "s' = s3" using lstat_dir_state [OF fresh_quiet [OF s3(1)] s3(2), of pe w label True] r by (metis snd_conv)
      moreover have "r = Inr b \<Longrightarrow> b \<and> private_dir pe (p_disk s3) (q @ [w])" for b
        using lstat_dir [OF fresh_quiet [OF s3(1)] s3(2), of pe w label True b s3] r \<open>s' = s3\<close> by simp
      ultimately show ?thesis using s3 True by auto
    qed
  qed
qed

lemma locateDirectory_run:
  assumes "quiet s" "plain_dir (p_disk s) q" "private_dir pe (p_disk s) (q @ [w])"
  shows "locateDirectory pe (q @ [w]) label s = (Inr True, s)"
  using lstat_dir [OF assms(1,2), of pe w label True True s] assms(3)
  by (simp add: locateDirectory_def io_catch_run)

lemma private_plain: "plain_dir d q \<Longrightarrow> private_dir pe d (q @ [w]) \<Longrightarrow> plain_dir d (q @ [w])"
  by (auto simp: plain_dir_snoc private_dir_def)

lemma private_canonical:
  assumes "quiet s" "plain_dir (p_disk s) q" "private_dir pe (p_disk s) (q @ [w])"
  shows "assertCanonicalPath pe (q @ [w]) label s = (Inr (), s)"
  using canonical_Inr [OF assms(1), of pe q w label "()" s] assms(2,3) by (auto simp: private_dir_def)

lemma marker_valid:
  assumes "quiet s" "progress pe" "marked pe (p_disk s) r"
  shows "validateRootMarker pe r s = (Inr (), s)"
proof -
  obtain k i c v where c: "good_file pe (p_disk s) (r @ [ROOT_MARKER_NAME]) 384 k i c" "length c \<le> ROOT_MARKER_MAX_BYTES"
    "JSON_parse (pe_utf8 pe c) = Some v" "valid_marker v" using assms(3) by (auto simp: marked_def)
  from good_read [OF assms(1,2) c(1,2)] c(3,4) contained_child [OF fixed_children(2), of r s] show ?thesis
    by (simp add: validateRootMarker_def io_then_def io_bind_run throw_if_run)
qed

lemma marker_marked:
  assumes "quiet s" "progress pe" "validateRootMarker pe r s = (Inr u, s')"
  shows "s' = s \<and> marked pe (p_disk s) r"
proof -
  from assms(3) contained_child [OF fixed_children(2), of r s] obtain x where
    x: "readVerifiedFileAtPath pe (r @ [ROOT_MARKER_NAME]) ROOT_MARKER_MAX_BYTES 384 s = (Inr x, s')"
    "case JSON_parse (pe_utf8 pe (fr_buffer x)) of Some v \<Rightarrow> valid_marker v | None \<Rightarrow> False"
    by (auto simp: validateRootMarker_def io_then_Inr io_bind_Inr split: option.splits)
  from read_good [OF assms(1,2) x(1)] x(2) show ?thesis
    by (auto simp: marked_def split: option.splits)
qed

section \<open>Ensuring the area\<close>

definition made :: "string \<Rightarrow> string \<Rightarrow> path set" where
  "made appDataRoot subdir =
     (let r = resolve_segments appDataRoot @ [PRIVATE_ROOT_NAME] in {r, r @ [ROOT_MARKER_NAME], r @ [subdir]})"

lemma ensure_subdir_part:
  assumes "fresh_from d new s" "wf_disk d" "progress pe" "plain_dir (p_disk s) r0" "PRIVATE_SUBDIR_RE subdir"
    and "private_dir pe (p_disk s) (r0 @ [n])"
    and "io_then (validateRootMarker pe (r0 @ [n]))
         (io_then (assertContained_ps (r0 @ [n]) ((r0 @ [n]) @ [subdir]))
         (io_bind (ensureDirectory pe ((r0 @ [n]) @ [subdir]) ''private_storage_subdir'') (\<lambda>_.
          io_then (assertCanonicalPath pe ((r0 @ [n]) @ [subdir]) ''private_storage_subdir'')
                  (io_return ((r0 @ [n]) @ [subdir]))))) s = (x, s')"
  shows "fresh_from d (insert ((r0 @ [n]) @ [subdir]) new) s'
       \<and> (\<forall>dir. x = Inr dir \<longrightarrow> dir = (r0 @ [n]) @ [subdir] \<and> marked pe (p_disk s') (r0 @ [n])
             \<and> private_dir pe (p_disk s') (r0 @ [n]) \<and> private_dir pe (p_disk s') ((r0 @ [n]) @ [subdir]))"
proof -
  let ?r = "r0 @ [n]" and ?P = "fresh_from d (insert ((r0 @ [n]) @ [subdir]) new)"
  have quiet: "quiet s" using assms(1) by (rule fresh_quiet)
  obtain x1 s1 where m: "validateRootMarker pe ?r s = (x1, s1)" by fastforce
  have s1: "fresh_from d new s1" by (rule keepsD [where P = "fresh_from d new" and m = "validateRootMarker pe ?r" and s = s, OF keeps_marker assms(1) m]) (rule fresh_quiet)
  show ?thesis
  proof (cases x1)
    case (Inl e)
    then have "x = Inl e" "s' = s1" using assms(7) m by (auto simp: io_then_def io_bind_def)
    with s1 show ?thesis using fresh_mono by blast
  next
    case (Inr u)
    with marker_marked [OF quiet assms(3)] m have mk: "s1 = s" "marked pe (p_disk s) ?r" by auto
    obtain x2 s2 where en: "ensureDirectory pe (?r @ [subdir]) ''private_storage_subdir'' s = (x2, s2)" by fastforce
    have pr: "plain_dir (p_disk s) ?r" using assms(4,6) private_plain by blast
    note spec = ensureDirectory_spec [OF assms(1,2) pr en]
    have grow: "d_grows (insert (?r @ [subdir]) {}) (p_disk s) (p_disk s2)"
      using ensureDirectory_spec [OF _ _ pr en, of "p_disk s" "{}"] assms(1) by (simp add: fresh_from_def)
    have run: "(case x2 of Inl e \<Rightarrow> (Inl e, s2) | Inr _ \<Rightarrow>
        io_then (assertCanonicalPath pe (?r @ [subdir]) ''private_storage_subdir'') (io_return (?r @ [subdir])) s2) = (x, s')"
      using assms(7) m Inr mk(1) en contained_child [OF subdir_child [OF assms(5)], of ?r s]
      by (simp add: io_then_def io_bind_def split: sum.splits)
    show ?thesis
    proof (cases x2)
      case (Inl e)
      with run spec show ?thesis by auto
    next
      case (Inr b)
      with spec have pd: "private_dir pe (p_disk s2) (?r @ [subdir])" "plain_dir (p_disk s2) ?r" "?P s2" by auto
      have "assertCanonicalPath pe (?r @ [subdir]) l s2 = (Inr (), s2)" for l
        by (rule private_canonical [OF fresh_quiet [OF pd(3)] pd(2,1)])
      with run Inr have "x = Inr (?r @ [subdir])" "s' = s2" by (auto simp: io_then_def io_bind_run io_return_def)
      with pd marked_grows [OF grow mk(2)] private_dir_grows [OF grow assms(6)] show ?thesis by auto
    qed
  qed
qed

lemma ensure_root_part:
  assumes "fresh_from d new s" "wf_disk d" "plain_dir (p_disk s) r0"
    and "io_bind (ensureDirectory pe (r0 @ [n]) ''private_storage_root'') (\<lambda>rootCreated.
          io_then (assertCanonicalPath pe (r0 @ [n]) ''private_storage_root'')
                  (if rootCreated
                   then createExclusiveFileAtPath pe ((r0 @ [n]) @ [ROOT_MARKER_NAME]) marker_bytes 384 ROOT_MARKER_MAX_BYTES
                   else io_return ())) s = (x, s')"
  shows "fresh_from d (insert ((r0 @ [n]) @ [ROOT_MARKER_NAME]) (insert (r0 @ [n]) new)) s'
       \<and> (\<forall>u. x = Inr u \<longrightarrow> private_dir pe (p_disk s') (r0 @ [n]) \<and> plain_dir (p_disk s') r0)"
proof -
  let ?r = "r0 @ [n]" and ?new = "insert (r0 @ [n]) new"
  obtain x1 s1 where en: "ensureDirectory pe ?r ''private_storage_root'' s = (x1, s1)" by fastforce
  note spec = ensureDirectory_spec [OF assms(1-3) en]
  show ?thesis
  proof (cases x1)
    case (Inl e)
    with en assms(4) have x: "x = Inl e" "s' = s1" by (simp_all add: io_bind_def)
    from spec have "fresh_from d ?new s1" ..
    then have "fresh_from d (insert (?r @ [ROOT_MARKER_NAME]) ?new) s1" by (rule fresh_mono) blast
    with x show ?thesis by simp
  next
    case (Inr b)
    with spec have s1: "fresh_from d ?new s1" "private_dir pe (p_disk s1) ?r" "plain_dir (p_disk s1) r0" by auto
    have "assertCanonicalPath pe ?r l s1 = (Inr (), s1)" for l
      by (rule private_canonical [OF fresh_quiet [OF s1(1)] s1(3,2)])
    then have run: "(if b then createExclusiveFileAtPath pe (?r @ [ROOT_MARKER_NAME]) marker_bytes 384 ROOT_MARKER_MAX_BYTES
        else io_return ()) s1 = (x, s')" using assms(4) en Inr by (simp add: io_then_def io_bind_def)
    show ?thesis
    proof (cases b)
      case True
      have pr: "plain_dir (p_disk s1) ?r" by (rule private_plain [OF s1(3,2)])
      note cr = run [unfolded if_P [OF True]]
      have "d_grows (insert (?r @ [ROOT_MARKER_NAME]) {}) (p_disk s1) (p_disk s')"
        using file_create_frame [OF _ _ pr cr, of "p_disk s1" "{}"] s1(1) by (simp add: fresh_from_def)
      then show ?thesis
        using file_create_frame [OF s1(1) assms(2) pr cr] s1 private_dir_grows d_grows_plain by blast
    next
      case False
      with run have "s' = s1" by (simp add: io_return_def)
      moreover have "fresh_from d (insert (?r @ [ROOT_MARKER_NAME]) ?new) s1" by (rule fresh_mono [OF s1(1)]) blast
      ultimately show ?thesis using s1 by simp
    qed
  qed
qed

lemma ensure_spec:
  assumes "quiet s" "wf_disk (p_disk s)" "progress pe" "app_ready pe appDataRoot (p_disk s)"
    and "ensurePrivateStorageSubdir pe appDataRoot subdir s = (x, s')"
  shows "fresh_from (p_disk s) (made appDataRoot subdir) s'
       \<and> (\<forall>dir. x = Inr dir \<longrightarrow> dir = resolve_segments appDataRoot @ [PRIVATE_ROOT_NAME, subdir]
             \<and> PRIVATE_SUBDIR_RE subdir \<and> area pe appDataRoot subdir (p_disk s'))"
proof -
  define r0 where "r0 = resolve_segments appDataRoot"
  let ?n = PRIVATE_ROOT_NAME
  let ?r = "r0 @ [?n]"
  have fr: "fresh_from (p_disk s) {} s" using assms(1,2) by (simp add: fresh_from_def)
  have mono: "fresh_from (p_disk s) new t \<Longrightarrow> new \<subseteq> {?r, ?r @ [ROOT_MARKER_NAME], ?r @ [subdir]} \<Longrightarrow>
      fresh_from (p_disk s) (made appDataRoot subdir) t" for new t
    using fresh_mono by (auto simp: made_def r0_def)
  have pl: "plain_dir (p_disk s) r0" using assms(4) by (simp add: app_ready_def r0_def)
  show ?thesis
  proof (cases "PRIVATE_SUBDIR_RE subdir")
    case False
    then have "x = Inl (Thrown ''private_storage_subdir_invalid'')" "s' = s" using assms(5)
      by (auto simp: ensurePrivateStorageSubdir_def validateSubdir_def throw_if_def io_guard_def io_throw_def io_then_def io_bind_def)
    then show ?thesis using mono [OF fr] by simp
  next
    case True
    let ?A = "io_bind (ensureDirectory pe ?r ''private_storage_root'') (\<lambda>rootCreated.
          io_then (assertCanonicalPath pe ?r ''private_storage_root'')
                  (if rootCreated
                   then createExclusiveFileAtPath pe (?r @ [ROOT_MARKER_NAME]) marker_bytes 384 ROOT_MARKER_MAX_BYTES
                   else io_return ()))"
    let ?B = "io_then (validateRootMarker pe ?r)
         (io_then (assertContained_ps ?r (?r @ [subdir]))
         (io_bind (ensureDirectory pe (?r @ [subdir]) ''private_storage_subdir'') (\<lambda>_.
          io_then (assertCanonicalPath pe (?r @ [subdir]) ''private_storage_subdir'')
                  (io_return (?r @ [subdir])))))"
    have "io_then ?A ?B s = (x, s')"
      using assms(5) True app_root_valid [OF assms(1,4), of True] contained_child [OF fixed_children(1), of r0 s]
      unfolding ensurePrivateStorageSubdir_def r0_def [symmetric] validateSubdir_def
      by (simp add: Let_def io_then_def io_bind_run throw_if_run) (simp add: io_bind_assoc)
    then obtain x1 s1 where A: "?A s = (x1, s1)" and B: "case x1 of Inl e \<Rightarrow> (Inl e, s1) = (x, s') | Inr _ \<Rightarrow> ?B s1 = (x, s')"
      by (cases "?A s") (auto simp: io_then_def io_bind_def split: sum.splits)
    from ensure_root_part [OF fr assms(2) pl A] have s1: "fresh_from (p_disk s) {?r @ [ROOT_MARKER_NAME], ?r} s1"
      "\<And>u. x1 = Inr u \<Longrightarrow> private_dir pe (p_disk s1) ?r \<and> plain_dir (p_disk s1) r0" by auto
    show ?thesis
    proof (cases x1)
      case (Inl e)
      with B s1 show ?thesis by (auto intro!: mono)
    next
      case (Inr u)
      with B s1(2) have B': "?B s1 = (x, s')" and pd: "private_dir pe (p_disk s1) ?r" "plain_dir (p_disk s1) r0" by auto
      from ensure_subdir_part [OF s1(1) assms(2,3) pd(2) True pd(1) B']
      have fin: "fresh_from (p_disk s) {?r @ [subdir], ?r @ [ROOT_MARKER_NAME], ?r} s'"
        "\<And>dir. x = Inr dir \<Longrightarrow> dir = ?r @ [subdir] \<and> marked pe (p_disk s') ?r \<and> private_dir pe (p_disk s') ?r
           \<and> private_dir pe (p_disk s') (?r @ [subdir])" by auto
      have "app_ready pe appDataRoot (p_disk s')" using fin(1) assms(4) app_ready_grows by (auto simp: fresh_from_def)
      with fin True mono [OF fin(1)] show ?thesis by (auto simp: area_def Let_def r0_def)
    qed
  qed
qed

section \<open>Reading in the area\<close>

definition dir_of :: "string \<Rightarrow> string \<Rightarrow> path" where
  "dir_of appDataRoot subdir = resolve_segments appDataRoot @ [PRIVATE_ROOT_NAME, subdir]"

definition file_args :: "string \<Rightarrow> string \<Rightarrow> nat \<Rightarrow> bool" where
  "file_args subdir filename maxBytes \<longleftrightarrow>
     PRIVATE_SUBDIR_RE subdir \<and> PRIVATE_BASENAME_RE filename \<and> basename filename = filename
     \<and> \<not> str_includes filename ''..'' \<and> 0 < maxBytes \<and> maxBytes \<le> 16 * 1024 * 1024"

lemma file_args_run:
  assumes "file_args subdir filename maxBytes"
  shows "validateSizeCap maxBytes s = (Inr (), s)" "validateFilename filename s = (Inr (), s)" "validateSubdir subdir s = (Inr (), s)"
  using assms by (simp_all add: file_args_def validateSizeCap_def validateFilename_def validateSubdir_def)

lemma area_dirs:
  assumes "area pe appDataRoot subdir d"
  shows "plain_dir d (resolve_segments appDataRoot)" "plain_dir d (resolve_segments appDataRoot @ [PRIVATE_ROOT_NAME])"
    "plain_dir d (dir_of appDataRoot subdir)"
    "private_dir pe d (resolve_segments appDataRoot @ [PRIVATE_ROOT_NAME])" "private_dir pe d (dir_of appDataRoot subdir)"
    "marked pe d (resolve_segments appDataRoot @ [PRIVATE_ROOT_NAME])" "app_ready pe appDataRoot d"
proof -
  show 1: "plain_dir d (resolve_segments appDataRoot)" "private_dir pe d (resolve_segments appDataRoot @ [PRIVATE_ROOT_NAME])"
    "private_dir pe d (dir_of appDataRoot subdir)" "marked pe d (resolve_segments appDataRoot @ [PRIVATE_ROOT_NAME])"
    "app_ready pe appDataRoot d"
    using assms by (auto simp: area_def Let_def app_ready_def dir_of_def)
  from 1 show 2: "plain_dir d (resolve_segments appDataRoot @ [PRIVATE_ROOT_NAME])" by (intro private_plain)
  from private_plain [OF this, of pe subdir] 1 show "plain_dir d (dir_of appDataRoot subdir)" by (simp add: dir_of_def)
qed

lemma area_grows: "d_grows new d d' \<Longrightarrow> area pe appDataRoot subdir d \<Longrightarrow> area pe appDataRoot subdir d'"
  unfolding area_def Let_def using private_dir_grows marked_grows app_ready_grows by blast

lemma locate_area:
  assumes "quiet s" "progress pe" "area pe appDataRoot subdir (p_disk s)" "PRIVATE_SUBDIR_RE subdir"
  shows "locateExistingPrivateSubdir pe appDataRoot subdir s = (Inr (Some (dir_of appDataRoot subdir)), s)"
proof -
  let ?base = "resolve_segments appDataRoot"
  note ad = area_dirs [OF assms(3)]
  have l2: "locateDirectory pe (?base @ [PRIVATE_ROOT_NAME, subdir]) l s = (Inr True, s)"
    and c2: "assertCanonicalPath pe (?base @ [PRIVATE_ROOT_NAME, subdir]) l s = (Inr (), s)" for l
    using locateDirectory_run [OF assms(1) ad(2), of pe subdir] private_canonical [OF assms(1) ad(2), of pe subdir] ad(5)
    by (simp_all add: dir_of_def)
  have d2: "assertContained_ps (?base @ [PRIVATE_ROOT_NAME]) (?base @ [PRIVATE_ROOT_NAME, subdir]) s = (Inr (), s)"
    using contained_child [OF subdir_child [OF assms(4)], of "?base @ [PRIVATE_ROOT_NAME]" s] by simp
  show ?thesis
    using assms(4) app_root_valid [OF assms(1) ad(7), of False] contained_child [OF fixed_children(1), of ?base s]
      locateDirectory_run [OF assms(1) ad(1,4)] private_canonical [OF assms(1) ad(1,4)] marker_valid [OF assms(1,2) ad(6)]
      l2 c2 d2
    by (simp add: locateExistingPrivateSubdir_def validateSubdir_def io_then_def Let_def io_bind_run throw_if_run io_return_def dir_of_def)
qed

lemma locateDirectory_found:
  assumes "quiet s" "plain_dir (p_disk s) q" "locateDirectory pe (q @ [w]) label s = (Inr b, s')"
  shows "s' = s \<and> (b \<longrightarrow> private_dir pe (p_disk s) (q @ [w]))"
proof -
  let ?m = "io_bind (sys (d_lstat pe (q @ [w]))) (\<lambda>st. io_then (assertPrivateDirectory pe st label) (io_return True)) :: (pstore, bool) io"
  obtain r where r: "?m s = (r, s)" using lstat_dir_state [OF assms(1,2), of pe w label True] by (metis prod.collapse)
  with assms(3) lstat_dir [OF assms(1,2), of pe w label True True s] show ?thesis
    by (cases r) (auto simp: locateDirectory_def io_catch_run io_return_def io_throw_def split: if_splits)
qed

lemma located_area:
  assumes "quiet s" "progress pe" "app_ready pe appDataRoot (p_disk s)"
    and "locateExistingPrivateSubdir pe appDataRoot subdir s = (Inr x, s')"
  shows "s' = s \<and> PRIVATE_SUBDIR_RE subdir \<and> (\<forall>dir. x = Some dir \<longrightarrow> dir = dir_of appDataRoot subdir \<and> area pe appDataRoot subdir (p_disk s))"
proof -
  let ?base = "resolve_segments appDataRoot"
  let ?r = "?base @ [PRIVATE_ROOT_NAME]"
  have pl: "plain_dir (p_disk s) ?base" using assms(3) by (simp add: app_ready_def)
  have sub: "PRIVATE_SUBDIR_RE subdir" using assms(4)
    by (auto simp: locateExistingPrivateSubdir_def validateSubdir_def io_then_Inr)
  have run: "io_bind (locateDirectory pe ?r ''private_storage_root'') (\<lambda>found.
          if \<not> found then io_return None
          else
            io_then (assertCanonicalPath pe ?r ''private_storage_root'')
            (io_then (validateRootMarker pe ?r)
            (io_then (assertContained_ps ?r (?r @ [subdir]))
            (io_bind (locateDirectory pe (?r @ [subdir]) ''private_storage_subdir'') (\<lambda>found.
             if \<not> found then io_return None
             else io_then (assertCanonicalPath pe (?r @ [subdir]) ''private_storage_subdir'') (io_return (Some (?r @ [subdir])))))))) s
      = (Inr x, s')"
    using assms(4) sub app_root_valid [OF assms(1,3), of False] contained_child [OF fixed_children(1), of ?base s]
    by (simp add: locateExistingPrivateSubdir_def validateSubdir_def io_then_def Let_def io_bind_run throw_if_run)
  then obtain b s1 where b: "locateDirectory pe ?r ''private_storage_root'' s = (Inr b, s1)" by (auto simp: io_bind_Inr)
  note loc = locateDirectory_found [OF assms(1) pl b]
  show ?thesis
  proof (cases b)
    case False
    with run b loc sub show ?thesis by (simp add: io_bind_run io_return_def)
  next
    case True
    with loc have pd: "private_dir pe (p_disk s) ?r" and s1: "s1 = s" by auto
    from run b s1 True private_canonical [OF assms(1) pl pd] obtain u t where
      m: "validateRootMarker pe ?r s = (Inr u, t)" and
      rest: "io_then (assertContained_ps ?r (?r @ [subdir]))
            (io_bind (locateDirectory pe (?r @ [subdir]) ''private_storage_subdir'') (\<lambda>found.
             if \<not> found then io_return None
             else io_then (assertCanonicalPath pe (?r @ [subdir]) ''private_storage_subdir'') (io_return (Some (?r @ [subdir]))))) t
          = (Inr x, s')"
      by (auto simp: io_bind_run io_then_Inr io_bind_Inr simp del: append_assoc append.simps)
    from marker_marked [OF assms(1,2) m] have mk: "marked pe (p_disk s) ?r" and t: "t = s" by auto
    from rest contained_child [OF subdir_child [OF sub], of ?r s] obtain b2 t2 where
      b2: "locateDirectory pe (?r @ [subdir]) ''private_storage_subdir'' s = (Inr b2, t2)" and
      fin: "(if \<not> b2 then io_return None
             else io_then (assertCanonicalPath pe (?r @ [subdir]) ''private_storage_subdir'') (io_return (Some (?r @ [subdir])))) t2 = (Inr x, s')"
      unfolding t by (auto simp: io_then_Inr io_bind_Inr simp del: append_assoc append.simps)
    have pr: "plain_dir (p_disk s) ?r" by (rule private_plain [OF pl pd])
    from locateDirectory_found [OF assms(1) pr b2] have t2: "t2 = s" "b2 \<Longrightarrow> private_dir pe (p_disk s) (?r @ [subdir])" by auto
    show ?thesis
    proof (cases b2)
      case False
      with fin t2 sub show ?thesis by simp
    next
      case True
      with t2 have pd2: "private_dir pe (p_disk s) (?r @ [subdir])" by simp
      with fin t2 True private_canonical [OF assms(1) pr pd2] mk pd assms(3) sub show ?thesis
        by (simp add: io_then_Inr area_def Let_def dir_of_def)
    qed
  qed
qed

lemma keeps_validate_args: "keeps P (validateSizeCap n)" "keeps P (validateFilename v)" "keeps P (validateSubdir w)"
    "keeps P (assertContained_ps r t)"
  by (simp_all add: validateSizeCap_def validateFilename_def validateSubdir_def assertContained_ps_def Let_def keeps_throw_if)

lemma keeps_missing_to_none: "keeps P m \<Longrightarrow> keeps P (missing_to_none m)"
  unfolding missing_to_none_def by (intro keeps_io_catch keeps_io_bind) auto

lemma keeps_locateDirectory: "(\<And>s. P s \<Longrightarrow> quiet s) \<Longrightarrow> keeps P (locateDirectory pe dir l)"
  unfolding locateDirectory_def by (intro keeps_io keeps_privateDirectory keeps_sys_read) auto

lemma keeps_validateAppDataRoot:
  assumes "\<And>s. P s \<Longrightarrow> quiet s"
  shows "keeps P (validateAppDataRoot pe appDataRoot False)"
proof -
  have r: "keeps P (sys (d_exists p))" "keeps P (sys (d_lstat pe p))" for p
    by (rule keeps_sys_read; use assms in auto)+
  show ?thesis
    unfolding validateAppDataRoot_def Let_def
    by (auto intro!: keeps_io keeps_owner keeps_canonical r assms)
qed

lemma keeps_locate:
  assumes "\<And>s. P s \<Longrightarrow> quiet s"
  shows "keeps P (locateExistingPrivateSubdir pe appDataRoot subdir)"
  unfolding locateExistingPrivateSubdir_def Let_def
  by (auto intro!: keeps_io keeps_validate_args keeps_validateAppDataRoot keeps_locateDirectory keeps_canonical keeps_marker assms)

lemma keeps_readPrivate:
  assumes "\<And>s. P s \<Longrightarrow> quiet s"
  shows "keeps P (readPrivateFileIfExists pe appDataRoot subdir filename maxBytes mode)"
  unfolding readPrivateFileIfExists_def
  by (auto intro!: keeps_io keeps_validate_args keeps_locate keeps_missing_to_none keeps_readVerified assms split: option.split)

definition storage_ok :: "storage_env \<Rightarrow> string \<Rightarrow> pstore \<Rightarrow> bool" where
  "storage_ok pe appDataRoot s \<longleftrightarrow> quiet s \<and> wf_disk (p_disk s) \<and> app_ready pe appDataRoot (p_disk s)"

lemma read_changes_nothing:
  assumes "storage_ok pe appDataRoot s" "readPrivateFileIfExists pe appDataRoot subdir filename maxBytes mode s = (r, s')"
  shows "s' = s"
  using keepsD [where P = "\<lambda>t. t = s" and m = "readPrivateFileIfExists pe appDataRoot subdir filename maxBytes mode" and s = s]
    keeps_readPrivate [of "\<lambda>t. t = s"] assms by (simp add: storage_ok_def)

text \<open>What a read that finds a file says, and when it does.\<close>

definition stored :: "storage_env \<Rightarrow> string \<Rightarrow> string \<Rightarrow> string \<Rightarrow> nat \<Rightarrow> nat \<Rightarrow> disk \<Rightarrow> string \<Rightarrow> bool" where
  "stored pe appDataRoot subdir filename maxBytes mode d c \<longleftrightarrow>
     area pe appDataRoot subdir d \<and> length c \<le> maxBytes
     \<and> (\<exists>k i. good_file pe d (dir_of appDataRoot subdir @ [filename]) mode k i c)"

lemma read_stored:
  assumes "storage_ok pe appDataRoot s" "progress pe" "file_args subdir filename maxBytes"
    and "stored pe appDataRoot subdir filename maxBytes mode (p_disk s) c"
  shows "\<exists>f. readPrivateFileIfExists pe appDataRoot subdir filename maxBytes mode s = (Inr (Some f), s) \<and> fr_buffer f = c"
proof -
  have q: "quiet s" using assms(1) by (simp add: storage_ok_def)
  obtain k i where g: "good_file pe (p_disk s) (dir_of appDataRoot subdir @ [filename]) mode k i c" and
    a: "area pe appDataRoot subdir (p_disk s)" "length c \<le> maxBytes" using assms(4) by (auto simp: stored_def)
  have "PRIVATE_SUBDIR_RE subdir" "PRIVATE_BASENAME_RE filename" using assms(3) by (auto simp: file_args_def)
  with locate_area [OF q assms(2) a(1)] good_read [OF q assms(2) g a(2)] file_args_run [OF assms(3), of s]
    contained_child [of filename "dir_of appDataRoot subdir" s] filename_child [of filename]
  show ?thesis
    by (simp add: readPrivateFileIfExists_def io_then_def io_bind_run missing_to_none_def io_catch_run io_return_def)
qed

lemma stored_read:
  assumes "storage_ok pe appDataRoot s" "progress pe"
    and "readPrivateFileIfExists pe appDataRoot subdir filename maxBytes mode s = (Inr (Some f), s')"
  shows "file_args subdir filename maxBytes \<and> stored pe appDataRoot subdir filename maxBytes mode (p_disk s) (fr_buffer f)"
proof -
  have q: "quiet s" "app_ready pe appDataRoot (p_disk s)" using assms(1) by (auto simp: storage_ok_def)
  from assms(3) obtain x s1 u t where n: "0 < maxBytes" "maxBytes \<le> 16 * 1024 * 1024"
    and l: "locateExistingPrivateSubdir pe appDataRoot subdir s = (Inr x, s1)"
    and rest: "(case x of
        None \<Rightarrow> io_return None
      | Some dir \<Rightarrow>
          io_then (validateFilename filename)
          (io_then (assertContained_ps dir (dir @ [filename]))
                   (missing_to_none (readVerifiedFileAtPath pe (dir @ [filename]) maxBytes mode)))) s1 = (Inr (Some f), s')"
    by (auto simp: readPrivateFileIfExists_def validateSizeCap_def io_then_Inr io_bind_Inr)
  note loc = located_area [OF q(1) assms(2) q(2) l]
  from rest obtain dir where x: "x = Some dir" by (cases x) auto
  with loc have d: "dir = dir_of appDataRoot subdir" "area pe appDataRoot subdir (p_disk s)" "s1 = s" "PRIVATE_SUBDIR_RE subdir" by auto
  from rest [unfolded x] have fn: "PRIVATE_BASENAME_RE filename" "basename filename = filename" "\<not> str_includes filename ''..''"
    by (auto simp: io_then_Inr validateFilename_def)
  from rest [unfolded x] obtain s2 where "missing_to_none (readVerifiedFileAtPath pe (dir @ [filename]) maxBytes mode) s2 = (Inr (Some f), s')" "s2 = s"
    using contained_child [of filename dir s] filename_child [OF fn(1)]
    by (auto simp: io_then_Inr validateFilename_def d(3))
  then obtain t where rd: "readVerifiedFileAtPath pe (dir @ [filename]) maxBytes mode s = (Inr f, t)"
    by (auto simp: missing_to_none_def io_catch_run io_bind_def io_return_def io_throw_def split: prod.splits sum.splits if_splits)
  from read_good [OF q(1) assms(2) rd] obtain k i c where
    g: "good_file pe (p_disk s) (dir @ [filename]) mode k i c" "length c \<le> maxBytes" "fr_buffer f = c" by auto
  have "file_args subdir filename maxBytes" using n fn d(4) by (simp add: file_args_def)
  moreover have "stored pe appDataRoot subdir filename maxBytes mode (p_disk s) (fr_buffer f)"
    unfolding stored_def g(3) using d(1,2) g by metis
  ultimately show ?thesis ..
qed

section \<open>Creating\<close>

lemma stored_grows:
  assumes "d_grows new d d'" "stored pe appDataRoot subdir filename maxBytes mode d c"
  shows "stored pe appDataRoot subdir filename maxBytes mode d' c"
  using assms area_grows d_grows_good unfolding stored_def by metis

lemma storage_ok_grows: "storage_ok pe appDataRoot s \<Longrightarrow> fresh_from (p_disk s) new s' \<Longrightarrow> storage_ok pe appDataRoot s'"
  using app_ready_grows by (auto simp: storage_ok_def fresh_from_def)

lemma storage_ok_fresh: "storage_ok pe appDataRoot s \<Longrightarrow> fresh_from (p_disk s) {} s"
  by (simp add: storage_ok_def fresh_from_def)

lemma guards_fail:
  "io_then (validateSizeCap n) (io_then (validateFilename v) m) s = (r, s') \<Longrightarrow>
   (\<exists>e. r = Inl e \<and> s' = s) \<or> (0 < n \<and> n \<le> 16 * 1024 * 1024 \<and> PRIVATE_BASENAME_RE v \<and> basename v = v \<and> \<not> str_includes v ''..'' \<and> m s = (r, s'))"
  by (auto simp: validateSizeCap_def validateFilename_def throw_if_def io_guard_def io_throw_def io_return_def io_then_def io_bind_def split: if_splits)

lemma create_outcome:
  assumes "storage_ok pe appDataRoot s" "progress pe"
    and "createExclusivePrivateFile pe appDataRoot subdir filename contents maxBytes mode s = (r, s')"
  shows "fresh_from (p_disk s) (insert (dir_of appDataRoot subdir @ [filename]) (made appDataRoot subdir)) s'
    \<and> (\<forall>p. r = Inr p \<longrightarrow> file_args subdir filename maxBytes \<and> d_node (p_disk s) (dir_of appDataRoot subdir @ [filename]) = None
         \<and> stored pe appDataRoot subdir filename maxBytes mode (p_disk s') contents)"
proof -
  let ?dir = "dir_of appDataRoot subdir"
  have ok: "quiet s" "wf_disk (p_disk s)" "app_ready pe appDataRoot (p_disk s)" using assms(1) by (auto simp: storage_ok_def)
  from guards_fail [OF assms(3) [unfolded createExclusivePrivateFile_def]] show ?thesis
  proof
    assume "\<exists>e. r = Inl e \<and> s' = s"
    then show ?thesis using storage_ok_fresh [OF assms(1)] fresh_mono by auto
  next
    assume h: "0 < maxBytes \<and> maxBytes \<le> 16 * 1024 * 1024 \<and> PRIVATE_BASENAME_RE filename \<and> basename filename = filename
      \<and> \<not> str_includes filename ''..'' \<and> io_bind (ensurePrivateStorageSubdir pe appDataRoot subdir) (\<lambda>dir.
      io_then (assertContained_ps dir (dir @ [filename]))
     (io_then (createExclusiveFileAtPath pe (dir @ [filename]) contents mode maxBytes)
              (io_return (dir @ [filename])))) s = (r, s')"
    obtain x s1 where en: "ensurePrivateStorageSubdir pe appDataRoot subdir s = (x, s1)" by fastforce
    note spec = ensure_spec [OF ok(1,2) assms(2) ok(3) en]
    show ?thesis
    proof (cases x)
      case (Inl e)
      with h en have "r = Inl e" "s' = s1" by (auto simp: io_bind_def)
      with spec show ?thesis by (auto intro: fresh_mono)
    next
      case (Inr dir)
      with spec have s1: "dir = ?dir" "fresh_from (p_disk s) (made appDataRoot subdir) s1" "area pe appDataRoot subdir (p_disk s1)"
        "PRIVATE_SUBDIR_RE subdir" by (auto simp: dir_of_def)
      have pl: "plain_dir (p_disk s1) ?dir" by (rule area_dirs [OF s1(3)])
      obtain y s2 where cr: "createExclusiveFileAtPath pe (?dir @ [filename]) contents mode maxBytes s1 = (y, s2)" by fastforce
      have rs: "s' = s2" "\<And>p. r = Inr p \<Longrightarrow> y = Inr ()"
        using h en Inr s1(1) cr contained_child [of filename ?dir s1] filename_child [of filename]
        by (auto simp: io_bind_def io_then_def io_return_def split: sum.splits)
      have fr: "fresh_from (p_disk s) (insert (?dir @ [filename]) (made appDataRoot subdir)) s2"
        by (rule file_create_frame [OF s1(2) ok(2) pl cr])
      have gr: "d_grows {?dir @ [filename]} (p_disk s1) (p_disk s2)"
        using file_create_frame [OF _ _ pl cr, of "p_disk s1" "{}"] s1(2) by (simp add: fresh_from_def)
      have "file_args subdir filename maxBytes \<and> d_node (p_disk s) (?dir @ [filename]) = None
         \<and> stored pe appDataRoot subdir filename maxBytes mode (p_disk s') contents" if "r = Inr p" for p
      proof -
        from create_good [OF s1(2) ok(2) pl, of pe filename contents mode maxBytes] cr rs(2) [OF that]
        have g: "length contents \<le> maxBytes" "d_node (p_disk s1) (?dir @ [filename]) = None"
          "\<exists>k i. good_file pe (p_disk s2) (?dir @ [filename]) mode k i contents" by auto
        have "d_node (p_disk s) (?dir @ [filename]) = None"
          using g(2) s1(2) d_grows_node unfolding fresh_from_def by (metis option.exhaust)
        with g h s1(4) area_grows [OF gr s1(3)] rs(1) show ?thesis by (simp add: file_args_def stored_def)
      qed
      with fr rs(1) show ?thesis by blast
    qed
  qed
qed

end
