(* ===== verification/PrivateReplace.thy ===== *)
theory PrivateReplace
  imports PrivateOps
begin

text \<open>
  Atomic replacement in the private storage: a failed \<open>atomicWritePrivateFile\<close> leaves the
  old contents, a successful one the new contents, and nothing in between is ever visible
  at the target's name.
\<close>

section \<open>Changes below the area\<close>

lemma node_frame: "d_ino d' p = d_ino d p \<Longrightarrow> d_inodes d' = d_inodes d \<Longrightarrow> d_node d' p = d_node d p"
  by (auto simp: d_node_def split: option.split)

lemma plain_frame:
  "(\<And>q. length q \<le> length p \<Longrightarrow> d_node d' q = d_node d q) \<Longrightarrow> plain_dir d' p = plain_dir d p"
  by (simp add: plain_dir_def)

lemma area_frame:
  assumes "\<And>p. length p \<le> length (dir_of appDataRoot subdir) \<Longrightarrow> d_ino d' p = d_ino d p" "d_inodes d' = d_inodes d"
  shows "area pe appDataRoot subdir d' = area pe appDataRoot subdir d"
proof -
  let ?dir = "dir_of appDataRoot subdir"
  have n: "d_node d' p = d_node d p" if "length p \<le> length ?dir" for p using node_frame assms that by metis
  have pl: "plain_dir d' p = plain_dir d p" if "length p \<le> length ?dir" for p by (rule plain_frame) (use n that in simp)
  have "good_file pe d' p mode k i c = good_file pe d p mode k i c" if "length p \<le> length ?dir" for p mode k i c
    using assms that pl [of "butlast p"] by (simp add: good_file_def file_at_def)
  then show ?thesis
    using n pl by (simp add: area_def Let_def app_ready_def private_dir_def marked_def dir_of_def)
qed

lemma ready_frame:
  assumes "\<And>p. length p \<le> length (dir_of appDataRoot subdir) \<Longrightarrow> d_ino d' p = d_ino d p" "d_inodes d' = d_inodes d"
  shows "app_ready pe appDataRoot d' = app_ready pe appDataRoot d"
proof -
  have n: "d_node d' p = d_node d p" if "length p \<le> length (dir_of appDataRoot subdir)" for p
    using node_frame assms that by metis
  then have "plain_dir d' (resolve_segments appDataRoot) = plain_dir d (resolve_segments appDataRoot)"
    by (intro plain_frame) (simp add: dir_of_def)
  with n show ?thesis by (simp add: app_ready_def dir_of_def)
qed

lemma frame_plain_dir:
  assumes "\<And>p. length p \<le> length q \<Longrightarrow> d_ino d' p = d_ino d p" "d_inodes d' = d_inodes d" "plain_dir d q"
  shows "plain_dir d' q"
  using plain_frame [of q d' d] node_frame assms by metis

section \<open>Renaming and removing\<close>

lemma map_of_filter_keys: "map_of (filter (\<lambda>e. P (fst e)) es) p = (if P p then map_of es p else None)"
  by (induction es) auto

lemma rename_error: "fst (d_rename p q d) = Inl e \<Longrightarrow> snd (d_rename p q d) = d"
  by (auto simp: d_rename_def split: sum.splits option.splits if_splits)

lemma unlink_error: "fst (d_unlink p d) = Inl e \<Longrightarrow> snd (d_unlink p d) = d"
  by (auto simp: d_unlink_def split: sum.splits option.splits if_splits)

lemma rename_effect:
  assumes "plain_dir d q" "file_at d (q @ [v]) k i c" "v \<noteq> w" "fst (d_rename (q @ [v]) (q @ [w]) d) = Inr u"
  shows "d_inodes (snd (d_rename (q @ [v]) (q @ [w]) d)) = d_inodes d
       \<and> d_next (snd (d_rename (q @ [v]) (q @ [w]) d)) = d_next d
       \<and> d_ino (snd (d_rename (q @ [v]) (q @ [w]) d)) = (d_ino d)(q @ [v] := None, q @ [w] := Some k)"
proof -
  have "d_rename (q @ [v]) (q @ [w]) d =
      (Inr (), d\<lparr>d_entries := (q @ [w], k) # filter (\<lambda>e. fst e \<noteq> q @ [v] \<and> fst e \<noteq> q @ [w]) (d_entries d)\<rparr>)"
    using assms file_at_node [OF assms(2)] by (auto simp: d_rename_def location file_at_def split: if_splits)
  then show ?thesis
    using assms(3) by (auto simp: d_ino_def fun_eq_iff map_of_filter_keys [of "\<lambda>p. p \<noteq> q @ [v] \<and> p \<noteq> q @ [w]"])
qed

lemma unlink_effect:
  assumes "plain_dir d q"
  shows "d_inodes (snd (d_unlink (q @ [v]) d)) = d_inodes d \<and> d_next (snd (d_unlink (q @ [v]) d)) = d_next d
       \<and> (\<forall>p. p \<noteq> q @ [v] \<longrightarrow> d_ino (snd (d_unlink (q @ [v]) d)) p = d_ino d p)
       \<and> (d_ino (snd (d_unlink (q @ [v]) d)) (q @ [v]) = d_ino d (q @ [v]) \<or> d_ino (snd (d_unlink (q @ [v]) d)) (q @ [v]) = None)"
  using assms by (auto simp: d_unlink_def location d_ino_def map_of_filter_keys [of "\<lambda>p. p \<noteq> q @ [v]"] split: option.splits)

lemma rename_attempts_outcome:
  assumes "quiet s" "rename_attempts pe ks p q e s = (r, s')"
  shows "case r of Inl _ \<Rightarrow> s' = s
         | Inr _ \<Rightarrow> fst (d_rename p q (p_disk s)) = Inr () \<and> s' = s\<lparr>p_disk := snd (d_rename p q (p_disk s))\<rparr>"
  using assms(2)
proof (induction ks arbitrary: e)
  case (Cons k ks)
  show ?case
  proof (cases "rename_once pe k p q s")
    case (Pair x t)
    have once: "case x of Inl _ \<Rightarrow> t = s
         | Inr _ \<Rightarrow> fst (d_rename p q (p_disk s)) = Inr () \<and> t = s\<lparr>p_disk := snd (d_rename p q (p_disk s))\<rparr>"
      using Pair assms(1) rename_error [of p q "p_disk s"]
      by (cases x) (auto simp: rename_once_def io_throw_def sys_quiet split: option.splits)
    show ?thesis
    proof (cases x)
      case (Inl e')
      with once have t: "t = s" by simp
      show ?thesis
      proof (cases "e' \<in> {Sys ''EPERM'', Sys ''EACCES'', Sys ''EBUSY''}")
        case True
        with Cons.prems Pair Inl t show ?thesis by (intro Cons.IH [of e']) (simp add: io_catch_run)
      next
        case False
        with Cons.prems Pair Inl t have "r = Inl e'" "s' = s" by (auto simp: io_catch_run io_throw_def)
        then show ?thesis by simp
      qed
    next
      case (Inr u)
      with Cons.prems Pair once show ?thesis by (auto simp: io_catch_run)
    qed
  qed
qed (auto simp: io_throw_def)

section \<open>Committing\<close>

definition same_below :: "path \<Rightarrow> disk \<Rightarrow> disk \<Rightarrow> bool" where
  "same_below q d d' \<longleftrightarrow> (\<forall>p. length p \<le> length q \<longrightarrow> d_ino d' p = d_ino d p) \<and> d_inodes d' = d_inodes d"

lemma same_below_good:
  assumes "same_below q d d'" "plain_dir d q" "good_file pe d (q @ [w]) mode k i c" "d_ino d' (q @ [v]) = Some k"
  shows "good_file pe d' (q @ [v]) mode k i c"
  using assms frame_plain_dir [of q d' d] by (auto simp: good_file_def file_at_def same_below_def)

lemma readExistingIdentity_state:
  assumes "quiet s" "readExistingIdentity pe p maxBytes mode s = (x, t)"
  shows "t = s"
proof -
  have keep: "keeps (\<lambda>t. t = s) (readExistingIdentity pe p maxBytes mode)"
    unfolding readExistingIdentity_def
    by (intro keeps_missing_to_none keeps_io_bind keeps_readVerified) (use assms(1) in auto)
  show ?thesis
    using keepsD [where P = "\<lambda>t. t = s" and m = "readExistingIdentity pe p maxBytes mode" and s = s, OF keep refl assms(2)] .
qed

text \<open>The commit either fails and changes nothing or makes the temporary file the target.\<close>

lemma commit_outcome:
  assumes "quiet s" "progress pe" "wf_disk (p_disk s)" "plain_dir (p_disk s) q" "v \<noteq> w"
    and "good_file pe (p_disk s) (q @ [v]) mode k i c"
    and "commit_temp pe (q @ [v]) (q @ [w]) previous maxBytes mode s = (r, s')"
  shows "case r of Inl _ \<Rightarrow> s' = s
         | Inr _ \<Rightarrow> quiet s' \<and> wf_disk (p_disk s') \<and> same_below q (p_disk s) (p_disk s') \<and> good_file pe (p_disk s') (q @ [w]) mode k i c"
proof -
  obtain x t where rd: "readExistingIdentity pe (q @ [w]) maxBytes mode s = (x, t)" by fastforce
  have t: "t = s" by (rule readExistingIdentity_state [OF assms(1) rd])
  have "(\<exists>e. r = Inl e \<and> s' = s) \<or> renameWithBoundedRetry pe (q @ [v]) (q @ [w]) s = (r, s')"
    using assms(7) rd unfolding t commit_temp_def
    by (auto simp: io_bind_def io_then_def throw_if_def io_guard_def io_throw_def io_return_def split: sum.splits if_splits)
  moreover note rename_attempts_outcome [OF assms(1), of pe "[0, 1, 2, 3]" "q @ [v]" "q @ [w]" "Thrown ''undefined''" r s']
  ultimately have out: "(\<exists>e. r = Inl e \<and> s' = s) \<or> (\<exists>u. r = Inr u \<and> fst (d_rename (q @ [v]) (q @ [w]) (p_disk s)) = Inr ()
      \<and> s' = s\<lparr>p_disk := snd (d_rename (q @ [v]) (q @ [w]) (p_disk s))\<rparr>)"
    by (cases r) (auto simp: renameWithBoundedRetry_def)
  show ?thesis
  proof (cases r)
    case (Inl e)
    with out show ?thesis by simp
  next
    case (Inr u)
    let ?d = "p_disk s" and ?d' = "snd (d_rename (q @ [v]) (q @ [w]) (p_disk s))"
    from out Inr have ren: "fst (d_rename (q @ [v]) (q @ [w]) ?d) = Inr ()" "s' = s\<lparr>p_disk := ?d'\<rparr>" by auto
    have f: "file_at ?d (q @ [v]) k i c" using assms(6) by (simp add: good_file_def)
    note eff = rename_effect [OF assms(4) f assms(5) ren(1)]
    have sb: "same_below q ?d ?d'" using eff by (auto simp: same_below_def)
    have "wf_disk ?d'" using assms(3) f eff by (auto simp: wf_disk_def file_at_def split: if_splits)
    moreover have "good_file pe ?d' (q @ [w]) mode k i c"
      by (rule same_below_good [OF sb assms(4,6)]) (simp add: eff)
    ultimately show ?thesis using Inr ren(2) sb assms(1) by auto
  qed
qed

text \<open>The clean-up removes the temporary name and nothing else.\<close>

lemma removeOwnedTemp_outcome:
  assumes "quiet s" "wf_disk (p_disk s)" "plain_dir (p_disk s) q" "removeOwnedTemp pe (q @ [v]) st s = (r, s')"
  shows "quiet s' \<and> wf_disk (p_disk s') \<and> d_inodes (p_disk s') = d_inodes (p_disk s)
       \<and> (\<forall>p. p \<noteq> q @ [v] \<longrightarrow> d_ino (p_disk s') p = d_ino (p_disk s) p) \<and> (\<exists>u. r = Inr u)"
proof -
  let ?d = "p_disk s" and ?s = "s\<lparr>p_disk := snd (d_unlink (q @ [v]) (p_disk s))\<rparr>"
  note eff = unlink_effect [OF assms(3), of v]
  have wf: "wf_disk (snd (d_unlink (q @ [v]) ?d))"
    using eff assms(2) unfolding wf_disk_def by (metis option.distinct(1))
  have "(\<exists>u. r = Inr u) \<and> (s' = s \<or> s' = ?s)"
    using assms(4,1)
    by (auto simp: removeOwnedTemp_def io_catch_def io_bind_def sys_quiet io_return_def split: sum.splits if_splits prod.splits)
  with wf eff assms(1,2) show ?thesis by auto
qed

lemma same_below_area: "same_below (dir_of appDataRoot subdir) d d' \<Longrightarrow> area pe appDataRoot subdir d' = area pe appDataRoot subdir d"
  by (rule area_frame) (auto simp: same_below_def)

lemma same_below_ready: "same_below (dir_of appDataRoot subdir) d d' \<Longrightarrow> app_ready pe appDataRoot d' = app_ready pe appDataRoot d"
  by (rule ready_frame) (auto simp: same_below_def)

text \<open>From the temporary file on: the state after creating it is \<open>s\<close>.\<close>

lemma replace_tail:
  assumes "storage_ok pe appDataRoot s" "progress pe" "area pe appDataRoot subdir (p_disk s)"
    and "v \<noteq> w" "good_file pe (p_disk s) (dir_of appDataRoot subdir @ [v]) mode k i contents" "length contents \<le> maxBytes"
    and "io_bind (sys (d_lstat pe (dir_of appDataRoot subdir @ [v]))) (\<lambda>tempIdentity.
          io_then (io_catch (commit_temp pe (dir_of appDataRoot subdir @ [v]) (dir_of appDataRoot subdir @ [w]) previous maxBytes mode)
                     (\<lambda>e. io_then (removeOwnedTemp pe (dir_of appDataRoot subdir @ [v]) tempIdentity) (io_throw e)))
         (io_bind (readVerifiedFileAtPath pe (dir_of appDataRoot subdir @ [w]) maxBytes mode) (\<lambda>committed.
          io_then (throw_if (fr_buffer committed \<noteq> contents) ''private_file_commit_mismatch'')
                  (io_return (dir_of appDataRoot subdir @ [w]))))) s = (r, s')"
  shows "storage_ok pe appDataRoot s'
       \<and> (case r of
            Inl _ \<Rightarrow> \<forall>c. stored pe appDataRoot subdir w maxBytes mode (p_disk s) c \<longrightarrow> stored pe appDataRoot subdir w maxBytes mode (p_disk s') c
          | Inr _ \<Rightarrow> stored pe appDataRoot subdir w maxBytes mode (p_disk s') contents)"
proof -
  let ?q = "dir_of appDataRoot subdir"
  have ok: "quiet s" "wf_disk (p_disk s)" "app_ready pe appDataRoot (p_disk s)" using assms(1) by (auto simp: storage_ok_def)
  have pl: "plain_dir (p_disk s) ?q" by (rule area_dirs [OF assms(3)])
  obtain st where ls: "sys (d_lstat pe (?q @ [v])) s = (Inr st, s)"
    using ok(1) pl file_at_node [of "p_disk s" "?q @ [v]" k i contents] assms(5) by (auto simp: sys_read lstat_at good_file_def)
  obtain x t where cm: "commit_temp pe (?q @ [v]) (?q @ [w]) previous maxBytes mode s = (x, t)" by fastforce
  note out = commit_outcome [OF ok(1) assms(2) ok(2) pl assms(4,5) cm]
  show ?thesis
  proof (cases x)
    case (Inl e)
    with out have t: "t = s" by simp
    obtain y s1 where rm: "removeOwnedTemp pe (?q @ [v]) st s = (y, s1)" by fastforce
    note ro = removeOwnedTemp_outcome [OF ok(1,2) pl rm]
    have res: "r = Inl e" "s' = s1" using assms(7) ls cm Inl t rm ro
      by (auto simp: io_bind_def io_then_def io_catch_def io_throw_def)
    have "p \<noteq> ?q @ [v]" if "length p \<le> length ?q" for p using that by auto
    then have sb: "same_below ?q (p_disk s) (p_disk s1)" using ro by (simp add: same_below_def)
    have keep: "stored pe appDataRoot subdir w maxBytes mode (p_disk s1) c" if st: "stored pe appDataRoot subdir w maxBytes mode (p_disk s) c" for c
    proof -
      from st obtain k' i' where g: "good_file pe (p_disk s) (?q @ [w]) mode k' i' c" "length c \<le> maxBytes" by (auto simp: stored_def)
      have "d_ino (p_disk s1) (?q @ [w]) = Some k'" using ro g(1) assms(4) by (auto simp: good_file_def file_at_def)
      from same_below_good [OF sb pl g(1) this] g(2) same_below_area [OF sb] assms(3) show ?thesis unfolding stored_def by metis
    qed
    show ?thesis using res keep ro same_below_ready [OF sb] ok(3) by (simp add: storage_ok_def)
  next
    case (Inr u)
    with out have t: "quiet t" "wf_disk (p_disk t)" "same_below ?q (p_disk s) (p_disk t)"
      "good_file pe (p_disk t) (?q @ [w]) mode k i contents" by auto
    have res: "r = Inr (?q @ [w])" "s' = t"
      using assms(7) ls cm Inr good_read [OF t(1) assms(2) t(4) assms(6)]
      by (auto simp: io_bind_def io_then_def io_catch_def throw_if_run io_return_def)
    show ?thesis
      using res t(1,2,4) same_below_ready [OF t(3)] same_below_area [OF t(3)] assms(3,6) ok(3)
      by (auto simp: storage_ok_def stored_def)
  qed
qed

lemma replace_outcome:
  assumes "storage_ok pe appDataRoot s" "progress pe"
    and "atomicWritePrivateFile pe appDataRoot subdir filename contents maxBytes mode s = (r, s')"
  shows "storage_ok pe appDataRoot s'
       \<and> (case r of
            Inl _ \<Rightarrow> \<forall>c. stored pe appDataRoot subdir filename maxBytes mode (p_disk s) c \<longrightarrow>
                           stored pe appDataRoot subdir filename maxBytes mode (p_disk s') c
          | Inr _ \<Rightarrow> file_args subdir filename maxBytes \<and> stored pe appDataRoot subdir filename maxBytes mode (p_disk s') contents)"
proof -
  let ?q = "dir_of appDataRoot subdir" and ?v = "temp_name_of pe filename"
  let ?stored = "stored pe appDataRoot subdir filename maxBytes mode"
  have ok: "quiet s" "wf_disk (p_disk s)" "app_ready pe appDataRoot (p_disk s)" using assms(1) by (auto simp: storage_ok_def)
  have failed: ?thesis if "fresh_from (p_disk s) new s'" "r = Inl e" for new e
    using that storage_ok_grows [OF assms(1)] stored_grows by (auto simp: fresh_from_def)
  note g = guards_fail [OF assms(3) [unfolded atomicWritePrivateFile_def]]
  show ?thesis
  proof (cases "\<exists>e. r = Inl e \<and> s' = s")
    case True
    then show ?thesis using failed storage_ok_fresh [OF assms(1)] by auto
  next
    case no: False
    with g have args: "0 < maxBytes" "maxBytes \<le> 16 * 1024 * 1024" "PRIVATE_BASENAME_RE filename" "basename filename = filename"
      "\<not> str_includes filename ''..''" by auto
    have size: "length contents \<le> maxBytes"
      using g no by (auto simp: io_then_def io_bind_def throw_if_def io_guard_def io_throw_def split: if_splits)
    have child: "\<not> starts_with filename ''..''" "\<not> starts_with ?v ''..''" "?v \<noteq> filename"
      using filename_child [OF args(3)] by (auto simp: temp_name_of_def)
    obtain x s1 where en: "ensurePrivateStorageSubdir pe appDataRoot subdir s = (x, s1)" by fastforce
    note spec = ensure_spec [OF ok(1,2) assms(2) ok(3) en]
    show ?thesis
    proof (cases x)
      case (Inl e)
      with g no en size have "r = Inl e" "s' = s1" by (auto simp: io_bind_def io_then_def throw_if_run)
      with spec failed show ?thesis by blast
    next
      case (Inr dir)
      with spec have s1: "dir = ?q" "fresh_from (p_disk s) (made appDataRoot subdir) s1" "area pe appDataRoot subdir (p_disk s1)"
        "PRIVATE_SUBDIR_RE subdir" by (auto simp: dir_of_def)
      have pl: "plain_dir (p_disk s1) ?q" by (rule area_dirs [OF s1(3)])
      obtain p s2 where rd: "readExistingIdentity pe (?q @ [filename]) maxBytes mode s1 = (p, s2)" by fastforce
      have s2: "s2 = s1" using readExistingIdentity_state [OF fresh_quiet [OF s1(2)] rd] .
      obtain y s3 where cr: "createExclusiveFileAtPath pe (?q @ [?v]) contents mode maxBytes s1 = (y, s3)" by fastforce
      have fr: "fresh_from (p_disk s) (insert (?q @ [?v]) (made appDataRoot subdir)) s3"
        by (rule file_create_frame [OF s1(2) ok(2) pl cr])
      have run: "(case p of Inl e \<Rightarrow> (Inl e, s1) | Inr previous \<Rightarrow> (case y of Inl e \<Rightarrow> (Inl e, s3) | Inr _ \<Rightarrow>
         io_bind (sys (d_lstat pe (?q @ [?v]))) (\<lambda>tempIdentity.
          io_then (io_catch (commit_temp pe (?q @ [?v]) (?q @ [filename]) previous maxBytes mode)
                     (\<lambda>e. io_then (removeOwnedTemp pe (?q @ [?v]) tempIdentity) (io_throw e)))
         (io_bind (readVerifiedFileAtPath pe (?q @ [filename]) maxBytes mode) (\<lambda>committed.
          io_then (throw_if (fr_buffer committed \<noteq> contents) ''private_file_commit_mismatch'')
                  (io_return (?q @ [filename]))))) s3)) = (r, s')"
        using g no en Inr s1(1) size rd s2 cr contained_child [OF child(1), of ?q s1] contained_child [OF child(2), of ?q s1]
        by (cases p; cases y) (auto simp: io_bind_def io_then_def throw_if_run Let_def)
      show ?thesis
      proof (cases "\<exists>e. p = Inl e \<or> y = Inl e")
        case True
        with run have "(r, s') = (r, s1) \<or> s' = s3" "\<exists>e. r = Inl e" by (auto split: sum.splits)
        with failed s1(2) fr show ?thesis by blast
      next
        case False
        then obtain previous where py: "p = Inr previous" "y = Inr ()" by (cases p; cases y) auto
        from create_good [OF s1(2) ok(2) pl] cr py obtain k i where
          gf: "good_file pe (p_disk s3) (?q @ [?v]) mode k i contents" by blast
        have gr: "d_grows {?q @ [?v]} (p_disk s1) (p_disk s3)"
          using file_create_frame [OF _ _ pl cr, of "p_disk s1" "{}"] s1(2) by (simp add: fresh_from_def)
        have ok3: "storage_ok pe appDataRoot s3" by (rule storage_ok_grows [OF assms(1) fr])
        have old: "?stored (p_disk s) c \<Longrightarrow> ?stored (p_disk s3) c" for c using fr stored_grows by (auto simp: fresh_from_def)
        have "file_args subdir filename maxBytes" using args s1(4) by (simp add: file_args_def)
        with replace_tail [OF ok3 assms(2) area_grows [OF gr s1(3)] child(3) gf size run [unfolded py sum.case]] old
        show ?thesis by (auto split: sum.splits)
      qed
    qed
  qed
qed

end
