(* ===== verification/KnownHosts.thy ===== *)
theory KnownHosts
  imports PrivateReplace
begin

text \<open>
  Trust on first use for SSH host keys (\<open>apps/desktop/electron/bridge/ssh-known-hosts.ts\<close>).

  The store is one private file, reached through three operations; the definitions take
  them as a record, the private storage provides it at the end.  Hashing is a parameter:
  \<open>ke_sha256\<close> gives the hexadecimal digest.  Log lines are left out; the messages to the
  windows are part of the answer.
\<close>

section \<open>The file\<close>

record 's file_ops =
  op_read :: "('s, string option) io"
  op_create :: "string \<Rightarrow> ('s, unit) io"
  op_replace :: "string \<Rightarrow> ('s, unit) io"

record known_env =
  ke_sha256 :: "string \<Rightarrow> string"
  ke_utf8 :: "string \<Rightarrow> string"

definition STORE_SUBDIR :: string where "STORE_SUBDIR = ''ssh''"
definition STORE_FILE :: string where "STORE_FILE = ''known-hosts.json''"
definition STORE_SCHEMA :: string where "STORE_SCHEMA = ''awp-known-hosts''"
definition STORE_VERSION :: int where "STORE_VERSION = 1"
definition STORE_MAX_BYTES :: nat where "STORE_MAX_BYTES = 128 * 1024"
definition STORE_MAX_ENTRIES :: nat where "STORE_MAX_ENTRIES = 512"

text \<open>\<open>/^[0-9a-f]{64}$/u\<close>, for references and for fingerprints.\<close>

definition HOST_REFERENCE_RE :: "string \<Rightarrow> bool" where
  "HOST_REFERENCE_RE v = (length v = 64 \<and> list_all is_hex_lower v)"

definition FINGERPRINT_RE :: "string \<Rightarrow> bool" where
  "FINGERPRINT_RE v = (length v = 64 \<and> list_all is_hex_lower v)"

definition RESERVED_NAMES :: "string list" where
  "RESERVED_NAMES = [''__proto__'', ''prototype'', ''constructor'']"

record KnownHostsStore =
  ks_schema :: string
  ks_version :: int
  ks_entries :: "(string \<times> string) list"

record LoadedStore =
  ls_store :: KnownHostsStore
  ls_exists :: bool

definition getKnownHostsPath :: "storage_env \<Rightarrow> string \<Rightarrow> (pstore, path) io" where
  "getKnownHostsPath pe awpDir = getPrivateStoragePath pe awpDir STORE_SUBDIR STORE_FILE"

definition isKnownHostId :: "string \<Rightarrow> bool" where
  "isKnownHostId v = HOST_REFERENCE_RE v"

section \<open>References\<close>

text \<open>\<open>/\s|[\\/@?#]|[\u0000-\u001f\u007f]/u\<close> on one character.\<close>

definition bad_host_char :: "char \<Rightarrow> bool" where
  "bad_host_char c = (is_ws c \<or> c \<in> {CHR 0x5C, CHR ''/'', CHR ''@'', CHR ''?'', CHR ''#''} \<or> is_control c)"

text \<open>\<open>/^[a-z0-9](?:[a-z0-9.-]{0,251}[a-z0-9])?$/u\<close>\<close>

definition plain_host :: "string \<Rightarrow> bool" where
  "plain_host h =
     (h \<noteq> [] \<and> length h \<le> 253 \<and> (is_lower (hd h) \<or> is_digit (hd h)) \<and> (is_lower (last h) \<or> is_digit (last h))
      \<and> list_all (\<lambda>c. is_lower c \<or> is_digit c \<or> c = CHR ''.'' \<or> c = CHR ''-'') h)"

definition normalizeHost :: "string \<Rightarrow> string result" where
  "normalizeHost v =
     (if v \<noteq> trim v \<or> length v < 1 \<or> 253 < length v then Inl (Thrown ''invalid_host'')
      else if list_ex bad_host_char v then Inl (Thrown ''invalid_host'')
      else
        let normalized = to_lower v
        in if normalized \<in> set RESERVED_NAMES then Inl (Thrown ''invalid_host'')
           else if str_includes normalized '':'' then
             (if \<not> list_all (\<lambda>c. is_hex_lower c \<or> c = CHR '':'') normalized
                 \<or> (\<not> str_includes normalized ''::'' \<and> length (split_char (CHR '':'') normalized) \<noteq> 8)
              then Inl (Thrown ''invalid_host'') else Inr normalized)
           else if \<not> plain_host normalized then Inl (Thrown ''invalid_host'')
           else Inr normalized)"

text \<open>A port: \<open>undefined\<close>, a number or a text.\<close>

datatype port_value = PortUndefined | PortNumber jsnum | PortString string

definition normalizePort :: "port_value \<Rightarrow> int result" where
  "normalizePort v =
     (let port = (case v of PortUndefined \<Rightarrow> Fin 22 | PortNumber n \<Rightarrow> n | PortString t \<Rightarrow> js_Number t)
      in if \<not> is_safe_integer port then Inl (Thrown ''invalid_port'')
         else case as_integer port of
                None \<Rightarrow> Inl (Thrown ''invalid_port'')
              | Some i \<Rightarrow> if i < 1 \<or> 65535 < i then Inl (Thrown ''invalid_port'') else Inr i)"

definition createKnownHostId :: "known_env \<Rightarrow> string \<Rightarrow> port_value \<Rightarrow> string result" where
  "createKnownHostId ke host port =
     bind_result (normalizeHost host) (\<lambda>normalizedHost.
     bind_result (normalizePort port) (\<lambda>normalizedPort.
       Inr (ke_sha256 ke (normalizedHost @ '':'' @ print_int normalizedPort))))"

section \<open>Loading and saving\<close>

definition isPlainRecord :: "jsval \<Rightarrow> (string \<times> jsval) list option" where
  "isPlainRecord v = (case v of Obj kvs \<Rightarrow> Some kvs | _ \<Rightarrow> None)"

definition hasExactKeys :: "(string \<times> jsval) list \<Rightarrow> string list \<Rightarrow> bool" where
  "hasExactKeys kvs expected = (length kvs = length expected \<and> set (map fst kvs) = set expected)"

text \<open>The loop of \<open>validateStore\<close> over the members.\<close>

fun read_entries :: "(string \<times> jsval) list \<Rightarrow> (string \<times> string) list \<Rightarrow> (string \<times> string) list result" where
  "read_entries [] entries = Inr entries"
| "read_entries ((hostId, value) # kvs) entries =
     (if hostId \<in> set RESERVED_NAMES \<or> \<not> isKnownHostId hostId then Inl (Thrown ''known_hosts_invalid_host_reference'')
      else case value of
             Str fingerprint \<Rightarrow>
               if FINGERPRINT_RE fingerprint then read_entries kvs (set_entry hostId fingerprint entries)
               else Inl (Thrown ''known_hosts_invalid_fingerprint'')
           | _ \<Rightarrow> Inl (Thrown ''known_hosts_invalid_fingerprint''))"

definition validateStore :: "jsval \<Rightarrow> KnownHostsStore result" where
  "validateStore v =
     (case isPlainRecord v of
        None \<Rightarrow> Inl (Thrown ''known_hosts_invalid_schema'')
      | Some kvs \<Rightarrow>
          if \<not> hasExactKeys kvs [''entries'', ''schema'', ''version''] then Inl (Thrown ''known_hosts_invalid_schema'')
          else if field v ''schema'' \<noteq> Str STORE_SCHEMA \<or> field v ''version'' \<noteq> Num (Fin (of_int STORE_VERSION))
          then Inl (Thrown ''known_hosts_invalid_schema'')
          else
            (case isPlainRecord (field v ''entries'') of
               None \<Rightarrow> Inl (Thrown ''known_hosts_invalid_schema'')
             | Some source \<Rightarrow>
                 if STORE_MAX_ENTRIES < length source then Inl (Thrown ''known_hosts_entry_limit'')
                 else bind_result (read_entries source []) (\<lambda>entries.
                        Inr \<lparr>ks_schema = STORE_SCHEMA, ks_version = STORE_VERSION, ks_entries = entries\<rparr>)))"

definition emptyStore :: KnownHostsStore where
  "emptyStore = \<lparr>ks_schema = STORE_SCHEMA, ks_version = STORE_VERSION, ks_entries = []\<rparr>"

definition loadKnownHosts :: "known_env \<Rightarrow> 's file_ops \<Rightarrow> ('s, LoadedStore) io" where
  "loadKnownHosts ke ops =
     io_bind (op_read ops) (\<lambda>f.
     case f of
       None \<Rightarrow> io_return \<lparr>ls_store = emptyStore, ls_exists = False\<rparr>
     | Some buffer \<Rightarrow>
         (case JSON_parse (ke_utf8 ke buffer) of
            None \<Rightarrow> io_throw (Thrown ''known_hosts_invalid_json'')
          | Some raw \<Rightarrow> io_bind (io_lift (validateStore raw)) (\<lambda>store. io_return \<lparr>ls_store = store, ls_exists = True\<rparr>)))"

definition store_json :: "KnownHostsStore \<Rightarrow> jsval" where
  "store_json st =
     Obj [(''schema'', Str (ks_schema st)), (''version'', Num (Fin (of_int (ks_version st)))),
          (''entries'', Obj (map (\<lambda>(k, v). (k, Str v)) (ks_entries st)))]"

text \<open>The texts written are ASCII, so their UTF-8 bytes are their characters.\<close>

definition persistKnownHosts :: "'s file_ops \<Rightarrow> LoadedStore \<Rightarrow> ('s, unit) io" where
  "persistKnownHosts ops loaded =
     (let payload = JSON_stringify (store_json (ls_store loaded)) @ [CHR 0x0A]
      in io_then (io_guard (length payload \<le> STORE_MAX_BYTES) ''known_hosts_too_large'')
           (if ls_exists loaded then op_replace ops payload else op_create ops payload))"

section \<open>Verification\<close>

datatype window = Live | Destroyed | Failing

record mismatch =
  mm_hostId :: string
  mm_stored_fp :: string
  mm_received_fp :: string

text \<open>The windows that receive the message, by position, with the message.\<close>

definition notifyHostKeyMismatch :: "window list \<Rightarrow> string \<Rightarrow> string \<Rightarrow> string \<Rightarrow> (nat \<times> mismatch) list" where
  "notifyHostKeyMismatch windows hostId fp received =
     (if \<not> isKnownHostId hostId \<or> \<not> FINGERPRINT_RE fp \<or> \<not> FINGERPRINT_RE received then []
      else
        let payload = \<lparr>mm_hostId = hostId, mm_stored_fp = take 12 fp, mm_received_fp = take 12 received\<rparr>
        in map (\<lambda>(i, _). (i, payload)) (filter (\<lambda>(_, w). w = Live) (enumerate 0 windows)))"

definition with_entry :: "LoadedStore \<Rightarrow> string \<Rightarrow> string \<Rightarrow> LoadedStore" where
  "with_entry l hostId fp = l\<lparr>ls_store := (ls_store l)\<lparr>ks_entries := set_entry hostId fp (ks_entries (ls_store l))\<rparr>\<rparr>"

definition without_entry :: "LoadedStore \<Rightarrow> string \<Rightarrow> LoadedStore" where
  "without_entry l hostId =
     l\<lparr>ls_store := (ls_store l)\<lparr>ks_entries := filter (\<lambda>e. fst e \<noteq> hostId) (ks_entries (ls_store l))\<rparr>\<rparr>"

type_synonym verdict = "bool \<times> (nat \<times> mismatch) list"

definition verifyHostKey ::
  "known_env \<Rightarrow> 's file_ops \<Rightarrow> window list \<Rightarrow> string \<Rightarrow> string \<Rightarrow> bool option \<Rightarrow> ('s, verdict) io" where
  "verifyHostKey ke ops windows hostId key notifyOnMismatch =
     (if \<not> isKnownHostId hostId \<or> length key < 16 \<or> 16 * 1024 < length key then io_return (False, [])
      else
        let received = ke_sha256 ke key
        in io_bind (io_catch (io_bind (loadKnownHosts ke ops) (\<lambda>l. io_return (Some l))) (\<lambda>_. io_return None)) (\<lambda>res.
           case res of
             None \<Rightarrow> io_return (False, [])
           | Some loaded \<Rightarrow>
               let entries = ks_entries (ls_store loaded)
               in (case map_of entries hostId of
                     Some (c # cs) \<Rightarrow>
                       if c # cs = received then io_return (True, [])
                       else io_return (False, if notifyOnMismatch \<noteq> Some False
                                              then notifyHostKeyMismatch windows hostId (c # cs) received else [])
                   | _ \<Rightarrow>
                       if STORE_MAX_ENTRIES \<le> length entries then io_return (False, [])
                       else io_catch (io_then (persistKnownHosts ops (with_entry loaded hostId received)) (io_return (True, [])))
                                     (\<lambda>_. io_return (False, [])))))"

definition makeHostVerifier ::
  "known_env \<Rightarrow> 's file_ops \<Rightarrow> window list \<Rightarrow> string \<Rightarrow> port_value \<Rightarrow> string \<Rightarrow> ('s, verdict) io" where
  "makeHostVerifier ke ops windows host port key =
     (case createKnownHostId ke host port of
        Inl _ \<Rightarrow> io_return (False, [])
      | Inr hostId \<Rightarrow> verifyHostKey ke ops windows hostId key None)"

definition clearKnownHost :: "known_env \<Rightarrow> 's file_ops \<Rightarrow> string \<Rightarrow> ('s, nat) io" where
  "clearKnownHost ke ops hostId =
     io_then (io_guard (isKnownHostId hostId) ''invalid_host_reference'')
     (io_bind (loadKnownHosts ke ops) (\<lambda>loaded.
      if \<not> ls_exists loaded \<or> map_of (ks_entries (ls_store loaded)) hostId = None then io_return 0
      else io_then (persistKnownHosts ops (without_entry loaded hostId)) (io_return 1)))"

text \<open>The store of the application: one file of the private storage.\<close>

definition known_hosts_file :: "storage_env \<Rightarrow> string \<Rightarrow> pstore file_ops" where
  "known_hosts_file pe awpDir =
     \<lparr>op_read = io_bind (readPrivateFileIfExists pe awpDir STORE_SUBDIR STORE_FILE STORE_MAX_BYTES 384)
                       (\<lambda>f. io_return (map_option fr_buffer f)),
      op_create = (\<lambda>payload. io_then (createExclusivePrivateFile pe awpDir STORE_SUBDIR STORE_FILE payload STORE_MAX_BYTES 384) (io_return ())),
      op_replace = (\<lambda>payload. io_then (atomicWritePrivateFile pe awpDir STORE_SUBDIR STORE_FILE payload STORE_MAX_BYTES 384) (io_return ()))\<rparr>"

end
