(* ===== verification/KnownHostsLaws.thy ===== *)
theory KnownHostsLaws
  imports KnownHosts
begin

text \<open>
  What the known-hosts store promises, proved once against the interface of a private
  file and carried over to the private storage: a saved store is read back, verification
  refines trust on first use on a map from references to fingerprints, and a pinned key
  stays pinned.
\<close>

section \<open>Round trip of the store\<close>

definition entries_ok :: "(string \<times> string) list \<Rightarrow> bool" where
  "entries_ok es \<longleftrightarrow> distinct (map fst es) \<and> length es \<le> STORE_MAX_ENTRIES
     \<and> (\<forall>(k, v) \<in> set es. isKnownHostId k \<and> FINGERPRINT_RE v)"

definition store_of :: "(string \<times> string) list \<Rightarrow> KnownHostsStore" where
  "store_of es = \<lparr>ks_schema = STORE_SCHEMA, ks_version = STORE_VERSION, ks_entries = es\<rparr>"

lemma hex_not_reserved: "isKnownHostId k \<Longrightarrow> k \<notin> set RESERVED_NAMES"
  by (auto simp: isKnownHostId_def HOST_REFERENCE_RE_def RESERVED_NAMES_def)

lemma read_entries_back:
  "distinct (map fst (acc @ es)) \<Longrightarrow> \<forall>(k, v) \<in> set es. isKnownHostId k \<and> FINGERPRINT_RE v \<Longrightarrow>
   read_entries (map (\<lambda>(k, v). (k, Str v)) es) acc = Inr (acc @ es)"
proof (induction es arbitrary: acc)
  case (Cons e es)
  obtain k v where e: "e = (k, v)" by fastforce
  have "set_entry k v acc = acc @ [(k, v)]" using Cons.prems(1) by (intro set_entry_fresh) (auto simp: e)
  with Cons.IH [of "acc @ [(k, v)]"] Cons.prems show ?case by (simp add: e hex_not_reserved)
qed simp

lemma validate_store_of: "entries_ok es \<Longrightarrow> validateStore (store_json (store_of es)) = Inr (store_of es)"
  using read_entries_back [of "[]" es]
  by (simp add: validateStore_def store_json_def store_of_def isPlainRecord_def hasExactKeys_def entries_ok_def insert_commute)

lemma read_entries_ok:
  "read_entries kvs acc = Inr es \<Longrightarrow> distinct (map fst acc) \<Longrightarrow> \<forall>(k, v) \<in> set acc. isKnownHostId k \<and> FINGERPRINT_RE v \<Longrightarrow>
   distinct (map fst es) \<and> length es \<le> length acc + length kvs \<and> (\<forall>(k, v) \<in> set es. isKnownHostId k \<and> FINGERPRINT_RE v)"
proof (induction kvs acc rule: read_entries.induct)
  case (2 hostId val kvs acc)
  from 2(2) obtain fp where fp: "val = Str fp" "isKnownHostId hostId" "hostId \<notin> set RESERVED_NAMES" "FINGERPRINT_RE fp"
    "read_entries kvs (set_entry hostId fp acc) = Inr es"
    by (auto split: if_splits jsval.splits)
  have "\<forall>(k, v) \<in> set (set_entry hostId fp acc). isKnownHostId k \<and> FINGERPRINT_RE v"
    using 2(4) fp set_entry_subset [of hostId fp acc] by auto
  with 2(1) fp distinct_set_entry [OF 2(3)] length_set_entry [of hostId fp acc] show ?case by fastforce
qed auto

lemma validateStore_ok: "validateStore v = Inr st \<Longrightarrow> st = store_of (ks_entries st) \<and> entries_ok (ks_entries st)"
  using read_entries_ok [of _ "[]"]
  by (fastforce simp: validateStore_def entries_ok_def store_of_def bind_result_def split: option.splits if_splits sum.splits)

definition payload_of :: "(string \<times> string) list \<Rightarrow> string" where
  "payload_of es = JSON_stringify (store_json (store_of es)) @ [CHR 0x0A]"

lemma ascii_hex: "list_all is_hex_lower v \<Longrightarrow> ascii v"
  by (auto simp: list_all_iff is_hex_lower_def is_digit_def)

lemma ascii_members:
  "\<forall>(k, v) \<in> set es. ascii k \<and> ascii v \<Longrightarrow> ascii (print_members first (map (\<lambda>(k, v). (k, Str v)) es))"
  by (induction es arbitrary: first) (auto simp: ascii_quote)

lemma ascii_payload: "entries_ok es \<Longrightarrow> ascii (payload_of es)"
proof -
  assume ok: "entries_ok es"
  have "ascii (print_members True (map (\<lambda>(k, v). (k, Str v)) es))"
    by (rule ascii_members) (use ok in \<open>auto simp: entries_ok_def isKnownHostId_def HOST_REFERENCE_RE_def FINGERPRINT_RE_def intro: ascii_hex\<close>)
  then show ?thesis
    by (simp add: payload_of_def store_json_def store_of_def STORE_SCHEMA_def STORE_VERSION_def ascii_quote ascii_print_int)
qed

definition codec_ok :: "known_env \<Rightarrow> bool" where
  "codec_ok ke \<longleftrightarrow> (\<forall>s. ascii s \<longrightarrow> ke_utf8 ke s = s) \<and> (\<forall>s. FINGERPRINT_RE (ke_sha256 ke s))"

lemma payload_parses:
  assumes "codec_ok ke" "entries_ok es"
  shows "JSON_parse (ke_utf8 ke (payload_of es)) = Some (store_json (store_of es))"
proof -
  have "wf_json (store_json (store_of es))"
    using assms(2) by (auto simp: store_json_def store_of_def entries_ok_def list_all_iff case_prod_unfold comp_def STORE_VERSION_def)
  then have "JSON_parse (payload_of es) = Some (store_json (store_of es))"
    unfolding payload_of_def by (rule JSON_parse_stringify) (simp_all add: skip_ws_def is_json_ws_def ends_number_def is_digit_def)
  with assms ascii_payload show ?thesis by (simp add: codec_ok_def)
qed

lemma read_back:
  assumes "codec_ok ke" "entries_ok es" "op_read ops s = (Inr (Some (payload_of es)), s')"
  shows "loadKnownHosts ke ops s = (Inr \<lparr>ls_store = store_of es, ls_exists = True\<rparr>, s')"
  using assms by (simp add: loadKnownHosts_def io_bind_def io_lift_def io_return_def payload_parses validate_store_of)

lemma load_ok:
  assumes "loadKnownHosts ke ops s = (Inr l, s')"
  shows "entries_ok (ks_entries (ls_store l)) \<and> ls_store l = store_of (ks_entries (ls_store l)) \<and> (\<not> ls_exists l \<longrightarrow> ks_entries (ls_store l) = [])
    \<and> (ls_exists l \<longrightarrow> (\<exists>b. op_read ops s = (Inr (Some b), s')))"
proof -
  from assms obtain f s1 where rd: "op_read ops s = (Inr f, s1)" and
    rest: "(case f of
       None \<Rightarrow> io_return \<lparr>ls_store = emptyStore, ls_exists = False\<rparr>
     | Some buffer \<Rightarrow>
         (case JSON_parse (ke_utf8 ke buffer) of
            None \<Rightarrow> io_throw (Thrown ''known_hosts_invalid_json'')
          | Some raw \<Rightarrow> io_bind (io_lift (validateStore raw)) (\<lambda>store. io_return \<lparr>ls_store = store, ls_exists = True\<rparr>))) s1 = (Inr l, s')"
    unfolding loadKnownHosts_def io_bind_Inr by blast
  show ?thesis
  proof (cases f)
    case None
    with rest show ?thesis by (auto simp: emptyStore_def store_of_def entries_ok_def)
  next
    case (Some b)
    with rest obtain raw where "validateStore raw = Inr (ls_store l)" "ls_exists l" "s' = s1"
      by (auto simp: io_bind_Inr io_lift_def io_throw_def split: option.splits)
    with validateStore_ok rd Some show ?thesis by auto
  qed
qed

lemma with_entry_store: "ls_store l = store_of es \<Longrightarrow> ls_store (with_entry l h f) = store_of (set_entry h f es)"
  by (simp add: with_entry_def store_of_def)

lemma without_entry_store: "ls_store l = store_of es \<Longrightarrow> ls_store (without_entry l h) = store_of (filter (\<lambda>e. fst e \<noteq> h) es)"
  by (simp add: without_entry_def store_of_def)

section \<open>The interface\<close>

text \<open>
  A private file: reading changes nothing; what was created or replaced is read; what is
  there survives every creation and every failed replacement.
\<close>

locale private_file =
  fixes ops :: "'s file_ops"
    and ok :: "'s \<Rightarrow> bool"
  assumes read_pure: "ok s \<Longrightarrow> op_read ops s = (f, s') \<Longrightarrow> s' = s"
    and create_ok: "ok s \<Longrightarrow> op_create ops c s = (r, s') \<Longrightarrow> ok s'"
    and replace_ok: "ok s \<Longrightarrow> op_replace ops c s = (r, s') \<Longrightarrow> ok s'"
    and create_reads: "ok s \<Longrightarrow> op_create ops c s = (Inr u, s') \<Longrightarrow> op_read ops s' = (Inr (Some c), s')"
    and replace_reads: "ok s \<Longrightarrow> op_replace ops c s = (Inr u, s') \<Longrightarrow> op_read ops s' = (Inr (Some c), s')"
    and replace_keeps:
      "ok s \<Longrightarrow> op_read ops s = (Inr (Some b), s) \<Longrightarrow> op_replace ops c s = (Inl e, s') \<Longrightarrow> op_read ops s' = (Inr (Some b), s')"

text \<open>The map from references to fingerprints that the file stands for, if it can be loaded.\<close>

definition known_hosts :: "known_env \<Rightarrow> 's file_ops \<Rightarrow> 's \<Rightarrow> (string \<rightharpoonup> string) option" where
  "known_hosts ke ops s =
     (case fst (loadKnownHosts ke ops s) of Inl _ \<Rightarrow> None | Inr l \<Rightarrow> Some (map_of (ks_entries (ls_store l))))"

text \<open>Any use of the store that does not clear the reference \<open>h\<close>.\<close>

inductive kh_step :: "known_env \<Rightarrow> 's file_ops \<Rightarrow> string \<Rightarrow> 's \<Rightarrow> 's \<Rightarrow> bool"
  for ke :: known_env and ops :: "'s file_ops" and h :: string where
  kh_verify: "kh_step ke ops h s (snd (verifyHostKey ke ops windows hostId key notify s))"
| kh_clear_other: "hostId \<noteq> h \<Longrightarrow> kh_step ke ops h s (snd (clearKnownHost ke ops hostId s))"

inductive_cases kh_stepE: "kh_step ke ops h s s'"

context private_file
begin

lemma load_pure: "ok s \<Longrightarrow> loadKnownHosts ke ops s = (r, s') \<Longrightarrow> s' = s"
  using read_pure
  by (auto simp: loadKnownHosts_def io_bind_def io_lift_def io_return_def io_throw_def split: prod.splits sum.splits option.splits)

lemma load_run: "ok s \<Longrightarrow> loadKnownHosts ke ops s = (fst (loadKnownHosts ke ops s), s)"
  using load_pure by (metis prod.collapse)

lemma persist_outcome:
  assumes "ok s" "codec_ok ke" "loadKnownHosts ke ops s = (Inr l, s)" "entries_ok es" "ls_store l' = store_of es" "ls_exists l' = ls_exists l"
    and "persistKnownHosts ops l' s = (r, s')"
  shows "ok s' \<and> (case r of
      Inr _ \<Rightarrow> known_hosts ke ops s' = Some (map_of es)
    | Inl _ \<Rightarrow> ls_exists l \<longrightarrow> known_hosts ke ops s' = known_hosts ke ops s)"
proof (cases "length (payload_of es) \<le> STORE_MAX_BYTES")
  case False
  with assms have "r = Inl (Thrown ''known_hosts_too_large'')" "s' = s"
    by (auto simp: persistKnownHosts_def payload_of_def io_then_def io_bind_def io_guard_def io_throw_def)
  with assms(1) show ?thesis by simp
next
  case True
  have pl: "JSON_stringify (store_json (ls_store l')) @ [CHR 0x0A] = payload_of es" by (simp only: assms(5) payload_of_def)
  have run: "(if ls_exists l then op_replace ops (payload_of es) else op_create ops (payload_of es)) s = (r, s')"
    using assms(7) True unfolding persistKnownHosts_def Let_def pl assms(6) io_then_def
    by (simp only: io_bind_def io_guard_def io_return_def if_True prod.case sum.case)
  have ok': "ok s'" using run by (auto intro: create_ok [OF assms(1)] replace_ok [OF assms(1)] split: if_splits)
  have "known_hosts ke ops s' = Some (map_of es)" if "r = Inr u" for u
  proof -
    have "op_read ops s' = (Inr (Some (payload_of es)), s')"
      using run that by (auto intro: create_reads [OF assms(1)] replace_reads [OF assms(1)] split: if_splits)
    from read_back [OF assms(2,4) this] show ?thesis by (simp add: known_hosts_def store_of_def)
  qed
  moreover have "known_hosts ke ops s' = known_hosts ke ops s" if "r = Inl e" "ls_exists l" for e
  proof -
    from load_ok [OF assms(3)] that(2) obtain b where b: "op_read ops s = (Inr (Some b), s)" by blast
    have "op_replace ops (payload_of es) s = (Inl e, s')" using run that by simp
    from replace_keeps [OF assms(1) b this] b show ?thesis
      by (simp add: known_hosts_def loadKnownHosts_def io_bind_def io_lift_def io_return_def io_throw_def split: option.splits sum.splits)
  qed
  ultimately show ?thesis using ok' by (cases r) auto
qed

text \<open>Verification refines trust on first use on the map.\<close>

lemma verify_refines:
  assumes "ok s" "codec_ok ke" "verifyHostKey ke ops windows hostId key notify s = (r, s')"
  shows "ok s' \<and> (\<exists>b sent. r = Inr (b, sent) \<and>
    (case known_hosts ke ops s of
       None \<Rightarrow> \<not> b \<and> s' = s
     | Some m \<Rightarrow>
         (case m hostId of
            Some fp \<Rightarrow> (b \<longrightarrow> fp = ke_sha256 ke key) \<and> known_hosts ke ops s' = Some m
          | None \<Rightarrow> (b \<longrightarrow> known_hosts ke ops s' = Some (m(hostId \<mapsto> ke_sha256 ke key)))
                  \<and> (\<not> b \<longrightarrow> m \<noteq> Map.empty \<longrightarrow> known_hosts ke ops s' = Some m))))"
proof (cases "\<not> isKnownHostId hostId \<or> length key < 16 \<or> 16 * 1024 < length key")
  case True
  with assms(3) have "r = Inr (False, [])" "s' = s" by (auto simp: verifyHostKey_def io_return_def)
  with assms(1) show ?thesis by (cases "known_hosts ke ops s") (auto split: option.split)
next
  case args: False
  let ?fp = "ke_sha256 ke key"
  obtain x where ld: "loadKnownHosts ke ops s = (x, s)" using load_run [OF assms(1)] by blast
  show ?thesis
  proof (cases x)
    case (Inl e)
    with assms(3) args ld have "r = Inr (False, [])" "s' = s"
      by (auto simp: verifyHostKey_def io_bind_def io_catch_def io_return_def Let_def)
    with assms(1) ld Inl show ?thesis by (auto simp: known_hosts_def)
  next
    case (Inr l)
    define es where "es = ks_entries (ls_store l)"
    note lok = load_ok [OF ld [unfolded Inr], folded es_def]
    have known: "known_hosts ke ops s = Some (map_of es)" by (simp add: known_hosts_def ld Inr es_def)
    show ?thesis
    proof (cases "map_of es hostId")
      case (Some fp)
      have "FINGERPRINT_RE fp" using lok map_of_SomeD [OF Some] by (auto simp: entries_ok_def)
      then obtain c cs where fp: "fp = c # cs" by (cases fp) (auto simp: FINGERPRINT_RE_def)
      have "s' = s \<and> (\<exists>b sent. r = Inr (b, sent) \<and> (b \<longrightarrow> fp = ?fp))"
        using assms(3) args ld Inr Some fp
        by (auto simp: verifyHostKey_def io_bind_def io_catch_def io_return_def Let_def es_def split: if_splits)
      with assms(1) known Some show ?thesis by auto
    next
      case None
      have run: "(if STORE_MAX_ENTRIES \<le> length es then io_return (False, [])
           else io_catch (io_then (persistKnownHosts ops (with_entry l hostId ?fp)) (io_return (True, [])))
                         (\<lambda>_. io_return (False, []))) s = (r, s')"
        using assms(3) args ld Inr None by (simp add: verifyHostKey_def io_bind_def io_catch_def io_return_def Let_def es_def)
      show ?thesis
      proof (cases "STORE_MAX_ENTRIES \<le> length es")
        case True
        with run have "r = Inr (False, [])" "s' = s" by (auto simp: io_return_def)
        with assms(1) known None show ?thesis by auto
      next
        case False
        let ?es = "set_entry hostId ?fp es"
        obtain y t where ps: "persistKnownHosts ops (with_entry l hostId ?fp) s = (y, t)" by fastforce
        have fresh: "?es = es @ [(hostId, ?fp)]" using None by (intro set_entry_fresh) (simp add: map_of_eq_None_iff)
        have eok: "entries_ok ?es"
          using lok False None args assms(2) by (auto simp: fresh entries_ok_def codec_ok_def map_of_eq_None_iff)
        have st: "ls_store (with_entry l hostId ?fp) = store_of ?es"
          using lok by (intro with_entry_store) simp
        from persist_outcome [OF assms(1,2) ld [unfolded Inr] eok st _ ps]
        have out: "ok t" "\<And>u. y = Inr u \<Longrightarrow> known_hosts ke ops t = Some ((map_of es)(hostId \<mapsto> ?fp))"
          "\<And>e. y = Inl e \<Longrightarrow> ls_exists l \<Longrightarrow> known_hosts ke ops t = Some (map_of es)"
          by (auto simp: with_entry_def map_of_set_entry known)
        have rs: "s' = t" "r = Inr (case y of Inl _ \<Rightarrow> False | Inr _ \<Rightarrow> True, [])"
          using run False ps by (auto simp: io_catch_def io_then_def io_bind_def io_return_def split: sum.splits)
        have "map_of es \<noteq> Map.empty \<Longrightarrow> ls_exists l" using lok by auto
        with out rs known None show ?thesis by (cases y) auto
      qed
    qed
  qed
qed

lemma clear_refines:
  assumes "ok s" "codec_ok ke" "known_hosts ke ops s = Some m" "clearKnownHost ke ops hostId s = (r, s')"
  shows "ok s' \<and> (case r of
      Inr n \<Rightarrow> (n = 0 \<and> s' = s \<and> m hostId = None) \<or> (n = 1 \<and> m hostId \<noteq> None \<and> known_hosts ke ops s' = Some (m(hostId := None)))
    | Inl _ \<Rightarrow> known_hosts ke ops s' = Some m)"
proof (cases "isKnownHostId hostId")
  case False
  with assms(4) have "s' = s" "r = Inl (Thrown ''invalid_host_reference'')"
    by (auto simp: clearKnownHost_def io_then_def io_bind_def io_guard_def io_throw_def)
  with assms(1,3) show ?thesis by simp
next
  case id: True
  obtain l where ld: "loadKnownHosts ke ops s = (Inr l, s)"
    using load_run [OF assms(1), of ke] assms(3) by (auto simp: known_hosts_def split: sum.splits)
  define es where "es = ks_entries (ls_store l)"
  note lok = load_ok [OF ld, folded es_def]
  have m: "m = map_of es" using assms(3) ld by (simp add: known_hosts_def es_def)
  let ?es = "filter (\<lambda>e. fst e \<noteq> hostId) es"
  have run: "(if \<not> ls_exists l \<or> m hostId = None then io_return 0
      else io_then (persistKnownHosts ops (without_entry l hostId)) (io_return 1)) s = (r, s')"
    using assms(4) id ld by (simp add: clearKnownHost_def io_then_def io_bind_def io_guard_def io_return_def m es_def)
  show ?thesis
  proof (cases "m hostId = None")
    case True
    with run assms(1) show ?thesis by (auto simp: io_return_def)
  next
    case False
    then have ex: "ls_exists l" using lok m by auto
    obtain y t where ps: "persistKnownHosts ops (without_entry l hostId) s = (y, t)" by fastforce
    have eok: "entries_ok ?es"
      using lok by (auto simp: entries_ok_def intro: distinct_map_filter le_trans [OF length_filter_le])
    have st: "ls_store (without_entry l hostId) = store_of ?es"
      using lok by (intro without_entry_store) simp
    have mo: "map_of ?es = m(hostId := None)"
      by (auto simp: m fun_eq_iff map_of_filter_keys [of "\<lambda>p. p \<noteq> hostId"])
    from persist_outcome [OF assms(1,2) ld eok st _ ps]
    have "ok t" "\<And>u. y = Inr u \<Longrightarrow> known_hosts ke ops t = Some (m(hostId := None))"
      "\<And>e. y = Inl e \<Longrightarrow> known_hosts ke ops t = Some m"
      using ex assms(3) by (auto simp: without_entry_def mo)
    moreover have "s' = t" "r = (case y of Inl e \<Rightarrow> Inl e | Inr _ \<Rightarrow> Inr 1)"
      using run False ex ps by (auto simp: io_then_def io_bind_def io_return_def split: sum.splits)
    ultimately show ?thesis using False by (cases y) auto
  qed
qed

text \<open>A pinned fingerprint stays, whatever is verified and whatever else is cleared.\<close>

definition pinned :: "known_env \<Rightarrow> string \<Rightarrow> string \<Rightarrow> 's \<Rightarrow> bool" where
  "pinned ke h fp s \<longleftrightarrow> ok s \<and> (\<exists>m. known_hosts ke ops s = Some m \<and> m h = Some fp)"

lemma pinned_step:
  assumes "codec_ok ke" "pinned ke h fp s" "kh_step ke ops h s s'"
  shows "pinned ke h fp s'"
proof -
  from assms(2) obtain m where m: "ok s" "known_hosts ke ops s = Some m" "m h = Some fp" by (auto simp: pinned_def)
  from assms(3) consider windows hostId key notify where "s' = snd (verifyHostKey ke ops windows hostId key notify s)"
    | hostId where "hostId \<noteq> h" "s' = snd (clearKnownHost ke ops hostId s)"
    by (rule kh_stepE) blast+
  then show ?thesis
  proof cases
    case 1
    then obtain r where "verifyHostKey ke ops windows hostId key notify s = (r, s')" by (metis prod.collapse)
    from verify_refines [OF m(1) assms(1) this] m(2,3) show ?thesis
      by (cases "m hostId"; cases "h = hostId") (auto simp: pinned_def)
  next
    case 2
    then obtain r where "clearKnownHost ke ops hostId s = (r, s')" by (metis prod.collapse)
    from clear_refines [OF m(1) assms(1) m(2) this] m 2(1) show ?thesis
      by (cases r) (auto simp: pinned_def)
  qed
qed

lemma pinned_steps: "rtranclp (kh_step ke ops h) s s' \<Longrightarrow> codec_ok ke \<Longrightarrow> pinned ke h fp s \<Longrightarrow> pinned ke h fp s'"
  by (induction rule: rtranclp_induct) (auto intro: pinned_step)

lemma accepted_then_pinned:
  assumes "ok s" "codec_ok ke" "verifyHostKey ke ops windows h key notify s = (Inr (True, sent), s')"
  shows "pinned ke h (ke_sha256 ke key) s'"
  using verify_refines [OF assms] by (auto simp: pinned_def split: option.splits)

lemma pinned_rejects_others:
  assumes "codec_ok ke" "pinned ke h fp s" "verifyHostKey ke ops windows h key notify s = (Inr (True, sent), s')"
  shows "ke_sha256 ke key = fp"
proof -
  from assms(2) obtain m where m: "ok s" "known_hosts ke ops s = Some m" "m h = Some fp" by (auto simp: pinned_def)
  from verify_refines [OF m(1) assms(1,3)] m(2,3) show ?thesis by auto
qed

end

end
