(* ===== verification/KnownHostsProps.thy ===== *)
theory KnownHostsProps
  imports KnownHostsLaws
begin

text \<open>
  The private storage provides the private file of the known-hosts store; the properties
  of both.
\<close>

section \<open>The store's file\<close>

lemma known_hosts_args: "file_args STORE_SUBDIR STORE_FILE STORE_MAX_BYTES"
  by (simp add: file_args_def STORE_SUBDIR_def STORE_FILE_def STORE_MAX_BYTES_def PRIVATE_SUBDIR_RE_def PRIVATE_BASENAME_RE_def
      basename_def path_segments_def is_alnum_def is_alpha_def is_lower_def is_digit_def is_upper_def)

abbreviation stored_hosts :: "storage_env \<Rightarrow> string \<Rightarrow> pstore \<Rightarrow> string \<Rightarrow> bool" where
  "stored_hosts pe awpDir s \<equiv> stored pe awpDir STORE_SUBDIR STORE_FILE STORE_MAX_BYTES 384 (p_disk s)"

lemma known_hosts_read:
  assumes "progress pe" "storage_ok pe awpDir s"
  shows "op_read (known_hosts_file pe awpDir) s = (Inr (Some c), s') \<longleftrightarrow> s' = s \<and> stored_hosts pe awpDir s c"
proof
  assume "op_read (known_hosts_file pe awpDir) s = (Inr (Some c), s')"
  then obtain f where f: "readPrivateFileIfExists pe awpDir STORE_SUBDIR STORE_FILE STORE_MAX_BYTES 384 s = (Inr (Some f), s')" "fr_buffer f = c"
    by (auto simp: known_hosts_file_def io_bind_Inr dest!: sym [of "Some c"])
  with read_changes_nothing [OF assms(2) f(1)] stored_read [OF assms(2,1) f(1)] show "s' = s \<and> stored_hosts pe awpDir s c" by simp
next
  assume "s' = s \<and> stored_hosts pe awpDir s c"
  with read_stored [OF assms(2,1) known_hosts_args] show "op_read (known_hosts_file pe awpDir) s = (Inr (Some c), s')"
    by (fastforce simp: known_hosts_file_def io_bind_def io_return_def)
qed

lemma ignore_state: "io_then m (io_return ()) s = (r, s') \<Longrightarrow> \<exists>x. m s = (x, s')"
  by (auto simp: io_then_def io_bind_def io_return_def split: prod.splits sum.splits)

lemma ignore_return: "io_then m (io_return ()) s = (Inr u, s') \<Longrightarrow> \<exists>p. m s = (Inr p, s')"
  by (auto simp: io_then_Inr)

lemma ignore_throw: "io_then m (io_return ()) s = (Inl e, s') \<Longrightarrow> m s = (Inl e, s')"
  by (auto simp: io_then_def io_bind_def io_return_def split: prod.splits sum.splits)

interpretation kh: private_file "known_hosts_file pe awpDir" "\<lambda>s. progress pe \<and> storage_ok pe awpDir s" for pe awpDir
proof unfold_locales
  fix s f s'
  assume ok: "progress pe \<and> storage_ok pe awpDir s" and run: "op_read (known_hosts_file pe awpDir) s = (f, s')"
  then obtain x where "readPrivateFileIfExists pe awpDir STORE_SUBDIR STORE_FILE STORE_MAX_BYTES 384 s = (x, s')"
    by (auto simp: known_hosts_file_def io_bind_def io_return_def split: prod.splits sum.splits)
  with ok read_changes_nothing show "s' = s" by blast
next
  fix s c r s'
  assume ok: "progress pe \<and> storage_ok pe awpDir s" and run: "op_create (known_hosts_file pe awpDir) c s = (r, s')"
  then obtain x where "createExclusivePrivateFile pe awpDir STORE_SUBDIR STORE_FILE c STORE_MAX_BYTES 384 s = (x, s')"
    by (auto simp: known_hosts_file_def dest: ignore_state)
  with ok create_outcome storage_ok_grows show "progress pe \<and> storage_ok pe awpDir s'" by blast
next
  fix s c r s'
  assume ok: "progress pe \<and> storage_ok pe awpDir s" and run: "op_replace (known_hosts_file pe awpDir) c s = (r, s')"
  then obtain x where "atomicWritePrivateFile pe awpDir STORE_SUBDIR STORE_FILE c STORE_MAX_BYTES 384 s = (x, s')"
    by (auto simp: known_hosts_file_def dest: ignore_state)
  with ok replace_outcome show "progress pe \<and> storage_ok pe awpDir s'" by blast
next
  fix s c u s'
  assume ok: "progress pe \<and> storage_ok pe awpDir s" and run: "op_create (known_hosts_file pe awpDir) c s = (Inr u, s')"
  then obtain p where c: "createExclusivePrivateFile pe awpDir STORE_SUBDIR STORE_FILE c STORE_MAX_BYTES 384 s = (Inr p, s')"
    by (auto simp: known_hosts_file_def dest: ignore_return)
  from ok have h: "storage_ok pe awpDir s" "progress pe" by auto
  from create_outcome [OF h c] storage_ok_grows [OF h(1)] known_hosts_read [OF h(2)]
  show "op_read (known_hosts_file pe awpDir) s' = (Inr (Some c), s')" by blast
next
  fix s c u s'
  assume ok: "progress pe \<and> storage_ok pe awpDir s" and run: "op_replace (known_hosts_file pe awpDir) c s = (Inr u, s')"
  then obtain p where c: "atomicWritePrivateFile pe awpDir STORE_SUBDIR STORE_FILE c STORE_MAX_BYTES 384 s = (Inr p, s')"
    by (auto simp: known_hosts_file_def dest: ignore_return)
  from ok have h: "storage_ok pe awpDir s" "progress pe" by auto
  from replace_outcome [OF h c] known_hosts_read [OF h(2)]
  show "op_read (known_hosts_file pe awpDir) s' = (Inr (Some c), s')" by simp
next
  fix s b c e s'
  assume ok: "progress pe \<and> storage_ok pe awpDir s" and rd: "op_read (known_hosts_file pe awpDir) s = (Inr (Some b), s)"
    and run: "op_replace (known_hosts_file pe awpDir) c s = (Inl e, s')"
  then have c: "atomicWritePrivateFile pe awpDir STORE_SUBDIR STORE_FILE c STORE_MAX_BYTES 384 s = (Inl e, s')"
    by (auto simp: known_hosts_file_def dest: ignore_throw)
  from ok have h: "storage_ok pe awpDir s" "progress pe" by auto
  from replace_outcome [OF h c] rd known_hosts_read [OF h(2)] h(1)
  show "op_read (known_hosts_file pe awpDir) s' = (Inr (Some b), s')" by auto
qed

section \<open>A disk with a store\<close>

definition demo_storage :: storage_env where
  "demo_storage = \<lparr>pe_win32 = False, pe_getuid = Some 1000, pe_umask = (\<lambda>m. m), pe_ino = Suc, pe_count = (\<lambda>_. 4096),
     pe_rename_fault = (\<lambda>_. None), pe_random = ''0a1b'', pe_utf8 = (\<lambda>b. b), pe_now = 7\<rparr>"

definition demo_host :: string where "demo_host = replicate 64 (CHR ''a'')"
definition demo_fp :: string where "demo_fp = replicate 64 (CHR ''7'')"
definition demo_key :: "char \<Rightarrow> string" where "demo_key c = replicate 32 c"

definition demo_known :: known_env where
  "demo_known = \<lparr>ke_sha256 = (\<lambda>_. demo_fp), ke_utf8 = (\<lambda>b. b)\<rparr>"

fun demo_inode :: "nat \<Rightarrow> inode option" where
  "demo_inode k =
     (if k \<in> {1, 2, 4} then Some \<lparr>i_kind = KDir, i_mode = 448, i_uid = 1000, i_mtime = 0\<rparr>
      else if k = 3 then Some \<lparr>i_kind = KFile marker_bytes, i_mode = 384, i_uid = 1000, i_mtime = 0\<rparr>
      else if k = 5 then Some \<lparr>i_kind = KFile (payload_of [(demo_host, demo_fp)]), i_mode = 384, i_uid = 1000, i_mtime = 0\<rparr>
      else None)"

definition demo_disk :: disk where
  "demo_disk = \<lparr>d_entries = [([''u''], 1), ([''u'', PRIVATE_ROOT_NAME], 2), ([''u'', PRIVATE_ROOT_NAME, ROOT_MARKER_NAME], 3),
       ([''u'', PRIVATE_ROOT_NAME, STORE_SUBDIR], 4), ([''u'', PRIVATE_ROOT_NAME, STORE_SUBDIR, STORE_FILE], 5)],
     d_inodes = demo_inode, d_next = 6\<rparr>"

definition demo_pstore :: pstore where
  "demo_pstore = \<lparr>p_disk = demo_disk, p_others = []\<rparr>"

lemma demo_progress: "progress demo_storage"
  by (simp add: progress_def demo_storage_def)

lemma demo_codec: "codec_ok demo_known"
  by (simp add: codec_ok_def demo_known_def demo_fp_def FINGERPRINT_RE_def is_hex_lower_def is_digit_def list_all_iff)

lemma demo_entries: "entries_ok [(demo_host, demo_fp)]"
  by (simp add: entries_ok_def STORE_MAX_ENTRIES_def demo_fp_def demo_host_def FINGERPRINT_RE_def isKnownHostId_def HOST_REFERENCE_RE_def
      is_hex_lower_def is_digit_def list_all_iff)

lemma names_differ: "PRIVATE_ROOT_NAME \<noteq> ROOT_MARKER_NAME" "ROOT_MARKER_NAME \<noteq> STORE_SUBDIR"
  by (simp_all add: PRIVATE_ROOT_NAME_def ROOT_MARKER_NAME_def STORE_SUBDIR_def)

lemma demo_nodes:
  "d_ino demo_disk [''u''] = Some 1" "d_ino demo_disk [''u'', PRIVATE_ROOT_NAME] = Some 2"
  "d_ino demo_disk [''u'', PRIVATE_ROOT_NAME, ROOT_MARKER_NAME] = Some 3" "d_ino demo_disk [''u'', PRIVATE_ROOT_NAME, STORE_SUBDIR] = Some 4"
  "d_ino demo_disk [''u'', PRIVATE_ROOT_NAME, STORE_SUBDIR, STORE_FILE] = Some 5" "d_inodes demo_disk = demo_inode"
  using names_differ by (simp_all add: demo_disk_def d_ino_def)

lemma demo_plain: "plain_dir demo_disk [''u'']" "plain_dir demo_disk [''u'', PRIVATE_ROOT_NAME]" "plain_dir demo_disk [''u'', PRIVATE_ROOT_NAME, STORE_SUBDIR]"
  using plain_dir_snoc [of demo_disk "[]" "''u''"] plain_dir_snoc [of demo_disk "[''u'']" PRIVATE_ROOT_NAME]
    plain_dir_snoc [of demo_disk "[''u'', PRIVATE_ROOT_NAME]" STORE_SUBDIR]
  by (simp_all add: d_node_def demo_nodes)

lemma demo_resolve: "resolve_segments ''/u'' = [''u'']"
  by code_simp

lemma demo_ready: "app_ready demo_storage ''/u'' demo_disk"
  unfolding app_ready_def demo_resolve
  by (simp add: demo_plain d_node_def demo_nodes owner_ok_def demo_storage_def trim_def is_ws_def is_absolute_def)

lemma demo_ok: "storage_ok demo_storage ''/u'' demo_pstore"
proof -
  have "wf_disk demo_disk" by (auto simp: wf_disk_def demo_disk_def d_ino_def split: if_splits)
  with demo_ready show ?thesis by (simp add: storage_ok_def demo_pstore_def)
qed

lemma marker_roundtrip: "JSON_parse marker_bytes = Some ROOT_MARKER"
  unfolding marker_bytes_def
  by (rule JSON_parse_stringify) (simp_all add: ROOT_MARKER_def skip_ws_def is_json_ws_def ends_number_def is_digit_def)

lemma demo_marked: "marked demo_storage demo_disk [''u'', PRIVATE_ROOT_NAME]"
proof -
  have "valid_marker ROOT_MARKER" by (simp add: valid_marker_def ROOT_MARKER_def)
  moreover have "length marker_bytes \<le> ROOT_MARKER_MAX_BYTES" 
    by (simp add: marker_bytes_def ROOT_MARKER_def ROOT_MARKER_MAX_BYTES_def quote_string_def escape_char_def print_int_def print_nat.simps)
  moreover have "good_file demo_storage demo_disk ([''u'', PRIVATE_ROOT_NAME] @ [ROOT_MARKER_NAME]) 384 3
      \<lparr>i_kind = KFile marker_bytes, i_mode = 384, i_uid = 1000, i_mtime = 0\<rparr> marker_bytes"
    by (simp add: good_file_def file_at_def demo_nodes demo_plain owner_ok_def mode_ok_def demo_storage_def)
  moreover have "pe_utf8 demo_storage b = b" for b by (simp add: demo_storage_def)
  ultimately show ?thesis using marker_roundtrip unfolding marked_def by metis
qed

lemma demo_area: "area demo_storage ''/u'' STORE_SUBDIR demo_disk"
  unfolding area_def Let_def demo_resolve
  using demo_ready demo_marked by (simp add: private_dir_def d_node_def demo_nodes owner_ok_def mode_ok_def demo_storage_def)

lemma demo_stored: "stored_hosts demo_storage ''/u'' demo_pstore (payload_of [(demo_host, demo_fp)])"
proof -
  have "length (payload_of [(demo_host, demo_fp)]) \<le> STORE_MAX_BYTES"
    by (simp add: payload_of_def store_of_def store_json_def STORE_SCHEMA_def STORE_VERSION_def STORE_MAX_BYTES_def quote_string_def
        escape_char_def print_int_def print_nat.simps demo_host_def demo_fp_def)
  moreover have "good_file demo_storage demo_disk (dir_of ''/u'' STORE_SUBDIR @ [STORE_FILE]) 384 5
      \<lparr>i_kind = KFile (payload_of [(demo_host, demo_fp)]), i_mode = 384, i_uid = 1000, i_mtime = 0\<rparr> (payload_of [(demo_host, demo_fp)])"
    by (simp add: good_file_def file_at_def demo_nodes demo_plain owner_ok_def mode_ok_def demo_storage_def dir_of_def demo_resolve)
  ultimately show ?thesis unfolding stored_def using demo_area by (auto simp: demo_pstore_def)
qed

lemma demo_load:
  "loadKnownHosts demo_known (known_hosts_file demo_storage ''/u'') demo_pstore
     = (Inr \<lparr>ls_store = store_of [(demo_host, demo_fp)], ls_exists = True\<rparr>, demo_pstore)"
  by (rule read_back [OF demo_codec demo_entries]) (simp add: known_hosts_read [OF demo_progress demo_ok] demo_stored)

lemma demo_host_verified:
  assumes "16 \<le> length key" "length key \<le> 64"
  shows "verifyHostKey demo_known (known_hosts_file demo_storage ''/u'') ws demo_host key notify demo_pstore = (Inr (True, []), demo_pstore)"
proof -
  have "isKnownHostId demo_host" using demo_entries by (simp add: entries_ok_def)
  moreover have "\<not> length key < 16 \<and> \<not> 16 * 1024 < length key" using assms by simp
  moreover have "demo_fp \<noteq> []" by (simp add: demo_fp_def)
  moreover have "ke_sha256 demo_known key = demo_fp" by (simp add: demo_known_def)
  ultimately show ?thesis
    by (simp add: verifyHostKey_def demo_load io_bind_def io_catch_def io_return_def store_of_def Let_def split: list.split)
qed

section \<open>Properties\<close>



text \<open>Trust on first use on a map: what a verification may answer and leave behind.\<close>

definition tofu :: "(string \<rightharpoonup> string) \<Rightarrow> string \<Rightarrow> string \<Rightarrow> bool \<Rightarrow> (string \<rightharpoonup> string) \<Rightarrow> bool" where
  "tofu m h fp accepted m' =
     (case m h of
        Some fp' \<Rightarrow> (accepted \<longrightarrow> fp' = fp) \<and> m' = m
      | None \<Rightarrow> m' = (if accepted then m(h \<mapsto> fp) else m))"

text \<open>
  C19. Verification refines trust on first use: on a store that loads as the map \<open>m\<close> it
  always answers, and unless it refuses while the store is still empty it leaves a store
  that loads as a map that trust on first use allows.  A store that cannot be loaded
  makes it refuse and is left alone.
\<close>

theorem verify_refines_tofu:
  assumes "progress pe" "storage_ok pe awpDir s" "codec_ok ke"
    and "verifyHostKey ke (known_hosts_file pe awpDir) windows h key notify s = (r, s')"
  shows "storage_ok pe awpDir s' \<and> (\<exists>b sent. r = Inr (b, sent) \<and>
     (case known_hosts ke (known_hosts_file pe awpDir) s of
        None \<Rightarrow> \<not> b \<and> s' = s
      | Some m \<Rightarrow> b \<or> m \<noteq> Map.empty \<longrightarrow>
          (\<exists>m'. known_hosts ke (known_hosts_file pe awpDir) s' = Some m' \<and> tofu m h (ke_sha256 ke key) b m')))"
proof -
  have ok: "progress pe \<and> storage_ok pe awpDir s" using assms by blast
  note ref = kh.verify_refines [OF ok assms(3,4)]
  show ?thesis
  proof (cases "known_hosts ke (known_hosts_file pe awpDir) s")
    case None
    with ref show ?thesis by auto
  next
    case (Some m)
    with ref show ?thesis by (cases "m h") (auto simp: tofu_def)
  qed
qed

theorem verify_refines_tofu_witness:
  "\<exists>m. known_hosts demo_known (known_hosts_file demo_storage ''/u'') demo_pstore = Some m \<and> m demo_host = Some demo_fp
       \<and> tofu m demo_host (ke_sha256 demo_known (demo_key (CHR ''k''))) True m"
proof -
  have k: "known_hosts demo_known (known_hosts_file demo_storage ''/u'') demo_pstore = Some [demo_host \<mapsto> demo_fp]"
    by (simp add: known_hosts_def demo_load store_of_def)
  have v: "verifyHostKey demo_known (known_hosts_file demo_storage ''/u'') [] demo_host (demo_key (CHR ''k'')) None demo_pstore = (Inr (True, []), demo_pstore)"
    by (rule demo_host_verified) (simp_all add: demo_key_def)
  from verify_refines_tofu [OF demo_progress demo_ok demo_codec v] k show ?thesis by auto
qed

text \<open>
  Clearing a known host removes exactly that entry: it answers 1 and the store loads
  without the entry, or 0 and nothing has changed because there was none, or it throws
  and the store loads as before.
\<close>

theorem clear_removes_exactly_one:
  assumes "progress pe" "storage_ok pe awpDir s" "codec_ok ke"
    and "known_hosts ke (known_hosts_file pe awpDir) s = Some m"
    and "clearKnownHost ke (known_hosts_file pe awpDir) h s = (r, s')"
  shows "case r of
      Inr n \<Rightarrow> (n = 0 \<and> s' = s \<and> m h = None)
             \<or> (n = 1 \<and> m h \<noteq> None \<and> known_hosts ke (known_hosts_file pe awpDir) s' = Some (m(h := None)))
    | Inl _ \<Rightarrow> known_hosts ke (known_hosts_file pe awpDir) s' = Some m"
  using kh.clear_refines [OF _ assms(3,4,5)] assms(1,2) by blast

theorem clear_removes_exactly_one_witness:
  "known_hosts demo_known (known_hosts_file demo_storage ''/u'') demo_pstore = Some [demo_host \<mapsto> demo_fp]
   \<and> (\<exists>r s'. clearKnownHost demo_known (known_hosts_file demo_storage ''/u'') demo_host demo_pstore = (r, s')
        \<and> (\<forall>n. r = Inr n \<longrightarrow> n = 1 \<and> known_hosts demo_known (known_hosts_file demo_storage ''/u'') s' = Some Map.empty))"
proof -
  have k: "known_hosts demo_known (known_hosts_file demo_storage ''/u'') demo_pstore = Some [demo_host \<mapsto> demo_fp]"
    by (simp add: known_hosts_def demo_load store_of_def)
  obtain r s' where run: "clearKnownHost demo_known (known_hosts_file demo_storage ''/u'') demo_host demo_pstore = (r, s')" by fastforce
  from clear_removes_exactly_one [OF demo_progress demo_ok demo_codec k run] k run show ?thesis by auto
qed





end
