(* ===== verification/ServiceUrl.thy ===== *)
theory ServiceUrl
  imports NavigationPolicy Json
begin

text \<open>
  The origin policy of the network clients (\<open>src/utils/service-base-url.ts\<close>), the demo
  token (\<open>src/api/demo-auth.ts\<close>) and the common headers (\<open>src/api/buildCommonHeaders.ts\<close>)
  of the renderer.  The URL parser is the runtime's; what Vite and the preload script put
  into the window are fields of a record.
\<close>

section \<open>Service bases\<close>

definition MAX_SERVICE_BASE_URL_LENGTH :: nat where
  "MAX_SERVICE_BASE_URL_LENGTH = 2048"

text \<open>\<open>/[\s\u0000-\u001f\u007f\\%]/u\<close> on one character.\<close>

definition bad_service_char :: "char \<Rightarrow> bool" where
  "bad_service_char c = (is_ws c \<or> is_control c \<or> c = CHR 0x5C \<or> c = CHR ''%'')"

text \<open>\<open>/^(https?):\/\/([^/]+)/iu\<close>: the scheme, the authority and what follows it.\<close>

definition split_service_url :: "string \<Rightarrow> (string \<times> string \<times> string) option" where
  "split_service_url raw =
     (let n = (if starts_with (ascii_lower raw) ''https://'' then 5 else if starts_with (ascii_lower raw) ''http://'' then 4 else 0);
          rest = drop (n + 3) raw; authority = takeWhile (\<lambda>c. c \<noteq> CHR ''/'') rest
      in if n = 0 \<or> authority = [] then None
         else Some (take n raw, authority, dropWhile (\<lambda>c. c \<noteq> CHR ''/'') rest))"

definition explicit_loopback :: "string \<Rightarrow> bool" where
  "explicit_loopback authority =
     (host_then_port ''localhost'' (ascii_lower authority) \<or> host_then_port ''127.0.0.1'' authority
      \<or> host_then_port ''[::1]'' authority)"

definition normalizeServiceBaseUrl :: "runtime \<Rightarrow> string \<Rightarrow> string option" where
  "normalizeServiceBaseUrl rt raw =
     (if raw = [] \<or> MAX_SERVICE_BASE_URL_LENGTH < length raw then None
      else if raw \<noteq> trim raw \<or> list_ex bad_service_char raw then None
      else case split_service_url raw of
        None \<Rightarrow> None
      | Some (_, authority, tail) \<Rightarrow>
          if tail \<noteq> [] \<and> tail \<noteq> ''/'' then None
          else case new_URL rt raw of
            None \<Rightarrow> None
          | Some parsed \<Rightarrow>
              if url_protocol parsed \<noteq> ''http:'' \<and> url_protocol parsed \<noteq> ''https:'' then None
              else if url_username parsed \<noteq> [] \<or> url_password parsed \<noteq> [] \<or> url_search parsed \<noteq> [] \<or> url_hash parsed \<noteq> [] then None
              else if url_pathname parsed \<noteq> ''/'' then None
              else if url_port parsed \<noteq> []
                \<and> (\<not> (length (url_port parsed) \<le> 5 \<and> list_all is_digit (url_port parsed)) \<or> digits_val 0 (url_port parsed) < 1) then None
              else if url_protocol parsed = ''http:'' \<and> \<not> explicit_loopback authority then None
              else Some (url_origin parsed))"

text \<open>\<open>label.replace(/[^a-z0-9]+/giu, '_')\<close>; the flag says that the previous character was replaced.\<close>

fun label_words :: "bool \<Rightarrow> string \<Rightarrow> string" where
  "label_words inRun [] = []"
| "label_words inRun (c # cs) =
     (if is_alnum c then c # label_words False cs
      else if inRun then label_words True cs else CHR ''_'' # label_words True cs)"

definition requireServiceBaseUrl :: "runtime \<Rightarrow> string \<Rightarrow> string \<Rightarrow> string result" where
  "requireServiceBaseUrl rt raw label =
     (case normalizeServiceBaseUrl rt raw of
        None \<Rightarrow> Inl (Thrown (''invalid_'' @ to_lower (label_words False label)))
      | Some base \<Rightarrow> Inr base)"

definition normalizeServiceEndpointUrl :: "runtime \<Rightarrow> string \<Rightarrow> string option" where
  "normalizeServiceEndpointUrl rt raw =
     (if raw = [] \<or> MAX_SERVICE_BASE_URL_LENGTH < length raw then None
      else if raw \<noteq> trim raw \<or> list_ex bad_service_char raw then None
      else case split_service_url raw of
        None \<Rightarrow> None
      | Some (scheme, authority, _) \<Rightarrow>
          (case normalizeServiceBaseUrl rt (scheme @ ''://'' @ authority) of
             None \<Rightarrow> None
           | Some origin \<Rightarrow>
               (case new_URL rt raw of
                  None \<Rightarrow> None
                | Some parsed \<Rightarrow>
                    if url_origin parsed \<noteq> origin \<or> url_username parsed \<noteq> [] \<or> url_password parsed \<noteq> [] \<or> url_hash parsed \<noteq> [] then None
                    else if \<not> starts_with (url_pathname parsed) ''/'' \<or> starts_with (url_pathname parsed) ''//'' then None
                    else Some (url_href parsed))))"

section \<open>The demo token\<close>

type_synonym headers = "(string \<times> string) list"

record window_env =
  we_demo_token :: "string option"
  we_vite_demo_token :: "string option"
  we_demo_origin :: "string option"
  we_vite_demo_origin :: "string option"
  we_hosted_auth :: bool
  we_cc_runtime_available :: bool
  we_global_version :: "string option"
  we_define_version :: "string option"

definition DEMO_TOKEN_HEADER :: string where
  "DEMO_TOKEN_HEADER = ''X-AWP-Demo-Token''"

definition DEMO_TOKEN_PATTERN :: "string \<Rightarrow> bool" where
  "DEMO_TOKEN_PATTERN v = (length v = 43 \<and> list_all (\<lambda>c. is_alnum c \<or> c = CHR ''_'' \<or> c = CHR ''-'') v)"

definition STATIC_DEMO_PATHS :: "string list" where
  "STATIC_DEMO_PATHS =
     [''/api/health'', ''/v1/health/ready'', ''/v1/maintenance'', ''/v1/changelog'', ''/api/chat/models'', ''/v1/chat/history'',
      ''/v1/chat/completions'', ''/v1/chat/upload'', ''/v1/chat/artifacts'', ''/v1/activity/events'', ''/v1/activity/stream'',
      ''/v1/auth/validate'', ''/v1/auth/login'', ''/v1/auth/register'', ''/v1/auth/logout'']"

definition isDemoApiPath :: "string \<Rightarrow> bool" where
  "isDemoApiPath pathname =
     (pathname \<in> set STATIC_DEMO_PATHS
      \<or> (starts_with pathname ''/v1/chat/history/''
         \<and> (case split_char (CHR ''/'') (drop 17 pathname) of
               [x] \<Rightarrow> x \<noteq> []
             | [x, y] \<Rightarrow> x \<noteq> [] \<and> y = ''messages''
             | _ \<Rightarrow> False))
      \<or> (starts_with pathname ''/v1/chat/artifacts/''
         \<and> (case split_char (CHR ''/'') (drop 19 pathname) of [x, y] \<Rightarrow> x \<noteq> [] \<and> y = ''download'' | _ \<Rightarrow> False)))"

definition isSemanticLoopbackHttpUrl :: "runtime \<Rightarrow> string \<Rightarrow> bool" where
  "isSemanticLoopbackHttpUrl rt v =
     (if v = [] \<or> v \<noteq> trim v \<or> str_includes v [CHR 0x5C] \<or> list_ex is_control v then False
      else case new_URL rt v of
        None \<Rightarrow> False
      | Some parsed \<Rightarrow>
          if url_protocol parsed \<notin> {''http:'', ''https:''} \<or> url_username parsed \<noteq> [] \<or> url_password parsed \<noteq> [] then False
          else to_lower (url_hostname parsed) \<in> {''localhost'', ''127.0.0.1'', ''[::1]''})"

definition readDemoToken :: "window_env \<Rightarrow> string" where
  "readDemoToken we =
     (case we_demo_token we of
        Some b \<Rightarrow> if DEMO_TOKEN_PATTERN b then b
                  else (case we_vite_demo_token we of Some v \<Rightarrow> if DEMO_TOKEN_PATTERN v then v else [] | None \<Rightarrow> [])
      | None \<Rightarrow> (case we_vite_demo_token we of Some v \<Rightarrow> if DEMO_TOKEN_PATTERN v then v else [] | None \<Rightarrow> []))"

definition loopback_origin :: "runtime \<Rightarrow> string option \<Rightarrow> string option" where
  "loopback_origin rt v =
     (case v of
        Some o1 \<Rightarrow> if isSemanticLoopbackHttpUrl rt o1 then map_option url_origin (new_URL rt o1) else None
      | None \<Rightarrow> None)"

definition readDemoOrigin :: "runtime \<Rightarrow> window_env \<Rightarrow> string" where
  "readDemoOrigin rt we =
     (case loopback_origin rt (we_demo_origin we) of
        Some o1 \<Rightarrow> o1
      | None \<Rightarrow> (case loopback_origin rt (we_vite_demo_origin we) of Some o1 \<Rightarrow> o1 | None \<Rightarrow> []))"

definition withDemoAuthHeaders :: "runtime \<Rightarrow> window_env \<Rightarrow> string \<Rightarrow> headers \<Rightarrow> headers" where
  "withDemoAuthHeaders rt we destUrl input =
     (let token = readDemoToken we; demoOrigin = readDemoOrigin rt we;
          hs = filter (\<lambda>h. to_lower (fst h) \<noteq> to_lower DEMO_TOKEN_HEADER) input
      in if \<not> DEMO_TOKEN_PATTERN token \<or> \<not> isSemanticLoopbackHttpUrl rt demoOrigin \<or> \<not> isSemanticLoopbackHttpUrl rt destUrl then hs
         else case (new_URL rt destUrl, new_URL rt demoOrigin) of
                (Some target, Some expected) \<Rightarrow>
                  if url_origin target = url_origin expected \<and> isDemoApiPath (url_pathname target)
                  then set_entry DEMO_TOKEN_HEADER token hs else hs
              | _ \<Rightarrow> hs)"

section \<open>Common headers\<close>

definition resolveVersion :: "window_env \<Rightarrow> string" where
  "resolveVersion we =
     (case we_global_version we of
        Some (c # cs) \<Rightarrow> c # cs
      | _ \<Rightarrow> (case we_define_version we of Some (c # cs) \<Rightarrow> c # cs | _ \<Rightarrow> ''unknown''))"

definition buildCapabilities :: "window_env \<Rightarrow> string" where
  "buildCapabilities we = (if we_cc_runtime_available we then ''cc-on-desktop'' else [])"

definition buildCommonHeaders :: "window_env \<Rightarrow> string \<Rightarrow> headers" where
  "buildCommonHeaders we token =
     (let h = [(''X-AgentWorkflowPlatform-Client-Version'', resolveVersion we)];
          h' = (if buildCapabilities we \<noteq> [] then set_entry ''X-AgentWorkflowPlatform-Capabilities'' (buildCapabilities we) h else h)
      in if token \<noteq> [] then set_entry ''Authorization'' (''Bearer '' @ token) h' else h')"

text \<open>\<open>Object.assign(h, extra)\<close> and object spread.\<close>

definition assign :: "headers \<Rightarrow> headers \<Rightarrow> headers" where
  "assign h extra = fold (\<lambda>(k, v) acc. set_entry k v acc) extra h"

section \<open>What the policy lets through\<close>

lemma service_base_cases:
  assumes "normalizeServiceBaseUrl rt raw = Some base"
  shows "\<exists>scheme authority tail parsed. split_service_url raw = Some (scheme, authority, tail) \<and> tail \<in> {[], ''/''}
     \<and> new_URL rt raw = Some parsed \<and> base = url_origin parsed \<and> url_username parsed = [] \<and> url_password parsed = []
     \<and> url_search parsed = [] \<and> url_hash parsed = [] \<and> url_pathname parsed = ''/''
     \<and> (url_protocol parsed = ''https:'' \<or> url_protocol parsed = ''http:'' \<and> explicit_loopback authority)"
  using assms by (auto simp: normalizeServiceBaseUrl_def split: if_splits option.splits prod.splits)

lemma demo_header_removed:
  "(k, v) \<in> set (filter (\<lambda>h. to_lower (fst h) \<noteq> to_lower DEMO_TOKEN_HEADER) input) \<Longrightarrow> to_lower k \<noteq> to_lower DEMO_TOKEN_HEADER"
  by simp

lemma demo_header_only_for_demo:
  assumes "(k, v) \<in> set (withDemoAuthHeaders rt we target input)" "to_lower k = to_lower DEMO_TOKEN_HEADER"
  shows "v = readDemoToken we \<and> isSemanticLoopbackHttpUrl rt target
    \<and> (\<exists>t d. new_URL rt target = Some t \<and> new_URL rt (readDemoOrigin rt we) = Some d \<and> url_origin t = url_origin d
          \<and> isDemoApiPath (url_pathname t))"
  using assms set_entry_subset [of DEMO_TOKEN_HEADER "readDemoToken we" "filter (\<lambda>h. to_lower (fst h) \<noteq> to_lower DEMO_TOKEN_HEADER) input"]
  by (auto simp: withDemoAuthHeaders_def Let_def split: if_splits option.splits)

end
