(* ===== verification/ApiClient.thy ===== *)
theory ApiClient
  imports ServiceUrl
begin

text \<open>
  The renderer's HTTP client (\<open>src/api/client.ts\<close>), the guard against repeated handling of
  a stale token (\<open>src/api/authStaleCoordinator.ts\<close>) and the part of the auth store that a
  rejected token reaches (\<open>src/stores/auth.ts\<close>).

  A call of \<open>request\<close> is cut at its awaits: it begins, it sends an attempt, it receives the
  outcome of \<open>fetch\<close>, and it may wait before the next attempt.  Between any two of these
  the rest of the renderer runs: the base URL, the token and other requests may change.
\<close>

section \<open>Errors and responses\<close>

record ApiError =
  ae_status :: nat
  ae_code :: string
  ae_detail :: string
  ae_retryAfter :: "string option"

fun first_string :: "jsval list \<Rightarrow> string option" where
  "first_string [] = None"
| "first_string (Str s # vs) = Some s"
| "first_string (_ # vs) = first_string vs"

text \<open>The \<open>detail\<close> the constructor picks: an object under \<open>error\<close> is looked into.\<close>

definition error_detail :: "nat \<Rightarrow> jsval \<Rightarrow> string" where
  "error_detail status b =
     (let e = field b ''error''
      in case first_string ([field b ''detail'', field b ''message'', e]
                @ (if is_object e then [field e ''detail'', field e ''message''] else [])) of
           Some s \<Rightarrow> s
         | None \<Rightarrow> ''HTTP '' @ print_nat status)"

definition error_code :: "jsval \<Rightarrow> string" where
  "error_code b =
     (case (field b ''error_type'', field b ''code'') of
        (Str (c # cs), _) \<Rightarrow> c # cs
      | (_, Str (c # cs)) \<Rightarrow> c # cs
      | _ \<Rightarrow> ''unknown'')"

definition new_ApiError :: "nat \<Rightarrow> jsval \<Rightarrow> ApiError" where
  "new_ApiError status body =
     \<lparr>ae_status = status, ae_code = error_code body, ae_detail = error_detail status body, ae_retryAfter = None\<rparr>"

record RequestOptions =
  ro_timeout :: "nat option"
  ro_silent :: bool
  ro_headers :: headers

text \<open>A response: its body as JSON when it parses.  Reading a body uses it up, so a second reading fails.\<close>

record response =
  rp_status :: nat
  rp_json :: "jsval option"
  rp_retryAfter :: "string option"

datatype fetch_outcome = FetchAborted | FetchFailed | FetchResponse response

datatype outcome = Resolved jsval | ResolvedBlob | Rejected ApiError | Threw string

definition rp_ok :: "response \<Rightarrow> bool" where
  "rp_ok res = (200 \<le> rp_status res \<and> rp_status res \<le> 299)"

section \<open>State\<close>

record client =
  ac_baseUrl :: string
  ac_token :: string
  ac_csrfToken :: string

record sent =
  sn_id :: nat
  sn_method :: string
  sn_url :: string
  sn_headers :: headers
  sn_body :: "string option"

datatype toast = ToastError string | ToastWarning string

text \<open>
  The renderer: the client, the stale-token guard with its timer, the connection flag of a
  bound store, the token and user of the auth store, what safe storage and local storage
  hold, and logs of toasts, redirections to the login page, reloads of the user's stores
  and requests.
\<close>

record renderer =
  rd_client :: client
  rd_claimed :: bool
  rd_resetTimer :: bool
  rd_connected :: "bool option"
  rd_authToken :: string
  rd_authUser :: "(string \<times> string) option"
  rd_credentials :: "string \<rightharpoonup> string"
  rd_localStorage :: "string \<rightharpoonup> string"
  rd_toasts :: "toast list"
  rd_logins :: nat
  rd_reloads :: nat
  rd_sent :: "sent list"
  rd_nextId :: nat

text \<open>\<open>t\<close> and the sanitizer of messages, and whether the toast store exists yet.\<close>

record api_env =
  ev_runtime :: runtime
  ev_window :: window_env
  ev_t :: "string \<Rightarrow> string \<Rightarrow> string"
  ev_sanitize :: "string \<Rightarrow> string"
  ev_toastReady :: bool

abbreviation upd_client :: "(client \<Rightarrow> client) \<Rightarrow> renderer \<Rightarrow> renderer" where
  "upd_client f r \<equiv> r\<lparr>rd_client := f (rd_client r)\<rparr>"

section \<open>The stale-token guard\<close>

definition AUTH_STALE_DEBOUNCE_MS :: nat where
  "AUTH_STALE_DEBOUNCE_MS = 15000"

definition tryClaimAuthStale :: "renderer \<Rightarrow> bool \<times> renderer" where
  "tryClaimAuthStale r =
     (if rd_claimed r then (False, r) else (True, r\<lparr>rd_claimed := True, rd_resetTimer := True\<rparr>))"

definition stale_timer :: "renderer \<Rightarrow> renderer" where
  "stale_timer r = (if rd_resetTimer r then r\<lparr>rd_claimed := False, rd_resetTimer := False\<rparr> else r)"

definition resetAuthStale :: "renderer \<Rightarrow> renderer" where
  "resetAuthStale r = r\<lparr>rd_claimed := False, rd_resetTimer := False\<rparr>"

section \<open>The auth store\<close>

definition setToken :: "string \<Rightarrow> renderer \<Rightarrow> renderer" where
  "setToken token = upd_client (ac_token_update (\<lambda>_. token))"

definition setCsrfToken :: "string \<Rightarrow> renderer \<Rightarrow> renderer" where
  "setCsrfToken csrf = upd_client (ac_csrfToken_update (\<lambda>_. csrf))"

definition clearAuth :: "renderer \<Rightarrow> renderer" where
  "clearAuth r =
     (setToken [] (r\<lparr>rd_authToken := [], rd_authUser := None\<rparr>))
       \<lparr>rd_credentials := (rd_credentials r)(''auth_token'' := None, ''token'' := None),
        rd_localStorage := (rd_localStorage r)(''awp_token'' := None, ''awp_customer_id'' := None, ''awp_email'' := None, ''awp_password'' := None),
        rd_reloads := Suc (rd_reloads r)\<rparr>"

definition handleUnauthorized :: "api_env \<Rightarrow> renderer \<Rightarrow> renderer" where
  "handleUnauthorized ev r = (if \<not> we_hosted_auth (ev_window ev) then r else clearAuth r)"

section \<open>Toasts\<close>

definition setOffline :: "renderer \<Rightarrow> renderer" where
  "setOffline r = (case rd_connected r of None \<Rightarrow> r | Some _ \<Rightarrow> r\<lparr>rd_connected := Some False\<rparr>)"

definition add_toast :: "toast \<Rightarrow> renderer \<Rightarrow> renderer" where
  "add_toast x r = r\<lparr>rd_toasts := rd_toasts r @ [x]\<rparr>"

definition stale_login :: "api_env \<Rightarrow> renderer \<Rightarrow> renderer" where
  "stale_login ev r =
     (if \<not> we_hosted_auth (ev_window ev) then r
      else case tryClaimAuthStale r of
             (False, r1) \<Rightarrow> r1
           | (True, r1) \<Rightarrow>
               let r2 = clearAuth (add_toast (ToastError (ev_t ev ''api.loginExpired'' [])) r1) in r2\<lparr>rd_logins := Suc (rd_logins r2)\<rparr>)"

definition status_toast :: "api_env \<Rightarrow> ApiError \<Rightarrow> toast option" where
  "status_toast ev err =
     (let st = ae_status err; detail = ae_detail err
      in if st = 403 then Some (ToastError (ev_t ev ''api.forbidden'' []))
         else if st = 404 then None
         else if st = 408 then Some (ToastError (ev_t ev ''api.requestTimeout'' []))
         else if st = 422 then Some (ToastError (ev_t ev ''api.badRequest'' (ev_sanitize ev detail)))
         else if st = 429 then Some (ToastWarning (ev_t ev ''api.tooManyRequests'' []))
         else if st = 500 then Some (ToastError (ev_t ev ''api.serverError'' []))
         else if st = 502 then Some (ToastError (ev_t ev ''api.badGateway'' []))
         else if st = 503 then Some (ToastError (ev_t ev ''api.serviceUnavailable'' []))
         else if 500 \<le> st then Some (ToastError (ev_t ev ''api.serverErrorWithStatus'' (print_nat st)))
         else if 400 \<le> st then
           (let safe = (if detail \<noteq> [] then ev_sanitize ev detail else [])
            in Some (ToastError (if safe \<noteq> [] then safe else ev_t ev ''api.requestFailedWithStatus'' (print_nat st))))
         else None)"

definition handleErrorStatus :: "api_env \<Rightarrow> ApiError \<Rightarrow> bool \<Rightarrow> renderer \<Rightarrow> renderer" where
  "handleErrorStatus ev err silent r =
     (if silent \<or> \<not> ev_toastReady ev then r
      else if ae_status err = 0 then r
      else if ae_status err = 401 then stale_login ev r
      else case status_toast ev err of None \<Rightarrow> r | Some x \<Rightarrow> add_toast x r)"

section \<open>The client\<close>

definition setBaseUrl :: "api_env \<Rightarrow> string \<Rightarrow> renderer \<Rightarrow> unit result \<times> renderer" where
  "setBaseUrl ev u r =
     (let c = rd_client r
      in case normalizeServiceBaseUrl (ev_runtime ev) u of
           None \<Rightarrow> (Inl (Thrown ''invalid_service_base''), r\<lparr>rd_client := \<lparr>ac_baseUrl = [], ac_token = [], ac_csrfToken = []\<rparr>\<rparr>)
         | Some normalized \<Rightarrow>
             (Inr (), r\<lparr>rd_client :=
                (if ac_baseUrl c \<noteq> [] \<and> ac_baseUrl c \<noteq> normalized
                 then \<lparr>ac_baseUrl = normalized, ac_token = [], ac_csrfToken = []\<rparr> else c\<lparr>ac_baseUrl := normalized\<rparr>)\<rparr>))"

definition credential_headers :: "client \<Rightarrow> headers \<Rightarrow> headers" where
  "credential_headers c h =
     (let h1 = (if ac_token c \<noteq> [] then set_entry ''Authorization'' (''Bearer '' @ ac_token c) h else h)
      in if ac_csrfToken c \<noteq> [] then set_entry ''X-CSRF-Token'' (ac_csrfToken c) h1 else h1)"

definition buildHeaders :: "api_env \<Rightarrow> client \<Rightarrow> string \<Rightarrow> headers \<Rightarrow> headers" where
  "buildHeaders ev c destUrl extra =
     withDemoAuthHeaders (ev_runtime ev) (ev_window ev) destUrl
       (assign (credential_headers c
          (assign [(''Content-Type'', ''application/json''), (''Accept'', ''application/json'')]
             (buildCommonHeaders (ev_window ev) (ac_token c)))) extra)"

text \<open>\<open>new URLSearchParams(params).toString()\<close>\<close>

definition form_byte :: "nat \<Rightarrow> string" where
  "form_byte n =
     (let c = char_of n
      in if is_alnum c \<or> c \<in> set ''*-._'' then [c]
         else if c = CHR '' '' then ''+''
         else CHR ''%'' # map (\<lambda>d. if d < 10 then char_of (48 + d) else char_of (55 + d)) [n div 16, n mod 16])"

definition form_encode :: "string \<Rightarrow> string" where
  "form_encode s =
     concat (map (\<lambda>c. if code c < 128 then form_byte (code c) else form_byte (192 + code c div 64) @ form_byte (128 + code c mod 64)) s)"

fun form_query :: "(string \<times> string) list \<Rightarrow> string" where
  "form_query [] = []"
| "form_query [(k, v)] = form_encode k @ ''='' @ form_encode v"
| "form_query ((k, v) # ps) = form_encode k @ ''='' @ form_encode v @ ''&'' @ form_query ps"

definition request_url :: "string \<Rightarrow> string \<Rightarrow> (string \<times> string) list \<Rightarrow> string" where
  "request_url base p params = base @ p @ (let qs = form_query params in if qs \<noteq> [] then ''?'' @ qs else [])"

section \<open>Retries\<close>

definition RETRYABLE_STATUS :: "nat list" where
  "RETRYABLE_STATUS = [429, 500, 502, 503]"

definition MAX_RETRIES :: nat where "MAX_RETRIES = 3"
definition BASE_DELAY_MS :: rat where "BASE_DELAY_MS = 1000"
definition DEFAULT_TIMEOUT_MS :: nat where "DEFAULT_TIMEOUT_MS = 30000"

text \<open>The last argument is \<open>Math.random()\<close>.\<close>

definition getRetryDelay :: "nat \<Rightarrow> string option \<Rightarrow> rat \<Rightarrow> rat" where
  "getRetryDelay attempt retryAfterHeader random =
     (let backoff = min (BASE_DELAY_MS * 2 ^ attempt + random * BASE_DELAY_MS * (1 / 2)) 30000
      in case retryAfterHeader of
           Some (c # cs) \<Rightarrow>
             (case js_Number (c # cs) of
                Fin secs \<Rightarrow> if 0 < secs then min (secs * 1000) 60000 else backoff
              | PosInfinity \<Rightarrow> 60000
              | _ \<Rightarrow> backoff)
         | _ \<Rightarrow> backoff)"

section \<open>JSON requests\<close>

record pending =
  pd_id :: nat
  pd_method :: string
  pd_url :: string
  pd_body :: "jsval option"
  pd_headers :: headers
  pd_silent :: bool
  pd_timeout :: nat
  pd_attempt :: nat
  pd_last :: "ApiError option"

definition local_error :: "nat \<Rightarrow> string \<Rightarrow> string \<Rightarrow> ApiError" where
  "local_error status errorType detail =
     new_ApiError status (Obj [(''error_type'', Str errorType), (''detail'', Str detail)])"

definition fail_with :: "api_env \<Rightarrow> ApiError \<Rightarrow> bool \<Rightarrow> renderer \<Rightarrow> (outcome + 'a) \<times> renderer" where
  "fail_with ev err silent r = (Inl (Rejected err), handleErrorStatus ev err silent r)"

definition offline_guard :: "api_env \<Rightarrow> bool \<Rightarrow> renderer \<Rightarrow> (outcome + 'a) \<times> renderer" where
  "offline_guard ev silent r = fail_with ev (local_error 0 ''OFFLINE'' (ev_t ev ''api.offline'' [])) silent (setOffline r)"

definition request_begin ::
  "api_env \<Rightarrow> bool \<Rightarrow> string \<Rightarrow> string \<Rightarrow> jsval option \<Rightarrow> (string \<times> string) list \<Rightarrow> RequestOptions \<Rightarrow> renderer
     \<Rightarrow> (outcome + pending) \<times> renderer" where
  "request_begin ev isOffline method p body params opts r =
     (if isOffline then offline_guard ev (ro_silent opts) r
      else if ac_baseUrl (rd_client r) = [] then (Inl (Threw ''service_base_not_configured''), r)
      else
        (Inr \<lparr>pd_id = rd_nextId r, pd_method = method, pd_url = request_url (ac_baseUrl (rd_client r)) p params, pd_body = body,
              pd_headers = ro_headers opts, pd_silent = ro_silent opts,
              pd_timeout = (case ro_timeout opts of Some n \<Rightarrow> n | None \<Rightarrow> DEFAULT_TIMEOUT_MS), pd_attempt = 0, pd_last = None\<rparr>,
         r\<lparr>rd_nextId := Suc (rd_nextId r)\<rparr>))"

text \<open>The call of \<open>fetch\<close> in one round of the loop: the headers are built from the client as it is now.\<close>

definition request_send :: "api_env \<Rightarrow> pending \<Rightarrow> renderer \<Rightarrow> renderer" where
  "request_send ev pd r =
     r\<lparr>rd_sent := rd_sent r @
        [\<lparr>sn_id = pd_id pd, sn_method = pd_method pd, sn_url = pd_url pd,
          sn_headers = buildHeaders ev (rd_client r) (pd_url pd) (pd_headers pd), sn_body = map_option JSON_stringify (pd_body pd)\<rparr>]\<rparr>"

definition fetch_error :: "api_env \<Rightarrow> fetch_outcome \<Rightarrow> nat \<Rightarrow> bool \<Rightarrow> renderer \<Rightarrow> (outcome + 'a) \<times> renderer" where
  "fetch_error ev fo timeoutMs silent r =
     (if fo = FetchAborted
      then fail_with ev (local_error 408 ''TIMEOUT'' (ev_t ev ''api.requestTimeoutWithMs'' (print_nat timeoutMs))) silent r
      else fail_with ev (local_error 0 ''NETWORK_ERROR'' (ev_t ev ''api.networkError'' [])) silent (setOffline r))"

definition response_error :: "response \<Rightarrow> ApiError" where
  "response_error res =
     (let err = new_ApiError (rp_status res) (case rp_json res of Some v \<Rightarrow> v | None \<Rightarrow> Obj [])
      in if rp_status res = 429 then err\<lparr>ae_retryAfter := rp_retryAfter res\<rparr> else err)"

definition response_value :: "response \<Rightarrow> outcome" where
  "response_value res =
     (if rp_status res = 204 then Resolved Undefined
      else case rp_json res of Some v \<Rightarrow> Resolved v | None \<Rightarrow> Threw ''SyntaxError'')"

text \<open>What the loop does with the outcome of an attempt; \<open>Inr\<close> is the next round.\<close>

definition request_receive :: "api_env \<Rightarrow> pending \<Rightarrow> fetch_outcome \<Rightarrow> renderer \<Rightarrow> (outcome + pending) \<times> renderer" where
  "request_receive ev pd fo r =
     (case fo of
        FetchResponse res \<Rightarrow>
          if rp_ok res then (Inl (response_value res), r)
          else
            let err = response_error res
            in if rp_status res = 401 \<or> rp_status res = 403 then
                 (let r1 = handleErrorStatus ev err (pd_silent pd) r
                  in (Inl (Rejected err), if rp_status res = 401 \<and> we_hosted_auth (ev_window ev) then handleUnauthorized ev r1 else r1))
               else if rp_status res \<in> set RETRYABLE_STATUS \<and> pd_attempt pd < MAX_RETRIES
                 then (Inr (pd\<lparr>pd_attempt := Suc (pd_attempt pd), pd_last := Some err\<rparr>), r)
               else fail_with ev err (pd_silent pd) r
      | _ \<Rightarrow> fetch_error ev fo (pd_timeout pd) (pd_silent pd) r)"

text \<open>The wait before a retry.\<close>

definition retry_wait :: "pending \<Rightarrow> rat \<Rightarrow> rat" where
  "retry_wait pd random =
     (case pd_last pd of None \<Rightarrow> 0 | Some e \<Rightarrow> getRetryDelay (pd_attempt pd - 1) (ae_retryAfter e) random)"

section \<open>Uploads and downloads\<close>

definition form_headers :: "api_env \<Rightarrow> client \<Rightarrow> string \<Rightarrow> headers \<Rightarrow> headers" where
  "form_headers ev c destUrl extra =
     withDemoAuthHeaders (ev_runtime ev) (ev_window ev) destUrl
       (filter (\<lambda>h. fst h \<noteq> ''Content-Type'' \<and> fst h \<noteq> ''content-type'')
          (assign (credential_headers c (assign [(''Accept'', ''application/json'')] (buildCommonHeaders (ev_window ev) (ac_token c)))) extra))"

definition send_once :: "nat \<Rightarrow> string \<Rightarrow> string \<Rightarrow> headers \<Rightarrow> string option \<Rightarrow> renderer \<Rightarrow> renderer" where
  "send_once n method u hs body r =
     r\<lparr>rd_sent := rd_sent r @ [\<lparr>sn_id = n, sn_method = method, sn_url = u, sn_headers = hs, sn_body = body\<rparr>],
       rd_nextId := Suc (rd_nextId r)\<rparr>"

text \<open>\<open>postForm\<close> up to the answer; the form itself is opaque.\<close>

definition postForm :: "api_env \<Rightarrow> bool \<Rightarrow> string \<Rightarrow> string \<Rightarrow> RequestOptions \<Rightarrow> renderer \<Rightarrow> (outcome + nat) \<times> renderer" where
  "postForm ev isOffline p form opts r =
     (if isOffline then offline_guard ev (ro_silent opts) r
      else if ac_baseUrl (rd_client r) = [] then (Inl (Threw ''service_base_not_configured''), r)
      else
        let u = ac_baseUrl (rd_client r) @ p
        in (Inr (rd_nextId r), send_once (rd_nextId r) ''POST'' u (form_headers ev (rd_client r) u (ro_headers opts)) (Some form) r))"

definition getBlob ::
  "api_env \<Rightarrow> bool \<Rightarrow> string \<Rightarrow> (string \<times> string) list \<Rightarrow> RequestOptions \<Rightarrow> string \<Rightarrow> renderer \<Rightarrow> (outcome + nat) \<times> renderer" where
  "getBlob ev isOffline p params opts acceptType r =
     (if isOffline then offline_guard ev (ro_silent opts) r
      else if ac_baseUrl (rd_client r) = [] then (Inl (Threw ''service_base_not_configured''), r)
      else
        let u = request_url (ac_baseUrl (rd_client r)) p params;
            extra = assign (if acceptType \<noteq> [] then [(''Accept'', acceptType)] else []) (ro_headers opts)
        in (Inr (rd_nextId r), send_once (rd_nextId r) ''GET'' u (buildHeaders ev (rd_client r) u extra) None r))"

text \<open>The answer to an upload or a download.\<close>

definition single_receive :: "api_env \<Rightarrow> bool \<Rightarrow> nat \<Rightarrow> bool \<Rightarrow> fetch_outcome \<Rightarrow> renderer \<Rightarrow> (outcome + unit) \<times> renderer" where
  "single_receive ev blob timeoutMs silent fo r =
     (case fo of
        FetchResponse res \<Rightarrow>
          if rp_ok res then (Inl (if blob then ResolvedBlob else response_value res), r)
          else
            let err = (response_error res)\<lparr>ae_retryAfter := None\<rparr>; r1 = handleErrorStatus ev err silent r
            in (Inl (Rejected err), if rp_status res = 401 \<and> we_hosted_auth (ev_window ev) then handleUnauthorized ev r1 else r1)
      | _ \<Rightarrow> fetch_error ev fo timeoutMs silent r)"

section \<open>Interleavings\<close>

datatype flight = Fetching pending | Delaying pending | Single nat bool bool

fun flight_id :: "flight \<Rightarrow> nat" where
  "flight_id (Fetching pd) = pd_id pd"
| "flight_id (Delaying pd) = pd_id pd"
| "flight_id (Single n _ _) = n"

record api_world =
  aw_renderer :: renderer
  aw_flights :: "flight list"
  aw_released :: nat

text \<open>\<open>aw_released\<close> counts how often the stale-token guard was released.\<close>

inductive api_step :: "api_env \<Rightarrow> api_world \<Rightarrow> api_world \<Rightarrow> bool" for ev :: api_env where
  begin_request: "request_begin ev off m p b ps opts (aw_renderer w) = (Inr pd, r) \<Longrightarrow>
     api_step ev w (w\<lparr>aw_renderer := request_send ev pd r, aw_flights := Fetching pd # aw_flights w\<rparr>)"
| refused_request: "request_begin ev off m p b ps opts (aw_renderer w) = (Inl out, r) \<Longrightarrow> api_step ev w (w\<lparr>aw_renderer := r\<rparr>)"
| finish_request: "aw_flights w = fs @ Fetching pd # gs \<Longrightarrow> request_receive ev pd fo (aw_renderer w) = (Inl out, r) \<Longrightarrow>
     api_step ev w (w\<lparr>aw_renderer := r, aw_flights := fs @ gs\<rparr>)"
| delay_request: "aw_flights w = fs @ Fetching pd # gs \<Longrightarrow> request_receive ev pd fo (aw_renderer w) = (Inr pd', r) \<Longrightarrow>
     api_step ev w (w\<lparr>aw_renderer := r, aw_flights := fs @ Delaying pd' # gs\<rparr>)"
| retry_request: "aw_flights w = fs @ Delaying pd # gs \<Longrightarrow>
     api_step ev w (w\<lparr>aw_renderer := request_send ev pd (aw_renderer w), aw_flights := fs @ Fetching pd # gs\<rparr>)"
| begin_form: "postForm ev off p form opts (aw_renderer w) = (Inr n, r) \<Longrightarrow>
     api_step ev w (w\<lparr>aw_renderer := r, aw_flights := Single n False (ro_silent opts) # aw_flights w\<rparr>)"
| refused_form: "postForm ev off p form opts (aw_renderer w) = (Inl out, r) \<Longrightarrow> api_step ev w (w\<lparr>aw_renderer := r\<rparr>)"
| begin_blob: "getBlob ev off p ps opts a (aw_renderer w) = (Inr n, r) \<Longrightarrow>
     api_step ev w (w\<lparr>aw_renderer := r, aw_flights := Single n True (ro_silent opts) # aw_flights w\<rparr>)"
| refused_blob: "getBlob ev off p ps opts a (aw_renderer w) = (Inl out, r) \<Longrightarrow> api_step ev w (w\<lparr>aw_renderer := r\<rparr>)"
| finish_single: "aw_flights w = fs @ Single n blob silent # gs \<Longrightarrow> single_receive ev blob ms silent fo (aw_renderer w) = (out, r) \<Longrightarrow>
     api_step ev w (w\<lparr>aw_renderer := r, aw_flights := fs @ gs\<rparr>)"
| change_base: "api_step ev w (w\<lparr>aw_renderer := snd (setBaseUrl ev u (aw_renderer w))\<rparr>)"
| change_token: "api_step ev w (w\<lparr>aw_renderer := setToken token (aw_renderer w)\<rparr>)"
| change_csrf: "api_step ev w (w\<lparr>aw_renderer := setCsrfToken csrf (aw_renderer w)\<rparr>)"
| timer_fires: "rd_resetTimer (aw_renderer w) \<Longrightarrow>
     api_step ev w (w\<lparr>aw_renderer := stale_timer (aw_renderer w), aw_released := Suc (aw_released w)\<rparr>)"
| reset_guard: "api_step ev w (w\<lparr>aw_renderer := resetAuthStale (aw_renderer w), aw_released := Suc (aw_released w)\<rparr>)"

inductive_cases api_stepE: "api_step ev w w'"

definition init_renderer :: renderer where
  "init_renderer =
     \<lparr>rd_client = \<lparr>ac_baseUrl = [], ac_token = [], ac_csrfToken = []\<rparr>, rd_claimed = False, rd_resetTimer = False, rd_connected = None,
      rd_authToken = [], rd_authUser = None, rd_credentials = Map.empty, rd_localStorage = Map.empty, rd_toasts = [], rd_logins = 0,
      rd_reloads = 0, rd_sent = [], rd_nextId = 0\<rparr>"

definition init_api :: api_world where
  "init_api = \<lparr>aw_renderer = init_renderer, aw_flights = [], aw_released = 0\<rparr>"

end
