(* ===== verification/ApiProps.thy ===== *)
theory ApiProps
  imports ApiClient
begin

text \<open>
  The HTTP client under every interleaving: how often a request is sent, how often a stale
  token sends the user to the login page, and where the demo token may go; and two runs in
  which credentials of one login reach or lose another.
\<close>

section \<open>What the operations leave alone\<close>

definition login_debt :: "renderer \<Rightarrow> nat" where
  "login_debt r = rd_logins r + (if rd_claimed r then 0 else 1)"

definition frame :: "renderer \<Rightarrow> renderer \<Rightarrow> bool" where
  "frame r r' \<longleftrightarrow> rd_sent r' = rd_sent r \<and> rd_nextId r' = rd_nextId r \<and> login_debt r' = login_debt r"

lemma frame_refl [simp]: "frame r r"
  by (simp add: frame_def)

lemma frame_trans: "frame r r1 \<Longrightarrow> frame r1 r2 \<Longrightarrow> frame r r2"
  by (simp add: frame_def)

lemma frame_ops:
  "frame r (setToken tok r)" "frame r (setCsrfToken csrf r)" "frame r (clearAuth r)" "frame r (handleUnauthorized ev r)"
  "frame r (setOffline r)" "frame r (add_toast x r)" "frame r (snd (setBaseUrl ev u r))"
  by (auto simp: frame_def login_debt_def setToken_def setCsrfToken_def clearAuth_def handleUnauthorized_def setOffline_def add_toast_def
      setBaseUrl_def Let_def split: option.split)

text \<open>
  What the client does to the renderer besides sending: it reports errors, marks the
  connection and drops rejected credentials.  A relation that is respected by these is
  respected by every answer, whatever it is.
\<close>

locale client_footprint =
  fixes related :: "renderer \<Rightarrow> renderer \<Rightarrow> bool"
  assumes related_refl: "related r r"
    and related_trans: "related r r1 \<Longrightarrow> related r1 r2 \<Longrightarrow> related r r2"
    and related_offline: "related r (setOffline r)"
    and related_toast: "related r (add_toast x r)"
    and related_clear: "related r (clearAuth r)"
    and related_stale_login: "related r (stale_login ev r)"
begin

lemma error_status: "related r (handleErrorStatus ev err silent r)"
  by (auto simp: handleErrorStatus_def related_refl related_toast related_stale_login split: option.split)

lemma offline_status: "related r (handleErrorStatus ev err silent (setOffline r))"
  by (rule related_trans [OF related_offline error_status])

lemma unauthorized: "related r (handleUnauthorized ev r)"
  by (simp add: handleUnauthorized_def related_refl related_clear)

lemma unauthorized_status: "related r (handleUnauthorized ev (handleErrorStatus ev err silent r))"
  by (rule related_trans [OF error_status unauthorized])

lemma fetch_failure: "fetch_error ev fo ms silent r = (x, r') \<Longrightarrow> related r r'"
  by (auto simp: fetch_error_def fail_with_def offline_status error_status split: if_splits)

lemma receive: "request_receive ev pd fo r = (x, r') \<Longrightarrow> related r r'"
  using fetch_failure
  by (cases fo) (auto simp: request_receive_def Let_def fail_with_def unauthorized_status error_status related_refl split: if_splits)

lemma single: "single_receive ev blob ms silent fo r = (x, r') \<Longrightarrow> related r r'"
  using fetch_failure
  by (cases fo) (auto simp: single_receive_def Let_def unauthorized_status error_status related_refl split: if_splits)

lemma refused_begin:
  "request_begin ev off m p b ps opts r = (Inl out, r') \<Longrightarrow> related r r'"
  "postForm ev off p form opts r = (Inl out, r') \<Longrightarrow> related r r'"
  "getBlob ev off p ps opts a r = (Inl out, r') \<Longrightarrow> related r r'"
  by (auto simp: request_begin_def postForm_def getBlob_def offline_guard_def fail_with_def offline_status related_refl Let_def split: if_splits)

end

interpretation framed: client_footprint frame
proof unfold_locales
  show "frame r (stale_login ev r)" for r ev
    by (auto simp: frame_def login_debt_def stale_login_def tryClaimAuthStale_def clearAuth_def setToken_def add_toast_def Let_def)
qed (simp_all add: frame_ops, rule frame_trans)

lemmas frame_receive = framed.receive
lemmas frame_single = framed.single
lemmas frame_refused = framed.refused_begin

section \<open>How often a request is sent\<close>

abbreviation sends :: "nat \<Rightarrow> renderer \<Rightarrow> nat" where
  "sends n r \<equiv> length (filter (\<lambda>x. sn_id x = n) (rd_sent r))"

definition same_request :: "pending \<Rightarrow> sent \<Rightarrow> bool" where
  "same_request pd x \<longleftrightarrow> sn_method x = pd_method pd \<and> sn_url x = pd_url pd \<and> sn_body x = map_option JSON_stringify (pd_body pd)"

definition same_target :: "sent \<Rightarrow> sent \<Rightarrow> bool" where
  "same_target x y \<longleftrightarrow> sn_method x = sn_method y \<and> sn_url x = sn_url y \<and> sn_body x = sn_body y"

lemma same_target_sym: "same_target x y \<longleftrightarrow> same_target y x" and same_target_refl [simp]: "same_target x x"
  by (auto simp: same_target_def)

definition log_ok :: "renderer \<Rightarrow> bool" where
  "log_ok r \<longleftrightarrow> (\<forall>x \<in> set (rd_sent r). sn_id x < rd_nextId r) \<and> (\<forall>n. sends n r \<le> 4)
     \<and> (\<forall>x \<in> set (rd_sent r). \<forall>y \<in> set (rd_sent r). sn_id x = sn_id y \<longrightarrow> same_target x y)"

definition sent_all :: "pending \<Rightarrow> nat \<Rightarrow> renderer \<Rightarrow> bool" where
  "sent_all pd n r \<longleftrightarrow> sends (pd_id pd) r = n \<and> pd_attempt pd \<le> MAX_RETRIES
     \<and> (\<forall>x \<in> set (rd_sent r). sn_id x = pd_id pd \<longrightarrow> same_request pd x)"

fun flight_ok :: "renderer \<Rightarrow> flight \<Rightarrow> bool" where
  "flight_ok r (Fetching pd) = sent_all pd (Suc (pd_attempt pd)) r"
| "flight_ok r (Delaying pd) = sent_all pd (pd_attempt pd) r"
| "flight_ok r (Single _ _ _) = True"

definition api_inv :: "api_world \<Rightarrow> bool" where
  "api_inv w \<longleftrightarrow> log_ok (aw_renderer w) \<and> distinct (map flight_id (aw_flights w))
     \<and> (\<forall>f \<in> set (aw_flights w). flight_id f < rd_nextId (aw_renderer w) \<and> flight_ok (aw_renderer w) f)
     \<and> login_debt (aw_renderer w) \<le> Suc (aw_released w)"

lemma flight_ok_frame: "frame r r' \<Longrightarrow> flight_ok r' f = flight_ok r f"
  by (cases f) (simp_all add: sent_all_def frame_def)

lemma log_ok_frame: "frame r r' \<Longrightarrow> log_ok r' = log_ok r"
  by (simp add: log_ok_def frame_def)

lemma api_inv_frame:
  assumes "api_inv w" "frame (aw_renderer w) r" "set fl \<subseteq> set (aw_flights w)" "distinct (map flight_id fl)"
  shows "api_inv (w\<lparr>aw_renderer := r, aw_flights := fl\<rparr>)"
  using assms flight_ok_frame [OF assms(2)] log_ok_frame [OF assms(2)]
  by (auto simp: api_inv_def frame_def)

lemma api_inv_renderer: "api_inv w \<Longrightarrow> frame (aw_renderer w) r \<Longrightarrow> api_inv (w\<lparr>aw_renderer := r\<rparr>)"
  using api_inv_frame [of w r "aw_flights w"] by (simp add: api_inv_def)

lemma api_inv_release:
  assumes "api_inv w" "rd_sent r = rd_sent (aw_renderer w)" "rd_nextId r = rd_nextId (aw_renderer w)" "rd_logins r = rd_logins (aw_renderer w)"
  shows "api_inv (w\<lparr>aw_renderer := r, aw_released := Suc (aw_released w)\<rparr>)"
proof -
  have "flight_ok r f = flight_ok (aw_renderer w) f" for f using assms(2) by (cases f) (simp_all add: sent_all_def)
  moreover have "log_ok r" using assms(1) unfolding api_inv_def log_ok_def assms(2,3) by simp
  moreover have "login_debt r \<le> Suc (login_debt (aw_renderer w))" by (simp add: login_debt_def assms(4))
  ultimately show ?thesis using assms(1) by (simp add: api_inv_def assms(2-4))
qed

text \<open>Sending one more time: the number of a request that is not in flight otherwise.\<close>

lemma flight_ok_send:
  assumes "rd_sent r' = rd_sent r @ [x]" "sn_id x \<noteq> flight_id f" "flight_ok r f"
  shows "flight_ok r' f"
  using assms by (cases f) (auto simp: sent_all_def)

lemma log_ok_send:
  assumes "log_ok r" "rd_sent r' = rd_sent r @ [x]" "rd_nextId r \<le> rd_nextId r'" "sn_id x < rd_nextId r'" "sends (sn_id x) r \<le> 3"
    and "\<forall>y \<in> set (rd_sent r). sn_id y = sn_id x \<longrightarrow> same_target x y"
  shows "log_ok r'"
proof -
  have "sends n r' \<le> 4" for n using assms(1,5) by (auto simp: assms(2) log_ok_def)
  moreover have "\<forall>y \<in> set (rd_sent r'). sn_id y < rd_nextId r'"
    using assms(1,3,4) by (auto simp: assms(2) log_ok_def intro: less_le_trans)
  moreover have "\<forall>y \<in> set (rd_sent r'). \<forall>z \<in> set (rd_sent r'). sn_id y = sn_id z \<longrightarrow> same_target y z"
    using assms(1,6) unfolding assms(2) log_ok_def by (auto simp: same_target_sym)
  ultimately show ?thesis by (simp add: log_ok_def)
qed

lemma api_inv_send:
  assumes "api_inv w" "rd_sent r = rd_sent (aw_renderer w) @ [x]" "rd_nextId (aw_renderer w) \<le> rd_nextId r" "login_debt r = login_debt (aw_renderer w)"
    and "sn_id x < rd_nextId r" "sends (sn_id x) (aw_renderer w) \<le> 3"
    and "\<forall>y \<in> set (rd_sent (aw_renderer w)). sn_id y = sn_id x \<longrightarrow> same_target x y"
    and "set (fs @ gs) \<subseteq> set (aw_flights w)" "distinct (map flight_id (fs @ f # gs))" "flight_id f = sn_id x" "flight_ok r f"
  shows "api_inv (w\<lparr>aw_renderer := r, aw_flights := fs @ f # gs\<rparr>)"
proof -
  have xs: "log_ok r" by (rule log_ok_send [OF _ assms(2,3,5-7)]) (use assms(1) in \<open>simp add: api_inv_def\<close>)
  have "flight_id g < rd_nextId r \<and> flight_ok r g" if "g \<in> set (fs @ gs)" for g
  proof -
    have "flight_id g \<noteq> sn_id x" using that assms(9,10) by (auto simp: image_iff)
    moreover have "flight_id g < rd_nextId (aw_renderer w)" "flight_ok (aw_renderer w) g"
      using that assms(1,8) by (auto simp: api_inv_def)
    ultimately show ?thesis using flight_ok_send [OF assms(2), of g] assms(3) by auto
  qed
  with xs assms show ?thesis by (auto simp: api_inv_def)
qed

lemma response_error_status [simp]: "ae_status (response_error res) = rp_status res"
  by (simp add: response_error_def new_ApiError_def Let_def)

lemma receive_retry:
  assumes "request_receive ev pd fo r = (Inr pd', r')"
  shows "r' = r \<and> pd_attempt pd < MAX_RETRIES \<and> (\<exists>err. ae_status err \<in> set RETRYABLE_STATUS
    \<and> pd' = pd\<lparr>pd_attempt := Suc (pd_attempt pd), pd_last := Some err\<rparr>)"
  using assms
  by (cases fo) (auto simp: request_receive_def fetch_error_def fail_with_def Let_def split: if_splits
      intro: exI [where x = "response_error _"])

lemma sends_new: "log_ok r \<Longrightarrow> sends (rd_nextId r) r = 0"
  by (auto simp: log_ok_def filter_empty_conv)

lemma new_target: "log_ok r \<Longrightarrow> y \<in> set (rd_sent r) \<Longrightarrow> sn_id y \<noteq> rd_nextId r"
  by (auto simp: log_ok_def)

lemma new_distinct: "api_inv w \<Longrightarrow> flight_id f = rd_nextId (aw_renderer w) \<Longrightarrow> distinct (map flight_id ([] @ f # aw_flights w))"
  by (auto simp: api_inv_def)

lemma begin_request_inv:
  assumes "api_inv w" "request_begin ev off m p b ps opts (aw_renderer w) = (Inr pd, r)"
  shows "api_inv (w\<lparr>aw_renderer := request_send ev pd r, aw_flights := Fetching pd # aw_flights w\<rparr>)"
proof -
  have lg: "log_ok (aw_renderer w)" using assms(1) by (simp add: api_inv_def)
  have b: "pd_id pd = rd_nextId (aw_renderer w)" "pd_attempt pd = 0" "r = (aw_renderer w)\<lparr>rd_nextId := Suc (rd_nextId (aw_renderer w))\<rparr>"
    using assms(2) by (auto simp: request_begin_def offline_guard_def fail_with_def split: if_splits)
  have "api_inv (w\<lparr>aw_renderer := request_send ev pd r, aw_flights := [] @ Fetching pd # aw_flights w\<rparr>)"
    using sends_new [OF lg] new_target [OF lg] b
    by (intro api_inv_send [OF assms(1)] new_distinct [OF assms(1)])
       (auto simp: request_send_def login_debt_def sent_all_def same_request_def MAX_RETRIES_def)
  then show ?thesis by simp
qed

lemma begin_single_inv:
  assumes "api_inv w" "r = send_once (rd_nextId (aw_renderer w)) m u hs b (aw_renderer w)"
  shows "api_inv (w\<lparr>aw_renderer := r, aw_flights := Single (rd_nextId (aw_renderer w)) blob silent # aw_flights w\<rparr>)"
proof -
  have lg: "log_ok (aw_renderer w)" using assms(1) by (simp add: api_inv_def)
  have "api_inv (w\<lparr>aw_renderer := r, aw_flights := [] @ Single (rd_nextId (aw_renderer w)) blob silent # aw_flights w\<rparr>)"
    using sends_new [OF lg] new_target [OF lg] assms(2)
    by (intro api_inv_send [OF assms(1)] new_distinct [OF assms(1)]) (auto simp: send_once_def login_debt_def)
  then show ?thesis by simp
qed

lemma retry_request_inv:
  assumes "api_inv w" "aw_flights w = fs @ Delaying pd # gs"
  shows "api_inv (w\<lparr>aw_renderer := request_send ev pd (aw_renderer w), aw_flights := fs @ Fetching pd # gs\<rparr>)"
proof -
  have f: "sent_all pd (pd_attempt pd) (aw_renderer w)" "pd_id pd < rd_nextId (aw_renderer w)" "distinct (map flight_id (fs @ Fetching pd # gs))"
    using assms by (auto simp: api_inv_def)
  show ?thesis
    using f assms(2)
    by (intro api_inv_send [OF assms(1)])
       (auto simp: request_send_def login_debt_def sent_all_def same_request_def same_target_def MAX_RETRIES_def)
qed

lemma delay_request_inv:
  assumes "api_inv w" "aw_flights w = fs @ Fetching pd # gs" "request_receive ev pd fo (aw_renderer w) = (Inr pd', r)"
  shows "api_inv (w\<lparr>aw_renderer := r, aw_flights := fs @ Delaying pd' # gs\<rparr>)"
  using assms(1,2) receive_retry [OF assms(3)]
  by (auto simp: api_inv_def sent_all_def same_request_def)

lemma remove_flight_inv:
  assumes "api_inv w" "aw_flights w = fs @ f # gs" "frame (aw_renderer w) r"
  shows "api_inv (w\<lparr>aw_renderer := r, aw_flights := fs @ gs\<rparr>)"
  by (rule api_inv_frame [OF assms(1,3)]) (use assms(1,2) in \<open>auto simp: api_inv_def\<close>)

lemma api_step_inv: "api_inv w \<Longrightarrow> api_step ev w w' \<Longrightarrow> api_inv w'"
proof -
  assume w: "api_inv w" and step: "api_step ev w w'"
  from step show ?thesis
  proof cases
    case (begin_form off p form opts n r)
    then have "n = rd_nextId (aw_renderer w) \<and> (\<exists>u hs b. r = send_once n ''POST'' u hs b (aw_renderer w))"
      by (auto simp: postForm_def Let_def offline_guard_def fail_with_def split: if_splits)
    with begin_form begin_single_inv [OF w] show ?thesis by auto
  next
    case (begin_blob off p ps opts a n r)
    then have "n = rd_nextId (aw_renderer w) \<and> (\<exists>u hs b. r = send_once n ''GET'' u hs b (aw_renderer w))"
      by (auto simp: getBlob_def Let_def offline_guard_def fail_with_def split: if_splits)
    with begin_blob begin_single_inv [OF w] show ?thesis by auto
  next
    case timer_fires
    then show ?thesis by (auto intro!: api_inv_release [OF w] simp: stale_timer_def)
  next
    case reset_guard
    then show ?thesis by (auto intro!: api_inv_release [OF w] simp: resetAuthStale_def)
  qed (auto intro: begin_request_inv retry_request_inv delay_request_inv remove_flight_inv api_inv_renderer frame_refused frame_receive
        frame_single frame_ops w)
qed

lemma api_inv_init: "api_inv init_api"
  by (simp add: api_inv_def init_api_def init_renderer_def log_ok_def login_debt_def)

interpretation api: step_invariant init_api "api_step ev" api_inv for ev
  by unfold_locales (rule api_inv_init, rule api_step_inv)

section \<open>Delays and bases\<close>

lemma retry_delay_bounds:
  assumes "0 \<le> random" "random < 1"
  shows "0 < getRetryDelay attempt header random \<and> getRetryDelay attempt header random \<le> 60000"
proof -
  have "0 < BASE_DELAY_MS * 2 ^ attempt + random * BASE_DELAY_MS * (1 / 2)"
    using assms by (intro add_pos_nonneg) (simp_all add: BASE_DELAY_MS_def)
  then show ?thesis
    by (auto simp: getRetryDelay_def Let_def split: option.split list.split jsnum.split)
qed

lemma base_change_drops_credentials:
  assumes "setBaseUrl ev u r = (x, r')" "ac_baseUrl (rd_client r) \<noteq> []"
  shows "ac_baseUrl (rd_client r') = ac_baseUrl (rd_client r) \<and> rd_client r' = rd_client r
       \<or> ac_token (rd_client r') = [] \<and> ac_csrfToken (rd_client r') = []"
  using assms by (auto simp: setBaseUrl_def Let_def split: option.splits if_splits)

section \<open>Where the demo token goes\<close>

definition demo_confined :: "api_env \<Rightarrow> sent \<Rightarrow> bool" where
  "demo_confined ev x \<longleftrightarrow>
     (\<forall>(k, v) \<in> set (sn_headers x). to_lower k = to_lower DEMO_TOKEN_HEADER \<longrightarrow>
        v = readDemoToken (ev_window ev) \<and> isSemanticLoopbackHttpUrl (ev_runtime ev) (sn_url x)
        \<and> (\<exists>t d. new_URL (ev_runtime ev) (sn_url x) = Some t
             \<and> new_URL (ev_runtime ev) (readDemoOrigin (ev_runtime ev) (ev_window ev)) = Some d
             \<and> url_origin t = url_origin d \<and> isDemoApiPath (url_pathname t)))"

lemma demo_confined_headers [simp]:
  "demo_confined ev \<lparr>sn_id = n, sn_method = m, sn_url = u, sn_headers = withDemoAuthHeaders (ev_runtime ev) (ev_window ev) u hs, sn_body = b\<rparr>"
  unfolding demo_confined_def using demo_header_only_for_demo by fastforce

lemma demo_confined_send:
  assumes "\<forall>x \<in> set (rd_sent r). demo_confined ev x"
  shows "\<forall>x \<in> set (rd_sent (request_send ev pd r)). demo_confined ev x"
  using assms by (simp add: request_send_def buildHeaders_def)

lemma demo_confined_single:
  "postForm ev off p form opts r = (Inr n, r') \<Longrightarrow> \<forall>x \<in> set (rd_sent r). demo_confined ev x \<Longrightarrow> \<forall>x \<in> set (rd_sent r'). demo_confined ev x"
  "getBlob ev off p ps opts a r = (Inr n, r') \<Longrightarrow> \<forall>x \<in> set (rd_sent r). demo_confined ev x \<Longrightarrow> \<forall>x \<in> set (rd_sent r'). demo_confined ev x"
  by (auto simp: postForm_def getBlob_def send_once_def form_headers_def buildHeaders_def offline_guard_def fail_with_def Let_def
      split: if_splits)

lemma begin_request_sent: "request_begin ev off m p b ps opts r = (Inr pd, r') \<Longrightarrow> rd_sent r' = rd_sent r"
  by (auto simp: request_begin_def offline_guard_def fail_with_def split: if_splits)

lemma frame_sent: "frame r r' \<Longrightarrow> rd_sent r' = rd_sent r"
  by (simp add: frame_def)

lemmas frames_sent = frame_refused [THEN frame_sent] frame_receive [THEN frame_sent] frame_single [THEN frame_sent] frame_ops [THEN frame_sent]

lemma demo_step:
  assumes "\<forall>x \<in> set (rd_sent (aw_renderer w)). demo_confined ev x" "api_step ev w w'"
  shows "\<forall>x \<in> set (rd_sent (aw_renderer w')). demo_confined ev x"
  using assms(2)
proof cases
  case (begin_request off m p b ps opts pd r)
  then have "rd_sent r = rd_sent (aw_renderer w)" by (simp add: begin_request_sent)
  with begin_request show ?thesis using demo_confined_send [of r ev pd] assms(1) by simp
next
  case (retry_request fs pd gs)
  then show ?thesis using demo_confined_send [OF assms(1)] by simp
next
  case (begin_form off p form opts n r)
  then show ?thesis using demo_confined_single(1) [OF _ assms(1)] by simp
next
  case (begin_blob off p ps opts a n r)
  then show ?thesis using demo_confined_single(2) [OF _ assms(1)] by simp
qed (use assms(1) in \<open>auto simp: frames_sent stale_timer_def resetAuthStale_def\<close>)

interpretation demo: step_invariant init_api "api_step ev" "\<lambda>w. \<forall>x \<in> set (rd_sent (aw_renderer w)). demo_confined ev x" for ev
  by unfold_locales (simp add: init_api_def init_renderer_def, rule demo_step)

section \<open>A run across two services\<close>

definition service_url :: "string \<Rightarrow> string \<Rightarrow> url" where
  "service_url host p = \<lparr>url_href = ''https://'' @ host @ p, url_protocol = ''https:'', url_username = [], url_password = [],
     url_hostname = host, url_port = [], url_pathname = p, url_search = [], url_hash = [], url_origin = ''https://'' @ host\<rparr>"

definition two_services :: api_env where
  "two_services =
     \<lparr>ev_runtime = \<lparr>new_URL = (\<lambda>u. if u = ''https://a.test'' then Some (service_url ''a.test'' ''/'')
                                 else if u = ''https://b.test'' then Some (service_url ''b.test'' ''/'') else None),
                    clear_hash = (\<lambda>u. u), decodeURIComponent = Some\<rparr>,
      ev_window = \<lparr>we_demo_token = None, we_vite_demo_token = None, we_demo_origin = None, we_vite_demo_origin = None, we_hosted_auth = True,
                   we_cc_runtime_available = False, we_global_version = None, we_define_version = None\<rparr>,
      ev_t = (\<lambda>k _. k), ev_sanitize = (\<lambda>d. d), ev_toastReady = True\<rparr>"

definition busy :: fetch_outcome where
  "busy = FetchResponse \<lparr>rp_status = 503, rp_json = None, rp_retryAfter = None\<rparr>"

definition denied :: fetch_outcome where
  "denied = FetchResponse \<lparr>rp_status = 401, rp_json = None, rp_retryAfter = None\<rparr>"

definition no_options :: RequestOptions where
  "no_options = \<lparr>ro_timeout = None, ro_silent = False, ro_headers = []\<rparr>"

definition first_try :: pending where
  "first_try = \<lparr>pd_id = 0, pd_method = ''GET'', pd_url = ''https://a.test/v1/tasks'', pd_body = None, pd_headers = [], pd_silent = False,
     pd_timeout = DEFAULT_TIMEOUT_MS, pd_attempt = 0, pd_last = None\<rparr>"

definition second_try :: pending where
  "second_try = first_try\<lparr>pd_attempt := 1, pd_last := Some (response_error \<lparr>rp_status = 503, rp_json = None, rp_retryAfter = None\<rparr>)\<rparr>"

definition sent_to_a :: "string \<Rightarrow> sent" where
  "sent_to_a token =
     \<lparr>sn_id = 0, sn_method = ''GET'', sn_url = ''https://a.test/v1/tasks'',
      sn_headers = [(''Content-Type'', ''application/json''), (''Accept'', ''application/json''),
                    (''X-AgentWorkflowPlatform-Client-Version'', ''unknown''), (''Authorization'', ''Bearer '' @ token)],
      sn_body = None\<rparr>"

lemma base_a: "normalizeServiceBaseUrl (ev_runtime two_services) ''https://a.test'' = Some ''https://a.test''"
  and base_b: "normalizeServiceBaseUrl (ev_runtime two_services) ''https://b.test'' = Some ''https://b.test''"
  by code_simp+

lemma headers_to_a:
  "token \<noteq> [] \<Longrightarrow> buildHeaders two_services \<lparr>ac_baseUrl = base, ac_token = token, ac_csrfToken = []\<rparr> ''https://a.test/v1/tasks'' []
     = sn_headers (sent_to_a token)"
  by (simp add: buildHeaders_def withDemoAuthHeaders_def credential_headers_def buildCommonHeaders_def assign_def resolveVersion_def
      buildCapabilities_def two_services_def sent_to_a_def readDemoToken_def DEMO_TOKEN_PATTERN_def DEMO_TOKEN_HEADER_def
      to_lower_def lower_char_def is_upper_def Let_def)

definition run_world :: "string \<Rightarrow> string \<Rightarrow> sent list \<Rightarrow> flight list \<Rightarrow> nat \<Rightarrow> api_world" where
  "run_world base token xs fl n =
     \<lparr>aw_renderer = init_renderer\<lparr>rd_client := \<lparr>ac_baseUrl = base, ac_token = token, ac_csrfToken = []\<rparr>, rd_sent := xs, rd_nextId := n\<rparr>,
      aw_flights = fl, aw_released = 0\<rparr>"

lemma run_base:
  assumes "normalizeServiceBaseUrl (ev_runtime ev) u = Some b" "base = [] \<or> base = b \<or> token = []"
  shows "api_step ev (run_world base token xs fl n) (run_world b token xs fl n)"
  using change_base [of ev "run_world base token xs fl n" u] assms
  by (auto simp: run_world_def setBaseUrl_def init_renderer_def Let_def split: if_splits)

lemma run_other_base:
  assumes "normalizeServiceBaseUrl (ev_runtime ev) u = Some b" "base \<noteq> []" "base \<noteq> b"
  shows "api_step ev (run_world base token xs fl n) (run_world b [] xs fl n)"
  using change_base [of ev "run_world base token xs fl n" u] assms
  by (simp add: run_world_def setBaseUrl_def init_renderer_def)

lemma run_token: "api_step ev (run_world base token xs fl n) (run_world base token' xs fl n)"
  using change_token [of ev "run_world base token xs fl n" token'] by (simp add: run_world_def setToken_def init_renderer_def)

lemma run_begin:
  assumes "token \<noteq> []"
  shows "api_step two_services (run_world ''https://a.test'' token [] [] 0)
     (run_world ''https://a.test'' token [sent_to_a token] [Fetching first_try] 1)"
proof -
  have "request_begin two_services False ''GET'' ''/v1/tasks'' None [] no_options
      (aw_renderer (run_world ''https://a.test'' token [] [] 0))
    = (Inr first_try, (aw_renderer (run_world ''https://a.test'' token [] [] 0))\<lparr>rd_nextId := 1\<rparr>)"
    by (simp add: request_begin_def run_world_def init_renderer_def first_try_def no_options_def request_url_def)
  from begin_request [OF this] assms show ?thesis
    by (simp add: run_world_def request_send_def init_renderer_def first_try_def headers_to_a)
       (simp add: sent_to_a_def)
qed

lemma run_busy:
  "api_step two_services (run_world base token xs [Fetching first_try] n) (run_world base token xs [Delaying second_try] n)"
proof -
  have "request_receive two_services first_try busy r = (Inr second_try, r)" for r
    by (simp add: request_receive_def busy_def rp_ok_def second_try_def first_try_def RETRYABLE_STATUS_def MAX_RETRIES_def)
  from delay_request [OF _ this, of "run_world base token xs [Fetching first_try] n" "[]" "[]"] show ?thesis
    by (simp add: run_world_def)
qed

lemma run_retry:
  assumes "token \<noteq> []"
  shows "api_step two_services (run_world base token xs [Delaying second_try] n)
     (run_world base token (xs @ [sent_to_a token]) [Fetching second_try] n)"
  using retry_request [of "run_world base token xs [Delaying second_try] n" "[]" second_try "[]" two_services] assms
  by (simp add: run_world_def request_send_def init_renderer_def second_try_def first_try_def headers_to_a) (simp add: sent_to_a_def)

definition leak_world :: api_world where
  "leak_world = run_world ''https://b.test'' ''token-b'' [sent_to_a ''token-a'', sent_to_a ''token-b''] [Fetching second_try] 1"

lemma init_run: "init_api = run_world [] [] [] [] 0"
  by (simp add: init_api_def run_world_def init_renderer_def)

lemma run_to_a: "rtranclp (api_step two_services) init_api
    (run_world ''https://a.test'' ''token-a'' [sent_to_a ''token-a''] [Fetching first_try] 1)"
proof -
  have "api_step two_services init_api (run_world ''https://a.test'' [] [] [] 0)" unfolding init_run by (rule run_base [OF base_a]) simp
  then have "rtranclp (api_step two_services) init_api (run_world ''https://a.test'' [] [] [] 0)" by (rule r_into_rtranclp)
  then have "rtranclp (api_step two_services) init_api (run_world ''https://a.test'' ''token-a'' [] [] 0)"
    by (rule rtranclp.rtrancl_into_rtrancl) (rule run_token)
  then show ?thesis by (rule rtranclp.rtrancl_into_rtrancl) (rule run_begin, simp)
qed

lemma leak_reachable: "rtranclp (api_step two_services) init_api leak_world"
proof -
  have "rtranclp (api_step two_services) init_api (run_world ''https://a.test'' ''token-a'' [sent_to_a ''token-a''] [Delaying second_try] 1)"
    by (rule rtranclp.rtrancl_into_rtrancl [OF run_to_a run_busy])
  then have "rtranclp (api_step two_services) init_api (run_world ''https://b.test'' [] [sent_to_a ''token-a''] [Delaying second_try] 1)"
    by (rule rtranclp.rtrancl_into_rtrancl) (rule run_other_base [OF base_b]; simp)
  then have "rtranclp (api_step two_services) init_api (run_world ''https://b.test'' ''token-b'' [sent_to_a ''token-a''] [Delaying second_try] 1)"
    by (rule rtranclp.rtrancl_into_rtrancl) (rule run_token)
  then have "rtranclp (api_step two_services) init_api
      (run_world ''https://b.test'' ''token-b'' ([sent_to_a ''token-a''] @ [sent_to_a ''token-b'']) [Fetching second_try] 1)"
    by (rule rtranclp.rtrancl_into_rtrancl) (rule run_retry, simp)
  then show ?thesis by (simp add: leak_world_def)
qed

section \<open>A run against the demo service\<close>

definition demo_token43 :: string where "demo_token43 = replicate 43 (CHR ''d'')"

definition local_url :: "string \<Rightarrow> url" where
  "local_url p = \<lparr>url_href = ''http://localhost:8787'' @ p, url_protocol = ''http:'', url_username = [], url_password = [],
     url_hostname = ''localhost'', url_port = ''8787'', url_pathname = p, url_search = [], url_hash = [], url_origin = ''http://localhost:8787''\<rparr>"

definition demo_service :: api_env where
  "demo_service = two_services\<lparr>
      ev_runtime := \<lparr>new_URL = (\<lambda>u. if u = ''http://localhost:8787'' then Some (local_url ''/'')
                                 else if u = ''http://localhost:8787/api/health'' then Some (local_url ''/api/health'') else None),
                    clear_hash = (\<lambda>u. u), decodeURIComponent = Some\<rparr>,
      ev_window := \<lparr>we_demo_token = Some demo_token43, we_vite_demo_token = None, we_demo_origin = Some ''http://localhost:8787'',
                   we_vite_demo_origin = None, we_hosted_auth = False, we_cc_runtime_available = False, we_global_version = None,
                   we_define_version = None\<rparr>\<rparr>"

definition demo_try :: pending where
  "demo_try = first_try\<lparr>pd_url := ''http://localhost:8787/api/health''\<rparr>"

definition demo_sent :: sent where
  "demo_sent =
     \<lparr>sn_id = 0, sn_method = ''GET'', sn_url = ''http://localhost:8787/api/health'',
      sn_headers = [(''Content-Type'', ''application/json''), (''Accept'', ''application/json''),
                    (''X-AgentWorkflowPlatform-Client-Version'', ''unknown''), (DEMO_TOKEN_HEADER, demo_token43)],
      sn_body = None\<rparr>"

definition demo_api_world :: api_world where
  "demo_api_world = run_world ''http://localhost:8787'' [] [demo_sent] [Fetching demo_try] 1"

lemma demo_base: "normalizeServiceBaseUrl (ev_runtime demo_service) ''http://localhost:8787'' = Some ''http://localhost:8787''"
  by code_simp

lemma demo_headers:
  "buildHeaders demo_service \<lparr>ac_baseUrl = ''http://localhost:8787'', ac_token = [], ac_csrfToken = []\<rparr> ''http://localhost:8787/api/health'' []
   = sn_headers demo_sent"
  by code_simp

lemma demo_reachable: "rtranclp (api_step demo_service) init_api demo_api_world"
proof -
  have "request_begin demo_service False ''GET'' ''/api/health'' None [] no_options
      (aw_renderer (run_world ''http://localhost:8787'' [] [] [] 0))
    = (Inr demo_try, (aw_renderer (run_world ''http://localhost:8787'' [] [] [] 0))\<lparr>rd_nextId := 1\<rparr>)"
    by (simp add: request_begin_def run_world_def init_renderer_def first_try_def demo_try_def no_options_def request_url_def)
  from begin_request [OF this] have "api_step demo_service (run_world ''http://localhost:8787'' [] [] [] 0) demo_api_world"
    by (simp add: run_world_def request_send_def init_renderer_def first_try_def demo_try_def demo_headers demo_api_world_def)
       (simp add: demo_sent_def)
  moreover have "api_step demo_service init_api (run_world ''http://localhost:8787'' [] [] [] 0)"
    unfolding init_run by (rule run_base [OF demo_base]) simp
  ultimately show ?thesis by (meson rtranclp.rtrancl_into_rtrancl r_into_rtranclp)
qed

section \<open>Properties\<close>

text \<open>
  Whatever else the renderer does in between, one request is sent at most four times,
  every time with the same method, URL and body.
\<close>

theorem request_attempts_bounded:
  assumes "rtranclp (api_step ev) init_api w"
  shows "length (filter (\<lambda>x. sn_id x = n) (rd_sent (aw_renderer w))) \<le> 4
    \<and> (\<forall>x \<in> set (rd_sent (aw_renderer w)). \<forall>y \<in> set (rd_sent (aw_renderer w)). sn_id x = sn_id y \<longrightarrow>
         sn_method x = sn_method y \<and> sn_url x = sn_url y \<and> sn_body x = sn_body y)"
  using api.inv_reachable [OF assms] unfolding api_inv_def log_ok_def same_target_def by blast

theorem request_attempts_bounded_witness:
  "length (filter (\<lambda>x. sn_id x = 0) (rd_sent (aw_renderer leak_world))) \<le> 4 \<and> length (rd_sent (aw_renderer leak_world)) = 2"
  using request_attempts_bounded [OF leak_reachable, of 0] by (simp add: leak_world_def run_world_def)

text \<open>
  Rejected tokens send the user to the login page at most once per debounce window: the
  number of redirections never exceeds the number of times the guard was released by its
  timer or reset, plus one.
\<close>

theorem one_redirect_per_window:
  assumes "rtranclp (api_step ev) init_api w"
  shows "rd_logins (aw_renderer w) \<le> aw_released w + 1"
  using api.inv_reachable [OF assms] by (simp add: api_inv_def login_debt_def split: if_splits)

theorem one_redirect_per_window_witness: "rd_logins (aw_renderer leak_world) \<le> aw_released leak_world + 1"
  by (rule one_redirect_per_window [OF leak_reachable])



text \<open>
  A retry mixes services: after a 503 of service A the base URL is changed to service B,
  which clears the token, and a token of B is set; the retry still goes to A and carries
  the token of B.
\<close>

theorem retry_sends_new_token_to_old_service:
  "\<exists>w x. rtranclp (api_step two_services) init_api w \<and> x \<in> set (rd_sent (aw_renderer w))
     \<and> ac_baseUrl (rd_client (aw_renderer w)) = ''https://b.test'' \<and> ac_token (rd_client (aw_renderer w)) = ''token-b''
     \<and> sn_url x = ''https://a.test/v1/tasks'' \<and> (''Authorization'', ''Bearer token-b'') \<in> set (sn_headers x)"
  by (rule exI [of _ leak_world], rule exI [of _ "sent_to_a ''token-b''"])
     (simp add: leak_reachable, simp add: leak_world_def run_world_def sent_to_a_def)

text \<open>
  A late 401 logs the new user out: a request that was sent with an old token and is
  answered with 401 after another token has been set clears the new token.
\<close>

theorem late_401_clears_new_token:
  "\<exists>w w'. rtranclp (api_step two_services) init_api w \<and> api_step two_services w w'
     \<and> ac_token (rd_client (aw_renderer w)) = ''token-new''
     \<and> (\<forall>x \<in> set (rd_sent (aw_renderer w)). (''Authorization'', ''Bearer token-new'') \<notin> set (sn_headers x))
     \<and> ac_token (rd_client (aw_renderer w')) = []"
proof -
  let ?w = "run_world ''https://a.test'' ''token-new'' [sent_to_a ''token-a''] [Fetching first_try] 1"
  have r: "rtranclp (api_step two_services) init_api ?w" by (rule rtranclp.rtrancl_into_rtrancl [OF run_to_a run_token])
  obtain err r' where rec: "request_receive two_services first_try denied (aw_renderer ?w) = (Inl (Rejected err), r')" "ac_token (rd_client r') = []"
    by (simp add: request_receive_def denied_def rp_ok_def two_services_def handleUnauthorized_def clearAuth_def setToken_def Let_def)
  have "api_step two_services ?w (?w\<lparr>aw_renderer := r', aw_flights := [] @ []\<rparr>)"
    by (rule finish_request [OF _ rec(1)]) (simp add: run_world_def)
  with r rec(2) show ?thesis
    by (intro exI [of _ ?w] exI [of _ "?w\<lparr>aw_renderer := r', aw_flights := [] @ []\<rparr>"]) (simp add: run_world_def sent_to_a_def)
qed

end
