(* ===== verification/AuthStore.thy ===== *)
theory AuthStore
  imports ApiProps
begin

text \<open>
  The auth store \<open>src/stores/auth.ts\<close> with its endpoints \<open>src/api/endpoints/auth.ts\<close>: login,
  registration, logout and the restoration of a session, cut at their awaits and running
  among the rest of the renderer.  Local storage is usable; safe storage may refuse a write.
\<close>

section \<open>State\<close>

record auth =
  au_renderer :: renderer
  au_loading :: bool
  au_error :: "string option"
  au_bridgeCustomerId :: "string option"

record LoginResponse =
  lr_api_key :: string
  lr_customer_id :: string

datatype auth_failure = ApiFailure ApiError | OtherFailure string

record stored_credentials =
  sc_token :: string
  sc_customer_id :: string
  sc_email :: string

text \<open>A call of an action, at the await where it waits.\<close>

datatype auth_call =
    LoggingIn string
  | SavingLogin string LoginResponse
  | LoggingOut
  | ReadingSession
  | ValidatingSession stored_credentials

record auth_world =
  aq_auth :: auth
  aq_calls :: "auth_call list"

abbreviation upd_renderer :: "(renderer \<Rightarrow> renderer) \<Rightarrow> auth \<Rightarrow> auth" where
  "upd_renderer f a \<equiv> a\<lparr>au_renderer := f (au_renderer a)\<rparr>"

definition hosted :: "api_env \<Rightarrow> bool" where
  "hosted ev = we_hosted_auth (ev_window ev)"

definition isLoggedIn :: "auth \<Rightarrow> bool" where
  "isLoggedIn a = (rd_authToken (au_renderer a) \<noteq> [])"

text \<open>The bridge exists in the desktop application only.\<close>

record auth_env =
  an_api :: api_env
  an_bridge :: bool
  an_loginFailed :: string

section \<open>Login and registration\<close>

text \<open>Registration runs the same code with its own request and its own default message.\<close>

definition login_begin :: "auth_env \<Rightarrow> string \<Rightarrow> auth_world \<Rightarrow> bool option \<times> auth_world" where
  "login_begin en email w =
     (if \<not> hosted (an_api en)
      then (Some False, w\<lparr>aq_auth := (aq_auth w)\<lparr>au_error := Some ''hosted_auth_disabled'', au_loading := False\<rparr>\<rparr>)
      else (None, w\<lparr>aq_auth := (aq_auth w)\<lparr>au_loading := True, au_error := None\<rparr>, aq_calls := LoggingIn email # aq_calls w\<rparr>))"

definition failure_text :: "auth_env \<Rightarrow> auth_failure \<Rightarrow> string" where
  "failure_text en f = (case f of ApiFailure e \<Rightarrow> ae_detail e | OtherFailure m \<Rightarrow> if m \<noteq> [] then m else an_loginFailed en)"

text \<open>The first statements of \<open>saveCredentials\<close> run with the answer: the write to safe storage is issued, and may be refused.\<close>

definition login_success :: "string \<Rightarrow> LoginResponse \<Rightarrow> bool \<Rightarrow> auth \<Rightarrow> auth" where
  "login_success email res accepted a =
     upd_renderer (\<lambda>r.
       let r1 = setToken (lr_api_key res) (r\<lparr>rd_authToken := lr_api_key res, rd_authUser := Some (email, lr_customer_id res)\<rparr>)
       in if accepted then r1\<lparr>rd_credentials := (rd_credentials r1)(''auth_token'' \<mapsto> lr_api_key res)\<rparr> else r1) a"

definition login_answer :: "auth_env \<Rightarrow> string \<Rightarrow> auth_failure + LoginResponse \<Rightarrow> bool \<Rightarrow> auth_world \<Rightarrow> bool option \<times> auth_world" where
  "login_answer en email res accepted w =
     (case res of
        Inl f \<Rightarrow> (Some False, w\<lparr>aq_auth := (aq_auth w)\<lparr>au_error := Some (failure_text en f), au_loading := False\<rparr>\<rparr>)
      | Inr lr \<Rightarrow> (None, w\<lparr>aq_auth := login_success email lr accepted (aq_auth w), aq_calls := SavingLogin email lr # aq_calls w\<rparr>))"

definition saveCredentials_rest :: "auth_env \<Rightarrow> string \<Rightarrow> string \<Rightarrow> auth \<Rightarrow> auth" where
  "saveCredentials_rest en customerId email a =
     (upd_renderer (rd_localStorage_update (\<lambda>ls.
        (ls(''awp_token'' := None, ''awp_password'' := None))(''awp_customer_id'' \<mapsto> customerId, ''awp_email'' \<mapsto> email))) a)
       \<lparr>au_bridgeCustomerId := (if an_bridge en then Some customerId else au_bridgeCustomerId a)\<rparr>"

definition login_saved :: "auth_env \<Rightarrow> string \<Rightarrow> LoginResponse \<Rightarrow> auth_world \<Rightarrow> bool option \<times> auth_world" where
  "login_saved en email lr w =
     (Some True, w\<lparr>aq_auth := (upd_renderer (\<lambda>r. r\<lparr>rd_reloads := Suc (rd_reloads r)\<rparr>)
                                (saveCredentials_rest en (lr_customer_id lr) email (aq_auth w)))\<lparr>au_loading := False\<rparr>\<rparr>)"

section \<open>Logout\<close>

definition logout_begin :: "auth_env \<Rightarrow> auth_world \<Rightarrow> auth_world" where
  "logout_begin en w =
     (if \<not> hosted (an_api en) then w\<lparr>aq_auth := upd_renderer clearAuth (aq_auth w)\<rparr>
      else w\<lparr>aq_calls := LoggingOut # aq_calls w\<rparr>)"

text \<open>Whatever the server answers.\<close>

definition logout_answer :: "auth_world \<Rightarrow> auth_world" where
  "logout_answer w =
     w\<lparr>aq_auth := upd_renderer (\<lambda>r. clearAuth (r\<lparr>rd_localStorage := (rd_localStorage r)(''awp_token'' := None)\<rparr>)) (aq_auth w)\<rparr>"

section \<open>Restoring a session\<close>

definition checkSession_begin :: "auth_env \<Rightarrow> auth_world \<Rightarrow> bool option \<times> auth_world" where
  "checkSession_begin en w =
     (if \<not> hosted (an_api en) then (Some False, w)
      else if rd_authToken (au_renderer (aq_auth w)) \<noteq> [] then (Some True, w)
      else (None, w\<lparr>aq_calls := ReadingSession # aq_calls w\<rparr>))"

definition or_empty_text :: "string option \<Rightarrow> string" where
  "or_empty_text s = (case s of Some t \<Rightarrow> t | None \<Rightarrow> [])"

text \<open>What safe storage returned, and what the bridge knows of an older installation.\<close>

definition loadCredentials :: "string option \<Rightarrow> (string \<times> string) option \<Rightarrow> renderer \<Rightarrow> stored_credentials option" where
  "loadCredentials token_read bridgeAuth r =
     (let tok = or_empty_text token_read;
          cid = or_empty_text (rd_localStorage r ''awp_customer_id'');
          em = or_empty_text (rd_localStorage r ''awp_email'');
          (cid', em') = (if cid = [] \<or> em = []
             then (case bridgeAuth of
                     Some (c, e) \<Rightarrow> (if cid \<noteq> [] then cid else c, if em \<noteq> [] then em else e)
                   | None \<Rightarrow> (cid, em))
             else (cid, em))
      in if tok = [] \<or> cid' = [] then None
         else Some \<lparr>sc_token = tok, sc_customer_id = cid', sc_email = em'\<rparr>)"

definition checkSession_read :: "string option \<Rightarrow> (string \<times> string) option \<Rightarrow> auth_world \<Rightarrow> bool option \<times> auth_world" where
  "checkSession_read token_read bridgeAuth w =
     (case loadCredentials token_read bridgeAuth (au_renderer (aq_auth w)) of
        None \<Rightarrow> (Some False, w)
      | Some c \<Rightarrow> (None, w\<lparr>aq_auth := upd_renderer (setToken (sc_token c)) (aq_auth w), aq_calls := ValidatingSession c # aq_calls w\<rparr>))"

text \<open>\<open>validateToken\<close>: rejections of the token are thrown, every other failure is no answer.\<close>

definition validateToken :: "auth_failure + jsval \<Rightarrow> auth_failure + jsval option" where
  "validateToken res =
     (case res of
        Inr v \<Rightarrow> Inr (Some v)
      | Inl (ApiFailure e) \<Rightarrow> if ae_status e \<in> {401, 403} then Inl (ApiFailure e) else Inr None
      | Inl (OtherFailure m) \<Rightarrow> Inr None)"

definition text_or :: "jsval \<Rightarrow> string \<Rightarrow> string" where
  "text_or v d = (case v of Str (c # cs) \<Rightarrow> c # cs | _ \<Rightarrow> d)"

definition reject_session :: "auth_world \<Rightarrow> auth_world" where
  "reject_session w = w\<lparr>aq_auth := upd_renderer (\<lambda>r. clearAuth (setToken [] r)) (aq_auth w)\<rparr>"

definition restore_session :: "auth_env \<Rightarrow> string \<Rightarrow> string \<Rightarrow> string \<Rightarrow> auth_world \<Rightarrow> auth_world" where
  "restore_session en tok cid em w =
     w\<lparr>aq_auth :=
        (upd_renderer (\<lambda>r. r\<lparr>rd_authToken := tok, rd_authUser := Some (em, cid),
             rd_localStorage := (rd_localStorage r)(''awp_customer_id'' \<mapsto> cid, ''awp_email'' \<mapsto> em)\<rparr>) (aq_auth w))
          \<lparr>au_bridgeCustomerId := (if an_bridge en then Some cid else au_bridgeCustomerId (aq_auth w))\<rparr>\<rparr>"

definition checkSession_validated :: "auth_env \<Rightarrow> stored_credentials \<Rightarrow> auth_failure + jsval \<Rightarrow> auth_world \<Rightarrow> bool \<times> auth_world" where
  "checkSession_validated en c res w =
     (case validateToken res of
        Inr (Some v) \<Rightarrow>
          if truthy v \<and> truthy (field v ''valid'')
          then (True, restore_session en (sc_token c) (text_or (field v ''customer_id'') (sc_customer_id c)) (text_or (field v ''email'') (sc_email c)) w)
          else if truthy v then (False, reject_session w)
          else (True, restore_session en (sc_token c) (sc_customer_id c) (sc_email c) w)
      | Inr None \<Rightarrow> (True, restore_session en (sc_token c) (sc_customer_id c) (sc_email c) w)
      | Inl f \<Rightarrow>
          (case f of
             ApiFailure e \<Rightarrow> if ae_status e = 401 then (False, reject_session w)
                             else (True, restore_session en (sc_token c) (sc_customer_id c) (sc_email c) w)
           | OtherFailure m \<Rightarrow> (True, restore_session en (sc_token c) (sc_customer_id c) (sc_email c) w)))"

section \<open>The actions among the rest of the renderer\<close>

text \<open>
  The API client of the same renderer runs in between; what it does to the renderer is a
  step of \<open>api_step\<close>.
\<close>

inductive auth_step :: "auth_env \<Rightarrow> auth_world \<Rightarrow> auth_world \<Rightarrow> bool" for en where
  do_login: "login_begin en email w = (r, w') \<Longrightarrow> auth_step en w w'"
| do_login_answer:
    "aq_calls w = pre @ LoggingIn email # post \<Longrightarrow> login_answer en email res accepted (w\<lparr>aq_calls := pre @ post\<rparr>) = (r, w') \<Longrightarrow> auth_step en w w'"
| do_login_saved:
    "aq_calls w = pre @ SavingLogin email lr # post \<Longrightarrow> login_saved en email lr (w\<lparr>aq_calls := pre @ post\<rparr>) = (r, w') \<Longrightarrow> auth_step en w w'"
| do_logout: "auth_step en w (logout_begin en w)"
| do_logout_answer: "aq_calls w = pre @ LoggingOut # post \<Longrightarrow> auth_step en w (logout_answer (w\<lparr>aq_calls := pre @ post\<rparr>))"
| do_check: "checkSession_begin en w = (r, w') \<Longrightarrow> auth_step en w w'"
| do_check_read:
    "aq_calls w = pre @ ReadingSession # post \<Longrightarrow> token_read = rd_credentials (au_renderer (aq_auth w)) ''auth_token'' \<or> token_read = None \<Longrightarrow>
     checkSession_read token_read bridgeAuth (w\<lparr>aq_calls := pre @ post\<rparr>) = (r, w') \<Longrightarrow> auth_step en w w'"
| do_check_validated:
    "aq_calls w = pre @ ValidatingSession c # post \<Longrightarrow> checkSession_validated en c res (w\<lparr>aq_calls := pre @ post\<rparr>) = (r, w') \<Longrightarrow> auth_step en w w'"
| do_unauthorized: "auth_step en w (w\<lparr>aq_auth := upd_renderer (handleUnauthorized (an_api en)) (aq_auth w)\<rparr>)"
| do_client:
    "api_step (an_api en) aw aw' \<Longrightarrow> aw_renderer aw = au_renderer (aq_auth w) \<Longrightarrow>
     auth_step en w (w\<lparr>aq_auth := (aq_auth w)\<lparr>au_renderer := aw_renderer aw'\<rparr>\<rparr>)"

inductive_cases auth_stepE: "auth_step en w w'"

definition init_auth :: auth_world where
  "init_auth = \<lparr>aq_auth = \<lparr>au_renderer = init_renderer, au_loading = False, au_error = None, au_bridgeCustomerId = None\<rparr>, aq_calls = []\<rparr>"

end
