(* ===== verification/AuthProps.thy ===== *)
theory AuthProps
  imports AuthStore
begin

text \<open>
  What the auth store promises: hosted accounts stay off when they are not enabled, the
  token is never written to plain storage, and what the restoration of a session decides.
\<close>

section \<open>The client only ever removes what is stored\<close>

definition stores_less :: "renderer \<Rightarrow> renderer \<Rightarrow> bool" where
  "stores_less r r' = (rd_credentials r' \<subseteq>\<^sub>m rd_credentials r \<and> rd_localStorage r' \<subseteq>\<^sub>m rd_localStorage r
     \<and> rd_authToken r' \<in> {rd_authToken r, []})"

lemma stores_less_refl [simp]: "stores_less r r"
  by (simp add: stores_less_def)

lemma stores_less_trans: "stores_less r r1 \<Longrightarrow> stores_less r1 r2 \<Longrightarrow> stores_less r r2"
  by (auto simp: stores_less_def intro: map_le_trans)

lemma stores_less_clear [simp]: "stores_less r (clearAuth r)"
  by (simp add: stores_less_def clearAuth_def setToken_def map_le_def)

lemma stores_less_same:
  "rd_credentials r' = rd_credentials r \<Longrightarrow> rd_localStorage r' = rd_localStorage r \<Longrightarrow> rd_authToken r' = rd_authToken r \<Longrightarrow> stores_less r r'"
  by (simp add: stores_less_def)

interpretation stores: client_footprint stores_less
proof unfold_locales
  show "stores_less r (stale_login ev r)" for r ev
    by (auto simp: stale_login_def tryClaimAuthStale_def add_toast_def clearAuth_def setToken_def stores_less_def map_le_def Let_def)
  show "stores_less r (setOffline r)" for r by (auto simp: setOffline_def intro: stores_less_same split: option.split)
  show "stores_less r (add_toast x r)" for x r by (auto simp: add_toast_def intro: stores_less_same)
qed (simp, rule stores_less_trans, simp_all)

lemma begin_request_stores: "request_begin ev off m p b ps opts r = (Inr pd, r') \<Longrightarrow> stores_less r (request_send ev pd' r')"
  by (auto simp: request_begin_def offline_guard_def fail_with_def request_send_def Let_def intro: stores_less_same split: if_splits)

lemma begin_single_stores:
  "postForm ev off p form opts r = (Inr n, r') \<Longrightarrow> stores_less r r'"
  "getBlob ev off p ps opts a r = (Inr n, r') \<Longrightarrow> stores_less r r'"
  by (auto simp: postForm_def getBlob_def offline_guard_def fail_with_def send_once_def Let_def intro: stores_less_same split: if_splits)

lemma client_ops_store_less:
  "stores_less r (request_send ev pd r)" "stores_less r (snd (setBaseUrl ev u r))" "stores_less r (setToken tok r)"
  "stores_less r (setCsrfToken csrf r)" "stores_less r (stale_timer r)" "stores_less r (resetAuthStale r)"
  by (auto simp: request_send_def setBaseUrl_def setToken_def setCsrfToken_def stale_timer_def resetAuthStale_def Let_def
      intro: stores_less_same split: option.split)

lemma api_step_stores_less: "api_step ev aw aw' \<Longrightarrow> stores_less (aw_renderer aw) (aw_renderer aw')"
  by (induction rule: api_step.induct)
     (auto dest: stores.receive stores.single stores.refused_begin begin_single_stores begin_request_stores simp: client_ops_store_less)

section \<open>The actions of the store\<close>

text \<open>Local storage keeps to the two keys that are not secret.\<close>

definition plain_keys :: "string set" where
  "plain_keys = {''awp_customer_id'', ''awp_email''}"

definition plain_safe :: "renderer \<Rightarrow> renderer \<Rightarrow> bool" where
  "plain_safe r r' = (\<forall>k v. k \<notin> plain_keys \<longrightarrow> rd_localStorage r' k = Some v \<longrightarrow> rd_localStorage r k = Some v)"

lemma plain_safe_trans: "plain_safe r r1 \<Longrightarrow> plain_safe r1 r2 \<Longrightarrow> plain_safe r r2"
  by (auto simp: plain_safe_def)

lemma stores_less_plain: "stores_less r r' \<Longrightarrow> plain_safe r r'"
  by (auto simp: stores_less_def plain_safe_def map_le_def dom_def)

abbreviation world_renderer :: "auth_world \<Rightarrow> renderer" where
  "world_renderer w \<equiv> au_renderer (aq_auth w)"

lemma plain_safe_actions:
  "login_begin en email w = (x, w') \<Longrightarrow> plain_safe (world_renderer w) (world_renderer w')"
  "login_answer en email res accepted w = (x, w') \<Longrightarrow> plain_safe (world_renderer w) (world_renderer w')"
  "login_saved en email lr w = (x, w') \<Longrightarrow> plain_safe (world_renderer w) (world_renderer w')"
  "plain_safe (world_renderer w) (world_renderer (logout_begin en w))"
  "plain_safe (world_renderer w) (world_renderer (logout_answer w))"
  "checkSession_begin en w = (x, w') \<Longrightarrow> plain_safe (world_renderer w) (world_renderer w')"
  "checkSession_read tok b w = (x, w') \<Longrightarrow> plain_safe (world_renderer w) (world_renderer w')"
  by (auto simp: plain_safe_def plain_keys_def login_begin_def login_answer_def login_success_def login_saved_def saveCredentials_rest_def
      logout_begin_def logout_answer_def checkSession_begin_def checkSession_read_def clearAuth_def setToken_def Let_def
      split: if_splits sum.splits option.splits)

lemma plain_safe_sessions:
  "plain_safe (world_renderer w) (world_renderer (restore_session en tok cid em w))"
  "plain_safe (world_renderer w) (world_renderer (reject_session w))"
  by (simp_all add: plain_safe_def plain_keys_def restore_session_def reject_session_def clearAuth_def setToken_def)

lemma plain_safe_validated:
  "checkSession_validated en c res w = (x, w') \<Longrightarrow> plain_safe (world_renderer w) (world_renderer w')"
  using plain_safe_sessions [of w]
  by (auto simp: checkSession_validated_def split: if_splits sum.splits option.splits auth_failure.splits)

lemma plain_safe_step: "auth_step en w w' \<Longrightarrow> plain_safe (world_renderer w) (world_renderer w')"
  by (erule auth_stepE)
     (auto dest: plain_safe_actions(1,2,3,6,7) plain_safe_validated simp: plain_safe_actions(4) plain_safe_actions(5) [of "w\<lparr>aq_calls := _\<rparr>", simplified]
        intro: stores_less_plain stores.unauthorized api_step_stores_less dest!: api_step_stores_less [THEN stores_less_plain])

interpretation plain: step_preorder "auth_step en" "\<lambda>w w'. plain_safe (world_renderer w) (world_renderer w')" for en
  by unfold_locales (simp add: plain_safe_def, rule plain_safe_trans, auto intro: plain_safe_step)


section \<open>Hosted accounts are off\<close>

definition closed_state :: "(string \<rightharpoonup> string) \<Rightarrow> auth_world \<Rightarrow> bool" where
  "closed_state creds w = (aq_calls w = [] \<and> rd_authToken (world_renderer w) = [] \<and> rd_credentials (world_renderer w) \<subseteq>\<^sub>m creds)"

lemma closed_state_less:
  "closed_state creds w \<Longrightarrow> stores_less (world_renderer w) r \<Longrightarrow> closed_state creds (w\<lparr>aq_auth := (aq_auth w)\<lparr>au_renderer := r\<rparr>\<rparr>)"
  by (auto simp: closed_state_def stores_less_def intro: map_le_trans)

lemma closed_state_step:
  assumes "\<not> hosted (an_api en)" "auth_step en w w'" "closed_state creds w"
  shows "closed_state creds w'"
  using assms(2)
proof (cases rule: auth_step.cases)
  case do_logout
  with assms(1) closed_state_less [OF assms(3) stores_less_clear] show ?thesis by (simp add: logout_begin_def)
next
  case do_unauthorized
  with closed_state_less [OF assms(3) stores.unauthorized] show ?thesis by simp
next
  case (do_client aw aw')
  with closed_state_less [OF assms(3)] api_step_stores_less [OF do_client(2)] show ?thesis by simp
qed (use assms in \<open>auto simp: closed_state_def login_begin_def checkSession_begin_def\<close>)

text \<open>
  Hosted accounts fail closed: unless the build opted in, no sequence of calls, answers and
  requests, whatever safe storage holds, logs a user in, starts an account request or adds
  a credential; login reports that accounts are disabled and the session check is false.
\<close>

theorem hosted_auth_fails_closed:
  assumes off: "\<not> hosted (an_api en)" and start: "aq_calls w0 = []" "\<not> isLoggedIn (aq_auth w0)"
    and run: "rtranclp (auth_step en) w0 w"
  shows "\<not> isLoggedIn (aq_auth w) \<and> aq_calls w = [] \<and> rd_credentials (world_renderer w) \<subseteq>\<^sub>m rd_credentials (world_renderer w0)
    \<and> fst (login_begin en email w) = Some False \<and> fst (checkSession_begin en w) = Some False"
proof -
  from run have "closed_state (rd_credentials (world_renderer w0)) w"
  proof (induction rule: rtranclp_induct)
    case base
    with start show ?case by (simp add: closed_state_def isLoggedIn_def)
  next
    case (step y z)
    with closed_state_step [OF off] show ?case by blast
  qed
  with off show ?thesis by (simp add: closed_state_def isLoggedIn_def login_begin_def checkSession_begin_def)
qed

definition accounts_off :: auth_env where
  "accounts_off = \<lparr>an_api = \<lparr>ev_runtime = \<lparr>new_URL = \<lambda>u. None, clear_hash = \<lambda>u. u, decodeURIComponent = Some\<rparr>,
     ev_window = \<lparr>we_demo_token = None, we_vite_demo_token = None, we_demo_origin = None, we_vite_demo_origin = None,
       we_hosted_auth = False, we_cc_runtime_available = False, we_global_version = None, we_define_version = None\<rparr>,
     ev_t = \<lambda>k x. k, ev_sanitize = \<lambda>x. x, ev_toastReady = True\<rparr>, an_bridge = True, an_loginFailed = ''failed''\<rparr>"

lemma accounts_off_run: "rtranclp (auth_step accounts_off) init_auth (logout_begin accounts_off init_auth)"
  by (rule r_into_rtranclp, rule do_logout)

theorem hosted_auth_fails_closed_witness:
  "\<not> isLoggedIn (aq_auth (logout_begin accounts_off init_auth))
   \<and> fst (checkSession_begin accounts_off (logout_begin accounts_off init_auth)) = Some False"
  using hosted_auth_fails_closed [OF _ _ _ accounts_off_run]
  by (simp add: hosted_def accounts_off_def init_auth_def isLoggedIn_def init_renderer_def)

definition accounts_on :: auth_env where
  "accounts_on = accounts_off\<lparr>an_api := (an_api accounts_off)\<lparr>ev_window := (ev_window (an_api accounts_off))\<lparr>we_hosted_auth := True\<rparr>\<rparr>\<rparr>"

lemma accounts_on_run: "rtranclp (auth_step accounts_on) init_auth (snd (login_begin accounts_on ''a@b.c'' init_auth))"
  by (rule r_into_rtranclp, rule do_login, rule prod.collapse [symmetric])


section \<open>What the session check decides\<close>

text \<open>The answers that end the stored session: a 401, or a document that does not call the token valid.\<close>

definition rejects :: "auth_failure + jsval \<Rightarrow> bool" where
  "rejects res =
     (case res of
        Inl (ApiFailure e) \<Rightarrow> ae_status e = 401
      | Inl (OtherFailure m) \<Rightarrow> False
      | Inr v \<Rightarrow> truthy v \<and> \<not> truthy (field v ''valid''))"

text \<open>
  The session check, on every answer: it fails exactly when the server rejects the token
  with a 401 or calls it invalid, and then nothing of the session is left in memory, in
  safe storage or in local storage; in every other case, an unreachable server and a 403
  included, the stored token becomes the session, with the account the server names or
  else the stored one.
\<close>

theorem session_check_outcome:
  assumes "checkSession_validated en c res w = (ok, w')"
  shows "ok = (\<not> rejects res)
    \<and> (if ok then rd_authToken (world_renderer w') = sc_token c
          \<and> (\<exists>em cid. rd_authUser (world_renderer w') = Some (em, cid) \<and> rd_localStorage (world_renderer w') ''awp_customer_id'' = Some cid
              \<and> (rd_credentials (world_renderer w') = rd_credentials (world_renderer w)))
       else rd_authToken (world_renderer w') = [] \<and> ac_token (rd_client (world_renderer w')) = [] \<and> rd_authUser (world_renderer w') = None
          \<and> rd_credentials (world_renderer w') ''auth_token'' = None \<and> rd_localStorage (world_renderer w') ''awp_customer_id'' = None)"
  using assms
  by (cases res)
     (auto simp: checkSession_validated_def validateToken_def rejects_def restore_session_def reject_session_def clearAuth_def setToken_def
        split: if_splits auth_failure.splits)

definition forbidden_answer :: "auth_failure + jsval" where
  "forbidden_answer = Inl (ApiFailure \<lparr>ae_status = 403, ae_code = ''forbidden'', ae_detail = ''revoked'', ae_retryAfter = None\<rparr>)"

theorem session_check_outcome_witness:
  "fst (checkSession_validated accounts_on \<lparr>sc_token = ''t'', sc_customer_id = ''c'', sc_email = ''e''\<rparr> forbidden_answer init_auth)
     = (\<not> rejects forbidden_answer) \<and> \<not> rejects forbidden_answer"
  using session_check_outcome [OF prod.collapse [symmetric], of accounts_on "\<lparr>sc_token = ''t'', sc_customer_id = ''c'', sc_email = ''e''\<rparr>" forbidden_answer init_auth]
  by (simp add: rejects_def forbidden_answer_def)

end
