(* ===== verification/Sse.thy ===== *)
theory Sse
  imports ServiceUrl
begin

text \<open>
  The event-stream client \<open>src/api/sse.ts\<close>: \<open>createSSEStream\<close> as a state machine over the
  points where it waits (the answer of \<open>fetch\<close>, a read of the body, its two timers, a call of
  \<open>close\<close>), and \<open>createReconnectingSSE\<close> on top of it.

  The callbacks of the caller are a parameter: functions on a state of the caller's own,
  which may throw and may call \<open>close\<close>.  The text of a chunk is what the streaming
  \<open>TextDecoder\<close> returns for it.
\<close>

section \<open>Limits and the request\<close>

definition DEFAULT_HANDSHAKE_TIMEOUT_MS :: nat where "DEFAULT_HANDSHAKE_TIMEOUT_MS = 10000"
definition DEFAULT_IDLE_TIMEOUT_MS :: nat where "DEFAULT_IDLE_TIMEOUT_MS = 45000"
definition MAX_SSE_BUFFER_CHARS :: nat where "MAX_SSE_BUFFER_CHARS = 1048576"

record SSEOptions =
  so_method :: "string option"
  so_body :: "jsval option"
  so_handshakeTimeoutMs :: "nat option"
  so_idleTimeoutMs :: "nat option"

text \<open>\<open>new URL(path, base)\<close> is the argument \<open>new_URL_base\<close>.\<close>

definition buildSseUrl :: "runtime \<Rightarrow> (string \<Rightarrow> string \<Rightarrow> url option) \<Rightarrow> string \<Rightarrow> string \<Rightarrow> string result" where
  "buildSseUrl rt new_URL_base baseUrl relativePath =
     (case normalizeServiceBaseUrl rt baseUrl of
        None \<Rightarrow> Inl (Thrown ''invalid_sse_base'')
      | Some base \<Rightarrow>
          if \<not> starts_with relativePath ''/'' \<or> starts_with relativePath ''//''
             \<or> list_ex (\<lambda>c. c = CHR 0x5C \<or> is_control c) relativePath
          then Inl (Thrown ''invalid_sse_path'')
          else case new_URL_base relativePath base of
            None \<Rightarrow> Inl (Thrown ''Invalid URL'')
          | Some endpoint \<Rightarrow>
              if url_origin endpoint \<noteq> base \<or> url_hash endpoint \<noteq> [] then Inl (Thrown ''invalid_sse_path'')
              else Inr (url_href endpoint))"

record sse_fetch =
  sf_url :: string
  sf_method :: string
  sf_headers :: headers
  sf_body :: "string option"
  sf_redirect :: string

definition sse_method :: "SSEOptions \<Rightarrow> string" where
  "sse_method opts = (case so_method opts of Some m \<Rightarrow> m | None \<Rightarrow> ''GET'')"

definition sse_headers :: "runtime \<Rightarrow> window_env \<Rightarrow> string \<Rightarrow> string \<Rightarrow> headers" where
  "sse_headers rt we url token =
     (let h = assign [(''Accept'', ''text/event-stream'')] (buildCommonHeaders we token);
          h' = (if token \<noteq> [] then set_entry ''Authorization'' (''Bearer '' @ token) h else h)
      in withDemoAuthHeaders rt we url h')"

definition sse_request :: "runtime \<Rightarrow> window_env \<Rightarrow> string \<Rightarrow> string \<Rightarrow> SSEOptions \<Rightarrow> sse_fetch" where
  "sse_request rt we url token opts =
     (let method = sse_method opts; hs = sse_headers rt we url token
      in case so_body opts of
           Some b \<Rightarrow>
             if method \<noteq> ''GET''
             then \<lparr>sf_url = url, sf_method = method, sf_headers = set_entry ''Content-Type'' ''application/json'' hs,
                   sf_body = Some (JSON_stringify b), sf_redirect = ''error''\<rparr>
             else \<lparr>sf_url = url, sf_method = method, sf_headers = hs, sf_body = None, sf_redirect = ''error''\<rparr>
         | None \<Rightarrow> \<lparr>sf_url = url, sf_method = method, sf_headers = hs, sf_body = None, sf_redirect = ''error''\<rparr>)"

section \<open>One stream\<close>

record js_exn =
  ex_name :: string
  ex_message :: string

definition new_Error :: "string \<Rightarrow> js_exn" where
  "new_Error m = \<lparr>ex_name = ''Error'', ex_message = m\<rparr>"

datatype sse_phase = Connecting | Reading | Finished

text \<open>The variables of \<open>createSSEStream\<close>; a timer is true while it is pending.\<close>

record sse =
  ss_phase :: sse_phase
  ss_closed :: bool
  ss_timeoutCode :: "string option"
  ss_handshakeTimer :: bool
  ss_idleTimer :: bool
  ss_aborted :: bool
  ss_buffer :: string

text \<open>What a callback does besides changing the caller's state: it may throw and it may call \<open>close\<close>.\<close>

record reaction =
  rx_throws :: "js_exn option"
  rx_closes :: bool

definition quiet :: reaction where
  "quiet = \<lparr>rx_throws = None, rx_closes = False\<rparr>"

record 'u callbacks =
  cb_message :: "jsval \<Rightarrow> 'u \<Rightarrow> reaction \<times> 'u"
  cb_error :: "js_exn \<Rightarrow> 'u \<Rightarrow> reaction \<times> 'u"
  cb_headers :: "'u \<Rightarrow> reaction \<times> 'u"

definition clearTimers :: "sse \<Rightarrow> sse" where
  "clearTimers s = s\<lparr>ss_handshakeTimer := False, ss_idleTimer := False\<rparr>"

definition resetIdleTimer :: "sse \<Rightarrow> sse" where
  "resetIdleTimer s = s\<lparr>ss_idleTimer := True\<rparr>"

definition sse_close :: "sse \<Rightarrow> sse" where
  "sse_close s = (clearTimers (s\<lparr>ss_closed := True\<rparr>))\<lparr>ss_aborted := True\<rparr>"

definition invoke :: "('u \<Rightarrow> reaction \<times> 'u) \<Rightarrow> sse \<times> 'u \<Rightarrow> js_exn option \<times> sse \<times> 'u" where
  "invoke f su =
     (let (x, u') = f (snd su)
      in (rx_throws x, (if rx_closes x then sse_close (fst su) else fst su), u'))"

definition new_sse :: sse where
  "new_sse = \<lparr>ss_phase = Connecting, ss_closed = False, ss_timeoutCode = None, ss_handshakeTimer = True,
              ss_idleTimer = False, ss_aborted = False, ss_buffer = []\<rparr>"

definition createSSEStream ::
    "runtime \<Rightarrow> (string \<Rightarrow> string \<Rightarrow> url option) \<Rightarrow> window_env \<Rightarrow> string \<Rightarrow> string \<Rightarrow> string \<Rightarrow> SSEOptions \<Rightarrow> (sse \<times> sse_fetch) result" where
  "createSSEStream rt new_URL_base we baseUrl relativePath token opts =
     bind_result (buildSseUrl rt new_URL_base baseUrl relativePath) (\<lambda>url. Inr (new_sse, sse_request rt we url token opts))"

text \<open>The \<open>catch\<close> and \<open>finally\<close> blocks around the whole stream.\<close>

definition sse_catch :: "'u callbacks \<Rightarrow> js_exn \<Rightarrow> sse \<times> 'u \<Rightarrow> sse \<times> 'u" where
  "sse_catch cb err su =
     (if ss_closed (fst su) then su
      else case ss_timeoutCode (fst su) of
        Some c \<Rightarrow> snd (invoke (cb_error cb (new_Error c)) su)
      | None \<Rightarrow> if ex_name err \<noteq> ''AbortError'' then snd (invoke (cb_error cb err) su) else su)"

definition sse_finally :: "sse \<times> 'u \<Rightarrow> sse \<times> 'u" where
  "sse_finally su = ((clearTimers (fst su))\<lparr>ss_phase := Finished\<rparr>, snd su)"

definition sse_fail :: "'u callbacks \<Rightarrow> js_exn \<Rightarrow> sse \<times> 'u \<Rightarrow> sse \<times> 'u" where
  "sse_fail cb err su = sse_finally (sse_catch cb err su)"

section \<open>The answer of fetch\<close>

record sse_response =
  sr_status :: nat
  sr_hasBody :: bool
  sr_contentType :: "string option"

datatype fetch_settled = FetchRejected js_exn | FetchAnswer sse_response

definition response_problem :: "sse_response \<Rightarrow> string option" where
  "response_problem res =
     (let contentType = (case sr_contentType res of Some c \<Rightarrow> to_lower c | None \<Rightarrow> [])
      in if \<not> (200 \<le> sr_status res \<and> sr_status res \<le> 299) \<or> \<not> sr_hasBody res then Some (''sse_http_'' @ print_nat (sr_status res))
         else if contentType \<noteq> [] \<and> \<not> str_includes contentType ''text/event-stream'' then Some ''sse_invalid_content_type''
         else None)"

text \<open>After every step of the loop: \<open>while (!closed)\<close>.\<close>

definition sse_continue :: "sse \<times> 'u \<Rightarrow> sse \<times> 'u" where
  "sse_continue su = (if ss_closed (fst su) then sse_finally su else su)"

definition sse_fetched :: "'u callbacks \<Rightarrow> fetch_settled \<Rightarrow> sse \<times> 'u \<Rightarrow> sse \<times> 'u" where
  "sse_fetched cb r su =
     (case r of
        FetchRejected err \<Rightarrow> sse_fail cb err su
      | FetchAnswer res \<Rightarrow>
          let su1 = ((fst su)\<lparr>ss_handshakeTimer := False\<rparr>, snd su)
          in case response_problem res of
               Some m \<Rightarrow> sse_fail cb (new_Error m) su1
             | None \<Rightarrow>
                 case invoke (cb_headers cb) su1 of
                   (Some err, su2) \<Rightarrow> sse_fail cb err su2
                 | (None, s2, u2) \<Rightarrow> sse_continue ((resetIdleTimer s2)\<lparr>ss_phase := Reading, ss_buffer := []\<rparr>, u2))"

section \<open>Reading the body\<close>

definition trimStart :: "string \<Rightarrow> string" where
  "trimStart s = dropWhile is_ws s"

definition done_message :: jsval where
  "done_message = Obj [(''done'', Bool True)]"

definition sse_line :: "'u callbacks \<Rightarrow> string \<Rightarrow> sse \<times> 'u \<Rightarrow> js_exn option \<times> sse \<times> 'u" where
  "sse_line cb line su =
     (if \<not> starts_with line ''data:'' then (None, su)
      else let raw = trimStart (drop 5 line)
           in if raw = ''[DONE]'' then invoke (cb_message cb done_message) su
              else case JSON_parse raw of
                None \<Rightarrow> invoke (cb_message cb (Str raw)) su
              | Some v \<Rightarrow>
                  case invoke (cb_message cb v) su of
                    (None, su') \<Rightarrow> (None, su')
                  | (Some _, su') \<Rightarrow> invoke (cb_message cb (Str raw)) su')"

fun sse_lines :: "'u callbacks \<Rightarrow> string list \<Rightarrow> sse \<times> 'u \<Rightarrow> js_exn option \<times> sse \<times> 'u" where
  "sse_lines cb [] su = (None, su)"
| "sse_lines cb (l # ls) su =
     (case sse_line cb l su of
        (Some err, su') \<Rightarrow> (Some err, su')
      | (None, su') \<Rightarrow> sse_lines cb ls su')"

datatype read_result = ReadRejected js_exn | ReadDone | ReadChunk string

definition sse_chunk :: "'u callbacks \<Rightarrow> string \<Rightarrow> sse \<times> 'u \<Rightarrow> sse \<times> 'u" where
  "sse_chunk cb chunk su =
     (let s1 = resetIdleTimer (fst su); buf = ss_buffer s1 @ chunk; s2 = s1\<lparr>ss_buffer := buf\<rparr>
      in if length buf > MAX_SSE_BUFFER_CHARS then sse_fail cb (new_Error ''sse_buffer_limit'') (s2, snd su)
         else let lines = split_char (CHR 0x0A) buf
              in case sse_lines cb (butlast lines) (s2\<lparr>ss_buffer := last lines\<rparr>, snd su) of
                   (Some err, su') \<Rightarrow> sse_fail cb err su'
                 | (None, su') \<Rightarrow> sse_continue su')"

definition sse_read :: "'u callbacks \<Rightarrow> read_result \<Rightarrow> sse \<times> 'u \<Rightarrow> sse \<times> 'u" where
  "sse_read cb r su =
     (case r of
        ReadRejected err \<Rightarrow> sse_fail cb err su
      | ReadDone \<Rightarrow> sse_finally su
      | ReadChunk chunk \<Rightarrow> sse_chunk cb chunk su)"

section \<open>Events\<close>

definition handshake_fires :: "sse \<Rightarrow> sse" where
  "handshake_fires s =
     (if ss_handshakeTimer s
      then s\<lparr>ss_handshakeTimer := False, ss_timeoutCode := Some ''sse_handshake_timeout'', ss_aborted := True\<rparr> else s)"

definition idle_fires :: "sse \<Rightarrow> sse" where
  "idle_fires s =
     (if ss_idleTimer s
      then s\<lparr>ss_idleTimer := False, ss_timeoutCode := Some ''sse_idle_timeout'', ss_aborted := True\<rparr> else s)"

datatype sse_event = Fetched fetch_settled | Read read_result | HandshakeFires | IdleFires | CloseCalled

text \<open>An answer arrives only where the stream waits for it; timers and \<open>close\<close> at any time.\<close>

fun sse_handle :: "'u callbacks \<Rightarrow> sse_event \<Rightarrow> sse \<times> 'u \<Rightarrow> sse \<times> 'u" where
  "sse_handle cb (Fetched r) su = (if ss_phase (fst su) = Connecting then sse_fetched cb r su else su)"
| "sse_handle cb (Read r) su = (if ss_phase (fst su) = Reading then sse_read cb r su else su)"
| "sse_handle cb HandshakeFires su = (handshake_fires (fst su), snd su)"
| "sse_handle cb IdleFires su = (idle_fires (fst su), snd su)"
| "sse_handle cb CloseCalled su = (sse_close (fst su), snd su)"

definition sse_run :: "'u callbacks \<Rightarrow> sse_event list \<Rightarrow> sse \<times> 'u \<Rightarrow> sse \<times> 'u" where
  "sse_run cb es su = fold (sse_handle cb) es su"

section \<open>Reconnecting\<close>

record 'v rc_callbacks =
  rq_message :: "jsval \<Rightarrow> 'v \<Rightarrow> reaction \<times> 'v"
  rq_error :: "js_exn \<Rightarrow> 'v \<Rightarrow> reaction \<times> 'v"
  rq_headers :: "'v \<Rightarrow> reaction \<times> 'v"
  rq_onStalled :: "'v \<Rightarrow> reaction \<times> 'v"
  rq_onReconnecting :: "nat \<Rightarrow> 'v \<Rightarrow> reaction \<times> 'v"
  rq_onReconnected :: "'v \<Rightarrow> reaction \<times> 'v"
  rq_maxRetries :: "nat option"

text \<open>
  The variables of \<open>createReconnectingSSE\<close>, the state of the caller and the number of
  messages the wrapper has seen.
\<close>

record 'v reconnecting =
  rc_attempt :: nat
  rc_closed :: bool
  rc_stalledTimer :: bool
  rc_reconnectTimer :: "nat option"
  rc_user :: 'v
  rc_messages :: nat

definition maxRetries :: "'v rc_callbacks \<Rightarrow> nat" where
  "maxRetries q = (case rq_maxRetries q of Some n \<Rightarrow> n | None \<Rightarrow> 3)"

text \<open>The outer \<open>close\<close>, less the call of \<open>close\<close> on the current stream.\<close>

definition rc_shut :: "'v reconnecting \<Rightarrow> 'v reconnecting" where
  "rc_shut r = r\<lparr>rc_closed := True, rc_stalledTimer := False, rc_reconnectTimer := None\<rparr>"

text \<open>A callback of the caller that closes, closes the outer handle; the stream is closed through the reaction.\<close>

definition rc_invoke :: "('v \<Rightarrow> reaction \<times> 'v) \<Rightarrow> 'v reconnecting \<Rightarrow> reaction \<times> 'v reconnecting" where
  "rc_invoke f r =
     (let (x, v) = f (rc_user r); r' = r\<lparr>rc_user := v\<rparr>
      in (x, if rx_closes x then rc_shut r' else r'))"

definition reconnectDelay :: "nat \<Rightarrow> nat" where
  "reconnectDelay attempt = min (1000 * 2 ^ (attempt - 1)) 8000"

definition resetStalledTimer :: "'v reconnecting \<Rightarrow> 'v reconnecting" where
  "resetStalledTimer r = r\<lparr>rc_stalledTimer := True\<rparr>"

definition rc_on_message :: "'v rc_callbacks \<Rightarrow> jsval \<Rightarrow> 'v reconnecting \<Rightarrow> reaction \<times> 'v reconnecting" where
  "rc_on_message q v r =
     rc_invoke (rq_message q v) (resetStalledTimer (r\<lparr>rc_attempt := 0, rc_messages := Suc (rc_messages r)\<rparr>))"

definition rc_on_error :: "'v rc_callbacks \<Rightarrow> js_exn \<Rightarrow> 'v reconnecting \<Rightarrow> reaction \<times> 'v reconnecting" where
  "rc_on_error q err r =
     (if rc_closed r then (quiet, r)
      else let r1 = r\<lparr>rc_stalledTimer := False\<rparr>
           in if rc_attempt r1 < maxRetries q
              then let r2 = r1\<lparr>rc_attempt := Suc (rc_attempt r1)\<rparr>; (x, r3) = rc_invoke (rq_onReconnecting q (rc_attempt r2)) r2
                   in if rx_throws x = None then (x, r3\<lparr>rc_reconnectTimer := Some (reconnectDelay (rc_attempt r2))\<rparr>) else (x, r3)
              else rc_invoke (rq_error q err) r1)"

definition rc_on_headers :: "'v rc_callbacks \<Rightarrow> 'v reconnecting \<Rightarrow> reaction \<times> 'v reconnecting" where
  "rc_on_headers q r =
     (let (x, r1) = (if rc_attempt r > 0 then rc_invoke (rq_onReconnected q) r else (quiet, r))
      in if rx_throws x \<noteq> None then (x, r1)
         else let (y, r2) = rc_invoke (rq_headers q) (resetStalledTimer r1)
              in (y\<lparr>rx_closes := rx_closes x \<or> rx_closes y\<rparr>, r2))"

definition rc_stream_callbacks :: "'v rc_callbacks \<Rightarrow> 'v reconnecting callbacks" where
  "rc_stream_callbacks q = \<lparr>cb_message = rc_on_message q, cb_error = rc_on_error q, cb_headers = rc_on_headers q\<rparr>"

text \<open>The current handle, the requests sent so far and the variables above.\<close>

record 'v rc_world =
  rw_stream :: sse
  rw_rc :: "'v reconnecting"
  rw_sent :: "sse_fetch list"

definition rc_connect :: "sse_fetch \<Rightarrow> 'v rc_world \<Rightarrow> 'v rc_world" where
  "rc_connect req w =
     (if rc_closed (rw_rc w) then w else w\<lparr>rw_stream := new_sse, rw_sent := rw_sent w @ [req]\<rparr>)"

datatype rc_event = StreamEvent sse_event | ReconnectFires | StalledFires | RcClose

text \<open>The inner handle is private: a stream is closed through the outer \<open>close\<close> only.\<close>

fun rc_handle :: "'v rc_callbacks \<Rightarrow> sse_fetch \<Rightarrow> rc_event \<Rightarrow> 'v rc_world \<Rightarrow> 'v rc_world" where
  "rc_handle q req (StreamEvent e) w =
     (if e = CloseCalled then w
      else let (s, r) = sse_handle (rc_stream_callbacks q) e (rw_stream w, rw_rc w)
           in w\<lparr>rw_stream := s, rw_rc := r\<rparr>)"
| "rc_handle q req ReconnectFires w =
     (case rc_reconnectTimer (rw_rc w) of
        None \<Rightarrow> w
      | Some _ \<Rightarrow> rc_connect req (w\<lparr>rw_rc := (rw_rc w)\<lparr>rc_reconnectTimer := None\<rparr>\<rparr>))"
| "rc_handle q req StalledFires w =
     (if rc_stalledTimer (rw_rc w)
      then let r = (rw_rc w)\<lparr>rc_stalledTimer := False\<rparr>
           in if rc_closed r then w\<lparr>rw_rc := r\<rparr>
              else let (x, r') = rc_invoke (rq_onStalled q) r
                   in w\<lparr>rw_rc := r', rw_stream := (if rx_closes x then sse_close (rw_stream w) else rw_stream w)\<rparr>
      else w)"
| "rc_handle q req RcClose w = w\<lparr>rw_rc := rc_shut (rw_rc w), rw_stream := sse_close (rw_stream w)\<rparr>"

definition rc_run :: "'v rc_callbacks \<Rightarrow> sse_fetch \<Rightarrow> rc_event list \<Rightarrow> 'v rc_world \<Rightarrow> 'v rc_world" where
  "rc_run q req es w = fold (rc_handle q req) es w"

text \<open>The first call of \<open>connect\<close>, in \<open>createReconnectingSSE\<close> itself; an invalid URL is thrown to the caller.\<close>

definition createReconnectingSSE ::
    "runtime \<Rightarrow> (string \<Rightarrow> string \<Rightarrow> url option) \<Rightarrow> window_env \<Rightarrow> string \<Rightarrow> string \<Rightarrow> string \<Rightarrow> SSEOptions \<Rightarrow> 'v \<Rightarrow> 'v rc_world result" where
  "createReconnectingSSE rt new_URL_base we baseUrl relativePath token opts user =
     bind_result (createSSEStream rt new_URL_base we baseUrl relativePath token opts)
       (\<lambda>(s, req). Inr \<lparr>rw_stream = s,
          rw_rc = \<lparr>rc_attempt = 0, rc_closed = False, rc_stalledTimer = False, rc_reconnectTimer = None, rc_user = user, rc_messages = 0\<rparr>,
          rw_sent = [req]\<rparr>)"

end
