(* ===== verification/SseProps.thy ===== *)
theory SseProps
  imports Sse
begin

text \<open>
  What the event-stream client promises: framing does not depend on the chunks, its buffer
  and timers are bounded by the state machine, an error is reported at most once and never
  after \<open>close\<close>, and reconnection is bounded by what the server delivers.
\<close>

section \<open>Lines touch the stream only by closing it\<close>

lemma sse_close_fields [simp]:
  "ss_closed (sse_close s)" "\<not> ss_handshakeTimer (sse_close s)" "\<not> ss_idleTimer (sse_close s)"
  "ss_phase (sse_close s) = ss_phase s" "ss_buffer (sse_close s) = ss_buffer s" "ss_timeoutCode (sse_close s) = ss_timeoutCode s"
  by (simp_all add: sse_close_def clearTimers_def)

lemma sse_close_idem [simp]: "sse_close (sse_close s) = sse_close s"
  by (simp add: sse_close_def clearTimers_def)

lemma invoke_stream: "fst (snd (invoke f su)) \<in> {fst su, sse_close (fst su)}"
  by (simp add: invoke_def case_prod_unfold Let_def)

lemma invoke_map:
  assumes "\<And>s. g (sse_close s) = sse_close (g s)"
  shows "invoke f (apfst g su) = apsnd (apfst g) (invoke f su)"
  using assms by (simp add: invoke_def case_prod_unfold Let_def)

lemma sse_line_stream: "fst (snd (sse_line cb l su)) \<in> {fst su, sse_close (fst su)}"
proof (cases "JSON_parse (trimStart (drop 5 l))")
  case (Some v)
  let ?second = "invoke (cb_message cb (Str (trimStart (drop 5 l))))"
  obtain e su' where i: "invoke (cb_message cb v) su = (e, su')" by (cases "invoke (cb_message cb v) su") simp
  with invoke_stream [of "cb_message cb v" su] have "fst su' \<in> {fst su, sse_close (fst su)}" by simp
  with invoke_stream [of "cb_message cb (Str (trimStart (drop 5 l)))" su'] have "fst (snd (?second su')) \<in> {fst su, sse_close (fst su)}"
    by auto
  with i Some invoke_stream [of "cb_message cb done_message" su] invoke_stream [of "cb_message cb v" su] show ?thesis
    by (cases e) (simp_all add: sse_line_def Let_def)
qed (use invoke_stream [of _ su] in \<open>simp add: sse_line_def Let_def\<close>)

lemma sse_line_map:
  assumes "\<And>s. g (sse_close s) = sse_close (g s)"
  shows "sse_line cb l (apfst g su) = apsnd (apfst g) (sse_line cb l su)"
proof (cases "JSON_parse (trimStart (drop 5 l))")
  case (Some v)
  obtain e su' where i: "invoke (cb_message cb v) su = (e, su')" by (cases "invoke (cb_message cb v) su") simp
  with Some show ?thesis
    by (cases e) (simp_all add: sse_line_def Let_def invoke_map [of g, OF assms])
qed (simp add: sse_line_def Let_def invoke_map [of g, OF assms])

lemma sse_lines_stream: "fst (snd (sse_lines cb ls su)) \<in> {fst su, sse_close (fst su)}"
proof (induction ls arbitrary: su)
  case (Cons l ls)
  obtain e su' where l: "sse_line cb l su = (e, su')" by (cases "sse_line cb l su") simp
  with sse_line_stream [of cb l su] have "fst su' \<in> {fst su, sse_close (fst su)}" by simp
  with Cons [of su'] l show ?case by (cases e) auto
qed simp

lemma sse_lines_map:
  assumes "\<And>s. g (sse_close s) = sse_close (g s)"
  shows "sse_lines cb ls (apfst g su) = apsnd (apfst g) (sse_lines cb ls su)"
proof (induction ls arbitrary: su)
  case (Cons l ls)
  obtain e su' where l: "sse_line cb l su = (e, su')" by (cases "sse_line cb l su") simp
  with Cons show ?case by (cases e) (simp_all add: sse_line_map [of g, OF assms])
qed simp

lemma sse_lines_append:
  "sse_lines cb (ls @ ms) su =
     (case sse_lines cb ls su of (Some err, su') \<Rightarrow> (Some err, su') | (None, su') \<Rightarrow> sse_lines cb ms su')"
  by (induction ls arbitrary: su) (auto split: option.splits prod.splits)

lemma sse_finally_fields [simp]:
  "ss_phase (fst (sse_finally su)) = Finished" "\<not> ss_handshakeTimer (fst (sse_finally su))"
  "\<not> ss_idleTimer (fst (sse_finally su))" "snd (sse_finally su) = snd su" "ss_closed (fst (sse_finally su)) = ss_closed (fst su)"
  by (simp_all add: sse_finally_def clearTimers_def)

lemma sse_fail_fields [simp]:
  "ss_phase (fst (sse_fail cb err su)) = Finished" "\<not> ss_handshakeTimer (fst (sse_fail cb err su))"
  "\<not> ss_idleTimer (fst (sse_fail cb err su))"
  by (simp_all add: sse_fail_def)

lemma sse_fail_closed [simp]: "ss_closed (fst su) \<Longrightarrow> sse_fail cb err su = sse_finally su"
  by (simp add: sse_fail_def sse_catch_def)

section \<open>Chunks\<close>

text \<open>A chunk after which the stream goes on was delivered line by line, with the stream untouched.\<close>

lemma sse_chunk_goes_on:
  assumes "sse_chunk cb chunk (s, u) = (s', u')" "ss_phase s' = Reading"
  shows "length (ss_buffer s @ chunk) \<le> MAX_SSE_BUFFER_CHARS \<and> \<not> ss_closed s'
    \<and> s' = (resetIdleTimer s)\<lparr>ss_buffer := last (split_char (CHR 0x0A) (ss_buffer s @ chunk))\<rparr>
    \<and> sse_lines cb (butlast (split_char (CHR 0x0A) (ss_buffer s @ chunk))) (s', u) = (None, s', u')"
proof -
  let ?ls = "split_char (CHR 0x0A) (ss_buffer s @ chunk)" and ?s = "(resetIdleTimer s)\<lparr>ss_buffer := last (split_char (CHR 0x0A) (ss_buffer s @ chunk))\<rparr>"
  have small: "length (ss_buffer s @ chunk) \<le> MAX_SSE_BUFFER_CHARS"
    using assms by (rule_tac ccontr) (auto simp: sse_chunk_def resetIdleTimer_def dest!: arg_cong [where f = fst] arg_cong [where f = ss_phase])
  obtain e s2 u2 where l: "sse_lines cb (butlast ?ls) (?s, u) = (e, s2, u2)" by (metis prod_cases3)
  from assms(1) small l have r: "(s', u') = (case e of Some err \<Rightarrow> sse_fail cb err (s2, u2) | None \<Rightarrow> sse_continue (s2, u2))"
    by (auto simp: sse_chunk_def resetIdleTimer_def Let_def split: option.splits)
  with assms(2) have e: "e = None"
    by (cases e) (auto dest!: arg_cong [where f = fst] arg_cong [where f = ss_phase])
  with r assms(2) have c: "\<not> ss_closed s2" "s' = s2" "u' = u2"
    by (auto simp: sse_continue_def split: if_splits dest!: arg_cong [where f = fst] arg_cong [where f = ss_phase])
  from sse_lines_stream [of cb "butlast ?ls" "(?s, u)"] l c(1) have "s2 = ?s" by auto
  with small l e c show ?thesis by simp
qed

lemma resetIdle_commutes:
  "(resetIdleTimer s)\<lparr>ss_buffer := b\<rparr> = s\<lparr>ss_idleTimer := True, ss_buffer := b\<rparr>"
  by (simp add: resetIdleTimer_def)

text \<open>
  C23. Framing is independent of how the network cuts the stream: two chunks read one after the
  other call the same callbacks and leave the same stream as their concatenation, as long
  as the stream goes on after the first (no handler closed it or threw twice) and the
  buffer limit is not reached.
\<close>

theorem sse_chunk_independent:
  assumes first: "sse_read cb (ReadChunk a) (s, u) = (s1, u1)" and on: "ss_phase s1 = Reading"
    and small: "length (ss_buffer s @ a @ b) \<le> MAX_SSE_BUFFER_CHARS"
  shows "sse_read cb (ReadChunk b) (s1, u1) = sse_read cb (ReadChunk (a @ b)) (s, u)"
proof -
  let ?nl = "CHR 0x0A"
  let ?la = "split_char ?nl (ss_buffer s @ a)" and ?lb = "split_char ?nl (last (split_char ?nl (ss_buffer s @ a)) @ b)"
  note a = sse_chunk_goes_on [OF first [unfolded sse_read_def read_result.case] on]
  have split: "split_char ?nl (ss_buffer s @ a @ b) = butlast ?la @ ?lb"
    using split_char_append_last [of ?nl "ss_buffer s @ a" b] by simp
  hence parts: "butlast (split_char ?nl (ss_buffer s @ a @ b)) = butlast ?la @ butlast ?lb"
      "last (split_char ?nl (ss_buffer s @ a @ b)) = last ?lb"
    by (simp_all add: butlast_append)
  have "sse_lines cb (butlast ?la) (apfst (\<lambda>t. t\<lparr>ss_buffer := last ?lb\<rparr>) (s1, u)) = (None, s1\<lparr>ss_buffer := last ?lb\<rparr>, u1)"
    using a [THEN conjunct2, THEN conjunct2, THEN conjunct2]
    by (subst sse_lines_map) (simp_all only: sse_close_def clearTimers_def apsnd_conv apfst_conv sse.simps, simp)
  hence run: "sse_lines cb (butlast ?la @ butlast ?lb) (s\<lparr>ss_idleTimer := True, ss_buffer := last ?lb\<rparr>, u)
     = sse_lines cb (butlast ?lb) (s\<lparr>ss_idleTimer := True, ss_buffer := last ?lb\<rparr>, u1)"
    using a by (simp add: sse_lines_append resetIdleTimer_def)
  have "length (last ?la @ b) \<le> MAX_SSE_BUFFER_CHARS"
    using small length_last_split [of ?nl "ss_buffer s @ a"] by simp
  with a small parts run show ?thesis
    by (simp add: sse_read_def sse_chunk_def resetIdleTimer_def Let_def)
qed

text \<open>A stream in the middle of a body, and the handler that only records what it is given.\<close>

definition recording :: "jsval list callbacks" where
  "recording = \<lparr>cb_message = \<lambda>v u. (quiet, u @ [v]), cb_error = \<lambda>e u. (quiet, u), cb_headers = \<lambda>u. (quiet, u)\<rparr>"

definition mid_stream :: sse where
  "mid_stream = \<lparr>ss_phase = Reading, ss_closed = False, ss_timeoutCode = None, ss_handshakeTimer = False,
                 ss_idleTimer = True, ss_aborted = False, ss_buffer = ''da''\<rparr>"

lemma mid_stream_number: "JSON_parse ''1'' = Some (Num (Fin 1))"
  by code_simp

lemma mid_stream_first:
  "sse_read recording (ReadChunk (''ta: 1'' @ [CHR 0x0A] @ ''data:'')) (mid_stream, []) = (mid_stream\<lparr>ss_buffer := ''data:''\<rparr>, [Num (Fin 1)])"
  by (simp add: sse_read_def sse_chunk_def sse_line_def sse_continue_def invoke_def resetIdleTimer_def mid_stream_def
        recording_def quiet_def MAX_SSE_BUFFER_CHARS_def trimStart_def is_ws_def mid_stream_number Let_def)

theorem sse_chunk_independent_witness:
  "sse_read recording (ReadChunk (''2'' @ [CHR 0x0A])) (mid_stream\<lparr>ss_buffer := ''data:''\<rparr>, [Num (Fin 1)])
     = sse_read recording (ReadChunk ((''ta: 1'' @ [CHR 0x0A] @ ''data:'') @ ''2'' @ [CHR 0x0A])) (mid_stream, [])"
  by (rule sse_chunk_independent [OF mid_stream_first]) (simp_all add: mid_stream_def MAX_SSE_BUFFER_CHARS_def)

section \<open>What a stream keeps\<close>

definition phase_keeps :: "('u \<Rightarrow> bool) \<Rightarrow> ('u \<Rightarrow> bool) \<Rightarrow> sse \<times> 'u \<Rightarrow> bool" where
  "phase_keeps J K su = (if ss_phase (fst su) = Finished then K (snd su) else J (snd su))"

text \<open>
  The contract between the stream and callbacks: \<open>J\<close> holds of the caller's state while no
  error has been reported and every message and header keeps it; the error callback may
  weaken it to \<open>K\<close>.  Then the stream keeps \<open>J\<close> until it has finished, and \<open>K\<close> from then on.
\<close>

locale callbacks_keep =
  fixes cb :: "'u callbacks" and J K :: "'u \<Rightarrow> bool"
  assumes message: "J u \<Longrightarrow> J (snd (cb_message cb v u))"
    and headers: "J u \<Longrightarrow> J (snd (cb_headers cb u))"
    and error: "J u \<Longrightarrow> K (snd (cb_error cb e u))"
    and weaker: "J u \<Longrightarrow> K u"
begin

lemma invoke_keeps:
  assumes "J (snd su)"
  shows "J (snd (snd (invoke (cb_message cb v) su)))" "J (snd (snd (invoke (cb_headers cb) su)))"
    "K (snd (snd (invoke (cb_error cb e) su)))"
  using assms by (simp_all add: invoke_def case_prod_unfold Let_def message headers error)

lemma fail_K: "J (snd su) \<Longrightarrow> K (snd (sse_fail cb err su))"
  using invoke_keeps(3) weaker by (auto simp: sse_fail_def sse_catch_def split: option.splits)

lemma line_J: "J (snd su) \<Longrightarrow> J (snd (snd (sse_line cb l su)))"
proof (cases "JSON_parse (trimStart (drop 5 l))")
  case (Some v)
  assume J: "J (snd su)"
  obtain e su' where i: "invoke (cb_message cb v) su = (e, su')" by (cases "invoke (cb_message cb v) su") simp
  from invoke_keeps(1) [OF J, of v] i have "J (snd su')" by simp
  with J Some i show ?thesis
    using invoke_keeps(1) by (cases e) (simp_all add: sse_line_def Let_def)
qed (use invoke_keeps(1) in \<open>simp add: sse_line_def Let_def\<close>)

lemma lines_J: "J (snd su) \<Longrightarrow> J (snd (snd (sse_lines cb ls su)))"
proof (induction ls arbitrary: su)
  case (Cons l ls)
  obtain e su' where l: "sse_line cb l su = (e, su')" by (cases "sse_line cb l su") simp
  with line_J [OF Cons.prems, of l] have "J (snd su')" by simp
  with Cons.IH l show ?case by (cases e) simp_all
qed simp

lemma continue_keeps: "J (snd su) \<Longrightarrow> phase_keeps J K (sse_continue su)"
  using weaker by (auto simp: phase_keeps_def sse_continue_def)

lemma fail_keeps: "J (snd su) \<Longrightarrow> phase_keeps J K (sse_fail cb err su)"
  by (simp add: phase_keeps_def fail_K)

lemma chunk_keeps: "J (snd su) \<Longrightarrow> phase_keeps J K (sse_chunk cb chunk su)"
proof -
  assume J: "J (snd su)"
  let ?ls = "split_char (CHR 0x0A) (ss_buffer (fst su) @ chunk)"
  let ?s = "(fst su)\<lparr>ss_idleTimer := True, ss_buffer := last ?ls\<rparr>"
  obtain e su' where l: "sse_lines cb (butlast ?ls) (?s, snd su) = (e, su')"
    by (cases "sse_lines cb (butlast ?ls) (?s, snd su)") simp
  with lines_J [of "(?s, snd su)" "butlast ?ls"] J have "J (snd su')" by simp
  with J l show ?thesis
    by (cases e) (simp_all add: sse_chunk_def resetIdleTimer_def Let_def fail_keeps continue_keeps)
qed

lemma fetched_keeps: "J (snd su) \<Longrightarrow> phase_keeps J K (sse_fetched cb r su)"
proof (cases r)
  case (FetchAnswer res)
  assume J: "J (snd su)"
  let ?su = "((fst su)\<lparr>ss_handshakeTimer := False\<rparr>, snd su)"
  obtain e s2 u2 where i: "invoke (cb_headers cb) ?su = (e, s2, u2)" by (metis prod_cases3)
  from invoke_keeps(2) [of ?su] J i have "J u2" by simp
  with FetchAnswer J i show ?thesis
    by (cases e; cases "response_problem res") (simp_all add: sse_fetched_def Let_def fail_keeps continue_keeps)
qed (simp add: sse_fetched_def fail_keeps)

lemma handle_keeps: "phase_keeps J K su \<Longrightarrow> phase_keeps J K (sse_handle cb ev su)"
proof (cases ev)
  case (Fetched r)
  assume "phase_keeps J K su"
  with Fetched fetched_keeps [of su r] show ?thesis by (auto simp: phase_keeps_def)
next
  case (Read r)
  assume "phase_keeps J K su"
  with Read chunk_keeps [of su] fail_keeps [of su] weaker show ?thesis
    by (cases r) (auto simp: phase_keeps_def sse_read_def)
qed (auto simp: phase_keeps_def handshake_fires_def idle_fires_def)

lemma run_keeps: "phase_keeps J K su \<Longrightarrow> phase_keeps J K (sse_run cb es su)"
  unfolding sse_run_def by (induction es arbitrary: su) (simp_all add: handle_keeps)

text \<open>A closed stream stays closed and reports no error: \<open>J\<close> is kept, not only \<open>K\<close>.\<close>

lemma closed_handle:
  assumes "ss_closed (fst su)" "J (snd su)"
  shows "ss_closed (fst (sse_handle cb ev su)) \<and> J (snd (sse_handle cb ev su))"
proof -
  have inv: "ss_closed (fst (snd (invoke f su1)))" if "ss_closed (fst su1)" for f su1
    using that invoke_stream [of f su1] by auto
  have chunk: "ss_closed (fst (sse_chunk cb chunk su)) \<and> J (snd (sse_chunk cb chunk su))" for chunk
  proof -
    let ?ls = "split_char (CHR 0x0A) (ss_buffer (fst su) @ chunk)"
    let ?s = "(fst su)\<lparr>ss_idleTimer := True, ss_buffer := last ?ls\<rparr>"
    obtain e su' where l: "sse_lines cb (butlast ?ls) (?s, snd su) = (e, su')"
      by (cases "sse_lines cb (butlast ?ls) (?s, snd su)") simp
    from lines_J [of "(?s, snd su)" "butlast ?ls"] sse_lines_stream [of cb "butlast ?ls" "(?s, snd su)"] l assms
    have "J (snd su')" "ss_closed (fst su')" by auto
    with assms l show ?thesis
      by (cases e) (simp_all add: sse_chunk_def resetIdleTimer_def Let_def sse_continue_def)
  qed
  have fetched: "ss_closed (fst (sse_fetched cb (FetchAnswer res) su)) \<and> J (snd (sse_fetched cb (FetchAnswer res) su))" for res
  proof -
    let ?su = "((fst su)\<lparr>ss_handshakeTimer := False\<rparr>, snd su)"
    obtain e s2 u2 where i: "invoke (cb_headers cb) ?su = (e, s2, u2)" by (metis prod_cases3)
    from invoke_keeps(2) [of ?su] assms i inv [of ?su "cb_headers cb"] have "J u2" "ss_closed s2" by simp_all
    with assms i show ?thesis
      by (cases e; cases "response_problem res") (simp_all add: sse_fetched_def Let_def sse_continue_def resetIdleTimer_def)
  qed
  show ?thesis
  proof (cases ev)
    case (Fetched r)
    with assms fetched show ?thesis by (cases r) (auto simp: sse_fetched_def)
  next
    case (Read r)
    with assms chunk show ?thesis by (cases r) (auto simp: sse_read_def)
  qed (use assms in \<open>auto simp: handshake_fires_def idle_fires_def\<close>)
qed

lemma closed_run: "ss_closed (fst su) \<Longrightarrow> J (snd su) \<Longrightarrow> J (snd (sse_run cb es su))"
  unfolding sse_run_def by (induction es arbitrary: su) (simp_all add: closed_handle)

end

section \<open>Buffer and timers\<close>

definition sse_inv :: "sse \<Rightarrow> bool" where
  "sse_inv s =
     ((ss_phase s = Reading \<longrightarrow> length (ss_buffer s) \<le> MAX_SSE_BUFFER_CHARS \<and> CHR 0x0A \<notin> set (ss_buffer s))
      \<and> (ss_handshakeTimer s \<longrightarrow> ss_phase s = Connecting) \<and> (ss_idleTimer s \<longrightarrow> ss_phase s = Reading)
      \<and> (ss_closed s \<longrightarrow> \<not> ss_handshakeTimer s \<and> \<not> ss_idleTimer s))"

lemma sse_inv_finished: "ss_phase s = Finished \<Longrightarrow> \<not> ss_handshakeTimer s \<Longrightarrow> \<not> ss_idleTimer s \<Longrightarrow> sse_inv s"
  by (simp add: sse_inv_def)

lemma sse_inv_fail: "sse_inv (fst (sse_fail cb err su))" and sse_inv_finally: "sse_inv (fst (sse_finally su))"
  by (simp_all add: sse_inv_finished)

lemma sse_inv_chunk:
  assumes "ss_phase (fst su) = Reading" "sse_inv (fst su)"
  shows "sse_inv (fst (sse_chunk cb chunk su))"
proof (cases "ss_phase (fst (sse_chunk cb chunk su)) = Reading")
  case True
  obtain s' u' where r: "sse_chunk cb chunk (fst su, snd su) = (s', u')" by (cases "sse_chunk cb chunk su") simp
  with True have "ss_phase s' = Reading" by simp
  note on = sse_chunk_goes_on [OF r this]
  from on length_last_split [of "CHR 0x0A" "ss_buffer (fst su) @ chunk"] last_split_no_sep [of "CHR 0x0A" "ss_buffer (fst su) @ chunk"]
    assms r show ?thesis
    by (simp add: sse_inv_def resetIdleTimer_def del: length_append) (auto simp: le_trans)
next
  case False
  let ?ls = "split_char (CHR 0x0A) (ss_buffer (fst su) @ chunk)"
  let ?s = "(fst su)\<lparr>ss_idleTimer := True, ss_buffer := last ?ls\<rparr>"
  obtain e su' where l: "sse_lines cb (butlast ?ls) (?s, snd su) = (e, su')"
    by (cases "sse_lines cb (butlast ?ls) (?s, snd su)") simp
  with sse_lines_stream [of cb "butlast ?ls" "(?s, snd su)"] assms have "ss_phase (fst su') = Reading" by auto
  with False l show ?thesis
    by (cases e) (auto simp: sse_chunk_def resetIdleTimer_def Let_def sse_continue_def sse_inv_fail sse_inv_finally split: if_splits)
qed

lemma sse_inv_fetched:
  assumes "ss_phase (fst su) = Connecting" "sse_inv (fst su)"
  shows "sse_inv (fst (sse_fetched cb r su))"
proof (cases r)
  case (FetchAnswer res)
  let ?su = "((fst su)\<lparr>ss_handshakeTimer := False\<rparr>, snd su)"
  obtain e s2 u2 where i: "invoke (cb_headers cb) ?su = (e, s2, u2)" by (metis prod_cases3)
  with invoke_stream [of "cb_headers cb" ?su] have "\<not> ss_handshakeTimer s2" by auto
  with FetchAnswer i show ?thesis
    by (cases e; cases "response_problem res")
       (simp_all add: sse_fetched_def Let_def sse_inv_fail sse_inv_finally sse_continue_def,
        simp add: sse_inv_def resetIdleTimer_def)
qed (simp add: sse_fetched_def sse_inv_fail)

lemma sse_inv_handle: "sse_inv (fst su) \<Longrightarrow> sse_inv (fst (sse_handle cb ev su))"
proof (cases ev)
  case (Read r)
  assume "sse_inv (fst su)"
  with Read show ?thesis by (cases r) (simp_all add: sse_read_def sse_inv_chunk sse_inv_fail sse_inv_finally)
qed (simp_all add: sse_inv_fetched, auto simp: sse_inv_def handshake_fires_def idle_fires_def)

definition sse_step :: "'u callbacks \<Rightarrow> sse \<times> 'u \<Rightarrow> sse \<times> 'u \<Rightarrow> bool" where
  "sse_step cb su su' = (\<exists>ev. su' = sse_handle cb ev su)"

lemma sse_run_steps: "rtranclp (sse_step cb) su (sse_run cb es su)"
proof (induction es arbitrary: su)
  case (Cons e es)
  have "sse_step cb su (sse_handle cb e su)" by (auto simp: sse_step_def)
  from converse_rtranclp_into_rtranclp [of "sse_step cb", OF this Cons] show ?case by (simp add: sse_run_def)
qed (simp add: sse_run_def)

interpretation sse: step_invariant "(new_sse, u)" "sse_step cb" "\<lambda>su. sse_inv (fst su)" for u cb
  by unfold_locales (auto simp: sse_step_def sse_inv_handle, simp add: sse_inv_def new_sse_def)

text \<open>
  C24. Whatever the server, the timers and the handlers do, in any order: an open stream holds
  at most \<open>MAX_SSE_BUFFER_CHARS\<close> characters, none of them a line end, between two
  reads; the handshake timer runs only until the answer, the idle timer only while
  reading; no timer survives the end of the stream or a call of \<open>close\<close>.
\<close>

theorem sse_buffer_and_timers:
  "case sse_run cb es (new_sse, u) of (s, u') \<Rightarrow>
     (ss_phase s = Reading \<longrightarrow> length (ss_buffer s) \<le> MAX_SSE_BUFFER_CHARS \<and> CHR 0x0A \<notin> set (ss_buffer s))
     \<and> (ss_handshakeTimer s \<longrightarrow> ss_phase s = Connecting) \<and> (ss_idleTimer s \<longrightarrow> ss_phase s = Reading)
     \<and> (ss_closed s \<longrightarrow> \<not> ss_handshakeTimer s \<and> \<not> ss_idleTimer s)"
  using sse.inv_reachable [of cb u, OF sse_run_steps, of es] by (auto simp: sse_inv_def split: prod.split)

definition accepted_answer :: sse_event where
  "accepted_answer = Fetched (FetchAnswer \<lparr>sr_status = 200, sr_hasBody = True, sr_contentType = None\<rparr>)"

lemma accepted_run:
  "sse_run recording [accepted_answer] (new_sse, []) = (mid_stream\<lparr>ss_buffer := []\<rparr>, [])"
  by (simp add: sse_run_def accepted_answer_def new_sse_def sse_fetched_def response_problem_def invoke_def recording_def quiet_def
        resetIdleTimer_def sse_continue_def mid_stream_def Let_def)

theorem sse_buffer_and_timers_witness:
  "ss_phase (mid_stream\<lparr>ss_buffer := []\<rparr>) = Reading \<and> length (ss_buffer (mid_stream\<lparr>ss_buffer := []\<rparr>)) \<le> MAX_SSE_BUFFER_CHARS
   \<and> ss_idleTimer (mid_stream\<lparr>ss_buffer := []\<rparr>) \<and> \<not> ss_handshakeTimer (mid_stream\<lparr>ss_buffer := []\<rparr>)"
  using sse_buffer_and_timers [of recording "[accepted_answer]" "[]"] unfolding accepted_run by (simp add: mid_stream_def)

section \<open>Errors\<close>

text \<open>Callbacks beside a counter of the calls of \<open>onError\<close>.\<close>

definition counting :: "'u callbacks \<Rightarrow> ('u \<times> nat) callbacks" where
  "counting cb =
     \<lparr>cb_message = \<lambda>v (u, n). (let (x, u') = cb_message cb v u in (x, u', n)),
      cb_error = \<lambda>e (u, n). (let (x, u') = cb_error cb e u in (x, u', Suc n)),
      cb_headers = \<lambda>(u, n). (let (x, u') = cb_headers cb u in (x, u', n))\<rparr>"

interpretation counted: callbacks_keep "counting cb" "\<lambda>un. snd un = n" "\<lambda>un. snd un \<in> {n, Suc n}" for cb n
  by unfold_locales (auto simp: counting_def case_prod_unfold Let_def)

lemma sse_run_append: "sse_run cb (es @ fs) su = sse_run cb fs (sse_run cb es su)"
  by (simp add: sse_run_def)

text \<open>
  A stream reports at most one error, and none before it has finished; once \<open>close\<close>
  has been called it reports none at all, whatever arrives later.
\<close>

theorem sse_error_at_most_once:
  assumes "sse_run (counting cb) es (new_sse, u, 0) = (s, v, n)"
    and "sse_run (counting cb) (CloseCalled # fs) (s, v, n) = (s', v', n')"
  shows "n \<le> 1 \<and> (ss_phase s \<noteq> Finished \<longrightarrow> n = 0) \<and> n' = n"
proof -
  have "phase_keeps (\<lambda>un. snd un = 0) (\<lambda>un. snd un \<in> {0, Suc 0}) (new_sse, u, 0)"
    by (simp add: phase_keeps_def new_sse_def)
  from counted.run_keeps [OF this, of cb es] assms(1) have "n \<le> 1" "ss_phase s \<noteq> Finished \<longrightarrow> n = 0"
    by (auto simp: phase_keeps_def split: if_splits)
  moreover have "sse_run (counting cb) (CloseCalled # fs) (s, v, n) = sse_run (counting cb) fs (sse_close s, v, n)"
    by (simp add: sse_run_def)
  with counted.closed_run [of "(sse_close s, v, n)" n cb fs] assms(2) have "n' = n" by simp
  ultimately show ?thesis by simp
qed

definition refused :: sse_event where
  "refused = Fetched (FetchAnswer \<lparr>sr_status = 503, sr_hasBody = True, sr_contentType = None\<rparr>)"

lemma refused_run:
  "sse_run (counting recording) [refused] (new_sse, [], 0)
     = (\<lparr>ss_phase = Finished, ss_closed = False, ss_timeoutCode = None, ss_handshakeTimer = False,
         ss_idleTimer = False, ss_aborted = False, ss_buffer = []\<rparr>, [], 1)"
  by (simp add: sse_run_def refused_def new_sse_def sse_fetched_def response_problem_def sse_fail_def sse_catch_def sse_finally_def
        clearTimers_def invoke_def counting_def recording_def quiet_def new_Error_def Let_def)

theorem sse_error_at_most_once_witness:
  "\<exists>s v. sse_run (counting recording) [refused] (new_sse, [], 0) = (s, v, 1) \<and> ss_phase s = Finished
     \<and> snd (snd (sse_run (counting recording) [CloseCalled, refused] (s, v, 1))) = 1"
  using sse_error_at_most_once [OF refused_run, of "[refused]"] refused_run
  by (metis (no_types, lifting) prod.collapse sse.select_convs(1))

section \<open>Reconnection\<close>

definition rc_quiet :: "'v reconnecting \<Rightarrow> bool" where
  "rc_quiet r = (rc_reconnectTimer r = None)"

text \<open>The retries a connection may still use: those left until the next message, and the one that is scheduled.\<close>

definition rc_budget :: "nat \<Rightarrow> nat \<Rightarrow> 'v reconnecting \<Rightarrow> bool" where
  "rc_budget m n r =
     (rc_attempt r \<le> m \<and> n + (if rc_reconnectTimer r = None then 0 else 1) + (m - rc_attempt r) \<le> 1 + m * (1 + rc_messages r)
      \<and> (\<forall>d. rc_reconnectTimer r = Some d \<longrightarrow> 1000 \<le> d \<and> d \<le> 8000))"

lemma reconnectDelay_bounds: "1000 \<le> reconnectDelay k" "reconnectDelay k \<le> 8000"
  by (simp_all add: reconnectDelay_def)

lemma rc_invoke_fields:
  "rc_attempt (snd (rc_invoke f r)) = rc_attempt r" "rc_messages (snd (rc_invoke f r)) = rc_messages r"
  "rc_reconnectTimer (snd (rc_invoke f r)) \<in> {None, rc_reconnectTimer r}"
  by (simp_all add: rc_invoke_def rc_shut_def case_prod_unfold Let_def)

lemma rc_on_message_keeps:
  assumes "rc_quiet r" "rc_budget (maxRetries q) n r"
  shows "rc_quiet (snd (rc_on_message q v r)) \<and> rc_budget (maxRetries q) n (snd (rc_on_message q v r))"
  using assms rc_invoke_fields [of "rq_message q v" "resetStalledTimer (r\<lparr>rc_attempt := 0, rc_messages := Suc (rc_messages r)\<rparr>)"]
  by (auto simp: rc_on_message_def rc_quiet_def rc_budget_def resetStalledTimer_def)

lemma rc_on_headers_keeps:
  assumes "rc_quiet r" "rc_budget (maxRetries q) n r"
  shows "rc_quiet (snd (rc_on_headers q r)) \<and> rc_budget (maxRetries q) n (snd (rc_on_headers q r))"
proof -
  obtain x r1 where 1: "(if rc_attempt r > 0 then rc_invoke (rq_onReconnected q) r else (quiet, r)) = (x, r1)" by fastforce
  with assms rc_invoke_fields [of "rq_onReconnected q" r] have r1: "rc_quiet r1" "rc_budget (maxRetries q) n r1"
    by (auto simp: rc_quiet_def rc_budget_def split: if_splits)
  then show ?thesis
    using 1 rc_invoke_fields [of "rq_headers q" "resetStalledTimer r1"]
    by (auto simp: rc_on_headers_def rc_quiet_def rc_budget_def resetStalledTimer_def case_prod_unfold Let_def)
qed

lemma rc_on_error_keeps:
  assumes "rc_quiet r" "rc_budget (maxRetries q) n r"
  shows "rc_budget (maxRetries q) n (snd (rc_on_error q err r))"
proof (cases "rc_attempt r < maxRetries q")
  case True
  let ?r = "r\<lparr>rc_stalledTimer := False, rc_attempt := Suc (rc_attempt r)\<rparr>"
  obtain x r3 where i: "rc_invoke (rq_onReconnecting q (Suc (rc_attempt r))) ?r = (x, r3)" by fastforce
  with rc_invoke_fields [of "rq_onReconnecting q (Suc (rc_attempt r))" ?r] assms(1)
  have "rc_attempt r3 = Suc (rc_attempt r)" "rc_messages r3 = rc_messages r" "rc_reconnectTimer r3 = None"
    by (auto simp: rc_quiet_def)
  with True i assms show ?thesis
    by (auto simp: rc_on_error_def rc_budget_def rc_quiet_def Let_def reconnectDelay_bounds)
next
  case False
  with assms rc_invoke_fields [of "rq_error q err" "r\<lparr>rc_stalledTimer := False\<rparr>"] show ?thesis
    by (auto simp: rc_on_error_def rc_budget_def rc_quiet_def)
qed

interpretation rc: callbacks_keep "rc_stream_callbacks q"
    "\<lambda>r. rc_quiet r \<and> rc_budget (maxRetries q) n r" "rc_budget (maxRetries q) n" for q n
  by unfold_locales (auto simp: rc_stream_callbacks_def rc_on_message_keeps rc_on_headers_keeps rc_on_error_keeps)

definition rc_inv :: "'v rc_callbacks \<Rightarrow> 'v rc_world \<Rightarrow> bool" where
  "rc_inv q w =
     ((rc_reconnectTimer (rw_rc w) \<noteq> None \<longrightarrow> ss_phase (rw_stream w) = Finished)
      \<and> rc_budget (maxRetries q) (length (rw_sent w)) (rw_rc w))"

lemma rc_inv_iff_keeps:
  "rc_inv q w \<longleftrightarrow> phase_keeps (\<lambda>r. rc_quiet r \<and> rc_budget (maxRetries q) (length (rw_sent w)) r)
     (rc_budget (maxRetries q) (length (rw_sent w))) (rw_stream w, rw_rc w)"
  by (auto simp: rc_inv_def phase_keeps_def rc_quiet_def)

lemma rc_inv_handle:
  assumes "rc_inv q w"
  shows "rc_inv q (rc_handle q req ev w)"
proof (cases ev)
  case (StreamEvent e)
  obtain s r where h: "sse_handle (rc_stream_callbacks q) e (rw_stream w, rw_rc w) = (s, r)" by fastforce
  from rc.handle_keeps [OF assms [unfolded rc_inv_iff_keeps], of e] h
  have "rc_inv q (w\<lparr>rw_stream := s, rw_rc := r\<rparr>)" by (simp add: rc_inv_iff_keeps)
  with StreamEvent h assms show ?thesis by simp
next
  case ReconnectFires
  with assms show ?thesis
    by (auto simp: rc_inv_def rc_budget_def rc_connect_def new_sse_def split: option.splits)
next
  case StalledFires
  let ?r = "(rw_rc w)\<lparr>rc_stalledTimer := False\<rparr>"
  obtain x r' where i: "rc_invoke (rq_onStalled q) ?r = (x, r')" by fastforce
  with rc_invoke_fields [of "rq_onStalled q" ?r] have
    "rc_attempt r' = rc_attempt (rw_rc w)" "rc_messages r' = rc_messages (rw_rc w)" "rc_reconnectTimer r' \<in> {None, rc_reconnectTimer (rw_rc w)}"
    by simp_all
  with StalledFires assms i show ?thesis
    by (auto simp: rc_inv_def rc_budget_def Let_def split: if_splits)
next
  case RcClose
  with assms show ?thesis by (auto simp: rc_inv_def rc_budget_def rc_shut_def)
qed

lemma rc_inv_run: "rc_inv q w \<Longrightarrow> rc_inv q (rc_run q req es w)"
  unfolding rc_run_def by (induction es arbitrary: w) (simp_all add: rc_inv_handle)

text \<open>
  C25. Reconnection is bounded by what the server delivers: if \<open>k\<close> messages have arrived, at
  most \<open>1 + maxRetries * (k + 1)\<close> requests have been sent, in particular at most
  \<open>1 + maxRetries\<close> while nothing arrives; the delay before a reconnection is between
  one and eight seconds; and when it is pending the previous stream has finished, so that
  no two streams are ever open.
\<close>

theorem reconnects_bounded:
  assumes "createReconnectingSSE rt new_URL_base we baseUrl path token opts user = Inr w0"
    and "rc_run q (hd (rw_sent w0)) es w0 = w"
  shows "length (rw_sent w) \<le> 1 + maxRetries q * (1 + rc_messages (rw_rc w))
    \<and> (\<forall>d. rc_reconnectTimer (rw_rc w) = Some d \<longrightarrow> 1000 \<le> d \<and> d \<le> 8000 \<and> ss_phase (rw_stream w) = Finished)"
proof -
  from assms(1) have "rc_inv q w0"
    by (auto simp: createReconnectingSSE_def bind_result_Inr_iff rc_inv_def rc_budget_def)
  from rc_inv_run [OF this, of "hd (rw_sent w0)" es] assms(2) show ?thesis
    by (auto simp: rc_inv_def rc_budget_def)
qed

definition sse_sample_base :: url where
  "sse_sample_base = \<lparr>url_href = ''https://s.test/'', url_protocol = ''https:'', url_username = [], url_password = [],
     url_hostname = ''s.test'', url_port = [], url_pathname = ''/'', url_search = [], url_hash = [], url_origin = ''https://s.test''\<rparr>"

definition sse_sample_runtime :: runtime where
  "sse_sample_runtime = \<lparr>new_URL = (\<lambda>v. if starts_with v ''https://s.test'' then Some sse_sample_base else None),
     clear_hash = (\<lambda>u. u), decodeURIComponent = Some\<rparr>"

definition sse_sample_window :: window_env where
  "sse_sample_window = \<lparr>we_demo_token = None, we_vite_demo_token = None, we_demo_origin = None, we_vite_demo_origin = None,
     we_hosted_auth = False, we_cc_runtime_available = False, we_global_version = None, we_define_version = None\<rparr>"

definition sse_sample_options :: SSEOptions where
  "sse_sample_options = \<lparr>so_method = None, so_body = None, so_handshakeTimeoutMs = None, so_idleTimeoutMs = None\<rparr>"

definition sse_sample_caller :: "unit rc_callbacks" where
  "sse_sample_caller = \<lparr>rq_message = \<lambda>v u. (quiet, u), rq_error = \<lambda>e u. (quiet, u), rq_headers = \<lambda>u. (quiet, u),
     rq_onStalled = \<lambda>u. (quiet, u), rq_onReconnecting = \<lambda>k u. (quiet, u), rq_onReconnected = \<lambda>u. (quiet, u), rq_maxRetries = Some 2\<rparr>"

definition sse_sample_world :: "unit rc_world result" where
  "sse_sample_world = createReconnectingSSE sse_sample_runtime (\<lambda>p b. Some sse_sample_base) sse_sample_window
     ''https://s.test'' ''/v1/activity/stream'' [] sse_sample_options ()"

definition down_events :: "rc_event list" where
  "down_events = [StreamEvent refused, ReconnectFires, StreamEvent refused, ReconnectFires, StreamEvent refused, ReconnectFires]"

lemma sse_sample_runs:
  "case sse_sample_world of Inl e \<Rightarrow> False
     | Inr w0 \<Rightarrow> length (rw_sent (rc_run sse_sample_caller (hd (rw_sent w0)) down_events w0)) = 3"
  by code_simp

text \<open>A server that is down is asked three times with \<open>maxRetries\<close> 2, then no more.\<close>

theorem reconnects_bounded_witness:
  "case sse_sample_world of Inl e \<Rightarrow> False
     | Inr w0 \<Rightarrow> (let w = rc_run sse_sample_caller (hd (rw_sent w0)) down_events w0
         in length (rw_sent w) = 3 \<and> length (rw_sent w) \<le> 1 + maxRetries sse_sample_caller * (1 + rc_messages (rw_rc w)))"
proof (cases sse_sample_world)
  case (Inr w0)
  from reconnects_bounded [OF Inr [unfolded sse_sample_world_def] refl, of sse_sample_caller down_events]
    sse_sample_runs [unfolded Inr sum.case]
  show ?thesis unfolding Inr sum.case Let_def by blast
next
  case (Inl e)
  from sse_sample_runs [unfolded Inl sum.case] show ?thesis ..
qed

end
