(* ===== verification/ActivityStore.thy ===== *)
theory ActivityStore
  imports SseProps
begin

text \<open>
  The activity store \<open>src/stores/activity.ts\<close>, the event stream it opens and the
  listener of \<open>src/stores/chat_artifacts.ts\<close>.  Events come from the network as arbitrary JSON
  values, so they stay values here.
\<close>

section \<open>Events\<close>

definition activeEvents :: "jsval list \<Rightarrow> jsval list" where
  "activeEvents evs = filter (\<lambda>e. field e ''status'' = Str ''running'') evs"

definition currentPhase :: "jsval list \<Rightarrow> jsval option" where
  "currentPhase evs = (let running = activeEvents evs in if running \<noteq> [] then Some (field (last running) ''phase'') else None)"

definition currentDescription :: "jsval list \<Rightarrow> jsval option" where
  "currentDescription evs = (let running = activeEvents evs in if running \<noteq> [] then Some (field (last running) ''description'') else None)"

definition latestDiagnostics :: "jsval list \<Rightarrow> jsval option" where
  "latestDiagnostics evs = (let withDiag = filter (\<lambda>e. truthy (field e ''diagnostics'')) evs in if withDiag \<noteq> [] then Some (last withDiag) else None)"

definition phaseOrder :: "string list" where
  "phaseOrder = [''analyzing'', ''planning'', ''executing'', ''tool'', ''waiting'', ''validating'', ''publishing'', ''completed'']"

fun position :: "'a \<Rightarrow> 'a list \<Rightarrow> nat option" where
  "position x [] = None"
| "position x (y # ys) = (if x = y then Some 0 else map_option Suc (position x ys))"

text \<open>\<open>Math.round\<close>: halves go up.\<close>

definition math_round :: "rat \<Rightarrow> int" where
  "math_round x = floor (x + 1 / 2)"

definition estimated_progress :: "jsval \<Rightarrow> int" where
  "estimated_progress phase =
     (case phase of
        Str p \<Rightarrow> (case position p phaseOrder of
           Some idx \<Rightarrow> math_round (rat_of_nat idx / rat_of_nat (length phaseOrder) * 100) | None \<Rightarrow> 0)
      | _ \<Rightarrow> 0)"

definition overallProgress :: "jsval list \<Rightarrow> jsval" where
  "overallProgress evs =
     (let running = activeEvents evs
      in if running = [] then Num (Fin 0)
         else let latest = last running; p = field latest ''progress''
              in if p \<noteq> Null \<and> p \<noteq> Undefined then p
                 else Num (Fin (rat_of_int (estimated_progress (field latest ''phase'')))))"

fun replace_first :: "('a \<Rightarrow> bool) \<Rightarrow> 'a \<Rightarrow> 'a list \<Rightarrow> 'a list" where
  "replace_first p x [] = [x]"
| "replace_first p x (y # ys) = (if p y then x # ys else y # replace_first p x ys)"

definition same_id :: "jsval \<Rightarrow> jsval \<Rightarrow> bool" where
  "same_id e f = strict_eq (field e ''id'') (field f ''id'')"

text \<open>\<open>{ ...e, status: 'completed' }\<close>\<close>

fun mark_completed :: "jsval \<Rightarrow> jsval" where
  "mark_completed (Obj kvs) = Obj (set_member ''status'' (Str ''completed'') kvs)"
| "mark_completed v = Obj [(''status'', Str ''completed'')]"

definition settled_event :: "jsval \<Rightarrow> jsval \<Rightarrow> jsval" where
  "settled_event evt e =
     (if \<not> same_id e evt \<and> strict_eq (field e ''phase'') (field evt ''phase'') \<and> field e ''status'' = Str ''running''
      then mark_completed e else e)"

definition settle_phase :: "jsval \<Rightarrow> jsval list \<Rightarrow> jsval list" where
  "settle_phase evt evs =
     (if field evt ''status'' \<in> {Str ''completed'', Str ''failed''} then map (settled_event evt) evs else evs)"

definition merge_event :: "jsval \<Rightarrow> jsval list \<Rightarrow> jsval list" where
  "merge_event evt evs = settle_phase evt (replace_first (\<lambda>e. same_id e evt) evt evs)"

section \<open>The store\<close>

text \<open>
  The reactive fields, the identity of the current stream (\<open>sseHandle\<close>), the reconnection
  timers with the task they were armed for, and the state of the listeners.
\<close>

record 'l activity =
  av_events :: "jsval list"
  av_connected :: bool
  av_error :: "string option"
  av_handle :: "nat option"
  av_timers :: "string option list"
  av_listeners :: 'l

text \<open>What the other components provide: the client's base URL and token, the listeners.\<close>

record 'l activity_env =
  ae_runtime :: runtime
  ae_new_URL_base :: "string \<Rightarrow> string \<Rightarrow> url option"
  ae_window :: window_env
  ae_form_query :: "string \<Rightarrow> string \<Rightarrow> string"
  ae_getBaseUrl :: string
  ae_getToken :: string
  ae_listener :: "jsval \<Rightarrow> 'l \<Rightarrow> 'l"

definition processEvent :: "'l activity_env \<Rightarrow> jsval \<Rightarrow> 'l activity \<Rightarrow> 'l activity" where
  "processEvent en evt a =
     a\<lparr>av_events := merge_event evt (av_events a), av_listeners := ae_listener en evt (av_listeners a)\<rparr>"

definition type_error :: js_exn where
  "type_error = \<lparr>ex_name = ''TypeError'', ex_message = ''Cannot read properties of null''\<rparr>"

definition activity_message :: "'l activity_env \<Rightarrow> jsval \<Rightarrow> 'l activity \<Rightarrow> reaction \<times> 'l activity" where
  "activity_message en evt a =
     (if evt = Null then (quiet\<lparr>rx_throws := Some type_error\<rparr>, a)
      else if field evt ''type'' \<in> {Str ''connected'', Str ''keepalive''} then (quiet, a\<lparr>av_connected := True\<rparr>)
      else (quiet, processEvent en evt a))"

definition activity_error :: "string option \<Rightarrow> js_exn \<Rightarrow> 'l activity \<Rightarrow> reaction \<times> 'l activity" where
  "activity_error taskId err a =
     (quiet, a\<lparr>av_error := Some (ex_message err), av_connected := False, av_timers := av_timers a @ [taskId]\<rparr>)"

definition activity_callbacks :: "'l activity_env \<Rightarrow> string option \<Rightarrow> 'l activity callbacks" where
  "activity_callbacks en taskId =
     \<lparr>cb_message = activity_message en, cb_error = activity_error taskId, cb_headers = \<lambda>a. (quiet, a)\<rparr>"

section \<open>The store with its streams\<close>

text \<open>Every stream ever opened, with the task it was opened for; a handle is its position.\<close>

record 'l activity_world =
  ax_store :: "'l activity"
  ax_streams :: "(string option \<times> sse) list"

definition close_handle :: "nat option \<Rightarrow> (string option \<times> sse) list \<Rightarrow> (string option \<times> sse) list" where
  "close_handle h ss = (case h of None \<Rightarrow> ss | Some i \<Rightarrow> ss[i := apsnd sse_close (ss ! i)])"

definition disconnect :: "'l activity_world \<Rightarrow> 'l activity_world" where
  "disconnect w =
     w\<lparr>ax_streams := close_handle (av_handle (ax_store w)) (ax_streams w),
       ax_store := (ax_store w)\<lparr>av_handle := None, av_connected := False\<rparr>\<rparr>"

definition activity_path :: "'l activity_env \<Rightarrow> string option \<Rightarrow> string" where
  "activity_path en taskId =
     ''/v1/activity/stream'' @ (case taskId of Some (c # cs) \<Rightarrow> ''?'' @ ae_form_query en ''task_id'' (c # cs) | _ \<Rightarrow> [])"

definition activity_options :: SSEOptions where
  "activity_options = \<lparr>so_method = None, so_body = None, so_handshakeTimeoutMs = None, so_idleTimeoutMs = None\<rparr>"

text \<open>\<open>createSSEStream\<close> throws on a bad base URL: the store is then disconnected and the exception passes on.\<close>

definition activity_connect :: "'l activity_env \<Rightarrow> string option \<Rightarrow> 'l activity_world \<Rightarrow> jserror option \<times> 'l activity_world" where
  "activity_connect en taskId w =
     (let w1 = disconnect w
      in case createSSEStream (ae_runtime en) (ae_new_URL_base en) (ae_window en) (ae_getBaseUrl en)
                (activity_path en taskId) (ae_getToken en) activity_options of
           Inl e \<Rightarrow> (Some e, w1)
         | Inr (s, req) \<Rightarrow>
             (None, w1\<lparr>ax_streams := ax_streams w1 @ [(taskId, s)],
                       ax_store := (ax_store w1)\<lparr>av_handle := Some (length (ax_streams w1)), av_connected := True, av_error := None\<rparr>\<rparr>))"

definition reconnect_timer :: "'l activity_env \<Rightarrow> 'l activity_world \<Rightarrow> 'l activity_world" where
  "reconnect_timer en w =
     (case av_timers (ax_store w) of
        [] \<Rightarrow> w
      | t # ts \<Rightarrow>
          let w1 = w\<lparr>ax_store := (ax_store w)\<lparr>av_timers := ts\<rparr>\<rparr>
          in if av_handle (ax_store w1) = None then snd (activity_connect en t w1) else w1)"

definition stream_event :: "'l activity_env \<Rightarrow> nat \<Rightarrow> sse_event \<Rightarrow> 'l activity_world \<Rightarrow> 'l activity_world" where
  "stream_event en i e w =
     (if i < length (ax_streams w) \<and> e \<noteq> CloseCalled
      then let (taskId, s) = ax_streams w ! i; (s', a') = sse_handle (activity_callbacks en taskId) e (s, ax_store w)
           in w\<lparr>ax_streams := (ax_streams w)[i := (taskId, s')], ax_store := a'\<rparr>
      else w)"

definition addLocalEvent :: "'l activity_env \<Rightarrow> jsval \<Rightarrow> 'l activity_world \<Rightarrow> 'l activity_world" where
  "addLocalEvent en evt w = w\<lparr>ax_store := processEvent en evt (ax_store w)\<rparr>"

text \<open>The answer of \<open>GET /v1/activity/events\<close>, newest first.\<close>

definition activity_fetchHistory :: "string + jsval list \<Rightarrow> 'l activity_world \<Rightarrow> 'l activity_world" where
  "activity_fetchHistory res w =
     (let a = ax_store w
      in case res of
           Inl m \<Rightarrow> w\<lparr>ax_store := a\<lparr>av_error := Some m\<rparr>\<rparr>
         | Inr newest_first \<Rightarrow>
             let historical = rev newest_first;
                 newEvents = filter (\<lambda>e. \<not> list_ex (\<lambda>f. same_id f e) (av_events a)) historical
             in w\<lparr>ax_store := a\<lparr>av_events := newEvents @ av_events a\<rparr>\<rparr>)"

definition activity_clear :: "'l activity_world \<Rightarrow> 'l activity_world" where
  "activity_clear w = w\<lparr>ax_store := (ax_store w)\<lparr>av_events := []\<rparr>\<rparr>"

definition activity_reset :: "'l activity_world \<Rightarrow> 'l activity_world" where
  "activity_reset w = (let w1 = activity_clear (disconnect w) in w1\<lparr>ax_store := (ax_store w1)\<lparr>av_error := None\<rparr>\<rparr>)"

inductive activity_step :: "'l activity_env \<Rightarrow> 'l activity_world \<Rightarrow> 'l activity_world \<Rightarrow> bool" for en where
  step_connect: "activity_step en w (snd (activity_connect en taskId w))"
| step_disconnect: "activity_step en w (disconnect w)"
| step_stream: "activity_step en w (stream_event en i e w)"
| step_timer: "activity_step en w (reconnect_timer en w)"
| step_local: "activity_step en w (addLocalEvent en evt w)"
| step_history: "activity_step en w (activity_fetchHistory res w)"
| step_clear: "activity_step en w (activity_clear w)"
| step_reset: "activity_step en w (activity_reset w)"

inductive_cases activity_stepE: "activity_step en w w'"

end
