(* ===== verification/ActivityProps.thy ===== *)
theory ActivityProps
  imports ActivityStore
begin

text \<open>
  What the activity store keeps: one slot per event identity, no event left running in a
  phase that has ended, at most one open stream; and when its reconnection timer acts.
\<close>

section \<open>Events\<close>

lemma strict_eq_sym: "strict_eq v w = strict_eq w v"
  by (cases "(v, w)" rule: strict_eq.cases; cases "(w, v)" rule: strict_eq.cases) auto

lemma same_id_sym: "same_id e f = same_id f e"
  by (simp add: same_id_def strict_eq_sym)

lemma strict_eq_trans: "strict_eq u v \<Longrightarrow> strict_eq v w \<Longrightarrow> strict_eq u w"
  by (cases "(u, v)" rule: strict_eq.cases; cases "(v, w)" rule: strict_eq.cases) auto

lemma same_id_trans: "same_id e f \<Longrightarrow> same_id f g \<Longrightarrow> same_id e g"
  by (auto simp: same_id_def intro: strict_eq_trans)

text \<open>No two events share an identity.\<close>

definition ids_differ :: "jsval list \<Rightarrow> bool" where
  "ids_differ evs = sorted_wrt (\<lambda>e f. \<not> same_id e f) evs"

lemma set_replace_first: "set (replace_first p x ys) \<subseteq> insert x (set ys)"
  by (induction ys) auto

lemma ids_differ_replace_first:
  "ids_differ evs \<Longrightarrow> ids_differ (replace_first (\<lambda>e. same_id e evt) evt evs)"
proof (induction evs)
  case (Cons e evs)
  show ?case
  proof (cases "same_id e evt")
    case True
    have "\<not> same_id evt f" if f: "f \<in> set evs" for f
    proof
      assume "same_id evt f"
      with True have "same_id e f" by (rule same_id_trans)
      with Cons.prems f show False by (auto simp: ids_differ_def)
    qed
    with True Cons.prems show ?thesis by (simp add: ids_differ_def)
  next
    case False
    with Cons set_replace_first [of "\<lambda>e. same_id e evt" evt evs] show ?thesis by (auto simp: ids_differ_def)
  qed
qed (simp add: ids_differ_def)

lemma field_set_member: "field (Obj (set_member k v kvs)) k' = (if k' = k then v else field (Obj kvs) k')"
  by (induction k v kvs rule: set_member.induct) auto

lemma field_mark_completed:
  "field e ''status'' = Str ''running'' \<Longrightarrow> k \<noteq> ''status'' \<Longrightarrow> field (mark_completed e) k = field e k"
  "field (mark_completed e) ''status'' = Str ''completed''"
  by (cases e; simp add: field_set_member del: field.simps(1); simp)+

lemma settled_event_other: "k \<noteq> ''status'' \<Longrightarrow> field (settled_event evt e) k = field e k"
  by (simp add: settled_event_def field_mark_completed)

lemma ids_differ_map:
  assumes "\<And>e. e \<in> set evs \<Longrightarrow> field (f e) ''id'' = field e ''id''"
  shows "ids_differ (map f evs) = ids_differ evs"
  using assms unfolding ids_differ_def same_id_def
  by (simp add: sorted_wrt_map) (rule iffI; erule sorted_wrt_mono_rel [rotated]; simp)

lemma ids_differ_merge: "ids_differ evs \<Longrightarrow> ids_differ (merge_event evt evs)"
  using ids_differ_replace_first [of evs evt]
  by (auto simp: merge_event_def settle_phase_def ids_differ_map settled_event_other)

lemma replace_first_unique:
  "ids_differ evs \<Longrightarrow> e \<in> set (replace_first (\<lambda>e. same_id e evt) evt evs) \<Longrightarrow> e = evt \<or> \<not> same_id e evt"
proof (induction evs)
  case (Cons f evs)
  show ?case
  proof (cases "same_id f evt")
    case True
    with Cons.prems have "\<not> same_id f g" if "g \<in> set evs" for g using that by (simp add: ids_differ_def)
    with True Cons.prems(2) same_id_sym same_id_trans show ?thesis by (metis replace_first.simps(2) set_ConsD)
  next
    case False
    with Cons show ?thesis by (auto simp: ids_differ_def)
  qed
qed simp

text \<open>
  When a phase ends, nothing in it is left running: after an event that reports
  completion or failure, the store holds no running event of that phase, every event that
  was closed on the way keeps its other fields, and no two events share an identity.
\<close>

theorem finished_phase_settles:
  assumes differ: "ids_differ evs" and ended: "field evt ''status'' \<in> {Str ''completed'', Str ''failed''}"
  shows "ids_differ (merge_event evt evs)
    \<and> (\<forall>e \<in> set (merge_event evt evs). strict_eq (field e ''phase'') (field evt ''phase'') \<longrightarrow> field e ''status'' \<noteq> Str ''running'')
    \<and> (\<forall>e \<in> set evs. same_id e evt
         \<or> (\<exists>e' \<in> set (merge_event evt evs). \<forall>k. k \<noteq> ''status'' \<longrightarrow> field e' k = field e k))"
proof (intro conjI ballI impI)
  show "ids_differ (merge_event evt evs)" by (rule ids_differ_merge [OF differ])
next
  fix e assume e: "e \<in> set (merge_event evt evs)" and ph: "strict_eq (field e ''phase'') (field evt ''phase'')"
  from e ended obtain f where f: "f \<in> set (replace_first (\<lambda>e. same_id e evt) evt evs)" "e = settled_event evt f"
    by (auto simp: merge_event_def settle_phase_def)
  with replace_first_unique [OF differ f(1)] ph ended show "field e ''status'' \<noteq> Str ''running''"
    by (auto simp: settled_event_def field_mark_completed split: if_splits)
next
  fix e assume e: "e \<in> set evs"
  have "same_id e evt \<or> e \<in> set (replace_first (\<lambda>e. same_id e evt) evt evs)"
    using e by (induction evs) auto
  then show "same_id e evt \<or> (\<exists>e' \<in> set (merge_event evt evs). \<forall>k. k \<noteq> ''status'' \<longrightarrow> field e' k = field e k)"
    using ended by (auto simp: merge_event_def settle_phase_def settled_event_other)
qed

definition running_event :: "string \<Rightarrow> string \<Rightarrow> string \<Rightarrow> jsval" where
  "running_event i p s = Obj [(''id'', Str i), (''phase'', Str p), (''status'', Str s)]"

theorem finished_phase_settles_witness:
  "\<forall>e \<in> set (merge_event (running_event ''b'' ''tool'' ''failed'')
        [running_event ''a'' ''tool'' ''running'', running_event ''b'' ''tool'' ''running'', running_event ''c'' ''waiting'' ''running'']).
     strict_eq (field e ''phase'') (Str ''tool'') \<longrightarrow> field e ''status'' \<noteq> Str ''running''"
  using finished_phase_settles [of "[running_event ''a'' ''tool'' ''running'', running_event ''b'' ''tool'' ''running'', running_event ''c'' ''waiting'' ''running'']"
      "running_event ''b'' ''tool'' ''failed''"]
  by (simp add: running_event_def ids_differ_def same_id_def)

lemma estimated_progress_bounds: "0 \<le> estimated_progress v \<and> estimated_progress v \<le> 88"
  by (cases v) (auto simp: estimated_progress_def phaseOrder_def math_round_def split: option.splits)

section \<open>Streams\<close>

interpretation activity_handle: callbacks_keep "activity_callbacks en t" "\<lambda>a. av_handle a = h" "\<lambda>a. av_handle a = h" for en t h
  by unfold_locales
     (auto simp: activity_callbacks_def activity_message_def activity_error_def processEvent_def)

lemma sse_handle_keeps_handle: "av_handle (snd (sse_handle (activity_callbacks en t) e (s, a))) = av_handle a"
  using activity_handle.handle_keeps [where su = "(s, a)" and h = "av_handle a" and ev = e and en = en and t = t]
  by (simp add: phase_keeps_def split: if_splits)

lemma stream_event_fields:
  "av_handle (ax_store (stream_event en i e w)) = av_handle (ax_store w)"
  "length (ax_streams (stream_event en i e w)) = length (ax_streams w)"
  using sse_handle_keeps_handle by (auto simp: stream_event_def case_prod_unfold Let_def)

lemma stream_event_closed:
  "ss_closed (snd (ax_streams w ! j)) \<Longrightarrow> ss_closed (snd (ax_streams (stream_event en i e w) ! j))"
  using activity_handle.closed_handle [where su = "(snd (ax_streams w ! i), ax_store w)" and h = "av_handle (ax_store w)"]
  by (cases "j = i") (auto simp: stream_event_def case_prod_unfold Let_def nth_list_update)

definition one_open :: "'l activity_world \<Rightarrow> bool" where
  "one_open w =
     ((\<forall>i < length (ax_streams w). av_handle (ax_store w) \<noteq> Some i \<longrightarrow> ss_closed (snd (ax_streams w ! i)))
      \<and> (\<forall>i. av_handle (ax_store w) = Some i \<longrightarrow> i < length (ax_streams w)))"

lemma one_open_disconnect: "one_open w \<Longrightarrow> one_open (disconnect w) \<and> av_handle (ax_store (disconnect w)) = None"
  by (auto simp: one_open_def disconnect_def close_handle_def nth_list_update apsnd_def split: option.splits)

lemma one_open_connect: "one_open w \<Longrightarrow> one_open (snd (activity_connect en t w))"
  using one_open_disconnect [of w]
  by (auto simp: activity_connect_def one_open_def Let_def nth_append less_Suc_eq split: sum.splits)

lemma one_open_timer: "one_open w \<Longrightarrow> one_open (reconnect_timer en w)"
proof (cases "av_timers (ax_store w)")
  case (Cons t ts)
  assume "one_open w"
  hence "one_open (w\<lparr>ax_store := (ax_store w)\<lparr>av_timers := ts\<rparr>\<rparr>)" by (simp add: one_open_def)
  with Cons show ?thesis by (simp add: reconnect_timer_def Let_def one_open_connect)
qed (simp add: reconnect_timer_def)

lemma one_open_stream: "one_open w \<Longrightarrow> one_open (stream_event en i e w)"
  unfolding one_open_def by (simp add: stream_event_fields stream_event_closed)

lemma one_open_reset: "one_open w \<Longrightarrow> one_open (activity_reset w)"
  using one_open_disconnect [of w] by (simp add: activity_reset_def activity_clear_def one_open_def Let_def)

lemma one_open_step: "activity_step en w w' \<Longrightarrow> one_open w \<Longrightarrow> one_open w'"
proof (erule activity_stepE)
  fix res assume "w' = activity_fetchHistory res w" "one_open w"
  then show "one_open w'" by (cases res) (simp_all add: activity_fetchHistory_def one_open_def Let_def)
qed (simp_all add: one_open_disconnect one_open_connect one_open_timer one_open_stream one_open_reset,
     simp_all add: one_open_def addLocalEvent_def processEvent_def activity_clear_def)

definition init_activity :: "'l \<Rightarrow> 'l activity_world" where
  "init_activity l = \<lparr>ax_store = \<lparr>av_events = [], av_connected = False, av_error = None, av_handle = None, av_timers = [],
                                   av_listeners = l\<rparr>, ax_streams = []\<rparr>"

interpretation activity: step_invariant "init_activity l" "activity_step en" one_open for l en
  by unfold_locales (simp add: init_activity_def one_open_def, rule one_open_step)

text \<open>
  C1. At every moment, after any sequence of calls, stream events and timers, every stream
  but the one of the current handle has been closed: leaving and opening the view again
  does not leak an open stream.
\<close>

theorem one_open_activity_stream:
  assumes "rtranclp (activity_step en) (init_activity l) w" "i < length (ax_streams w)" "\<not> ss_closed (snd (ax_streams w ! i))"
  shows "av_handle (ax_store w) = Some i"
  using activity.inv_reachable [OF assms(1)] assms(2,3) by (auto simp: one_open_def)

section \<open>The reconnection timer\<close>

text \<open>What happens without the user: the network and the timers.\<close>

definition automatic_step :: "'l activity_env \<Rightarrow> 'l activity_world \<Rightarrow> 'l activity_world \<Rightarrow> bool" where
  "automatic_step en w w' = ((\<exists>i e. w' = stream_event en i e w) \<or> w' = reconnect_timer en w)"

interpretation automatic: step_preorder "automatic_step en"
    "\<lambda>w w'. av_handle (ax_store w) \<noteq> None \<longrightarrow>
       av_handle (ax_store w') = av_handle (ax_store w) \<and> length (ax_streams w') = length (ax_streams w)" for en
  by unfold_locales
     (auto simp: automatic_step_def stream_event_fields reconnect_timer_def Let_def split: list.splits)

definition sample_activity_env :: "unit activity_env" where
  "sample_activity_env = \<lparr>ae_runtime = sse_sample_runtime, ae_new_URL_base = \<lambda>p b. Some sse_sample_base, ae_window = sse_sample_window,
     ae_form_query = \<lambda>k v. k @ ''='' @ v, ae_getBaseUrl = ''https://s.test'', ae_getToken = [], ae_listener = \<lambda>e l. l\<rparr>"

definition network_down :: sse_event where
  "network_down = Fetched (FetchRejected \<lparr>ex_name = ''TypeError'', ex_message = ''Failed to fetch''\<rparr>)"

definition act_opened :: "unit activity_world" where
  "act_opened = snd (activity_connect sample_activity_env None (init_activity ()))"
definition act_failed :: "unit activity_world" where
  "act_failed = stream_event sample_activity_env 0 network_down act_opened"
definition act_left :: "unit activity_world" where
  "act_left = disconnect act_failed"
definition act_back :: "unit activity_world" where
  "act_back = reconnect_timer sample_activity_env act_left"

lemma opened_ok: "fst (activity_connect sample_activity_env None (init_activity ())) = None \<and> av_handle (ax_store act_opened) = Some 0"
  by code_simp

lemma back_reconnects: "av_handle (ax_store act_left) = None \<and> av_handle (ax_store act_back) = Some 1 \<and> av_connected (ax_store act_back)"
  by code_simp

text \<open>
  The reconnection timer acts exactly when it should not.  After \<open>connect\<close> no sequence
  of stream failures and timers opens another stream, because the handle of the failed
  stream stays set; but when the view has called \<open>disconnect\<close> after a failure, the timer
  opens a stream nobody asked for.
\<close>

theorem activity_reconnects_only_after_disconnect:
  "(\<forall>w. fst (activity_connect en t w) = None \<longrightarrow>
      (\<forall>w'. rtranclp (automatic_step en) (snd (activity_connect en t w)) w' \<longrightarrow>
         length (ax_streams w') = length (ax_streams (snd (activity_connect en t w)))))
   \<and> (\<exists>en0 w w'. rtranclp (activity_step en0) (init_activity ()) w \<and> activity_step en0 w w'
        \<and> av_handle (ax_store w) = None \<and> w' = reconnect_timer en0 w \<and> av_handle (ax_store w') \<noteq> None)"
proof (intro conjI allI impI)
  fix w w' assume ok: "fst (activity_connect en t w) = None" and r: "rtranclp (automatic_step en) (snd (activity_connect en t w)) w'"
  from ok have "av_handle (ax_store (snd (activity_connect en t w))) \<noteq> None"
    by (auto simp: activity_connect_def Let_def split: sum.splits)
  with automatic.below_steps [OF r] show "length (ax_streams w') = length (ax_streams (snd (activity_connect en t w)))" by simp
next
  let ?s = "activity_step sample_activity_env"
  have "rtranclp ?s (init_activity ()) act_opened" by (simp add: act_opened_def r_into_rtranclp step_connect)
  from rtranclp.rtrancl_into_rtrancl [OF this] have "rtranclp ?s (init_activity ()) act_failed"
    by (simp add: act_failed_def step_stream)
  from rtranclp.rtrancl_into_rtrancl [OF this] have "rtranclp ?s (init_activity ()) act_left"
    by (simp add: act_left_def step_disconnect)
  moreover have "?s act_left act_back" by (simp add: act_back_def step_timer)
  ultimately show "\<exists>en0 w w'. rtranclp (activity_step en0) (init_activity ()) w \<and> activity_step en0 w w'
        \<and> av_handle (ax_store w) = None \<and> w' = reconnect_timer en0 w \<and> av_handle (ax_store w') \<noteq> None"
    using back_reconnects act_back_def by (metis option.distinct(1))
qed

theorem one_open_activity_stream_witness:
  "0 < length (ax_streams act_opened) \<and> \<not> ss_closed (snd (ax_streams act_opened ! 0)) \<and> av_handle (ax_store act_opened) = Some 0"
proof -
  have "rtranclp (activity_step sample_activity_env) (init_activity ()) act_opened" by (simp add: act_opened_def r_into_rtranclp step_connect)
  moreover have "0 < length (ax_streams act_opened) \<and> \<not> ss_closed (snd (ax_streams act_opened ! 0))" by code_simp
  ultimately show ?thesis using one_open_activity_stream [of sample_activity_env "()" act_opened 0] by simp
qed

theorem activity_reconnects_only_after_disconnect_witness:
  "fst (activity_connect sample_activity_env None (init_activity ())) = None
   \<and> rtranclp (automatic_step sample_activity_env) act_opened (reconnect_timer sample_activity_env act_failed)
   \<and> length (ax_streams (reconnect_timer sample_activity_env act_failed)) = length (ax_streams act_opened)"
proof -
  have "automatic_step sample_activity_env act_opened act_failed" by (auto simp: automatic_step_def act_failed_def)
  moreover have "automatic_step sample_activity_env act_failed (reconnect_timer sample_activity_env act_failed)"
    by (simp add: automatic_step_def)
  ultimately have "rtranclp (automatic_step sample_activity_env) act_opened (reconnect_timer sample_activity_env act_failed)" by simp
  with activity_reconnects_only_after_disconnect [of sample_activity_env None] opened_ok show ?thesis by (simp add: act_opened_def)
qed

end
