(* ===== verification/Artifacts.thy ===== *)
theory Artifacts
  imports ActivityProps JsonPretty
begin

text \<open>
  The two artifact stores: \<open>src/stores/chat_artifacts.ts\<close>, fed by the activity stream and by
  REST, and \<open>src/stores/artifact.ts\<close>, the saved files of the preview panel with their copy in
  local storage.
\<close>

section \<open>Delivered files (chat\_artifacts.ts)\<close>

definition nullish_or :: "jsval \<Rightarrow> jsval \<Rightarrow> jsval" where
  "nullish_or v w = (if v = Undefined \<or> v = Null then w else v)"

definition number_or_undefined :: "jsval \<Rightarrow> jsval" where
  "number_or_undefined v = (case v of Num n \<Rightarrow> v | _ \<Rightarrow> Undefined)"

definition string_or_undefined :: "jsval \<Rightarrow> jsval" where
  "string_or_undefined v = (case v of Str s \<Rightarrow> v | _ \<Rightarrow> Undefined)"

text \<open>The translated default name and the clock are arguments.\<close>

definition coerceArtifactEvent :: "(rat \<Rightarrow> string) \<Rightarrow> string \<Rightarrow> string \<Rightarrow> jsval \<Rightarrow> jsval option" where
  "coerceArtifactEvent fmt unnamed now evt =
     (if field evt ''kind'' \<noteq> Str ''artifact_created'' \<and> field evt ''phase'' \<noteq> Str ''artifact'' then None
      else let idRaw = nullish_or (field evt ''artifact_id'') (field evt ''id'')
           in if \<not> truthy idRaw then None
              else Some (Obj
                [(''kind'', Str ''chat''), (''id'', Str (js_text fmt idRaw)),
                 (''filename'', nullish_or (nullish_or (field evt ''filename'') (field evt ''title'')) (Str unnamed)),
                 (''sha256'', string_or_undefined (field evt ''sha256'')),
                 (''size'', number_or_undefined (field evt ''size'')),
                 (''size_bytes'', number_or_undefined (field evt ''size_bytes'')),
                 (''content_type'', string_or_undefined (field evt ''content_type'')),
                 (''created_at'', nullish_or (field evt ''timestamp'') (Str now)),
                 (''conversation_id'', string_or_undefined (field evt ''conversation_id'')),
                 (''task_id'', nullish_or (field evt ''task_id'') Undefined)]))"

record chat_artifacts =
  cr_items :: "jsval list"
  cr_loading :: bool
  cr_error :: "string option"
  cr_filter :: "string option"

definition load_begin :: "string option \<Rightarrow> chat_artifacts \<Rightarrow> chat_artifacts" where
  "load_begin conversationId s = s\<lparr>cr_loading := True, cr_error := None, cr_filter := conversationId\<rparr>"

text \<open>\<open>{ ...a, kind: 'chat' }\<close>: the spread of a string or an array has its elements under their indices.\<close>

fun stamp_kind :: "jsval \<Rightarrow> jsval" where
  "stamp_kind (Obj kvs) = Obj (set_member ''kind'' (Str ''chat'') kvs)"
| "stamp_kind (Str s) = Obj (zip (map print_nat [0..<length s]) (map (\<lambda>c. Str [c]) s) @ [(''kind'', Str ''chat'')])"
| "stamp_kind (Arr vs) = Obj (zip (map print_nat [0..<length vs]) vs @ [(''kind'', Str ''chat'')])"
| "stamp_kind v = Obj [(''kind'', Str ''chat'')]"

text \<open>The answer of the REST call, or the message of the error.\<close>

definition load_answer :: "string + jsval \<Rightarrow> chat_artifacts \<Rightarrow> chat_artifacts" where
  "load_answer res s =
     (let s1 = s\<lparr>cr_loading := False\<rparr>
      in case res of
           Inl m \<Rightarrow> s1\<lparr>cr_error := Some m\<rparr>
         | Inr body \<Rightarrow>
             case nullish_or (field body ''artifacts'') (Arr []) of
               Arr vs \<Rightarrow> s1\<lparr>cr_items := map stamp_kind vs\<rparr>
             | _ \<Rightarrow> s1\<lparr>cr_error := Some ''map is not a function''\<rparr>)"

definition ingest :: "jsval \<Rightarrow> chat_artifacts \<Rightarrow> chat_artifacts" where
  "ingest art s =
     (let conv = field art ''conversation_id''
      in if (case cr_filter s of Some (c # cs) \<Rightarrow> truthy conv \<and> conv \<noteq> Str (c # cs) | _ \<Rightarrow> False) then s
         else if list_ex (\<lambda>x. same_id x art) (cr_items s) then s
         else s\<lparr>cr_items := art # cr_items s\<rparr>)"

definition artifact_listener :: "(rat \<Rightarrow> string) \<Rightarrow> string \<Rightarrow> string \<Rightarrow> jsval \<Rightarrow> chat_artifacts \<Rightarrow> chat_artifacts" where
  "artifact_listener fmt unnamed now evt s =
     (case coerceArtifactEvent fmt unnamed now evt of None \<Rightarrow> s | Some art \<Rightarrow> ingest art s)"

definition download_name :: "string \<Rightarrow> string" where
  "download_name filename =
     (let f = (if filename = [] then ''artifact'' else filename); l = last (split_char (CHR ''/'') f)
      in if l = [] then ''artifact'' else l)"

definition downloadAndSave :: "string + unit \<Rightarrow> chat_artifacts \<Rightarrow> (string + unit) \<times> chat_artifacts" where
  "downloadAndSave blob s = (case blob of Inl m \<Rightarrow> (Inl m, s\<lparr>cr_error := Some m\<rparr>) | Inr _ \<Rightarrow> (Inr (), s))"

definition artifacts_clear :: "chat_artifacts \<Rightarrow> chat_artifacts" where
  "artifacts_clear s = s\<lparr>cr_items := [], cr_error := None\<rparr>"

section \<open>Saved files (artifact.ts)\<close>

record artifact_store =
  as_saved :: "jsval list"
  as_focused :: "string option"
  as_isOpen :: bool
  as_isMaximized :: bool
  as_storage :: "string option"
  as_writable :: bool

definition valid_saved :: "jsval \<Rightarrow> bool" where
  "valid_saved item = (truthy item \<and> (case field item ''id'' of Str s \<Rightarrow> True | _ \<Rightarrow> False))"

definition readSavedArtifacts :: "string option \<Rightarrow> jsval list" where
  "readSavedArtifacts stored_text =
     (case JSON_parse (case stored_text of Some (c # cs) \<Rightarrow> c # cs | _ \<Rightarrow> ''[]'') of
        Some (Arr vs) \<Rightarrow> filter valid_saved vs
      | _ \<Rightarrow> [])"

definition open_store :: "string option \<Rightarrow> bool \<Rightarrow> artifact_store" where
  "open_store txt writable =
     \<lparr>as_saved = readSavedArtifacts txt, as_focused = None, as_isOpen = False, as_isMaximized = False,
      as_storage = txt, as_writable = writable\<rparr>"

definition persist_artifacts :: "artifact_store \<Rightarrow> artifact_store" where
  "persist_artifacts s =
     (if as_writable s then s\<lparr>as_storage := Some (JSON_stringify (Arr (take 100 (as_saved s))))\<rparr> else s)"

definition artifact_id :: "jsval \<Rightarrow> string" where
  "artifact_id a = (case field a ''id'' of Str s \<Rightarrow> s | _ \<Rightarrow> [])"

definition focusedArtifact :: "artifact_store \<Rightarrow> jsval option" where
  "focusedArtifact s = find (\<lambda>a. Some (artifact_id a) = as_focused s) (as_saved s)"

definition artifact_open :: "artifact_store \<Rightarrow> artifact_store" where
  "artifact_open s = s\<lparr>as_isOpen := True\<rparr>"

definition artifact_close :: "artifact_store \<Rightarrow> artifact_store" where
  "artifact_close s = s\<lparr>as_isOpen := False, as_isMaximized := False\<rparr>"

definition toggleMaximize :: "artifact_store \<Rightarrow> artifact_store" where
  "toggleMaximize s = s\<lparr>as_isMaximized := \<not> as_isMaximized s\<rparr>"

definition addArtifact :: "jsval \<Rightarrow> artifact_store \<Rightarrow> artifact_store" where
  "addArtifact a s =
     persist_artifacts (s\<lparr>as_saved := take 100 (a # filter (\<lambda>e. artifact_id e \<noteq> artifact_id a) (as_saved s)),
                          as_focused := Some (artifact_id a), as_isOpen := True\<rparr>)"

definition focusArtifact :: "string \<Rightarrow> artifact_store \<Rightarrow> artifact_store" where
  "focusArtifact i s =
     (if list_ex (\<lambda>a. artifact_id a = i) (as_saved s) then s\<lparr>as_focused := Some i, as_isOpen := True\<rparr> else s)"

definition clearArtifacts :: "artifact_store \<Rightarrow> artifact_store" where
  "clearArtifacts s = persist_artifacts (s\<lparr>as_saved := [], as_focused := None\<rparr>)"

section \<open>Delivered files: what arrives\<close>

lemma ids_differ_ingest: "ids_differ (cr_items s) \<Longrightarrow> ids_differ (cr_items (ingest art s))"
  by (auto simp: ingest_def ids_differ_def list_ex_iff same_id_sym Let_def split: option.splits list.splits)

lemma ids_differ_listener: "ids_differ (cr_items s) \<Longrightarrow> ids_differ (cr_items (artifact_listener fmt unnamed now evt s))"
  by (simp add: artifact_listener_def ids_differ_ingest split: option.split)

text \<open>The activity store with the artifact panel as its listener, as the application wires them.\<close>

definition wired :: "(rat \<Rightarrow> string) \<Rightarrow> string \<Rightarrow> string \<Rightarrow> chat_artifacts activity_env \<Rightarrow> chat_artifacts activity_env" where
  "wired fmt unnamed now en = en\<lparr>ae_listener := artifact_listener fmt unnamed now\<rparr>"

definition events_and_files_differ :: "chat_artifacts activity \<Rightarrow> bool" where
  "events_and_files_differ a = (ids_differ (av_events a) \<and> ids_differ (cr_items (av_listeners a)))"

interpretation delivered: callbacks_keep "activity_callbacks (wired fmt unnamed now en) t"
    events_and_files_differ events_and_files_differ for fmt unnamed now en t
  by unfold_locales
     (auto simp: activity_callbacks_def activity_message_def activity_error_def processEvent_def wired_def
        events_and_files_differ_def ids_differ_merge ids_differ_listener)

lemma stream_delivers_each_file_once:
  assumes "events_and_files_differ a" "sse_run (activity_callbacks (wired fmt unnamed now en) t) es (s, a) = (s', a')"
  shows "events_and_files_differ a'"
  using delivered.run_keeps [of "(s, a)" fmt unnamed now en t es] assms by (simp add: phase_keeps_def split: if_splits)

lemma ingest_respects_filter:
  assumes "cr_filter s = Some c" "c \<noteq> []" "x \<in> set (cr_items (ingest art s))" "x \<notin> set (cr_items s)"
  shows "x = art \<and> (field x ''conversation_id'' = Str c \<or> \<not> truthy (field x ''conversation_id''))"
  using assms by (auto simp: ingest_def Let_def neq_Nil_conv split: if_splits)

text \<open>
  Two loads that overlap: when the answer of the first arrives last, the panel of the second
  conversation shows the files of the first.
\<close>

lemma late_answer_shows_other_conversation:
  "let s = load_answer (Inr (Obj [(''artifacts'', Arr as)])) (load_answer (Inr rb) (load_begin (Some b) (load_begin (Some a) s0)))
   in cr_filter s = Some b \<and> cr_items s = map stamp_kind as"
  by (simp add: load_answer_def load_begin_def nullish_or_def Let_def split: jsval.splits sum.splits)

section \<open>Saved files\<close>

definition saved_ok :: "artifact_store \<Rightarrow> bool" where
  "saved_ok s =
     (list_all valid_saved (as_saved s) \<and> list_all wf_json (as_saved s) \<and> distinct (map artifact_id (as_saved s)) \<and> length (as_saved s) \<le> 100
      \<and> (\<forall>i. as_focused s = Some i \<longrightarrow> i \<in> artifact_id ` set (as_saved s)))"

lemma readSaved_stringify:
  assumes "list_all valid_saved vs" "list_all wf_json vs"
  shows "readSavedArtifacts (Some (JSON_stringify (Arr vs))) = vs"
proof -
  have "JSON_stringify (Arr vs) \<noteq> []" by simp
  then obtain c cs where "JSON_stringify (Arr vs) = c # cs" by (cases "JSON_stringify (Arr vs)") auto
  moreover from assms(2) have "JSON_parse (JSON_stringify (Arr vs)) = Some (Arr vs)"
    using JSON_parse_stringify [of "Arr vs" "[]"] by (simp add: skip_ws_def ends_number_def del: JSON_stringify.simps)
  ultimately show ?thesis using assms(1) by (simp add: readSavedArtifacts_def list_all_iff del: JSON_stringify.simps)
qed

lemma saved_ok_add:
  assumes "saved_ok s" "valid_saved a" "wf_json a"
  shows "saved_ok (addArtifact a s)"
proof -
  let ?rest = "take 99 (filter (\<lambda>e. artifact_id e \<noteq> artifact_id a) (as_saved s))"
  have sub: "set ?rest \<subseteq> {e \<in> set (as_saved s). artifact_id e \<noteq> artifact_id a}" by (auto dest: in_set_takeD)
  have "as_saved (addArtifact a s) = a # ?rest" "as_focused (addArtifact a s) = Some (artifact_id a)"
    by (simp_all add: addArtifact_def persist_artifacts_def)
  moreover from assms(1) have "distinct (map artifact_id ?rest)"
    by (simp add: saved_ok_def take_map [symmetric] distinct_map_filter distinct_take)
  ultimately show ?thesis using assms sub by (auto simp: saved_ok_def list_all_iff)
qed

text \<open>
  Saved files survive a restart: adding a file keeps the list free of duplicates, within
  its limit of a hundred and with a focus that is in the list, puts the new file in front,
  and, when local storage accepts the write, a later start reads back exactly this list.
\<close>

theorem saved_artifacts_survive_restart:
  assumes "saved_ok s" "valid_saved a" "wf_json a" "as_writable s"
  shows "saved_ok (addArtifact a s) \<and> hd (as_saved (addArtifact a s)) = a \<and> focusedArtifact (addArtifact a s) = Some a
    \<and> as_saved (open_store (as_storage (addArtifact a s)) w) = as_saved (addArtifact a s)"
proof -
  note ok = saved_ok_add [OF assms(1-3)]
  from ok have "length (as_saved (addArtifact a s)) \<le> 100" "list_all valid_saved (as_saved (addArtifact a s))"
      "list_all wf_json (as_saved (addArtifact a s))" by (simp_all add: saved_ok_def)
  moreover have "as_storage (addArtifact a s) = Some (JSON_stringify (Arr (take 100 (as_saved (addArtifact a s)))))"
    using assms(4) by (simp add: addArtifact_def persist_artifacts_def)
  ultimately have "as_saved (open_store (as_storage (addArtifact a s)) w) = as_saved (addArtifact a s)"
    by (simp add: open_store_def readSaved_stringify del: JSON_stringify.simps)
  with ok show ?thesis by (simp add: focusedArtifact_def addArtifact_def persist_artifacts_def)
qed

definition sample_saved :: jsval where
  "sample_saved = Obj [(''id'', Str ''r1''), (''name'', Str ''report.md''), (''size_bytes'', Num (Fin 12))]"

theorem saved_artifacts_survive_restart_witness:
  "as_saved (open_store (as_storage (addArtifact sample_saved (open_store None True))) True) = [sample_saved]"
proof -
  have "readSavedArtifacts None = []" by code_simp
  hence s: "saved_ok (open_store None True)" "as_writable (open_store None True)" "as_saved (open_store None True) = []"
    by (simp_all add: saved_ok_def open_store_def)
  have "valid_saved sample_saved \<and> wf_json sample_saved" by code_simp
  with saved_artifacts_survive_restart [of "open_store None True" sample_saved True] s show ?thesis
    by (simp add: addArtifact_def persist_artifacts_def)
qed

end
