(* ===== verification/ConnectionStore.thy ===== *)
theory ConnectionStore
  imports Json
begin

text \<open>
  The connection store \<open>src/stores/connection.ts\<close>: probes of the server's health, cut at the
  await of the request, the polling loop that reschedules itself, and the callbacks that
  are told when the server is back.
\<close>

section \<open>State\<close>

text \<open>
  A running polling loop is the closure of \<open>startHealthPolling\<close>: the interval it was started
  with and the one it uses now.
\<close>

record poll_loop =
  pl_intervalMs :: nat
  pl_currentInterval :: nat

datatype probe = Direct | Polled poll_loop

text \<open>
  The fields of the store, the pending timers by identity (\<open>pollTimer\<close> is the identity the
  store remembers), the probes in flight, the registered callbacks and a log of their calls.
\<close>

record connection =
  cn_connected :: bool
  cn_online :: bool
  cn_serverVersion :: jsval
  cn_checking :: bool
  cn_lastCheckTime :: "string option"
  cn_consecutiveFailures :: nat
  cn_error :: "string option"
  cn_wasConnected :: bool
  cn_lastConnectedAt :: "string option"
  cn_pollTimer :: "nat option"
  cn_callbacks :: "nat list"
  cn_called :: "nat list"
  cn_attached :: bool
  cn_timers :: "(nat \<times> poll_loop) list"
  cn_probes :: "probe list"
  cn_nextTimer :: nat

definition onReconnect :: "nat \<Rightarrow> connection \<Rightarrow> connection" where
  "onReconnect cb c = c\<lparr>cn_callbacks := cn_callbacks c @ [cb]\<rparr>"

definition unsubscribe :: "nat \<Rightarrow> connection \<Rightarrow> connection" where
  "unsubscribe cb c = c\<lparr>cn_callbacks := remove1 cb (cn_callbacks c)\<rparr>"

definition statusText :: "connection \<Rightarrow> string" where
  "statusText c =
     (if \<not> cn_online c then ''offline'' else if cn_checking c then ''checking''
      else if cn_connected c then ''connected'' else ''disconnected'')"

section \<open>A probe\<close>

text \<open>The part before the await; \<open>None\<close> when the browser is offline and the result is false at once.\<close>

definition testConnection_begin :: "string \<Rightarrow> connection \<Rightarrow> bool \<times> connection" where
  "testConnection_begin offlineText c =
     (if \<not> cn_online c then (False, c\<lparr>cn_connected := False, cn_error := Some offlineText\<rparr>)
      else (True, c\<lparr>cn_checking := True, cn_error := None\<rparr>))"

text \<open>The rest: \<open>Inl\<close> is the message of a failed request, \<open>Inr\<close> the health document.\<close>

definition testConnection_answer :: "string \<Rightarrow> string + jsval \<Rightarrow> connection \<Rightarrow> bool \<times> connection" where
  "testConnection_answer now res c =
     (case res of
        Inl m \<Rightarrow>
          (False, c\<lparr>cn_connected := False, cn_serverVersion := Str [], cn_consecutiveFailures := Suc (cn_consecutiveFailures c),
                    cn_error := Some m, cn_checking := False\<rparr>)
      | Inr health \<Rightarrow>
          let isHealthy = (field health ''status'' \<in> {Str ''ok'', Str ''degraded''});
              wasPreviouslyDisconnected = \<not> cn_connected c;
              version = field health ''version'';
              c1 = c\<lparr>cn_connected := isHealthy,
                     cn_serverVersion := (if version = Undefined \<or> version = Null then Str [] else version),
                     cn_lastCheckTime := Some now, cn_consecutiveFailures := 0\<rparr>;
              c2 = (if isHealthy
                    then let d = c1\<lparr>cn_lastConnectedAt := Some now\<rparr>;
                             e = (if wasPreviouslyDisconnected \<and> cn_wasConnected d
                                  then d\<lparr>cn_called := cn_called d @ cn_callbacks d\<rparr> else d)
                         in e\<lparr>cn_wasConnected := True\<rparr>
                    else c1)
          in (cn_connected c2, c2\<lparr>cn_checking := False\<rparr>))"

definition start_probe :: "string \<Rightarrow> connection \<Rightarrow> connection" where
  "start_probe offlineText c =
     (let (waiting, c1) = testConnection_begin offlineText c
      in if waiting then c1\<lparr>cn_probes := cn_probes c1 @ [Direct]\<rparr> else c1)"

section \<open>Browser events\<close>

definition attachBrowserListeners :: "connection \<Rightarrow> connection" where
  "attachBrowserListeners c = c\<lparr>cn_attached := True\<rparr>"

definition browser_online :: "string \<Rightarrow> connection \<Rightarrow> connection" where
  "browser_online offlineText c = (if cn_attached c then start_probe offlineText (c\<lparr>cn_online := True\<rparr>) else c)"

definition browser_offline :: "connection \<Rightarrow> connection" where
  "browser_offline c = (if cn_attached c then c\<lparr>cn_online := False, cn_connected := False\<rparr> else c)"

section \<open>Polling\<close>

definition scheduleNext :: "poll_loop \<Rightarrow> connection \<Rightarrow> connection" where
  "scheduleNext l c =
     c\<lparr>cn_pollTimer := Some (cn_nextTimer c), cn_timers := cn_timers c @ [(cn_nextTimer c, l)], cn_nextTimer := Suc (cn_nextTimer c)\<rparr>"

definition stopHealthPolling :: "connection \<Rightarrow> connection" where
  "stopHealthPolling c =
     (case cn_pollTimer c of
        None \<Rightarrow> c
      | Some i \<Rightarrow> c\<lparr>cn_timers := filter (\<lambda>t. fst t \<noteq> i) (cn_timers c), cn_pollTimer := None\<rparr>)"

definition startHealthPolling :: "string \<Rightarrow> nat \<Rightarrow> connection \<Rightarrow> connection" where
  "startHealthPolling offlineText intervalMs c =
     scheduleNext \<lparr>pl_intervalMs = intervalMs, pl_currentInterval = intervalMs\<rparr>
       (start_probe offlineText (stopHealthPolling (attachBrowserListeners c)))"

definition next_interval :: "nat \<Rightarrow> bool \<Rightarrow> nat \<Rightarrow> nat" where
  "next_interval intervalMs ok failures =
     (if ok then intervalMs else if failures \<ge> 10 then 60000 else if failures \<ge> 3 then 10000 else intervalMs)"

definition poll_done :: "poll_loop \<Rightarrow> bool \<Rightarrow> connection \<Rightarrow> connection" where
  "poll_done l ok c =
     scheduleNext (l\<lparr>pl_currentInterval := next_interval (pl_intervalMs l) ok (cn_consecutiveFailures c)\<rparr>) c"

text \<open>A timer fires: it leaves the pending timers, its probe starts.\<close>

definition timer_fires :: "string \<Rightarrow> nat \<Rightarrow> connection \<Rightarrow> connection" where
  "timer_fires offlineText i c =
     (case map_of (cn_timers c) i of
        None \<Rightarrow> c
      | Some l \<Rightarrow>
          let (waiting, c1) = testConnection_begin offlineText (c\<lparr>cn_timers := filter (\<lambda>t. fst t \<noteq> i) (cn_timers c)\<rparr>)
          in if waiting then c1\<lparr>cn_probes := cn_probes c1 @ [Polled l]\<rparr> else poll_done l False c1)"

definition probe_answers :: "string \<Rightarrow> string + jsval \<Rightarrow> nat \<Rightarrow> connection \<Rightarrow> connection" where
  "probe_answers now res k c =
     (if k < length (cn_probes c)
      then let p = cn_probes c ! k;
               (ok, c1) = testConnection_answer now res (c\<lparr>cn_probes := take k (cn_probes c) @ drop (Suc k) (cn_probes c)\<rparr>)
           in (case p of Direct \<Rightarrow> c1 | Polled l \<Rightarrow> poll_done l ok c1)
      else c)"

inductive connection_step :: "string \<Rightarrow> connection \<Rightarrow> connection \<Rightarrow> bool" for off where
  cs_start: "connection_step off c (startHealthPolling off n c)"
| cs_stop: "connection_step off c (stopHealthPolling c)"
| cs_test: "connection_step off c (start_probe off c)"
| cs_timer: "connection_step off c (timer_fires off i c)"
| cs_answer: "connection_step off c (probe_answers now res k c)"
| cs_online: "connection_step off c (browser_online off c)"
| cs_offline: "connection_step off c (browser_offline c)"
| cs_subscribe: "connection_step off c (onReconnect cb c)"
| cs_unsubscribe: "connection_step off c (unsubscribe cb c)"

inductive_cases connection_stepE: "connection_step off c c'"

definition init_connection :: "bool \<Rightarrow> connection" where
  "init_connection navigator_online =
     \<lparr>cn_connected = False, cn_online = navigator_online, cn_serverVersion = Str [], cn_checking = False, cn_lastCheckTime = None,
      cn_consecutiveFailures = 0, cn_error = None, cn_wasConnected = False, cn_lastConnectedAt = None, cn_pollTimer = None,
      cn_callbacks = [], cn_called = [], cn_attached = False, cn_timers = [], cn_probes = [], cn_nextTimer = 0\<rparr>"

section \<open>Loops never end by themselves\<close>

text \<open>The loops that will poll again: those that wait for their timer and those that wait for an answer.\<close>

definition polled :: "probe list \<Rightarrow> probe list" where
  "polled ps = filter (\<lambda>p. p \<noteq> Direct) ps"

definition loops :: "connection \<Rightarrow> nat" where
  "loops c = length (cn_timers c) + length (polled (cn_probes c))"

definition timers_ok :: "connection \<Rightarrow> bool" where
  "timers_ok c = (distinct (map fst (cn_timers c)) \<and> (\<forall>t \<in> set (cn_timers c). fst t < cn_nextTimer c)
     \<and> (\<forall>i. cn_pollTimer c = Some i \<longrightarrow> i < cn_nextTimer c))"

lemma testConnection_begin_fields:
  assumes "testConnection_begin off c = (waiting, c')"
  shows "cn_timers c' = cn_timers c" "cn_probes c' = cn_probes c" "cn_nextTimer c' = cn_nextTimer c" "cn_pollTimer c' = cn_pollTimer c"
  using assms by (auto simp: testConnection_begin_def split: if_splits)

lemma testConnection_answer_fields:
  assumes "testConnection_answer now res c = (ok, c')"
  shows "cn_timers c' = cn_timers c" "cn_probes c' = cn_probes c" "cn_nextTimer c' = cn_nextTimer c" "cn_pollTimer c' = cn_pollTimer c"
  using assms by (auto simp: testConnection_answer_def Let_def split: sum.splits if_splits)

lemma start_probe_loops:
  "loops (start_probe off c) = loops c" "timers_ok (start_probe off c) = timers_ok c" "cn_timers (start_probe off c) = cn_timers c"
  by (auto simp: start_probe_def testConnection_begin_def loops_def polled_def timers_ok_def)

lemma scheduleNext_loops:
  "loops (scheduleNext l c) = Suc (loops c)" "timers_ok c \<Longrightarrow> timers_ok (scheduleNext l c)"
  by (auto simp: scheduleNext_def loops_def timers_ok_def)

lemma filter_other_key:
  "distinct (map fst xs) \<Longrightarrow> map_of xs i = Some l \<Longrightarrow> Suc (length (filter (\<lambda>t. fst t \<noteq> i) xs)) = length xs"
proof (induction xs)
  case (Cons x xs)
  show ?case
  proof (cases "fst x = i")
    case True
    with Cons.prems(1) have "i \<notin> fst ` set xs" by simp
    hence "filter (\<lambda>t. fst t \<noteq> i) xs = xs" by (subst filter_id_conv) (metis image_eqI)
    with True show ?thesis by simp
  qed (use Cons in \<open>cases x; simp\<close>)
qed simp

lemma timer_fires_loops:
  assumes "timers_ok c"
  shows "loops (timer_fires off i c) = loops c \<and> timers_ok (timer_fires off i c)"
proof (cases "map_of (cn_timers c) i")
  case (Some l)
  let ?c = "c\<lparr>cn_timers := filter (\<lambda>t. fst t \<noteq> i) (cn_timers c)\<rparr>"
  obtain waiting c1 where b: "testConnection_begin off ?c = (waiting, c1)" by fastforce
  note f = testConnection_begin_fields [OF b]
  from assms Some have n: "Suc (length (filter (\<lambda>t. fst t \<noteq> i) (cn_timers c))) = length (cn_timers c)"
    by (simp add: timers_ok_def filter_other_key)
  from assms f have ok: "timers_ok c1" by (auto simp: timers_ok_def distinct_map_filter)
  have loops_c1: "Suc (loops c1) = loops c" using f n by (simp add: loops_def)
  show ?thesis
  proof (cases waiting)
    case True
    with Some b ok loops_c1 show ?thesis by (auto simp: timer_fires_def loops_def polled_def timers_ok_def)
  next
    case False
    with Some b ok loops_c1 show ?thesis by (simp add: timer_fires_def poll_done_def scheduleNext_loops)
  qed
qed (simp add: timer_fires_def assms)

lemma polled_remove:
  assumes "k < length ps"
  shows "length (polled ps) = (if ps ! k = Direct then 0 else 1) + length (polled (take k ps @ drop (Suc k) ps))"
proof -
  have "ps = take k ps @ ps ! k # drop (Suc k) ps" using assms by (simp add: id_take_nth_drop)
  hence "polled ps = polled (take k ps @ ps ! k # drop (Suc k) ps)" by simp
  then show ?thesis by (simp add: polled_def)
qed

lemma probe_answers_loops:
  assumes "timers_ok c"
  shows "loops (probe_answers now res k c) = loops c \<and> timers_ok (probe_answers now res k c)"
proof (cases "k < length (cn_probes c)")
  case True
  let ?c = "c\<lparr>cn_probes := take k (cn_probes c) @ drop (Suc k) (cn_probes c)\<rparr>"
  obtain ok c1 where a: "testConnection_answer now res ?c = (ok, c1)" by fastforce
  note f = testConnection_answer_fields [OF a]
  from assms f have "timers_ok c1" by (auto simp: timers_ok_def)
  moreover have "loops c = (if cn_probes c ! k = Direct then 0 else 1) + loops c1"
    using f polled_remove [OF True] by (simp add: loops_def)
  ultimately show ?thesis using True a
    by (cases "cn_probes c ! k") (simp_all add: probe_answers_def poll_done_def scheduleNext_loops)
qed (simp add: probe_answers_def assms)

lemma stop_timers_ok: "timers_ok c \<Longrightarrow> timers_ok (stopHealthPolling c)"
  by (auto simp: stopHealthPolling_def timers_ok_def distinct_map_filter split: option.split)

lemma timers_ok_step: "connection_step off c c' \<Longrightarrow> timers_ok c \<Longrightarrow> timers_ok c'"
proof (erule connection_stepE)
  fix n assume "c' = startHealthPolling off n c" "timers_ok c"
  moreover have "timers_ok (attachBrowserListeners c)" if "timers_ok c" using that by (simp add: attachBrowserListeners_def timers_ok_def)
  ultimately show "timers_ok c'"
    by (simp add: startHealthPolling_def scheduleNext_loops start_probe_loops stop_timers_ok)
qed (simp_all add: stop_timers_ok start_probe_loops timer_fires_loops probe_answers_loops browser_online_def,
     simp_all add: timers_ok_def browser_offline_def onReconnect_def unsubscribe_def)

interpretation polling: step_invariant "init_connection b" "connection_step off" timers_ok for b off
  by unfold_locales (simp add: init_connection_def timers_ok_def, rule timers_ok_step)

text \<open>
  A polling loop ends only by a stop that catches it between two probes: whatever the
  server answers and the browser reports, firing timers and answers keep the number of
  loops; and \<open>stopHealthPolling\<close> has no effect on a loop whose probe is in flight, so
  that after a stop and a new start during a probe two loops poll the server forever.
\<close>

theorem polling_loops_survive_stop:
  assumes "rtranclp (connection_step off) (init_connection b) c"
  shows "loops (timer_fires off i c) = loops c \<and> loops (probe_answers now res k c) = loops c
    \<and> length (polled (cn_probes (stopHealthPolling c))) = length (polled (cn_probes c))
    \<and> (cn_timers c = [] \<longrightarrow> loops (stopHealthPolling c) = loops c
         \<and> loops (startHealthPolling off n (stopHealthPolling c)) = Suc (loops c))"
proof -
  from polling.inv_reachable [OF assms] have ok: "timers_ok c" .
  have "cn_timers c = [] \<Longrightarrow> loops (startHealthPolling off n (stopHealthPolling c)) = Suc (loops c)"
    unfolding startHealthPolling_def scheduleNext_loops start_probe_loops
    by (simp add: stopHealthPolling_def attachBrowserListeners_def loops_def split: option.split)
  moreover have "polled (cn_probes (stopHealthPolling c)) = polled (cn_probes c)" "cn_timers c = [] \<Longrightarrow> loops (stopHealthPolling c) = loops c"
    by (simp_all add: stopHealthPolling_def loops_def split: option.split)
  ultimately show ?thesis using ok by (simp add: timer_fires_loops probe_answers_loops)
qed

definition polling_once :: connection where
  "polling_once = timer_fires [] 0 (startHealthPolling [] 30000 (init_connection True))"

theorem polling_loops_survive_stop_witness:
  "cn_timers polling_once = [] \<and> loops polling_once = 1
   \<and> loops (startHealthPolling [] 30000 (stopHealthPolling polling_once)) = 2"
proof -
  have "connection_step [] (init_connection True) (startHealthPolling [] 30000 (init_connection True))" by (rule cs_start)
  moreover have "connection_step [] (startHealthPolling [] 30000 (init_connection True)) polling_once"
    unfolding polling_once_def by (rule cs_timer)
  ultimately have "rtranclp (connection_step []) (init_connection True) polling_once" by simp
  moreover have "cn_timers polling_once = [] \<and> loops polling_once = 1"
    by (simp add: polling_once_def startHealthPolling_def scheduleNext_def start_probe_def stopHealthPolling_def attachBrowserListeners_def
          init_connection_def testConnection_begin_def timer_fires_def loops_def polled_def)
  ultimately show ?thesis using polling_loops_survive_stop [of "[]" True polling_once _ _ _ _ 30000] by simp
qed

section \<open>Reconnection callbacks\<close>

text \<open>The callbacks run exactly when a healthy answer follows a time without connection that followed a connection.\<close>

lemma reconnect_callbacks_run_iff:
  assumes "testConnection_answer now res c = (ok, c')"
  shows "cn_called c' = cn_called c @
     (if ok \<and> \<not> cn_connected c \<and> cn_wasConnected c then cn_callbacks c else []) \<and> cn_connected c' = ok"
  using assms by (auto simp: testConnection_answer_def Let_def split: sum.splits if_splits)

text \<open>A probe that was sent before the browser went offline reports the server as connected while the browser is offline.\<close>

lemma late_answer_connects_offline:
  "let c = probe_answers now (Inr (Obj [(''status'', Str ''ok'')])) 0 (browser_offline (start_probe off (attachBrowserListeners (init_connection True))))
   in \<not> cn_online c \<and> cn_connected c"
  by (simp add: init_connection_def attachBrowserListeners_def start_probe_def testConnection_begin_def browser_offline_def
        probe_answers_def testConnection_answer_def Let_def)

end
