(* ===== verification/ToastStore.thy ===== *)
theory ToastStore
  imports Prelude
begin

text \<open>
  The toast store \<open>src/stores/toast.ts\<close>: duplicates are dropped while one is visible, and
  repeated errors are throttled by a table of the times they were last shown.
\<close>

section \<open>State and operations\<close>

datatype ToastType = Tsuccess | Terror | Twarning | Tinfo

record Toast =
  to_id :: nat
  to_type :: ToastType
  to_message :: string
  to_duration :: int

text \<open>The visible toasts, the module's counter and table, and the pending timers.\<close>

record toast_store =
  ts_toasts :: "Toast list"
  ts_nextId :: nat
  ts_lastShown :: "string \<rightharpoonup> int"
  ts_timers :: "nat list"

definition ERROR_THROTTLE_MS :: int where "ERROR_THROTTLE_MS = 5000"

definition visible :: "ToastType \<Rightarrow> string \<Rightarrow> toast_store \<Rightarrow> bool" where
  "visible ty m s = list_ex (\<lambda>x. to_type x = ty \<and> to_message x = m) (ts_toasts s)"

definition throttle_key :: "string \<Rightarrow> string" where
  "throttle_key m = ''error:'' @ m"

definition last_shown :: "string \<Rightarrow> toast_store \<Rightarrow> int" where
  "last_shown m s = (case ts_lastShown s (throttle_key m) of Some t \<Rightarrow> t | None \<Rightarrow> 0)"

definition push_toast :: "string \<Rightarrow> ToastType \<Rightarrow> int option \<Rightarrow> toast_store \<Rightarrow> toast_store" where
  "push_toast m ty duration s =
     (let i = ts_nextId s;
          dur = (case duration of Some d \<Rightarrow> d | None \<Rightarrow> if ty = Terror then 10000 else 5000)
      in s\<lparr>ts_nextId := Suc i, ts_toasts := ts_toasts s @ [\<lparr>to_id = i, to_type = ty, to_message = m, to_duration = dur\<rparr>],
           ts_timers := (if dur > 0 then ts_timers s @ [i] else ts_timers s)\<rparr>)"

text \<open>\<open>show\<close>; the result tells whether a toast was added.\<close>

definition show_toast :: "int \<Rightarrow> string \<Rightarrow> ToastType \<Rightarrow> int option \<Rightarrow> toast_store \<Rightarrow> bool \<times> toast_store" where
  "show_toast now m ty duration s =
     (if visible ty m s then (False, s)
      else if ty = Terror
      then if now - last_shown m s < ERROR_THROTTLE_MS then (False, s)
           else (True, push_toast m ty duration (s\<lparr>ts_lastShown := (ts_lastShown s)(throttle_key m \<mapsto> now)\<rparr>))
      else (True, push_toast m ty duration s))"

fun remove_first :: "('a \<Rightarrow> bool) \<Rightarrow> 'a list \<Rightarrow> 'a list" where
  "remove_first p [] = []"
| "remove_first p (x # xs) = (if p x then xs else x # remove_first p xs)"

definition dismiss :: "nat \<Rightarrow> toast_store \<Rightarrow> toast_store" where
  "dismiss i s = s\<lparr>ts_toasts := remove_first (\<lambda>x. to_id x = i) (ts_toasts s)\<rparr>"

definition toast_success :: "int \<Rightarrow> string \<Rightarrow> int option \<Rightarrow> toast_store \<Rightarrow> bool \<times> toast_store" where
  "toast_success now m d = show_toast now m Tsuccess d"

definition toast_error :: "int \<Rightarrow> string \<Rightarrow> int option \<Rightarrow> toast_store \<Rightarrow> bool \<times> toast_store" where
  "toast_error now m d = show_toast now m Terror d"

definition toast_warning :: "int \<Rightarrow> string \<Rightarrow> int option \<Rightarrow> toast_store \<Rightarrow> bool \<times> toast_store" where
  "toast_warning now m d = show_toast now m Twarning d"

definition toast_info :: "int \<Rightarrow> string \<Rightarrow> int option \<Rightarrow> toast_store \<Rightarrow> bool \<times> toast_store" where
  "toast_info now m d = show_toast now m Tinfo d"

text \<open>\<open>sanitizeErrorMessage\<close> is the argument \<open>sanitize\<close>.\<close>

definition errorFromException :: "('e \<Rightarrow> string) \<Rightarrow> int \<Rightarrow> 'e \<Rightarrow> int option \<Rightarrow> toast_store \<Rightarrow> bool \<times> toast_store" where
  "errorFromException sanitize now err d = show_toast now (sanitize err) Terror d"

definition timer_dismiss :: "nat \<Rightarrow> toast_store \<Rightarrow> toast_store" where
  "timer_dismiss i s = (if i \<in> set (ts_timers s) then dismiss i (s\<lparr>ts_timers := remove1 i (ts_timers s)\<rparr>) else s)"

inductive toast_step :: "toast_store \<Rightarrow> toast_store \<Rightarrow> bool" where
  step_show: "toast_step s (snd (show_toast now m ty d s))"
| step_dismiss: "toast_step s (dismiss i s)"
| step_timer: "toast_step s (timer_dismiss i s)"

inductive_cases toast_stepE: "toast_step s s'"

definition init_toasts :: toast_store where
  "init_toasts = \<lparr>ts_toasts = [], ts_nextId = 0, ts_lastShown = Map.empty, ts_timers = []\<rparr>"

section \<open>No pile-up\<close>

definition toasts_ok :: "toast_store \<Rightarrow> bool" where
  "toasts_ok s = (distinct (map (\<lambda>x. (to_type x, to_message x)) (ts_toasts s)) \<and> distinct (map to_id (ts_toasts s))
     \<and> (\<forall>x \<in> set (ts_toasts s). to_id x < ts_nextId s))"

lemma set_remove_first: "set (remove_first p xs) \<subseteq> set xs"
  by (induction xs) auto

lemma distinct_remove_first: "distinct (map f xs) \<Longrightarrow> distinct (map f (remove_first p xs))"
proof (induction xs)
  case (Cons x xs)
  then show ?case using set_remove_first [of p xs] by auto
qed simp

lemma toasts_ok_dismiss: "toasts_ok s \<Longrightarrow> toasts_ok (dismiss i s)"
  using set_remove_first [of "\<lambda>x. to_id x = i" "ts_toasts s"]
  by (auto simp: toasts_ok_def dismiss_def distinct_remove_first)

lemma toasts_ok_push: "toasts_ok s \<Longrightarrow> \<not> visible ty m s \<Longrightarrow> toasts_ok (push_toast m ty d s)"
  by (force simp: toasts_ok_def push_toast_def visible_def list_ex_iff Let_def)

lemma toasts_ok_show: "toasts_ok s \<Longrightarrow> toasts_ok (snd (show_toast now m ty d s))"
  using toasts_ok_push [of "s\<lparr>ts_lastShown := _\<rparr>"] toasts_ok_push [of s]
  by (auto simp: show_toast_def) (auto simp: toasts_ok_def visible_def)

lemma toasts_ok_step: "toast_step s s' \<Longrightarrow> toasts_ok s \<Longrightarrow> toasts_ok s'"
proof (erule toast_stepE)
  fix i assume s': "s' = timer_dismiss i s" and ok: "toasts_ok s"
  from ok have "toasts_ok (s\<lparr>ts_timers := remove1 i (ts_timers s)\<rparr>)" by (simp add: toasts_ok_def)
  with s' ok show "toasts_ok s'" by (simp add: timer_dismiss_def toasts_ok_dismiss)
qed (simp_all add: toasts_ok_show toasts_ok_dismiss)

interpretation toasts: step_invariant init_toasts toast_step toasts_ok
  by unfold_locales (simp add: toasts_ok_def init_toasts_def, rule toasts_ok_step)

lemma last_shown_step: "toast_step s s' \<Longrightarrow> last_shown m s \<le> last_shown m s'"
  by (erule toast_stepE)
     (auto simp: show_toast_def push_toast_def dismiss_def timer_dismiss_def last_shown_def throttle_key_def ERROR_THROTTLE_MS_def Let_def
        split: option.splits)

interpretation shown: step_preorder toast_step "\<lambda>s s'. last_shown m s \<le> last_shown m s'" for m
  by unfold_locales (simp, erule (1) order_trans, rule last_shown_step)

text \<open>
  Errors do not pile up: whatever is shown, dismissed or times out in between, and however
  the clock moves, two toasts of the same error message are shown at least five seconds
  apart; and no two visible toasts have the same type and message.
\<close>

theorem error_toasts_throttled:
  assumes "rtranclp toast_step init_toasts s" and "show_toast now m Terror d s = (True, s1)"
    and "rtranclp toast_step s1 s2" and "show_toast now' m Terror d' s2 = (True, s3)"
  shows "now' \<ge> now + 5000 \<and> distinct (map (\<lambda>x. (to_type x, to_message x)) (ts_toasts s2))"
proof -
  have step: "toast_step s s1" using step_show [of s now m Terror d] assms(2) by simp
  from assms(2) have "last_shown m s1 = now"
    by (auto simp: show_toast_def push_toast_def last_shown_def Let_def split: if_splits)
  with shown.below_steps [OF assms(3), of m] have "now \<le> last_shown m s2" by simp
  moreover from assms(4) have "now' - last_shown m s2 \<ge> 5000"
    by (auto simp: show_toast_def ERROR_THROTTLE_MS_def split: if_splits)
  moreover from toasts.inv_reachable [of s2] assms(1,3) step have "toasts_ok s2"
    by (meson rtranclp.rtrancl_into_rtrancl rtranclp_trans)
  ultimately show ?thesis by (simp add: toasts_ok_def)
qed

definition shown_once :: toast_store where
  "shown_once = snd (show_toast 9000 ''down'' Terror None init_toasts)"

theorem error_toasts_throttled_witness:
  "(15000::int) \<ge> 9000 + 5000 \<and> fst (show_toast 15000 ''down'' Terror None (dismiss 0 shown_once))"
proof -
  have a: "show_toast 9000 ''down'' Terror None init_toasts = (True, shown_once)"
    by (simp add: shown_once_def show_toast_def visible_def init_toasts_def last_shown_def ERROR_THROTTLE_MS_def)
  have shown: "fst (show_toast 15000 ''down'' Terror None (dismiss 0 shown_once))"
    by (simp add: shown_once_def show_toast_def visible_def init_toasts_def last_shown_def ERROR_THROTTLE_MS_def push_toast_def dismiss_def
          throttle_key_def Let_def)
  then obtain s3 where b: "show_toast 15000 ''down'' Terror None (dismiss 0 shown_once) = (True, s3)" by (metis prod.collapse)
  have "rtranclp toast_step shown_once (dismiss 0 shown_once)" by (rule r_into_rtranclp, rule step_dismiss)
  from error_toasts_throttled [OF rtranclp.rtrancl_refl a this b] shown show ?thesis by blast
qed

end
