(* ===== verification/SettingsStore.thy ===== *)
theory SettingsStore
  imports ServiceUrl
begin

text \<open>
  The settings store \<open>src/stores/settings.ts\<close>: what persisted documents may change, where
  settings are stored, and the watcher that saves them.  The parts of the store that talk
  to the page (\<open>data-theme\<close>, \<open>lang\<close>) are fields of the state.
\<close>

section \<open>State\<close>

datatype Theme = dark | light
datatype Language = zh_CN | en

record settings =
  se_serverUrl :: string
  se_theme :: Theme
  se_language :: Language
  se_loaded :: bool
  se_vmHost :: string
  se_sshPort :: jsval
  se_sshUser :: string
  se_sshPassword :: string

text \<open>
  What the store writes to: local storage, safe storage, the documents it gave to the
  desktop bridge (newest last, with the customer they belong to) and the page.
\<close>

record settings_world =
  sw_settings :: settings
  sw_localStorage :: "string \<rightharpoonup> string"
  sw_credentials :: "string \<rightharpoonup> string"
  sw_bridge :: "(string option \<times> jsval) list"
  sw_page_theme :: "Theme option"
  sw_page_lang :: "Language option"

definition STORAGE_KEY_PREFIX :: string where "STORAGE_KEY_PREFIX = ''awp_settings''"

definition DEFAULT_REMOTE :: "string \<times> jsval \<times> string" where
  "DEFAULT_REMOTE = (''127.0.0.1'', Num (Fin 2222), [])"

definition nonempty :: "string option \<Rightarrow> string option" where
  "nonempty s = (case s of Some (c # cs) \<Rightarrow> Some (c # cs) | _ \<Rightarrow> None)"

definition storageKey :: "(string \<rightharpoonup> string) \<Rightarrow> string" where
  "storageKey ls =
     (case nonempty (ls ''awp_customer_id'') of Some i \<Rightarrow> STORAGE_KEY_PREFIX @ ''_'' @ i | None \<Rightarrow> STORAGE_KEY_PREFIX)"

text \<open>The adapter URL of the build is the argument.\<close>

definition init_settings :: "runtime \<Rightarrow> string \<Rightarrow> settings" where
  "init_settings rt adapterUrl =
     \<lparr>se_serverUrl = (case normalizeServiceBaseUrl rt adapterUrl of Some u \<Rightarrow> u | None \<Rightarrow> ''http://127.0.0.1:8787''),
      se_theme = light, se_language = zh_CN, se_loaded = False, se_vmHost = fst DEFAULT_REMOTE, se_sshPort = fst (snd DEFAULT_REMOTE),
      se_sshUser = snd (snd DEFAULT_REMOTE), se_sshPassword = []\<rparr>"

section \<open>Applying a document\<close>

fun parse_theme :: "jsval \<Rightarrow> Theme option" where
  "parse_theme (Str s) = (if s = ''dark'' then Some dark else if s = ''light'' then Some light else None)"
| "parse_theme _ = None"

fun parse_language :: "jsval \<Rightarrow> Language option" where
  "parse_language (Str s) = (if s = ''zh-CN'' then Some zh_CN else if s = ''en'' then Some en else None)"
| "parse_language _ = None"

definition parse_server :: "runtime \<Rightarrow> jsval \<Rightarrow> string option" where
  "parse_server rt v = (case v of Str (c # cs) \<Rightarrow> normalizeServiceBaseUrl rt (c # cs) | _ \<Rightarrow> None)"

definition parse_port :: "jsval \<Rightarrow> jsval option" where
  "parse_port v = (case v of Num n \<Rightarrow> if is_finite_num n then Some v else None | _ \<Rightarrow> None)"

definition keep_or :: "'a \<Rightarrow> 'a option \<Rightarrow> 'a" where
  "keep_or old new = (case new of Some v \<Rightarrow> v | None \<Rightarrow> old)"

definition apply_remote :: "jsval \<Rightarrow> settings \<Rightarrow> settings" where
  "apply_remote remote s =
     (if \<not> truthy remote then s
      else s\<lparr>se_vmHost := keep_or (se_vmHost s) (as_string (field remote ''vmHost'')),
             se_sshPort := keep_or (se_sshPort s) (parse_port (field remote ''sshPort'')),
             se_sshUser := keep_or (se_sshUser s) (as_string (field remote ''sshUser''))\<rparr>)"

definition applyData :: "runtime \<Rightarrow> jsval \<Rightarrow> settings \<Rightarrow> settings" where
  "applyData rt data s =
     apply_remote (field data ''remote'')
       (s\<lparr>se_serverUrl := keep_or (se_serverUrl s) (parse_server rt (field data ''serverUrl'')),
          se_theme := keep_or (se_theme s) (parse_theme (field data ''theme'')),
          se_language := keep_or (se_language s) (parse_language (field data ''language''))\<rparr>)"

section \<open>Reading and writing\<close>

text \<open>The bridge answers with a document, or there is none (or it failed).\<close>

definition readPersisted :: "jsval option \<Rightarrow> (string \<rightharpoonup> string) \<Rightarrow> jsval option" where
  "readPersisted saved ls =
     (case saved of
        Some (Obj kvs) \<Rightarrow> Some (Obj kvs)
      | Some (Arr vs) \<Rightarrow> Some (Arr vs)
      | _ \<Rightarrow>
          (case nonempty (ls (storageKey ls)) of
             Some scoped \<Rightarrow> JSON_parse scoped
           | None \<Rightarrow>
               if storageKey ls \<noteq> STORAGE_KEY_PREFIX
               then (case nonempty (ls STORAGE_KEY_PREFIX) of Some legacy \<Rightarrow> JSON_parse legacy | None \<Rightarrow> None)
               else None))"

definition apply_persisted :: "runtime \<Rightarrow> jsval option \<Rightarrow> settings \<Rightarrow> settings" where
  "apply_persisted rt data s = (case data of Some v \<Rightarrow> if truthy v then applyData rt v s else s | None \<Rightarrow> s)"

definition show_on_page :: "settings_world \<Rightarrow> settings_world" where
  "show_on_page w = w\<lparr>sw_page_theme := Some (se_theme (sw_settings w)), sw_page_lang := Some (se_language (sw_settings w))\<rparr>"

definition loadSettings :: "runtime \<Rightarrow> jsval option \<Rightarrow> settings_world \<Rightarrow> settings_world" where
  "loadSettings rt saved w =
     (let s1 = apply_persisted rt (readPersisted saved (sw_localStorage w)) (sw_settings w);
          s2 = (case nonempty (sw_credentials w ''sshPassword'') of Some p \<Rightarrow> s1\<lparr>se_sshPassword := p\<rparr> | None \<Rightarrow> s1);
          w1 = show_on_page (w\<lparr>sw_settings := s2\<rparr>)
      in w1\<lparr>sw_settings := (sw_settings w1)\<lparr>se_loaded := True\<rparr>\<rparr>)"

text \<open>The late bridge of the browser shell: the document is read once more.\<close>

definition late_bridge :: "runtime \<Rightarrow> jsval option \<Rightarrow> settings_world \<Rightarrow> settings_world" where
  "late_bridge rt saved w =
     show_on_page (w\<lparr>sw_settings := apply_persisted rt (readPersisted saved (sw_localStorage w)) (sw_settings w)\<rparr>)"

fun theme_text :: "Theme \<Rightarrow> string" where
  "theme_text dark = ''dark''"
| "theme_text light = ''light''"

fun language_text :: "Language \<Rightarrow> string" where
  "language_text zh_CN = ''zh-CN''"
| "language_text en = ''en''"

definition settings_data :: "string \<Rightarrow> settings \<Rightarrow> jsval" where
  "settings_data u s =
     Obj [(''serverUrl'', Str u), (''theme'', Str (theme_text (se_theme s))), (''language'', Str (language_text (se_language s))),
          (''remote'', Obj [(''vmHost'', Str (se_vmHost s)), (''sshPort'', se_sshPort s), (''sshUser'', Str (se_sshUser s))])]"

definition saveSettings :: "runtime \<Rightarrow> bool \<Rightarrow> settings_world \<Rightarrow> settings_world" where
  "saveSettings rt has_bridge w =
     (case normalizeServiceBaseUrl rt (se_serverUrl (sw_settings w)) of
        None \<Rightarrow> w
      | Some u \<Rightarrow>
          let s = (sw_settings w)\<lparr>se_serverUrl := u\<rparr>; d = settings_data u s; ls = sw_localStorage w
          in w\<lparr>sw_settings := s,
               sw_bridge := (if has_bridge then sw_bridge w @ [(nonempty (ls ''awp_customer_id''), d)] else sw_bridge w),
               sw_localStorage := ls(storageKey ls \<mapsto> JSON_stringify d),
               sw_credentials := (sw_credentials w)(''sshPassword'' := (if se_sshPassword s \<noteq> [] then Some (se_sshPassword s) else None))\<rparr>)"

definition setTheme :: "Theme \<Rightarrow> settings_world \<Rightarrow> settings_world" where
  "setTheme t w = w\<lparr>sw_settings := (sw_settings w)\<lparr>se_theme := t\<rparr>, sw_page_theme := Some t\<rparr>"

definition setLanguage :: "Language \<Rightarrow> settings_world \<Rightarrow> settings_world" where
  "setLanguage l w = w\<lparr>sw_settings := (sw_settings w)\<lparr>se_language := l\<rparr>, sw_page_lang := Some l\<rparr>"

definition setServerUrl :: "runtime \<Rightarrow> string \<Rightarrow> settings_world \<Rightarrow> bool \<times> settings_world" where
  "setServerUrl rt u w =
     (case normalizeServiceBaseUrl rt u of
        None \<Rightarrow> (False, w)
      | Some n \<Rightarrow> (True, w\<lparr>sw_settings := (sw_settings w)\<lparr>se_serverUrl := n\<rparr>\<rparr>))"

definition resetRemoteDefaults :: "settings_world \<Rightarrow> settings_world" where
  "resetRemoteDefaults w =
     w\<lparr>sw_settings := (sw_settings w)\<lparr>se_vmHost := fst DEFAULT_REMOTE, se_sshPort := fst (snd DEFAULT_REMOTE),
        se_sshUser := snd (snd DEFAULT_REMOTE), se_sshPassword := []\<rparr>\<rparr>"

text \<open>The watcher.\<close>

definition watch_fires :: "runtime \<Rightarrow> bool \<Rightarrow> settings_world \<Rightarrow> settings_world" where
  "watch_fires rt has_bridge w = (if se_loaded (sw_settings w) then saveSettings rt has_bridge w else w)"

section \<open>Well-typed settings\<close>

text \<open>A settings value the rest of the program can use: a vetted service base and a finite port.\<close>

definition vetted :: "runtime \<Rightarrow> string \<Rightarrow> string \<Rightarrow> bool" where
  "vetted rt fallback u = (u = fallback \<or> (\<exists>raw. normalizeServiceBaseUrl rt raw = Some u))"

definition well_typed :: "runtime \<Rightarrow> string \<Rightarrow> settings \<Rightarrow> bool" where
  "well_typed rt fallback s =
     (vetted rt fallback (se_serverUrl s) \<and> (case se_sshPort s of Num n \<Rightarrow> is_finite_num n | _ \<Rightarrow> False))"

lemma well_typed_applyData: "well_typed rt fb s \<Longrightarrow> well_typed rt fb (applyData rt data s)"
  by (auto simp: well_typed_def applyData_def apply_remote_def keep_or_def parse_port_def parse_server_def vetted_def
      split: option.splits jsval.splits list.splits if_splits)

lemma well_typed_persisted: "well_typed rt fb s \<Longrightarrow> well_typed rt fb (apply_persisted rt data s)"
  by (simp add: apply_persisted_def well_typed_applyData split: option.split)

lemma well_typed_other_fields:
  "se_serverUrl s' = se_serverUrl s \<Longrightarrow> se_sshPort s' = se_sshPort s \<Longrightarrow> well_typed rt fb s' = well_typed rt fb s"
  by (simp add: well_typed_def)

text \<open>
  C27. Settings stay well typed: whatever document the bridge returns or local storage holds,
  parsed or not, old or hostile, loading it keeps a service base that passed the policy
  (or the built-in one) and a finite port, and so do the setters and a save.
\<close>

theorem settings_stay_well_typed:
  assumes "well_typed rt fb (sw_settings w)"
  shows "well_typed rt fb (sw_settings (loadSettings rt saved w)) \<and> well_typed rt fb (sw_settings (late_bridge rt saved w))
    \<and> well_typed rt fb (sw_settings (saveSettings rt b w)) \<and> well_typed rt fb (sw_settings (snd (setServerUrl rt u w)))
    \<and> well_typed rt fb (sw_settings (setTheme t w)) \<and> well_typed rt fb (sw_settings (setLanguage l w))
    \<and> well_typed rt fb (sw_settings (resetRemoteDefaults w)) \<and> well_typed rt fb (sw_settings (watch_fires rt b w))"
proof -
  have "well_typed rt fb (sw_settings (loadSettings rt saved w))"
    using well_typed_persisted [OF assms, of "readPersisted saved (sw_localStorage w)"]
    by (auto simp: loadSettings_def show_on_page_def Let_def well_typed_def split: option.split)
  moreover have "well_typed rt fb (sw_settings (late_bridge rt saved w))"
    by (simp add: late_bridge_def show_on_page_def well_typed_persisted assms)
  moreover have "well_typed rt fb (sw_settings (saveSettings rt b w))"
    using assms by (auto simp: saveSettings_def well_typed_def vetted_def Let_def split: option.split)
  moreover have "well_typed rt fb (sw_settings (snd (setServerUrl rt u w)))"
    using assms by (auto simp: setServerUrl_def well_typed_def vetted_def split: option.split)
  ultimately show ?thesis using assms
    by (simp add: watch_fires_def setTheme_def setLanguage_def resetRemoteDefaults_def DEFAULT_REMOTE_def)
       (simp add: well_typed_def is_finite_num_def)
qed

section \<open>Saving and loading\<close>

lemma parse_texts [simp]: "parse_theme (Str (theme_text t)) = Some t" "parse_language (Str (language_text l)) = Some l"
  by (cases t; simp) (cases l; simp)

lemma JSON_settings_data:
  assumes "wf_json (se_sshPort s)"
  shows "JSON_parse (JSON_stringify (settings_data u s)) = Some (settings_data u s)"
  using JSON_parse_stringify [of "settings_data u s" "[]"] assms
  by (simp add: settings_data_def skip_ws_def ends_number_def del: JSON_stringify.simps)

text \<open>
  Saving and loading back: when the settings are saved, a later start of the same customer,
  from whatever settings it starts with and without a bridge, ends with the same service
  base, theme, language, remote host, port, user and password, and shows them.
\<close>

theorem settings_round_trip:
  assumes base: "normalizeServiceBaseUrl rt (se_serverUrl (sw_settings w)) = Some u" "normalizeServiceBaseUrl rt u = Some u" "u \<noteq> []"
    and port: "se_sshPort (sw_settings w) = Num (Fin (rat_of_int p))" and key: "storageKey (sw_localStorage w) \<noteq> ''awp_customer_id''"
    and pw: "se_sshPassword (sw_settings w) \<noteq> []"
  shows "let w1 = saveSettings rt b w;
             w2 = loadSettings rt None (w1\<lparr>sw_settings := s0, sw_page_theme := None\<rparr>)
         in sw_settings w2 = (sw_settings w)\<lparr>se_serverUrl := u, se_loaded := True\<rparr> \<and> sw_page_theme w2 = Some (se_theme (sw_settings w))"
proof -
  let ?s = "(sw_settings w)\<lparr>se_serverUrl := u\<rparr>" and ?ls = "sw_localStorage w"
  let ?txt = "JSON_stringify (settings_data u ?s)"
  have wf: "wf_json (se_sshPort ?s)" using port by simp
  have ne: "?txt \<noteq> []" by (simp add: settings_data_def)
  have k: "storageKey (?ls(storageKey ?ls \<mapsto> ?txt)) = storageKey ?ls" using key by (simp add: storageKey_def)
  have read: "readPersisted None (?ls(storageKey ?ls \<mapsto> ?txt)) = Some (settings_data u ?s)"
    using ne JSON_settings_data [OF wf, of u] unfolding readPersisted_def k
    by (auto simp: nonempty_def neq_Nil_conv simp del: JSON_stringify.simps)
  have app: "applyData rt (settings_data u ?s) s0 =
     s0\<lparr>se_serverUrl := u, se_theme := se_theme (sw_settings w), se_language := se_language (sw_settings w),
        se_vmHost := se_vmHost (sw_settings w), se_sshPort := se_sshPort (sw_settings w), se_sshUser := se_sshUser (sw_settings w)\<rparr>"
    using base(2,3) port
    by (cases u) (simp_all add: applyData_def settings_data_def keep_or_def parse_server_def apply_remote_def parse_port_def is_finite_num_def
          del: parse_theme.simps parse_language.simps)
  have truthy: "truthy (settings_data u ?s)" by (simp add: settings_data_def)
  from read app truthy base(1) pw show ?thesis
    by (cases "se_sshPassword (sw_settings w)")
       (simp_all add: saveSettings_def loadSettings_def apply_persisted_def show_on_page_def nonempty_def Let_def)
qed

definition settings_url :: url where
  "settings_url = \<lparr>url_href = ''https://s.test/'', url_protocol = ''https:'', url_username = [], url_password = [],
     url_hostname = ''s.test'', url_port = [], url_pathname = ''/'', url_search = [], url_hash = [], url_origin = ''https://s.test''\<rparr>"

definition settings_runtime :: runtime where
  "settings_runtime = \<lparr>new_URL = (\<lambda>v. if starts_with v ''https://s.test'' then Some settings_url else None),
     clear_hash = (\<lambda>u. u), decodeURIComponent = Some\<rparr>"

definition edited :: settings_world where
  "edited = \<lparr>sw_settings = (init_settings settings_runtime [])\<lparr>se_serverUrl := ''https://s.test/'', se_theme := dark, se_sshPassword := ''pw''\<rparr>,
     sw_localStorage = [''awp_customer_id'' \<mapsto> ''c7''], sw_credentials = Map.empty, sw_bridge = [], sw_page_theme = None, sw_page_lang = None\<rparr>"

lemma settings_base:
  "normalizeServiceBaseUrl settings_runtime ''https://s.test/'' = Some ''https://s.test''"
  "normalizeServiceBaseUrl settings_runtime ''https://s.test'' = Some ''https://s.test''"
  by code_simp+

lemma edited_facts:
  "normalizeServiceBaseUrl settings_runtime (se_serverUrl (sw_settings edited)) = Some ''https://s.test''"
  "se_sshPort (sw_settings edited) = Num (Fin (rat_of_int 2222))" "storageKey (sw_localStorage edited) \<noteq> ''awp_customer_id''"
  "se_sshPassword (sw_settings edited) \<noteq> []" "se_theme (sw_settings edited) = dark"
  by (simp_all add: edited_def settings_base init_settings_def DEFAULT_REMOTE_def storageKey_def nonempty_def STORAGE_KEY_PREFIX_def)

theorem settings_round_trip_witness:
  "let w1 = saveSettings settings_runtime False edited;
       w2 = loadSettings settings_runtime None (w1\<lparr>sw_settings := init_settings settings_runtime [], sw_page_theme := None\<rparr>)
   in sw_settings w2 = (sw_settings edited)\<lparr>se_serverUrl := ''https://s.test'', se_loaded := True\<rparr> \<and> sw_page_theme w2 = Some dark"
  using settings_round_trip [OF edited_facts(1) settings_base(2) _ edited_facts(2-4), of False "init_settings settings_runtime []"]
  unfolding edited_facts(5) by simp

lemma first_start_well_typed: "well_typed settings_runtime ''http://127.0.0.1:8787'' (init_settings settings_runtime [])"
  by (auto simp: well_typed_def init_settings_def DEFAULT_REMOTE_def is_finite_num_def vetted_def split: option.split)

theorem settings_stay_well_typed_witness:
  "well_typed settings_runtime ''http://127.0.0.1:8787''
     (sw_settings (loadSettings settings_runtime (Some (Obj [(''serverUrl'', Str ''ftp://x''), (''remote'', Obj [(''sshPort'', Str ''22'')])]))
        (edited\<lparr>sw_settings := init_settings settings_runtime []\<rparr>)))"
  by (rule conjunct1 [OF settings_stay_well_typed]) (simp add: first_start_well_typed)

end
