(* ===== verification/DemoServer.thy ===== *)
theory DemoServer
  imports ApiClient SseProps
begin

text \<open>
  The front of the local demo control plane \<open>scripts/demo-control-plane.mjs\<close>: host and origin
  policy, routes, CORS preflight and the token check, in the order every request meets
  them.  The URL parser of the runtime and SHA-256 are parameters.  A thrown
  \<open>requestError\<close> is its status and code.
\<close>

section \<open>Errors\<close>

type_synonym 'a http = "(nat \<times> string) + 'a"

definition bind_http :: "'a http \<Rightarrow> ('a \<Rightarrow> 'b http) \<Rightarrow> 'b http" where
  "bind_http x f = (case x of Inl e \<Rightarrow> Inl e | Inr v \<Rightarrow> f v)"

lemma bind_http_simps [simp]: "bind_http (Inl e) f = Inl e" "bind_http (Inr v) f = f v"
  by (simp_all add: bind_http_def)

lemma bind_http_Inr: "bind_http x f = Inr v \<longleftrightarrow> (\<exists>u. x = Inr u \<and> f u = Inr v)"
  by (cases x) simp_all

text \<open>The status the outer \<open>catch\<close> answers with.\<close>

definition answer_status :: "nat \<Rightarrow> nat" where
  "answer_status candidate = (if candidate \<in> {400, 401, 403, 404, 413, 415, 422} then candidate else 500)"

section \<open>Routes\<close>

definition to_upper :: "string \<Rightarrow> string" where
  "to_upper s = map (\<lambda>c. if is_lower c then char_of (code c - 32) else c) s"

definition STATIC_DEMO_ROUTES :: "(string \<times> string) list" where
  "STATIC_DEMO_ROUTES =
     [(''GET'', ''/health''), (''GET'', ''/api/health''), (''GET'', ''/v1/health/ready''), (''GET'', ''/v1/maintenance''),
      (''GET'', ''/v1/changelog''), (''GET'', ''/api/chat/models''), (''GET'', ''/v1/chat/history''), (''POST'', ''/v1/chat/completions''),
      (''POST'', ''/v1/chat/upload''), (''GET'', ''/v1/chat/artifacts''), (''GET'', ''/v1/activity/events''), (''GET'', ''/v1/activity/stream'')]"

definition HOSTED_AUTH_DEMO_ROUTES :: "(string \<times> string) list" where
  "HOSTED_AUTH_DEMO_ROUTES =
     [(''GET'', ''/v1/auth/validate''), (''POST'', ''/v1/auth/login''), (''POST'', ''/v1/auth/register''), (''POST'', ''/v1/auth/logout'')]"

text \<open>\<open>^/v1/chat/history/([^/]+)$\<close>, \<open>.../messages$\<close> and \<open>^/v1/chat/artifacts/([^/]+)/download$\<close>; the group is the result.\<close>

definition history_match :: "string \<Rightarrow> string option" where
  "history_match p =
     (if starts_with p ''/v1/chat/history/''
      then (case split_char (CHR ''/'') (drop 17 p) of [x] \<Rightarrow> if x \<noteq> [] then Some x else None | _ \<Rightarrow> None) else None)"

definition message_match :: "string \<Rightarrow> string option" where
  "message_match p =
     (if starts_with p ''/v1/chat/history/''
      then (case split_char (CHR ''/'') (drop 17 p) of [x, y] \<Rightarrow> if x \<noteq> [] \<and> y = ''messages'' then Some x else None | _ \<Rightarrow> None) else None)"

definition download_match :: "string \<Rightarrow> string option" where
  "download_match p =
     (if starts_with p ''/v1/chat/artifacts/''
      then (case split_char (CHR ''/'') (drop 19 p) of [x, y] \<Rightarrow> if x \<noteq> [] \<and> y = ''download'' then Some x else None | _ \<Rightarrow> None) else None)"

definition dynamic_route :: "string \<Rightarrow> string \<Rightarrow> bool" where
  "dynamic_route m p =
     (m \<in> {''GET'', ''PATCH'', ''DELETE''} \<and> history_match p \<noteq> None
      \<or> m = ''POST'' \<and> message_match p \<noteq> None
      \<or> m = ''GET'' \<and> download_match p \<noteq> None)"

definition isDemoRouteImplemented :: "bool \<Rightarrow> string \<Rightarrow> string \<Rightarrow> bool" where
  "isDemoRouteImplemented hostedAuthEnabled method pathname =
     (let m = to_upper method
      in hostedAuthEnabled \<and> (m, pathname) \<in> set HOSTED_AUTH_DEMO_ROUTES
         \<or> (m, pathname) \<in> set STATIC_DEMO_ROUTES \<or> dynamic_route m pathname)"

section \<open>Hosts and origins\<close>

definition hasUnsafeText :: "string \<Rightarrow> bool" where
  "hasUnsafeText v = (v = [] \<or> v \<noteq> trim v \<or> list_ex (\<lambda>c. is_control c \<or> c = CHR 0x5C) v)"

definition normalizeDemoHost :: "string \<Rightarrow> string http" where
  "normalizeDemoHost v =
     (if hasUnsafeText v then Inl (400, ''invalid_demo_host'')
      else let n = to_lower v
           in if n \<in> {''localhost'', ''127.0.0.1'', ''::1''} then Inr n else Inl (400, ''demo_host_must_be_loopback''))"

definition normalizeDemoPort :: "jsnum \<Rightarrow> nat http" where
  "normalizeDemoPort n =
     (case as_integer n of
        Some i \<Rightarrow> if 0 \<le> i \<and> i \<le> 65535 then Inr (nat i) else Inl (400, ''invalid_demo_port'')
      | None \<Rightarrow> Inl (400, ''invalid_demo_port''))"

definition normalizeLoopbackOrigin :: "runtime \<Rightarrow> string \<Rightarrow> string http" where
  "normalizeLoopbackOrigin rt v =
     (if hasUnsafeText v \<or> str_includes v ''%'' then Inl (400, ''invalid_demo_origin'')
      else case new_URL rt v of
        None \<Rightarrow> Inl (400, ''invalid_demo_origin'')
      | Some p \<Rightarrow>
          if url_protocol p \<notin> {''http:'', ''https:''} \<or> url_username p \<noteq> [] \<or> url_password p \<noteq> [] \<or> url_search p \<noteq> []
             \<or> url_hash p \<noteq> [] \<or> url_pathname p \<noteq> ''/'' \<or> to_lower (url_hostname p) \<notin> {''localhost'', ''127.0.0.1'', ''[::1]''}
          then Inl (400, ''invalid_demo_origin'')
          else Inr (url_origin p))"

fun normalizeAllowedOrigins :: "runtime \<Rightarrow> string list \<Rightarrow> string list http" where
  "normalizeAllowedOrigins rt [] = Inr []"
| "normalizeAllowedOrigins rt (v # vs) =
     bind_http (normalizeLoopbackOrigin rt v) (\<lambda>u. bind_http (normalizeAllowedOrigins rt vs) (\<lambda>us. Inr (u # us)))"

datatype origin_kind = NoOrigin | ElectronOrigin | BrowserOrigin string | DeniedOrigin

definition originPolicy :: "runtime \<Rightarrow> string option \<Rightarrow> string list \<Rightarrow> origin_kind" where
  "originPolicy rt raw allowed =
     (case raw of
        None \<Rightarrow> NoOrigin
      | Some v \<Rightarrow>
          if v = ''null'' then ElectronOrigin
          else case normalizeLoopbackOrigin rt v of
            Inl _ \<Rightarrow> DeniedOrigin
          | Inr u \<Rightarrow> if u \<in> set allowed then BrowserOrigin u else DeniedOrigin)"

fun origin_headers :: "origin_kind \<Rightarrow> headers" where
  "origin_headers ElectronOrigin = [(''Access-Control-Allow-Origin'', ''null''), (''Vary'', ''Origin'')]"
| "origin_headers (BrowserOrigin u) = [(''Access-Control-Allow-Origin'', u), (''Vary'', ''Origin'')]"
| "origin_headers _ = []"

definition baseHeaders :: "headers \<Rightarrow> headers \<Rightarrow> headers" where
  "baseHeaders cors extra =
     assign (assign [(''Cache-Control'', ''no-store''), (''Cross-Origin-Resource-Policy'', ''same-site''), (''X-Content-Type-Options'', ''nosniff'')] cors) extra"

section \<open>Requests\<close>

record demo_config =
  dc_runtime :: runtime
  dc_new_URL_base :: "string \<Rightarrow> string \<Rightarrow> url option"
  dc_sha256 :: "string \<Rightarrow> string"
  dc_token :: string
  dc_allowed :: "string list"
  dc_hosted :: bool

text \<open>Header names arrive in lower case.\<close>

record demo_request =
  rq_method :: string
  rq_url :: string
  rq_header :: "string \<rightharpoonup> string"

definition ALLOWED_REQUEST_HEADERS :: "string list" where
  "ALLOWED_REQUEST_HEADERS =
     [''accept'', ''authorization'', ''content-type'', ''x-awp-capabilities'', ''x-awp-client-version'', ''x-awp-demo-token'', ''x-csrf-token'']"

definition requestHasDemoToken :: "demo_config \<Rightarrow> demo_request \<Rightarrow> bool" where
  "requestHasDemoToken dc req =
     (case rq_header req ''x-awp-demo-token'' of
        None \<Rightarrow> False
      | Some v \<Rightarrow> length v \<le> 512 \<and> dc_sha256 dc v = dc_sha256 dc (dc_token dc))"

definition parseRequestUrl :: "demo_config \<Rightarrow> string \<Rightarrow> url http" where
  "parseRequestUrl dc raw =
     (if \<not> starts_with raw ''/'' \<or> starts_with raw ''//'' \<or> str_includes raw ''#'' \<or> list_ex (\<lambda>c. is_control c \<or> c = CHR 0x5C) raw
      then Inl (400, ''invalid_request_target'')
      else case dc_new_URL_base dc raw ''http://127.0.0.1'' of
        None \<Rightarrow> Inl (400, ''invalid_request_target'')
      | Some u \<Rightarrow> Inr u)"

definition header_text :: "demo_request \<Rightarrow> string \<Rightarrow> string" where
  "header_text req k = (case rq_header req k of Some v \<Rightarrow> v | None \<Rightarrow> [])"

definition requested_headers :: "string \<Rightarrow> string list" where
  "requested_headers v = filter (\<lambda>h. h \<noteq> []) (map (\<lambda>h. to_lower (trim h)) (split_char (CHR '','') v))"

definition preflightHeaders :: "demo_config \<Rightarrow> demo_request \<Rightarrow> string \<Rightarrow> headers http" where
  "preflightHeaders dc req p =
     (let ok = originPolicy (dc_runtime dc) (rq_header req ''origin'') (dc_allowed dc);
          method = to_upper (header_text req ''access-control-request-method'');
          names = requested_headers (header_text req ''access-control-request-headers'')
      in if ok = NoOrigin \<or> ok = DeniedOrigin then Inl (403, ''cors_origin_denied'')
         else if \<not> isDemoRouteImplemented (dc_hosted dc) method p then Inl (404, ''preflight_route_not_found'')
         else if list_ex (\<lambda>h. h \<notin> set ALLOWED_REQUEST_HEADERS) names then Inl (403, ''cors_header_denied'')
         else if p \<noteq> ''/health'' \<and> ''x-awp-demo-token'' \<notin> set names then Inl (403, ''demo_token_header_required'')
         else Inr (baseHeaders (origin_headers ok)
                [(''Access-Control-Allow-Methods'', method),
                 (''Access-Control-Allow-Headers'', concat (map (\<lambda>h. h @ '', '') (butlast names)) @ (if names = [] then [] else last names)),
                 (''Access-Control-Max-Age'', ''600'')]))"

text \<open>What a request meets before any handler runs.\<close>

datatype gate = Preflight headers | Refused nat headers | Dispatch url headers

definition demo_gate :: "demo_config \<Rightarrow> demo_request \<Rightarrow> gate http" where
  "demo_gate dc req =
     bind_http (parseRequestUrl dc (if rq_url req = [] then ''/'' else rq_url req)) (\<lambda>u.
       let p = url_pathname u; kind = originPolicy (dc_runtime dc) (rq_header req ''origin'') (dc_allowed dc); cors = origin_headers kind
       in if kind = DeniedOrigin then Inl (403, ''cors_origin_denied'')
          else if rq_method req = ''OPTIONS'' then bind_http (preflightHeaders dc req p) (\<lambda>h. Inr (Preflight h))
          else if \<not> isDemoRouteImplemented (dc_hosted dc) (rq_method req) p then Inr (Refused 404 cors)
          else if \<not> (rq_method req = ''GET'' \<and> p = ''/health'') \<and> \<not> requestHasDemoToken dc req then Inr (Refused 401 cors)
          else Inr (Dispatch u cors))"

section \<open>Access\<close>

text \<open>
  C30. No handler of the demo control plane runs for a stranger: a request is dispatched only
  on an implemented route, from no browser origin, from the application itself or from an
  origin on the allow list, and, except for the public health check, with a token of the
  right digest; account routes exist only after the opt-in.
\<close>

theorem demo_handlers_guarded:
  assumes "demo_gate dc req = Inr (Dispatch u cors)"
  shows "isDemoRouteImplemented (dc_hosted dc) (rq_method req) (url_pathname u)
    \<and> (\<forall>v. rq_header req ''origin'' = Some v \<longrightarrow> v = ''null'' \<or> (\<exists>o1. normalizeLoopbackOrigin (dc_runtime dc) v = Inr o1 \<and> o1 \<in> set (dc_allowed dc)))
    \<and> (url_pathname u = ''/health'' \<or>
        (\<exists>v. rq_header req ''x-awp-demo-token'' = Some v \<and> dc_sha256 dc v = dc_sha256 dc (dc_token dc)))
    \<and> (\<not> dc_hosted dc \<longrightarrow> (to_upper (rq_method req), url_pathname u) \<notin> set HOSTED_AUTH_DEMO_ROUTES)"
proof -
  from assms have d: "originPolicy (dc_runtime dc) (rq_header req ''origin'') (dc_allowed dc) \<noteq> DeniedOrigin"
      "isDemoRouteImplemented (dc_hosted dc) (rq_method req) (url_pathname u)"
      "rq_method req = ''GET'' \<and> url_pathname u = ''/health'' \<or> requestHasDemoToken dc req"
    by (auto simp: demo_gate_def bind_http_Inr Let_def split: if_splits)
  have "\<not> dc_hosted dc \<longrightarrow> (to_upper (rq_method req), url_pathname u) \<notin> set HOSTED_AUTH_DEMO_ROUTES"
    using d(2) by (auto simp: isDemoRouteImplemented_def HOSTED_AUTH_DEMO_ROUTES_def STATIC_DEMO_ROUTES_def dynamic_route_def
        history_match_def message_match_def download_match_def Let_def)
  moreover have "v = ''null'' \<or> (\<exists>o1. normalizeLoopbackOrigin (dc_runtime dc) v = Inr o1 \<and> o1 \<in> set (dc_allowed dc))"
    if "rq_header req ''origin'' = Some v" for v
    using d(1) that by (auto simp: originPolicy_def split: if_splits sum.splits)
  moreover have "url_pathname u = ''/health'' \<or> (\<exists>v. rq_header req ''x-awp-demo-token'' = Some v \<and> dc_sha256 dc v = dc_sha256 dc (dc_token dc))"
    using d(3) by (auto simp: requestHasDemoToken_def split: option.splits)
  ultimately show ?thesis using d(2) by blast
qed

section \<open>The client and the server agree on the paths\<close>

lemma dynamic_paths:
  "(\<exists>m. dynamic_route m p) \<longleftrightarrow> history_match p \<noteq> None \<or> message_match p \<noteq> None \<or> download_match p \<noteq> None"
  by (auto simp: dynamic_route_def)

text \<open>
  The client attaches the demo token exactly where the demo control plane asks for it: a
  path is a demo path of the client (\<open>src/api/demo-auth.ts\<close>) if and only if the server, with
  hosted accounts enabled, implements it for some method and it is not the public health check.
\<close>

theorem demo_paths_agree:
  "isDemoApiPath p \<longleftrightarrow> p \<noteq> ''/health'' \<and> (\<exists>m. isDemoRouteImplemented True m p)"
proof -
  have upper: "to_upper ''GET'' = ''GET''" "to_upper ''POST'' = ''POST''" "to_upper ''PATCH'' = ''PATCH''" "to_upper ''DELETE'' = ''DELETE''"
    by code_simp+
  have static: "(\<exists>m. (to_upper m, p) \<in> set (HOSTED_AUTH_DEMO_ROUTES @ STATIC_DEMO_ROUTES)) \<longleftrightarrow> p = ''/health'' \<or> p \<in> set STATIC_DEMO_PATHS"
  proof
    assume "p = ''/health'' \<or> p \<in> set STATIC_DEMO_PATHS"
    hence "\<exists>m \<in> {''GET'', ''POST''}. (m, p) \<in> set (HOSTED_AUTH_DEMO_ROUTES @ STATIC_DEMO_ROUTES)"
      by (auto simp: STATIC_DEMO_PATHS_def HOSTED_AUTH_DEMO_ROUTES_def STATIC_DEMO_ROUTES_def)
    with upper show "\<exists>m. (to_upper m, p) \<in> set (HOSTED_AUTH_DEMO_ROUTES @ STATIC_DEMO_ROUTES)" by (metis empty_iff insert_iff)
  qed (auto simp: STATIC_DEMO_PATHS_def HOSTED_AUTH_DEMO_ROUTES_def STATIC_DEMO_ROUTES_def)
  have dyn: "(\<exists>m. dynamic_route (to_upper m) p) \<longleftrightarrow> history_match p \<noteq> None \<or> message_match p \<noteq> None \<or> download_match p \<noteq> None"
    unfolding dynamic_route_def using upper by (metis insert_iff)
  have "isDemoApiPath p \<longleftrightarrow> p \<in> set STATIC_DEMO_PATHS \<or> history_match p \<noteq> None \<or> message_match p \<noteq> None \<or> download_match p \<noteq> None"
    unfolding isDemoApiPath_def history_match_def message_match_def download_match_def
    by (cases "split_char (CHR ''/'') (drop 17 p)" rule: remdups_adj.cases; cases "split_char (CHR ''/'') (drop 19 p)" rule: remdups_adj.cases)
       (auto split: list.splits)
  moreover have "(\<exists>m. isDemoRouteImplemented True m p) \<longleftrightarrow> (p = ''/health'' \<or> p \<in> set STATIC_DEMO_PATHS) \<or> (\<exists>m. dynamic_route (to_upper m) p)"
    using static by (auto simp: isDemoRouteImplemented_def Let_def)
  moreover have "history_match ''/health'' = None" "message_match ''/health'' = None" "download_match ''/health'' = None" "''/health'' \<notin> set STATIC_DEMO_PATHS"
    by code_simp+
  ultimately show ?thesis using dyn by metis
qed

section \<open>The client and the server disagree on the header names\<close>

text \<open>The names a browser lists in a preflight: all but those every request may carry.\<close>

definition preflight_names :: "headers \<Rightarrow> string list" where
  "preflight_names hs = map to_lower (filter (\<lambda>h. to_lower h \<notin> {''accept'', ''accept-language'', ''content-language''}) (map fst hs))"

definition preflight_of :: "headers \<Rightarrow> demo_request \<Rightarrow> bool" where
  "preflight_of hs req = (\<forall>h \<in> set (preflight_names hs). h \<in> set (requested_headers (header_text req ''access-control-request-headers'')))"

lemma assign_keys: "fst ` set (assign h extra) = fst ` set h \<union> fst ` set extra"
  unfolding assign_def
proof (induction extra arbitrary: h)
  case (Cons kv extra)
  show ?case using Cons.IH [of "set_entry (fst kv) (snd kv) h"] by (simp add: keys_set_entry case_prod_unfold)
qed simp

lemma common_version: "''X-AgentWorkflowPlatform-Client-Version'' \<in> fst ` set (buildCommonHeaders we tok)"
  by (auto simp: buildCommonHeaders_def keys_set_entry Let_def)

lemma demo_headers_keep:
  "k \<in> fst ` set hs \<Longrightarrow> to_lower k \<noteq> to_lower DEMO_TOKEN_HEADER \<Longrightarrow> k \<in> fst ` set (withDemoAuthHeaders rt we u hs)"
proof -
  let ?f = "filter (\<lambda>h. to_lower (fst h) \<noteq> to_lower DEMO_TOKEN_HEADER) hs"
  assume "k \<in> fst ` set hs" "to_lower k \<noteq> to_lower DEMO_TOKEN_HEADER"
  hence "k \<in> fst ` set ?f" by auto
  then show ?thesis by (auto simp: withDemoAuthHeaders_def Let_def keys_set_entry split: option.split)
qed

lemma version_lower:
  "to_lower ''X-AgentWorkflowPlatform-Client-Version'' = ''x-agentworkflowplatform-client-version''"
  "to_lower DEMO_TOKEN_HEADER = ''x-awp-demo-token''"
  by code_simp+

lemma built_version: "''X-AgentWorkflowPlatform-Client-Version'' \<in> fst ` set (buildHeaders ev c u extra)"
  unfolding buildHeaders_def
  by (intro demo_headers_keep) (use common_version version_lower in \<open>auto simp: assign_keys credential_headers_def keys_set_entry Let_def\<close>)

lemma built_sse_version: "''X-AgentWorkflowPlatform-Client-Version'' \<in> fst ` set (sse_headers rt we u tok)"
  unfolding sse_headers_def Let_def
  by (intro demo_headers_keep) (use common_version version_lower in \<open>auto simp: assign_keys keys_set_entry\<close>)


section \<open>Concrete requests\<close>

definition sample_target :: url where
  "sample_target = \<lparr>url_href = ''http://127.0.0.1/v1/chat/history'', url_protocol = ''http:'', url_username = [], url_password = [],
     url_hostname = ''127.0.0.1'', url_port = [], url_pathname = ''/v1/chat/history'', url_search = [], url_hash = [], url_origin = ''http://127.0.0.1''\<rparr>"

definition sample_demo :: demo_config where
  "sample_demo = \<lparr>dc_runtime = sse_sample_runtime, dc_new_URL_base = \<lambda>p b. if p = ''/v1/chat/history'' then Some sample_target else None,
     dc_sha256 = \<lambda>s. s, dc_token = ''secret'', dc_allowed = [], dc_hosted = False\<rparr>"

definition sample_demo_request :: demo_request where
  "sample_demo_request = \<lparr>rq_method = ''GET'', rq_url = ''/v1/chat/history'', rq_header = [''origin'' \<mapsto> ''null'', ''x-awp-demo-token'' \<mapsto> ''secret'']\<rparr>"

lemma sample_dispatched:
  "demo_gate sample_demo sample_demo_request = Inr (Dispatch sample_target (origin_headers ElectronOrigin))"
  by code_simp

theorem demo_handlers_guarded_witness:
  "\<exists>v. rq_header sample_demo_request ''x-awp-demo-token'' = Some v \<and> dc_sha256 sample_demo v = dc_sha256 sample_demo (dc_token sample_demo)"
  using demo_handlers_guarded [OF sample_dispatched] by (simp add: sample_target_def)

definition sample_preflight :: demo_request where
  "sample_preflight = \<lparr>rq_method = ''OPTIONS'', rq_url = ''/v1/activity/stream'',
     rq_header = [''origin'' \<mapsto> ''null'', ''access-control-request-method'' \<mapsto> ''GET'',
        ''access-control-request-headers'' \<mapsto> ''x-agentworkflowplatform-client-version, x-awp-demo-token'']\<rparr>"

lemma sample_preflight_of: "preflight_of (sse_headers sse_sample_runtime sse_sample_window ''https://s.test/'' []) sample_preflight"
  by code_simp


end
