(* ===== verification/DemoState.thy ===== *)
theory DemoState
  imports DemoServer JsonPretty
begin

text \<open>
  The state of the demo control plane: what a stored document must look like
  (\<open>validateState\<close>), the operations on conversations and messages, and the store that reads,
  changes and rewrites the state file.  The clock, fresh UUIDs, \<open>Date.parse\<close> and the printing
  of fractional numbers are the environment; the keys of an object keep their order.
\<close>

section \<open>Limits and vetting of values\<close>

definition lim_artifactBytes :: nat where "lim_artifactBytes = 8 * 1024 * 1024"
definition lim_artifacts :: nat where "lim_artifacts = 32"
definition lim_conversations :: nat where "lim_conversations = 32"
definition lim_messageBytes :: nat where "lim_messageBytes = 64 * 1024"
definition lim_messages :: nat where "lim_messages = 256"
definition lim_messagesPerConversation :: nat where "lim_messagesPerConversation = 64"
definition lim_stateBytes :: nat where "lim_stateBytes = 4 * 1024 * 1024"
definition lim_totalArtifactBytes :: nat where "lim_totalArtifactBytes = 32 * 1024 * 1024"

definition DEFAULT_MODEL :: string where "DEFAULT_MODEL = ''awp-demo''"

record demo_env =
  de_fmt :: "rat \<Rightarrow> string"
  de_date_ok :: "string \<Rightarrow> bool"
  de_now :: string
  de_uuid :: "nat \<Rightarrow> string"

definition RESERVED_IDS :: "string list" where
  "RESERVED_IDS = [''__proto__'', ''prototype'', ''constructor'']"

fun nodes :: "jsval \<Rightarrow> nat" where
  "nodes (Arr vs) = Suc (sum_list (map nodes vs))"
| "nodes (Obj kvs) = Suc (sum_list (map (\<lambda>kv. nodes (snd kv)) kvs))"
| "nodes v = 1"

fun keys_safe :: "nat \<Rightarrow> jsval \<Rightarrow> bool" where
  "keys_safe d (Arr vs) = (d \<le> 20 \<and> list_all (keys_safe (Suc d)) vs)"
| "keys_safe d (Obj kvs) = (d \<le> 20 \<and> list_all (\<lambda>kv. to_lower (fst kv) \<notin> set RESERVED_IDS \<and> keys_safe (Suc d) (snd kv)) kvs)"
| "keys_safe d v = (d \<le> 20)"

definition assertNoDangerousKeys :: "jsval \<Rightarrow> unit http" where
  "assertNoDangerousKeys v =
     (if nodes v \<le> 20000 \<and> keys_safe 0 v then Inr () else Inl (400, ''structure_limit''))"

definition id_char :: "char \<Rightarrow> bool" where
  "id_char c = (is_alnum c \<or> c = CHR ''_'' \<or> c = CHR ''-'')"

definition opaque_ok :: "string \<Rightarrow> bool" where
  "opaque_ok s = (s \<noteq> [] \<and> length s \<le> 128 \<and> is_alnum (hd s) \<and> list_all id_char s \<and> to_lower s \<notin> set RESERVED_IDS)"

definition validateOpaqueId :: "jsval \<Rightarrow> string http" where
  "validateOpaqueId v = (case v of Str s \<Rightarrow> if opaque_ok s then Inr s else Inl (400, ''invalid_identifier'') | _ \<Rightarrow> Inl (400, ''invalid_identifier''))"

definition optionalOpaqueId :: "demo_env \<Rightarrow> jsval \<Rightarrow> string option http" where
  "optionalOpaqueId en v =
     (if v = Undefined \<or> v = Null \<or> v = Str [] then Inr None
      else bind_http (validateOpaqueId (Str (js_text (de_fmt en) v))) (\<lambda>s. Inr (Some s)))"

definition decodeOpaqueSegment :: "string \<Rightarrow> string http" where
  "decodeOpaqueSegment s = (if str_includes s ''%'' then Inl (400, ''invalid_identifier'') else validateOpaqueId (Str s))"

definition text_ok :: "nat \<Rightarrow> bool \<Rightarrow> string \<Rightarrow> bool" where
  "text_ok maxBytes allowEmpty s = ((allowEmpty \<or> s \<noteq> []) \<and> byteLength s \<le> maxBytes)"

definition validateText :: "jsval \<Rightarrow> nat \<Rightarrow> nat \<Rightarrow> bool \<Rightarrow> string http" where
  "validateText v maxBytes status allowEmpty =
     (case v of Str s \<Rightarrow> if text_ok maxBytes allowEmpty s then Inr s else Inl (status, ''invalid_text'') | _ \<Rightarrow> Inl (status, ''invalid_text''))"

definition timestamp_ok :: "demo_env \<Rightarrow> string \<Rightarrow> bool" where
  "timestamp_ok en s = (text_ok 80 False s \<and> de_date_ok en s)"

definition validateTimestamp :: "demo_env \<Rightarrow> jsval \<Rightarrow> nat \<Rightarrow> string http" where
  "validateTimestamp en v status =
     bind_http (validateText v 80 status False) (\<lambda>s. if de_date_ok en s then Inr s else Inl (status, ''invalid_timestamp''))"

definition metadata_ok :: "jsval \<Rightarrow> bool" where
  "metadata_ok v = ((case v of Obj kvs \<Rightarrow> True | _ \<Rightarrow> False) \<and> byteLength (JSON_stringify v) \<le> 16 * 1024 \<and> nodes v \<le> 20000 \<and> keys_safe 0 v)"

text \<open>\<open>cloneMetadata\<close>: the copy through JSON of a value that came from JSON is the value.\<close>

definition cloneMetadata :: "jsval \<Rightarrow> nat \<Rightarrow> jsval option http" where
  "cloneMetadata v status =
     (if v = Undefined then Inr None else if metadata_ok v then Inr (Some v) else Inl (status, ''invalid_metadata''))"

definition allowed_keys :: "jsval \<Rightarrow> string list \<Rightarrow> bool" where
  "allowed_keys v ks = (case v of Obj kvs \<Rightarrow> list_all (\<lambda>kv. fst kv \<in> set ks) kvs | _ \<Rightarrow> False)"

definition assertAllowedKeys :: "jsval \<Rightarrow> string list \<Rightarrow> nat \<Rightarrow> unit http" where
  "assertAllowedKeys v ks status = (if allowed_keys v ks then Inr () else Inl (status, ''unknown_state_field''))"

section \<open>Messages\<close>

record message =
  ms_id :: string
  ms_role :: string
  ms_content :: string
  ms_created :: string
  ms_model :: "string option"
  ms_metadata :: "jsval option"

definition MESSAGE_KEYS :: "string list" where
  "MESSAGE_KEYS = [''id'', ''role'', ''content'', ''created_at'', ''model'', ''metadata'']"

definition roles :: "string list" where "roles = [''user'', ''assistant'', ''system'']"

definition message_model :: "demo_env \<Rightarrow> jsval \<Rightarrow> nat \<Rightarrow> string option http" where
  "message_model en v status =
     (if v = Undefined then Inr None
      else bind_http (validateText (Str (js_text (de_fmt en) v)) 128 status False) (\<lambda>s. Inr (Some s)))"

definition canonicalMessage :: "demo_env \<Rightarrow> jsval \<Rightarrow> nat \<Rightarrow> bool \<Rightarrow> string \<Rightarrow> message http" where
  "canonicalMessage en v status requireAllFields uuid =
     bind_http (assertAllowedKeys v MESSAGE_KEYS status) (\<lambda>_.
     bind_http (case field v ''role'' of Str r \<Rightarrow> if r \<in> set roles then Inr r else Inl (status, ''invalid_message_role'') | _ \<Rightarrow> Inl (status, ''invalid_message_role'')) (\<lambda>role.
     bind_http (if field v ''id'' = Undefined \<and> \<not> requireAllFields then Inr uuid else validateOpaqueId (field v ''id'')) (\<lambda>i.
     bind_http (validateText (field v ''content'') lim_messageBytes status True) (\<lambda>content.
     bind_http (if field v ''created_at'' = Undefined \<and> \<not> requireAllFields then Inr (de_now en) else validateTimestamp en (field v ''created_at'') status) (\<lambda>created.
     bind_http (message_model en (field v ''model'') status) (\<lambda>model.
     bind_http (cloneMetadata (field v ''metadata'') status) (\<lambda>meta.
       Inr \<lparr>ms_id = i, ms_role = role, ms_content = content, ms_created = created, ms_model = model, ms_metadata = meta\<rparr>)))))))"

definition message_ok :: "demo_env \<Rightarrow> message \<Rightarrow> bool" where
  "message_ok en m =
     (ms_role m \<in> set roles \<and> opaque_ok (ms_id m) \<and> text_ok lim_messageBytes True (ms_content m) \<and> timestamp_ok en (ms_created m)
      \<and> (\<forall>s. ms_model m = Some s \<longrightarrow> text_ok 128 False s) \<and> (\<forall>v. ms_metadata m = Some v \<longrightarrow> metadata_ok v))"

definition optional_member :: "string \<Rightarrow> jsval option \<Rightarrow> (string \<times> jsval) list" where
  "optional_member k v = (case v of Some x \<Rightarrow> [(k, x)] | None \<Rightarrow> [])"

definition message_json :: "message \<Rightarrow> jsval" where
  "message_json m =
     Obj ([(''id'', Str (ms_id m)), (''role'', Str (ms_role m)), (''content'', Str (ms_content m)), (''created_at'', Str (ms_created m))]
          @ optional_member ''model'' (map_option Str (ms_model m)) @ optional_member ''metadata'' (ms_metadata m))"

lemma message_fields:
  "field (message_json m) ''id'' = Str (ms_id m)" "field (message_json m) ''role'' = Str (ms_role m)"
  "field (message_json m) ''content'' = Str (ms_content m)" "field (message_json m) ''created_at'' = Str (ms_created m)"
  "field (message_json m) ''model'' = (case ms_model m of Some s \<Rightarrow> Str s | None \<Rightarrow> Undefined)"
  "field (message_json m) ''metadata'' = (case ms_metadata m of Some v \<Rightarrow> v | None \<Rightarrow> Undefined)"
  by (simp_all add: message_json_def optional_member_def split: option.split)

lemma message_keys: "allowed_keys (message_json m) MESSAGE_KEYS"
  by (simp add: message_json_def allowed_keys_def MESSAGE_KEYS_def optional_member_def split: option.split)

lemma metadata_defined: "metadata_ok v \<Longrightarrow> v \<noteq> Undefined"
  by (auto simp: metadata_ok_def)

lemma canonicalMessage_json:
  assumes "message_ok en m"
  shows "canonicalMessage en (message_json m) status True uuid = Inr m"
proof -
  have "message_model en (field (message_json m) ''model'') status = Inr (ms_model m)"
    using assms by (auto simp: message_fields message_model_def validateText_def message_ok_def split: option.split)
  moreover have "cloneMetadata (field (message_json m) ''metadata'') status = Inr (ms_metadata m)"
    using assms by (auto simp: message_fields cloneMetadata_def message_ok_def dest: metadata_defined split: option.split)
  ultimately show ?thesis using assms
    by (simp add: canonicalMessage_def assertAllowedKeys_def message_keys message_fields(1-4) validateOpaqueId_def validateText_def
          validateTimestamp_def timestamp_ok_def message_ok_def)
qed

lemma validateOpaqueId_Inr: "validateOpaqueId v = Inr s \<longleftrightarrow> v = Str s \<and> opaque_ok s"
  by (cases v) (auto simp: validateOpaqueId_def)

lemma validateText_Inr: "validateText v n status e = Inr s \<longleftrightarrow> v = Str s \<and> text_ok n e s"
  by (cases v) (auto simp: validateText_def)

lemma validateTimestamp_Inr: "validateTimestamp en v status = Inr s \<longleftrightarrow> v = Str s \<and> timestamp_ok en s"
  by (auto simp: validateTimestamp_def bind_http_Inr validateText_Inr timestamp_ok_def)

lemma message_model_Inr: "message_model en v status = Inr x \<Longrightarrow> (\<forall>s. x = Some s \<longrightarrow> text_ok 128 False s)"
  by (auto simp: message_model_def bind_http_Inr validateText_Inr split: if_splits)

lemma cloneMetadata_Inr: "cloneMetadata v status = Inr x \<Longrightarrow> (\<forall>m. x = Some m \<longrightarrow> metadata_ok m)"
  by (auto simp: cloneMetadata_def split: if_splits)

lemma role_Inr:
  "(case v of Str r \<Rightarrow> if r \<in> set roles then Inr r else Inl e | _ \<Rightarrow> Inl e) = Inr x \<longleftrightarrow> v = Str x \<and> x \<in> set roles"
  by (cases v) auto

lemmas validators_Inr = bind_http_Inr validateOpaqueId_Inr validateText_Inr validateTimestamp_Inr role_Inr

lemma canonicalMessage_parts:
  assumes "canonicalMessage en v status req uuid = Inr m"
  shows "ms_role m \<in> set roles" "opaque_ok (ms_id m) \<or> (ms_id m = uuid \<and> \<not> req)" "text_ok lim_messageBytes True (ms_content m)"
    "timestamp_ok en (ms_created m) \<or> (ms_created m = de_now en \<and> \<not> req)"
    "\<forall>s. ms_model m = Some s \<longrightarrow> text_ok 128 False s" "\<forall>x. ms_metadata m = Some x \<longrightarrow> metadata_ok x"
  using assms unfolding canonicalMessage_def validators_Inr
  by (auto simp: validators_Inr dest: message_model_Inr cloneMetadata_Inr split: if_splits)

lemma canonicalMessage_ok:
  assumes "canonicalMessage en v status req uuid = Inr m" "opaque_ok uuid" "timestamp_ok en (de_now en)"
  shows "message_ok en m"
  using canonicalMessage_parts [OF assms(1)] assms(2,3) by (auto simp: message_ok_def)

lemma canonicalMessage_strict: "canonicalMessage en v status True uuid = Inr m \<Longrightarrow> message_ok en m"
  using canonicalMessage_parts [of en v status True uuid m] by (auto simp: message_ok_def)

section \<open>Conversations and artifacts\<close>

record conversation =
  cv_id :: string
  cv_title :: string
  cv_created :: string
  cv_updated :: string
  cv_model :: string
  cv_session :: string
  cv_messages :: "message list"

record artifact =
  ar_id :: string
  ar_filename :: string
  ar_size :: nat
  ar_type :: string
  ar_created :: string
  ar_conversation :: "string option"
  ar_sha256 :: jsval

record demo_state =
  ds_conversations :: "(string \<times> conversation) list"
  ds_artifacts :: "(string \<times> artifact) list"

definition emptyState :: demo_state where
  "emptyState = \<lparr>ds_conversations = [], ds_artifacts = []\<rparr>"

definition CONVERSATION_KEYS :: "string list" where
  "CONVERSATION_KEYS = [''conversation_id'', ''title'', ''created_at'', ''updated_at'', ''model'', ''cc_session_id'', ''messages'']"

definition ARTIFACT_KEYS :: "string list" where
  "ARTIFACT_KEYS = [''id'', ''filename'', ''size_bytes'', ''content_type'', ''created_at'', ''conversation_id'', ''sha256'', ''storage_name'']"

definition STATE_KEYS :: "string list" where "STATE_KEYS = [''version'', ''conversations'', ''artifacts'']"

fun all_http :: "('a \<Rightarrow> 'b http) \<Rightarrow> 'a list \<Rightarrow> 'b list http" where
  "all_http f [] = Inr []"
| "all_http f (x # xs) = bind_http (f x) (\<lambda>y. bind_http (all_http f xs) (\<lambda>ys. Inr (y # ys)))"

definition validateConversation :: "demo_env \<Rightarrow> nat \<Rightarrow> nat \<Rightarrow> string \<times> jsval \<Rightarrow> conversation http" where
  "validateConversation en status tot kv =
     bind_http (validateOpaqueId (Str (fst kv))) (\<lambda>i.
     bind_http (assertAllowedKeys (snd kv) CONVERSATION_KEYS status) (\<lambda>_.
       let v = snd kv
       in case field v ''messages'' of
            Arr raws \<Rightarrow>
              if field v ''conversation_id'' \<noteq> Str i then Inl (status, ''invalid_conversation'')
              else if length raws > lim_messagesPerConversation then Inl (status, ''conversation_message_limit'')
              else if tot + length raws > lim_messages then Inl (status, ''message_count_limit'')
              else
                bind_http (all_http (\<lambda>m. canonicalMessage en m status True []) raws) (\<lambda>ms.
                bind_http (validateText (field v ''title'') 512 status False) (\<lambda>title.
                bind_http (validateTimestamp en (field v ''created_at'') status) (\<lambda>created.
                bind_http (validateTimestamp en (field v ''updated_at'') status) (\<lambda>updated.
                bind_http (validateText (field v ''model'') 128 status False) (\<lambda>model.
                bind_http (validateOpaqueId (field v ''cc_session_id'')) (\<lambda>session.
                  Inr \<lparr>cv_id = i, cv_title = title, cv_created = created, cv_updated = updated, cv_model = model,
                        cv_session = session, cv_messages = ms\<rparr>))))))
          | _ \<Rightarrow> Inl (status, ''invalid_conversation'')))"

fun validateConversations :: "demo_env \<Rightarrow> nat \<Rightarrow> nat \<Rightarrow> (string \<times> jsval) list \<Rightarrow> (string \<times> conversation) list http" where
  "validateConversations en status tot [] = Inr []"
| "validateConversations en status tot (kv # kvs) =
     bind_http (validateConversation en status tot kv) (\<lambda>c.
     bind_http (validateConversations en status (tot + length (cv_messages c)) kvs) (\<lambda>cs. Inr ((cv_id c, c) # cs)))"

definition uuid_ok :: "string \<Rightarrow> bool" where
  "uuid_ok s =
     (case split_char (CHR ''-'') s of
        [a, b, c, d, e] \<Rightarrow>
          list_all (list_all is_hex) [a, b, c, d, e] \<and> map length [a, b, c, d, e] = [8, 4, 4, 4, 12] \<and> hd c = CHR ''4''
          \<and> to_lower [hd d] \<in> {''8'', ''9'', ''a'', ''b''}
      | _ \<Rightarrow> False)"

text \<open>Letters and digits of \<open>\\p{L}\<close> and \<open>\\p{N}\<close> in Latin-1, and the punctuation a file name may have.\<close>

definition filename_char :: "char \<Rightarrow> bool" where
  "filename_char c =
     (is_alnum c \<or> c \<in> set '' ._()+-[]'' \<or> code c \<in> {170, 178, 179, 181, 185, 186, 188, 189, 190}
      \<or> 192 \<le> code c \<and> code c \<noteq> 215 \<and> code c \<noteq> 247)"

definition device_name :: "string \<Rightarrow> bool" where
  "device_name s =
     (s \<in> {''CON'', ''PRN'', ''AUX'', ''NUL''}
      \<or> length s = 4 \<and> take 3 s \<in> {''COM'', ''LPT''} \<and> is_digit (last s) \<and> last s \<noteq> CHR ''0'')"

definition filename_ok :: "string \<Rightarrow> bool" where
  "filename_ok f =
     (f \<noteq> [] \<and> length f \<le> 128 \<and> byteLength f \<le> 255 \<and> hd f \<notin> {CHR '' '', CHR ''.''} \<and> last f \<notin> {CHR '' '', CHR ''.''}
      \<and> list_all filename_char f \<and> \<not> device_name (to_upper (hd (split_char (CHR ''.'') f))))"

definition string_or_blank :: "demo_env \<Rightarrow> jsval \<Rightarrow> string" where
  "string_or_blank en v = (if truthy v then js_text (de_fmt en) v else [])"

definition validateUploadFilename :: "string \<Rightarrow> string http" where
  "validateUploadFilename f = (if filename_ok f then Inr f else Inl (400, ''invalid_filename''))"

definition type_char :: "char \<Rightarrow> bool" where
  "type_char c = (is_alnum c \<or> c \<in> set ''!#$&^_.+-'')"

definition type_ok :: "string \<Rightarrow> bool" where
  "type_ok s =
     (case split_char (CHR ''/'') s of
        [a, b] \<Rightarrow> a \<noteq> [] \<and> b \<noteq> [] \<and> is_alnum (hd a) \<and> is_alnum (hd b) \<and> list_all type_char (a @ b)
      | _ \<Rightarrow> False)"

definition normalizeContentType :: "string \<Rightarrow> string" where
  "normalizeContentType s = (if type_ok s then s else ''application/octet-stream'')"

definition digest_ok :: "string \<Rightarrow> bool" where
  "digest_ok s = (length s = 64 \<and> list_all is_hex_lower s)"

definition stored_size :: "demo_env \<Rightarrow> jsval \<Rightarrow> nat option" where
  "stored_size en v =
     (let n = js_number (de_fmt en) v
      in if is_safe_integer n
         then (case as_integer n of Some i \<Rightarrow> if 0 \<le> i \<and> i \<le> int lim_artifactBytes then Some (nat i) else None | None \<Rightarrow> None)
         else None)"

text \<open>The pattern of the digest is tested on its text, whatever value it is.\<close>

definition validateArtifact :: "demo_env \<Rightarrow> nat \<Rightarrow> nat \<Rightarrow> string \<times> jsval \<Rightarrow> artifact http" where
  "validateArtifact en status tot kv =
     bind_http (validateOpaqueId (Str (fst kv))) (\<lambda>i.
     bind_http (assertAllowedKeys (snd kv) ARTIFACT_KEYS status) (\<lambda>_.
       let v = snd kv
       in if field v ''id'' \<noteq> Str i \<or> \<not> uuid_ok i \<or> field v ''storage_name'' \<noteq> Str (i @ ''.bin'') then Inl (status, ''invalid_artifact_identity'')
          else case stored_size en (field v ''size_bytes'') of
            None \<Rightarrow> Inl (status, ''invalid_artifact_size'')
          | Some sz \<Rightarrow>
              if tot + sz > lim_totalArtifactBytes then Inl (status, ''artifact_bytes_limit'')
              else if \<not> digest_ok (js_text (de_fmt en) (field v ''sha256'')) then Inl (status, ''invalid_artifact_hash'')
              else
                bind_http (validateUploadFilename (string_or_blank en (field v ''filename''))) (\<lambda>name.
                bind_http (validateTimestamp en (field v ''created_at'') status) (\<lambda>created.
                bind_http (if truthy (field v ''conversation_id'') then bind_http (validateOpaqueId (field v ''conversation_id'')) (\<lambda>c. Inr (Some c)) else Inr None) (\<lambda>conv.
                  Inr \<lparr>ar_id = i, ar_filename = name, ar_size = sz, ar_type = normalizeContentType (string_or_blank en (field v ''content_type'')),
                        ar_created = created, ar_conversation = conv, ar_sha256 = field v ''sha256''\<rparr>)))))"

fun validateArtifacts :: "demo_env \<Rightarrow> nat \<Rightarrow> nat \<Rightarrow> (string \<times> jsval) list \<Rightarrow> (string \<times> artifact) list http" where
  "validateArtifacts en status tot [] = Inr []"
| "validateArtifacts en status tot (kv # kvs) =
     bind_http (validateArtifact en status tot kv) (\<lambda>a.
     bind_http (validateArtifacts en status (tot + ar_size a) kvs) (\<lambda>as. Inr ((ar_id a, a) # as)))"

definition conversation_json :: "conversation \<Rightarrow> jsval" where
  "conversation_json c =
     Obj [(''conversation_id'', Str (cv_id c)), (''title'', Str (cv_title c)), (''created_at'', Str (cv_created c)), (''updated_at'', Str (cv_updated c)),
          (''model'', Str (cv_model c)), (''cc_session_id'', Str (cv_session c)), (''messages'', Arr (map message_json (cv_messages c)))]"

definition artifact_json :: "artifact \<Rightarrow> jsval" where
  "artifact_json a =
     Obj ([(''id'', Str (ar_id a)), (''filename'', Str (ar_filename a)), (''size_bytes'', Num (Fin (of_nat (ar_size a)))),
           (''content_type'', Str (ar_type a)), (''created_at'', Str (ar_created a))]
          @ optional_member ''conversation_id'' (map_option Str (ar_conversation a))
          @ [(''sha256'', ar_sha256 a), (''storage_name'', Str (ar_id a @ ''.bin''))])"

definition state_json :: "demo_state \<Rightarrow> jsval" where
  "state_json s =
     Obj [(''version'', Num (Fin 1)), (''conversations'', Obj (map (\<lambda>kc. (fst kc, conversation_json (snd kc))) (ds_conversations s))),
          (''artifacts'', Obj (map (\<lambda>ka. (fst ka, artifact_json (snd ka))) (ds_artifacts s)))]"

definition validateState :: "demo_env \<Rightarrow> jsval \<Rightarrow> nat \<Rightarrow> demo_state http" where
  "validateState en raw status =
     (if assertNoDangerousKeys raw \<noteq> Inr () then Inl (status, ''invalid_state_keys'')
      else bind_http (assertAllowedKeys raw STATE_KEYS status) (\<lambda>_.
        case (field raw ''conversations'', field raw ''artifacts'') of
          (Obj convs, Obj arts) \<Rightarrow>
            if field raw ''version'' \<noteq> Num (Fin 1) then Inl (status, ''invalid_state_shape'')
            else if length convs > lim_conversations then Inl (status, ''conversation_limit'')
            else if length arts > lim_artifacts then Inl (status, ''artifact_count_limit'')
            else
              bind_http (validateConversations en status 0 convs) (\<lambda>cs.
              bind_http (validateArtifacts en status 0 arts) (\<lambda>as.
                let s = \<lparr>ds_conversations = cs, ds_artifacts = as\<rparr>
                in if byteLength (JSON_stringify (state_json s)) > lim_stateBytes then Inl (status, ''state_size_limit'') else Inr s))
        | _ \<Rightarrow> Inl (status, ''invalid_state_shape'')))"

section \<open>What a valid state is\<close>

definition conversation_ok :: "demo_env \<Rightarrow> conversation \<Rightarrow> bool" where
  "conversation_ok en c =
     (opaque_ok (cv_id c) \<and> text_ok 512 False (cv_title c) \<and> timestamp_ok en (cv_created c) \<and> timestamp_ok en (cv_updated c)
      \<and> text_ok 128 False (cv_model c) \<and> opaque_ok (cv_session c) \<and> length (cv_messages c) \<le> lim_messagesPerConversation
      \<and> list_all (message_ok en) (cv_messages c))"

definition artifact_ok :: "demo_env \<Rightarrow> artifact \<Rightarrow> bool" where
  "artifact_ok en a =
     (opaque_ok (ar_id a) \<and> uuid_ok (ar_id a) \<and> filename_ok (ar_filename a) \<and> ar_size a \<le> lim_artifactBytes \<and> type_ok (ar_type a)
      \<and> timestamp_ok en (ar_created a) \<and> (\<forall>c. ar_conversation a = Some c \<longrightarrow> opaque_ok c) \<and> digest_ok (js_text (de_fmt en) (ar_sha256 a)))"

definition within_limits :: "demo_env \<Rightarrow> demo_state \<Rightarrow> bool" where
  "within_limits en s =
     (length (ds_conversations s) \<le> lim_conversations \<and> length (ds_artifacts s) \<le> lim_artifacts
      \<and> list_all (\<lambda>kc. fst kc = cv_id (snd kc) \<and> conversation_ok en (snd kc)) (ds_conversations s)
      \<and> sum_list (map (\<lambda>kc. length (cv_messages (snd kc))) (ds_conversations s)) \<le> lim_messages
      \<and> list_all (\<lambda>ka. fst ka = ar_id (snd ka) \<and> artifact_ok en (snd ka)) (ds_artifacts s)
      \<and> sum_list (map (\<lambda>ka. ar_size (snd ka)) (ds_artifacts s)) \<le> lim_totalArtifactBytes
      \<and> byteLength (JSON_stringify (state_json s)) \<le> lim_stateBytes)"

definition plain_document :: "jsval \<Rightarrow> bool" where
  "plain_document v = (nodes v \<le> 20000 \<and> keys_safe 0 v)"

lemma all_http_map: "(\<And>x. x \<in> set xs \<Longrightarrow> f (g x) = Inr x) \<Longrightarrow> all_http f (map g xs) = Inr xs"
  by (induction xs) auto

lemma all_http_ok: "all_http f xs = Inr ys \<Longrightarrow> (\<And>x y. f x = Inr y \<Longrightarrow> P y) \<Longrightarrow> list_all P ys"
  by (induction xs arbitrary: ys) (auto simp: bind_http_Inr)

lemma all_http_length: "all_http f xs = Inr ys \<Longrightarrow> length ys = length xs"
  by (induction xs arbitrary: ys) (auto simp: bind_http_Inr)

lemma conversation_fields:
  "field (conversation_json c) ''messages'' = Arr (map message_json (cv_messages c))" "field (conversation_json c) ''conversation_id'' = Str (cv_id c)"
  "field (conversation_json c) ''title'' = Str (cv_title c)" "field (conversation_json c) ''created_at'' = Str (cv_created c)"
  "field (conversation_json c) ''updated_at'' = Str (cv_updated c)" "field (conversation_json c) ''model'' = Str (cv_model c)"
  "field (conversation_json c) ''cc_session_id'' = Str (cv_session c)" "allowed_keys (conversation_json c) CONVERSATION_KEYS"
  by (simp_all add: conversation_json_def allowed_keys_def CONVERSATION_KEYS_def)

lemma validateConversation_json:
  assumes "conversation_ok en c" "tot + length (cv_messages c) \<le> lim_messages"
  shows "validateConversation en status tot (cv_id c, conversation_json c) = Inr c"
proof -
  have "all_http (\<lambda>m. canonicalMessage en m status True []) (map message_json (cv_messages c)) = Inr (cv_messages c)"
    using assms(1) by (intro all_http_map canonicalMessage_json) (auto simp: conversation_ok_def list_all_iff)
  with assms show ?thesis
    by (simp add: validateConversation_def assertAllowedKeys_def conversation_fields validateOpaqueId_def validateText_def validateTimestamp_def
          timestamp_ok_def conversation_ok_def Let_def)
qed

lemma validateConversations_json:
  assumes "list_all (\<lambda>kc. fst kc = cv_id (snd kc) \<and> conversation_ok en (snd kc)) cs"
    and "tot + sum_list (map (\<lambda>kc. length (cv_messages (snd kc))) cs) \<le> lim_messages"
  shows "validateConversations en status tot (map (\<lambda>kc. (fst kc, conversation_json (snd kc))) cs) = Inr cs"
  using assms
proof (induction cs arbitrary: tot)
  case (Cons kc cs)
  obtain k c where kc: "kc = (k, c)" by fastforce
  with Cons show ?case by (simp add: validateConversation_json)
qed simp

lemma validateConversation_ok:
  assumes "validateConversation en status tot kv = Inr c"
  shows "fst kv = cv_id c \<and> conversation_ok en c \<and> tot + length (cv_messages c) \<le> lim_messages"
proof (cases "field (snd kv) ''messages''")
  case (Arr raws)
  with assms obtain ms where ms: "all_http (\<lambda>m. canonicalMessage en m status True []) raws = Inr ms"
    by (auto simp: validateConversation_def validators_Inr Let_def split: if_splits)
  have "list_all (message_ok en) ms" by (rule all_http_ok [OF ms]) (rule canonicalMessage_strict)
  with assms Arr ms all_http_length [OF ms] show ?thesis
    by (auto simp: validateConversation_def validators_Inr Let_def conversation_ok_def split: if_splits)
qed (use assms in \<open>simp_all add: validateConversation_def bind_http_Inr Let_def\<close>)

lemma validateConversations_ok:
  assumes "validateConversations en status tot kvs = Inr cs"
  shows "length cs = length kvs \<and> list_all (\<lambda>kc. fst kc = cv_id (snd kc) \<and> conversation_ok en (snd kc)) cs
    \<and> (cs = [] \<or> tot + sum_list (map (\<lambda>kc. length (cv_messages (snd kc))) cs) \<le> lim_messages)"
  using assms
proof (induction kvs arbitrary: tot cs)
  case (Cons kv kvs)
  then obtain c cs' where c: "validateConversation en status tot kv = Inr c" "cs = (cv_id c, c) # cs'"
      and rest: "validateConversations en status (tot + length (cv_messages c)) kvs = Inr cs'"
    by (auto simp: bind_http_Inr)
  from Cons.IH [OF rest] validateConversation_ok [OF c(1)] c(2) show ?case by (cases cs') auto
qed simp

lemma artifact_fields:
  "field (artifact_json a) ''id'' = Str (ar_id a)" "field (artifact_json a) ''filename'' = Str (ar_filename a)"
  "field (artifact_json a) ''size_bytes'' = Num (Fin (of_nat (ar_size a)))" "field (artifact_json a) ''content_type'' = Str (ar_type a)"
  "field (artifact_json a) ''created_at'' = Str (ar_created a)" "field (artifact_json a) ''sha256'' = ar_sha256 a"
  "field (artifact_json a) ''storage_name'' = Str (ar_id a @ ''.bin'')"
  "field (artifact_json a) ''conversation_id'' = (case ar_conversation a of Some c \<Rightarrow> Str c | None \<Rightarrow> Undefined)"
  "allowed_keys (artifact_json a) ARTIFACT_KEYS"
  by (simp_all add: artifact_json_def optional_member_def allowed_keys_def ARTIFACT_KEYS_def split: option.split)

lemma stored_size_nat: "n \<le> lim_artifactBytes \<Longrightarrow> stored_size en (Num (Fin (of_nat n))) = Some n"
  by (simp add: stored_size_def is_safe_integer_def lim_artifactBytes_def)

lemma stored_size_bound: "stored_size en v = Some n \<Longrightarrow> n \<le> lim_artifactBytes"
  by (auto simp: stored_size_def Let_def split: if_splits option.splits)

lemma type_ok_normalize: "type_ok (normalizeContentType s)"
proof -
  have "type_ok ''application/octet-stream''" by code_simp
  then show ?thesis by (simp add: normalizeContentType_def)
qed

lemma truthy_Str_ne: "s \<noteq> [] \<Longrightarrow> truthy (Str s)"
  by (cases s) auto

lemma type_ok_ne: "type_ok s \<Longrightarrow> s \<noteq> []" and filename_ok_ne: "filename_ok s \<Longrightarrow> s \<noteq> []" and opaque_ok_ne: "opaque_ok s \<Longrightarrow> s \<noteq> []"
  by (auto simp: type_ok_def filename_ok_def opaque_ok_def)

lemma validateArtifact_json:
  assumes "artifact_ok en a" "tot + ar_size a \<le> lim_totalArtifactBytes"
  shows "validateArtifact en status tot (ar_id a, artifact_json a) = Inr a"
proof -
  have conv: "(if truthy (field (artifact_json a) ''conversation_id'')
      then bind_http (validateOpaqueId (field (artifact_json a) ''conversation_id'')) (\<lambda>c. Inr (Some c)) else Inr None) = Inr (ar_conversation a)"
    using assms(1) by (auto simp: artifact_fields(8) artifact_ok_def validateOpaqueId_def truthy_Str_ne opaque_ok_ne split: option.split)
  from assms show ?thesis
    by (simp add: validateArtifact_def conv assertAllowedKeys_def artifact_fields(1-7,9) validateOpaqueId_def validateText_def validateTimestamp_def
          timestamp_ok_def artifact_ok_def stored_size_nat validateUploadFilename_def string_or_blank_def truthy_Str_ne
          type_ok_ne filename_ok_ne normalizeContentType_def Let_def)
qed

lemma validateArtifact_ok:
  assumes "validateArtifact en status tot kv = Inr a"
  shows "fst kv = ar_id a \<and> artifact_ok en a \<and> tot + ar_size a \<le> lim_totalArtifactBytes"
  using assms
  by (auto simp: validateArtifact_def validators_Inr Let_def artifact_ok_def validateUploadFilename_def type_ok_normalize
      dest: stored_size_bound split: if_splits option.splits)

lemma validateArtifacts_json:
  assumes "list_all (\<lambda>ka. fst ka = ar_id (snd ka) \<and> artifact_ok en (snd ka)) as"
    and "tot + sum_list (map (\<lambda>ka. ar_size (snd ka)) as) \<le> lim_totalArtifactBytes"
  shows "validateArtifacts en status tot (map (\<lambda>ka. (fst ka, artifact_json (snd ka))) as) = Inr as"
  using assms
proof (induction as arbitrary: tot)
  case (Cons ka as)
  obtain k a where ka: "ka = (k, a)" by fastforce
  with Cons show ?case by (simp add: validateArtifact_json)
qed simp

lemma validateArtifacts_ok:
  assumes "validateArtifacts en status tot kvs = Inr as"
  shows "length as = length kvs \<and> list_all (\<lambda>ka. fst ka = ar_id (snd ka) \<and> artifact_ok en (snd ka)) as
    \<and> (as = [] \<or> tot + sum_list (map (\<lambda>ka. ar_size (snd ka)) as) \<le> lim_totalArtifactBytes)"
  using assms
proof (induction kvs arbitrary: tot as)
  case (Cons kv kvs)
  then obtain a as' where a: "validateArtifact en status tot kv = Inr a" "as = (ar_id a, a) # as'"
      and rest: "validateArtifacts en status (tot + ar_size a) kvs = Inr as'"
    by (auto simp: bind_http_Inr)
  from Cons.IH [OF rest] validateArtifact_ok [OF a(1)] a(2) show ?case by (cases as') auto
qed simp

lemma state_fields:
  "field (state_json s) ''conversations'' = Obj (map (\<lambda>kc. (fst kc, conversation_json (snd kc))) (ds_conversations s))"
  "field (state_json s) ''artifacts'' = Obj (map (\<lambda>ka. (fst ka, artifact_json (snd ka))) (ds_artifacts s))"
  "field (state_json s) ''version'' = Num (Fin 1)" "allowed_keys (state_json s) STATE_KEYS"
  by (simp_all add: state_json_def allowed_keys_def STATE_KEYS_def)

lemma demo_state_eta: "\<lparr>ds_conversations = ds_conversations s, ds_artifacts = ds_artifacts s\<rparr> = s"
  by (cases s) simp

lemma validateState_complete:
  assumes "within_limits en s" "plain_document (state_json s)"
  shows "validateState en (state_json s) status = Inr s"
proof -
  have "validateConversations en status 0 (map (\<lambda>kc. (fst kc, conversation_json (snd kc))) (ds_conversations s)) = Inr (ds_conversations s)"
    using assms(1) by (intro validateConversations_json) (simp_all add: within_limits_def)
  moreover have "validateArtifacts en status 0 (map (\<lambda>ka. (fst ka, artifact_json (snd ka))) (ds_artifacts s)) = Inr (ds_artifacts s)"
    using assms(1) by (intro validateArtifacts_json) (simp_all add: within_limits_def)
  ultimately show ?thesis using assms
    by (simp add: demo_state_eta validateState_def assertNoDangerousKeys_def assertAllowedKeys_def state_fields within_limits_def plain_document_def Let_def)
qed

lemma validateState_sound:
  assumes "validateState en raw status = Inr s"
  shows "within_limits en s \<and> plain_document raw"
proof -
  from assms obtain convs arts where o: "field raw ''conversations'' = Obj convs" "field raw ''artifacts'' = Obj arts"
    by (cases "field raw ''conversations''"; cases "field raw ''artifacts''")
       (auto simp: validateState_def bind_http_Inr split: if_splits)
  with assms obtain cs as where v: "validateConversations en status 0 convs = Inr cs" "validateArtifacts en status 0 arts = Inr as"
      "s = \<lparr>ds_conversations = cs, ds_artifacts = as\<rparr>"
    by (auto simp: validateState_def bind_http_Inr Let_def split: if_splits)
  from validateConversations_ok [OF v(1)] validateArtifacts_ok [OF v(2)] assms o v show ?thesis
    by (auto simp: validateState_def bind_http_Inr Let_def within_limits_def plain_document_def assertNoDangerousKeys_def split: if_splits)
qed

end
