(* ===== verification/DemoStore.thy ===== *)
theory DemoStore
  imports DemoState "HOL-Library.AList"
begin

text \<open>
  The operations of the demo control plane on its state, the store that serialises them
  over the state file, the handlers of the routes that change or read it, and the stream
  of a reply.
\<close>

section \<open>Conversations\<close>

function squeeze :: "string \<Rightarrow> string" where
  "squeeze [] = []"
| "squeeze (c # cs) = (if is_ws c then CHR '' '' # squeeze (dropWhile is_ws cs) else c # squeeze cs)"
  by pat_completeness auto
termination by (relation "measure length") (auto simp: less_Suc_eq_le length_dropWhile_le)

definition user_text :: "jsval \<Rightarrow> bool" where
  "user_text m = (truthy m \<and> field m ''role'' = Str ''user'' \<and> (case field m ''content'' of Str s \<Rightarrow> True | _ \<Rightarrow> False))"

definition title_of_text :: "string \<Rightarrow> string" where
  "title_of_text s = (let compact = trim (squeeze s) in if compact \<noteq> [] then take 56 compact else ''Demo conversation'')"

definition titleFromMessages :: "jsval list \<Rightarrow> string" where
  "titleFromMessages msgs =
     (case find user_text msgs of
        Some m \<Rightarrow> (case field m ''content'' of Str s \<Rightarrow> title_of_text s | _ \<Rightarrow> ''Demo conversation'')
      | None \<Rightarrow> ''Demo conversation'')"

text \<open>Reading a property of \<open>null\<close> or \<open>undefined\<close> throws a \<open>TypeError\<close>, which is answered with 500.\<close>

definition object_like :: "jsval \<Rightarrow> unit http" where
  "object_like v = (if v = Null \<or> v = Undefined then Inl (500, ''TypeError'') else Inr ())"

definition append_view :: "jsval \<Rightarrow> jsval" where
  "append_view raw =
     Obj ([(''id'', field raw ''id''), (''role'', field raw ''role''), (''content'', field raw ''content''), (''created_at'', field raw ''created_at'')]
          @ (if truthy (field raw ''model'') then [(''model'', field raw ''model'')] else [])
          @ (if truthy (field raw ''metadata'') then [(''metadata'', field raw ''metadata'')] else []))"

definition same_message :: "message \<Rightarrow> message \<Rightarrow> bool" where
  "same_message m e = (ms_id e = ms_id m \<or> ms_role e = ms_role m \<and> ms_content e = ms_content m)"

definition appendUnique :: "demo_env \<Rightarrow> string \<Rightarrow> jsval \<Rightarrow> conversation \<Rightarrow> (message \<times> conversation) http" where
  "appendUnique en uuid raw c =
     bind_http (object_like raw) (\<lambda>_.
     bind_http (canonicalMessage en (append_view raw) 400 False uuid) (\<lambda>m.
       case find (same_message m) (cv_messages c) of
         Some e \<Rightarrow> Inr (e, c)
       | None \<Rightarrow>
           if length (cv_messages c) \<ge> lim_messagesPerConversation then Inl (413, ''conversation_message_limit'')
           else Inr (m, c\<lparr>cv_messages := cv_messages c @ [m], cv_updated := de_now en,
                          cv_title := (if cv_title c = ''Demo conversation'' \<and> ms_role m = ''user'' then title_of_text (ms_content m) else cv_title c)\<rparr>)))"

definition set_conversation :: "conversation \<Rightarrow> demo_state \<Rightarrow> demo_state" where
  "set_conversation c s = s\<lparr>ds_conversations := AList.update (cv_id c) c (ds_conversations s)\<rparr>"

definition createConversation :: "demo_env \<Rightarrow> string option \<Rightarrow> jsval \<Rightarrow> jsval list \<Rightarrow> demo_state \<Rightarrow> (conversation \<times> demo_state) http" where
  "createConversation en requestedId model msgs s =
     bind_http (case requestedId of Some i \<Rightarrow> validateOpaqueId (Str i) | None \<Rightarrow> Inr (de_uuid en 0)) (\<lambda>i.
       case map_of (ds_conversations s) i of
         Some c \<Rightarrow> Inr (c, s)
       | None \<Rightarrow>
           if length (ds_conversations s) \<ge> lim_conversations then Inl (413, ''conversation_limit'')
           else
             bind_http (if truthy model then validateText (Str (js_text (de_fmt en) model)) 128 400 False else Inr DEFAULT_MODEL) (\<lambda>md.
               let c = \<lparr>cv_id = i, cv_title = titleFromMessages msgs, cv_created = de_now en, cv_updated = de_now en, cv_model = md,
                        cv_session = ''demo-session-'' @ de_uuid en 1, cv_messages = []\<rparr>
               in Inr (c, set_conversation c s)))"

section \<open>The store\<close>

text \<open>The state file and the artifacts; something at the path that is not a regular file is \<open>Irregular\<close>.\<close>

datatype state_file = Missing | Irregular | Regular string

record demo_disk =
  dk_state :: state_file
  dk_artifacts :: "string \<rightharpoonup> string"

definition store_load :: "demo_env \<Rightarrow> demo_disk \<Rightarrow> demo_state http" where
  "store_load en d =
     (case dk_state d of
        Missing \<Rightarrow> Inr emptyState
      | Irregular \<Rightarrow> Inl (422, ''invalid_state_file'')
      | Regular txt \<Rightarrow>
          if byteLength txt > lim_stateBytes then Inl (422, ''invalid_state_file'')
          else case JSON_parse txt of
            None \<Rightarrow> Inl (422, ''invalid_state_json'')
          | Some v \<Rightarrow> validateState en v 422)"

definition state_text :: "demo_state \<Rightarrow> string" where
  "state_text s = JSON_stringify_2 (state_json s) @ [CHR 0x0A]"

text \<open>The write of the temporary file and its rename succeed together or leave the old file.\<close>

definition store_save :: "demo_env \<Rightarrow> bool \<Rightarrow> demo_state \<Rightarrow> demo_disk \<Rightarrow> unit http \<times> demo_disk" where
  "store_save en write_fails s d =
     (case validateState en (state_json s) 413 of
        Inl e \<Rightarrow> (Inl e, d)
      | Inr c \<Rightarrow>
          if byteLength (state_text c) > lim_stateBytes then (Inl (413, ''state_size_limit''), d)
          else if dk_state d = Irregular then (Inl (422, ''invalid_state_file''), d)
          else if write_fails then (Inl (500, ''io''), d)
          else (Inr (), d\<lparr>dk_state := Regular (state_text c)\<rparr>))"

text \<open>One operation of the write queue: no other operation runs in between.\<close>

definition store_update :: "demo_env \<Rightarrow> bool \<Rightarrow> (demo_state \<Rightarrow> ('a \<times> demo_state) http) \<Rightarrow> demo_disk \<Rightarrow> 'a http \<times> demo_disk" where
  "store_update en write_fails mutator d =
     (case bind_http (store_load en d) mutator of
        Inl e \<Rightarrow> (Inl e, d)
      | Inr (x, s) \<Rightarrow> (case store_save en write_fails s d of (Inl e, d') \<Rightarrow> (Inl e, d') | (Inr _, d') \<Rightarrow> (Inr x, d')))"

section \<open>Bodies and error answers\<close>

definition lim_jsonBytes :: nat where "lim_jsonBytes = 2 * 1024 * 1024"

fun read_chunks :: "nat \<Rightarrow> nat \<Rightarrow> string list \<Rightarrow> string http" where
  "read_chunks maxBytes total_size [] = Inr []"
| "read_chunks maxBytes total_size (c # cs) =
     (if total_size + length c > maxBytes then Inl (413, ''body_limit'')
      else bind_http (read_chunks maxBytes (total_size + length c) cs) (\<lambda>rest. Inr (c @ rest)))"

text \<open>\<open>declared\<close> is the number in the header \<open>content-length\<close>, NaN when it is missing.\<close>

definition readBody :: "jsnum \<Rightarrow> nat \<Rightarrow> string list \<Rightarrow> string http" where
  "readBody declared maxBytes chunks =
     (case declared of
        Fin q \<Rightarrow> if q > of_nat maxBytes then Inl (413, ''body_limit'') else read_chunks maxBytes 0 chunks
      | _ \<Rightarrow> read_chunks maxBytes 0 chunks)"

definition readJson :: "jsnum \<Rightarrow> string list \<Rightarrow> jsval http" where
  "readJson declared chunks =
     bind_http (readBody declared lim_jsonBytes chunks) (\<lambda>body.
       if body = [] then Inr (Obj [])
       else case JSON_parse body of
         None \<Rightarrow> Inl (400, ''SyntaxError'')
       | Some v \<Rightarrow> bind_http (assertNoDangerousKeys v) (\<lambda>_. Inr v))"

definition safeErrorBody :: "nat \<Rightarrow> jsval" where
  "safeErrorBody status =
     Obj [(''error'', Str (if status = 400 then ''invalid request'' else if status = 401 then ''unauthorized'' else if status = 403 then ''forbidden''
       else if status = 404 then ''not found'' else if status = 413 then ''capacity exceeded'' else if status = 415 then ''unsupported media type''
       else if status = 422 then ''stored demo state is invalid'' else ''local demo runtime error''))]"

text \<open>What the outer \<open>catch\<close> sends for a thrown error: its status if it is one of the listed ones, and a fixed text.\<close>

definition error_answer :: "nat \<times> string \<Rightarrow> nat \<times> jsval" where
  "error_answer e = (answer_status (fst e), safeErrorBody (answer_status (fst e)))"

section \<open>Handlers\<close>

definition message_body :: "jsval \<Rightarrow> jsval" where
  "message_body body =
     Obj ([(''id'', field body ''message_id''), (''role'', field body ''role''), (''content'', field body ''content'')]
          @ (if truthy (field body ''model'') then [(''model'', field body ''model'')] else [])
          @ (if truthy (field body ''metadata'') then [(''metadata'', field body ''metadata'')] else []))"

definition post_message :: "demo_env \<Rightarrow> string \<Rightarrow> jsval \<Rightarrow> demo_state \<Rightarrow> (string \<times> demo_state) http" where
  "post_message en i body s =
     bind_http (object_like body) (\<lambda>_.
     bind_http (createConversation en (Some i) (field body ''model'') [body] s) (\<lambda>(c, s1).
     bind_http (appendUnique en (de_uuid en 2) (message_body body) c) (\<lambda>(m, c1). Inr (ms_id m, set_conversation c1 s1))))"

definition patch_conversation :: "demo_env \<Rightarrow> string \<Rightarrow> jsval \<Rightarrow> demo_state \<Rightarrow> (bool \<times> demo_state) http" where
  "patch_conversation en i body s =
     (case map_of (ds_conversations s) i of
        None \<Rightarrow> Inr (False, s)
      | Some c \<Rightarrow>
          bind_http (object_like body) (\<lambda>_.
          bind_http (if field body ''cc_session_id'' \<noteq> Undefined then validateOpaqueId (field body ''cc_session_id'') else Inr (cv_session c)) (\<lambda>ses.
            Inr (True, set_conversation (c\<lparr>cv_session := ses, cv_updated := de_now en\<rparr>) s))))"

definition history_message :: "message \<Rightarrow> jsval" where
  "history_message m = Obj ([(''role'', Str (ms_role m)), (''content'', Str (ms_content m))] @ optional_member ''metadata'' (ms_metadata m))"

text \<open>\<open>GET /v1/chat/history/<id>\<close>\<close>

definition get_conversation :: "demo_env \<Rightarrow> string \<Rightarrow> demo_disk \<Rightarrow> jsval http" where
  "get_conversation en i d =
     bind_http (store_load en d) (\<lambda>s.
       case map_of (ds_conversations s) i of
         None \<Rightarrow> Inl (404, ''conversation not found'')
       | Some c \<Rightarrow>
           Inr (Obj [(''messages'', Arr (map history_message (cv_messages c))), (''model'', Str (cv_model c)), (''updated_at'', Str (cv_updated c)),
                     (''cc_session_id'', Str (cv_session c))]))"

definition delete_conversation :: "string \<Rightarrow> demo_state \<Rightarrow> (bool \<times> demo_state) http" where
  "delete_conversation i s =
     (case map_of (ds_conversations s) i of
        None \<Rightarrow> Inr (False, s)
      | Some c \<Rightarrow> Inr (True, s\<lparr>ds_conversations := filter (\<lambda>kc. fst kc \<noteq> i) (ds_conversations s)\<rparr>))"

fun append_all :: "demo_env \<Rightarrow> nat \<Rightarrow> jsval list \<Rightarrow> conversation \<Rightarrow> conversation http" where
  "append_all en k [] c = Inr c"
| "append_all en k (m # ms) c = bind_http (appendUnique en (de_uuid en k) m c) (\<lambda>(_, c1). append_all en (Suc k) ms c1)"

definition reply_lines :: "string \<Rightarrow> string \<Rightarrow> string list" where
  "reply_lines prompt i =
     [''Demo mode is active.'', [],
      ''- Your message arrived through the production SSE adapter: **'' @ (if prompt \<noteq> [] then prompt else ''hello'') @ ''**'',
      ''- This reply is emitted as multiple real stream events.'',
      ''- Conversation '' @ i @ '' is persisted locally and survives a restart.'', [],
      ''Set VITE_AWP_CHAT_ADAPTER_URL to connect the same UI to another chat-compatible adapter.'']"

definition demoReply :: "demo_env \<Rightarrow> jsval \<Rightarrow> string \<Rightarrow> string" where
  "demoReply en lastUserText i = join_char (CHR 0x0A) (reply_lines (trim (string_or_blank en lastUserText)) i)"

definition last_user :: "jsval list \<Rightarrow> jsval" where
  "last_user incoming =
     (case find (\<lambda>m. truthy m \<and> field m ''role'' = Str ''user'') (rev incoming) of Some m \<Rightarrow> field m ''content'' | None \<Rightarrow> Undefined)"

definition or_default :: "jsval \<Rightarrow> string \<Rightarrow> jsval" where
  "or_default v d = (if truthy v then v else Str d)"

definition complete_chat :: "demo_env \<Rightarrow> string option \<Rightarrow> jsval \<Rightarrow> jsval list \<Rightarrow> demo_state \<Rightarrow> ((string \<times> string \<times> string) \<times> demo_state) http" where
  "complete_chat en requestedId model incoming s =
     bind_http (createConversation en requestedId model incoming s) (\<lambda>(c, s1).
     bind_http (append_all en 3 incoming c) (\<lambda>c1.
       let content = demoReply en (last_user incoming) (cv_id c1)
       in bind_http (appendUnique en (de_uuid en 2) (Obj [(''role'', Str ''assistant''), (''content'', Str content), (''model'', or_default model DEFAULT_MODEL)]) c1) (\<lambda>(_, c2).
            Inr ((cv_id c2, cv_session c2, content), set_conversation c2 s1))))"

text \<open>\<open>POST /v1/chat/completions\<close> from the parsed body.\<close>

definition completions :: "demo_env \<Rightarrow> bool \<Rightarrow> jsval \<Rightarrow> demo_disk \<Rightarrow> (string \<times> string \<times> string) http \<times> demo_disk" where
  "completions en write_fails body d =
     (case bind_http (object_like body) (\<lambda>_.
             let incoming = (case field body ''messages'' of Arr ms \<Rightarrow> ms | _ \<Rightarrow> [])
             in if length incoming > 32 then Inl (413, ''request_message_limit'')
                else bind_http (optionalOpaqueId en (field body ''conversation_id'')) (\<lambda>i. Inr (i, incoming))) of
        Inl e \<Rightarrow> (Inl e, d)
      | Inr (i, incoming) \<Rightarrow> store_update en write_fails (complete_chat en i (field body ''model'') incoming) d)"

record upload =
  up_bytes :: string
  up_type :: string
  up_conversation :: "string option"
  up_filename :: string

definition total_bytes :: "demo_state \<Rightarrow> nat" where
  "total_bytes s = sum_list (map (\<lambda>ka. ar_size (snd ka)) (ds_artifacts s))"

definition add_artifact :: "demo_env \<Rightarrow> (string \<Rightarrow> string) \<Rightarrow> upload \<Rightarrow> demo_state \<Rightarrow> (artifact \<times> demo_state) http" where
  "add_artifact en sha256 up s =
     (if length (ds_artifacts s) \<ge> lim_artifacts \<or> total_bytes s + length (up_bytes up) > lim_totalArtifactBytes
      then Inl (413, ''artifact_capacity'')
      else let a = \<lparr>ar_id = de_uuid en 0, ar_filename = up_filename up, ar_size = length (up_bytes up), ar_type = up_type up,
                    ar_created = de_now en, ar_conversation = up_conversation up, ar_sha256 = Str (sha256 (up_bytes up))\<rparr>
           in Inr (a, s\<lparr>ds_artifacts := AList.update (ar_id a) a (ds_artifacts s)\<rparr>))"

definition storage_name :: "string \<Rightarrow> string" where
  "storage_name i = i @ ''.bin''"

text \<open>
  \<open>readMultipartUpload\<close> after the form parser: the entries of the form, each a file with its
  name, type and bytes or a text.
\<close>

datatype form_entry = File_part string string string | Text_part string

definition vet_form :: "demo_env \<Rightarrow> (string \<times> form_entry) list \<Rightarrow> upload http" where
  "vet_form en entries =
     (let files = filter (\<lambda>e. fst e = ''file'') entries; convs = filter (\<lambda>e. fst e = ''conversation_id'') entries
      in if list_ex (\<lambda>e. fst e \<noteq> ''file'' \<and> fst e \<noteq> ''conversation_id'') entries then Inl (400, ''unsupported_form_field'')
         else if length files \<noteq> 1 \<or> length convs > 1 then Inl (400, ''invalid_file_count'')
         else case snd (hd files) of
           Text_part _ \<Rightarrow> Inl (400, ''invalid_file_part'')
         | File_part name ty bytes \<Rightarrow>
             if length bytes > lim_artifactBytes then Inl (413, ''artifact_limit'')
             else
               bind_http (case convs of
                            [] \<Rightarrow> Inr None
                          | e # _ \<Rightarrow> (case snd e of Text_part c \<Rightarrow> optionalOpaqueId en (Str c) | File_part _ _ _ \<Rightarrow> Inl (400, ''invalid_conversation_id''))) (\<lambda>conv.
               bind_http (validateUploadFilename name) (\<lambda>f.
                 Inr \<lparr>up_bytes = bytes, up_type = normalizeContentType ty, up_conversation = conv, up_filename = f\<rparr>)))"

text \<open>\<open>POST /v1/chat/upload\<close>: the bytes are written before the state is saved and removed again when that fails.\<close>

definition upload_file :: "demo_env \<Rightarrow> (string \<Rightarrow> string) \<Rightarrow> bool \<Rightarrow> bool \<Rightarrow> upload \<Rightarrow> demo_disk \<Rightarrow> artifact http \<times> demo_disk" where
  "upload_file en sha256 write_fails save_fails up d =
     (case bind_http (store_load en d) (add_artifact en sha256 up) of
        Inl e \<Rightarrow> (Inl e, d)
      | Inr (a, s) \<Rightarrow>
          if dk_artifacts d (storage_name (ar_id a)) \<noteq> None then (Inl (500, ''artifact_collision''), d)
          else if write_fails then (Inl (500, ''io''), d)
          else
            let d1 = d\<lparr>dk_artifacts := (dk_artifacts d)(storage_name (ar_id a) \<mapsto> up_bytes up)\<rparr>
            in case store_save en save_fails s d1 of
                 (Inl e, d2) \<Rightarrow> (Inl e, d2\<lparr>dk_artifacts := (dk_artifacts d2)(storage_name (ar_id a) := None)\<rparr>)
               | (Inr _, d2) \<Rightarrow> (Inr a, d2))"

definition download_file :: "demo_env \<Rightarrow> (string \<Rightarrow> string) \<Rightarrow> string \<Rightarrow> demo_disk \<Rightarrow> string http" where
  "download_file en sha256 i d =
     bind_http (store_load en d) (\<lambda>s.
       case map_of (ds_artifacts s) i of
         None \<Rightarrow> Inl (404, ''artifact_not_found'')
       | Some a \<Rightarrow>
           (case dk_artifacts d (storage_name (ar_id a)) of
              None \<Rightarrow> Inl (500, ''ENOENT'')
            | Some bytes \<Rightarrow>
                if length bytes > lim_artifactBytes then Inl (422, ''invalid_artifact_file'')
                else if length bytes \<noteq> ar_size a \<or> Str (sha256 bytes) \<noteq> ar_sha256 a then Inl (422, ''artifact_integrity'')
                else Inr bytes))"

definition publicArtifact :: "artifact \<Rightarrow> jsval" where
  "publicArtifact a =
     Obj ([(''id'', Str (ar_id a)), (''filename'', Str (ar_filename a)), (''size'', Num (Fin (of_nat (ar_size a)))), (''size_bytes'', Num (Fin (of_nat (ar_size a)))),
           (''content_type'', Str (ar_type a)), (''created_at'', Str (ar_created a))]
          @ optional_member ''conversation_id'' (map_option Str (ar_conversation a))
          @ [(''sha256'', ar_sha256 a), (''download_url'', Str (''/v1/chat/artifacts/'' @ ar_id a @ ''/download''))])"

definition toHistory :: "conversation \<Rightarrow> jsval" where
  "toHistory c =
     Obj [(''conversation_id'', Str (cv_id c)), (''title'', Str (cv_title c)), (''created_at'', Str (cv_created c)),
          (''message_count'', Num (Fin (of_nat (length (cv_messages c)))))]"

definition parseBoundedInteger :: "string option \<Rightarrow> nat \<Rightarrow> nat \<Rightarrow> nat http" where
  "parseBoundedInteger v fallback maximum =
     (case v of
        None \<Rightarrow> Inr fallback
      | Some t \<Rightarrow>
          if t = [] then Inr fallback
          else if length t \<le> 9 \<and> list_all is_digit t then Inr (min (digits_val 0 t) maximum)
          else Inl (400, ''invalid_query_integer''))"

text \<open>\<open>localeCompare\<close> is the argument; the sort is stable and newest first.\<close>

definition list_history :: "demo_env \<Rightarrow> (string \<Rightarrow> string \<Rightarrow> int) \<Rightarrow> string option \<Rightarrow> string option \<Rightarrow> demo_disk \<Rightarrow> jsval list http" where
  "list_history en cmp off limit d =
     bind_http (store_load en d) (\<lambda>s.
     bind_http (parseBoundedInteger off 0 lim_conversations) (\<lambda>o1.
     bind_http (parseBoundedInteger limit 100 lim_conversations) (\<lambda>l1.
       Inr (map toHistory (take l1 (drop o1 (sort_cmp (\<lambda>a b. cmp (cv_updated b) (cv_updated a)) (map snd (ds_conversations s)))))))))"

definition list_artifacts :: "demo_env \<Rightarrow> (string \<Rightarrow> string \<Rightarrow> int) \<Rightarrow> string option \<Rightarrow> string option \<Rightarrow> demo_disk \<Rightarrow> jsval list http" where
  "list_artifacts en cmp conv limit d =
     bind_http (optionalOpaqueId en (case conv of Some c \<Rightarrow> Str c | None \<Rightarrow> Null)) (\<lambda>i.
     bind_http (parseBoundedInteger limit 100 100) (\<lambda>l1.
     bind_http (store_load en d) (\<lambda>s.
       Inr (map publicArtifact (take l1 (sort_cmp (\<lambda>a b. cmp (ar_created b) (ar_created a))
              (filter (\<lambda>a. i = None \<or> ar_conversation a = i) (map snd (ds_artifacts s)))))))))"

section \<open>The stream of a reply\<close>

text \<open>
  The pieces of \<open>content.match(/.{1,28}(?:\\s|$)|.{1,28}/gu)\<close>: a run of at most 28 characters of a
  line, preferably one that ends before white space, which is taken along; a line end that
  no character precedes is skipped.
\<close>

definition line_end :: "char \<Rightarrow> bool" where
  "line_end c = (c = CHR 0x0A \<or> c = CHR 0x0D)"

fun break_at :: "nat \<Rightarrow> string \<Rightarrow> nat option" where
  "break_at 0 s = None"
| "break_at (Suc k) s =
     (case drop (Suc k) s of
        [] \<Rightarrow> Some (Suc k)
      | c # _ \<Rightarrow> if is_ws c then Some (Suc (Suc k)) else break_at k s)"

definition piece_length :: "string \<Rightarrow> nat" where
  "piece_length s =
     (let run = length (takeWhile (\<lambda>c. \<not> line_end c) (take 28 s))
      in case break_at run s of Some n \<Rightarrow> n | None \<Rightarrow> run)"

function reply_pieces :: "string \<Rightarrow> string list" where
  "reply_pieces s =
     (if s = [] then []
      else if line_end (hd s) then reply_pieces (tl s)
      else take (piece_length s) s # reply_pieces (drop (max 1 (piece_length s)) s))"
  by pat_completeness auto
termination by (relation "measure length") auto

declare reply_pieces.simps [simp del]

definition reply_events :: "string \<Rightarrow> string \<Rightarrow> string \<Rightarrow> jsval list" where
  "reply_events i session content =
     [Obj [(''type'', Str ''message_start''), (''conversation_id'', Str i), (''cc_session_id'', Str session)],
      Obj [(''type'', Str ''cc_status''), (''tool'', Str ''DemoRuntime''), (''label'', Str ''Streaming from the local demo runtime'')]]
     @ map (\<lambda>p. Obj [(''delta'', Str p), (''conversation_id'', Str i)]) (if reply_pieces content = [] then [content] else reply_pieces content)"

text \<open>\<open>writeSse\<close>\<close>

definition sse_frame :: "string \<Rightarrow> string" where
  "sse_frame v = ''data: '' @ v @ [CHR 0x0A, CHR 0x0A]"

definition reply_stream :: "string \<Rightarrow> string \<Rightarrow> string \<Rightarrow> string" where
  "reply_stream i session content = concat (map (\<lambda>v. sse_frame (JSON_stringify v)) (reply_events i session content)) @ sse_frame ''[DONE]''"

end
