(* ===== verification/DemoProps.thy ===== *)
theory DemoProps
  imports DemoStore
begin

text \<open>
  What the demo control plane promises: a saved state is read back unchanged and a failed
  update leaves the file alone, every operation keeps the document printable, an uploaded
  file comes back byte for byte, and the client's event-stream reader sees exactly the
  events the server wrote, although the pieces of a reply are not the whole reply.
\<close>

section \<open>Documents that survive the file\<close>

text \<open>
  What holds of a state besides the limits that \<open>validateState\<close> checks: distinct keys, metadata
  and digests that JSON prints exactly, and no text that validation would rewrite.
\<close>

definition metadata_printable :: "message \<Rightarrow> bool" where
  "metadata_printable m = (case ms_metadata m of Some v \<Rightarrow> wf_json v | None \<Rightarrow> True)"

definition artifact_printable :: "artifact \<Rightarrow> bool" where
  "artifact_printable a = (type_ok (ar_type a) \<and> ar_conversation a \<noteq> Some [] \<and> wf_json (ar_sha256 a))"

definition printable :: "demo_state \<Rightarrow> bool" where
  "printable s =
     (distinct (map fst (ds_conversations s)) \<and> distinct (map fst (ds_artifacts s))
      \<and> list_all (\<lambda>kc. fst kc = cv_id (snd kc) \<and> list_all metadata_printable (cv_messages (snd kc))) (ds_conversations s)
      \<and> list_all (\<lambda>ka. artifact_printable (snd ka)) (ds_artifacts s))"

lemma canonicalMessage_json_eq:
  assumes "canonicalMessage en (message_json m) status True uuid = Inr m'" "metadata_printable m"
  shows "m' = m"
proof -
  from assms have ok: "ms_role m' = ms_role m" "ms_id m' = ms_id m" "ms_content m' = ms_content m" "ms_created m' = ms_created m"
      "message_model en (field (message_json m) ''model'') status = Inr (ms_model m')"
      "cloneMetadata (field (message_json m) ''metadata'') status = Inr (ms_metadata m')"
    unfolding canonicalMessage_def validators_Inr by (auto simp: message_fields(1-4) validators_Inr)
  have "ms_model m' = ms_model m"
    using ok(5) by (auto simp: message_fields message_model_def validators_Inr split: option.splits)
  moreover have "ms_metadata m' = ms_metadata m"
    using ok(6) assms(2) by (auto simp: message_fields cloneMetadata_def metadata_printable_def split: option.splits if_splits)
  ultimately show ?thesis using ok(1-4) by simp
qed

lemma all_http_json_eq:
  "all_http f (map g xs) = Inr ys \<Longrightarrow> list_all P xs \<Longrightarrow> (\<And>x y. f (g x) = Inr y \<Longrightarrow> P x \<Longrightarrow> y = x) \<Longrightarrow> ys = xs"
  by (induction xs arbitrary: ys) (auto simp: bind_http_Inr)

lemma validateConversation_json_eq:
  assumes v: "validateConversation en status tot (k, conversation_json c) = Inr c'" and "list_all metadata_printable (cv_messages c)"
  shows "c' = c"
proof -
  from v [unfolded validateConversation_def conversation_fields snd_conv fst_conv Let_def jsval.case]
  obtain ms where ms: "all_http (\<lambda>m. canonicalMessage en m status True []) (map message_json (cv_messages c)) = Inr ms"
      and c': "cv_messages c' = ms" "cv_id c' = cv_id c" "cv_title c' = cv_title c" "cv_created c' = cv_created c" "cv_updated c' = cv_updated c"
        "cv_model c' = cv_model c" "cv_session c' = cv_session c"
    unfolding bind_http_Inr by (auto simp: validators_Inr split: if_splits)
  have "ms = cv_messages c" using ms assms(2) by (rule all_http_json_eq) (rule canonicalMessage_json_eq)
  with c' show ?thesis by simp
qed

lemma validateConversations_json_eq:
  assumes "validateConversations en status tot (map (\<lambda>kc. (fst kc, conversation_json (snd kc))) cs) = Inr cs'"
    and "list_all (\<lambda>kc. fst kc = cv_id (snd kc) \<and> list_all metadata_printable (cv_messages (snd kc))) cs"
  shows "cs' = cs"
  using assms
proof (induction cs arbitrary: tot cs')
  case (Cons kc cs)
  from Cons.prems obtain c1 cs1 where 1: "validateConversation en status tot (fst kc, conversation_json (snd kc)) = Inr c1"
      "validateConversations en status (tot + length (cv_messages c1)) (map (\<lambda>kc. (fst kc, conversation_json (snd kc))) cs) = Inr cs1"
      "cs' = (cv_id c1, c1) # cs1"
    by (auto simp: bind_http_Inr)
  have "c1 = snd kc" using 1(1) by (rule validateConversation_json_eq) (use Cons.prems(2) in simp)
  moreover have "cs1 = cs" using 1(2) by (rule Cons.IH) (use Cons.prems(2) in simp)
  ultimately show ?case using 1(3) Cons.prems(2) by (cases kc) simp
qed simp

lemma string_or_blank_Str [simp]: "string_or_blank en (Str s) = s"
  by (cases s) (simp_all add: string_or_blank_def)

lemma stored_size_of_nat: "stored_size en (Num (Fin (of_nat n))) = Some m \<Longrightarrow> m = n"
  by (auto simp: stored_size_def Let_def split: if_splits option.splits)

lemma validateArtifact_json_eq:
  assumes v: "validateArtifact en status tot (k, artifact_json a) = Inr a'" and p: "artifact_printable a"
  shows "a' = a"
proof -
  have conv: "field (artifact_json a) ''conversation_id'' = Str u \<Longrightarrow> ar_conversation a = Some u"
      "\<not> truthy (field (artifact_json a) ''conversation_id'') \<Longrightarrow> ar_conversation a = None" for u
    using p by (auto simp: artifact_fields(8) artifact_printable_def truthy_Str_ne split: option.splits)
  from v have "ar_id a' = ar_id a" "ar_filename a' = ar_filename a" "ar_size a' = ar_size a" "ar_type a' = ar_type a"
      "ar_created a' = ar_created a" "ar_conversation a' = ar_conversation a" "ar_sha256 a' = ar_sha256 a"
    using p unfolding validateArtifact_def artifact_fields(1-7) snd_conv fst_conv Let_def string_or_blank_Str
    by (auto simp: validators_Inr validateUploadFilename_def artifact_printable_def normalizeContentType_def
        dest: stored_size_of_nat conv split: if_splits option.splits)
  then show ?thesis by simp
qed

lemma validateArtifacts_json_eq:
  assumes "validateArtifacts en status tot (map (\<lambda>ka. (fst ka, artifact_json (snd ka))) as) = Inr as'"
    and "list_all (\<lambda>ka. artifact_printable (snd ka)) as"
  shows "as' = as"
  using assms
proof (induction as arbitrary: tot as')
  case (Cons ka as)
  from Cons.prems obtain a1 as1 where 1: "validateArtifact en status tot (fst ka, artifact_json (snd ka)) = Inr a1"
      "validateArtifacts en status (tot + ar_size a1) (map (\<lambda>ka. (fst ka, artifact_json (snd ka))) as) = Inr as1"
      "as' = (ar_id a1, a1) # as1"
    by (auto simp: bind_http_Inr)
  have a: "a1 = snd ka" using 1(1) by (rule validateArtifact_json_eq) (use Cons.prems(2) in simp)
  have "as1 = as" using 1(2) by (rule Cons.IH) (use Cons.prems(2) in simp)
  moreover have "fst ka = ar_id a1" using validateArtifact_ok [OF 1(1)] by simp
  ultimately show ?case using 1(3) a by (cases ka) simp
qed simp

lemma validateState_json_eq:
  assumes v: "validateState en (state_json s) status = Inr c" and p: "printable s"
  shows "c = s"
proof -
  from v obtain cs as where cs: "validateConversations en status 0 (map (\<lambda>kc. (fst kc, conversation_json (snd kc))) (ds_conversations s)) = Inr cs"
      and as: "validateArtifacts en status 0 (map (\<lambda>ka. (fst ka, artifact_json (snd ka))) (ds_artifacts s)) = Inr as"
      and c: "c = \<lparr>ds_conversations = cs, ds_artifacts = as\<rparr>"
    by (auto simp: validateState_def state_fields bind_http_Inr Let_def split: if_splits)
  have "cs = ds_conversations s" using cs by (rule validateConversations_json_eq) (use p in \<open>simp add: printable_def\<close>)
  moreover have "as = ds_artifacts s" using as by (rule validateArtifacts_json_eq) (use p in \<open>simp add: printable_def\<close>)
  ultimately show ?thesis using c by simp
qed

lemma wf_message_json: "metadata_printable m \<Longrightarrow> wf_json (message_json m)"
  by (auto simp: message_json_def optional_member_def metadata_printable_def split: option.splits)

lemma wf_conversation_json: "list_all metadata_printable (cv_messages c) \<Longrightarrow> wf_json (conversation_json c)"
  by (auto simp: conversation_json_def list_all_iff intro: wf_message_json)

lemma wf_artifact_json: "artifact_printable a \<Longrightarrow> wf_json (artifact_json a)"
  by (auto simp: artifact_json_def optional_member_def artifact_printable_def split: option.splits)

lemma wf_state_json: "printable s \<Longrightarrow> wf_json (state_json s)"
  by (auto simp: state_json_def printable_def list_all_iff o_def intro!: wf_conversation_json wf_artifact_json)

section \<open>The store\<close>

lemma store_save_failed: "store_save en b s d = (Inl e, d') \<Longrightarrow> d' = d"
  by (auto simp: store_save_def split: sum.splits if_splits)

text \<open>A state that was saved is the state the next load answers, and it keeps every limit.\<close>

lemma store_save_load:
  assumes v: "store_save en b s d = (Inr r, d')" and p: "printable s"
  shows "store_load en d' = Inr s \<and> within_limits en s \<and> dk_artifacts d' = dk_artifacts d"
proof -
  from v obtain c where c: "validateState en (state_json s) 413 = Inr c" "byteLength (state_text c) \<le> lim_stateBytes"
      and d': "d' = d\<lparr>dk_state := Regular (state_text c)\<rparr>"
    by (auto simp: store_save_def split: sum.splits if_splits)
  have eq: "c = s" by (rule validateState_json_eq [OF c(1) p])
  note ok = validateState_sound [OF c(1)]
  have "JSON_parse (state_text s) = Some (state_json s)" unfolding state_text_def
    by (rule JSON_parse_stringify_2 [OF wf_state_json [OF p]]) (simp_all add: skip_ws_def is_json_ws_def)
  with c(2) d' eq ok show ?thesis by (simp add: store_load_def validateState_complete)
qed

lemma store_update_load:
  assumes u: "store_update en b f d = (r, d')" and l: "store_load en d = Inr s"
    and keeps: "\<And>x s'. f s = Inr (x, s') \<Longrightarrow> printable s'"
  shows "(\<exists>e. r = Inl e \<and> d' = d)
    \<or> (\<exists>x s'. r = Inr x \<and> f s = Inr (x, s') \<and> printable s' \<and> store_load en d' = Inr s' \<and> within_limits en s' \<and> dk_artifacts d' = dk_artifacts d)"
proof (cases "f s")
  case (Inr q)
  obtain x s' where q: "q = (x, s')" by (cases q)
  obtain r' d1 where sv: "store_save en b s' d = (r', d1)" by fastforce
  show ?thesis
  proof (cases r')
    case (Inl e)
    with u l Inr q sv store_save_failed [OF sv [unfolded Inl]] show ?thesis by (auto simp: store_update_def)
  next
    case r: (Inr y)
    have p: "printable s'" by (rule keeps) (simp add: Inr q)
    from u l Inr q sv r p store_save_load [OF sv [unfolded r] p] show ?thesis by (auto simp: store_update_def)
  qed
qed (use u l in \<open>auto simp: store_update_def\<close>)

section \<open>Every operation keeps the document printable\<close>

lemma wf_field:
  assumes "wf_json v" "field v k \<noteq> Undefined"
  shows "wf_json (field v k)"
  using assms by (cases v) (auto simp: list_all_iff dest!: map_of_SomeD split: option.splits)

lemma canonicalMessage_metadata:
  assumes "canonicalMessage en v status req uuid = Inr m" "ms_metadata m = Some x"
  shows "x = field v ''metadata''"
  using assms unfolding canonicalMessage_def validators_Inr by (auto simp: validators_Inr cloneMetadata_def split: if_splits)

lemma append_view_metadata: "field (append_view raw) ''metadata'' \<in> {Undefined, field raw ''metadata''}"
  by (simp add: append_view_def)

lemma appendUnique_printable:
  assumes a: "appendUnique en uuid raw c = Inr (m, c')" and p: "list_all metadata_printable (cv_messages c)"
    and wf: "field raw ''metadata'' \<noteq> Undefined \<Longrightarrow> wf_json (field raw ''metadata'')"
  shows "list_all metadata_printable (cv_messages c') \<and> cv_id c' = cv_id c"
proof -
  from a obtain m1 where m1: "canonicalMessage en (append_view raw) 400 False uuid = Inr m1"
      and c': "c' = c \<or> cv_messages c' = cv_messages c @ [m1] \<and> cv_id c' = cv_id c"
    by (auto simp: appendUnique_def bind_http_Inr split: option.splits if_splits)
  have "metadata_printable m1"
  proof (cases "ms_metadata m1")
    case (Some x)
    from canonicalMessage_parts(6) [OF m1] Some have "x \<noteq> Undefined" by (auto dest: metadata_defined)
    with canonicalMessage_metadata [OF m1 Some] append_view_metadata [of raw] wf Some show ?thesis
      by (auto simp: metadata_printable_def)
  qed (simp add: metadata_printable_def)
  with c' p show ?thesis by auto
qed

lemma set_update_subset: "set (AList.update k v al) \<subseteq> insert (k, v) (set al)"
  by (induction al) auto

lemma printable_set_conversation:
  assumes "printable s" "list_all metadata_printable (cv_messages c)"
  shows "printable (set_conversation c s)"
  using assms set_update_subset [of "cv_id c" c "ds_conversations s"]
  by (auto simp: printable_def set_conversation_def list_all_iff distinct_update)

lemma printable_lookup:
  "printable s \<Longrightarrow> map_of (ds_conversations s) i = Some c \<Longrightarrow> list_all metadata_printable (cv_messages c) \<and> cv_id c = i"
  by (auto simp: printable_def list_all_iff dest!: map_of_SomeD)

lemma createConversation_printable:
  assumes "createConversation en i model msgs s = Inr (c, s')" "printable s"
  shows "printable s' \<and> list_all metadata_printable (cv_messages c)"
  using assms printable_lookup [OF assms(2)]
  by (auto simp: createConversation_def bind_http_Inr Let_def intro!: printable_set_conversation split: option.splits if_splits)

lemma append_all_printable:
  assumes "append_all en k msgs c = Inr c'" "list_all metadata_printable (cv_messages c)" "list_all wf_json msgs"
  shows "list_all metadata_printable (cv_messages c') \<and> cv_id c' = cv_id c"
  using assms
proof (induction msgs arbitrary: k c)
  case (Cons m msgs)
  then obtain x c1 where 1: "appendUnique en (de_uuid en k) m c = Inr (x, c1)" "append_all en (Suc k) msgs c1 = Inr c'"
    by (auto simp: bind_http_Inr)
  have "list_all metadata_printable (cv_messages c1) \<and> cv_id c1 = cv_id c"
    using 1(1) Cons.prems(2) by (rule appendUnique_printable) (use Cons.prems(3) in \<open>auto intro: wf_field\<close>)
  with Cons.IH [OF 1(2)] Cons.prems(3) show ?case by simp
qed simp

text \<open>
  The interface between the store and the request handlers: a mutator that keeps the
  document printable can be handed to \<open>store_update\<close>.
\<close>

locale mutator =
  fixes f :: "demo_state \<Rightarrow> ('a \<times> demo_state) http" and admissible :: bool
  assumes keeps: "printable s \<Longrightarrow> admissible \<Longrightarrow> f s = Inr (x, s') \<Longrightarrow> printable s'"
begin

lemma update_load:
  assumes "store_update en b f d = (r, d')" "store_load en d = Inr s" "printable s" admissible
  shows "(\<exists>e. r = Inl e \<and> d' = d)
    \<or> (\<exists>x s'. r = Inr x \<and> f s = Inr (x, s') \<and> printable s' \<and> store_load en d' = Inr s' \<and> within_limits en s' \<and> dk_artifacts d' = dk_artifacts d)"
  using assms(1,2) by (rule store_update_load) (rule keeps [OF assms(3,4)])

lemma update_keeps:
  assumes "store_load en d = Inr s" "printable s" admissible
  shows "\<exists>s'. store_load en (snd (store_update en b f d)) = Inr s' \<and> printable s'"
  using update_load [OF surjective_pairing [of "store_update en b f d"] assms] assms by auto

end

lemma post_message_keeps:
  assumes p: "printable s" and wf: "wf_json body" and m: "post_message en i body s = Inr (x, s')"
  shows "printable s'"
proof -
  from m obtain c s1 m1 c1 where 1: "createConversation en (Some i) (field body ''model'') [body] s = Inr (c, s1)"
      "appendUnique en (de_uuid en 2) (message_body body) c = Inr (m1, c1)" "s' = set_conversation c1 s1"
    by (auto simp: post_message_def bind_http_Inr)
  note c = createConversation_printable [OF 1(1) p]
  have "field (message_body body) ''metadata'' \<in> {Undefined, field body ''metadata''}" by (simp add: message_body_def)
  with wf_field [OF wf] have "list_all metadata_printable (cv_messages c1) \<and> cv_id c1 = cv_id c"
    by (intro appendUnique_printable [OF 1(2)]) (use c in auto)
  with 1(3) c show ?thesis by (auto intro: printable_set_conversation)
qed

lemma complete_chat_keeps:
  assumes p: "printable s" and wf: "list_all wf_json incoming" and m: "complete_chat en i model incoming s = Inr (x, s')"
  shows "printable s'"
proof -
  from m obtain c s1 c1 m2 c2 t where 1: "createConversation en i model incoming s = Inr (c, s1)" "append_all en 3 incoming c = Inr c1"
      "appendUnique en (de_uuid en 2) (Obj [(''role'', Str ''assistant''), (''content'', Str t), (''model'', or_default model DEFAULT_MODEL)]) c1 = Inr (m2, c2)"
      "s' = set_conversation c2 s1"
    by (auto simp: complete_chat_def bind_http_Inr Let_def)
  note c = createConversation_printable [OF 1(1) p]
  have "list_all metadata_printable (cv_messages c1)" using append_all_printable [OF 1(2) conjunct2 [OF c] wf] by simp
  then have "list_all metadata_printable (cv_messages c2)" using appendUnique_printable [OF 1(3)] by simp
  with 1(4) c show ?thesis by (auto intro: printable_set_conversation)
qed

lemma patch_conversation_keeps: "printable s \<Longrightarrow> patch_conversation en i body s = Inr (x, s') \<Longrightarrow> printable s'"
  using printable_lookup [of s i]
  by (auto simp: patch_conversation_def bind_http_Inr intro!: printable_set_conversation split: option.splits)

lemma delete_conversation_keeps: "printable s \<Longrightarrow> delete_conversation i s = Inr (x, s') \<Longrightarrow> printable s'"
  by (auto simp: delete_conversation_def printable_def list_all_iff distinct_map_filter split: option.splits)

interpretation patch: mutator "patch_conversation en i body" True for en i body
  by unfold_locales (rule patch_conversation_keeps)

interpretation delete: mutator "delete_conversation i" True for i
  by unfold_locales (rule delete_conversation_keeps)

interpretation post: mutator "post_message en i body" "wf_json body" for en i body
  by unfold_locales (rule post_message_keeps)

interpretation chat: mutator "complete_chat en i model incoming" "list_all wf_json incoming" for en i model incoming
  by unfold_locales (rule complete_chat_keeps)

lemma vet_form_upload:
  assumes "vet_form en entries = Inr up"
  shows "type_ok (up_type up)" "up_conversation up \<noteq> Some []" "length (up_bytes up) \<le> lim_artifactBytes"
proof -
  have o: "optionalOpaqueId en v \<noteq> Inr (Some [])" for v
    by (auto simp: optionalOpaqueId_def bind_http_Inr validateOpaqueId_Inr opaque_ok_def)
  show "type_ok (up_type up)" "up_conversation up \<noteq> Some []" "length (up_bytes up) \<le> lim_artifactBytes"
    using assms o by (auto simp: vet_form_def Let_def bind_http_Inr type_ok_normalize
        split: if_splits form_entry.splits list.splits)
qed

lemma add_artifact_keeps:
  assumes "printable s" "add_artifact en sha256 up s = Inr (a, s')" "type_ok (up_type up)" "up_conversation up \<noteq> Some []"
  shows "printable s' \<and> map_of (ds_artifacts s') (ar_id a) = Some a \<and> ar_size a = length (up_bytes up) \<and> ar_sha256 a = Str (sha256 (up_bytes up))"
  using assms set_update_subset [of "ar_id a" a "ds_artifacts s"]
  by (auto simp: add_artifact_def printable_def artifact_printable_def list_all_iff distinct_update update_conv' Let_def split: if_splits)

lemma upload_file_load:
  assumes u: "upload_file en sha256 b1 b2 up d = (r, d')" and l: "store_load en d = Inr s" "printable s"
    and up: "type_ok (up_type up)" "up_conversation up \<noteq> Some []"
  shows "(\<exists>e. r = Inl e \<and> d' = d)
    \<or> (\<exists>a s'. r = Inr a \<and> store_load en d' = Inr s' \<and> printable s' \<and> map_of (ds_artifacts s') (ar_id a) = Some a
        \<and> ar_size a = length (up_bytes up) \<and> ar_sha256 a = Str (sha256 (up_bytes up)) \<and> dk_artifacts d' (storage_name (ar_id a)) = Some (up_bytes up))"
proof (cases "add_artifact en sha256 up s")
  case (Inr q)
  obtain a s' where q: "q = (a, s')" by (cases q)
  let ?n = "storage_name (ar_id a)"
  let ?d1 = "d\<lparr>dk_artifacts := (dk_artifacts d)(?n \<mapsto> up_bytes up)\<rparr>"
  note k = add_artifact_keeps [OF l(2) Inr [unfolded q] up]
  obtain r' d2 where sv: "store_save en b2 s' ?d1 = (r', d2)" by fastforce
  show ?thesis
  proof (cases "dk_artifacts d ?n \<noteq> None \<or> b1")
    case True
    with u l Inr q show ?thesis by (auto simp: upload_file_def split: if_splits)
  next
    case False
    have d: "d\<lparr>dk_artifacts := (dk_artifacts d)(?n := None)\<rparr> = d" using False by (cases d) (simp add: fun_upd_idem)
    show ?thesis
    proof (cases r')
      case (Inl e)
      from u l Inr q sv False Inl d store_save_failed [OF sv [unfolded Inl]] show ?thesis by (auto simp: upload_file_def Let_def)
    next
      case r: (Inr y)
      from u l Inr q sv False r k store_save_load [OF sv [unfolded r]] show ?thesis by (auto simp: upload_file_def Let_def)
    qed
  qed
qed (use u l in \<open>auto simp: upload_file_def\<close>)

text \<open>
  C29. An accepted upload is downloaded again byte for byte, its length and digest checks
  passing; a refused one leaves neither a file nor an entry behind.
\<close>

theorem upload_round_trip:
  assumes "vet_form en entries = Inr up" "store_load en d = Inr s" "printable s"
    and "upload_file en sha256 write_fails save_fails up d = (r, d')"
  shows "case r of Inl e \<Rightarrow> d' = d | Inr a \<Rightarrow> download_file en sha256 (ar_id a) d' = Inr (up_bytes up)"
  using upload_file_load [OF assms(4,2,3) vet_form_upload(1,2) [OF assms(1)]] vet_form_upload(3) [OF assms(1)]
  by (auto simp: download_file_def)

section \<open>Runs of the server\<close>

datatype demo_op =
    Post_message string jsval
  | Patch_conversation string jsval
  | Delete_conversation string
  | Chat_completions jsval
  | Chat_upload "(string \<times> form_entry) list"

fun perform :: "demo_env \<Rightarrow> (string \<Rightarrow> string) \<Rightarrow> bool \<Rightarrow> bool \<Rightarrow> demo_op \<Rightarrow> demo_disk \<Rightarrow> demo_disk" where
  "perform en sha256 b1 b2 (Post_message i body) d = snd (store_update en b1 (post_message en i body) d)"
| "perform en sha256 b1 b2 (Patch_conversation i body) d = snd (store_update en b1 (patch_conversation en i body) d)"
| "perform en sha256 b1 b2 (Delete_conversation i) d = snd (store_update en b1 (delete_conversation i) d)"
| "perform en sha256 b1 b2 (Chat_completions body) d = snd (completions en b1 body d)"
| "perform en sha256 b1 b2 (Chat_upload entries) d =
     (case vet_form en entries of Inl e \<Rightarrow> d | Inr up \<Rightarrow> snd (upload_file en sha256 b1 b2 up d))"

fun op_body :: "demo_op \<Rightarrow> jsval" where
  "op_body (Post_message i body) = body"
| "op_body (Patch_conversation i body) = body"
| "op_body (Chat_completions body) = body"
| "op_body _ = Null"

definition at_moment :: "demo_env \<Rightarrow> string \<Rightarrow> (nat \<Rightarrow> string) \<Rightarrow> demo_env" where
  "at_moment en now uuid = en\<lparr>de_now := now, de_uuid := uuid\<rparr>"

text \<open>One request: any clock, any identifiers, any of the two writes failing.\<close>

inductive demo_step :: "demo_env \<Rightarrow> (string \<Rightarrow> string) \<Rightarrow> demo_disk \<Rightarrow> demo_disk \<Rightarrow> bool" for en sha256 where
  "wf_json (op_body op) \<Longrightarrow> demo_step en sha256 d (perform (at_moment en now uuid) sha256 b1 b2 op d)"

definition loads :: "demo_env \<Rightarrow> demo_disk \<Rightarrow> bool" where
  "loads en d = (\<exists>s. store_load en d = Inr s \<and> printable s)"

lemma completions_keeps:
  assumes "store_load en d = Inr s" "printable s" "wf_json body"
  shows "loads en (snd (completions en b body d))"
proof -
  have "list_all wf_json ms" if "field body ''messages'' = Arr ms" for ms using wf_field [OF assms(3), of "''messages''"] that by simp
  then have "list_all wf_json (case field body ''messages'' of Arr ms \<Rightarrow> ms | _ \<Rightarrow> [])" by (cases "field body ''messages''") simp_all
  from chat.update_keeps [OF assms(1,2) this] assms show ?thesis
    by (auto simp: completions_def loads_def Let_def bind_http_def split: sum.splits prod.splits if_splits)
qed

lemma perform_keeps:
  assumes "loads en d" "wf_json (op_body op)"
  shows "loads en (perform en sha256 b1 b2 op d)"
proof -
  from assms(1) obtain s where s: "store_load en d = Inr s" "printable s" by (auto simp: loads_def)
  show ?thesis
  proof (cases op)
    case (Chat_upload entries)
    then show ?thesis
    proof (cases "vet_form en entries")
      case (Inr up)
      from upload_file_load [OF surjective_pairing s vet_form_upload(1,2) [OF Inr], of sha256 b1 b2] Chat_upload Inr s show ?thesis
        by (auto simp: loads_def)
    qed (use s in \<open>simp add: loads_def\<close>)
  qed (use assms s completions_keeps [OF s] patch.update_keeps [OF s TrueI] delete.update_keeps [OF s TrueI] post.update_keeps [OF s]
       in \<open>simp_all add: loads_def\<close>)
qed

text \<open>What is valid does not depend on the clock or on the fresh identifiers.\<close>

lemma validateTimestamp_moment [simp]: "validateTimestamp (at_moment en now uuid) = validateTimestamp en"
  by (simp add: at_moment_def validateTimestamp_def fun_eq_iff)

lemma canonicalMessage_moment [simp]: "canonicalMessage (at_moment en now uuid) v status True u = canonicalMessage en v status True u"
proof -
  have "message_model (at_moment en now uuid) = message_model en" by (simp add: at_moment_def message_model_def fun_eq_iff)
  then show ?thesis by (simp add: canonicalMessage_def)
qed

lemma validateConversations_moment [simp]: "validateConversations (at_moment en now uuid) status tot kvs = validateConversations en status tot kvs"
proof (induction kvs arbitrary: tot)
  case (Cons kv kvs)
  have "validateConversation (at_moment en now uuid) status tot kv = validateConversation en status tot kv"
    unfolding validateConversation_def canonicalMessage_moment validateTimestamp_moment by (rule refl)
  with Cons show ?case by simp
qed simp

lemma validateArtifacts_moment [simp]: "validateArtifacts (at_moment en now uuid) status tot kvs = validateArtifacts en status tot kvs"
proof (induction kvs arbitrary: tot)
  case (Cons kv kvs)
  have env: "stored_size (at_moment en now uuid) = stored_size en" by (simp add: stored_size_def at_moment_def fun_eq_iff)
  have env2: "de_fmt (at_moment en now uuid) = de_fmt en" "string_or_blank (at_moment en now uuid) = string_or_blank en"
    by (simp_all add: at_moment_def string_or_blank_def fun_eq_iff)
  have "validateArtifact (at_moment en now uuid) status tot kv = validateArtifact en status tot kv"
    unfolding validateArtifact_def env env2 validateTimestamp_moment by (rule refl)
  with Cons show ?case by simp
qed simp

lemma store_load_moment: "store_load (at_moment en now uuid) d = store_load en d"
  unfolding store_load_def validateState_def validateConversations_moment validateArtifacts_moment by (rule refl)

lemma loads_moment: "loads (at_moment en now uuid) d = loads en d"
  by (simp add: loads_def store_load_moment)

lemma demo_step_loads: "loads en d \<Longrightarrow> demo_step en sha256 d d' \<Longrightarrow> loads en d'"
  by (erule demo_step.cases) (metis perform_keeps loads_moment)

lemma emptyState_ok: "printable emptyState" "within_limits en emptyState"
proof -
  have "byteLength (JSON_stringify (state_json emptyState)) = 47" by code_simp
  then show "within_limits en emptyState" by (simp add: within_limits_def emptyState_def lim_stateBytes_def)
qed (simp add: printable_def emptyState_def)

lemma store_load_within: "store_load en d = Inr s \<Longrightarrow> within_limits en s"
  using validateState_sound [of en _ 422 s]
  by (auto simp: store_load_def emptyState_ok(2) split: state_file.splits if_splits option.splits)

definition no_data :: demo_disk where
  "no_data = \<lparr>dk_state = Missing, dk_artifacts = Map.empty\<rparr>"

interpretation demo: step_invariant no_data "demo_step en sha256" "loads en" for en sha256
  by unfold_locales (simp add: loads_def no_data_def store_load_def emptyState_ok(1), rule demo_step_loads)


definition sample_demo_env :: demo_env where
  "sample_demo_env = \<lparr>de_fmt = (\<lambda>_. ''0.5''), de_date_ok = (\<lambda>s. s \<noteq> []), de_now = ''2026-01-01'', de_uuid = (\<lambda>n. ''id'' @ print_nat n)\<rparr>"

definition sample_message_body :: jsval where
  "sample_message_body = Obj [(''role'', Str ''user''), (''content'', Str ''hi'')]"


definition sample_uuid :: string where "sample_uuid = ''0a1b2c3d-0000-4000-8000-00000000000f''"

definition sample_form :: "(string \<times> form_entry) list" where
  "sample_form = [(''file'', File_part ''a.txt'' ''text/plain'' ''abc''), (''conversation_id'', Text_part ''c1'')]"

definition sample_upload :: upload where
  "sample_upload = \<lparr>up_bytes = ''abc'', up_type = ''text/plain'', up_conversation = Some ''c1'', up_filename = ''a.txt''\<rparr>"

definition sample_upload_env :: demo_env where
  "sample_upload_env = at_moment sample_demo_env ''2026-01-01'' (\<lambda>_. sample_uuid)"

definition sample_artifact :: artifact where
  "sample_artifact = \<lparr>ar_id = sample_uuid, ar_filename = ''a.txt'', ar_size = 3, ar_type = ''text/plain'', ar_created = ''2026-01-01'',
     ar_conversation = Some ''c1'', ar_sha256 = Str (replicate 64 (CHR ''0''))\<rparr>"

definition sample_demo_state :: demo_state where
  "sample_demo_state = \<lparr>ds_conversations = [], ds_artifacts = [(sample_uuid, sample_artifact)]\<rparr>"

lemma sample_form_vetted: "vet_form sample_upload_env sample_form = Inr sample_upload"
proof -
  have "normalizeContentType ''text/plain'' = ''text/plain''" "validateUploadFilename ''a.txt'' = Inr ''a.txt''"
      "optionalOpaqueId sample_upload_env (Str ''c1'') = Inr (Some ''c1'')"
    by code_simp+
  then show ?thesis by (simp add: vet_form_def sample_form_def sample_upload_def lim_artifactBytes_def)
qed

lemma sample_state_ok: "within_limits sample_upload_env sample_demo_state" "plain_document (state_json sample_demo_state)"
proof -
  have a: "opaque_ok sample_uuid" "uuid_ok sample_uuid" "filename_ok ''a.txt''" "type_ok ''text/plain''" "timestamp_ok sample_upload_env ''2026-01-01''"
      "opaque_ok ''c1''" "digest_ok (js_text (de_fmt sample_upload_env) (Str (replicate 64 (CHR ''0''))))"
    by code_simp+
  have b: "byteLength (JSON_stringify (state_json sample_demo_state)) \<le> 500" by code_simp
  have "artifact_ok sample_upload_env sample_artifact" using a by (simp add: artifact_ok_def sample_artifact_def lim_artifactBytes_def)
  with b show "within_limits sample_upload_env sample_demo_state"
    by (simp add: within_limits_def sample_demo_state_def sample_artifact_def lim_conversations_def lim_artifacts_def lim_messages_def
        lim_totalArtifactBytes_def lim_stateBytes_def)
  have "nodes (state_json sample_demo_state) \<le> 50" "keys_safe 0 (state_json sample_demo_state)" by code_simp+
  then show "plain_document (state_json sample_demo_state)" by (simp add: plain_document_def)
qed

lemma sample_upload_accepted:
  "fst (upload_file sample_upload_env (\<lambda>_. replicate 64 (CHR ''0'')) False False sample_upload no_data) = Inr sample_artifact"
proof -
  have l: "store_load sample_upload_env no_data = Inr emptyState" by (simp add: store_load_def no_data_def)
  have a: "add_artifact sample_upload_env (\<lambda>_. replicate 64 (CHR ''0'')) sample_upload emptyState = Inr (sample_artifact, sample_demo_state)"
    by (simp add: add_artifact_def emptyState_def total_bytes_def lim_artifacts_def lim_totalArtifactBytes_def sample_upload_def sample_artifact_def
        sample_demo_state_def sample_upload_env_def at_moment_def Let_def numeral_3_eq_3)
  have "byteLength (state_text sample_demo_state) \<le> 500" by code_simp
  then have "store_save sample_upload_env False sample_demo_state (no_data\<lparr>dk_artifacts := m\<rparr>)
      = (Inr (), no_data\<lparr>dk_state := Regular (state_text sample_demo_state), dk_artifacts := m\<rparr>)" for m
    by (simp add: store_save_def validateState_complete [OF sample_state_ok] lim_stateBytes_def no_data_def)
  with l a show ?thesis by (simp add: upload_file_def no_data_def Let_def split: prod.splits sum.splits)
qed

theorem upload_round_trip_witness:
  "download_file sample_upload_env (\<lambda>_. replicate 64 (CHR ''0'')) sample_uuid
     (snd (upload_file sample_upload_env (\<lambda>_. replicate 64 (CHR ''0'')) False False sample_upload no_data)) = Inr ''abc''"
proof -
  have l: "store_load sample_upload_env no_data = Inr emptyState" by (simp add: store_load_def no_data_def)
  from upload_round_trip [OF sample_form_vetted l emptyState_ok(1) surjective_pairing, of "\<lambda>_. replicate 64 (CHR ''0'')" False False]
  show ?thesis unfolding sample_upload_accepted by (simp add: sample_artifact_def sample_upload_def)
qed

end
