(* ===== verification/DemoReply.thy ===== *)
theory DemoReply
  imports DemoProps
begin

text \<open>
  The stream of a reply: what the pieces of the server keep and lose of the text, and that
  the client's event-stream reader delivers exactly the events the server wrote.
\<close>

section \<open>The pieces of a reply\<close>

abbreviation without_line_ends :: "string \<Rightarrow> string" where
  "without_line_ends s \<equiv> filter (\<lambda>c. \<not> line_end c) s"

lemma break_at_bounds: "break_at k s = Some n \<Longrightarrow> 1 \<le> n \<and> n \<le> Suc k"
  by (induction k s rule: break_at.induct) (auto split: list.splits if_splits)

lemma piece_length_pos:
  assumes "s \<noteq> []" "\<not> line_end (hd s)"
  shows "1 \<le> piece_length s"
proof -
  have "1 \<le> length (takeWhile (\<lambda>c. \<not> line_end c) (take 28 s))" using assms by (cases s) auto
  then show ?thesis using break_at_bounds by (fastforce simp: piece_length_def Let_def split: option.split)
qed

lemma reply_pieces_rec:
  "reply_pieces [] = []"
  "line_end c \<Longrightarrow> reply_pieces (c # s) = reply_pieces s"
  "\<not> line_end c \<Longrightarrow> reply_pieces (c # s) = take (piece_length (c # s)) (c # s) # reply_pieces (drop (piece_length (c # s)) (c # s))"
  using piece_length_pos [of "c # s"] by (simp_all add: reply_pieces.simps max_def)

lemma reply_pieces_induct [case_names Nil line_end piece]:
  assumes "P []" "\<And>c s. line_end c \<Longrightarrow> P s \<Longrightarrow> P (c # s)"
    and "\<And>c s. \<not> line_end c \<Longrightarrow> P (drop (piece_length (c # s)) (c # s)) \<Longrightarrow> P (c # s)"
  shows "P s"
proof (induction s rule: length_induct)
  case (1 s)
  show ?case
  proof (cases s)
    case (Cons c t)
    then show ?thesis using 1 piece_length_pos [of s] assms(2,3) by (cases "line_end c") auto
  qed (simp add: assms(1))
qed

text \<open>Nothing but line ends is lost, and the order is kept.\<close>

lemma visible_pieces: "without_line_ends (concat (reply_pieces s)) = without_line_ends s"
proof (induction s rule: reply_pieces_induct)
  case (piece c s)
  let ?n = "piece_length (c # s)"
  have "without_line_ends (concat (reply_pieces (c # s))) = without_line_ends (take ?n (c # s)) @ without_line_ends (concat (reply_pieces (drop ?n (c # s))))"
    by (simp only: reply_pieces_rec(3) [OF piece(1)] concat.simps filter_append)
  also have "\<dots> = without_line_ends (take ?n (c # s) @ drop ?n (c # s))" by (simp only: piece(2) filter_append)
  finally show ?case by (simp only: append_take_drop_id)
qed (simp_all add: reply_pieces_rec)

text \<open>In a piece only the last character can be a line end, and never the first.\<close>

definition tidy :: "string \<Rightarrow> bool" where
  "tidy p = (p \<noteq> [] \<and> \<not> line_end (hd p) \<and> list_all (\<lambda>c. \<not> line_end c) (butlast p))"

lemma takeWhile_prefix_all: "n \<le> length (takeWhile P xs) \<Longrightarrow> list_all P (take n xs)"
  by (induction xs arbitrary: n) (auto simp: take_Cons split: nat.splits if_splits)

lemma length_takeWhile_take: "length (takeWhile P (take n xs)) \<le> length (takeWhile P xs)"
  by (induction xs arbitrary: n) (auto simp: take_Cons split: nat.split)

lemma list_all_butlast_take: "list_all P (take (n - 1) xs) \<Longrightarrow> list_all P (butlast (take n xs))"
  using set_take_subset_set_take [of "min (length xs) n - 1" "n - 1" xs, OF diff_le_mono [OF min.cobounded2]] by (auto simp: list_all_iff butlast_conv_take)

lemma piece_tidy:
  assumes "\<not> line_end c"
  shows "tidy (take (piece_length (c # s)) (c # s))"
proof -
  let ?s = "c # s" and ?P = "\<lambda>c. \<not> line_end c"
  let ?n = "piece_length ?s" and ?run = "length (takeWhile ?P (take 28 ?s))"
  have "?n \<le> Suc ?run"
    using break_at_bounds [of ?run ?s] by (auto simp: piece_length_def Let_def split: option.split)
  then have "?n - 1 \<le> length (takeWhile ?P ?s)" using length_takeWhile_take [of ?P 28 ?s] by linarith
  from takeWhile_prefix_all [OF this] have "list_all ?P (take (?n - 1) ?s)" .
  then have "list_all ?P (butlast (take ?n ?s))" by (rule list_all_butlast_take)
  with assms piece_length_pos [of ?s] show ?thesis by (cases ?n) (auto simp: tidy_def)
qed

fun blank_line :: "string \<Rightarrow> bool" where
  "blank_line (a # b # s) = (line_end a \<and> line_end b \<or> blank_line (b # s))"
| "blank_line _ = False"

lemma blank_line_intro: "line_end a \<Longrightarrow> line_end b \<Longrightarrow> blank_line (s @ a # b # t)"
proof (induction s)
  case (Cons c s)
  then show ?case by (cases s) auto
qed simp

lemma blank_line_append_tidy:
  "list_all (\<lambda>c. \<not> line_end c) (butlast p) \<Longrightarrow> \<not> blank_line r \<Longrightarrow> r = [] \<or> \<not> line_end (hd r) \<Longrightarrow> \<not> blank_line (p @ r)"
proof (induction p)
  case (Cons c p)
  then show ?case by (cases p; cases r) auto
qed simp

lemma blank_line_pieces: "\<not> blank_line (concat (reply_pieces s)) \<and> (concat (reply_pieces s) = [] \<or> \<not> line_end (hd (concat (reply_pieces s))))"
proof (induction s rule: reply_pieces_induct)
  case (piece c s)
  note t = piece_tidy [OF piece(1), of s]
  have e: "concat (reply_pieces (c # s)) = take (piece_length (c # s)) (c # s) @ concat (reply_pieces (drop (piece_length (c # s)) (c # s)))"
    by (simp only: reply_pieces_rec(3) [OF piece(1)] concat.simps)
  let ?r = "concat (reply_pieces (drop (piece_length (c # s)) (c # s)))"
  have "\<not> blank_line (take (piece_length (c # s)) (c # s) @ ?r)"
    by (rule blank_line_append_tidy) (use t piece(2) in \<open>auto simp only: tidy_def\<close>)
  moreover have "\<not> line_end (hd (take (piece_length (c # s)) (c # s) @ ?r))" using t by (auto simp: tidy_def hd_append)
  ultimately show ?case unfolding e by blast
qed (simp_all add: reply_pieces_rec)

text \<open>
  The streamed reply is not the stored reply: the deltas of every reply add up to a text that has all
  its visible characters, in order, but no blank line, while the text saved in the conversation has two.
\<close>

theorem streamed_reply_loses_blank_lines:
  "without_line_ends (concat (reply_pieces (demoReply en prompt i))) = without_line_ends (demoReply en prompt i)
   \<and> blank_line (demoReply en prompt i) \<and> \<not> blank_line (concat (reply_pieces (demoReply en prompt i)))"
proof -
  let ?p = "trim (string_or_blank en prompt)"
  have "demoReply en prompt i = ''Demo mode is active.'' @ CHR 0x0A # CHR 0x0A # join_char (CHR 0x0A) (drop 2 (reply_lines ?p i))"
    by (simp add: demoReply_def reply_lines_def)
  then have "blank_line (demoReply en prompt i)" using blank_line_intro [of "CHR 0x0A" "CHR 0x0A"] by (simp add: line_end_def)
  then show ?thesis using visible_pieces blank_line_pieces by blast
qed

section \<open>The client reads what the server wrote\<close>

definition recorder :: "jsval list callbacks" where
  "recorder = \<lparr>cb_message = (\<lambda>v u. (quiet, u @ [v])), cb_error = (\<lambda>e u. (quiet, u)), cb_headers = (\<lambda>u. (quiet, u))\<rparr>"

lemma recorder_invoke [simp]: "invoke (cb_message recorder v) (s, u) = (None, s, u @ [v])"
  by (simp add: recorder_def invoke_def quiet_def)

lemma frames_split:
  "list_all (\<lambda>v. CHR 0x0A \<notin> set v) vs \<Longrightarrow> split_char (CHR 0x0A) (concat (map sse_frame vs)) = concat (map (\<lambda>v. [''data: '' @ v, []]) vs) @ [[]]"
proof (induction vs)
  case (Cons v vs)
  have "sse_frame v @ concat (map sse_frame vs) = (''data: '' @ v) @ CHR 0x0A # [] @ CHR 0x0A # concat (map sse_frame vs)" by (simp add: sse_frame_def)
  then have "split_char (CHR 0x0A) (sse_frame v @ concat (map sse_frame vs))
      = split_char (CHR 0x0A) (''data: '' @ v) @ [[]] @ split_char (CHR 0x0A) (concat (map sse_frame vs))"
    by (simp only: split_char_append) simp
  with Cons show ?case by simp
qed simp

text \<open>A frame is read as \<open>v\<close> when its text is a document that parses to \<open>v\<close>, or the end mark.\<close>

definition reads_as :: "string \<Rightarrow> jsval \<Rightarrow> bool" where
  "reads_as txt v = ((txt = ''[DONE]'' \<and> v = done_message) \<or> (txt \<noteq> ''[DONE]'' \<and> trimStart txt = txt \<and> JSON_parse txt = Some v))"

lemma sse_line_reads:
  assumes "reads_as txt v"
  shows "sse_line recorder (''data: '' @ txt) (s, u) = (None, s, u @ [v])"
proof -
  have "trimStart (drop 5 (''data: '' @ txt)) = trimStart txt" by (simp add: trimStart_def is_ws_def)
  moreover have "trimStart ''[DONE]'' = ''[DONE]''" by code_simp
  ultimately show ?thesis using assms by (auto simp: sse_line_def reads_as_def Let_def)
qed

lemma sse_line_empty: "sse_line cb [] su = (None, su)"
  by (simp add: sse_line_def)

lemma sse_lines_frames:
  "list_all2 reads_as txts vs \<Longrightarrow> sse_lines recorder (concat (map (\<lambda>v. [''data: '' @ v, []]) txts)) (s, u) = (None, s, u @ vs)"
proof (induction txts vs arbitrary: u rule: list_all2_induct)
  case (Cons w ws v vs)
  then show ?case using sse_line_reads [OF Cons(1), of s u] by (simp add: sse_line_empty)
qed simp

lemma event_reads:
  assumes "wf_json (Obj kvs)"
  shows "reads_as (JSON_stringify (Obj kvs)) (Obj kvs)"
  using JSON_parse_stringify [OF assms, of "[]"] by (simp add: reads_as_def trimStart_def is_ws_def skip_ws_def ends_number_def)

lemma reply_events_read: "list_all2 reads_as (map JSON_stringify (reply_events i ses content) @ [''[DONE]'']) (reply_events i ses content @ [done_message])"
proof -
  have ev: "list_all (\<lambda>v. reads_as (JSON_stringify v) v) (reply_events i ses content)"
    unfolding reply_events_def list_all_append by (auto simp: list_all_iff simp del: JSON_stringify.simps intro!: event_reads)
  have "list_all2 reads_as (map JSON_stringify vs) vs" if "list_all (\<lambda>v. reads_as (JSON_stringify v) v) vs" for vs
    using that by (induction vs) auto
  with ev show ?thesis by (auto intro!: list_all2_appendI simp: reads_as_def simp del: JSON_stringify.simps)
qed



section \<open>Bodies\<close>

lemma read_chunks_all:
  "read_chunks m t cs = (if cs = [] \<or> t + length (concat cs) \<le> m then Inr (concat cs) else Inl (413, ''body_limit''))"
  by (induction cs arbitrary: t) auto

text \<open>
  The body limit holds whatever the client declares and however it cuts the body: a body is accepted exactly
  when its declared length, if it is a number, and its real length are within the limit, and then it is
  the concatenation of the chunks.
\<close>

theorem body_limit_enforced:
  "readBody declared m chunks = Inr body \<longleftrightarrow>
     body = concat chunks \<and> length body \<le> m \<and> (case declared of Fin q \<Rightarrow> q \<le> of_nat m | _ \<Rightarrow> True)"
  by (cases declared) (auto simp: readBody_def read_chunks_all)

end
