(* ===== verification/AgentCli.thy ===== *)
theory AgentCli
  imports JsonPretty CcStream "HOL-Library.AList"
begin

text \<open>
  The reference Agent CLI (\<open>examples/openai-compatible-agent-cli/awp-agent-cli.mjs\<close>): its
  arguments and configuration, the session document, the input lines, the provider's event
  stream, managed tasks and the loop over turns.  An error is the message it was thrown
  with.  What the provider and the control plane answer, the clock and SHA-256 are arguments.
\<close>

section \<open>Errors and output\<close>

type_synonym 'a res = "string + 'a"

definition bind_res :: "'a res \<Rightarrow> ('a \<Rightarrow> 'b res) \<Rightarrow> 'b res" where
  "bind_res r f = (case r of Inl e \<Rightarrow> Inl e | Inr x \<Rightarrow> f x)"

lemma bind_res_simps [simp]: "bind_res (Inl e) f = Inl e" "bind_res (Inr x) f = f x"
  by (simp_all add: bind_res_def)

lemma bind_res_Inr: "bind_res r f = Inr y \<longleftrightarrow> (\<exists>x. r = Inr x \<and> f x = Inr y)"
  by (cases r) auto

fun map_res :: "('a \<Rightarrow> 'b res) \<Rightarrow> 'a list \<Rightarrow> 'b list res" where
  "map_res f [] = Inr []"
| "map_res f (x # xs) = bind_res (f x) (\<lambda>y. bind_res (map_res f xs) (\<lambda>ys. Inr (y # ys)))"

text \<open>What a step wrote to standard output, event by event, and how it ended.\<close>

type_synonym 'a out = "jsval list \<times> 'a res"

definition bind_out :: "'a out \<Rightarrow> ('a \<Rightarrow> 'b out) \<Rightarrow> 'b out" where
  "bind_out x f = (case snd x of Inl e \<Rightarrow> (fst x, Inl e) | Inr v \<Rightarrow> (fst x @ fst (f v), snd (f v)))"

definition emit :: "jsval \<Rightarrow> unit out" where
  "emit ev = ([ev], Inr ())"

definition lift_out :: "'a res \<Rightarrow> 'a out" where
  "lift_out r = ([], r)"

definition message_char :: "char \<Rightarrow> bool" where
  "message_char c = (is_alnum c \<or> c \<in> set ''_:-'')"

definition publicError :: "string \<Rightarrow> string" where
  "publicError message =
     (if 1 \<le> length message \<and> length message \<le> 160 \<and> list_all message_char message then message else ''provider_request_failed'')"

section \<open>Arguments and configuration\<close>

record cli_args =
  ca_model :: string
  ca_resume :: string

definition flagsWithValue :: "string list" where
  "flagsWithValue = [''--input-format'', ''--output-format'', ''--mcp-config'']"

function parse_args_from :: "string list \<Rightarrow> cli_args \<Rightarrow> cli_args res" where
  "parse_args_from argv a =
     (case argv of
        [] \<Rightarrow> Inr a
      | x # xs \<Rightarrow>
          let v = trim (case xs of [] \<Rightarrow> [] | y # _ \<Rightarrow> y)
          in if x = ''--model'' then parse_args_from (tl xs) (a\<lparr>ca_model := v\<rparr>)
             else if x = ''--resume'' then parse_args_from (tl xs) (a\<lparr>ca_resume := v\<rparr>)
             else if x \<in> set flagsWithValue then parse_args_from (tl xs) a
             else if x = ''--print'' \<or> x = ''--verbose'' then parse_args_from xs a
             else Inl (''unsupported_argument:'' @ x))"
  by pat_completeness auto
termination by (relation "measure (\<lambda>(xs, a). length xs)") auto

declare parse_args_from.simps [simp del]

definition parseArgs :: "string list \<Rightarrow> cli_args res" where
  "parseArgs argv = parse_args_from argv \<lparr>ca_model = [], ca_resume = []\<rparr>"

type_synonym cli_env = "string \<rightharpoonup> string"

definition env_or :: "cli_env \<Rightarrow> string \<Rightarrow> string \<Rightarrow> string" where
  "env_or env k d = (case env k of Some v \<Rightarrow> v | None \<Rightarrow> d)"

definition boundedInteger :: "cli_env \<Rightarrow> string \<Rightarrow> nat \<Rightarrow> nat \<Rightarrow> nat \<Rightarrow> nat res" where
  "boundedInteger env name fallback minimum maximum =
     (let raw = trim (env_or env name []); v = digits_val 0 raw
      in if raw = [] then Inr fallback
         else if \<not> (length raw \<le> 9 \<and> list_all is_digit raw) \<or> v < minimum \<or> v > maximum then Inl (''invalid_'' @ to_lower name)
         else Inr v)"

definition isLoopbackHostname :: "string \<Rightarrow> bool" where
  "isLoopbackHostname h = (to_lower h \<in> {''localhost'', ''127.0.0.1'', ''[::1]''})"

text \<open>\<open>replace(/\\/+$/u, '')\<close> and \<open>replace(/^\\/+/u, '/')\<close>\<close>

definition strip_slashes :: "string \<Rightarrow> string" where
  "strip_slashes p = rev (dropWhile (\<lambda>c. c = CHR ''/'') (rev p))"

definition one_leading_slash :: "string \<Rightarrow> string" where
  "one_leading_slash p = (if starts_with p ''/'' then CHR ''/'' # dropWhile (\<lambda>c. c = CHR ''/'') p else p)"

definition chatCompletionsUrl :: "runtime \<Rightarrow> cli_env \<Rightarrow> url res" where
  "chatCompletionsUrl rt env =
     (case new_URL rt (trim (env_or env ''AWP_REFERENCE_API_BASE_URL'' ''http://127.0.0.1:11434/v1'')) of
        None \<Rightarrow> Inl ''invalid_api_base_url''
      | Some u \<Rightarrow>
          if url_username u \<noteq> [] \<or> url_password u \<noteq> [] \<or> url_search u \<noteq> [] \<or> url_hash u \<noteq> []
          then Inl ''api_base_url_must_not_contain_credentials_query_or_fragment''
          else if isLoopbackHostname (url_hostname u) \<and> url_protocol u \<notin> {''http:'', ''https:''} then Inl ''invalid_local_api_protocol''
          else if \<not> isLoopbackHostname (url_hostname u) \<and> url_protocol u \<noteq> ''https:'' then Inl ''remote_api_requires_https''
          else if \<not> isLoopbackHostname (url_hostname u) \<and> env ''AWP_REFERENCE_REMOTE_API_OPT_IN'' \<noteq> Some ''1'' then Inl ''remote_api_requires_explicit_opt_in''
          else let p = strip_slashes (url_pathname u)
               in Inr (if ends_with p ''/chat/completions'' then u else u\<lparr>url_pathname := one_leading_slash (p @ ''/chat/completions'')\<rparr>))"

record managed_config =
  mc_base :: string
  mc_token :: string

definition plain_token :: "string \<Rightarrow> bool" where
  "plain_token t = (t = trim t \<and> byteLength t \<le> 4096 \<and> \<not> list_ex (\<lambda>c. code c \<le> 32 \<or> code c = 127) t)"

definition managedTaskConfig :: "runtime \<Rightarrow> cli_env \<Rightarrow> managed_config option res" where
  "managedTaskConfig rt env =
     (let rawBase = trim (env_or env ''AWP_REFERENCE_CONTROL_PLANE_URL'' []); token = env_or env ''AWP_REFERENCE_CONTROL_PLANE_TOKEN'' []
      in if env ''AWP_REFERENCE_MANAGED_TASKS_OPT_IN'' \<noteq> Some ''1''
         then (if rawBase \<noteq> [] \<or> token \<noteq> [] then Inl ''managed_tasks_require_explicit_opt_in'' else Inr None)
         else if rawBase = [] \<or> token = [] then Inl ''managed_tasks_configuration_incomplete''
         else case new_URL rt rawBase of
           None \<Rightarrow> Inl ''invalid_control_plane_url''
         | Some b \<Rightarrow>
             if url_username b \<noteq> [] \<or> url_password b \<noteq> [] \<or> url_search b \<noteq> [] \<or> url_hash b \<noteq> [] \<or> url_pathname b \<notin> {''/'', []}
             then Inl ''invalid_control_plane_url''
             else if isLoopbackHostname (url_hostname b) \<and> url_protocol b \<notin> {''http:'', ''https:''} then Inl ''invalid_control_plane_protocol''
             else if \<not> isLoopbackHostname (url_hostname b) \<and> url_protocol b \<noteq> ''https:'' then Inl ''remote_control_plane_requires_https''
             else if \<not> plain_token token \<or> byteLength token < 16 then Inl ''invalid_control_plane_token''
             else Inr (Some \<lparr>mc_base = url_origin b, mc_token = token\<rparr>))"

section \<open>The session document\<close>

definition MAX_SESSION_BYTES :: nat where "MAX_SESSION_BYTES = 4 * 1024 * 1024"
definition MAX_MESSAGES :: nat where "MAX_MESSAGES = 100"

definition session_char :: "char \<Rightarrow> bool" where
  "session_char c = (is_alnum c \<or> c \<in> set ''._:-'')"

definition session_id_ok :: "string \<Rightarrow> bool" where
  "session_id_ok s = (1 \<le> length s \<and> length s \<le> 256 \<and> list_all session_char s)"

definition validateSessionId :: "string \<Rightarrow> string res" where
  "validateSessionId s = (if session_id_ok s then Inr s else Inl ''invalid_session_id'')"

record file_metadata =
  fm_symlink :: bool
  fm_regular :: bool
  fm_private :: bool
  fm_size :: nat
  fm_identity :: "nat \<times> nat"

definition validateSessionMetadata :: "file_metadata \<Rightarrow> unit res" where
  "validateSessionMetadata m =
     (if fm_symlink m \<or> \<not> fm_regular m then Inl ''unsafe_session_state_target''
      else if \<not> fm_private m then Inl ''unsafe_session_state_permissions''
      else if fm_size m > MAX_SESSION_BYTES then Inl ''session_state_oversize''
      else Inr ())"

text \<open>The reads the handle answers, one after the other; an empty one is the end of the file.\<close>

fun read_session :: "nat \<Rightarrow> string list \<Rightarrow> string res" where
  "read_session sofar [] = Inr []"
| "read_session sofar (r # rs) =
     (if r = [] then Inr []
      else if sofar + length r > MAX_SESSION_BYTES then Inl ''session_state_oversize''
      else bind_res (read_session (sofar + length r) rs) (\<lambda>rest. Inr (r @ rest)))"

definition readBoundedSessionFile :: "file_metadata \<Rightarrow> file_metadata \<Rightarrow> string list \<Rightarrow> string res" where
  "readBoundedSessionFile before opened reads =
     bind_res (validateSessionMetadata before) (\<lambda>_.
     bind_res (validateSessionMetadata opened) (\<lambda>_.
       if fm_identity before \<noteq> fm_identity opened then Inl ''session_state_identity_changed'' else read_session 0 reads))"

definition stored_message :: "jsval \<Rightarrow> jsval res" where
  "stored_message m =
     (if \<not> truthy m \<or> \<not> is_object m then Inl ''invalid_session_message''
      else if field m ''role'' \<notin> {Str ''user'', Str ''assistant''} then Inl ''invalid_session_role''
      else case field m ''content'' of
        Str s \<Rightarrow> Inr (Obj [(''role'', field m ''role''), (''content'', Str s)])
      | Arr vs \<Rightarrow> Inr (Obj [(''role'', field m ''role''), (''content'', Arr vs)])
      | _ \<Rightarrow> Inl ''invalid_session_content'')"

definition validateStoredMessages :: "jsval \<Rightarrow> jsval list res" where
  "validateStoredMessages v =
     (case v of Arr ms \<Rightarrow> if length ms > MAX_MESSAGES then Inl ''invalid_session_messages'' else map_res stored_message ms
      | _ \<Rightarrow> Inl ''invalid_session_messages'')"

record cli_session =
  cs_id :: string
  cs_messages :: "jsval list"

definition session_of_document :: "string \<Rightarrow> string \<Rightarrow> cli_session res" where
  "session_of_document i bytes =
     (case JSON_parse bytes of
        None \<Rightarrow> Inl ''invalid_session_state''
      | Some v \<Rightarrow>
          if \<not> truthy v \<or> field v ''version'' \<noteq> Num (Fin 1) \<or> field v ''session_id'' \<noteq> Str i then Inl ''invalid_session_state''
          else bind_res (validateStoredMessages (field v ''messages'')) (\<lambda>ms. Inr \<lparr>cs_id = i, cs_messages = ms\<rparr>))"

text \<open>\<open>stored = None\<close>: there is no file.\<close>

definition loadSession :: "string \<Rightarrow> string \<Rightarrow> (file_metadata \<times> file_metadata \<times> string list) option \<Rightarrow> cli_session res" where
  "loadSession uuid requested found =
     (if requested = [] then Inr \<lparr>cs_id = uuid, cs_messages = []\<rparr>
      else bind_res (validateSessionId requested) (\<lambda>i.
        case found of
          None \<Rightarrow> Inr \<lparr>cs_id = i, cs_messages = []\<rparr>
        | Some (before, opened, reads) \<Rightarrow> bind_res (readBoundedSessionFile before opened reads) (session_of_document i)))"

definition last_messages :: "jsval list \<Rightarrow> jsval list" where
  "last_messages ms = drop (length ms - MAX_MESSAGES) ms"

definition session_document :: "cli_session \<Rightarrow> jsval" where
  "session_document s = Obj [(''version'', Num (Fin 1)), (''session_id'', Str (cs_id s)), (''messages'', Arr (last_messages (cs_messages s)))]"

text \<open>The bytes that replace the session file.\<close>

definition saveSession :: "file_metadata option \<Rightarrow> cli_session \<Rightarrow> string res" where
  "saveSession existing s =
     bind_res (validateSessionId (cs_id s)) (\<lambda>_.
     bind_res (case existing of None \<Rightarrow> Inr () | Some m \<Rightarrow> validateSessionMetadata m) (\<lambda>_.
       let payload = JSON_stringify (session_document s)
       in if byteLength payload > MAX_SESSION_BYTES then Inl ''session_state_oversize'' else Inr payload))"

section \<open>Input lines\<close>

definition MAX_INPUT_LINE_BYTES :: nat where "MAX_INPUT_LINE_BYTES = 32 * 1024 * 1024"

definition document_note :: string where
  "document_note = ''[A document attachment was supplied but this reference adapter does not decode PDFs.]''"

definition textFromInputBlock :: "jsval \<Rightarrow> jsval option" where
  "textFromInputBlock block =
     (if \<not> truthy block \<or> \<not> is_object block then None
      else case (field block ''type'', field block ''text'', field (field block ''source'') ''media_type'', field (field block ''source'') ''data'') of
        (Str ty, tx, mt, dt) \<Rightarrow>
          if ty = ''text'' \<and> as_string tx \<noteq> None then Some (Obj [(''type'', Str ''text''), (''text'', tx)])
          else if ty = ''image'' \<and> field (field block ''source'') ''type'' = Str ''base64'' \<and> as_string mt \<noteq> None \<and> as_string dt \<noteq> None
          then Some (Obj [(''type'', Str ''image_url''),
                          (''image_url'', Obj [(''url'', Str (''data:'' @ the (as_string mt) @ '';base64,'' @ the (as_string dt)))])])
          else if ty = ''document'' then Some (Obj [(''type'', Str ''text''), (''text'', Str document_note)])
          else None
      | _ \<Rightarrow> None)"

definition user_content :: "jsval list \<Rightarrow> jsval" where
  "user_content items =
     (if list_all (\<lambda>i. field i ''type'' = Str ''text'') items
      then Str (join_with [CHR 0x0A] (map (\<lambda>i. case field i ''text'' of Str s \<Rightarrow> s | _ \<Rightarrow> []) items))
      else Arr items)"

definition user_message :: "jsval \<Rightarrow> jsval" where
  "user_message content = Obj [(''role'', Str ''user''), (''content'', content)]"

definition userMessageFromLine :: "string \<Rightarrow> jsval res" where
  "userMessageFromLine line =
     (if byteLength line > MAX_INPUT_LINE_BYTES then Inl ''input_message_oversize''
      else case JSON_parse line of
        None \<Rightarrow> Inl ''invalid_input_json''
      | Some v \<Rightarrow>
          if \<not> truthy v \<or> field v ''type'' \<noteq> Str ''user'' \<or> field (field v ''message'') ''role'' \<noteq> Str ''user'' then Inl ''invalid_input_message''
          else case field (field v ''message'') ''content'' of
            Str s \<Rightarrow> Inr (user_message (Str s))
          | Arr blocks \<Rightarrow>
              (let items = List.map_filter textFromInputBlock blocks
               in if items = [] then Inl ''empty_input_content'' else Inr (user_message (user_content items)))
          | _ \<Rightarrow> Inl ''invalid_input_content'')"

definition isShutdownLine :: "string \<Rightarrow> bool" where
  "isShutdownLine line = (case JSON_parse line of Some v \<Rightarrow> field v ''type'' = Str ''shutdown'' | None \<Rightarrow> False)"

end
