(* ===== verification/AgentTurn.thy ===== *)
theory AgentTurn
  imports AgentCli
begin

text \<open>
  One turn of the reference Agent CLI: the provider's event stream and its tool calls, managed
  tasks on the control plane, the rounds of a turn and the loop over input lines.
\<close>

section \<open>Provider events\<close>

definition MAX_PROVIDER_BODY_BYTES :: nat where "MAX_PROVIDER_BODY_BYTES = 8 * 1024 * 1024"
definition MAX_CONTROL_PLANE_BODY_BYTES :: nat where "MAX_CONTROL_PLANE_BODY_BYTES = 2 * 1024 * 1024"
definition MAX_MANAGED_TOOL_CALLS_PER_TURN :: nat where "MAX_MANAGED_TOOL_CALLS_PER_TURN = 4"

definition content_piece :: "jsval \<Rightarrow> string" where
  "content_piece item =
     (case item of
        Str s \<Rightarrow> s
      | _ \<Rightarrow> if truthy item \<and> is_object item then (case field item ''text'' of Str t \<Rightarrow> t | _ \<Rightarrow> []) else [])"

definition extractContent :: "jsval \<Rightarrow> string" where
  "extractContent v = (case v of Str s \<Rightarrow> s | Arr items \<Rightarrow> concat (map content_piece items) | _ \<Rightarrow> [])"

record pending_call =
  pc_id :: string
  pc_name :: string
  pc_arguments :: string

type_synonym pending_calls = "(int \<times> pending_call) list"

definition merge_name :: "string \<Rightarrow> string \<Rightarrow> string" where
  "merge_name previous fragment =
     (if fragment = [] then previous
      else if previous = [] \<or> starts_with fragment previous then fragment
      else if \<not> ends_with previous fragment then previous @ fragment
      else previous)"

definition text_of :: "jsval \<Rightarrow> string" where
  "text_of v = (case v of Str s \<Rightarrow> s | _ \<Rightarrow> [])"

definition call_index :: "nat \<Rightarrow> jsval \<Rightarrow> int" where
  "call_index position call =
     (case field call ''index'' of
        Num n \<Rightarrow> (case as_integer n of Some i \<Rightarrow> if 0 \<le> i then i else int position | None \<Rightarrow> int position)
      | _ \<Rightarrow> int position)"

definition merge_call :: "nat \<Rightarrow> jsval \<Rightarrow> pending_calls \<Rightarrow> pending_calls" where
  "merge_call position call pending =
     (if \<not> truthy call \<or> \<not> is_object call then pending
      else let i = call_index position call;
               previous = (case map_of pending i of Some p \<Rightarrow> p | None \<Rightarrow> \<lparr>pc_id = [], pc_name = [], pc_arguments = []\<rparr>);
               fn = field call ''function''
           in AList.update i \<lparr>pc_id = (if text_of (field call ''id'') \<noteq> [] then text_of (field call ''id'') else pc_id previous),
                              pc_name = merge_name (pc_name previous) (text_of (field fn ''name'')),
                              pc_arguments = pc_arguments previous @ text_of (field fn ''arguments'')\<rparr> pending)"

fun merge_calls :: "nat \<Rightarrow> jsval list \<Rightarrow> pending_calls \<Rightarrow> pending_calls" where
  "merge_calls position [] pending = pending"
| "merge_calls position (c # cs) pending = merge_calls (Suc position) cs (merge_call position c pending)"

definition mergeProviderToolCalls :: "jsval \<Rightarrow> pending_calls \<Rightarrow> pending_calls" where
  "mergeProviderToolCalls payload pending = merge_calls 0 (array_or_empty (field payload ''tool_calls'')) pending"

record tool_call =
  tc_id :: string
  tc_name :: string
  tc_arguments :: string
  tc_input :: jsval

definition tool_name_ok :: "string \<Rightarrow> bool" where
  "tool_name_ok s = (s \<noteq> [] \<and> length s \<le> 128 \<and> is_alpha (hd s) \<and> list_all (\<lambda>c. is_alnum c \<or> c \<in> set ''._-'') s)"

definition finalize_call :: "int \<times> pending_call \<Rightarrow> tool_call res" where
  "finalize_call ic =
     (let i = (if pc_id (snd ic) \<noteq> [] then pc_id (snd ic) else ''call-'' @ print_int (fst ic)); call = snd ic;
          arguments = (if pc_arguments call \<noteq> [] then pc_arguments call else ''{}'')
      in if \<not> session_id_ok i then Inl ''provider_tool_call_id_invalid''
         else if \<not> tool_name_ok (pc_name call) then Inl ''provider_tool_name_invalid''
         else if byteLength (pc_arguments call) > 64 * 1024 then Inl ''provider_tool_arguments_oversize''
         else case JSON_parse arguments of
           None \<Rightarrow> Inl ''provider_tool_arguments_invalid_json''
         | Some v \<Rightarrow> Inr \<lparr>tc_id = i, tc_name = pc_name call, tc_arguments = arguments, tc_input = v\<rparr>)"

definition finalizeProviderToolCalls :: "pending_calls \<Rightarrow> tool_call list res" where
  "finalizeProviderToolCalls pending =
     bind_res (map_res finalize_call (sort_key fst pending)) (\<lambda>calls.
       if distinct (map tc_id calls) then Inr calls else Inl ''provider_tool_call_id_duplicate'')"

text \<open>\<open>a ?? b\<close>\<close>

definition nullish :: "jsval \<Rightarrow> jsval \<Rightarrow> jsval" where
  "nullish a b = (if a = Undefined \<or> a = Null then b else a)"

text \<open>The text and the usage of one event, with the tool calls it added.\<close>

definition parseProviderEvent :: "string \<Rightarrow> pending_calls \<Rightarrow> (string \<times> jsval option \<times> pending_calls) res" where
  "parseProviderEvent raw pending =
     (case JSON_parse raw of
        None \<Rightarrow> Inl ''invalid_provider_stream_json''
      | Some ev \<Rightarrow>
          if truthy (field ev ''error'') then Inl ''provider_returned_error''
          else let choice = (case field ev ''choices'' of Arr (c # _) \<Rightarrow> c | _ \<Rightarrow> Undefined);
                   payload = nullish (field choice ''delta'') (field choice ''message'');
                   usage = field ev ''usage''
               in Inr (extractContent (field payload ''content''), (if truthy usage \<and> is_object usage then Some usage else None),
                       mergeProviderToolCalls payload pending))"

section \<open>The body of an answer\<close>

text \<open>
  The chunks are the texts the bytes decode to, bytes are counted on the text; \<open>bs_breaks\<close> is the
  message of the error the stream ends with, \<open>AbortError\<close> when the timeout aborted it.
\<close>

record body_stream =
  bs_chunks :: "string list"
  bs_breaks :: "string option"

fun readLimited :: "nat \<Rightarrow> nat \<Rightarrow> string option \<Rightarrow> string list \<Rightarrow> string res" where
  "readLimited maximum sofar breaks [] = (case breaks of Some e \<Rightarrow> Inl e | None \<Rightarrow> Inr [])"
| "readLimited maximum sofar breaks (c # cs) =
     (if sofar + byteLength c > maximum then Inl ''response_oversize''
      else bind_res (readLimited maximum (sofar + byteLength c) breaks cs) (\<lambda>rest. Inr (c @ rest)))"

definition readLimitedJson :: "nat \<Rightarrow> body_stream option \<Rightarrow> string res" where
  "readLimitedJson maximum body =
     (case body of None \<Rightarrow> Inl ''provider_response_body_missing'' | Some b \<Rightarrow> readLimited maximum 0 (bs_breaks b) (bs_chunks b))"

text \<open>\<open>split(/\\r?\\n\\r?\\n/u)\<close>: the length of the separator at the front, if there is one.\<close>

definition separator :: "string \<Rightarrow> nat" where
  "separator s =
     (if starts_with s [CHR 0x0D, CHR 0x0A, CHR 0x0D, CHR 0x0A] then 4
      else if starts_with s [CHR 0x0D, CHR 0x0A, CHR 0x0A] \<or> starts_with s [CHR 0x0A, CHR 0x0D, CHR 0x0A] then 3
      else if starts_with s [CHR 0x0A, CHR 0x0A] then 2 else 0)"

function split_blocks :: "string \<Rightarrow> string list" where
  "split_blocks s =
     (if s = [] then [[]]
      else if separator s > 0 then [] # split_blocks (drop (separator s) s)
      else case split_blocks (tl s) of b # bs \<Rightarrow> (hd s # b) # bs | [] \<Rightarrow> [[hd s]])"
  by pat_completeness auto
termination by (relation "measure length") auto

declare split_blocks.simps [simp del]

text \<open>\<open>split(/\\r?\\n/u)\<close>: a carriage return right before a line end belongs to it.\<close>

definition drop_cr :: "string \<Rightarrow> string" where
  "drop_cr l = (if l \<noteq> [] \<and> last l = CHR 0x0D then butlast l else l)"

definition block_lines :: "string \<Rightarrow> string list" where
  "block_lines b = (let ls = split_char (CHR 0x0A) b in map drop_cr (butlast ls) @ [last ls])"

definition block_data :: "string \<Rightarrow> string" where
  "block_data b =
     trim (join_char (CHR 0x0A) (map (\<lambda>l. dropWhile is_ws (drop 5 l)) (filter (\<lambda>l. starts_with l ''data:'') (block_lines b))))"

text \<open>What a stream has produced: the texts handed to \<open>onText\<close>, the last usage and the open tool calls.\<close>

record streamed =
  st_texts :: "string list"
  st_usage :: "jsval option"
  st_pending :: pending_calls

definition note_text :: "string \<Rightarrow> string list \<Rightarrow> string list" where
  "note_text t ts = (if t = [] then ts else ts @ [t])"

definition text_total :: "string list \<Rightarrow> nat" where
  "text_total ts = byteLength (concat ts)"

text \<open>
  \<open>onText\<close> throws when the text so far is too long, after it was appended and before it is
  emitted; so the texts of a failed stream are those emitted.
\<close>

definition consumeEvent :: "string \<Rightarrow> streamed \<Rightarrow> streamed \<times> unit res" where
  "consumeEvent block s =
     (let d = block_data block
      in if d = [] \<or> d = ''[DONE]'' then (s, Inr ())
         else case parseProviderEvent d (st_pending s) of
           Inl e \<Rightarrow> (s, Inl e)
         | Inr (t, usage, pending) \<Rightarrow>
             let s1 = s\<lparr>st_pending := pending\<rparr>
             in if t \<noteq> [] \<and> text_total (st_texts s @ [t]) > MAX_PROVIDER_BODY_BYTES then (s1, Inl ''provider_text_oversize'')
                else (s1\<lparr>st_texts := note_text t (st_texts s),
                         st_usage := (case usage of Some u \<Rightarrow> Some u | None \<Rightarrow> st_usage s)\<rparr>, Inr ()))"

fun consume_all :: "string list \<Rightarrow> streamed \<Rightarrow> streamed \<times> unit res" where
  "consume_all [] s = (s, Inr ())"
| "consume_all (b # bs) s =
     (case consumeEvent b s of
        (s', Inl e) \<Rightarrow> (s', Inl e)
      | (s', Inr _) \<Rightarrow> consume_all bs s')"

fun stream_chunks :: "string option \<Rightarrow> nat \<Rightarrow> string \<Rightarrow> string list \<Rightarrow> streamed \<Rightarrow> streamed \<times> unit res" where
  "stream_chunks breaks observed buffer [] s =
     (case breaks of
        Some e \<Rightarrow> (s, Inl e)
      | None \<Rightarrow> if trim buffer \<noteq> [] then consumeEvent buffer s else (s, Inr ()))"
| "stream_chunks breaks observed buffer (c # cs) s =
     (if observed + byteLength c > MAX_PROVIDER_BODY_BYTES then (s, Inl ''provider_response_oversize'')
      else let blocks = split_blocks (buffer @ c)
           in case consume_all (butlast blocks) s of
                (s', Inl e) \<Rightarrow> (s', Inl e)
              | (s', Inr _) \<Rightarrow> stream_chunks breaks (observed + byteLength c) (last blocks) cs s')"

text \<open>What \<open>fetch\<close> settles with: the message it is rejected with, or an answer.\<close>

record answer =
  an_rejected :: "string option"
  an_status :: nat
  an_contentType :: string
  an_body :: "body_stream option"

definition streamed0 :: streamed where
  "streamed0 = \<lparr>st_texts = [], st_usage = None, st_pending = []\<rparr>"

definition stream_body :: "answer \<Rightarrow> streamed \<times> unit res" where
  "stream_body an =
     (if \<not> str_includes (to_lower (an_contentType an)) ''text/event-stream''
      then (case readLimitedJson MAX_PROVIDER_BODY_BYTES (an_body an) of
              Inl e \<Rightarrow> (streamed0, Inl e)
            | Inr raw \<Rightarrow>
                (case parseProviderEvent raw [] of
                   Inl e \<Rightarrow> (streamed0, Inl e)
                 | Inr (t, usage, pending) \<Rightarrow>
                     if t \<noteq> [] \<and> text_total [t] > MAX_PROVIDER_BODY_BYTES then (streamed0, Inl ''provider_text_oversize'')
                     else (\<lparr>st_texts = note_text t [], st_usage = usage, st_pending = pending\<rparr>, Inr ())))
      else case an_body an of
        None \<Rightarrow> (streamed0, Inl ''provider_response_body_missing'')
      | Some b \<Rightarrow> stream_chunks (bs_breaks b) 0 [] (bs_chunks b) streamed0)"

definition streamProviderResponse :: "answer \<Rightarrow> streamed \<times> tool_call list res" where
  "streamProviderResponse an =
     (case stream_body an of
        (s, Inl e) \<Rightarrow> (s, Inl e)
      | (s, Inr _) \<Rightarrow> (s, finalizeProviderToolCalls (st_pending s)))"

section \<open>Usage\<close>

definition usage_number :: "(rat \<Rightarrow> string) \<Rightarrow> jsval \<Rightarrow> rat option" where
  "usage_number fmt v = (case js_number fmt v of Fin q \<Rightarrow> if 0 \<le> q then Some q else None | _ \<Rightarrow> None)"

definition normalizeUsage :: "(rat \<Rightarrow> string) \<Rightarrow> jsval option \<Rightarrow> (rat option \<times> rat option) option" where
  "normalizeUsage fmt v =
     (case v of
        None \<Rightarrow> None
      | Some u \<Rightarrow>
          let i = usage_number fmt (nullish (field u ''prompt_tokens'') (field u ''input_tokens''));
              ou = usage_number fmt (nullish (field u ''completion_tokens'') (field u ''output_tokens''))
          in if i = None \<and> ou = None then None else Some (i, ou))"

definition or_zero :: "rat option \<Rightarrow> rat" where
  "or_zero x = (case x of Some q \<Rightarrow> q | None \<Rightarrow> 0)"

definition mergeUsage :: "(rat \<Rightarrow> string) \<Rightarrow> (rat \<times> rat) option \<Rightarrow> jsval option \<Rightarrow> (rat \<times> rat) option" where
  "mergeUsage fmt tot current =
     (case normalizeUsage fmt current of
        None \<Rightarrow> tot
      | Some (i, ou) \<Rightarrow> (case tot of None \<Rightarrow> Some (or_zero i, or_zero ou) | Some (a, b) \<Rightarrow> Some (a + or_zero i, b + or_zero ou)))"

section \<open>One request to the provider\<close>

definition content_start_event :: jsval where
  "content_start_event =
     Obj [(''type'', Str ''content_block_start''), (''index'', Num (Fin 0)), (''content_block'', Obj [(''type'', Str ''text''), (''text'', Str [])])]"

definition delta_event :: "string \<Rightarrow> jsval" where
  "delta_event t =
     Obj [(''type'', Str ''content_block_delta''), (''index'', Num (Fin 0)), (''delta'', Obj [(''type'', Str ''text_delta''), (''text'', Str t)])]"

definition content_stop_event :: jsval where
  "content_stop_event = Obj [(''type'', Str ''content_block_stop''), (''index'', Num (Fin 0))]"

definition timed_out :: "string \<Rightarrow> string \<Rightarrow> string" where
  "timed_out code_text e = (if e = ''AbortError'' then code_text else e)"

record provider_reply =
  pr_text :: string
  pr_usage :: "jsval option"
  pr_calls :: "tool_call list"

definition requestProviderOnce :: "answer \<Rightarrow> provider_reply out" where
  "requestProviderOnce an =
     (case an_rejected an of
        Some e \<Rightarrow> ([], Inl (timed_out ''provider_timeout'' e))
      | None \<Rightarrow>
          if 300 \<le> an_status an \<and> an_status an < 400 then ([], Inl ''provider_redirect_rejected'')
          else if \<not> (200 \<le> an_status an \<and> an_status an < 300) then ([], Inl (''provider_http_'' @ print_nat (an_status an)))
          else case streamProviderResponse an of
            (s, Inl e) \<Rightarrow> (content_start_event # map delta_event (st_texts s), Inl (timed_out ''provider_timeout'' e))
          | (s, Inr calls) \<Rightarrow>
              (content_start_event # map delta_event (st_texts s) @ [content_stop_event],
               Inr \<lparr>pr_text = concat (st_texts s), pr_usage = st_usage s, pr_calls = calls\<rparr>))"

section \<open>Managed tasks\<close>

definition control_path_ok :: "string \<Rightarrow> bool" where
  "control_path_ok p =
     (p = ''/v1/tasks'' \<or> starts_with p ''/v1/tasks/'' \<and> drop 10 p \<noteq> [] \<and> list_all (\<lambda>c. is_hex_lower c \<or> c = CHR ''-'') (drop 10 p))"

definition requestControlPlaneJson :: "string \<Rightarrow> answer \<Rightarrow> jsval res" where
  "requestControlPlaneJson path an =
     (if \<not> control_path_ok path then Inl ''invalid_control_plane_path''
      else case an_rejected an of
        Some e \<Rightarrow> Inl (timed_out ''control_plane_timeout'' e)
      | None \<Rightarrow>
          if 300 \<le> an_status an \<and> an_status an < 400 then Inl ''control_plane_redirect_rejected''
          else if \<not> (200 \<le> an_status an \<and> an_status an < 300) then Inl (''control_plane_http_'' @ print_nat (an_status an))
          else if \<not> str_includes (to_lower (an_contentType an)) ''application/json'' then Inl ''control_plane_response_not_json''
          else case readLimitedJson MAX_CONTROL_PLANE_BODY_BYTES (an_body an) of
            Inl e \<Rightarrow> Inl (timed_out ''control_plane_timeout'' e)
          | Inr raw \<Rightarrow>
              (case JSON_parse raw of
                 None \<Rightarrow> Inl ''Unexpected token in JSON''
               | Some (Obj kvs) \<Rightarrow> Inr (Obj kvs)
               | Some _ \<Rightarrow> Inl ''invalid_control_plane_response''))"

definition argv_item_ok :: "jsval \<Rightarrow> bool" where
  "argv_item_ok v = (case v of Str s \<Rightarrow> s \<noteq> [] \<and> length s \<le> 8192 \<and> CHR 0x00 \<notin> set s | _ \<Rightarrow> False)"

definition program_ok :: "string \<Rightarrow> bool" where
  "program_ok s = (1 \<le> length s \<and> length s \<le> 128 \<and> list_all (\<lambda>c. is_alnum c \<or> c \<in> set ''._-'') s)"

definition argv_texts :: "jsval \<Rightarrow> string list option" where
  "argv_texts v =
     (case v of
        Arr vs \<Rightarrow>
          if 1 \<le> length vs \<and> length vs \<le> 32 \<and> list_all argv_item_ok vs \<and> program_ok (text_of (hd vs)) then Some (map text_of vs) else None
      | _ \<Rightarrow> None)"

definition validateManagedTaskArgs :: "(rat \<Rightarrow> string) \<Rightarrow> jsval \<Rightarrow> (string list \<times> rat) res" where
  "validateManagedTaskArgs fmt v =
     (case v of
        Obj kvs \<Rightarrow>
          if list_ex (\<lambda>kv. fst kv \<notin> {''argv'', ''timeout_seconds''}) kvs then Inl ''managed_task_arguments_invalid''
          else (case argv_texts (field v ''argv'') of
                  None \<Rightarrow> Inl ''managed_task_argv_invalid''
                | Some argv \<Rightarrow>
                    if sum_list (map byteLength argv) > 64 * 1024 then Inl ''managed_task_argv_oversize''
                    else (case (if field v ''timeout_seconds'' = Undefined then Fin 60 else js_number fmt (field v ''timeout_seconds'')) of
                            Fin q \<Rightarrow> if q < 1 \<or> q > 300 then Inl ''managed_task_timeout_invalid'' else Inr (argv, q)
                          | _ \<Rightarrow> Inl ''managed_task_timeout_invalid''))
      | _ \<Rightarrow> Inl ''managed_task_arguments_invalid'')"

definition MANAGED_TASK_TERMINAL :: "string list" where
  "MANAGED_TASK_TERMINAL = [''success'', ''failed'', ''error'', ''cancelled'']"

definition MANAGED_TASK_STATUS :: "string list" where
  "MANAGED_TASK_STATUS = [''pending'', ''running''] @ MANAGED_TASK_TERMINAL"

definition task_id_ok :: "string \<Rightarrow> bool" where
  "task_id_ok s =
     (case split_char (CHR ''-'') s of
        [a, b, c, d, e] \<Rightarrow>
          list_all (list_all is_hex_lower) [a, b, c, d, e] \<and> map length [a, b, c, d, e] = [8, 4, 4, 4, 12]
          \<and> hd c \<in> set ''12345'' \<and> hd d \<in> set ''89ab''
      | _ \<Rightarrow> False)"

definition object_or_empty :: "jsval \<Rightarrow> jsval" where
  "object_or_empty v = (if truthy v \<and> is_object v then v else Obj [])"

definition is_integer_value :: "jsval \<Rightarrow> bool" where
  "is_integer_value v = (case v of Num n \<Rightarrow> as_integer n \<noteq> None | _ \<Rightarrow> False)"

definition task_result :: "string \<Rightarrow> string \<Rightarrow> jsval \<Rightarrow> jsval" where
  "task_result taskId status task =
     (let output = object_or_empty (field (object_or_empty (field task ''result'')) ''output'')
      in Obj [(''task_id'', Str taskId), (''status'', Str status),
              (''exit_code'', if is_integer_value (field output ''exit_code'') then field output ''exit_code'' else Null),
              (''stdout'', Str (take (64 * 1024) (text_of (field output ''stdout'')))),
              (''stderr'', Str (take (64 * 1024) (text_of (field output ''stderr''))))])"

definition task_timeout :: "string \<Rightarrow> jsval" where
  "task_timeout taskId =
     Obj [(''task_id'', Str taskId), (''status'', Str ''timeout''), (''exit_code'', Null), (''stdout'', Str []), (''stderr'', Str [])]"

text \<open>
  The iterations of the polling loop: the clock at the test of the deadline and the answer to the
  request.  When the sequence ends the deadline has passed.
\<close>

fun poll_task :: "(rat \<Rightarrow> string) \<Rightarrow> string \<Rightarrow> nat \<Rightarrow> (nat \<times> answer) list \<Rightarrow> jsval res" where
  "poll_task fmt taskId deadline [] = Inr (task_timeout taskId)"
| "poll_task fmt taskId deadline ((now, an) # polls) =
     (if \<not> now < deadline then Inr (task_timeout taskId)
      else bind_res (requestControlPlaneJson (''/v1/tasks/'' @ taskId) an) (\<lambda>task.
        let status = js_text fmt (nullish (field task ''status'') (Str []))
        in if status \<notin> set MANAGED_TASK_STATUS then Inl ''invalid_control_plane_task_status''
           else if status \<in> set MANAGED_TASK_TERMINAL then Inr (task_result taskId status task)
           else poll_task fmt taskId deadline polls))"

record control_run =
  cr_created :: answer
  cr_clock :: nat
  cr_polls :: "(nat \<times> answer) list"

definition idempotency_key :: "(string \<Rightarrow> string) \<Rightarrow> (rat \<Rightarrow> string) \<Rightarrow> string \<Rightarrow> string \<Rightarrow> string \<Rightarrow> string list \<Rightarrow> rat \<Rightarrow> string" where
  "idempotency_key sha256 fmt sessionId turnIdentity toolCallId argv timeoutSeconds =
     ''awp-reference-agent:'' @ sha256 (sessionId @ [CHR 0x00] @ turnIdentity @ [CHR 0x00] @ toolCallId @ [CHR 0x00]
        @ CHR ''{'' # quote_string ''argv'' @ '':'' @ JSON_stringify (Arr (map Str argv)) @ '','' @ quote_string ''timeout_seconds'' @ '':'' @ fmt timeoutSeconds @ ''}'')"

definition created_task_id :: "(rat \<Rightarrow> string) \<Rightarrow> jsval \<Rightarrow> string" where
  "created_task_id fmt created = js_text fmt (nullish (field created ''id'') (Str []))"

text \<open>\<open>Math.round(timeoutSeconds * 1000)\<close>\<close>

definition deadline_of :: "nat \<Rightarrow> rat \<Rightarrow> nat" where
  "deadline_of now timeoutSeconds = now + nat \<lfloor>timeoutSeconds * 1000 + 1 / 2\<rfloor>"

record turn_env =
  te_fmt :: "rat \<Rightarrow> string"
  te_sha256 :: "string \<Rightarrow> string"
  te_provider :: "nat \<Rightarrow> jsval list \<Rightarrow> answer"
  te_control :: "string \<Rightarrow> string list \<Rightarrow> control_run"
  te_managed :: "managed_config option"
  te_session :: string

definition runManagedTask :: "turn_env \<Rightarrow> jsval \<Rightarrow> string \<Rightarrow> string \<Rightarrow> jsval res" where
  "runManagedTask te rawArgs turnIdentity toolCallId =
     bind_res (validateManagedTaskArgs (te_fmt te) rawArgs) (\<lambda>(argv, timeoutSeconds).
       let run = te_control te (idempotency_key (te_sha256 te) (te_fmt te) (te_session te) turnIdentity toolCallId argv timeoutSeconds) argv
       in bind_res (requestControlPlaneJson ''/v1/tasks'' (cr_created run)) (\<lambda>created.
            let taskId = created_task_id (te_fmt te) created
            in if \<not> task_id_ok taskId then Inl ''invalid_control_plane_task_id''
               else poll_task (te_fmt te) taskId (deadline_of (cr_clock run) timeoutSeconds) (cr_polls run)))"

section \<open>A turn\<close>

definition call_json :: "tool_call \<Rightarrow> jsval" where
  "call_json c =
     Obj [(''id'', Str (tc_id c)), (''type'', Str ''function''),
          (''function'', Obj [(''name'', Str (tc_name c)), (''arguments'', Str (tc_arguments c))])]"

definition tool_use_block :: "tool_call \<Rightarrow> jsval" where
  "tool_use_block c = Obj [(''type'', Str ''tool_use''), (''id'', Str (tc_id c)), (''name'', Str (tc_name c)), (''input'', tc_input c)]"

definition tool_use_event :: "string \<Rightarrow> tool_call list \<Rightarrow> jsval" where
  "tool_use_event sessionId calls =
     Obj [(''type'', Str ''assistant''), (''message'', Obj [(''role'', Str ''assistant''), (''content'', Arr (map tool_use_block calls))]),
          (''session_id'', Str sessionId)]"

definition assistant_request :: "string \<Rightarrow> tool_call list \<Rightarrow> jsval" where
  "assistant_request t calls =
     Obj [(''role'', Str ''assistant''), (''content'', if t \<noteq> [] then Str t else Null), (''tool_calls'', Arr (map call_json calls))]"

definition tool_result :: "turn_env \<Rightarrow> string \<Rightarrow> tool_call \<Rightarrow> jsval" where
  "tool_result te turnIdentity c =
     (if tc_name c \<noteq> ''awp_run_managed_task'' then Obj [(''error'', Str ''unknown_managed_tool'')]
      else case runManagedTask te (tc_input c) turnIdentity (tc_id c) of
        Inl e \<Rightarrow> Obj [(''error'', Str (publicError e))]
      | Inr v \<Rightarrow> v)"

definition tool_message :: "turn_env \<Rightarrow> string \<Rightarrow> tool_call \<Rightarrow> jsval" where
  "tool_message te turnIdentity c =
     Obj [(''role'', Str ''tool''), (''tool_call_id'', Str (tc_id c)), (''name'', Str (tc_name c)),
          (''content'', Str (JSON_stringify (tool_result te turnIdentity c)))]"

type_synonym turn_usage = "(rat \<times> rat) option"

fun turn_rounds :: "nat \<Rightarrow> turn_env \<Rightarrow> string \<Rightarrow> nat \<Rightarrow> nat \<Rightarrow> turn_usage \<Rightarrow> jsval list \<Rightarrow> (string \<times> turn_usage) out" where
  "turn_rounds 0 te turnIdentity rnd managedToolCalls usage msgs = ([], Inl ''managed_tool_round_limit'')"
| "turn_rounds (Suc k) te turnIdentity rnd managedToolCalls usage msgs =
     bind_out (requestProviderOnce (te_provider te rnd msgs)) (\<lambda>r.
       let usage' = mergeUsage (te_fmt te) usage (pr_usage r); calls = managedToolCalls + length (pr_calls r)
       in if pr_calls r = []
          then (if pr_text r = [] then ([], Inl ''provider_returned_empty_text'') else ([], Inr (pr_text r, usage')))
          else if te_managed te = None then ([], Inl ''provider_requested_unavailable_tool'')
          else if calls > MAX_MANAGED_TOOL_CALLS_PER_TURN then ([], Inl ''managed_tool_call_limit'')
          else bind_out (emit (tool_use_event (te_session te) (pr_calls r))) (\<lambda>_.
                 turn_rounds k te turnIdentity (Suc rnd) calls usage'
                   (msgs @ [assistant_request (pr_text r) (pr_calls r)] @ map (tool_message te turnIdentity) (pr_calls r))))"

definition completeTurn :: "turn_env \<Rightarrow> jsval list \<Rightarrow> (string \<times> turn_usage) out" where
  "completeTurn te msgs = turn_rounds 4 te (te_sha256 te (JSON_stringify (Arr msgs))) 0 0 None msgs"

section \<open>The process\<close>

record cli_config =
  cf_model :: string
  cf_endpoint :: url
  cf_apiToken :: string
  cf_managed :: "managed_config option"
  cf_timeoutMs :: nat
  cf_systemPrompt :: string

text \<open>The state directory is vetted in between; \<open>found\<close> is what it holds for the session to resume.\<close>

definition startup ::
    "runtime \<Rightarrow> cli_env \<Rightarrow> string list \<Rightarrow> string \<Rightarrow> unit res \<Rightarrow> (string \<Rightarrow> (file_metadata \<times> file_metadata \<times> string list) option)
     \<Rightarrow> (cli_config \<times> cli_session) res" where
  "startup rt env argv uuid directory found =
     bind_res (parseArgs argv) (\<lambda>args.
       let model = (if ca_model args \<noteq> [] then ca_model args else trim (env_or env ''AWP_REFERENCE_MODEL'' []));
           token = env_or env ''AWP_REFERENCE_API_TOKEN'' []; prompt = trim (env_or env ''AWP_REFERENCE_SYSTEM_PROMPT'' [])
       in if model = [] \<or> length model > 256 \<or> list_ex is_control model then Inl ''model_required''
          else bind_res (chatCompletionsUrl rt env) (\<lambda>endpoint.
            if token \<noteq> [] \<and> \<not> plain_token token then Inl ''invalid_api_token''
            else bind_res (managedTaskConfig rt env) (\<lambda>managed.
                 bind_res (boundedInteger env ''AWP_REFERENCE_TIMEOUT_MS'' 120000 1000 600000) (\<lambda>timeoutMs.
                 bind_res directory (\<lambda>_.
                 bind_res (loadSession uuid (ca_resume args) (found (ca_resume args))) (\<lambda>session.
                   if byteLength prompt > 256 * 1024 \<or> CHR 0x00 \<in> set prompt then Inl ''invalid_system_prompt''
                   else Inr (\<lparr>cf_model = model, cf_endpoint = endpoint, cf_apiToken = token, cf_managed = managed, cf_timeoutMs = timeoutMs,
                              cf_systemPrompt = prompt\<rparr>, session)))))))"

definition startup_error_event :: "string \<Rightarrow> jsval" where
  "startup_error_event e =
     Obj [(''type'', Str ''result''), (''subtype'', Str ''startup_error''), (''is_error'', Bool True), (''result'', Str (publicError e))]"

definition init_event :: "cli_config \<Rightarrow> string \<Rightarrow> string \<Rightarrow> jsval" where
  "init_event cf cwd sessionId =
     Obj [(''type'', Str ''system''), (''subtype'', Str ''init''), (''session_id'', Str sessionId), (''model'', Str (cf_model cf)), (''cwd'', Str cwd),
          (''tools'', Arr (if cf_managed cf = None then [] else [Str ''awp_run_managed_task'']))]"

definition usage_json :: "rat \<times> rat \<Rightarrow> jsval" where
  "usage_json u = Obj [(''input_tokens'', Num (Fin (fst u))), (''output_tokens'', Num (Fin (snd u)))]"

definition success_event :: "string \<Rightarrow> string \<Rightarrow> turn_usage \<Rightarrow> jsval" where
  "success_event sessionId t usage =
     Obj ([(''type'', Str ''result''), (''subtype'', Str ''success''), (''is_error'', Bool False), (''session_id'', Str sessionId), (''result'', Str t)]
          @ (case usage of Some u \<Rightarrow> [(''usage'', usage_json u)] | None \<Rightarrow> []))"

definition error_event :: "string \<Rightarrow> string \<Rightarrow> jsval" where
  "error_event sessionId e =
     Obj [(''type'', Str ''result''), (''subtype'', Str ''error''), (''is_error'', Bool True), (''session_id'', Str sessionId), (''result'', Str (publicError e))]"

record cli_state =
  cl_session :: cli_session
  cl_initialized :: bool
  cl_file :: "string option"

definition system_messages :: "cli_config \<Rightarrow> jsval list" where
  "system_messages cf =
     (if cf_systemPrompt cf \<noteq> [] then [Obj [(''role'', Str ''system''), (''content'', Str (cf_systemPrompt cf))]] else [])"

definition assistant_message :: "string \<Rightarrow> jsval" where
  "assistant_message t = Obj [(''role'', Str ''assistant''), (''content'', Str t)]"

definition add_exchange :: "jsval \<Rightarrow> string \<Rightarrow> cli_session \<Rightarrow> cli_session" where
  "add_exchange userMessage t s = s\<lparr>cs_messages := last_messages (cs_messages s @ [userMessage, assistant_message t])\<rparr>"

text \<open>One input line that is neither blank nor a shutdown; \<open>write_error\<close> is the error of the file operations of the save, if any.\<close>

definition handle_line ::
    "cli_config \<Rightarrow> turn_env \<Rightarrow> string \<Rightarrow> file_metadata option \<Rightarrow> string option \<Rightarrow> string \<Rightarrow> cli_state \<Rightarrow> jsval list \<times> cli_state" where
  "handle_line cf te cwd existing write_error line st =
     (let sid = cs_id (cl_session st)
      in case userMessageFromLine line of
           Inl e \<Rightarrow> ([error_event sid e], st)
         | Inr um \<Rightarrow>
             let inits = (if cl_initialized st then [] else [init_event cf cwd sid]); st1 = st\<lparr>cl_initialized := True\<rparr>;
                 turn = completeTurn te (system_messages cf @ cs_messages (cl_session st) @ [um])
             in case snd turn of
                  Inl e \<Rightarrow> (inits @ fst turn @ [error_event sid e], st1)
                | Inr (t, usage) \<Rightarrow>
                    let st2 = st1\<lparr>cl_session := add_exchange um t (cl_session st)\<rparr>
                    in case bind_res (saveSession existing (cl_session st2)) (\<lambda>payload. case write_error of Some e \<Rightarrow> Inl e | None \<Rightarrow> Inr payload) of
                         Inl e \<Rightarrow> (inits @ fst turn @ [error_event sid e], st2)
                       | Inr payload \<Rightarrow> (inits @ fst turn @ [success_event sid t usage], st2\<lparr>cl_file := Some payload\<rparr>))"

record line_world =
  lw_env :: turn_env
  lw_existing :: "file_metadata option"
  lw_write_error :: "string option"

fun run_lines :: "cli_config \<Rightarrow> string \<Rightarrow> (string \<times> line_world) list \<Rightarrow> cli_state \<Rightarrow> jsval list \<times> cli_state" where
  "run_lines cf cwd [] st = ([], st)"
| "run_lines cf cwd ((raw, lw) # rest) st =
     (let line = trim raw
      in if line = [] then run_lines cf cwd rest st
         else if isShutdownLine line then ([], st)
         else let (evs, st1) = handle_line cf (lw_env lw) cwd (lw_existing lw) (lw_write_error lw) line st;
                  (evs2, st2) = run_lines cf cwd rest st1
              in (evs @ evs2, st2))"

text \<open>\<open>emit\<close>: the bytes on standard output.\<close>

definition stdout_text :: "jsval list \<Rightarrow> string" where
  "stdout_text evs = concat (map (\<lambda>ev. JSON_stringify ev @ [CHR 0x0A]) evs)"

end
