(* ===== verification/AgentProps.thy ===== *)
theory AgentProps
  imports AgentTurn
begin

text \<open>
  What the reference Agent CLI promises: the provider's stream is read the same however it is
  cut, requests go to the machine itself unless the user opted in, tool calls are bounded and
  announced, a saved session is resumed exactly, and the desktop parser sees every turn end
  exactly once.
\<close>

section \<open>Blocks of the provider stream\<close>

lemma split_blocks_Nil: "split_blocks [] = [[]]"
  by (subst split_blocks.simps) simp

lemma split_blocks_sep: "separator (c # s) > 0 \<Longrightarrow> split_blocks (c # s) = [] # split_blocks (drop (separator (c # s)) (c # s))"
  by (subst split_blocks.simps) (simp only: list.distinct if_False if_True)

lemma split_blocks_char:
  "separator (c # s) = 0 \<Longrightarrow> split_blocks (c # s) = (case split_blocks s of b # bs \<Rightarrow> (c # b) # bs | [] \<Rightarrow> [[c]])"
  by (subst split_blocks.simps) (simp split: list.split)

lemmas split_blocks_rec = split_blocks_Nil split_blocks_sep split_blocks_char

lemma split_blocks_ne [simp]: "split_blocks s \<noteq> []"
proof (cases s)
  case (Cons c r)
  then show ?thesis by (cases "separator (c # r) > 0") (simp_all add: split_blocks_rec split: list.split)
qed (simp add: split_blocks_rec)

lemma separator_cases:
  "separator s > 0 \<Longrightarrow> separator (s @ t) = separator s \<and> separator s \<le> length s"
  by (cases s; cases "tl s"; cases "tl (tl s)"; cases "tl (tl (tl s))") (auto simp: separator_def split: if_splits)

lemma split_blocks_single: "split_blocks s = [b] \<Longrightarrow> b = s"
proof (induction s arbitrary: b)
  case (Cons c s)
  then show ?case by (cases "separator (c # s) > 0") (auto simp: split_blocks_rec split: list.splits)
qed (simp add: split_blocks_rec)

text \<open>A text that becomes a separator only with what follows it is one block.\<close>

lemma separator_grows:
  assumes "separator (s @ t) > 0" "separator s = 0" "s \<noteq> []"
  shows "split_blocks s = [s]"
proof -
  have "s \<in> {[CHR 0x0D], [CHR 0x0D, CHR 0x0A], [CHR 0x0D, CHR 0x0A, CHR 0x0D], [CHR 0x0A], [CHR 0x0A, CHR 0x0D]}"
    using assms by (cases s; cases "tl s"; cases "tl (tl s)"; cases "tl (tl (tl s))") (auto simp: separator_def split: if_splits)
  moreover have "split_blocks [CHR 0x0D] = [[CHR 0x0D]]" "split_blocks [CHR 0x0D, CHR 0x0A] = [[CHR 0x0D, CHR 0x0A]]"
      "split_blocks [CHR 0x0D, CHR 0x0A, CHR 0x0D] = [[CHR 0x0D, CHR 0x0A, CHR 0x0D]]" "split_blocks [CHR 0x0A] = [[CHR 0x0A]]"
      "split_blocks [CHR 0x0A, CHR 0x0D] = [[CHR 0x0A, CHR 0x0D]]"
    by code_simp+
  ultimately show ?thesis by blast
qed

lemma split_blocks_append: "split_blocks (s @ t) = butlast (split_blocks s) @ split_blocks (last (split_blocks s) @ t)"
proof (induction s rule: split_blocks.induct)
  case (1 s)
  show ?case
  proof (cases "s = []")
    case True
    then show ?thesis by (simp add: split_blocks_rec(1))
  next
    case ne: False
    then obtain c r where s: "s = c # r" by (cases s) auto
    show ?thesis
    proof (cases "separator s > 0")
      case True
      note k = separator_cases [OF True, of t]
      have "split_blocks (s @ t) = [] # split_blocks (drop (separator s) s @ t)"
        using k True s split_blocks_rec(2) [of c "r @ t"] drop_append [of "separator s" s t] by simp
      moreover have "split_blocks s = [] # split_blocks (drop (separator s) s)" using True s by (simp add: split_blocks_rec(2))
      ultimately show ?thesis using 1(1) [OF ne True] by simp
    next
      case no: False
      show ?thesis
      proof (cases "separator (s @ t) > 0")
        case True
        then show ?thesis using separator_grows [OF True _ ne] no by simp
      next
        case False
        obtain b bs where b: "split_blocks r = b # bs" by (cases "split_blocks r") auto
        have "split_blocks (r @ t) = butlast (split_blocks r) @ split_blocks (last (split_blocks r) @ t)"
          using 1(2) [OF ne no] s by simp
        moreover have "bs = [] \<Longrightarrow> b = r" using split_blocks_single [of r b] b by simp
        ultimately show ?thesis using b s no False by (cases bs) (simp_all add: split_blocks_rec(3) split: list.split)
      qed
    qed
  qed
qed

lemma consume_all_append:
  "consume_all (xs @ ys) s = (case consume_all xs s of (s', Inl e) \<Rightarrow> (s', Inl e) | (s', Inr _) \<Rightarrow> consume_all ys s')"
  by (induction xs arbitrary: s) (auto split: prod.splits sum.splits)

lemma stream_chunks_join:
  assumes "observed + byteLength (a @ b) \<le> MAX_PROVIDER_BODY_BYTES"
  shows "stream_chunks brk observed buf (a # b # cs) s = stream_chunks brk observed buf ((a @ b) # cs) s"
proof -
  let ?A = "split_blocks (buf @ a)"
  have sp: "split_blocks (buf @ a @ b) = butlast ?A @ split_blocks (last ?A @ b)" using split_blocks_append [of "buf @ a" b] by simp
  show ?thesis using assms
    by (auto simp: sp butlast_append consume_all_append Let_def add.assoc split: prod.splits sum.splits)
qed

lemma last_split_blocks: "split_blocks (last (split_blocks s)) = [last (split_blocks s)]"
  using split_blocks_append [of s "[]"] by (metis append_Nil2 append_butlast_last_id same_append_eq split_blocks_ne)

lemma stream_chunks_empty:
  "split_blocks buf = [buf] \<Longrightarrow> observed \<le> MAX_PROVIDER_BODY_BYTES \<Longrightarrow> stream_chunks brk observed buf ([] # cs) s = stream_chunks brk observed buf cs s"
  by (simp add: byteLength_def)


section \<open>Where requests go\<close>

lemma completions_path: "ends_with (strip_slashes (one_leading_slash (p @ ''/chat/completions''))) ''/chat/completions''"
proof -
  let ?X = "''/chat/completions''" and ?sl = "\<lambda>c. c = CHR ''/''"
  have all: "dropWhile ?sl (p @ ?X) = ''chat/completions''" if "\<forall>c\<in>set p. ?sl c" using that by (simp add: dropWhile_append)
  have some: "dropWhile ?sl (p @ ?X) = dropWhile ?sl p @ ?X" if "\<not> (\<forall>c\<in>set p. ?sl c)" using that by (simp add: dropWhile_append)
  have "\<exists>q. one_leading_slash (p @ ?X) = q @ ?X"
  proof (cases "starts_with (p @ ?X) ''/''")
    case True
    then have "one_leading_slash (p @ ?X) = CHR ''/'' # dropWhile ?sl (p @ ?X)" by (simp add: one_leading_slash_def)
    then have "one_leading_slash (p @ ?X) = (if \<forall>c\<in>set p. ?sl c then [] else CHR ''/'' # dropWhile ?sl p) @ ?X"
      using all some by (cases "\<forall>c\<in>set p. ?sl c") simp_all
    then show ?thesis by blast
  qed (simp add: one_leading_slash_def)
  then obtain q where "one_leading_slash (p @ ?X) = q @ ?X" ..
  then show ?thesis by (simp add: strip_slashes_def ends_with_def)
qed

text \<open>
  The provider's endpoint: a URL without credentials, query or fragment whose path ends in
  \<open>/chat/completions\<close>, on this machine, or over HTTPS after the explicit opt-in.
\<close>

theorem endpoint_confined:
  assumes "chatCompletionsUrl rt env = Inr u"
  shows "url_username u = [] \<and> url_password u = [] \<and> url_search u = [] \<and> url_hash u = []
    \<and> (isLoopbackHostname (url_hostname u) \<and> url_protocol u \<in> {''http:'', ''https:''}
       \<or> url_protocol u = ''https:'' \<and> env ''AWP_REFERENCE_REMOTE_API_OPT_IN'' = Some ''1'')
    \<and> ends_with (strip_slashes (url_pathname u)) ''/chat/completions''"
proof -
  obtain v where v: "new_URL rt (trim (env_or env ''AWP_REFERENCE_API_BASE_URL'' ''http://127.0.0.1:11434/v1'')) = Some v"
    using assms by (auto simp: chatCompletionsUrl_def split: option.splits)
  let ?p = "strip_slashes (url_pathname v)"
  have u: "u = (if ends_with ?p ''/chat/completions'' then v else v\<lparr>url_pathname := one_leading_slash (?p @ ''/chat/completions'')\<rparr>)"
    using assms v by (auto simp: chatCompletionsUrl_def Let_def split: if_splits)
  show ?thesis using assms v u completions_path [of ?p] by (auto simp: chatCompletionsUrl_def split: if_splits)
qed

section \<open>Tool calls\<close>

text \<open>How many tool calls the events announce: every call is announced before it runs.\<close>

definition announced :: "jsval list \<Rightarrow> nat" where
  "announced evs = sum_list (map (\<lambda>ev. if field ev ''type'' = Str ''assistant'' then length (array_or_empty (field (field ev ''message'') ''content'')) else 0) evs)"

lemma announced_Nil [simp]: "announced [] = 0"
  by (simp add: announced_def)

lemma announced_append [simp]: "announced (a @ b) = announced a + announced b"
  by (simp add: announced_def)

lemma announced_provider: "announced (fst (requestProviderOnce an)) = 0"
proof -
  have "announced (map delta_event ts) = 0" for ts by (induction ts) (simp_all add: announced_def delta_event_def)
  then have "announced (content_start_event # map delta_event ts) = 0" for ts
    using announced_append [of "[content_start_event]" "map delta_event ts"] by (simp add: announced_def content_start_event_def)
  moreover have "announced (content_start_event # map delta_event ts @ [content_stop_event]) = 0" for ts
    using announced_append [of "content_start_event # map delta_event ts" "[content_stop_event]"] calculation [of ts]
    by (simp add: announced_def content_stop_event_def)
  ultimately show ?thesis by (auto simp: requestProviderOnce_def split: option.splits prod.splits sum.splits)
qed

lemma announced_event: "announced (tool_use_event i calls # evs) = length calls + announced evs"
  by (simp add: announced_def tool_use_event_def array_or_empty_def)

lemma turn_rounds_announced:
  assumes "n \<le> MAX_MANAGED_TOOL_CALLS_PER_TURN"
  shows "n + announced (fst (turn_rounds k te ti rnd n usage msgs)) \<le> MAX_MANAGED_TOOL_CALLS_PER_TURN
    \<and> (te_managed te = None \<longrightarrow> announced (fst (turn_rounds k te ti rnd n usage msgs)) = 0)"
  using assms
proof (induction k te ti rnd n usage msgs rule: turn_rounds.induct)
  case (2 k te ti rnd n usage msgs)
  note IH = "2.IH"
  show ?case
  proof (cases "snd (requestProviderOnce (te_provider te rnd msgs))")
    case (Inl e)
    then show ?thesis using 2(2) announced_provider by (simp add: bind_out_def)
  next
    case (Inr r)
    have z: "announced (fst (requestProviderOnce (te_provider te rnd msgs))) = 0" by (rule announced_provider)
    show ?thesis
    proof (cases "pr_calls r = [] \<or> te_managed te = None \<or> n + length (pr_calls r) > MAX_MANAGED_TOOL_CALLS_PER_TURN")
      case True
      then show ?thesis using Inr z 2(2) by (auto simp: bind_out_def Let_def)
    next
      case False
      from IH [OF refl refl, of r] Inr z False show ?thesis by (auto simp: bind_out_def emit_def Let_def announced_event)
    qed
  qed
qed simp

text \<open>
  A turn announces at most four tool calls over all its rounds, and none unless managed tasks were
  configured; a call runs only after it was announced.
\<close>

theorem tool_calls_bounded:
  "announced (fst (completeTurn te msgs)) \<le> (if te_managed te = None then 0 else 4)"
  using turn_rounds_announced [of 0 4 te "te_sha256 te (JSON_stringify (Arr msgs))" 0 None msgs]
  by (simp add: completeTurn_def MAX_MANAGED_TOOL_CALLS_PER_TURN_def)

section \<open>Sessions\<close>

definition stored_ok :: "jsval \<Rightarrow> bool" where
  "stored_ok m = (stored_message m = Inr m \<and> wf_json m)"

definition session_ok :: "cli_session \<Rightarrow> bool" where
  "session_ok s = (length (cs_messages s) \<le> MAX_MESSAGES \<and> list_all stored_ok (cs_messages s))"

lemma textFromInputBlock_wf: "textFromInputBlock b = Some i \<Longrightarrow> wf_json i"
  by (auto simp: textFromInputBlock_def split: if_splits jsval.splits)

lemma map_filter_wf: "list_all wf_json (List.map_filter textFromInputBlock bs)"
  by (induction bs) (auto simp: map_filter_simps textFromInputBlock_wf split: option.splits)

lemma stored_ok_user: "(\<exists>s. c = Str s) \<or> (\<exists>vs. c = Arr vs \<and> list_all wf_json vs) \<Longrightarrow> stored_ok (user_message c)"
  by (auto simp: stored_ok_def user_message_def stored_message_def)

lemma user_message_stored: "userMessageFromLine line = Inr um \<Longrightarrow> stored_ok um"
  using map_filter_wf
  by (auto simp: userMessageFromLine_def user_content_def Let_def intro!: stored_ok_user split: if_splits option.splits jsval.splits)

lemma stored_ok_assistant: "stored_ok (assistant_message t)"
  by (simp add: stored_ok_def assistant_message_def stored_message_def)

lemma last_messages_ok:
  "length (last_messages ms) \<le> MAX_MESSAGES" "list_all P ms \<Longrightarrow> list_all P (last_messages ms)"
  "length ms \<le> MAX_MESSAGES \<Longrightarrow> last_messages ms = ms"
  by (auto simp: last_messages_def list_all_iff dest: in_set_dropD)

lemma session_ok_add: "session_ok s \<Longrightarrow> stored_ok um \<Longrightarrow> session_ok (add_exchange um t s)"
  by (simp add: session_ok_def add_exchange_def last_messages_ok stored_ok_assistant)

lemma map_res_same: "list_all (\<lambda>x. f x = Inr x) xs \<Longrightarrow> map_res f xs = Inr xs"
  by (induction xs) auto

lemma session_document_read:
  assumes "session_ok s"
  shows "session_of_document (cs_id s) (JSON_stringify (session_document s)) = Inr s"
proof -
  have ms: "last_messages (cs_messages s) = cs_messages s" using assms by (simp add: session_ok_def last_messages_ok)
  have "wf_json (session_document s)" using assms by (auto simp: session_document_def ms session_ok_def stored_ok_def list_all_iff)
  from JSON_parse_stringify [OF this, of "[]"] have p: "JSON_parse (JSON_stringify (session_document s)) = Some (session_document s)"
    by (simp add: skip_ws_def ends_number_def del: JSON_stringify.simps)
  have "map_res stored_message (cs_messages s) = Inr (cs_messages s)"
    using assms by (intro map_res_same) (auto simp: session_ok_def stored_ok_def list_all_iff)
  moreover have "length (cs_messages s) \<le> MAX_MESSAGES" using assms by (simp add: session_ok_def)
  ultimately show ?thesis
    by (simp add: session_of_document_def p) (simp add: session_document_def validateStoredMessages_def ms)
qed

definition succeeded :: "jsval \<Rightarrow> bool" where
  "succeeded ev = (field ev ''subtype'' = Str ''success'')"

lemma result_events [simp]: "\<not> succeeded (error_event i e)" "succeeded (success_event i t u)"
  by (simp_all add: succeeded_def error_event_def success_event_def)

lemma handle_line_session:
  assumes "handle_line cf te cwd ex we line st = (evs, st')" "session_ok (cl_session st)"
  shows "session_ok (cl_session st') \<and> cs_id (cl_session st') = cs_id (cl_session st) \<and> evs \<noteq> []
    \<and> (succeeded (last evs) \<longrightarrow> (\<exists>p. cl_file st' = Some p \<and> session_of_document (cs_id (cl_session st)) p = Inr (cl_session st')))"
proof (cases "userMessageFromLine line")
  case (Inl e)
  with assms show ?thesis by (auto simp: handle_line_def Let_def)
next
  case (Inr um)
  let ?turn = "completeTurn te (system_messages cf @ cs_messages (cl_session st) @ [um])"
  show ?thesis
  proof (cases "snd ?turn")
    case (Inl e)
    with Inr assms show ?thesis by (auto simp: handle_line_def Let_def)
  next
    case turn: (Inr tu)
    obtain reply usage where tu: "tu = (reply, usage)" by fastforce
    let ?s = "add_exchange um reply (cl_session st)"
    have ok: "session_ok ?s" by (rule session_ok_add [OF assms(2) user_message_stored [OF Inr]])
    have i: "cs_id ?s = cs_id (cl_session st)" by (simp add: add_exchange_def)
    from Inr turn tu assms ok i session_document_read [OF ok] show ?thesis
      by (auto simp: handle_line_def Let_def saveSession_def bind_res_Inr split: sum.splits option.splits if_splits)
  qed
qed

text \<open>
  C35. A session is resumed as it was left: when the last event of a run, over any input lines and answers,
  reports success, the session file holds a document that loads to exactly the conversation in memory,
  at most a hundred messages.
\<close>

theorem session_resumes:
  assumes "run_lines cf cwd lines st = (evs, st')" "session_ok (cl_session st)" "evs \<noteq> []" "succeeded (last evs)"
  shows "\<exists>p. cl_file st' = Some p \<and> session_of_document (cs_id (cl_session st)) p = Inr (cl_session st') \<and> length (cs_messages (cl_session st')) \<le> 100"
proof -
  have "session_ok (cl_session st') \<and> cs_id (cl_session st') = cs_id (cl_session st) \<and> (evs = [] \<longrightarrow> st' = st)
    \<and> (evs \<noteq> [] \<longrightarrow> succeeded (last evs) \<longrightarrow> (\<exists>p. cl_file st' = Some p \<and> session_of_document (cs_id (cl_session st)) p = Inr (cl_session st')))"
    using assms(1,2)
  proof (induction cf cwd lines st arbitrary: evs st' rule: run_lines.induct)
    case (2 cf cwd raw lw rest st)
    consider "trim raw = []" | "trim raw \<noteq> []" "isShutdownLine (trim raw)" | "trim raw \<noteq> []" "\<not> isShutdownLine (trim raw)" by blast
    then show ?case
    proof cases
      case 1
      with "2.prems"(1) have "run_lines cf cwd rest st = (evs, st')" by simp
      from "2.IH"(1) [OF refl 1 this "2.prems"(2)] show ?thesis .
    next
      case 2
      with "2.prems" show ?thesis by simp
    next
      case 3
      obtain e1 st1 e2 st2 where h: "handle_line cf (lw_env lw) cwd (lw_existing lw) (lw_write_error lw) (trim raw) st = (e1, st1)"
          and r: "run_lines cf cwd rest st1 = (e2, st2)" by fastforce
      have ev: "evs = e1 @ e2" "st' = st2" using "2.prems"(1) 3 h r by (auto simp: Let_def)
      note s1 = handle_line_session [OF h "2.prems"(2)]
      have ih: "session_ok (cl_session st2) \<and> cs_id (cl_session st2) = cs_id (cl_session st1) \<and> (e2 = [] \<longrightarrow> st2 = st1)
        \<and> (e2 \<noteq> [] \<longrightarrow> succeeded (last e2) \<longrightarrow> (\<exists>p. cl_file st2 = Some p \<and> session_of_document (cs_id (cl_session st1)) p = Inr (cl_session st2)))"
        using "2.IH"(2) [OF refl 3 h [symmetric] refl r] s1 by blast
      from ih s1 ev show ?thesis by (cases "e2 = []") simp_all
    qed
  qed simp
  with assms(3,4) show ?thesis by (auto simp: session_ok_def MAX_MESSAGES_def)
qed

section \<open>The desktop reads the turn\<close>

text \<open>The events of a turn before its result.\<close>

definition turn_event :: "jsval \<Rightarrow> bool" where
  "turn_event ev =
     (ev = content_start_event \<or> ev = content_stop_event \<or> (\<exists>s. ev = delta_event s) \<or> (\<exists>i calls. ev = tool_use_event i calls)
      \<or> (\<exists>cf cwd i. ev = init_event cf cwd i))"

definition ev_text :: "jsval \<Rightarrow> string" where
  "ev_text ev = (if field ev ''type'' = Str ''content_block_delta'' then text_of (field (field ev ''delta'') ''text'') else [])"

definition chunk_text :: "FlatChunk list \<Rightarrow> string" where
  "chunk_text cs = concat (map (\<lambda>c. case fc_delta c of Some s \<Rightarrow> s | None \<Rightarrow> []) cs)"

lemma chunk_text_append [simp]: "chunk_text (a @ b) = chunk_text a @ chunk_text b"
  by (simp add: chunk_text_def)

lemma turn_event_quiet:
  assumes "turn_event ev"
  shows "list_all (\<lambda>c. \<not> fc_done c) (snd (translateEvent ev s)) \<and> chunk_text (snd (translateEvent ev s)) = ev_text ev"
proof -
  have "list_all (\<lambda>c. \<not> fc_done c) (concat (map (\<lambda>c. assistant_block (tool_use_block c)) calls))
      \<and> chunk_text (concat (map (\<lambda>c. assistant_block (tool_use_block c)) calls)) = []" for calls
    by (induction calls) (simp_all add: assistant_block_def tool_use_block_def tool_chunk_def chunk0_def chunk_text_def Let_def)
  then have tool: "list_all (\<lambda>c. \<not> fc_done c) (snd (translateEvent (tool_use_event i calls) s))
      \<and> chunk_text (snd (translateEvent (tool_use_event i calls) s)) = ev_text (tool_use_event i calls)" for i calls
    by (simp add: tool_use_event_def translateEvent_def or_empty_def array_or_empty_def ev_text_def o_def)
  have start: "snd (translateEvent content_start_event s) = []" "ev_text content_start_event = []"
    by (simp_all add: content_start_event_def translateEvent_def translate_block_start_def or_empty_def ev_text_def Let_def)
  have stop: "snd (translateEvent content_stop_event s) = []" "ev_text content_stop_event = []"
    by (simp_all add: content_stop_event_def translateEvent_def ev_text_def)
  have delta: "snd (translateEvent (delta_event d) s) = [chunk0\<lparr>fc_delta := Some d\<rparr>]" "ev_text (delta_event d) = d" for d
    by (simp_all add: delta_event_def translateEvent_def translate_block_delta_def or_empty_def ev_text_def text_of_def Let_def)
  have init: "list_all (\<lambda>c. \<not> fc_done c) (snd (translateEvent (init_event cf cwd i) s)) \<and> chunk_text (snd (translateEvent (init_event cf cwd i) s)) = []"
      "ev_text (init_event cf cwd i) = []" for cf cwd i
    by (simp_all add: init_event_def translateEvent_def translate_system_def string_or_empty_def chunk0_def chunk_text_def ev_text_def Let_def)
  from assms consider "ev = content_start_event" | "ev = content_stop_event" | d where "ev = delta_event d" | i calls where "ev = tool_use_event i calls"
    | cf cwd i where "ev = init_event cf cwd i" unfolding turn_event_def by blast
  then show ?thesis by cases (simp_all add: start stop delta tool init, simp_all add: chunk_text_def chunk0_def)
qed

lemma result_event_done:
  "\<exists>c. snd (translateEvent (success_event i t u) s) = [c] \<and> fc_done c \<and> fc_delta c = None \<and> fc_error c = None"
  "\<exists>c. snd (translateEvent (error_event i e) s) = [c] \<and> fc_done c \<and> fc_delta c = None \<and> fc_error c = Some (publicError e)"
  by (auto simp: success_event_def error_event_def translateEvent_def translate_result_def chunk0_def Let_def split: option.split)

lemma provider_events:
  "requestProviderOnce an = (evs, r) \<Longrightarrow> list_all turn_event evs
   \<and> (\<forall>x. r = Inr x \<longrightarrow> concat (map ev_text evs) = pr_text x)"
proof -
  have "concat (map ev_text (map delta_event ts)) = concat ts" for ts by (induction ts) (simp_all add: ev_text_def delta_event_def text_of_def)
  then have d: "concat (map (\<lambda>x. ev_text (delta_event x)) ts) = concat ts" for ts by (simp add: o_def)
  have l: "list_all turn_event (map delta_event ts)" for ts by (auto simp: list_all_iff turn_event_def)
  have e: "turn_event content_start_event" "turn_event content_stop_event" "ev_text content_start_event = []" "ev_text content_stop_event = []"
    by (simp_all add: turn_event_def ev_text_def content_start_event_def content_stop_event_def)
  show "requestProviderOnce an = (evs, r) \<Longrightarrow> ?thesis"
    using d l e by (auto simp: requestProviderOnce_def o_def split: option.splits if_splits prod.splits sum.splits)
qed

lemma turn_rounds_events:
  "list_all turn_event (fst (turn_rounds k te ti rnd n usage msgs))
   \<and> (\<forall>t u. snd (turn_rounds k te ti rnd n usage msgs) = Inr (t, u) \<longrightarrow> (\<exists>pre. concat (map ev_text (fst (turn_rounds k te ti rnd n usage msgs))) = pre @ t))"
proof (induction k te ti rnd n usage msgs rule: turn_rounds.induct)
  case (2 k te ti rnd n usage msgs)
  obtain evs r where p: "requestProviderOnce (te_provider te rnd msgs) = (evs, r)" by fastforce
  note pe = provider_events [OF p]
  have tool: "turn_event (tool_use_event i calls)" "ev_text (tool_use_event i calls) = []" for i calls
    by (auto simp: turn_event_def) (simp add: ev_text_def tool_use_event_def)
  show ?case
  proof (cases r)
    case (Inl e)
    with p pe show ?thesis by (simp add: bind_out_def)
  next
    case (Inr x)
    show ?thesis
    proof (cases "pr_calls x = [] \<or> te_managed te = None \<or> n + length (pr_calls x) > MAX_MANAGED_TOOL_CALLS_PER_TURN")
      case True
      with Inr p pe show ?thesis by (auto simp: bind_out_def Let_def)
    next
      case False
      from "2.IH" [OF refl refl, of x] False have ih: "list_all turn_event (fst (turn_rounds k te ti (Suc rnd) (n + length (pr_calls x)) (mergeUsage (te_fmt te) usage (pr_usage x))
          (msgs @ [assistant_request (pr_text x) (pr_calls x)] @ map (tool_message te ti) (pr_calls x))))"
        "\<And>t u. snd (turn_rounds k te ti (Suc rnd) (n + length (pr_calls x)) (mergeUsage (te_fmt te) usage (pr_usage x))
          (msgs @ [assistant_request (pr_text x) (pr_calls x)] @ map (tool_message te ti) (pr_calls x))) = Inr (t, u) \<Longrightarrow>
          \<exists>pre. concat (map ev_text (fst (turn_rounds k te ti (Suc rnd) (n + length (pr_calls x)) (mergeUsage (te_fmt te) usage (pr_usage x))
          (msgs @ [assistant_request (pr_text x) (pr_calls x)] @ map (tool_message te ti) (pr_calls x))))) = pre @ t"
        by auto
      with Inr p pe False tool show ?thesis by (simp add: bind_out_def emit_def Let_def) (metis append.assoc)
    qed
  qed
qed simp

lemma print_members_end: "\<exists>r. print_members b kvs = r @ ''}''"
proof (induction kvs arbitrary: b)
  case (Cons kv kvs)
  obtain r where "print_members b' kvs = r b' @ ''}''" for b' using Cons.IH by metis
  then show ?case by (cases kv) (auto intro!: exI [where x = "(_::string) @ _"])
qed simp

lemma trim_same: "s \<noteq> [] \<Longrightarrow> \<not> is_ws (hd s) \<Longrightarrow> \<not> is_ws (last s) \<Longrightarrow> trim s = s"
  by (cases s) (simp_all add: trim_def hd_rev [symmetric] dropWhile_eq_self_iff)

lemma trim_object: "trim (JSON_stringify (Obj kvs)) = JSON_stringify (Obj kvs)"
proof -
  obtain r where "JSON_stringify (Obj kvs) = CHR ''{'' # r @ ''}''" using print_members_end [of True kvs] by auto
  then show ?thesis by (simp add: trim_same is_ws_def)
qed

definition is_record :: "jsval \<Rightarrow> bool" where
  "is_record v = (case v of Obj _ \<Rightarrow> True | _ \<Rightarrow> False)"

lemma process_line_event:
  assumes "wf_json ev" "is_record ev"
  shows "\<exists>s1. process_line (JSON_stringify ev) s = (note_done (snd (translateEvent ev s1)) (fst (translateEvent ev s1)), snd (translateEvent ev s1))"
proof -
  from assms(2) obtain kvs where ev: "ev = Obj kvs" by (cases ev) (auto simp: is_record_def)
  have "JSON_parse (JSON_stringify ev) = Some ev"
    using JSON_parse_stringify [OF assms(1), of "[]"] by (simp add: skip_ws_def ends_number_def del: JSON_stringify.simps)
  moreover have "trim (JSON_stringify ev) = JSON_stringify ev" "JSON_stringify ev \<noteq> []" using trim_object ev by simp_all
  ultimately show ?thesis by (auto simp: process_line_def Let_def case_prod_unfold simp del: JSON_stringify.simps)
qed

lemma turn_event_record: "turn_event ev \<Longrightarrow> is_record ev"
  by (auto simp: turn_event_def is_record_def content_start_event_def content_stop_event_def delta_event_def tool_use_event_def init_event_def)

lemma process_turn_events:
  "list_all turn_event evs \<Longrightarrow> list_all wf_json evs \<Longrightarrow>
   list_all (\<lambda>c. \<not> fc_done c) (snd (process_lines (map JSON_stringify evs) s))
   \<and> chunk_text (snd (process_lines (map JSON_stringify evs) s)) = concat (map ev_text evs)"
proof (induction evs arbitrary: s)
  case (Cons ev evs)
  from process_line_event [of ev s] Cons.prems turn_event_record
  obtain s1 where l: "process_line (JSON_stringify ev) s = (note_done (snd (translateEvent ev s1)) (fst (translateEvent ev s1)), snd (translateEvent ev s1))"
    by auto
  with Cons turn_event_quiet [of ev s1] show ?case by (simp add: case_prod_unfold Let_def)
qed (simp add: chunk_text_def)

lemma stdout_lines: "split_char (CHR 0x0A) (stdout_text evs) = map JSON_stringify evs @ [[]]"
proof (induction evs)
  case (Cons ev evs)
  then show ?case using split_char_append [of "CHR 0x0A" "JSON_stringify ev" "stdout_text evs"] JSON_no_line_end(1) [of ev]
    by (simp add: stdout_text_def)
qed (simp add: stdout_text_def)

text \<open>The events of one input line: those of the turn, then one result.\<close>

lemma handle_line_events:
  assumes "handle_line cf te cwd ex we line st = (evs, st')"
  shows "\<exists>ms r. evs = ms @ [r] \<and> list_all turn_event ms
    \<and> ((\<exists>i e. r = error_event i e) \<or> (\<exists>i t u pre. r = success_event i t u \<and> concat (map ev_text ms) = pre @ t))"
proof (cases "userMessageFromLine line")
  case (Inl e)
  with assms have "evs = [] @ [error_event (cs_id (cl_session st)) e]" by (auto simp: handle_line_def Let_def)
  then show ?thesis using list.pred_inject(1) by blast
next
  case (Inr um)
  let ?turn = "completeTurn te (system_messages cf @ cs_messages (cl_session st) @ [um])"
  let ?in = "if cl_initialized st then [] else [init_event cf cwd (cs_id (cl_session st))]"
  have "turn_event (init_event cf cwd (cs_id (cl_session st)))" unfolding turn_event_def by blast
  moreover have "ev_text (init_event cf cwd (cs_id (cl_session st))) = []" by (simp add: ev_text_def init_event_def)
  ultimately have i: "list_all turn_event ?in" "concat (map ev_text ?in) = []" by simp_all
  have ev: "list_all turn_event (fst ?turn)" "\<And>t u. snd ?turn = Inr (t, u) \<Longrightarrow> \<exists>pre. concat (map ev_text (fst ?turn)) = pre @ t"
    unfolding completeTurn_def using turn_rounds_events by blast+
  have "\<exists>r. evs = (?in @ fst ?turn) @ [r] \<and> ((\<exists>i e. r = error_event i e) \<or> (\<exists>i t u. r = success_event i t u \<and> snd ?turn = Inr (t, u)))"
    using assms Inr by (auto simp: handle_line_def Let_def split: sum.splits prod.splits if_splits)
  then obtain r where r: "evs = (?in @ fst ?turn) @ [r]" "(\<exists>i e. r = error_event i e) \<or> (\<exists>i t u. r = success_event i t u \<and> snd ?turn = Inr (t, u))"
    by blast
  have "list_all turn_event (?in @ fst ?turn)" "concat (map ev_text (?in @ fst ?turn)) = concat (map ev_text (fst ?turn))" using i ev(1) by simp_all
  with r ev(2) show ?thesis by (intro exI [of _ "?in @ fst ?turn"] exI [of _ r]) fastforce
qed


section \<open>A session that has grown too large\<close>

lemma print_elements_pos: "1 \<le> byteLength (print_elements b vs)"
proof (induction vs arbitrary: b)
  case (Cons v vs)
  have "1 \<le> byteLength (print_elements False vs)" by (rule Cons.IH)
  then show ?case by simp
qed (simp add: byteLength_def)

lemma print_elements_mono: "byteLength (print_elements b vs) \<le> byteLength (print_elements b (vs @ ws))"
proof (induction vs arbitrary: b)
  case Nil
  have "byteLength (print_elements b []) = 1" by (simp add: byteLength_def)
  then show ?case using print_elements_pos [of b ws] by simp
qed simp

text \<open>
  A session is never saved again once its document is over the limit, as long as it has room for another
  exchange: every later turn is reported as an error after its text was streamed.
\<close>

theorem oversize_session_never_saved:
  assumes "byteLength (JSON_stringify (session_document s)) > MAX_SESSION_BYTES" "length (cs_messages s) + 2 \<le> MAX_MESSAGES"
    and "handle_line cf te cwd ex we line (st\<lparr>cl_session := s\<rparr>) = (evs, st')"
  shows "\<not> succeeded (last evs)"
proof -
  have big: "saveSession ex (add_exchange um t s) \<noteq> Inr p" for um t p
  proof -
    have "last_messages (cs_messages s @ [um, assistant_message t]) = cs_messages s @ [um, assistant_message t]" "last_messages (cs_messages s) = cs_messages s"
      using assms(2) by (intro last_messages_ok, simp)+
    then have d: "session_document (add_exchange um t s) = Obj [(''version'', Num (Fin 1)), (''session_id'', Str (cs_id s)), (''messages'', Arr (cs_messages s @ [um, assistant_message t]))]"
        "session_document s = Obj [(''version'', Num (Fin 1)), (''session_id'', Str (cs_id s)), (''messages'', Arr (cs_messages s))]"
      by (simp_all add: session_document_def add_exchange_def)
    have "byteLength (JSON_stringify (session_document s)) \<le> byteLength (JSON_stringify (session_document (add_exchange um t s)))"
      using print_elements_mono [of True "cs_messages s" "[um, assistant_message t]"] unfolding d by (simp add: byteLength_def)
    with assms(1) show ?thesis by (auto simp: saveSession_def bind_res_Inr Let_def)
  qed
  show ?thesis using assms(3) big
    by (auto simp: handle_line_def Let_def bind_res_Inr split: sum.splits prod.splits if_splits)
qed

section \<open>A concrete turn\<close>

definition sample_line :: string where
  "sample_line = JSON_stringify (Obj [(''type'', Str ''user''), (''message'', Obj [(''role'', Str ''user''), (''content'', Str ''hi'')])])"

definition sample_body :: string where
  "sample_body = JSON_stringify (Obj [(''choices'', Arr [Obj [(''message'', Obj [(''content'', Str ''hello'')])]])])"

definition sample_answer :: answer where
  "sample_answer = \<lparr>an_rejected = None, an_status = 200, an_contentType = ''application/json'', an_body = Some \<lparr>bs_chunks = [sample_body], bs_breaks = None\<rparr>\<rparr>"

definition sample_turn_env :: turn_env where
  "sample_turn_env = \<lparr>te_fmt = (\<lambda>_. ''1''), te_sha256 = (\<lambda>_. ''00''), te_provider = (\<lambda>_ _. sample_answer),
     te_control = (\<lambda>_ _. \<lparr>cr_created = sample_answer, cr_clock = 0, cr_polls = []\<rparr>), te_managed = None, te_session = ''s1''\<rparr>"

definition sample_cli_config :: cli_config where
  "sample_cli_config = \<lparr>cf_model = ''m'', cf_endpoint = \<lparr>url_href = [], url_protocol = ''http:'', url_username = [], url_password = [], url_hostname = ''localhost'',
     url_port = [], url_pathname = ''/v1/chat/completions'', url_search = [], url_hash = [], url_origin = []\<rparr>,
     cf_apiToken = [], cf_managed = None, cf_timeoutMs = 9, cf_systemPrompt = []\<rparr>"

definition sample_cli_state :: cli_state where
  "sample_cli_state = \<lparr>cl_session = \<lparr>cs_id = ''s1'', cs_messages = []\<rparr>, cl_initialized = False, cl_file = None\<rparr>"

definition sample_events :: "jsval list" where
  "sample_events = [init_event sample_cli_config ''/w'' ''s1'', content_start_event, delta_event ''hello'', content_stop_event, success_event ''s1'' ''hello'' None]"

lemma sample_user_message: "userMessageFromLine sample_line = Inr (user_message (Str ''hi''))"
proof -
  have "byteLength sample_line \<le> 100" "JSON_parse sample_line = Some (Obj [(''type'', Str ''user''), (''message'', Obj [(''role'', Str ''user''), (''content'', Str ''hi'')])])"
    by code_simp+
  then show ?thesis by (simp add: userMessageFromLine_def MAX_INPUT_LINE_BYTES_def)
qed

lemma sample_reply:
  "requestProviderOnce sample_answer = ([content_start_event, delta_event ''hello'', content_stop_event], Inr \<lparr>pr_text = ''hello'', pr_usage = None, pr_calls = []\<rparr>)"
proof -
  have "byteLength sample_body \<le> 100" "byteLength ''hello'' = 5" "parseProviderEvent sample_body [] = Inr (''hello'', None, [])" by code_simp+
  moreover have "\<not> str_includes (to_lower ''application/json'') ''text/event-stream''" by code_simp
  ultimately have "stream_body sample_answer = (\<lparr>st_texts = [''hello''], st_usage = None, st_pending = []\<rparr>, Inr ())"
    by (simp add: stream_body_def sample_answer_def readLimitedJson_def MAX_PROVIDER_BODY_BYTES_def text_total_def note_text_def)
  then have "streamProviderResponse sample_answer = (\<lparr>st_texts = [''hello''], st_usage = None, st_pending = []\<rparr>, Inr [])"
    by (simp add: streamProviderResponse_def finalizeProviderToolCalls_def)
  moreover have "an_rejected sample_answer = None" "an_status sample_answer = 200" by (simp_all add: sample_answer_def)
  ultimately show ?thesis by (simp add: requestProviderOnce_def)
qed

lemma sample_handled:
  "\<exists>p. handle_line sample_cli_config sample_turn_env ''/w'' None None sample_line sample_cli_state
     = (sample_events, \<lparr>cl_session = \<lparr>cs_id = ''s1'', cs_messages = [user_message (Str ''hi''), assistant_message ''hello'']\<rparr>, cl_initialized = True, cl_file = Some p\<rparr>)"
proof -
  let ?s = "\<lparr>cs_id = ''s1'', cs_messages = [user_message (Str ''hi''), assistant_message ''hello'']\<rparr>"
  have turn: "completeTurn sample_turn_env msgs = ([content_start_event, delta_event ''hello'', content_stop_event], Inr (''hello'', None))" for msgs
    by (simp add: completeTurn_def numeral_eq_Suc bind_out_def sample_turn_env_def sample_reply mergeUsage_def normalizeUsage_def)
  have "session_id_ok ''s1''" by code_simp
  moreover have "JSON_stringify (session_document ?s) = JSON_stringify (Obj [(''version'', Num (Fin 1)), (''session_id'', Str ''s1''),
      (''messages'', Arr [user_message (Str ''hi''), assistant_message ''hello''])])"
    by (simp add: session_document_def last_messages_def MAX_MESSAGES_def)
  moreover have "byteLength (JSON_stringify (Obj [(''version'', Num (Fin 1)), (''session_id'', Str ''s1''),
      (''messages'', Arr [user_message (Str ''hi''), assistant_message ''hello''])])) \<le> 200" by code_simp
  ultimately have "saveSession None ?s = Inr (JSON_stringify (session_document ?s))"
    by (simp add: saveSession_def validateSessionId_def MAX_SESSION_BYTES_def del: JSON_stringify.simps)
  moreover have "add_exchange (user_message (Str ''hi'')) ''hello'' \<lparr>cs_id = ''s1'', cs_messages = []\<rparr> = ?s"
    by (simp add: add_exchange_def last_messages_def MAX_MESSAGES_def)
  ultimately show ?thesis using turn sample_user_message
    by (simp add: handle_line_def sample_cli_state_def sample_events_def Let_def del: JSON_stringify.simps)
qed

lemma sample_events_ok: "list_all wf_json sample_events" "length (stdout_text sample_events) \<le> STDOUT_OVERSIZE_LIMIT"
proof -
  show "list_all wf_json sample_events"
    by (simp add: sample_events_def init_event_def content_start_event_def delta_event_def content_stop_event_def success_event_def sample_cli_config_def)
  have "length (stdout_text sample_events) \<le> 1000" by code_simp
  then show "length (stdout_text sample_events) \<le> STDOUT_OVERSIZE_LIMIT" by (simp add: STDOUT_OVERSIZE_LIMIT_def)
qed


theorem session_resumes_witness:
  "\<exists>st' p. run_lines sample_cli_config ''/w'' [(sample_line, \<lparr>lw_env = sample_turn_env, lw_existing = None, lw_write_error = None\<rparr>)] sample_cli_state = (sample_events, st')
    \<and> cl_file st' = Some p \<and> session_of_document ''s1'' p = Inr (cl_session st')"
proof -
  from sample_handled obtain st' where h: "handle_line sample_cli_config sample_turn_env ''/w'' None None sample_line sample_cli_state = (sample_events, st')" by blast
  have l: "trim sample_line = sample_line" "sample_line \<noteq> []" "\<not> isShutdownLine sample_line" by code_simp+
  have run: "run_lines sample_cli_config ''/w'' [(sample_line, \<lparr>lw_env = sample_turn_env, lw_existing = None, lw_write_error = None\<rparr>)] sample_cli_state = (sample_events, st')"
    using h l by simp
  have ok: "session_ok (cl_session sample_cli_state)" "cs_id (cl_session sample_cli_state) = ''s1''" by (simp_all add: session_ok_def sample_cli_state_def)
  have "sample_events \<noteq> []" "succeeded (last sample_events)" by (simp_all add: sample_events_def)
  from session_resumes [OF run ok(1) this] run ok(2) show ?thesis by auto
qed


theorem endpoint_confined_witness:
  "\<exists>u. chatCompletionsUrl \<lparr>new_URL = (\<lambda>_. Some ((cf_endpoint sample_cli_config)\<lparr>url_pathname := ''/v1/''\<rparr>)), clear_hash = (\<lambda>u. u), decodeURIComponent = Some\<rparr> Map.empty = Inr u
    \<and> isLoopbackHostname (url_hostname u) \<and> ends_with (strip_slashes (url_pathname u)) ''/chat/completions''"
proof -
  let ?rt = "\<lparr>new_URL = (\<lambda>_. Some ((cf_endpoint sample_cli_config)\<lparr>url_pathname := ''/v1/''\<rparr>)), clear_hash = (\<lambda>u. u), decodeURIComponent = Some\<rparr>"
  have "isLoopbackHostname ''localhost''" by code_simp
  then obtain u where u: "chatCompletionsUrl ?rt Map.empty = Inr u" by (auto simp: chatCompletionsUrl_def sample_cli_config_def Let_def)
  from endpoint_confined [OF u] u show ?thesis by auto
qed

end
