(* ===== verification/ConnectionHealth.thy ===== *)
theory ConnectionHealth
  imports ServiceUrl JsonPretty
begin

text \<open>
  The connection-health monitor of the main process (\<open>electron/services/connection-health.ts\<close>).
  Every \<open>await\<close> of its two loops is a state of a run; runs, timers, start and stop
  interleave freely, and share the global abort controller, reconnection timer and back-off
  the way the module does.  The environment variables are constant.
\<close>

section \<open>Targets\<close>

type_synonym process_env = "string \<rightharpoonup> string"

datatype ConnectionTarget = Disabled string | Control_plane_poll string | Compat_sse string

definition or_undefined :: "string option \<Rightarrow> string" where
  "or_undefined v = (case v of Some s \<Rightarrow> s | None \<Rightarrow> [])"

definition resolveConnectionTarget :: "runtime \<Rightarrow> process_env \<Rightarrow> ConnectionTarget" where
  "resolveConnectionTarget rt env =
     (if env ''AWP_ENABLE_CONNECTION_HEALTH_SSE'' = Some ''1''
      then (case normalizeServiceEndpointUrl rt (or_undefined (env ''AWP_CONNECTION_HEALTH_SSE_URL'')) of
              None \<Rightarrow> Disabled ''invalid-compat-sse-url''
            | Some u \<Rightarrow> Compat_sse u)
      else if or_undefined (env ''AWP_CONNECTION_HEALTH_SSE_URL'') \<noteq> [] then Disabled ''compat-sse-not-enabled''
      else if or_undefined (env ''AWP_CONTROL_PLANE_URL'') = [] then Disabled ''network-not-configured''
      else case normalizeServiceBaseUrl rt (or_undefined (env ''AWP_CONTROL_PLANE_URL'')) of
             None \<Rightarrow> Disabled ''invalid-control-plane-url''
           | Some b \<Rightarrow> Control_plane_poll (b @ ''/v1/health/ready''))"

definition disabled_target :: "ConnectionTarget \<Rightarrow> bool" where
  "disabled_target t = (case t of Disabled _ \<Rightarrow> True | _ \<Rightarrow> False)"

definition shouldAutoConnect :: "runtime \<Rightarrow> process_env \<Rightarrow> bool" where
  "shouldAutoConnect rt env =
     (\<not> disabled_target (resolveConnectionTarget rt env)
      \<and> (env ''NODE_ENV'' \<noteq> Some ''test'' \<or> env ''AWP_ENABLE_NETWORK_IN_TESTS'' = Some ''1''))"

section \<open>The snapshot\<close>

type_synonym snapshot = "string \<Rightarrow> jsval"

definition DEFAULT_SNAPSHOT :: snapshot where
  "DEFAULT_SNAPSHOT =
     (\<lambda>_. Undefined)(''state'' := Str ''unknown'', ''agent_id'' := Null, ''last_heartbeat'' := Null, ''last_heartbeat_age_s'' := Null,
       ''transport'' := Str ''disabled'', ''active_tasks'' := Num (Fin 0), ''version'' := Str [], ''uptime_s'' := Null,
       ''recent_errors'' := Arr [], ''hostname'' := Str [], ''received_at_ms'' := Num (Fin 0), ''last_error'' := Null)"

definition compared_fields :: "string list" where
  "compared_fields =
     [''state'', ''agent_id'', ''last_heartbeat'', ''last_heartbeat_age_s'', ''transport'', ''active_tasks'', ''version'', ''hostname'', ''last_error'']"

type_synonym patch = "(string \<times> jsval) list"

text \<open>A field the patch leaves out keeps its value; only NaN differs from itself.\<close>

definition field_changed :: "snapshot \<Rightarrow> patch \<Rightarrow> string \<Rightarrow> bool" where
  "field_changed old p k = (case map_of p k of Some v \<Rightarrow> \<not> strict_eq v (old k) | None \<Rightarrow> old k = Num NaN)"

definition merge_snapshot :: "snapshot \<Rightarrow> patch \<Rightarrow> nat \<Rightarrow> snapshot" where
  "merge_snapshot old p now =
     (\<lambda>k. if k = ''received_at_ms'' then Num (Fin (of_nat now)) else case map_of p k of Some v \<Rightarrow> v | None \<Rightarrow> old k)"

section \<open>State\<close>

record health_request =
  hr_url :: string
  hr_auth :: bool

text \<open>
  A run of a loop, by what it waits for: the readiness answer, its body, the task list, its
  body, the credentials, the stream's answer, the next chunk.
\<close>

datatype run_phase =
    WaitReady string | ReadReady string | WaitTasks string | ReadTasks string
  | WaitAuth string | WaitStream string | ReadStream string string

record health_run =
  ru_id :: nat
  ru_phase :: run_phase
  ru_signal :: nat
  ru_timer :: "string option"
  ru_timeout :: "string option"

record health =
  ch_running :: bool
  ch_registered :: bool
  ch_snapshot :: snapshot
  ch_abort :: "nat option"
  ch_aborted :: "nat list"
  ch_timer :: "nat option"
  ch_backoff :: nat
  ch_starters :: nat
  ch_runs :: "health_run list"
  ch_next :: nat
  ch_sent :: "health_request list"
  ch_broadcasts :: nat

definition init_health :: health where
  "init_health = \<lparr>ch_running = False, ch_registered = False, ch_snapshot = DEFAULT_SNAPSHOT, ch_abort = None, ch_aborted = [], ch_timer = None, ch_backoff = 2000,
     ch_starters = 0, ch_runs = [], ch_next = 0, ch_sent = [], ch_broadcasts = 0\<rparr>"

definition mergeAndMaybeBroadcast :: "nat \<Rightarrow> patch \<Rightarrow> health \<Rightarrow> health" where
  "mergeAndMaybeBroadcast now p s =
     s\<lparr>ch_snapshot := merge_snapshot (ch_snapshot s) p now,
       ch_broadcasts := ch_broadcasts s + (if list_ex (field_changed (ch_snapshot s) p) compared_fields then 1 else 0)\<rparr>"

definition scheduleReconnect :: "nat \<Rightarrow> health \<Rightarrow> health" where
  "scheduleReconnect cap s =
     (if \<not> ch_running s \<or> ch_timer s \<noteq> None then s
      else s\<lparr>ch_timer := Some (min (ch_backoff s) cap), ch_backoff := min (ch_backoff s * 2) cap\<rparr>)"

definition BACKOFF_CAP_MS :: nat where "BACKOFF_CAP_MS = 30000"
definition BACKOFF_CAP_AUTH_MS :: nat where "BACKOFF_CAP_AUTH_MS = 60000"
definition CONTROL_PLANE_POLL_MS :: nat where "CONTROL_PLANE_POLL_MS = 5000"
definition MAX_JSON_BYTES :: nat where "MAX_JSON_BYTES = 1048576"
definition MAX_HEALTH_BUFFER_CHARS :: nat where "MAX_HEALTH_BUFFER_CHARS = 1048576"

definition abort_current :: "health \<Rightarrow> health" where
  "abort_current s = (case ch_abort s of Some i \<Rightarrow> s\<lparr>ch_aborted := i # ch_aborted s\<rparr> | None \<Rightarrow> s)"

definition set_run :: "health_run \<Rightarrow> health \<Rightarrow> health" where
  "set_run r s = s\<lparr>ch_runs := map (\<lambda>q. if ru_id q = ru_id r then r else q) (ch_runs s)\<rparr>"

text \<open>The \<open>finally\<close> block of either loop: the timers of the run and the global controller are cleared.\<close>

definition finish_run :: "health_run \<Rightarrow> health \<Rightarrow> health" where
  "finish_run r s = s\<lparr>ch_runs := filter (\<lambda>q. ru_id q \<noteq> ru_id r) (ch_runs s), ch_abort := None\<rparr>"

definition send :: "string \<Rightarrow> bool \<Rightarrow> health \<Rightarrow> health" where
  "send u auth s = s\<lparr>ch_sent := ch_sent s @ [\<lparr>hr_url = u, hr_auth = auth\<rparr>]\<rparr>"

section \<open>Starting a run\<close>

definition begin_poll :: "runtime \<Rightarrow> nat \<Rightarrow> string \<Rightarrow> health \<Rightarrow> health" where
  "begin_poll rt now readyUrl s =
     (if \<not> ch_running s then s
      else case normalizeServiceEndpointUrl rt readyUrl of
        Some u \<Rightarrow>
          if map_option url_pathname (new_URL rt u) = Some ''/v1/health/ready''
          then send u False (s\<lparr>ch_abort := Some (ch_next s), ch_next := Suc (ch_next s),
                 ch_runs := ch_runs s @ [\<lparr>ru_id = ch_next s, ru_phase = WaitReady u, ru_signal = ch_next s, ru_timer = Some ''health-timeout-5000ms'', ru_timeout = None\<rparr>]\<rparr>)
          else mergeAndMaybeBroadcast now [(''state'', Str ''unknown''), (''last_error'', Str ''invalid-control-plane-target'')] s
      | None \<Rightarrow> mergeAndMaybeBroadcast now [(''state'', Str ''unknown''), (''last_error'', Str ''invalid-control-plane-target'')] s)"

definition begin_sse :: "runtime \<Rightarrow> nat \<Rightarrow> string \<Rightarrow> health \<Rightarrow> health" where
  "begin_sse rt now streamUrl s =
     (if \<not> ch_running s then s
      else case normalizeServiceEndpointUrl rt streamUrl of
        Some u \<Rightarrow>
          s\<lparr>ch_next := Suc (ch_next s),
            ch_runs := ch_runs s @ [\<lparr>ru_id = ch_next s, ru_phase = WaitAuth u, ru_signal = ch_next s, ru_timer = None, ru_timeout = None\<rparr>]\<rparr>
      | None \<Rightarrow> mergeAndMaybeBroadcast now [(''state'', Str ''unknown''), (''last_error'', Str ''invalid-compat-sse-url'')] s)"

definition runConnectionLoop :: "runtime \<Rightarrow> process_env \<Rightarrow> nat \<Rightarrow> health \<Rightarrow> health" where
  "runConnectionLoop rt env now s =
     (case resolveConnectionTarget rt env of
        Disabled _ \<Rightarrow> s
      | Control_plane_poll u \<Rightarrow> begin_poll rt now u s
      | Compat_sse u \<Rightarrow> begin_sse rt now u s)"

section \<open>Polling the control plane\<close>

text \<open>What a run catches: an abort after a stop ends it silently, anything else is an error of the run.\<close>

definition run_failed :: "nat \<Rightarrow> bool \<Rightarrow> string \<Rightarrow> health_run \<Rightarrow> health \<Rightarrow> health" where
  "run_failed now aborted message r s =
     (if aborted \<and> \<not> ch_running s then finish_run r s
      else finish_run r (scheduleReconnect BACKOFF_CAP_MS
             (mergeAndMaybeBroadcast now [(''state'', Str ''error''), (''last_error'', Str (take 120 message))] s)))"

definition poll_message :: "health_run \<Rightarrow> string" where
  "poll_message r = (case ru_timeout r of Some m \<Rightarrow> m | None \<Rightarrow> ''health-request-failed'')"

definition ready_answer :: "nat \<Rightarrow> nat \<Rightarrow> string \<Rightarrow> health_run \<Rightarrow> health \<Rightarrow> health" where
  "ready_answer now status u r s =
     (if \<not> (200 \<le> status \<and> status \<le> 299)
      then finish_run r (scheduleReconnect BACKOFF_CAP_MS
             (mergeAndMaybeBroadcast now [(''state'', Str ''error''), (''last_error'', Str (''health-http-'' @ print_nat status))] s))
      else set_run (r\<lparr>ru_phase := ReadReady u\<rparr>) s)"

text \<open>\<open>_readJsonLimited\<close>\<close>

definition readJsonLimited :: "jsnum \<Rightarrow> string \<Rightarrow> jsval option" where
  "readJsonLimited declared t =
     (if (case declared of Fin q \<Rightarrow> q > of_nat MAX_JSON_BYTES | _ \<Rightarrow> False) \<or> byteLength t > MAX_JSON_BYTES then None else JSON_parse t)"

definition has_token :: "process_env \<Rightarrow> bool" where
  "has_token env = (trim (or_undefined (env ''AWP_CONTROL_PLANE_API_KEY'')) \<noteq> [])"

definition poll_succeeds :: "nat \<Rightarrow> string \<Rightarrow> nat \<Rightarrow> string option \<Rightarrow> health_run \<Rightarrow> health \<Rightarrow> health" where
  "poll_succeeds now host activeTasks summaryError r s =
     finish_run r (scheduleReconnect CONTROL_PLANE_POLL_MS
       (mergeAndMaybeBroadcast now
         [(''state'', Str (if summaryError = None then ''online'' else ''degraded'')), (''agent_id'', Null), (''last_heartbeat'', Null),
          (''last_heartbeat_age_s'', Null), (''transport'', Str ''https-longpoll''), (''active_tasks'', Num (Fin (of_nat activeTasks))),
          (''version'', Str ''public-control-plane''), (''uptime_s'', Null),
          (''recent_errors'', Arr (case summaryError of Some e \<Rightarrow> [Str e] | None \<Rightarrow> [])), (''hostname'', Str host),
          (''last_error'', case summaryError of Some e \<Rightarrow> Str e | None \<Rightarrow> Null)]
         (s\<lparr>ch_backoff := CONTROL_PLANE_POLL_MS\<rparr>)))"

text \<open>
  The body of the readiness answer; \<open>tasks_url\<close> is \<open>new URL('/v1/tasks', u)\<close> and \<open>host\<close> the host of \<open>u\<close>.
  The second request reads the signal of the global controller, which a stop has cleared.
\<close>

definition ready_body :: "process_env \<Rightarrow> (string \<Rightarrow> string) \<Rightarrow> (string \<Rightarrow> string) \<Rightarrow> nat \<Rightarrow> jsval option \<Rightarrow> string \<Rightarrow> health_run \<Rightarrow> health \<Rightarrow> health" where
  "ready_body env tasks_url host now body u r s =
     (case body of
        None \<Rightarrow> run_failed now False (poll_message r) r s
      | Some v \<Rightarrow>
          if v = Null then run_failed now False (poll_message r) r s
          else if field v ''status'' \<noteq> Str ''ok''
          then finish_run r (scheduleReconnect BACKOFF_CAP_MS
                 (mergeAndMaybeBroadcast now [(''state'', Str ''degraded''), (''last_error'', Str ''health-not-ready'')] s))
          else if \<not> has_token env then poll_succeeds now (host u) 0 None r s
          else case ch_abort s of
            None \<Rightarrow> run_failed now False (poll_message r) r s
          | Some sig \<Rightarrow> send (tasks_url u) True (set_run (r\<lparr>ru_phase := WaitTasks u, ru_signal := sig\<rparr>) s))"

definition tasks_answer :: "(string \<Rightarrow> string) \<Rightarrow> nat \<Rightarrow> nat \<Rightarrow> string \<Rightarrow> health_run \<Rightarrow> health \<Rightarrow> health" where
  "tasks_answer host now status u r s =
     (if 200 \<le> status \<and> status \<le> 299 then set_run (r\<lparr>ru_phase := ReadTasks u\<rparr>) s
      else poll_succeeds now (host u) 0 (Some (''tasks-http-'' @ print_nat status)) r s)"

definition active_task :: "jsval \<Rightarrow> bool" where
  "active_task t = (truthy t \<and> is_object t \<and> (field t ''status'' = Str ''pending'' \<or> field t ''status'' = Str ''running''))"

definition tasks_body :: "(string \<Rightarrow> string) \<Rightarrow> nat \<Rightarrow> jsval option \<Rightarrow> string \<Rightarrow> health_run \<Rightarrow> health \<Rightarrow> health" where
  "tasks_body host now body u r s =
     (case body of
        None \<Rightarrow> run_failed now False (poll_message r) r s
      | Some v \<Rightarrow> poll_succeeds now (host u) (case v of Arr ts \<Rightarrow> length (filter active_task ts) | _ \<Rightarrow> 0) None r s)"

section \<open>The compatibility stream\<close>

definition data_lines :: "string \<Rightarrow> string list" where
  "data_lines frame = map (\<lambda>l. dropWhile is_ws (drop 5 l)) (filter (\<lambda>l. starts_with l ''data:'') (split_char (CHR 0x0A) frame))"

text \<open>The type and the data of a frame; \<open>parsed.type\<close> of \<open>null\<close> throws, which is caught.\<close>

definition parseSseFrame :: "(rat \<Rightarrow> string) \<Rightarrow> string \<Rightarrow> (string \<times> jsval) option" where
  "parseSseFrame fmt frame =
     (if data_lines frame = [] then None
      else case JSON_parse (join_char (CHR 0x0A) (data_lines frame)) of
        None \<Rightarrow> None
      | Some v \<Rightarrow>
          if v = Null then None
          else let ty = field v ''type''
               in Some (if ty = Undefined \<or> ty = Null then ''message'' else js_text fmt ty, field v ''data''))"

definition or_value :: "jsval \<Rightarrow> jsval \<Rightarrow> jsval" where
  "or_value v d = (if v = Undefined \<or> v = Null then d else v)"

definition snapshot_patch :: "(rat \<Rightarrow> string) \<Rightarrow> jsval \<Rightarrow> patch" where
  "snapshot_patch fmt raw =
     [(''state'', or_value (field raw ''state'') (Str ''unknown'')), (''agent_id'', or_value (field raw ''agent_id'') Null),
      (''last_heartbeat'', or_value (field raw ''last_heartbeat'') Null), (''last_heartbeat_age_s'', or_value (field raw ''last_heartbeat_age_s'') Null),
      (''transport'', or_value (field raw ''transport'') (Str ''unknown'')),
      (''active_tasks'', Num (js_number fmt (or_value (field raw ''active_tasks'') (Num (Fin 0))))),
      (''version'', or_value (field raw ''version'') (Str [])), (''uptime_s'', or_value (field raw ''uptime_s'') Null),
      (''recent_errors'', Arr (case field raw ''recent_errors'' of Arr es \<Rightarrow> take 20 es | _ \<Rightarrow> [])),
      (''hostname'', or_value (field raw ''hostname'') (Str [])), (''last_error'', Null)]"

definition apply_frame :: "(rat \<Rightarrow> string) \<Rightarrow> nat \<Rightarrow> string \<Rightarrow> health \<Rightarrow> health" where
  "apply_frame fmt now frame s =
     (case parseSseFrame fmt frame of
        Some (ty, d) \<Rightarrow> if ty = ''snapshot'' \<and> truthy d then mergeAndMaybeBroadcast now (snapshot_patch fmt d) s else s
      | None \<Rightarrow> s)"

text \<open>The frames of a buffer and what is left of it: \<open>indexOf('\\n\\n')\<close> until there is none.\<close>

fun take_frame :: "string \<Rightarrow> (string \<times> string) option" where
  "take_frame [] = None"
| "take_frame (c # s) =
     (if starts_with (c # s) [CHR 0x0A, CHR 0x0A] then Some ([], drop 1 s)
      else map_option (\<lambda>(f, r). (c # f, r)) (take_frame s))"

lemma take_frame_shorter: "take_frame s = Some (f, r) \<Longrightarrow> length r < length s"
  by (induction s arbitrary: f r) (auto split: if_splits)

function frames :: "string \<Rightarrow> string list \<times> string" where
  "frames buf = (case take_frame buf of None \<Rightarrow> ([], buf) | Some (f, r) \<Rightarrow> (case frames r of (fs, left) \<Rightarrow> (f # fs, left)))"
  by pat_completeness auto
termination by (relation "measure length") (auto dest: take_frame_shorter)

declare frames.simps [simp del]

definition stream_message :: "health_run \<Rightarrow> string \<Rightarrow> string" where
  "stream_message r m = (case ru_timeout r of Some t \<Rightarrow> t | None \<Rightarrow> m)"

definition auth_ready :: "bool \<Rightarrow> string \<Rightarrow> health_run \<Rightarrow> health \<Rightarrow> health" where
  "auth_ready auth u r s =
     send u auth (set_run (r\<lparr>ru_phase := WaitStream u, ru_timer := Some ''sse-handshake-timeout''\<rparr>) (s\<lparr>ch_abort := Some (ru_id r)\<rparr>))"

definition stream_answer :: "nat \<Rightarrow> nat \<Rightarrow> bool \<Rightarrow> string \<Rightarrow> string \<Rightarrow> health_run \<Rightarrow> health \<Rightarrow> health" where
  "stream_answer now status hasBody contentType u r s =
     (if status = 401 \<or> status = 403
      then finish_run r (scheduleReconnect BACKOFF_CAP_AUTH_MS
             (mergeAndMaybeBroadcast now [(''state'', Str ''unknown''), (''last_error'', Str (''auth-'' @ print_nat status))] s))
      else if \<not> (200 \<le> status \<and> status \<le> 299) \<or> \<not> hasBody
      then finish_run r (scheduleReconnect BACKOFF_CAP_MS
             (mergeAndMaybeBroadcast now [(''state'', Str ''error''), (''last_error'', Str (''http-'' @ print_nat status))] s))
      else if contentType \<noteq> [] \<and> \<not> str_includes (to_lower contentType) ''text/event-stream''
      then finish_run r (scheduleReconnect BACKOFF_CAP_MS
             (mergeAndMaybeBroadcast now [(''state'', Str ''error''), (''last_error'', Str ''invalid-content-type'')] s))
      else set_run (r\<lparr>ru_phase := ReadStream u [], ru_timer := Some ''sse-idle-timeout''\<rparr>) (s\<lparr>ch_backoff := 2000\<rparr>))"

definition stream_chunk :: "(rat \<Rightarrow> string) \<Rightarrow> nat \<Rightarrow> string \<Rightarrow> string \<Rightarrow> string \<Rightarrow> health_run \<Rightarrow> health \<Rightarrow> health" where
  "stream_chunk fmt now chunk u buf r s =
     (if length (buf @ chunk) > MAX_HEALTH_BUFFER_CHARS
      then run_failed now False (stream_message r ''sse-buffer-limit'') r s
      else let (fs, left) = frames (buf @ chunk)
           in set_run (r\<lparr>ru_phase := ReadStream u left, ru_timer := Some ''sse-idle-timeout''\<rparr>) (fold (apply_frame fmt now) fs s))"

definition stream_end :: "nat \<Rightarrow> health_run \<Rightarrow> health \<Rightarrow> health" where
  "stream_end now r s =
     finish_run r (scheduleReconnect BACKOFF_CAP_MS
       (mergeAndMaybeBroadcast now [(''state'', Str ''connecting''), (''last_error'', Str ''stream-closed'')] s))"

section \<open>Start, stop and events\<close>

text \<open>
  \<open>dup_throws\<close> says whether \<open>ipcMain.handle\<close> throws for a channel that has a handler already, as Electron
  does; the running flag is set by then.
\<close>

definition startConnectionHealth :: "bool \<Rightarrow> runtime \<Rightarrow> process_env \<Rightarrow> nat \<Rightarrow> health \<Rightarrow> health" where
  "startConnectionHealth dup_throws rt env now s =
     (if ch_running s then s
      else if ch_registered s \<and> dup_throws then s\<lparr>ch_running := True\<rparr>
      else let s1 = s\<lparr>ch_running := True, ch_registered := True, ch_snapshot := DEFAULT_SNAPSHOT(''received_at_ms'' := Num (Fin (of_nat now)))\<rparr>
           in if disabled_target (resolveConnectionTarget rt env) then s1
              else if \<not> shouldAutoConnect rt env
              then mergeAndMaybeBroadcast now [(''state'', Str ''unknown''), (''last_error'', Str ''network-disabled-in-test'')] s1
              else s1\<lparr>ch_starters := Suc (ch_starters s1)\<rparr>)"

definition stopConnectionHealth :: "health \<Rightarrow> health" where
  "stopConnectionHealth s =
     (if \<not> ch_running s then s else (abort_current (s\<lparr>ch_running := False, ch_timer := None\<rparr>))\<lparr>ch_abort := None\<rparr>)"

datatype health_event =
    Start | Stop | Starter_fires | Reconnect_fires
  | Ready_answer nat nat | Ready_body nat jsnum string | Tasks_answer nat nat | Tasks_body nat jsnum string
  | Auth_ready nat bool | Stream_answer nat nat bool string | Stream_chunk nat string | Stream_end nat
  | Rejected nat string | Aborts nat | Timer_fires nat

record health_world =
  hw_runtime :: runtime
  hw_env :: process_env
  hw_fmt :: "rat \<Rightarrow> string"
  hw_tasks_url :: "string \<Rightarrow> string"
  hw_host :: "string \<Rightarrow> string"
  hw_dup_throws :: bool

definition find_run :: "nat \<Rightarrow> health \<Rightarrow> health_run option" where
  "find_run i s = find (\<lambda>r. ru_id r = i) (ch_runs s)"

definition is_poll :: "run_phase \<Rightarrow> bool" where
  "is_poll p = (case p of WaitReady _ \<Rightarrow> True | ReadReady _ \<Rightarrow> True | WaitTasks _ \<Rightarrow> True | ReadTasks _ \<Rightarrow> True | _ \<Rightarrow> False)"

definition run_message :: "health_run \<Rightarrow> string \<Rightarrow> string" where
  "run_message r m = (if is_poll (ru_phase r) then poll_message r else stream_message r m)"

text \<open>The timer of a run aborts whatever controller is the current one.\<close>

definition run_timer :: "health_run \<Rightarrow> health \<Rightarrow> health" where
  "run_timer r s =
     (case ru_timer r of
        Some m \<Rightarrow> abort_current (set_run (r\<lparr>ru_timer := None, ru_timeout := Some m\<rparr>) s)
      | None \<Rightarrow> s)"

definition run_event :: "health_world \<Rightarrow> nat \<Rightarrow> health_event \<Rightarrow> health_run \<Rightarrow> health \<Rightarrow> health" where
  "run_event w now ev r s =
     (case (ev, ru_phase r) of
        (Ready_answer _ status, WaitReady u) \<Rightarrow> ready_answer now status u r s
      | (Ready_body _ declared t, ReadReady u) \<Rightarrow> ready_body (hw_env w) (hw_tasks_url w) (hw_host w) now (readJsonLimited declared t) u r s
      | (Tasks_answer _ status, WaitTasks u) \<Rightarrow> tasks_answer (hw_host w) now status u r s
      | (Tasks_body _ declared t, ReadTasks u) \<Rightarrow> tasks_body (hw_host w) now (readJsonLimited declared t) u r s
      | (Auth_ready _ auth, WaitAuth u) \<Rightarrow> auth_ready auth u r s
      | (Stream_answer _ status hasBody ct, WaitStream u) \<Rightarrow> stream_answer now status hasBody ct u r s
      | (Stream_chunk _ chunk, ReadStream u buf) \<Rightarrow> stream_chunk (hw_fmt w) now chunk u buf r s
      | (Stream_end _, ReadStream u buf) \<Rightarrow> stream_end now r s
      | (Rejected _ m, WaitAuth _) \<Rightarrow> s
      | (Rejected _ m, _) \<Rightarrow> run_failed now False (run_message r m) r s
      | (Aborts _, WaitAuth _) \<Rightarrow> s
      | (Aborts _, _) \<Rightarrow> if ru_signal r \<in> set (ch_aborted s) then run_failed now True (run_message r ''This operation was aborted'') r s else s
      | (Timer_fires _, _) \<Rightarrow> run_timer r s
      | _ \<Rightarrow> s)"

fun run_of :: "health_event \<Rightarrow> nat option" where
  "run_of (Ready_answer i _) = Some i"
| "run_of (Ready_body i _ _) = Some i"
| "run_of (Tasks_answer i _) = Some i"
| "run_of (Tasks_body i _ _) = Some i"
| "run_of (Auth_ready i _) = Some i"
| "run_of (Stream_answer i _ _ _) = Some i"
| "run_of (Stream_chunk i _) = Some i"
| "run_of (Stream_end i) = Some i"
| "run_of (Rejected i _) = Some i"
| "run_of (Aborts i) = Some i"
| "run_of (Timer_fires i) = Some i"
| "run_of _ = None"

definition health_step :: "health_world \<Rightarrow> nat \<Rightarrow> health_event \<Rightarrow> health \<Rightarrow> health" where
  "health_step w now ev s =
     (case run_of ev of
        Some i \<Rightarrow> (case find_run i s of Some r \<Rightarrow> run_event w now ev r s | None \<Rightarrow> s)
      | None \<Rightarrow>
          (case ev of
             Start \<Rightarrow> startConnectionHealth (hw_dup_throws w) (hw_runtime w) (hw_env w) now s
           | Stop \<Rightarrow> stopConnectionHealth s
           | Starter_fires \<Rightarrow>
               if ch_starters s = 0 then s
               else (let s1 = s\<lparr>ch_starters := ch_starters s - 1\<rparr> in if ch_running s1 then runConnectionLoop (hw_runtime w) (hw_env w) now s1 else s1)
           | Reconnect_fires \<Rightarrow>
               (case ch_timer s of
                  Some _ \<Rightarrow> runConnectionLoop (hw_runtime w) (hw_env w) now (s\<lparr>ch_timer := None\<rparr>)
                | None \<Rightarrow> s)
           | _ \<Rightarrow> s))"

definition health_run_all :: "health_world \<Rightarrow> (nat \<times> health_event) list \<Rightarrow> health \<Rightarrow> health" where
  "health_run_all w evs s = fold (\<lambda>(now, ev). health_step w now ev) evs s"

end
