(* ===== verification/HealthProps.thy ===== *)
theory HealthProps
  imports ConnectionHealth
begin

text \<open>
  What the connection-health monitor promises under every interleaving of runs, timers, starts and
  stops: it contacts vetted endpoints only and nothing unless it is configured, it waits between two
  and sixty seconds before it tries again, and after a stop it sends at most the request of a stream
  run that was still reading credentials.
\<close>

section \<open>Frames\<close>

lemma merge_fields [simp]:
  "ch_running (mergeAndMaybeBroadcast now p s) = ch_running s" "ch_abort (mergeAndMaybeBroadcast now p s) = ch_abort s"
  "ch_aborted (mergeAndMaybeBroadcast now p s) = ch_aborted s" "ch_timer (mergeAndMaybeBroadcast now p s) = ch_timer s"
  "ch_backoff (mergeAndMaybeBroadcast now p s) = ch_backoff s" "ch_starters (mergeAndMaybeBroadcast now p s) = ch_starters s"
  "ch_runs (mergeAndMaybeBroadcast now p s) = ch_runs s" "ch_sent (mergeAndMaybeBroadcast now p s) = ch_sent s"
  "ch_next (mergeAndMaybeBroadcast now p s) = ch_next s"
  by (simp_all add: mergeAndMaybeBroadcast_def)

lemma schedule_fields [simp]:
  "ch_running (scheduleReconnect cap s) = ch_running s" "ch_runs (scheduleReconnect cap s) = ch_runs s"
  "ch_sent (scheduleReconnect cap s) = ch_sent s" "ch_starters (scheduleReconnect cap s) = ch_starters s"
  by (simp_all add: scheduleReconnect_def)

lemma set_run_fields [simp]:
  "ch_running (set_run r s) = ch_running s" "ch_timer (set_run r s) = ch_timer s" "ch_backoff (set_run r s) = ch_backoff s"
  "ch_sent (set_run r s) = ch_sent s" "ch_starters (set_run r s) = ch_starters s"
  by (simp_all add: set_run_def)

lemma finish_run_fields [simp]:
  "ch_running (finish_run r s) = ch_running s" "ch_timer (finish_run r s) = ch_timer s" "ch_backoff (finish_run r s) = ch_backoff s"
  "ch_sent (finish_run r s) = ch_sent s" "ch_starters (finish_run r s) = ch_starters s"
  by (simp_all add: finish_run_def)

lemma abort_current_fields [simp]:
  "ch_running (abort_current s) = ch_running s" "ch_timer (abort_current s) = ch_timer s" "ch_backoff (abort_current s) = ch_backoff s"
  "ch_sent (abort_current s) = ch_sent s" "ch_starters (abort_current s) = ch_starters s" "ch_runs (abort_current s) = ch_runs s"
  by (simp_all add: abort_current_def split: option.split)

lemma fold_frame_fields [simp]:
  "ch_running (fold (apply_frame fmt now) fs s) = ch_running s" "ch_timer (fold (apply_frame fmt now) fs s) = ch_timer s"
  "ch_backoff (fold (apply_frame fmt now) fs s) = ch_backoff s" "ch_sent (fold (apply_frame fmt now) fs s) = ch_sent s"
  "ch_starters (fold (apply_frame fmt now) fs s) = ch_starters s" "ch_runs (fold (apply_frame fmt now) fs s) = ch_runs s"
  by (induction fs arbitrary: s) (simp_all add: apply_frame_def split: option.split)

section \<open>The invariant\<close>

definition vetted :: "health_world \<Rightarrow> string \<Rightarrow> bool" where
  "vetted w u = (\<exists>raw. normalizeServiceEndpointUrl (hw_runtime w) raw = Some u)"

fun phase_url :: "run_phase \<Rightarrow> string" where
  "phase_url (WaitReady u) = u"
| "phase_url (ReadReady u) = u"
| "phase_url (WaitTasks u) = u"
| "phase_url (ReadTasks u) = u"
| "phase_url (WaitAuth u) = u"
| "phase_url (WaitStream u) = u"
| "phase_url (ReadStream u _) = u"

definition connects :: "health_world \<Rightarrow> bool" where
  "connects w = shouldAutoConnect (hw_runtime w) (hw_env w)"

definition sse_enabled :: "health_world \<Rightarrow> bool" where
  "sse_enabled w = (hw_env w ''AWP_ENABLE_CONNECTION_HEALTH_SSE'' = Some ''1'')"

text \<open>A stream run exists only with the opt-in, a polling run only without.\<close>

definition run_ok :: "health_world \<Rightarrow> health_run \<Rightarrow> bool" where
  "run_ok w r = (connects w \<and> vetted w (phase_url (ru_phase r)) \<and> is_poll (ru_phase r) = (\<not> sse_enabled w))"

definition request_ok :: "health_world \<Rightarrow> health_request \<Rightarrow> bool" where
  "request_ok w q =
     (connects w \<and> (\<exists>u. vetted w u \<and> (hr_url q = u \<and> (hr_auth q \<longrightarrow> sse_enabled w) \<or> hr_url q = hw_tasks_url w u \<and> has_token (hw_env w))))"

definition health_inv :: "health_world \<Rightarrow> health \<Rightarrow> bool" where
  "health_inv w s =
     (2000 \<le> ch_backoff s \<and> ch_backoff s \<le> 60000 \<and> (\<forall>t. ch_timer s = Some t \<longrightarrow> 2000 \<le> t \<and> t \<le> 60000 \<and> connects w \<and> ch_running s)
      \<and> (ch_starters s > 0 \<longrightarrow> connects w) \<and> list_all (run_ok w) (ch_runs s) \<and> list_all (request_ok w) (ch_sent s))"

lemma inv_merge [simp]: "health_inv w (mergeAndMaybeBroadcast now p s) = health_inv w s"
  by (simp add: health_inv_def)

lemma inv_schedule: "health_inv w s \<Longrightarrow> connects w \<Longrightarrow> 2000 \<le> cap \<Longrightarrow> cap \<le> 60000 \<Longrightarrow> health_inv w (scheduleReconnect cap s)"
  by (auto simp: health_inv_def scheduleReconnect_def min_def)

lemma inv_finish: "health_inv w s \<Longrightarrow> health_inv w (finish_run r s)"
  by (auto simp: health_inv_def finish_run_def list_all_iff)

lemma inv_set: "health_inv w s \<Longrightarrow> run_ok w r \<Longrightarrow> health_inv w (set_run r s)"
  by (auto simp: health_inv_def set_run_def list_all_iff)

lemma inv_send: "health_inv w s \<Longrightarrow> request_ok w \<lparr>hr_url = u, hr_auth = a\<rparr> \<Longrightarrow> health_inv w (send u a s)"
  by (auto simp: health_inv_def send_def)

lemma inv_abort [simp]: "health_inv w (abort_current s) = health_inv w s" "health_inv w (s\<lparr>ch_abort := x\<rparr>) = health_inv w s"
  by (simp_all add: health_inv_def)

lemma inv_backoff: "health_inv w s \<Longrightarrow> 2000 \<le> b \<Longrightarrow> b \<le> 60000 \<Longrightarrow> health_inv w (s\<lparr>ch_backoff := b\<rparr>)"
  by (simp add: health_inv_def)

lemma inv_frames [simp]: "health_inv w (fold (apply_frame fmt now) fs s) = health_inv w s"
  by (simp add: health_inv_def)

lemmas inv_intros = inv_schedule inv_finish inv_set inv_send inv_backoff

lemma run_ok_phase: "run_ok w r \<Longrightarrow> phase_url p = phase_url (ru_phase r) \<Longrightarrow> is_poll p = is_poll (ru_phase r) \<Longrightarrow> run_ok w (r\<lparr>ru_phase := p\<rparr>)"
  by (simp add: run_ok_def)

lemma run_ok_update [simp]:
  "run_ok w (r\<lparr>ru_signal := x\<rparr>) = run_ok w r" "run_ok w (r\<lparr>ru_timer := y\<rparr>) = run_ok w r" "run_ok w (r\<lparr>ru_timeout := z\<rparr>) = run_ok w r"
  by (simp_all add: run_ok_def)

lemmas caps = BACKOFF_CAP_MS_def BACKOFF_CAP_AUTH_MS_def CONTROL_PLANE_POLL_MS_def

lemma inv_run_failed: "health_inv w s \<Longrightarrow> run_ok w r \<Longrightarrow> health_inv w (run_failed now a m r s)"
  by (auto simp: run_failed_def run_ok_def caps intro!: inv_intros)

lemma inv_poll_succeeds: "health_inv w s \<Longrightarrow> run_ok w r \<Longrightarrow> health_inv w (poll_succeeds now h n e r s)"
  by (auto simp: poll_succeeds_def run_ok_def caps intro!: inv_intros)

lemma inv_ready_answer: "health_inv w s \<Longrightarrow> run_ok w r \<Longrightarrow> ru_phase r = WaitReady u \<Longrightarrow> health_inv w (ready_answer now st u r s)"
  by (auto simp: ready_answer_def caps is_poll_def intro!: inv_intros run_ok_phase) (simp_all add: run_ok_def)

lemma inv_ready_body:
  assumes "health_inv w s" "run_ok w r" "ru_phase r = ReadReady u"
  shows "health_inv w (ready_body (hw_env w) (hw_tasks_url w) h now b u r s)"
proof -
  have "run_ok w (r\<lparr>ru_phase := WaitTasks u, ru_signal := sig\<rparr>)" for sig using assms(2,3) by (simp add: run_ok_def is_poll_def)
  moreover have "has_token (hw_env w) \<Longrightarrow> request_ok w \<lparr>hr_url = hw_tasks_url w u, hr_auth = True\<rparr>"
    using assms(2,3) by (auto simp: run_ok_def request_ok_def)
  moreover have "connects w" using assms(2) by (simp add: run_ok_def)
  ultimately show ?thesis using assms
    by (auto simp: ready_body_def caps intro!: inv_run_failed inv_poll_succeeds inv_intros split: option.split)
qed

lemma inv_tasks_answer: "health_inv w s \<Longrightarrow> run_ok w r \<Longrightarrow> ru_phase r = WaitTasks u \<Longrightarrow> health_inv w (tasks_answer h now st u r s)"
  by (auto simp: tasks_answer_def is_poll_def intro!: inv_poll_succeeds inv_set run_ok_phase)

lemma inv_tasks_body: "health_inv w s \<Longrightarrow> run_ok w r \<Longrightarrow> health_inv w (tasks_body h now b u r s)"
  by (auto simp: tasks_body_def intro!: inv_poll_succeeds inv_run_failed split: option.split)

lemma inv_auth_ready:
  assumes "health_inv w s" "run_ok w r" "ru_phase r = WaitAuth u"
  shows "health_inv w (auth_ready a u r s)"
proof -
  have "run_ok w (r\<lparr>ru_phase := WaitStream u, ru_timer := t\<rparr>)" "request_ok w \<lparr>hr_url = u, hr_auth = a\<rparr>" for t
    using assms(2,3) by (auto simp: run_ok_def request_ok_def is_poll_def)
  then show ?thesis using assms(1) by (auto simp: auth_ready_def intro!: inv_send inv_set)
qed

lemma inv_stream_answer: "health_inv w s \<Longrightarrow> run_ok w r \<Longrightarrow> ru_phase r = WaitStream u \<Longrightarrow> health_inv w (stream_answer now st hb ct u r s)"
  by (auto simp: stream_answer_def caps intro!: inv_intros) (simp_all add: run_ok_def is_poll_def)

lemma inv_stream_chunk: "health_inv w s \<Longrightarrow> run_ok w r \<Longrightarrow> ru_phase r = ReadStream u buf \<Longrightarrow> health_inv w (stream_chunk fmt now c u buf r s)"
  by (auto simp: stream_chunk_def Let_def case_prod_unfold intro!: inv_run_failed inv_set) (simp add: run_ok_def is_poll_def)

lemma inv_stream_end: "health_inv w s \<Longrightarrow> run_ok w r \<Longrightarrow> health_inv w (stream_end now r s)"
  by (auto simp: stream_end_def caps run_ok_def intro!: inv_intros)

lemma inv_run_timer: "health_inv w s \<Longrightarrow> run_ok w r \<Longrightarrow> health_inv w (run_timer r s)"
  by (auto simp: run_timer_def intro!: inv_set split: option.split)

lemmas inv_handlers = inv_run_failed inv_ready_answer inv_ready_body inv_tasks_answer inv_tasks_body inv_auth_ready
  inv_stream_answer inv_stream_chunk inv_stream_end inv_run_timer

lemma inv_run_event: "health_inv w s \<Longrightarrow> run_ok w r \<Longrightarrow> health_inv w (run_event w now ev r s)"
  by (auto simp: run_event_def intro!: inv_handlers split: health_event.split run_phase.split)

lemma target_sse:
  "resolveConnectionTarget (hw_runtime w) (hw_env w) = Compat_sse u \<Longrightarrow> sse_enabled w"
  "resolveConnectionTarget (hw_runtime w) (hw_env w) = Control_plane_poll u \<Longrightarrow> \<not> sse_enabled w"
  by (auto simp: resolveConnectionTarget_def sse_enabled_def split: option.splits if_splits)

lemma inv_loop:
  assumes "health_inv w s" "connects w"
  shows "health_inv w (runConnectionLoop (hw_runtime w) (hw_env w) now s)"
proof (cases "resolveConnectionTarget (hw_runtime w) (hw_env w)")
  case (Control_plane_poll raw)
  note sse = target_sse(2) [OF this]
  have "run_ok w r" if "ru_phase r = WaitReady u" "normalizeServiceEndpointUrl (hw_runtime w) raw = Some u" for r u
    using that assms(2) sse by (auto simp: run_ok_def vetted_def is_poll_def)
  moreover have "request_ok w \<lparr>hr_url = u, hr_auth = False\<rparr>" if "normalizeServiceEndpointUrl (hw_runtime w) raw = Some u" for u
    using that assms(2) by (auto simp: request_ok_def vetted_def)
  ultimately show ?thesis using assms(1) Control_plane_poll
    by (auto simp: runConnectionLoop_def begin_poll_def intro!: inv_send split: option.split) (auto simp: health_inv_def)
next
  case (Compat_sse raw)
  note sse = target_sse(1) [OF this]
  have "run_ok w r" if "ru_phase r = WaitAuth u" "normalizeServiceEndpointUrl (hw_runtime w) raw = Some u" for r u
    using that assms(2) sse by (auto simp: run_ok_def vetted_def is_poll_def)
  then show ?thesis using assms(1) Compat_sse
    by (auto simp: runConnectionLoop_def begin_sse_def split: option.split) (auto simp: health_inv_def)
qed (use assms in \<open>simp add: runConnectionLoop_def\<close>)

lemma inv_start: "health_inv w s \<Longrightarrow> health_inv w (startConnectionHealth (hw_dup_throws w) (hw_runtime w) (hw_env w) now s)"
proof -
  assume i: "health_inv w s"
  have "health_inv w (s\<lparr>ch_running := True\<rparr>)" "health_inv w (s\<lparr>ch_running := True, ch_registered := True, ch_snapshot := x\<rparr>)" for x
    using i by (auto simp: health_inv_def)
  moreover have "connects w \<Longrightarrow> health_inv w (s\<lparr>ch_running := True, ch_registered := True, ch_snapshot := x, ch_starters := n\<rparr>)" for x n using i by (auto simp: health_inv_def)
  ultimately show ?thesis using i by (auto simp: startConnectionHealth_def Let_def connects_def)
qed

lemma inv_stop: "health_inv w s \<Longrightarrow> health_inv w (stopConnectionHealth s)"
  by (auto simp: stopConnectionHealth_def) (auto simp: health_inv_def)

lemma inv_step: "health_inv w s \<Longrightarrow> health_inv w (health_step w now ev s)"
proof (cases "run_of ev")
  case (Some i)
  assume inv: "health_inv w s"
  show ?thesis
  proof (cases "find_run i s")
    case r: (Some r)
    then have "r \<in> set (ch_runs s)" by (auto simp: find_run_def find_Some_iff)
    with inv have "run_ok w r" by (auto simp: health_inv_def list_all_iff)
    with inv Some r show ?thesis by (simp add: health_step_def inv_run_event)
  qed (use Some inv in \<open>simp add: health_step_def\<close>)
next
  case None
  assume inv: "health_inv w s"
  have "health_inv w (s\<lparr>ch_starters := ch_starters s - 1\<rparr>)" "ch_starters s > 0 \<Longrightarrow> connects w" using inv by (auto simp: health_inv_def)
  then have starter: "health_inv w (health_step w now Starter_fires s)" using inv by (auto simp: health_step_def Let_def intro: inv_loop)
  have "health_inv w (s\<lparr>ch_timer := None\<rparr>)" "ch_timer s = Some t \<Longrightarrow> connects w" for t using inv by (auto simp: health_inv_def)
  then have reconnect: "health_inv w (health_step w now Reconnect_fires s)" using inv by (auto simp: health_step_def intro: inv_loop split: option.split)
  show ?thesis using None starter reconnect inv_start [OF inv] inv_stop [OF inv] by (cases ev) (simp_all add: health_step_def)
qed

definition health_moves :: "health_world \<Rightarrow> health \<Rightarrow> health \<Rightarrow> bool" where
  "health_moves w s s' = (\<exists>now ev. s' = health_step w now ev s)"

interpretation health: step_invariant init_health "health_moves w" "health_inv w" for w
  by unfold_locales (auto simp: health_moves_def inv_step, simp add: health_inv_def init_health_def)


definition health_base :: url where
  "health_base = \<lparr>url_href = ''https://s.test/'', url_protocol = ''https:'', url_username = [], url_password = [],
     url_hostname = ''s.test'', url_port = [], url_pathname = ''/'', url_search = [], url_hash = [], url_origin = ''https://s.test''\<rparr>"

definition stream_world :: health_world where
  "stream_world = \<lparr>
     hw_runtime = \<lparr>new_URL = (\<lambda>v. if starts_with v ''https://s.test'' then Some health_base else None), clear_hash = (\<lambda>u. u), decodeURIComponent = Some\<rparr>,
     hw_env = map_of [(''AWP_ENABLE_CONNECTION_HEALTH_SSE'', ''1''), (''AWP_CONNECTION_HEALTH_SSE_URL'', ''https://s.test/'')],
     hw_fmt = (\<lambda>_. []), hw_tasks_url = (\<lambda>_. ''https://s.test/v1/tasks''), hw_host = (\<lambda>_. ''s.test''), hw_dup_throws = True\<rparr>"

definition stream_opened :: health where
  "stream_opened = health_run_all stream_world [(0, Start), (1000, Starter_fires), (1001, Auth_ready 0 True)] init_health"

lemma run_all_reachable: "rtranclp (health_moves w) s (health_run_all w evs s)"
proof (induction evs arbitrary: s)
  case (Cons e evs)
  have "health_moves w s (health_step w (fst e) (snd e) s)" by (auto simp: health_moves_def)
  with Cons.IH [of "health_step w (fst e) (snd e) s"] show ?case by (auto simp: health_run_all_def case_prod_unfold intro: converse_rtranclp_into_rtranclp)
qed (simp add: health_run_all_def)

lemma stream_vetted: "normalizeServiceEndpointUrl (hw_runtime stream_world) ''https://s.test/'' = Some ''https://s.test/''"
  by code_simp

lemma stream_target: "resolveConnectionTarget (hw_runtime stream_world) (hw_env stream_world) = Compat_sse ''https://s.test/''"
  using stream_vetted by (simp add: resolveConnectionTarget_def stream_world_def or_undefined_def)

lemma stream_starts: "shouldAutoConnect (hw_runtime stream_world) (hw_env stream_world)"
  by (simp add: shouldAutoConnect_def stream_target disabled_target_def) (simp add: stream_world_def)

lemmas stream_steps = health_run_all_def health_step_def startConnectionHealth_def stream_starts stream_target disabled_target_def
  runConnectionLoop_def begin_sse_def stream_vetted find_run_def run_event_def auth_ready_def send_def set_run_def init_health_def

lemma stream_opened_fields:
  "ch_sent stream_opened = [\<lparr>hr_url = ''https://s.test/'', hr_auth = True\<rparr>]"
  "ch_runs stream_opened = [\<lparr>ru_id = 0, ru_phase = WaitStream ''https://s.test/'', ru_signal = 0, ru_timer = Some ''sse-handshake-timeout'', ru_timeout = None\<rparr>]"
  "ch_registered stream_opened" "ch_running stream_opened" "ch_starters stream_opened = 0"
  by (simp_all add: stream_opened_def stream_steps)


section \<open>After a stop\<close>

lemma loop_stopped: "\<not> ch_running s \<Longrightarrow> ch_sent (runConnectionLoop rt env now s) = ch_sent s"
  by (auto simp: runConnectionLoop_def begin_poll_def begin_sse_def split: ConnectionTarget.split)

lemma start_sent: "ch_sent (startConnectionHealth d rt env now s) = ch_sent s"
  by (simp add: startConnectionHealth_def Let_def)

lemma stop_sent: "ch_sent (stopConnectionHealth s) = ch_sent s"
  by (simp add: stopConnectionHealth_def)

lemma handler_sent [simp]:
  "ch_sent (run_failed now a m r s) = ch_sent s" "ch_sent (ready_answer now st u r s) = ch_sent s"
  "ch_sent (poll_succeeds now h n e r s) = ch_sent s" "ch_sent (tasks_answer hf now st u r s) = ch_sent s"
  "ch_sent (tasks_body hf now b u r s) = ch_sent s" "ch_sent (stream_answer now st hb ct u r s) = ch_sent s"
  "ch_sent (stream_chunk fmt now c u buf r s) = ch_sent s" "ch_sent (stream_end now r s) = ch_sent s" "ch_sent (run_timer r s) = ch_sent s"
  by (simp_all add: run_failed_def ready_answer_def poll_succeeds_def tasks_answer_def tasks_body_def stream_answer_def stream_chunk_def
      stream_end_def run_timer_def case_prod_unfold Let_def split: option.split)

lemma ready_body_stopped: "ch_abort s = None \<Longrightarrow> ch_sent (ready_body env tu h now b u r s) = ch_sent s"
  by (simp add: ready_body_def split: option.split)

lemma auth_ready_sent: "ch_sent (auth_ready a u r s) = ch_sent s @ [\<lparr>hr_url = u, hr_auth = a\<rparr>]"
  by (simp add: auth_ready_def send_def)

lemma run_event_stopped:
  assumes "ch_abort s = None"
  shows "ch_sent (run_event w now ev r s) =
    ch_sent s @ (case (ev, ru_phase r) of (Auth_ready _ auth, WaitAuth u) \<Rightarrow> [\<lparr>hr_url = u, hr_auth = auth\<rparr>] | _ \<Rightarrow> [])"
  using assms by (cases ev; cases "ru_phase r") (simp_all add: run_event_def ready_body_stopped auth_ready_sent)

text \<open>
  C37. While the monitor is stopped a request is sent in one case only: a stream run whose credentials arrive
  after the stop.  That run does open its stream.
\<close>

theorem request_after_stop:
  assumes "\<not> ch_running s" "ch_abort s = None"
  shows "ch_sent (health_step w now ev s) =
    ch_sent s @ (case ev of Auth_ready i auth \<Rightarrow>
        (case find_run i s of Some r \<Rightarrow> (case ru_phase r of WaitAuth u \<Rightarrow> [\<lparr>hr_url = u, hr_auth = auth\<rparr>] | _ \<Rightarrow> []) | None \<Rightarrow> [])
      | _ \<Rightarrow> [])"
proof (cases "run_of ev")
  case (Some i)
  then show ?thesis using assms(2) by (cases ev) (auto simp: health_step_def run_event_stopped split: option.split run_phase.split)
next
  case None
  then show ?thesis using assms(1) by (cases ev) (auto simp: health_step_def start_sent stop_sent Let_def loop_stopped split: option.split)
qed

definition stopped_waiting :: health where
  "stopped_waiting = health_run_all stream_world [(0, Start), (1000, Starter_fires), (1001, Stop)] init_health"

theorem request_after_stop_witness:
  "\<not> ch_running stopped_waiting \<and> ch_sent stopped_waiting = []
   \<and> ch_sent (health_step stream_world 1002 (Auth_ready 0 True) stopped_waiting) = [\<lparr>hr_url = ''https://s.test/'', hr_auth = True\<rparr>]"
proof -
  note steps = stopped_waiting_def stream_steps stopConnectionHealth_def abort_current_def
  have stopped: "\<not> ch_running stopped_waiting" "ch_abort stopped_waiting = None" "ch_sent stopped_waiting = []" by (simp_all add: steps)
  have "map_option ru_phase (find_run 0 stopped_waiting) = Some (WaitAuth ''https://s.test/'')" by (simp add: steps)
  with stopped(3) request_after_stop [OF stopped(1,2), of stream_world 1002 "Auth_ready 0 True"] stopped(1) show ?thesis
    by (auto split: option.splits)
qed

section \<open>A second start\<close>

definition quiet :: "health \<Rightarrow> bool" where
  "quiet s = (ch_registered s \<and> ch_timer s = None \<and> ch_starters s = 0 \<and> ch_runs s = [])"

lemma quiet_step: "hw_dup_throws w \<Longrightarrow> quiet s \<Longrightarrow> quiet (health_step w now ev s) \<and> ch_sent (health_step w now ev s) = ch_sent s"
  by (cases ev) (simp_all add: quiet_def health_step_def find_run_def startConnectionHealth_def stopConnectionHealth_def abort_current_def split: option.split)

lemma quiet_run: "rtranclp (health_moves w) s s' \<Longrightarrow> hw_dup_throws w \<Longrightarrow> quiet s \<Longrightarrow> quiet s' \<and> ch_sent s' = ch_sent s"
  by (induction rule: rtranclp_induct) (auto simp: health_moves_def dest: quiet_step)

text \<open>
  A monitor that was started once and is stopped while no request is under way never connects again: the
  handler it registered stays, so a second start throws after setting its flag and every later one returns
  at once.
\<close>

theorem restart_never_connects:
  assumes "hw_dup_throws w" "ch_registered s" "ch_running s" "ch_starters s = 0" "ch_runs s = []"
    and "rtranclp (health_moves w) (stopConnectionHealth s) s'"
  shows "ch_sent s' = ch_sent s \<and> ch_timer s' = None"
proof -
  have "quiet (stopConnectionHealth s)"
    using assms(2-5) by (simp add: quiet_def stopConnectionHealth_def) (simp add: abort_current_def split: option.split)
  from quiet_run [OF assms(6) assms(1) this] show ?thesis by (simp add: stop_sent quiet_def)
qed

abbreviation opened_run :: health_run where
  "opened_run \<equiv> hd (ch_runs stream_opened)"

lemma stream_rejected: "health_step stream_world 2000 (Rejected 0 ''down'') stream_opened = run_failed 2000 False ''down'' opened_run stream_opened"
  by (simp add: health_step_def find_run_def stream_opened_fields run_event_def run_message_def stream_message_def is_poll_def)

lemma run_failed_idle:
  "ch_runs (run_failed now a m r s) = filter (\<lambda>q. ru_id q \<noteq> ru_id r) (ch_runs s)" "ch_registered (run_failed now a m r s) = ch_registered s"
  "ch_running (run_failed now a m r s) = ch_running s" "ch_starters (run_failed now a m r s) = ch_starters s"
  by (simp_all add: run_failed_def finish_run_def scheduleReconnect_def mergeAndMaybeBroadcast_def)

theorem restart_never_connects_witness:
  "ch_sent (health_run_all stream_world [(3000, Start), (4000, Starter_fires), (4001, Reconnect_fires)]
     (stopConnectionHealth (health_step stream_world 2000 (Rejected 0 ''down'') stream_opened))) = [\<lparr>hr_url = ''https://s.test/'', hr_auth = True\<rparr>]"
proof -
  let ?s = "run_failed 2000 False ''down'' opened_run stream_opened"
  have "ch_registered ?s" "ch_running ?s" "ch_starters ?s = 0" "ch_runs ?s = []" "hw_dup_throws stream_world"
    by (simp_all add: stream_world_def run_failed_idle stream_opened_fields)
  with restart_never_connects [of stream_world ?s, OF _ _ _ _ _ run_all_reachable] show ?thesis by (simp add: stream_rejected stream_opened_fields)
qed

end
