(* ===== verification/TraceCollector.thy ===== *)
theory TraceCollector
  imports JsonPretty "HOL-Library.AList"
begin

text \<open>
  The opt-in trace collector of the main process (\<open>electron/services/trace-collector.ts\<close>): the
  scrubbing of strings and of object graphs, the bounded event line, the rotation of the
  trace files and the wrapper of tool calls.  Objects live in a heap, so graphs may share and be
  cyclic; properties are plain data (no getters, no proxies).
\<close>

section \<open>Replacing matches of a pattern\<close>

text \<open>
  A matcher sees the character before the position and the text from it on, and returns
  the length of the match and its replacement.
\<close>

type_synonym matcher = "char option \<Rightarrow> string \<Rightarrow> (nat \<times> string) option"

function replace_all :: "matcher \<Rightarrow> char option \<Rightarrow> string \<Rightarrow> string" where
  "replace_all m prev [] = []"
| "replace_all m prev (c # cs) =
     (case m prev (c # cs) of
        Some (Suc n, r) \<Rightarrow> r @ replace_all m (Some ((c # cs) ! min n (length cs))) (drop n cs)
      | _ \<Rightarrow> c # replace_all m (Some c) cs)"
  by pat_completeness auto
termination by (relation "measure (\<lambda>(m, b, s). length s)") auto

definition is_word :: "char option \<Rightarrow> bool" where
  "is_word c = (case c of Some x \<Rightarrow> is_alnum x \<or> x = CHR ''_'' | None \<Rightarrow> False)"

definition char_at :: "string \<Rightarrow> nat \<Rightarrow> char option" where
  "char_at s n = (if n < length s then Some (s ! n) else None)"

text \<open>\<open>\b\<close>\<close>

definition boundary :: "char option \<Rightarrow> char option \<Rightarrow> bool" where
  "boundary a b = (is_word a \<noteq> is_word b)"

text \<open>\<open>[A-Za-z0-9_-]\<close>\<close>

definition token_char :: "char \<Rightarrow> bool" where
  "token_char c = (is_alnum c \<or> c = CHR ''_'' \<or> c = CHR ''-'')"

text \<open>\<open>[A-Za-z0-9_-]{k,}\b\<close> from a position on: the longest run of at least \<open>k\<close> characters that ends at a boundary.\<close>

definition token_run :: "nat \<Rightarrow> string \<Rightarrow> nat option" where
  "token_run k s =
     find (\<lambda>n. 0 < n \<and> boundary (char_at s (n - 1)) (char_at s n)) (rev [k..<Suc (length (takeWhile token_char s))])"

definition REDACTED :: string where
  "REDACTED = ''[REDACTED]''"

text \<open>\<open>/\bBearer\s+[^\s,;]+/giu\<close>\<close>

definition bearer :: matcher where
  "bearer prev s =
     (if is_word prev \<or> \<not> starts_with (to_lower (take 6 s)) ''bearer'' then None
      else let r = drop 6 s; ws = takeWhile is_ws r; body = takeWhile (\<lambda>c. \<not> is_ws c \<and> c \<noteq> CHR '','' \<and> c \<noteq> CHR '';'') (dropWhile is_ws r)
           in if ws \<noteq> [] \<and> body \<noteq> [] then Some (6 + length ws + length body, ''Bearer '' @ REDACTED) else None)"

text \<open>\<open>/\bey[A-Za-z0-9_-]{8,}\.[A-Za-z0-9_-]{8,}\.[A-Za-z0-9_-]{8,}\b/gu\<close>\<close>

definition jwt_part :: "string \<Rightarrow> (nat \<times> string) option" where
  "jwt_part s =
     (let part = takeWhile token_char s; r = dropWhile token_char s
      in if 8 \<le> length part \<and> starts_with r ''.'' then Some (length part + 1, drop 1 r) else None)"

definition jwt :: matcher where
  "jwt prev s =
     (if \<not> is_word prev \<and> starts_with s ''ey''
      then (case jwt_part (drop 2 s) of
              None \<Rightarrow> None
            | Some (a, r) \<Rightarrow>
                (case jwt_part r of
                   None \<Rightarrow> None
                 | Some (b, r') \<Rightarrow> map_option (\<lambda>c. (2 + a + b + c, REDACTED)) (token_run 8 r')))
      else None)"

text \<open>\<open>/\bsk-[A-Za-z0-9_-]{12,}\b/gu\<close>\<close>

definition api_key :: matcher where
  "api_key prev s =
     (if \<not> is_word prev \<and> starts_with s ''sk-''
      then map_option (\<lambda>n. (3 + n, REDACTED)) (token_run 12 (drop 3 s)) else None)"

text \<open>\<open>/\b[A-Za-z0-9_-]{48,}\b/gu\<close>\<close>

definition long_run :: matcher where
  "long_run prev s =
     (if boundary prev (char_at s 0) then map_option (\<lambda>n. (n, REDACTED)) (token_run 48 s) else None)"

text \<open>\<open>/([?&][^=&#\s]{1,64}=)[^&#\s]*/gu\<close>\<close>

definition query_value :: matcher where
  "query_value prev s =
     (case s of
        [] \<Rightarrow> None
      | c # cs \<Rightarrow>
          if c \<noteq> CHR ''?'' \<and> c \<noteq> CHR ''&'' then None
          else let name = takeWhile (\<lambda>x. x \<noteq> CHR ''='' \<and> x \<noteq> CHR ''&'' \<and> x \<noteq> CHR ''#'' \<and> \<not> is_ws x) cs;
                   r = drop (length name) cs;
                   val = takeWhile (\<lambda>x. x \<noteq> CHR ''&'' \<and> x \<noteq> CHR ''#'' \<and> \<not> is_ws x) (drop 1 r)
               in if 1 \<le> length name \<and> length name \<le> 64 \<and> starts_with r ''=''
                  then Some (2 + length name + length val, (c # name) @ ''='' @ REDACTED) else None)"

section \<open>Scrubbing\<close>

definition MAX_TRACE_DEPTH :: nat where "MAX_TRACE_DEPTH = 6"
definition MAX_TRACE_OBJECT_KEYS :: nat where "MAX_TRACE_OBJECT_KEYS = 100"
definition MAX_TRACE_ARRAY_ITEMS :: nat where "MAX_TRACE_ARRAY_ITEMS = 50"
definition MAX_TRACE_STRING_CHARS :: nat where "MAX_TRACE_STRING_CHARS = 4096"

definition sensitive_terms :: "string list" where
  "sensitive_terms = [''token'', ''password'', ''passwd'', ''secret'', ''credential'', ''authorization'', ''cookie'', ''apikey'', ''privatekey'']"

definition isSensitiveKey :: "string \<Rightarrow> bool" where
  "isSensitiveKey key = list_ex (str_includes (filter (\<lambda>c. is_lower c \<or> is_digit c) (to_lower key))) sensitive_terms"

definition privateKeyMarker :: string where
  "privateKeyMarker = ''-----BEGIN '' @ ''PRIVATE KEY-----''"

definition scrub_patterns :: "string \<Rightarrow> string" where
  "scrub_patterns s =
     replace_all query_value None (replace_all long_run None (replace_all api_key None (replace_all jwt None (replace_all bearer None s))))"

definition js_nat :: "nat \<Rightarrow> jsval" where
  "js_nat n = Num (Fin (of_nat n))"

definition scrubTraceString :: "string \<Rightarrow> jsval" where
  "scrubTraceString s =
     (if str_includes s privateKeyMarker then Str REDACTED
      else let scrubbed = scrub_patterns s
           in if length scrubbed > MAX_TRACE_STRING_CHARS
              then Obj [(''_truncated_from_chars'', js_nat (length s)), (''head'', Str (take MAX_TRACE_STRING_CHARS scrubbed))]
              else Str scrubbed)"

text \<open>
  Values as the collector meets them: an object is a reference into the heap or a literal
  nothing else refers to.  \<open>TOther\<close> is a function or a symbol, with its \<open>typeof\<close>.
\<close>

datatype tval =
    TUndefined | TNull | TBool bool | TNum jsnum | TStr string | TBigint string | TOther string
  | TRef nat | TInline tobj
and tobj = TError tval tval | TArray "tval list" | TObject "(string \<times> tval) list"

type_synonym theap = "nat \<Rightarrow> tobj"

text \<open>\<open>scrubTraceString\<close> of an arbitrary value: only strings have both \<open>includes\<close> and \<open>replace\<close>, anything else is a type error.\<close>

definition scrub_text :: "tval \<Rightarrow> jsval option" where
  "scrub_text v = (case v of TStr s \<Rightarrow> Some (scrubTraceString s) | _ \<Rightarrow> None)"

definition num_text :: "jsnum \<Rightarrow> jsval" where
  "num_text n = (case n of NaN \<Rightarrow> Str ''NaN'' | PosInfinity \<Rightarrow> Str ''Infinity'' | NegInfinity \<Rightarrow> Str ''-Infinity'' | Fin q \<Rightarrow> Num (Fin q))"

text \<open>\<open>output[key] = v\<close>: the key \<open>__proto__\<close> makes no own property.\<close>

definition own :: "string \<times> jsval \<Rightarrow> (string \<times> jsval) list \<Rightarrow> (string \<times> jsval) list" where
  "own kv out = (if fst kv = ''__proto__'' then out else AList.update (fst kv) (snd kv) out)"

definition scrub_entry :: "(tval \<Rightarrow> jsval option) \<Rightarrow> string \<times> tval \<Rightarrow> (string \<times> jsval) option" where
  "scrub_entry f kv = (if isSensitiveKey (fst kv) then Some (fst kv, Str REDACTED) else map_option (Pair (fst kv)) (f (snd kv)))"

definition scrub_object :: "(tval \<Rightarrow> jsval option) \<Rightarrow> tobj \<Rightarrow> jsval option" where
  "scrub_object f ob =
     (case ob of
        TError n m \<Rightarrow>
          (case scrub_text n of
             None \<Rightarrow> None
           | Some n' \<Rightarrow> map_option (\<lambda>m'. Obj [(''name'', n'), (''message'', m')]) (scrub_text m))
      | TArray vs \<Rightarrow>
          map_option (\<lambda>ws. Arr (ws @ (if length vs > MAX_TRACE_ARRAY_ITEMS
                                      then [Obj [(''_truncated_items'', js_nat (length vs - MAX_TRACE_ARRAY_ITEMS))]] else [])))
            (those (map f (take MAX_TRACE_ARRAY_ITEMS vs)))
      | TObject es \<Rightarrow>
          map_option (\<lambda>kvs. Obj (let out = fold own kvs []
                                 in if length es > MAX_TRACE_OBJECT_KEYS
                                    then AList.update ''_truncated_keys'' (js_nat (length es - MAX_TRACE_OBJECT_KEYS)) out else out))
            (those (map (scrub_entry f) (take MAX_TRACE_OBJECT_KEYS es))))"

text \<open>The first argument is what is left of the depth; \<open>None\<close> is the type error above.\<close>

fun scrub_at :: "nat \<Rightarrow> theap \<Rightarrow> nat list \<Rightarrow> tval \<Rightarrow> jsval option" where
  "scrub_at left h seen v =
     (case v of
        TUndefined \<Rightarrow> Some Undefined
      | TNull \<Rightarrow> Some Null
      | TBool b \<Rightarrow> Some (Bool b)
      | TNum n \<Rightarrow> Some (num_text n)
      | TStr s \<Rightarrow> Some (scrubTraceString s)
      | TBigint s \<Rightarrow> Some (Str s)
      | TOther ty \<Rightarrow> Some (Str (''['' @ ty @ '']''))
      | TRef a \<Rightarrow>
          (case left of
             0 \<Rightarrow> Some (Str ''[MAX_DEPTH]'')
           | Suc n \<Rightarrow> if a \<in> set seen then Some (Str ''[CIRCULAR]'') else scrub_object (scrub_at n h (a # seen)) (h a))
      | TInline ob \<Rightarrow>
          (case left of
             0 \<Rightarrow> Some (Str ''[MAX_DEPTH]'')
           | Suc n \<Rightarrow> scrub_object (scrub_at n h seen) ob))"

declare scrub_at.simps [simp del]

definition scrubTraceValue :: "theap \<Rightarrow> tval \<Rightarrow> jsval option" where
  "scrubTraceValue h v = scrub_at MAX_TRACE_DEPTH h [] v"

section \<open>The line of an event\<close>

text \<open>\<open>JSON.stringify\<close> with the number format of the runtime as an argument.\<close>

fun stringify :: "(rat \<Rightarrow> string) \<Rightarrow> jsval \<Rightarrow> string"
  and stringify_elements :: "(rat \<Rightarrow> string) \<Rightarrow> bool \<Rightarrow> jsval list \<Rightarrow> string"
  and stringify_members :: "(rat \<Rightarrow> string) \<Rightarrow> bool \<Rightarrow> (string \<times> jsval) list \<Rightarrow> string" where
  "stringify fmt Undefined = ''null''"
| "stringify fmt Null = ''null''"
| "stringify fmt (Bool b) = (if b then ''true'' else ''false'')"
| "stringify fmt (Num n) = (case n of Fin q \<Rightarrow> fmt q | _ \<Rightarrow> ''null'')"
| "stringify fmt (Str s) = quote_string s"
| "stringify fmt (Arr vs) = CHR ''['' # stringify_elements fmt True vs"
| "stringify fmt (Obj kvs) = CHR ''{'' # stringify_members fmt True kvs"
| "stringify_elements fmt first [] = '']''"
| "stringify_elements fmt first (v # vs) = (if first then [] else '','') @ stringify fmt v @ stringify_elements fmt False vs"
| "stringify_members fmt first [] = ''}''"
| "stringify_members fmt first ((k, v) # kvs) =
     (if v = Undefined then stringify_members fmt first kvs
      else (if first then [] else '','') @ quote_string k @ CHR '':'' # stringify fmt v @ stringify_members fmt False kvs)"

record TraceEvent =
  tv_event_id :: string
  tv_conv_id :: "string option"
  tv_correlation_id :: "string option"
  tv_kind :: string
  tv_seq :: "nat option"
  tv_now :: nat
  tv_payload :: tval

definition MAX_EVENT_PAYLOAD_BYTES :: nat where "MAX_EVENT_PAYLOAD_BYTES = 256 * 1024"

text \<open>\<open>String(scrubTraceString(s))\<close>: a string that was cut is an object by then.\<close>

definition scrub_label :: "string \<Rightarrow> string" where
  "scrub_label s = (case scrubTraceString s of Str t \<Rightarrow> t | _ \<Rightarrow> ''[object Object]'')"

definition scrub_id :: "string option \<Rightarrow> jsval" where
  "scrub_id v = (case v of Some (c # cs) \<Rightarrow> Str (scrub_label (c # cs)) | _ \<Rightarrow> Undefined)"

definition event_object :: "TraceEvent \<Rightarrow> jsval \<Rightarrow> jsval" where
  "event_object ev payload =
     Obj [(''event_id'', Str (tv_event_id ev)), (''conv_id'', scrub_id (tv_conv_id ev)), (''correlation_id'', scrub_id (tv_correlation_id ev)),
          (''source'', Str ''desktop''), (''kind'', Str (scrub_label (tv_kind ev))),
          (''seq'', case tv_seq ev of Some n \<Rightarrow> js_nat n | None \<Rightarrow> Undefined),
          (''ts'', Num (Fin (of_nat (tv_now ev) / 1000))), (''payload'', payload)]"

definition event_body :: "(rat \<Rightarrow> string) \<Rightarrow> theap \<Rightarrow> TraceEvent \<Rightarrow> string option" where
  "event_body fmt h ev =
     map_option (\<lambda>payload.
       (let body = stringify fmt (event_object ev payload)
        in if byteLength body > MAX_EVENT_PAYLOAD_BYTES
           then stringify fmt (event_object ev (Obj [(''_truncated_from_bytes'', js_nat (byteLength body)),
                  (''_kind_was'', Str (scrub_label (tv_kind ev))), (''summary'', Str ''payload exceeded local trace cap'')]))
           else body))
       (scrubTraceValue h (tv_payload ev))"

section \<open>The trace files\<close>

text \<open>
  The directory as its entries in the order of \<open>readdir\<close>.  Any of the calls may fail; the
  failures of one operation are an argument.
\<close>

type_synonym trace_dir = "(string \<times> string) list"

record disk_faults =
  df_mkdir :: bool
  df_stat :: bool
  df_rename :: bool
  df_readdir :: bool
  df_unlink :: "string \<Rightarrow> bool"
  df_append :: bool

definition MAX_FILE_BYTES :: nat where "MAX_FILE_BYTES = 8 * 1024 * 1024"
definition MAX_BACKUP_FILES :: nat where "MAX_BACKUP_FILES = 3"

definition CURRENT :: string where
  "CURRENT = ''current.jsonl''"

definition is_backup :: "string \<Rightarrow> bool" where
  "is_backup name = (starts_with name ''current.jsonl.'' \<and> ends_with name ''.bak'')"

text \<open>The default order of \<open>sort\<close>: by code units.\<close>

fun compare_text :: "string \<Rightarrow> string \<Rightarrow> int" where
  "compare_text [] [] = 0"
| "compare_text [] (b # bs) = -1"
| "compare_text (a # as) [] = 1"
| "compare_text (a # as) (b # bs) = (if code a < code b then -1 else if code b < code a then 1 else compare_text as bs)"

definition rename :: "string \<Rightarrow> string \<Rightarrow> trace_dir \<Rightarrow> trace_dir" where
  "rename from to d = (case map_of d from of Some t \<Rightarrow> AList.update to t (AList.delete from d) | None \<Rightarrow> d)"

definition prune_backups :: "disk_faults \<Rightarrow> trace_dir \<Rightarrow> trace_dir" where
  "prune_backups flt d =
     (let backups = sort_cmp compare_text (filter is_backup (map fst d))
      in fold (\<lambda>name d. if df_unlink flt name then d else AList.delete name d) (take (length backups - MAX_BACKUP_FILES) backups) d)"

text \<open>\<open>stamp\<close> is the time and the random part of the backup's name.\<close>

definition backup_name :: "string \<Rightarrow> string" where
  "backup_name stamp = CURRENT @ ''.'' @ stamp @ ''.bak''"

definition rotateIfNeeded :: "disk_faults \<Rightarrow> string \<Rightarrow> trace_dir \<Rightarrow> trace_dir" where
  "rotateIfNeeded flt stamp d =
     (case map_of d CURRENT of
        None \<Rightarrow> d
      | Some t \<Rightarrow>
          if df_stat flt \<or> byteLength t < MAX_FILE_BYTES then d
          else if df_rename flt then d
          else let d' = rename CURRENT (backup_name stamp) d in if df_readdir flt then d' else prune_backups flt d')"

definition append_line :: "disk_faults \<Rightarrow> string \<Rightarrow> trace_dir \<Rightarrow> trace_dir" where
  "append_line flt body d =
     (if df_append flt then d
      else AList.update CURRENT ((case map_of d CURRENT of Some t \<Rightarrow> t | None \<Rightarrow> []) @ body @ [CHR 0x0A]) d)"

record trace =
  tr_dir :: trace_dir
  tr_counts :: "(string \<times> nat) list"
  tr_seqs :: "(string \<times> nat) list"

record trace_env =
  tx_enabled :: bool
  tx_fmt :: "rat \<Rightarrow> string"
  tx_heap :: theap
  tx_faults :: disk_faults
  tx_stamp :: string
  tx_now :: nat
  tx_uuid :: string
  tx_type_error :: string

definition appendTraceEvent :: "trace_env \<Rightarrow> TraceEvent \<Rightarrow> trace \<Rightarrow> trace" where
  "appendTraceEvent en ev s =
     (if \<not> tx_enabled en \<or> df_mkdir (tx_faults en) then s
      else let d = rotateIfNeeded (tx_faults en) (tx_stamp en) (tr_dir s)
           in case event_body (tx_fmt en) (tx_heap en) ev of
                None \<Rightarrow> s\<lparr>tr_dir := d\<rparr>
              | Some body \<Rightarrow> s\<lparr>tr_dir := append_line (tx_faults en) body d\<rparr>)"

section \<open>Recording\<close>

fun hex_text :: "nat \<Rightarrow> string" where
  "hex_text n = (if n < 16 then [hex_digit n] else hex_text (n div 16) @ [hex_digit (n mod 16)])"

declare hex_text.simps [simp del]

definition padStart :: "nat \<Rightarrow> char \<Rightarrow> string \<Rightarrow> string" where
  "padStart n c s = replicate (n - length s) c @ s"

definition newEventId :: "trace_env \<Rightarrow> string" where
  "newEventId en = padStart 16 (CHR ''0'') (hex_text (tx_now en)) @ take 12 (filter (\<lambda>c. c \<noteq> CHR ''-'') (tx_uuid en))"

definition recordEvent :: "trace_env \<Rightarrow> string \<Rightarrow> tval \<Rightarrow> string option \<Rightarrow> string option \<Rightarrow> trace \<Rightarrow> trace" where
  "recordEvent en kind payload convId correlationId s =
     (if \<not> tx_enabled en then s
      else appendTraceEvent en \<lparr>tv_event_id = newEventId en, tv_conv_id = convId, tv_correlation_id = correlationId, tv_kind = kind,
             tv_seq = None, tv_now = tx_now en, tv_payload = payload\<rparr> s)"

definition MAX_EMITS_PER_KIND :: nat where "MAX_EMITS_PER_KIND = 10"

definition count_of :: "string \<Rightarrow> (string \<times> nat) list \<Rightarrow> nat" where
  "count_of k m = (case map_of m k of Some n \<Rightarrow> n | None \<Rightarrow> 0)"

text \<open>\<open>entries\<close> are the own properties of the payload.\<close>

definition recordEventCapped :: "trace_env \<Rightarrow> string \<Rightarrow> (string \<times> tval) list \<Rightarrow> string option \<Rightarrow> string option \<Rightarrow> trace \<Rightarrow> trace" where
  "recordEventCapped en kind entries convId correlationId s =
     (let count = count_of kind (tr_counts s) + 1
      in if \<not> tx_enabled en \<or> count > MAX_EMITS_PER_KIND then s
         else recordEvent en kind (TInline (TObject (AList.update ''emit_seq'' (TNum (Fin (of_nat count))) entries))) convId correlationId
                (s\<lparr>tr_counts := AList.update kind count (tr_counts s)\<rparr>))"

section \<open>Tool calls\<close>

text \<open>A scrubbed value as a value of the program; the runtime chooses the text of a type error.\<close>

fun embed :: "jsval \<Rightarrow> tval" where
  "embed Undefined = TUndefined"
| "embed Null = TNull"
| "embed (Bool b) = TBool b"
| "embed (Num n) = TNum n"
| "embed (Str s) = TStr s"
| "embed (Arr vs) = TInline (TArray (map embed vs))"
| "embed (Obj kvs) = TInline (TObject (map (\<lambda>kv. (fst kv, embed (snd kv))) kvs))"

definition type_error :: "trace_env \<Rightarrow> tval" where
  "type_error en = TInline (TError (TStr ''TypeError'') (TStr (tx_type_error en)))"

definition seq_key :: "string option \<Rightarrow> string" where
  "seq_key convId = (case convId of Some c \<Rightarrow> c | None \<Rightarrow> ''_'')"

definition nextSequence :: "string option \<Rightarrow> trace \<Rightarrow> nat \<times> trace" where
  "nextSequence convId s =
     (let n = count_of (seq_key convId) (tr_seqs s) + 1 in (n, s\<lparr>tr_seqs := AList.update (seq_key convId) n (tr_seqs s)\<rparr>))"

definition tool_event :: "trace_env \<Rightarrow> string option \<Rightarrow> string \<Rightarrow> string \<Rightarrow> nat \<Rightarrow> (string \<times> tval) list \<Rightarrow> TraceEvent" where
  "tool_event en convId corr kind n payload =
     \<lparr>tv_event_id = newEventId en, tv_conv_id = convId, tv_correlation_id = Some corr, tv_kind = kind, tv_seq = Some n, tv_now = tx_now en,
      tv_payload = TInline (TObject payload)\<rparr>"

text \<open>
  The number is taken before the value is scrubbed; a type error of the scrubbing leaves the
  function.  The result is whether the event was built.
\<close>

definition tool_trace :: "trace_env \<Rightarrow> string option \<Rightarrow> string \<Rightarrow> string \<Rightarrow> (string \<times> tval) list \<Rightarrow> string \<Rightarrow> tval \<Rightarrow> trace \<Rightarrow> bool \<times> trace" where
  "tool_trace en convId corr kind fixed key v s =
     (let (n, s1) = nextSequence convId s
      in case scrubTraceValue (tx_heap en) v of
           None \<Rightarrow> (False, s1)
         | Some w \<Rightarrow> (True, appendTraceEvent en (tool_event en convId corr kind n (fixed @ [(key, embed w)])) s1))"

definition timed :: "string \<Rightarrow> nat \<Rightarrow> nat \<Rightarrow> (string \<times> tval) list" where
  "timed tool start now = [(''tool'', TStr tool), (''duration_ms'', TNum (Fin (of_int (int now - int start))))]"

type_synonym tool_outcome = "tval + tval"

definition dispatch_failed :: "trace_env \<Rightarrow> string \<Rightarrow> string option \<Rightarrow> string \<Rightarrow> nat \<Rightarrow> tval \<Rightarrow> trace \<Rightarrow> tool_outcome \<times> trace" where
  "dispatch_failed en tool convId corr start e s =
     (case tool_trace en convId corr ''desktop.tool.error'' (timed tool start (tx_now en)) ''error'' e s of
        (built, s') \<Rightarrow> (Inl (if built then e else type_error en), s'))"

definition dispatch_end :: "trace_env \<Rightarrow> string \<Rightarrow> string option \<Rightarrow> string \<Rightarrow> nat \<Rightarrow> tool_outcome \<Rightarrow> trace \<Rightarrow> tool_outcome \<times> trace" where
  "dispatch_end en tool convId corr start out s =
     (case out of
        Inr v \<Rightarrow>
          (case tool_trace en convId corr ''desktop.tool.end'' (timed tool start (tx_now en)) ''result'' v s of
             (True, s') \<Rightarrow> (Inr v, s')
           | (False, s') \<Rightarrow> dispatch_failed en tool convId corr start (type_error en) s')
      | Inl e \<Rightarrow> dispatch_failed en tool convId corr start e s)"

text \<open>
  \<open>fn\<close> is the call: what it returns and what else happens to the collector while it runs;
  \<open>en'\<close> is the environment when it has returned.
\<close>

definition wrapDispatch ::
  "trace_env \<Rightarrow> trace_env \<Rightarrow> string \<Rightarrow> tval \<Rightarrow> (trace \<Rightarrow> tool_outcome \<times> trace) \<Rightarrow> string option \<Rightarrow> trace \<Rightarrow> tool_outcome \<times> trace" where
  "wrapDispatch en en' tool args fn convId s =
     (if \<not> tx_enabled en then fn s
      else case tool_trace en convId (tx_uuid en) ''desktop.tool.start'' [(''tool'', TStr tool)] ''args'' args s of
             (False, s1) \<Rightarrow> (Inl (type_error en), s1)
           | (True, s1) \<Rightarrow> (case fn s1 of (out, s2) \<Rightarrow> dispatch_end en' tool convId (tx_uuid en) (tx_now en) out s2))"

end
