(* ===== verification/Spec2Isabelle.thy ===== *)
theory Spec2Isabelle
  imports NavigationPolicy CcConfig CcStream CcSession ChatRuns RuntimeProps KnownHostsProps AuthProps Artifacts ConnectionStore ToastStore SettingsStore DemoReply AgentProps HealthProps TraceProps
begin

text \<open>
  \<^bold>\<open>The desktop application of the agent workflow platform.\<close>

  The program is an Electron application (\<open>apps/desktop\<close>): a privileged main process
  (\<open>electron/\<close>) that starts and supervises a local Agent CLI, keeps its executable up to
  date, guards navigation and owns the private files; and a renderer (\<open>src/\<close>) whose Pinia
  stores hold the conversations and talk to the main process over IPC and to the cloud over
  HTTP.  Beside it the repository has a local demo control plane the renderer can talk to
  (\<open>scripts/demo-control-plane.mjs\<close>) and a reference Agent CLI the main process can start
  (\<open>examples/openai-compatible-agent-cli\<close>).  This development models the parts that carry the
  program's own logic.

  \<^bold>\<open>Layout.\<close>  Each part has the definitions that translate its source, in the order of the
  source and under its names, and the theorems about them.

  \<^item> \<open>Prelude\<close>: JavaScript values, numbers, strings, \<open>node:path\<close> on POSIX, objects with string
    values, and the locales \<open>step_invariant\<close> and \<open>step_preorder\<close> that every state machine
    below interprets.  \<open>Json\<close> and \<open>JsonPretty\<close>: \<open>JSON.parse\<close>, \<open>JSON.stringify\<close> and the proof
    that parsing undoes printing; \<open>Number(text)\<close>.
  \<^item> \<open>NavigationPolicy\<close> (\<open>electron/security/navigation-policy.ts\<close>): the strict URL filter, the
    decisions for top-level navigation and \<open>window.open\<close>, and the guards.  Proved: exactly when
    navigation is allowed, and that the only side effects are safe ones.
  \<^item> \<open>CcConfig\<close> (\<open>electron/cc/cc-wrapper.ts\<close>, \<open>mcp-config-renderer.ts\<close>): the executable, the
    arguments and the environment of the Agent CLI and its MCP configuration.
  \<^item> \<open>CcStream\<close> (\<open>cc-wrapper.ts\<close>): line framing of the child's output and the translation of
    its events.  Proved: independence of the chunking, the bound on the buffer, what closes a
    turn.
  \<^item> \<open>CcSession\<close> (\<open>cc-wrapper.ts\<close>): the registry of sessions, start, send, stop and the handlers
    of the child process, cut at every await.  Invariants over all interleavings, and two runs
    in which the code does not do what it means to.
  \<^item> \<open>ChatState\<close>, \<open>ChatStream\<close>, \<open>ChatTurns\<close>, \<open>ChatProps\<close>, \<open>ChatSwitch\<close>, \<open>ChatStorage\<close>, \<open>ChatRuns\<close>
    (\<open>src/stores/chat.ts\<close>): threads as objects in a heap, the routing of chunks to the active
    and the background threads, sending over the local CLI and over HTTP, switching, deleting
    and persisting threads.
  \<^item> \<open>Fs\<close>, \<open>Io\<close>, \<open>RuntimeManifest\<close>, \<open>RuntimeUpdater\<close>, \<open>RuntimeSafety\<close>, \<open>RuntimeProps\<close>
    (\<open>electron/cc/cc-runtime-updater.ts\<close>): the signed manifest, download, installation,
    promotion, verification and pruning of the managed executable on a file system.  \<open>Io\<close> holds
    the computations that read and change a state and may throw, with their triples.
  \<^item> \<open>PrivateStorage\<close>, \<open>PrivateLaws\<close>, \<open>PrivateOps\<close>, \<open>PrivateReplace\<close>
    (\<open>electron/utils/private-storage.ts\<close>, \<open>canonical-path.ts\<close>): the hardened private files on a
    disk with inodes, owners, modes and links that other processes may change between any two
    system calls.
  \<^item> \<open>KnownHosts\<close>, \<open>KnownHostsLaws\<close>, \<open>KnownHostsProps\<close> (\<open>electron/bridge/ssh-known-hosts.ts\<close>):
    trust on first use.  The locale \<open>private_file\<close> is the contract of a private file; its
    interpretation on the private storage gives the refinement of trust on first use on a map.
  \<^item> \<open>ServiceUrl\<close>, \<open>ApiClient\<close>, \<open>ApiProps\<close> (\<open>src/api/client.ts\<close>, \<open>authStaleCoordinator.ts\<close>,
    \<open>demo-auth.ts\<close>, \<open>buildCommonHeaders.ts\<close>, \<open>src/utils/service-base-url.ts\<close>): the HTTP client
    with its retries and the handling of rejected tokens, under every interleaving.
  \<^item> \<open>Sse\<close>, \<open>SseProps\<close> (\<open>src/api/sse.ts\<close>): one event stream as a state machine over fetch, reads,
    timers and close, and the reconnecting stream around it.  Proved: independence of the chunking, the
    bounds of buffer and timers, the bound on reconnections.
  \<^item> \<open>ActivityStore\<close>, \<open>ActivityProps\<close>, \<open>Artifacts\<close>, \<open>ConnectionStore\<close>, \<open>AuthStore\<close>, \<open>AuthProps\<close>,
    \<open>ToastStore\<close>, \<open>SettingsStore\<close> (the stores of \<open>src/stores/\<close> under the same names): every action, cut
    at its awaits.  Proved among others: no token in plain storage and well-typed settings whatever
    was stored; and the runs in which a store does not do what it means to.
  \<^item> \<open>DemoServer\<close>, \<open>DemoState\<close>, \<open>DemoStore\<close>, \<open>DemoProps\<close>, \<open>DemoReply\<close>
    (\<open>scripts/demo-control-plane.mjs\<close>): the gate in front of the routes, the validation of the stored
    state, the handlers and the reply stream.  The locale \<open>mutator\<close> is the contract of a handler that
    changes the state.  Proved: what the server saves it can always load, uploads can be downloaded,
    every handler is behind the gate, and the client of \<open>ApiClient\<close> and \<open>Sse\<close> reads its replies.
  \<^item> \<open>AgentCli\<close>, \<open>AgentTurn\<close>, \<open>AgentProps\<close> (\<open>awp-agent-cli.mjs\<close>): configuration, session file, the stream of
    the provider, managed tasks and the input loop.  Proved: the parser of \<open>CcStream\<close> sees each
    turn end exactly once, the session resumes, the stream is read independently of its chunks.
  \<^item> \<open>ConnectionHealth\<close>, \<open>HealthProps\<close> (\<open>electron/services/connection-health.ts\<close>): polling, the
    compatibility stream, start and stop, under every interleaving.  Proved: requests go to vetted
    endpoints of a configured target only, and exactly which request a stopped monitor still sends.
  \<^item> \<open>TraceCollector\<close>, \<open>TraceProps\<close> (\<open>electron/services/trace-collector.ts\<close>): scrubbing of strings and of
    object graphs, the event line, the rotation of the files and the wrapper of tool calls.  Proved: what
    is kept is a bounded tree without the values of sensitive keys, the files stay bounded, and
    when a traced call keeps its outcome.

  \<^bold>\<open>Limits of the model.\<close>  Strings are Latin-1 and texts are already decoded; numbers are
  rationals, infinities and NaN, so rounding of doubles is not modelled; paths are POSIX paths.
  The order of integer-like keys of an object is not modelled.  The WHATWG URL parser, hashing
  and signatures, the network, UTF-8 decoding, random names, rename faults and translations are
  parameters; what a theorem needs of them is a named hypothesis.  The updater runs one at a
  time with one random identifier per run.  \<open>Fs\<close> follows one link per lookup; \<open>PrivateStorage\<close>
  walks a path link by link, at most \<open>SYMLOOP_MAX\<close> links, as the system does.  Loops of the code
  with a fixed bound keep it (eight attempts of a promotion, four of a rename, four of a
  request); every other loop is a total function.  Log lines are left out.

  \<^bold>\<open>Not modelled.\<close>  Vue components, views and the router (presentation); window creation, preload
  and IPC registration (glue around the parts above); the SSH bridge, the connectivity check, the auto
  updater, the IDE server and the cloud MCP client (wrappers of packages that are not part of the
  repository); the encoding of attachments for the Agent CLI (their blocks are an argument of sending);
  the admin console (a separate application).
\<close>

end
